(* ===== verification/Prelude.thy ===== *)
theory Prelude
  imports Main "HOL-Library.Word"
begin

text \<open>
  The vocabulary every component shares.

  \<^item> \<open>time\<close>: Go's \<open>time.Time\<close> as nanoseconds since the Unix epoch, \<open>unix_milli\<close> and
    \<open>of_milli\<close> the conversions the repositories use on the way to and from SQLite.
  \<^item> Lemmas on \<open>list_update\<close>, \<open>list_all\<close> and \<open>find\<close> that the component proofs use.
  \<^item> The fact collections \<open>engine_simps\<close> (one step of the operation engine) and
    \<open>table_simps\<close> (one SQL statement on a table), filled by the theories that follow.
\<close>

named_theorems engine_simps "one-step facts of the operation engine"
named_theorems table_simps "facts about single SQL statements on a table"

section \<open>Time\<close>

type_synonym time = int

definition zero_time :: time where
  "zero_time = - 62135596800000000000"

definition unix_milli :: "time \<Rightarrow> int" where
  "unix_milli t = t div 1000000"

definition of_milli :: "int \<Rightarrow> time" where
  "of_milli ms = ms * 1000000"

abbreviation (input) nanosecond :: int where "nanosecond \<equiv> 1"
abbreviation (input) second :: int where "second \<equiv> 1000000000"
abbreviation (input) minute :: int where "minute \<equiv> 60000000000"
abbreviation (input) hour :: int where "hour \<equiv> 3600000000000"

lemma unix_milli_of_milli [simp]: "unix_milli (of_milli ms) = ms"
  by (simp add: unix_milli_def of_milli_def)

lemma of_milli_unix_milli_le: "of_milli (unix_milli t) \<le> t"
  by (simp add: unix_milli_def of_milli_def)

lemma unix_milli_mono: "s \<le> t \<Longrightarrow> unix_milli s \<le> unix_milli t"
  by (simp add: unix_milli_def zdiv_mono1)

section \<open>Lists\<close>

lemma nth_list_update_other [simp]: "i \<noteq> j \<Longrightarrow> (xs[i := x]) ! j = xs ! j"
  by simp

lemma list_all_nth_iff: "list_all P xs \<longleftrightarrow> (\<forall>i < length xs. P (xs ! i))"
  by (simp add: list_all_length)

lemma list_all_updateI:
  "list_all P xs \<Longrightarrow> P y \<Longrightarrow> list_all P (xs[i := y])"
  by (auto simp: list_all_iff dest: set_update_subset_insert [THEN subsetD])

lemma find_None_filter: "find P xs = None \<longleftrightarrow> filter P xs = []"
  by (auto simp: find_None_iff filter_empty_conv)

lemma find_SomeD: "find P xs = Some x \<Longrightarrow> x \<in> set xs \<and> P x"
  by (auto simp: find_Some_iff)

section \<open>Words\<close>

lemma unat_drop: "unat (drop_bit m (w :: 'a::len word)) = unat w div 2 ^ m"
proof -
  have "take_bit LENGTH('a) (unat w) = unat w" by (simp add: take_bit_nat_eq_self)
  then show ?thesis by (simp only: unsigned_drop_bit_eq drop_bit_eq_div [where ?'a = nat])
qed

section \<open>Results\<close>

text \<open>
  A fallible call returns a sum, the error on the left. \<open>bind_r\<close> is the source's
  \<open>if err != nil { return err }\<close>, \<open>check\<close> its guard clauses.
\<close>

definition bind_r :: "'e + 'a \<Rightarrow> ('a \<Rightarrow> 'e + 'b) \<Rightarrow> 'e + 'b" where
  "bind_r m f = (case m of Inl e \<Rightarrow> Inl e | Inr x \<Rightarrow> f x)"

definition check :: "bool \<Rightarrow> 'e \<Rightarrow> 'e + unit" where
  "check b e = (if b then Inr () else Inl e)"

lemma bind_r_simps [simp]: "bind_r (Inl e) f = Inl e" "bind_r (Inr x) f = f x"
  by (simp_all add: bind_r_def)

lemma bind_r_InrE:
  assumes "bind_r m f = Inr y" obtains x where "m = Inr x" and "f x = Inr y"
  using assms by (cases m) auto

lemma bind_r_eq_Inr [simp]: "bind_r m f = Inr y \<longleftrightarrow> (\<exists>x. m = Inr x \<and> f x = Inr y)"
  by (cases m) auto

lemma check_eq_Inr [simp]: "check b e = Inr u \<longleftrightarrow> b"
  by (simp add: check_def)

lemma bind_check [simp]: "bind_r (check b e) f = (if b then f () else Inl e)"
  by (simp add: check_def)

fun map_r :: "('a \<Rightarrow> 'e + 'b) \<Rightarrow> 'a list \<Rightarrow> 'e + 'b list" where
  "map_r f [] = Inr []"
| "map_r f (x # xs) = bind_r (f x) (\<lambda>y. bind_r (map_r f xs) (\<lambda>ys. Inr (y # ys)))"

fun fold_r :: "('a \<Rightarrow> 's \<Rightarrow> 'e + 's) \<Rightarrow> 'a list \<Rightarrow> 's \<Rightarrow> 'e + 's" where
  "fold_r f [] s = Inr s"
| "fold_r f (x # xs) s = bind_r (f x s) (fold_r f xs)"

lemma map_r_Inr_iff: "map_r f xs = Inr ys \<longleftrightarrow> list_all2 (\<lambda>x y. f x = Inr y) xs ys"
  by (induction xs arbitrary: ys) (auto simp: list_all2_Cons1)

lemma map_r_mem: "map_r f xs = Inr ys \<Longrightarrow> x \<in> set xs \<Longrightarrow> \<exists>y \<in> set ys. f x = Inr y"
  by (induction xs arbitrary: ys) auto

lemma map_r_mem2: "map_r f xs = Inr ys \<Longrightarrow> y \<in> set ys \<Longrightarrow> \<exists>x \<in> set xs. f x = Inr y"
  by (induction xs arbitrary: ys) auto

lemma fold_r_invariant:
  "fold_r f xs s = Inr s' \<Longrightarrow> P s \<Longrightarrow> (\<And>x s s'. x \<in> set xs \<Longrightarrow> f x s = Inr s' \<Longrightarrow> P s \<Longrightarrow> P s') \<Longrightarrow> P s'"
proof (induction xs arbitrary: s)
  case (Cons x xs)
  from Cons.prems(1) obtain s1 where s1: "f x s = Inr s1" "fold_r f xs s1 = Inr s'"
    by (auto elim: bind_r_InrE)
  have "P s1" using Cons.prems(3) [OF _ s1(1) Cons.prems(2)] by simp
  with Cons.IH [OF s1(2)] Cons.prems(3) show ?case by (meson list.set_intros(2))
qed simp

lemma not_isl_Inr: "\<not> isl (fst p) \<Longrightarrow> \<exists>r db. p = (Inr r, db)"
  by (cases p; cases "fst p") auto

section \<open>Rows of a table\<close>

text \<open>
  A table is the list of its rows. \<open>update_rows\<close> is \<open>UPDATE ... WHERE\<close>, \<open>affected\<close> the
  value of \<open>RowsAffected\<close>, \<open>key_fresh\<close> a \<open>UNIQUE\<close> or \<open>PRIMARY KEY\<close> constraint at an insert.
\<close>

definition update_rows :: "('r \<Rightarrow> bool) \<Rightarrow> ('r \<Rightarrow> 'r) \<Rightarrow> 'r list \<Rightarrow> 'r list" where
  "update_rows P f t = map (\<lambda>r. if P r then f r else r) t"

definition affected :: "('r \<Rightarrow> bool) \<Rightarrow> 'r list \<Rightarrow> nat" where
  "affected P t = length (filter P t)"

definition key_fresh :: "('r \<Rightarrow> 'k) \<Rightarrow> 'k \<Rightarrow> 'r list \<Rightarrow> bool" where
  "key_fresh key k t \<longleftrightarrow> k \<notin> key ` set t"

definition keyed :: "('r \<Rightarrow> 'k) \<Rightarrow> 'r list \<Rightarrow> bool" where
  "keyed key t \<longleftrightarrow> distinct (map key t)"

lemma update_rows_simps [table_simps]:
  "update_rows P f [] = []"
  "update_rows P f (r # t) = (if P r then f r else r) # update_rows P f t"
  by (simp_all add: update_rows_def)

lemma length_update_rows [simp]: "length (update_rows P f t) = length t"
  by (simp add: update_rows_def)

lemma map_update_rows:
  "(\<And>r. P r \<Longrightarrow> g (f r) = g r) \<Longrightarrow> map g (update_rows P f t) = map g t"
  by (auto simp: update_rows_def)

lemma set_update_rows: "set (update_rows P f t) = f ` {r \<in> set t. P r} \<union> {r \<in> set t. \<not> P r}"
  by (auto simp: update_rows_def)

lemma in_update_rows: "r \<in> set t \<Longrightarrow> (if P r then f r else r) \<in> set (update_rows P f t)"
  by (auto simp: update_rows_def)

lemma keyed_update [intro]: "(\<And>r. P r \<Longrightarrow> key (f r) = key r) \<Longrightarrow> keyed key t \<Longrightarrow> keyed key (update_rows P f t)"
  by (simp add: keyed_def map_update_rows)

lemma keyed_insert [intro]: "keyed key t \<Longrightarrow> key_fresh key (key r) t \<Longrightarrow> keyed key (t @ [r])"
  by (auto simp: keyed_def key_fresh_def)

lemma keyed_filter [intro]: "keyed key t \<Longrightarrow> keyed key (filter P t)"
  by (simp add: keyed_def distinct_map_filter)

lemma keyed_find:
  "keyed key t \<Longrightarrow> r \<in> set t \<Longrightarrow> key r = k \<Longrightarrow> find (\<lambda>x. key x = k) t = Some r"
proof (induction t)
  case (Cons x t)
  then show ?case by (cases "key x = k") (auto simp: keyed_def rev_image_eqI)
qed simp

lemma find_update_rows:
  assumes "\<And>r. P r \<Longrightarrow> key (f r) = key r"
  shows "find (\<lambda>x. key x = k) (update_rows P f t) =
    map_option (\<lambda>r. if P r then f r else r) (find (\<lambda>x. key x = k) t)"
  using assms by (induction t) (auto simp: update_rows_def)

lemma keyed_affected:
  assumes "keyed key t" and "affected (\<lambda>r. key r = k \<and> Q r) t = Suc 0"
  obtains r where "find (\<lambda>x. key x = k) t = Some r" and "Q r" and "key r = k"
proof -
  from assms(2) obtain r where "filter (\<lambda>r. key r = k \<and> Q r) t = [r]"
    by (auto simp: affected_def length_Suc_conv)
  then have "r \<in> set (filter (\<lambda>r. key r = k \<and> Q r) t)" by simp
  then have r: "r \<in> set t" "key r = k" "Q r" by auto
  with keyed_find [OF assms(1) r(1,2)] that show thesis by blast
qed

lemma keyed_find_where:
  "keyed key t \<Longrightarrow> r \<in> set t \<Longrightarrow> key r = k \<Longrightarrow> R r \<Longrightarrow> find (\<lambda>x. key x = k \<and> R x) t = Some r"
proof (induction t)
  case (Cons x t)
  then show ?case by (cases "key x = k") (auto simp: keyed_def rev_image_eqI)
qed simp

lemma keyed_eq: "keyed key t \<Longrightarrow> r \<in> set t \<Longrightarrow> s \<in> set t \<Longrightarrow> key r = key s \<Longrightarrow> r = s"
  by (auto simp: keyed_def distinct_map dest: inj_onD)

lemma find_append_fresh: "\<forall>x \<in> set t. \<not> P x \<Longrightarrow> P r \<Longrightarrow> find P (t @ [r]) = Some r"
  by (induction t) auto

lemma find_update_rows_none:
  "(\<And>r. P r \<Longrightarrow> \<not> Q (f r)) \<Longrightarrow> (\<And>r. Q r \<Longrightarrow> P r) \<Longrightarrow> find Q (update_rows P f t) = None"
  by (induction t) (auto simp: update_rows_def)

lemma keyed_affected_one:
  "keyed key t \<Longrightarrow> r \<in> set t \<Longrightarrow> key r = k \<Longrightarrow> R r \<Longrightarrow> affected (\<lambda>x. key x = k \<and> R x) t = Suc 0"
proof (induction t)
  case (Cons x t)
  show ?case
  proof (cases "key x = k")
    case True
    with Cons.prems have "x = r" by (auto intro: keyed_eq)
    moreover have "filter (\<lambda>x. key x = k \<and> R x) t = []"
    proof (rule filter_False, rule ballI)
      fix y assume "y \<in> set t"
      then have "key y \<in> key ` set t" by (rule imageI)
      with True Cons.prems(1) show "\<not> (key y = k \<and> R y)" by (auto simp: keyed_def)
    qed
    ultimately show ?thesis using Cons.prems by (simp add: affected_def)
  next
    case False
    with Cons show ?thesis by (auto simp: affected_def keyed_def)
  qed
qed simp

lemma update_rows_cong: "(\<And>r. r \<in> set t \<Longrightarrow> P r = Q r \<and> (P r \<longrightarrow> f r = g r)) \<Longrightarrow> update_rows P f t = update_rows Q g t"
  by (simp add: update_rows_def)

lemma update_rows_twice:
  "(\<And>r. P r \<Longrightarrow> Q (f r)) \<Longrightarrow> (\<And>r. \<not> P r \<Longrightarrow> \<not> Q r) \<Longrightarrow> update_rows Q g (update_rows P f t) = update_rows P (\<lambda>r. g (f r)) t"
  by (auto simp: update_rows_def)

end
