(* ===== verification/OperationEngine.thy ===== *)
theory OperationEngine
  imports Prelude
begin

text \<open>
  \<^verbatim>\<open>src/internal/agent/operation/engine.go\<close>: the durable operation engine.

  The engine drives one operation record through its life cycle. It talks to a journal
  (the database) and to a list of effects (host adapters). Both are arguments of the
  model: a \<open>journal\<close> is a record of two functions on an abstract durable state \<open>'j\<close>,
  an \<open>effect\<close> a record of functions on an abstract host state \<open>'h\<close>. A call that
  returns a Go \<open>error\<close> returns \<open>op_error option\<close>, with \<open>None\<close> for \<open>nil\<close>.
  Cancellation and deadlines reach the engine only through the errors its adapters
  return, so the context argument is not modelled.
\<close>

section \<open>States, records and their transition tables\<close>

datatype op_state =
    StatePending | StateValidated | StateSnapshotted | StateExecuting | StateVerifying
  | StateCommitted | StateRollingBack | StateRolledBack | StateRollbackFailed
  | StateRejected | StateExpired

datatype step_state =
    StepPending | StepExecuting | StepApplied | StepFailed | StepRollingBack | StepRolledBack

record failure =
  fail_code :: string
  fail_message :: string

record step_record =
  step_id :: string
  step_order :: int
  step_name :: string
  step_kind :: string
  step_state :: step_state
  original_fp :: string
  proposed_fp :: string
  step_error :: string

record op_record =
  op_id :: string
  op_interface_id :: string
  op_type :: string
  op_state :: op_state
  expected_revision :: "int option"
  proposed_diff_json :: string
  op_error_code :: string
  op_error_message :: string
  op_created_at :: time
  op_updated_at :: time
  op_finished_at :: time
  op_steps :: "step_record list"

datatype op_error =
    DeadlineExceeded
  | Canceled
  | AdapterError string
  | EngineError string
  | WrapError string op_error
  | JoinError op_error op_error

fun error_is :: "op_error \<Rightarrow> op_error \<Rightarrow> bool" where
  "error_is (WrapError m e) target = error_is e target"
| "error_is (JoinError a b) target = (error_is a target \<or> error_is b target)"
| "error_is e target = (e = target)"

fun valid_operation_transition :: "op_state \<Rightarrow> op_state \<Rightarrow> bool" where
  "valid_operation_transition StatePending to =
     (to \<in> {StateValidated, StateRejected, StateExpired})"
| "valid_operation_transition StateValidated to =
     (to \<in> {StateSnapshotted, StateRejected})"
| "valid_operation_transition StateSnapshotted to =
     (to \<in> {StateExecuting, StateRollingBack})"
| "valid_operation_transition StateExecuting to =
     (to \<in> {StateVerifying, StateRollingBack})"
| "valid_operation_transition StateVerifying to =
     (to \<in> {StateCommitted, StateRollingBack})"
| "valid_operation_transition StateRollingBack to =
     (to \<in> {StateRolledBack, StateRollbackFailed})"
| "valid_operation_transition _ to = False"

fun valid_step_transition :: "step_state \<Rightarrow> step_state \<Rightarrow> bool" where
  "valid_step_transition StepPending to = (to = StepExecuting)"
| "valid_step_transition StepExecuting to =
     (to \<in> {StepApplied, StepFailed, StepRollingBack})"
| "valid_step_transition StepFailed to = (to \<in> {StepExecuting, StepRollingBack})"
| "valid_step_transition StepApplied to = (to = StepRollingBack)"
| "valid_step_transition StepRollingBack to = (to = StepRolledBack)"
| "valid_step_transition StepRolledBack to = False"

definition is_terminal :: "op_state \<Rightarrow> bool" where
  "is_terminal s \<longleftrightarrow> s = StateCommitted \<or> s = StateRolledBack \<or>
     s = StateRollbackFailed \<or> s = StateRejected \<or> s = StateExpired"

definition preview_expired :: "time \<Rightarrow> time \<Rightarrow> bool" where
  "preview_expired expires_at now \<longleftrightarrow> expires_at = zero_time \<or> \<not> expires_at > now"

definition safe_failure :: "string \<Rightarrow> op_error \<Rightarrow> failure" where
  "safe_failure code err =
     \<lparr>fail_code = code,
      fail_message =
        (if error_is err DeadlineExceeded then ''operation deadline exceeded''
         else if error_is err Canceled then ''operation canceled''
         else ''operation step failed'')\<rparr>"

section \<open>Journal, effects and the engine's state\<close>

record 'j journal =
  trans_op :: "string \<Rightarrow> op_state \<Rightarrow> op_state \<Rightarrow> failure option \<Rightarrow> 'j \<Rightarrow> op_error option \<times> 'j"
  trans_step :: "string \<Rightarrow> step_state \<Rightarrow> step_state \<Rightarrow> failure option \<Rightarrow> 'j \<Rightarrow> op_error option \<times> 'j"

record 'h effect =
  eff_name :: string
  eff_inspect :: "'h \<Rightarrow> (op_error + string) \<times> 'h"
  eff_apply :: "'h \<Rightarrow> op_error option \<times> 'h"
  eff_rollback :: "'h \<Rightarrow> op_error option \<times> 'h"
  eff_idempotent :: bool

type_synonym 'h verify_func = "'h \<Rightarrow> op_error option \<times> 'h"

text \<open>What a call of the engine changes: the in-memory record, the journal and the host.\<close>

record ('j, 'h) engine_state =
  es_rec :: op_record
  es_jrn :: 'j
  es_host :: 'h

abbreviation cur_state :: "('j, 'h) engine_state \<Rightarrow> op_state" where
  "cur_state s \<equiv> op_state (es_rec s)"

abbreviation cur_steps :: "('j, 'h) engine_state \<Rightarrow> step_record list" where
  "cur_steps s \<equiv> op_steps (es_rec s)"

definition set_op_state :: "op_state \<Rightarrow> ('j, 'h) engine_state \<Rightarrow> ('j, 'h) engine_state" where
  "set_op_state st s = s\<lparr>es_rec := (es_rec s)\<lparr>op_state := st\<rparr>\<rparr>"

definition set_step_state :: "nat \<Rightarrow> step_state \<Rightarrow> ('j, 'h) engine_state \<Rightarrow> ('j, 'h) engine_state" where
  "set_step_state i st s =
     s\<lparr>es_rec := (es_rec s)\<lparr>op_steps := (cur_steps s)[i := (cur_steps s ! i)\<lparr>step_state := st\<rparr>]\<rparr>\<rparr>"

definition run_inspect :: "'h effect \<Rightarrow> ('j, 'h) engine_state \<Rightarrow> (op_error + string) \<times> ('j, 'h) engine_state" where
  "run_inspect e s = (case eff_inspect e (es_host s) of (r, h) \<Rightarrow> (r, s\<lparr>es_host := h\<rparr>))"

definition run_apply :: "'h effect \<Rightarrow> ('j, 'h) engine_state \<Rightarrow> op_error option \<times> ('j, 'h) engine_state" where
  "run_apply e s = (case eff_apply e (es_host s) of (r, h) \<Rightarrow> (r, s\<lparr>es_host := h\<rparr>))"

definition run_rollback :: "'h effect \<Rightarrow> ('j, 'h) engine_state \<Rightarrow> op_error option \<times> ('j, 'h) engine_state" where
  "run_rollback e s = (case eff_rollback e (es_host s) of (r, h) \<Rightarrow> (r, s\<lparr>es_host := h\<rparr>))"

definition run_verify :: "'h verify_func option \<Rightarrow> ('j, 'h) engine_state \<Rightarrow> op_error option \<times> ('j, 'h) engine_state" where
  "run_verify v s =
     (case v of None \<Rightarrow> (None, s)
      | Some f \<Rightarrow> (case f (es_host s) of (r, h) \<Rightarrow> (r, s\<lparr>es_host := h\<rparr>)))"

section \<open>Guarded transitions\<close>

definition operation_transition ::
  "'j journal \<Rightarrow> op_state \<Rightarrow> op_state \<Rightarrow> failure option \<Rightarrow> ('j, 'h) engine_state
     \<Rightarrow> op_error option \<times> ('j, 'h) engine_state" where
  "operation_transition J from to f s =
     (if cur_state s \<noteq> from then (Some (EngineError ''operation state changed''), s)
      else if \<not> valid_operation_transition from to
      then (Some (EngineError ''invalid operation transition''), s)
      else (case trans_op J (op_id (es_rec s)) from to f (es_jrn s) of
              (Some e, j) \<Rightarrow> (Some e, s\<lparr>es_jrn := j\<rparr>)
            | (None, j) \<Rightarrow> (None, set_op_state to (s\<lparr>es_jrn := j\<rparr>))))"

definition step_transition ::
  "'j journal \<Rightarrow> nat \<Rightarrow> step_state \<Rightarrow> step_state \<Rightarrow> failure option \<Rightarrow> ('j, 'h) engine_state
     \<Rightarrow> op_error option \<times> ('j, 'h) engine_state" where
  "step_transition J i from to f s =
     (if step_state (cur_steps s ! i) \<noteq> from then (Some (EngineError ''step state changed''), s)
      else if \<not> valid_step_transition from to
      then (Some (EngineError ''invalid step transition''), s)
      else (case trans_step J (step_id (cur_steps s ! i)) from to f (es_jrn s) of
              (Some e, j) \<Rightarrow> (Some e, s\<lparr>es_jrn := j\<rparr>)
            | (None, j) \<Rightarrow> (None, set_step_state i to (s\<lparr>es_jrn := j\<rparr>))))"

section \<open>Plan validation\<close>

fun steps_match :: "step_record list \<Rightarrow> 'h effect list \<Rightarrow> bool" where
  "steps_match (st # sts) (e # es) =
     (step_id st \<noteq> [] \<and> step_name st = eff_name e \<and> original_fp st \<noteq> [] \<and>
      proposed_fp st \<noteq> [] \<and> steps_match sts es)"
| "steps_match _ _ = True"

definition validate_plan :: "op_record \<Rightarrow> 'h effect list \<Rightarrow> op_error option" where
  "validate_plan r effs =
     (if op_id r = [] then Some (EngineError ''operation record is required'')
      else if length (op_steps r) \<noteq> length effs
      then Some (EngineError ''operation step/effect count mismatch'')
      else if \<not> steps_match (op_steps r) effs then Some (EngineError ''invalid operation step'')
      else if \<not> sorted (map step_order (op_steps r))
      then Some (EngineError ''operation steps are not ordered'')
      else None)"

section \<open>Rollback\<close>

definition finish_rolled_back :: "'j journal \<Rightarrow> ('j, 'h) engine_state \<Rightarrow> op_error option \<times> ('j, 'h) engine_state" where
  "finish_rolled_back J s = operation_transition J StateRollingBack StateRolledBack None s"

definition rollback_failed ::
  "'j journal \<Rightarrow> op_error \<Rightarrow> ('j, 'h) engine_state \<Rightarrow> op_error option \<times> ('j, 'h) engine_state" where
  "rollback_failed J cause s =
     (case operation_transition J StateRollingBack StateRollbackFailed
             (Some (safe_failure ''ROLLBACK_FAILED'' cause)) s of
        (Some e, s') \<Rightarrow> (Some (JoinError cause e), s')
      | (None, s') \<Rightarrow> (Some (WrapError ''rollback failed'' cause), s'))"

text \<open>
  Inspect the effect and, unless the original fingerprint is there already, undo it and
  inspect again.
\<close>

definition restore_effect ::
  "'h effect \<Rightarrow> string \<Rightarrow> ('j, 'h) engine_state \<Rightarrow> op_error option \<times> ('j, 'h) engine_state" where
  "restore_effect eff orig s =
     (case run_inspect eff s of
        (Inl e, s1) \<Rightarrow> (Some (WrapError ''inspect rollback step'' e), s1)
      | (Inr fp, s1) \<Rightarrow>
          (if fp = orig then (None, s1)
           else (case run_rollback eff s1 of
               (Some e, s2) \<Rightarrow> (Some (WrapError ''rollback step'' e), s2)
             | (None, s2) \<Rightarrow>
                 (case run_inspect eff s2 of
                    (Inl e, s3) \<Rightarrow> (Some (EngineError ''rollback verification failed''), s3)
                  | (Inr fp', s3) \<Rightarrow>
                      (if fp' \<noteq> orig then (Some (EngineError ''rollback verification failed''), s3)
                       else (None, s3))))))"

text \<open>
  The body of \<open>rollback\<close>'s loop for the step at index \<open>i\<close>: \<open>None\<close> continues the loop,
  \<open>Some e\<close> is the value the whole function returns.
\<close>

definition rollback_step ::
  "'j journal \<Rightarrow> nat \<Rightarrow> 'h effect \<Rightarrow> ('j, 'h) engine_state \<Rightarrow> op_error option \<times> ('j, 'h) engine_state" where
  "rollback_step J i eff s =
     (let st = step_state (cur_steps s ! i) in
      if st \<noteq> StepApplied \<and> st \<noteq> StepExecuting \<and> st \<noteq> StepFailed \<and> st \<noteq> StepRollingBack
      then (None, s)
      else (case (if st \<noteq> StepRollingBack then step_transition J i st StepRollingBack None s
                  else (None, s)) of
          (Some e, s1) \<Rightarrow> rollback_failed J e s1
        | (None, s1) \<Rightarrow>
            (case restore_effect eff (original_fp (cur_steps s1 ! i)) s1 of
               (Some e, s2) \<Rightarrow> rollback_failed J e s2
             | (None, s2) \<Rightarrow>
                 (case step_transition J i StepRollingBack StepRolledBack None s2 of
                    (Some e, s3) \<Rightarrow> rollback_failed J e s3
                  | (None, s3) \<Rightarrow> (None, s3)))))"

text \<open>The loop counts down from the last step; \<open>rollback_from n\<close> still has the steps below \<open>n\<close> to do.\<close>

fun rollback_from ::
  "'j journal \<Rightarrow> 'h effect list \<Rightarrow> nat \<Rightarrow> ('j, 'h) engine_state \<Rightarrow> op_error option \<times> ('j, 'h) engine_state" where
  "rollback_from J effs 0 s = finish_rolled_back J s"
| "rollback_from J effs (Suc i) s =
     (case rollback_step J i (effs ! i) s of
        (Some e, s') \<Rightarrow> (Some e, s')
      | (None, s') \<Rightarrow> rollback_from J effs i s')"

definition rollback ::
  "'j journal \<Rightarrow> 'h effect list \<Rightarrow> ('j, 'h) engine_state \<Rightarrow> op_error option \<times> ('j, 'h) engine_state" where
  "rollback J effs s = rollback_from J effs (length (cur_steps s)) s"

definition fail_and_rollback ::
  "'j journal \<Rightarrow> 'h effect list \<Rightarrow> op_error \<Rightarrow> ('j, 'h) engine_state \<Rightarrow> op_error option \<times> ('j, 'h) engine_state" where
  "fail_and_rollback J effs cause s =
     (if cur_state s \<in> {StateSnapshotted, StateExecuting, StateVerifying} then
        (case operation_transition J (cur_state s) StateRollingBack
                (Some (safe_failure ''OPERATION_FAILED'' cause)) s of
           (Some e, s1) \<Rightarrow> (Some (JoinError cause e), s1)
         | (None, s1) \<Rightarrow>
             (case rollback J effs s1 of
                (Some e, s2) \<Rightarrow> (Some (JoinError cause e), s2)
              | (None, s2) \<Rightarrow> (Some cause, s2)))
      else if cur_state s = StateRollingBack then
        (case rollback J effs s of
           (Some e, s2) \<Rightarrow> (Some (JoinError cause e), s2)
         | (None, s2) \<Rightarrow> (Some cause, s2))
      else (Some cause, s))"

section \<open>Applying steps\<close>

definition verify_step ::
  "'j journal \<Rightarrow> nat \<Rightarrow> 'h effect \<Rightarrow> ('j, 'h) engine_state \<Rightarrow> op_error option \<times> ('j, 'h) engine_state" where
  "verify_step J i eff s =
     (case run_inspect eff s of
        (Inl e, s1) \<Rightarrow>
          (Some (WrapError ''verify step'' e),
           snd (step_transition J i StepExecuting StepFailed
                  (Some (safe_failure ''STEP_VERIFY_FAILED'' e)) s1))
      | (Inr fp, s1) \<Rightarrow>
          (if fp \<noteq> proposed_fp (cur_steps s1 ! i) then
             (let err = EngineError ''proposed fingerprint not observed'' in
              (Some (WrapError ''verify step'' err),
               snd (step_transition J i StepExecuting StepFailed
                      (Some (safe_failure ''STEP_VERIFY_FAILED'' err)) s1)))
           else step_transition J i StepExecuting StepApplied None s1))"

definition apply_step ::
  "'j journal \<Rightarrow> nat \<Rightarrow> 'h effect \<Rightarrow> bool \<Rightarrow> ('j, 'h) engine_state \<Rightarrow> op_error option \<times> ('j, 'h) engine_state" where
  "apply_step J i eff recovery s =
     (if step_state (cur_steps s ! i) \<noteq> StepPending
      then (Some (EngineError ''step is not pending''), s)
      else (case step_transition J i StepPending StepExecuting None s of
          (Some e, s1) \<Rightarrow> (Some e, s1)
        | (None, s1) \<Rightarrow>
            (case run_inspect eff s1 of
               (Inl e, s2) \<Rightarrow>
                 (Some (WrapError ''inspect step'' e),
                  snd (step_transition J i StepExecuting StepFailed
                         (Some (safe_failure ''STEP_INSPECT_FAILED'' e)) s2))
             | (Inr fp, s2) \<Rightarrow>
                 (if fp = proposed_fp (cur_steps s2 ! i)
                  then step_transition J i StepExecuting StepApplied None s2
                  else if fp \<noteq> original_fp (cur_steps s2 ! i)
                  then (Some (EngineError ''step original fingerprint changed''), s2)
                  else if recovery \<and> \<not> eff_idempotent eff
                  then (Some (EngineError ''step cannot be safely retried''), s2)
                  else (case run_apply eff s2 of
                      (Some e, s3) \<Rightarrow>
                        (Some (WrapError ''apply step'' e),
                         snd (step_transition J i StepExecuting StepFailed
                                (Some (safe_failure ''STEP_APPLY_FAILED'' e)) s3))
                    | (None, s3) \<Rightarrow> verify_step J i eff s3)))))"

section \<open>Execute\<close>

text \<open>The loop over the steps, from index \<open>i\<close> for the remaining effects.\<close>

fun execute_steps ::
  "'j journal \<Rightarrow> 'h effect list \<Rightarrow> nat list \<Rightarrow> ('j, 'h) engine_state \<Rightarrow> op_error option \<times> ('j, 'h) engine_state" where
  "execute_steps J effs [] s = (None, s)"
| "execute_steps J effs (i # is) s =
     (case apply_step J i (effs ! i) False s of
        (Some e, s') \<Rightarrow> fail_and_rollback J effs e s'
      | (None, s') \<Rightarrow> execute_steps J effs is s')"

definition execute ::
  "'j journal \<Rightarrow> 'h effect list \<Rightarrow> 'h verify_func option \<Rightarrow> ('j, 'h) engine_state
     \<Rightarrow> op_error option \<times> ('j, 'h) engine_state" where
  "execute J effs verify s =
     (case validate_plan (es_rec s) effs of
        Some e \<Rightarrow> (Some e, s)
      | None \<Rightarrow>
        if cur_state s \<noteq> StateSnapshotted
        then (Some (EngineError ''operation must be snapshotted before execution''), s)
        else (case operation_transition J StateSnapshotted StateExecuting None s of
            (Some e, s1) \<Rightarrow> (Some e, s1)
          | (None, s1) \<Rightarrow>
              (case execute_steps J effs [0..<length (cur_steps s1)] s1 of
                 (Some e, s2) \<Rightarrow> (Some e, s2)
               | (None, s2) \<Rightarrow>
                   (case operation_transition J StateExecuting StateVerifying None s2 of
                      (Some e, s3) \<Rightarrow> fail_and_rollback J effs e s3
                    | (None, s3) \<Rightarrow>
                        (case run_verify verify s3 of
                           (Some e, s4) \<Rightarrow>
                             fail_and_rollback J effs (WrapError ''verify operation'' e) s4
                         | (None, s4) \<Rightarrow>
                             operation_transition J StateVerifying StateCommitted None s4)))))"

section \<open>Recover\<close>

definition recover_step ::
  "'j journal \<Rightarrow> 'h effect list \<Rightarrow> nat \<Rightarrow> ('j, 'h) engine_state \<Rightarrow> op_error option \<times> ('j, 'h) engine_state" where
  "recover_step J effs i s =
     (case step_state (cur_steps s ! i) of
        StepApplied \<Rightarrow> (None, s)
      | StepPending \<Rightarrow>
          (case apply_step J i (effs ! i) True s of
             (Some e, s1) \<Rightarrow> fail_and_rollback J effs e s1
           | (None, s1) \<Rightarrow> (None, s1))
      | StepRollingBack \<Rightarrow>
          fail_and_rollback J effs (EngineError ''step has invalid recovery state'') s
      | StepRolledBack \<Rightarrow>
          fail_and_rollback J effs (EngineError ''step has invalid recovery state'') s
      | st \<Rightarrow>
          (case run_inspect (effs ! i) s of
             (Inl e, s1) \<Rightarrow> fail_and_rollback J effs (WrapError ''inspect step'' e) s1
           | (Inr fp, s1) \<Rightarrow>
               (if fp = proposed_fp (cur_steps s1 ! i)
                then step_transition J i st StepApplied None s1
                else if fp = original_fp (cur_steps s1 ! i) \<and> eff_idempotent (effs ! i)
                then (case (if st = StepFailed then step_transition J i StepFailed StepExecuting None s1
                            else (None, s1)) of
                    (Some e, s2) \<Rightarrow> (Some e, s2)
                  | (None, s2) \<Rightarrow>
                      (case run_apply (effs ! i) s2 of
                         (Some e, s3) \<Rightarrow> fail_and_rollback J effs (WrapError ''retry step'' e) s3
                       | (None, s3) \<Rightarrow>
                           (case verify_step J i (effs ! i) s3 of
                              (Some e, s4) \<Rightarrow> fail_and_rollback J effs e s4
                            | (None, s4) \<Rightarrow> (None, s4))))
                else fail_and_rollback J effs (EngineError ''step is in an ambiguous external state'') s1)))"

fun recover_steps ::
  "'j journal \<Rightarrow> 'h effect list \<Rightarrow> nat list \<Rightarrow> ('j, 'h) engine_state \<Rightarrow> op_error option \<times> ('j, 'h) engine_state" where
  "recover_steps J effs [] s = (None, s)"
| "recover_steps J effs (i # is) s =
     (case recover_step J effs i s of
        (Some e, s') \<Rightarrow> (Some e, s')
      | (None, s') \<Rightarrow> recover_steps J effs is s')"

definition recover_executing ::
  "'j journal \<Rightarrow> 'h effect list \<Rightarrow> 'h verify_func option \<Rightarrow> ('j, 'h) engine_state
     \<Rightarrow> op_error option \<times> ('j, 'h) engine_state" where
  "recover_executing J effs verify s =
     (case (if cur_state s = StateSnapshotted
            then operation_transition J StateSnapshotted StateExecuting None s else (None, s)) of
        (Some e, s1) \<Rightarrow> (Some e, s1)
      | (None, s1) \<Rightarrow>
          (case recover_steps J effs [0..<length (cur_steps s1)] s1 of
             (Some e, s2) \<Rightarrow> (Some e, s2)
           | (None, s2) \<Rightarrow>
               (case operation_transition J StateExecuting StateVerifying None s2 of
                  (Some e, s3) \<Rightarrow> (Some e, s3)
                | (None, s3) \<Rightarrow>
                    (case run_verify verify s3 of
                       (Some e, s4) \<Rightarrow> fail_and_rollback J effs e s4
                     | (None, s4) \<Rightarrow>
                         operation_transition J StateVerifying StateCommitted None s4))))"

definition recover ::
  "'j journal \<Rightarrow> 'h effect list \<Rightarrow> 'h verify_func option \<Rightarrow> ('j, 'h) engine_state
     \<Rightarrow> op_error option \<times> ('j, 'h) engine_state" where
  "recover J effs verify s =
     (case validate_plan (es_rec s) effs of
        Some e \<Rightarrow> (Some e, s)
      | None \<Rightarrow>
        (case cur_state s of
           StatePending \<Rightarrow>
             operation_transition J StatePending StateExpired
               (Some \<lparr>fail_code = ''RECOVERY_EXPIRED'',
                      fail_message = ''pending preview expired during restart''\<rparr>) s
         | StateValidated \<Rightarrow>
             operation_transition J StateValidated StateRejected
               (Some \<lparr>fail_code = ''RECOVERY_REJECTED'',
                      fail_message = ''validated operation had no durable snapshot''\<rparr>) s
         | StateSnapshotted \<Rightarrow>
             (if list_ex (\<lambda>st. step_state st \<noteq> StepPending) (cur_steps s)
              then recover_executing J effs verify s
              else (case operation_transition J StateSnapshotted StateRollingBack None s of
                  (Some e, s1) \<Rightarrow> (Some e, s1)
                | (None, s1) \<Rightarrow> finish_rolled_back J s1))
         | StateExecuting \<Rightarrow> recover_executing J effs verify s
         | StateVerifying \<Rightarrow>
             (case run_verify verify s of
                (None, s1) \<Rightarrow> operation_transition J StateVerifying StateCommitted None s1
              | (Some e, s1) \<Rightarrow>
                  fail_and_rollback J effs (EngineError ''recovery verification failed'') s1)
         | StateRollingBack \<Rightarrow> rollback J effs s
         | StateRollbackFailed \<Rightarrow>
             (Some (EngineError ''operation remains blocked after rollback failure''), s)
         | _ \<Rightarrow> (None, s)))"

end
