(* ===== verification/AgentDb.thy ===== *)
theory AgentDb
  imports OperationEngine
begin

text \<open>
  The agent's database, \<^verbatim>\<open>src/migrations/agent/*.sql\<close>: one record per table with the
  columns the repository reads or writes, a table as the list of its rows in insertion
  order, a nullable column as an option. The constraints of the schema (primary keys,
  \<open>UNIQUE\<close>, \<open>CHECK\<close>, foreign keys and their \<open>ON DELETE\<close> actions) are checked by the insert and
  delete functions, as SQLite checks them. A failed constraint is \<open>SqlConstraint\<close>, a query
  without a row \<open>SqlNoRows\<close>, a NULL scanned into a Go string \<open>SqlScan\<close>. Failures of the
  storage itself (I/O, cancellation) are not modelled: they leave the database as it was.
  The column \<open>operations.snapshot_id\<close> is not here: it is written once and read nowhere, the
  snapshot of an operation is found by \<open>snapshots.operation_id\<close>.
\<close>

section \<open>Errors\<close>

datatype repo_error =
    SqlNoRows
  | SqlScan
  | SqlConstraint string
  | RepoError string
  | WrapRepo string repo_error
  | ErrUnavailable

section \<open>Rows\<close>

record iface_row =
  i_id :: string
  i_name :: string
  i_backend :: string
  i_namespace_kind :: string
  i_management_mode :: string
  i_config_path :: "string option"
  i_service_owner :: "string option"
  i_service_unit :: "string option"
  i_save_config_detected :: bool
  i_config_present :: bool
  i_runtime_present :: bool
  i_file_hash :: "string option"
  i_runtime_fingerprint :: "string option"
  i_last_applied_revision_id :: "string option"
  i_revision :: int
  i_drift_state :: string
  i_deployment_profile :: "string option"
  i_firewall_mode :: "string option"
  i_managed_firewall_backend :: "string option"
  i_listen_port :: "int option"
  i_public_key :: "string option"
  i_auto_start :: bool
  i_service_state :: string
  i_last_seen_at_ms :: int
  i_created_at_ms :: int
  i_updated_at_ms :: int

record iface_address_row =
  ia_id :: string
  ia_interface_id :: string
  ia_family :: int
  ia_address :: string
  ia_prefix_length :: int
  ia_source :: string

record pool_row =
  ap_id :: string
  ap_interface_id :: string
  ap_family :: int
  ap_cidr :: string
  ap_gateway_address :: string
  ap_created_at_ms :: int

record peer_row =
  p_id :: string
  p_interface_id :: string
  p_name :: string
  p_public_key :: string
  p_key_mode :: string
  p_lifecycle_state :: string
  p_config_revision_id :: "string option"
  p_archived_block_secret_id :: "string option"
  p_endpoint :: "string option"
  p_persistent_keepalive :: int
  p_observed_present :: bool
  p_last_seen_at_ms :: int
  p_created_at_ms :: int
  p_updated_at_ms :: int
  p_revoked_at_ms :: "int option"

record alloc_row =
  aa_id :: string
  aa_pool_id :: string
  aa_peer_id :: "string option"
  aa_address :: string
  aa_state :: string
  aa_quarantine_until_ms :: "int option"
  aa_created_at_ms :: int
  aa_updated_at_ms :: int

record allowed_row =
  pa_id :: string
  pa_peer_id :: string
  pa_cidr :: string
  pa_purpose :: string
  pa_created_at_ms :: int

record profile_row =
  cp_id :: string
  cp_peer_id :: string
  cp_profile_state :: string
  cp_client_private_secret_id :: "string option"
  cp_preshared_secret_id :: "string option"
  cp_endpoint_host :: "string option"
  cp_endpoint_port :: "int option"
  cp_mtu :: "int option"
  cp_dns_json :: string
  cp_created_at_ms :: int
  cp_updated_at_ms :: int

record route_row =
  cr_id :: string
  cr_profile_id :: string
  cr_cidr :: string

record envelope_row =
  se_id :: string
  se_owner_type :: string
  se_owner_id :: string
  se_purpose :: string
  se_algorithm :: string
  se_ciphertext :: string
  se_payload_nonce :: string
  se_wrapped_dek :: string
  se_wrap_nonce :: string
  se_key_version :: int
  se_aad_version :: int
  se_secret_fingerprint :: "string option"
  se_created_at_ms :: int
  se_updated_at_ms :: int

datatype artifact_state = ArtReady | ArtConsuming | ArtConsumed | ArtExpired

record artifact_row =
  oa_id :: string
  oa_peer_id :: string
  oa_secret_envelope_id :: "string option"
  oa_token_hash :: string
  oa_state :: artifact_state
  oa_expires_at_ms :: int
  oa_consumed_at_ms :: "int option"
  oa_created_at_ms :: int

record operation_row =
  o_id :: string
  o_interface_id :: "string option"
  o_type :: string
  o_state :: op_state
  o_plan_version :: int
  o_intent_json :: string
  o_idempotency_key :: string
  o_actor_id :: string
  o_actor_role :: string
  o_request_id :: string
  o_reason :: "string option"
  o_expected_revision :: "int option"
  o_original_file_hash :: "string option"
  o_proposed_file_hash :: "string option"
  o_original_runtime_hash :: "string option"
  o_proposed_diff_json :: "string option"
  o_error_code :: "string option"
  o_error_message :: "string option"
  o_expires_at_ms :: "int option"
  o_created_at_ms :: int
  o_updated_at_ms :: int
  o_finished_at_ms :: "int option"

record step_row =
  s_id :: string
  s_operation_id :: string
  s_order :: int
  s_name :: string
  s_state :: step_state
  s_effect_kind :: string
  s_original_fingerprint :: "string option"
  s_proposed_fingerprint :: "string option"
  s_started_at_ms :: "int option"
  s_finished_at_ms :: "int option"
  s_error :: "string option"

record snapshot_row =
  sn_id :: string
  sn_interface_id :: string
  sn_operation_id :: string
  sn_secret_envelope_id :: string
  sn_file_hash :: "string option"
  sn_runtime_fingerprint :: "string option"
  sn_created_at_ms :: int

record revision_row =
  rv_id :: string
  rv_interface_id :: string
  rv_sequence :: int
  rv_file_hash :: "string option"
  rv_runtime_fingerprint :: "string option"
  rv_operation_id :: "string option"
  rv_created_at_ms :: int

record audit_row =
  au_id :: string
  au_actor_type :: string
  au_actor_id :: string
  au_actor_role :: "string option"
  au_action :: string
  au_target_type :: string
  au_target_id :: "string option"
  au_request_id :: string
  au_operation_id :: "string option"
  au_before_revision :: "int option"
  au_after_revision :: "int option"
  au_result :: string
  au_reason :: "string option"
  au_details :: "string option"
  au_created_at_ms :: int

record resource_row =
  mr_id :: string
  mr_interface_id :: string
  mr_operation_id :: string
  mr_kind :: string
  mr_path :: "string option"
  mr_fingerprint :: "string option"
  mr_created_at_ms :: int

record staged_row =
  ss_operation_id :: string
  ss_secret_envelope_id :: string
  ss_peer_id :: string
  ss_profile_id :: "string option"
  ss_previous_secret_envelope_id :: "string option"
  ss_created_profile :: bool

record runtime_row =
  rt_peer_id :: string
  rt_endpoint :: "string option"
  rt_latest_handshake_at_ms :: int
  rt_transfer_rx_bytes :: int
  rt_transfer_tx_bytes :: int
  rt_runtime_seen_at_ms :: int
  rt_activity_state :: string

record ledger_row =
  al_operation_id :: string
  al_resource_kind :: string
  al_resource_id :: string
  al_previous_value :: "string option"

text \<open>\<open>system_state\<close> has one row: its columns are fields of the database, meaningful once \<open>db_gateway_id\<close> is there.\<close>

record agent_db =
  db_gateway_id :: "string option"
  db_interfaces :: "iface_row list"
  db_addresses :: "iface_address_row list"
  db_pools :: "pool_row list"
  db_peers :: "peer_row list"
  db_allocations :: "alloc_row list"
  db_allowed :: "allowed_row list"
  db_profiles :: "profile_row list"
  db_routes :: "route_row list"
  db_envelopes :: "envelope_row list"
  db_artifacts :: "artifact_row list"
  db_operations :: "operation_row list"
  db_steps :: "step_row list"
  db_snapshots :: "snapshot_row list"
  db_revisions :: "revision_row list"
  db_audit :: "audit_row list"
  db_resources :: "resource_row list"
  db_staged :: "staged_row list"
  db_runtime :: "runtime_row list"
  db_ledger :: "ledger_row list"
  db_schema_version :: int
  db_key_version :: int
  db_state_updated_ms :: int

section \<open>Statements and transactions\<close>

type_synonym 'a tx = "repo_error + 'a \<times> agent_db"

text \<open>\<open>QueryRow(...).Scan\<close>: the first matching row, or \<open>sql.ErrNoRows\<close>.\<close>

definition query_row :: "('r \<Rightarrow> bool) \<Rightarrow> 'r list \<Rightarrow> repo_error + 'r" where
  "query_row P t = (case find P t of None \<Rightarrow> Inl SqlNoRows | Some r \<Rightarrow> Inr r)"

text \<open>A nullable column scanned into a Go string.\<close>

definition scan_string :: "string option \<Rightarrow> repo_error + string" where
  "scan_string v = (case v of None \<Rightarrow> Inl SqlScan | Some x \<Rightarrow> Inr x)"

definition coalesce :: "string option \<Rightarrow> string" where
  "coalesce v = (case v of None \<Rightarrow> [] | Some x \<Rightarrow> x)"

definition nullable :: "string \<Rightarrow> string option" where
  "nullable v = (if v = [] then None else Some v)"

text \<open>
  A transaction: \<open>defer tx.Rollback()\<close> restores the database on every path that does not
  reach \<open>Commit\<close>.
\<close>

definition commit_tx :: "'d \<Rightarrow> repo_error + 'a \<times> 'd \<Rightarrow> (repo_error + 'a) \<times> 'd" where
  "commit_tx db r = (case r of Inl e \<Rightarrow> (Inl e, db) | Inr (x, db') \<Rightarrow> (Inr x, db'))"

lemma query_row_Inr: "query_row P t = Inr r \<longleftrightarrow> find P t = Some r"
  by (simp add: query_row_def split: option.split)

lemma query_row_InrD: "query_row P t = Inr r \<Longrightarrow> r \<in> set t \<and> P r"
  by (auto simp: query_row_Inr dest: find_SomeD)

lemma query_row_Inl: "query_row P t = Inl e \<longleftrightarrow> e = SqlNoRows \<and> (\<forall>r \<in> set t. \<not> P r)"
  by (auto simp: query_row_def find_None_iff split: option.split dest: find_SomeD)

lemma coalesce_nullable [simp]: "coalesce (nullable v) = v"
  by (simp add: coalesce_def nullable_def)

lemma commit_tx_simps [simp]:
  "commit_tx db (Inl e) = (Inl e, db)" "commit_tx db (Inr (x, db')) = (Inr x, db')"
  by (simp_all add: commit_tx_def)

lemma commit_tx_Inr: "commit_tx db r = (Inr x, db') \<longleftrightarrow> r = Inr (x, db')"
  by (auto simp: commit_tx_def split: sum.splits prod.splits)

lemma commit_tx_cases:
  "commit_tx db r = (res, db') \<Longrightarrow>
     (\<And>x. r = Inr (x, db') \<Longrightarrow> res = Inr x \<Longrightarrow> P) \<Longrightarrow> (\<And>e. res = Inl e \<Longrightarrow> db' = db \<Longrightarrow> P) \<Longrightarrow> P"
  by (cases r) (auto simp: commit_tx_def)

section \<open>Identifiers\<close>

text \<open>
  The source of identifiers: the \<open>k\<close>-th call of \<open>ids.NewV7\<close> in an operation, for the time it
  is given, yields an identifier or the error of the random reader.
\<close>

type_synonym id_source = "nat \<Rightarrow> time \<Rightarrow> repo_error + string"

section \<open>Inserts\<close>

definition operation_types :: "string list" where
  "operation_types =
     [''adopt_interface'', ''resolve_drift'', ''create_interface'', ''set_interface_state'',
      ''create_peer'', ''update_peer'', ''disable_peer'', ''enable_peer'', ''revoke_peer'',
      ''reenroll_peer'', ''rollback_operation'']"

definition effect_kinds :: "string list" where
  "effect_kinds = [''database'', ''file'', ''wgctrl'', ''netlink'', ''nftables'', ''systemd'', ''sysctl'']"

text \<open>The states of the partial unique index \<open>operations_one_active_interface_idx\<close>.\<close>

definition active_op_state :: "op_state \<Rightarrow> bool" where
  "active_op_state st \<longleftrightarrow> st \<in> {StatePending, StateValidated, StateSnapshotted, StateExecuting,
     StateVerifying, StateRollingBack, StateRollbackFailed}"

definition has_active :: "string \<Rightarrow> operation_row list \<Rightarrow> bool" where
  "has_active iid t = list_ex (\<lambda>o'. o_interface_id o' = Some iid \<and> active_op_state (o_state o')) t"

text \<open>The unique index over a whole table: at most one active operation per interface.\<close>

fun one_active :: "operation_row list \<Rightarrow> bool" where
  "one_active [] = True"
| "one_active (o' # t) =
     ((case o_interface_id o' of None \<Rightarrow> True
       | Some iid \<Rightarrow> active_op_state (o_state o') \<longrightarrow> \<not> has_active iid t) \<and> one_active t)"

definition idem_key :: "operation_row \<Rightarrow> string \<times> string \<times> string" where
  "idem_key o' = (o_actor_id o', o_type o', o_idempotency_key o')"

definition fk_interface :: "agent_db \<Rightarrow> string option \<Rightarrow> bool" where
  "fk_interface db v = (case v of None \<Rightarrow> True | Some iid \<Rightarrow> iid \<in> i_id ` set (db_interfaces db))"

definition insert_operation :: "operation_row \<Rightarrow> agent_db \<Rightarrow> repo_error + agent_db" where
  "insert_operation row db =
     bind_r (check (o_type row \<in> set operation_types) (SqlConstraint ''operations.type'')) (\<lambda>_.
     bind_r (check (key_fresh o_id (o_id row) (db_operations db)) (SqlConstraint ''operations.id'')) (\<lambda>_.
     bind_r (check (key_fresh idem_key (idem_key row) (db_operations db))
               (SqlConstraint ''operations.actor_id,type,idempotency_key'')) (\<lambda>_.
     bind_r (check (one_active (db_operations db @ [row]))
               (SqlConstraint ''operations_one_active_interface_idx'')) (\<lambda>_.
     bind_r (check (fk_interface db (o_interface_id row)) (SqlConstraint ''operations.interface_id'')) (\<lambda>_.
     Inr (db\<lparr>db_operations := db_operations db @ [row]\<rparr>))))))"

definition insert_step :: "step_row \<Rightarrow> agent_db \<Rightarrow> repo_error + agent_db" where
  "insert_step row db =
     bind_r (check (s_effect_kind row \<in> set effect_kinds) (SqlConstraint ''operation_steps.effect_kind'')) (\<lambda>_.
     bind_r (check (key_fresh s_id (s_id row) (db_steps db)) (SqlConstraint ''operation_steps.id'')) (\<lambda>_.
     bind_r (check (key_fresh (\<lambda>r. (s_operation_id r, s_order r)) (s_operation_id row, s_order row) (db_steps db))
               (SqlConstraint ''operation_steps.operation_id,step_order'')) (\<lambda>_.
     bind_r (check (s_operation_id row \<in> o_id ` set (db_operations db))
               (SqlConstraint ''operation_steps.operation_id'')) (\<lambda>_.
     Inr (db\<lparr>db_steps := db_steps db @ [row]\<rparr>)))))"

text \<open>An \<open>UPDATE\<close> of operations, which the unique index can refuse.\<close>

definition update_operations ::
  "(operation_row \<Rightarrow> bool) \<Rightarrow> (operation_row \<Rightarrow> operation_row) \<Rightarrow> agent_db \<Rightarrow> repo_error + nat \<times> agent_db" where
  "update_operations P f db =
     (let t = update_rows P f (db_operations db) in
      bind_r (check (one_active t) (SqlConstraint ''operations_one_active_interface_idx'')) (\<lambda>_.
      Inr (affected P (db_operations db), db\<lparr>db_operations := t\<rparr>)))"

section \<open>The invariant of the operation tables\<close>

definition operations_wf :: "agent_db \<Rightarrow> bool" where
  "operations_wf db \<longleftrightarrow>
     keyed o_id (db_operations db) \<and> keyed idem_key (db_operations db) \<and>
     one_active (db_operations db) \<and>
     keyed s_id (db_steps db) \<and> keyed (\<lambda>r. (s_operation_id r, s_order r)) (db_steps db) \<and>
     (\<forall>r \<in> set (db_steps db). s_operation_id r \<in> o_id ` set (db_operations db))"

lemma insert_operation_wf:
  "insert_operation row db = Inr db' \<Longrightarrow> operations_wf db \<Longrightarrow> operations_wf db'"
  by (auto simp: insert_operation_def operations_wf_def keyed_def key_fresh_def split: if_splits)

lemma insert_step_wf:
  "insert_step row db = Inr db' \<Longrightarrow> operations_wf db \<Longrightarrow> operations_wf db'"
  by (auto simp: insert_step_def operations_wf_def keyed_def key_fresh_def split: if_splits)

lemma update_operations_wf:
  assumes "update_operations P f db = Inr (n, db')" and "operations_wf db"
    and "\<And>r. P r \<Longrightarrow> o_id (f r) = o_id r \<and> idem_key (f r) = idem_key r"
  shows "operations_wf db'"
proof -
  from assms(1) have db': "db' = db\<lparr>db_operations := update_rows P f (db_operations db)\<rparr>"
    and act: "one_active (update_rows P f (db_operations db))"
    by (auto simp: update_operations_def Let_def split: if_splits)
  have "map o_id (update_rows P f (db_operations db)) = map o_id (db_operations db)"
    by (rule map_update_rows) (simp add: assms(3))
  then have "o_id ` set (update_rows P f (db_operations db)) = o_id ` set (db_operations db)"
    by (metis set_map)
  with assms(2,3) db' act show ?thesis by (auto simp: operations_wf_def)
qed

lemma has_active_append: "has_active i (t @ u) \<longleftrightarrow> has_active i t \<or> has_active i u"
  by (simp add: has_active_def)

lemma one_active_map:
  assumes "\<And>r. r \<in> set t \<Longrightarrow> o_interface_id (h r) = None \<or>
    o_interface_id (h r) = o_interface_id r \<and> (active_op_state (o_state (h r)) \<longrightarrow> active_op_state (o_state r))"
    and "one_active t"
  shows "one_active (map h t)"
  using assms
proof (induction t)
  case (Cons r t)
  have "has_active x t" if "has_active x (map h t)" for x
  proof -
    from that obtain s where s: "s \<in> set t" "o_interface_id (h s) = Some x" "active_op_state (o_state (h s))"
      by (auto simp: has_active_def list_ex_iff)
    with Cons.prems(1) [of s] show ?thesis by (auto simp: has_active_def list_ex_iff)
  qed
  moreover have "one_active (map h t)" using Cons by simp
  ultimately show ?case using Cons.prems(1) [of r] Cons.prems(2) by (auto split: option.splits)
qed simp

lemma one_active_update:
  assumes "\<And>r. r \<in> set t \<Longrightarrow> P r \<Longrightarrow> o_interface_id (f r) = None \<or>
    o_interface_id (f r) = o_interface_id r \<and> (active_op_state (o_state (f r)) \<longrightarrow> active_op_state (o_state r))"
    and "one_active t"
  shows "one_active (update_rows P f t)"
  unfolding update_rows_def by (rule one_active_map) (use assms in auto)

lemma one_active_pair:
  assumes "one_active t" and "i < length t" and "j < length t" and "i < j"
    and "o_interface_id (t ! i) = Some x" and "o_interface_id (t ! j) = Some x"
    and "active_op_state (o_state (t ! i))" and "active_op_state (o_state (t ! j))"
  shows False
  using assms
proof (induction t arbitrary: i j)
  case (Cons r t)
  show ?case
  proof (cases i)
    case 0
    with Cons.prems have "t ! (j - 1) \<in> set t" by (cases j) auto
    with 0 Cons.prems have "has_active x t" by (cases j) (auto simp: has_active_def list_ex_iff)
    with 0 Cons.prems show ?thesis by simp
  next
    case (Suc k)
    with Cons.prems Cons.IH [of k "j - 1"] show ?thesis by (cases j) auto
  qed
qed simp

end
