(* ===== verification/DemoDb.thy ===== *)
theory DemoDb
  imports AgentDb
begin

text \<open>The small databases the witnesses evaluate on: an interface, a peer, identifiers.\<close>

definition empty_db :: agent_db where
  "empty_db = \<lparr>db_gateway_id = Some ''gw'', db_interfaces = [], db_addresses = [], db_pools = [], db_peers = [],
     db_allocations = [], db_allowed = [], db_profiles = [], db_routes = [], db_envelopes = [],
     db_artifacts = [], db_operations = [], db_steps = [], db_snapshots = [], db_revisions = [],
     db_audit = [], db_resources = [], db_staged = [], db_runtime = [], db_ledger = [], db_schema_version = 4,
     db_key_version = 1, db_state_updated_ms = 0\<rparr>"

definition demo_iface :: "string \<Rightarrow> iface_row" where
  "demo_iface iid = \<lparr>i_id = iid, i_name = iid, i_backend = ''wg_quick'', i_namespace_kind = ''host'',
     i_management_mode = ''managed'', i_config_path = None, i_service_owner = None, i_service_unit = None,
     i_save_config_detected = False, i_config_present = True, i_runtime_present = True, i_file_hash = None, i_runtime_fingerprint = None,
     i_last_applied_revision_id = None, i_revision = 1, i_drift_state = ''none'', i_deployment_profile = None,
     i_firewall_mode = None, i_managed_firewall_backend = None, i_listen_port = None, i_public_key = None,
     i_auto_start = False, i_service_state = ''active'', i_last_seen_at_ms = 0, i_created_at_ms = 0,
     i_updated_at_ms = 0\<rparr>"

definition demo_ids :: "char \<Rightarrow> id_source" where
  "demo_ids c k t = Inr (replicate (Suc k) c)"

definition demo_peer :: "string \<Rightarrow> string \<Rightarrow> peer_row" where
  "demo_peer pid iid = \<lparr>p_id = pid, p_interface_id = iid, p_name = pid, p_public_key = pid, p_key_mode = ''managed'',
     p_lifecycle_state = ''active'', p_config_revision_id = None, p_archived_block_secret_id = None,
     p_endpoint = None, p_persistent_keepalive = 0, p_observed_present = True, p_last_seen_at_ms = 0,
     p_created_at_ms = 0, p_updated_at_ms = 0, p_revoked_at_ms = None\<rparr>"

definition demo_op :: "string \<Rightarrow> string \<Rightarrow> op_state \<Rightarrow> string option \<Rightarrow> operation_row" where
  "demo_op oid ty st iface = \<lparr>o_id = oid, o_interface_id = iface, o_type = ty, o_state = st, o_plan_version = 1,
     o_intent_json = ''{}'', o_idempotency_key = oid, o_actor_id = ''ann'', o_actor_role = ''admin'',
     o_request_id = ''rq'', o_reason = None, o_expected_revision = Some 1, o_original_file_hash = None,
     o_proposed_file_hash = None, o_original_runtime_hash = None, o_proposed_diff_json = None,
     o_error_code = None, o_error_message = None, o_expires_at_ms = None, o_created_at_ms = 0,
     o_updated_at_ms = 0, o_finished_at_ms = None\<rparr>"

end
