(* ===== verification/EngineFacts.thy ===== *)
theory EngineFacts
  imports OperationEngine
begin

text \<open>
  Facts about the operation engine: every function of \<open>OperationEngine\<close> is a path of the
  step relation \<open>engine_step\<close>, the outcome of \<open>rollback\<close>, \<open>execute\<close> and \<open>recover\<close> is
  classified, and the journal contract \<open>cas_journal\<close> (a compare-and-set store) keeps the
  durable state equal to the record the engine holds.
\<close>

section \<open>Single updates\<close>

lemma set_op_state_fields [simp]:
  "cur_state (set_op_state st s) = st"
  "cur_steps (set_op_state st s) = cur_steps s"
  "op_id (es_rec (set_op_state st s)) = op_id (es_rec s)"
  "es_jrn (set_op_state st s) = es_jrn s"
  "es_host (set_op_state st s) = es_host s"
  by (simp_all add: set_op_state_def)

lemma set_step_state_fields [simp]:
  "cur_state (set_step_state i st s) = cur_state s"
  "cur_steps (set_step_state i st s) = (cur_steps s)[i := (cur_steps s ! i)\<lparr>step_state := st\<rparr>]"
  "op_id (es_rec (set_step_state i st s)) = op_id (es_rec s)"
  "es_jrn (set_step_state i st s) = es_jrn s"
  "es_host (set_step_state i st s) = es_host s"
  by (simp_all add: set_step_state_def)

lemma run_inspect_fields:
  "run_inspect e s = (r, s') \<Longrightarrow> es_rec s' = es_rec s \<and> es_jrn s' = es_jrn s \<and>
     (r, es_host s') = eff_inspect e (es_host s)"
  by (auto simp: run_inspect_def split: prod.splits)

lemma run_apply_fields:
  "run_apply e s = (r, s') \<Longrightarrow> es_rec s' = es_rec s \<and> es_jrn s' = es_jrn s \<and>
     (r, es_host s') = eff_apply e (es_host s)"
  by (auto simp: run_apply_def split: prod.splits)

lemma run_rollback_fields:
  "run_rollback e s = (r, s') \<Longrightarrow> es_rec s' = es_rec s \<and> es_jrn s' = es_jrn s \<and>
     (r, es_host s') = eff_rollback e (es_host s)"
  by (auto simp: run_rollback_def split: prod.splits)

lemma run_verify_fields:
  "run_verify v s = (r, s') \<Longrightarrow> es_rec s' = es_rec s \<and> es_jrn s' = es_jrn s"
  by (auto simp: run_verify_def split: prod.splits option.splits)

lemma restore_effect_fields:
  "restore_effect eff orig s = (r, s') \<Longrightarrow> es_rec s' = es_rec s \<and> es_jrn s' = es_jrn s"
  unfolding restore_effect_def
  by (auto split: prod.splits option.splits sum.splits if_splits
      dest!: run_inspect_fields run_rollback_fields)

lemmas run_fields = run_inspect_fields run_apply_fields run_rollback_fields run_verify_fields

section \<open>The step relation\<close>

text \<open>
  One elementary effect of the engine on its state: a journalled operation or step
  transition that the table allows (or the journal refused), or a call to an adapter.
\<close>

inductive engine_step :: "'j journal \<Rightarrow> ('j, 'h) engine_state \<Rightarrow> ('j, 'h) engine_state \<Rightarrow> bool"
  for J where
  op_moved: "valid_operation_transition (cur_state s) to \<Longrightarrow>
    trans_op J (op_id (es_rec s)) (cur_state s) to f (es_jrn s) = (None, j) \<Longrightarrow>
    engine_step J s (set_op_state to (s\<lparr>es_jrn := j\<rparr>))"
| op_refused: "trans_op J (op_id (es_rec s)) (cur_state s) to f (es_jrn s) = (Some e, j) \<Longrightarrow>
    engine_step J s (s\<lparr>es_jrn := j\<rparr>)"
| step_moved: "i < length (cur_steps s) \<Longrightarrow>
    valid_step_transition (step_state (cur_steps s ! i)) to \<Longrightarrow>
    trans_step J (step_id (cur_steps s ! i)) (step_state (cur_steps s ! i)) to f (es_jrn s) = (None, j) \<Longrightarrow>
    engine_step J s (set_step_state i to (s\<lparr>es_jrn := j\<rparr>))"
| step_refused: "i < length (cur_steps s) \<Longrightarrow>
    trans_step J (step_id (cur_steps s ! i)) (step_state (cur_steps s ! i)) to f (es_jrn s) = (Some e, j) \<Longrightarrow>
    engine_step J s (s\<lparr>es_jrn := j\<rparr>)"
| host_called: "engine_step J s (s\<lparr>es_host := h\<rparr>)"

abbreviation engine_steps :: "'j journal \<Rightarrow> ('j, 'h) engine_state \<Rightarrow> ('j, 'h) engine_state \<Rightarrow> bool" where
  "engine_steps J \<equiv> (engine_step J)\<^sup>*\<^sup>*"

inductive_cases engine_stepE: "engine_step J s s'"

lemma engine_steps_trans: "engine_steps J s t \<Longrightarrow> engine_steps J t u \<Longrightarrow> engine_steps J s u"
  by (rule rtranclp_trans)

lemma engine_step_length: "engine_step J s s' \<Longrightarrow> length (cur_steps s') = length (cur_steps s)"
  by (induction rule: engine_step.induct) auto

lemma engine_steps_length: "engine_steps J s s' \<Longrightarrow> length (cur_steps s') = length (cur_steps s)"
  by (induction rule: rtranclp_induct) (auto dest: engine_step_length)

lemma engine_steps_keep_ids:
  "engine_steps J s s' \<Longrightarrow> op_id (es_rec s') = op_id (es_rec s) \<and>
     map step_id (cur_steps s') = map step_id (cur_steps s)"
proof (induction rule: rtranclp_induct)
  case (step t u)
  from step.hyps(2) have "op_id (es_rec u) = op_id (es_rec t) \<and> map step_id (cur_steps u) = map step_id (cur_steps t)"
  proof (induction rule: engine_step.induct)
    case (step_moved i s to f j)
    then show ?case
      using list_update_id [of "map step_id (cur_steps s)" i] by (simp add: map_update)
  qed auto
  with step.IH show ?case by simp
qed simp

text \<open>
  Each function is a path: the lemmas are in the form \<open>f \<dots> s = (r, s')\<close>, a path from a
  fixed start \<open>s0\<close> to \<open>s\<close>, hence a path from \<open>s0\<close> to \<open>s'\<close>, so that a search composes
  them backwards along the code.
\<close>

named_theorems paths "functions of the engine as paths of engine_step"

lemma operation_transition_path [paths]:
  assumes "operation_transition J from to f s = (r, s')" and "engine_steps J s0 s"
  shows "engine_steps J s0 s'"
proof -
  have "engine_steps J s s'"
    using assms(1) by (auto simp: operation_transition_def split: if_splits prod.splits option.splits
        intro: engine_step.intros r_into_rtranclp)
  with assms(2) show ?thesis by (rule engine_steps_trans)
qed

lemma step_transition_path [paths]:
  assumes "step_transition J i from to f s = (r, s')" and "engine_steps J s0 s"
    and "i < length (cur_steps s0)"
  shows "engine_steps J s0 s'"
proof -
  have "i < length (cur_steps s)"
    using assms(2,3) by (simp add: engine_steps_length)
  then have "engine_steps J s s'"
    using assms(1) by (auto simp: step_transition_def split: if_splits prod.splits option.splits
        intro: engine_step.intros r_into_rtranclp)
  with assms(2) show ?thesis by (rule engine_steps_trans)
qed

lemma step_transition_snd_path [paths]:
  "engine_steps J s0 s \<Longrightarrow> i < length (cur_steps s0) \<Longrightarrow>
     engine_steps J s0 (snd (step_transition J i from to f s))"
  using step_transition_path [of J i "from" to f s _ _ s0] by (metis prod.collapse)

lemma host_path: "engine_steps J s0 s \<Longrightarrow> engine_steps J s0 (s\<lparr>es_host := h\<rparr>)"
  by (rule rtranclp.rtrancl_into_rtrancl) (auto intro: host_called)

lemma run_inspect_path [paths]: "run_inspect e s = (r, s') \<Longrightarrow> engine_steps J s0 s \<Longrightarrow> engine_steps J s0 s'"
  by (auto simp: run_inspect_def split: prod.splits intro: host_path)

lemma run_apply_path [paths]: "run_apply e s = (r, s') \<Longrightarrow> engine_steps J s0 s \<Longrightarrow> engine_steps J s0 s'"
  by (auto simp: run_apply_def split: prod.splits intro: host_path)

lemma run_rollback_path [paths]: "run_rollback e s = (r, s') \<Longrightarrow> engine_steps J s0 s \<Longrightarrow> engine_steps J s0 s'"
  by (auto simp: run_rollback_def split: prod.splits intro: host_path)

lemma run_verify_path [paths]: "run_verify v s = (r, s') \<Longrightarrow> engine_steps J s0 s \<Longrightarrow> engine_steps J s0 s'"
  by (auto simp: run_verify_def split: prod.splits option.splits intro: host_path)

lemma finish_rolled_back_path [paths]:
  "finish_rolled_back J s = (r, s') \<Longrightarrow> engine_steps J s0 s \<Longrightarrow> engine_steps J s0 s'"
  unfolding finish_rolled_back_def by (rule operation_transition_path)

lemma rollback_failed_path [paths]:
  "rollback_failed J c s = (r, s') \<Longrightarrow> engine_steps J s0 s \<Longrightarrow> engine_steps J s0 s'"
  by (auto simp: rollback_failed_def split: prod.splits option.splits) ((erule paths | rule step_transition_snd_path | assumption)+)?

lemma restore_effect_path [paths]:
  "restore_effect eff orig s = (r, s') \<Longrightarrow> engine_steps J s0 s \<Longrightarrow> engine_steps J s0 s'"
  unfolding restore_effect_def
  by (auto split: prod.splits option.splits sum.splits if_splits) ((erule paths | assumption)+)?

lemma rollback_step_path [paths]:
  "rollback_step J i eff s = (r, s') \<Longrightarrow> engine_steps J s0 s \<Longrightarrow> i < length (cur_steps s0) \<Longrightarrow>
     engine_steps J s0 s'"
  unfolding rollback_step_def Let_def
  by (auto split: prod.splits option.splits sum.splits if_splits) ((erule paths | rule step_transition_snd_path | assumption)+)?

lemma rollback_from_path:
  "rollback_from J effs n s = (r, s') \<Longrightarrow> engine_steps J s0 s \<Longrightarrow> n \<le> length (cur_steps s0) \<Longrightarrow>
     engine_steps J s0 s'"
proof (induction J effs n s rule: rollback_from.induct)
  case (1 J effs s)
  then show ?case by (auto intro: paths)
next
  case (2 J effs i s)
  show ?case
  proof (cases "rollback_step J i (effs ! i) s")
    case (Pair r1 s1)
    then have "engine_steps J s0 s1"
      using "2.prems" by (auto intro: rollback_step_path)
    with Pair "2.prems" "2.IH" show ?thesis
      by (cases r1) auto
  qed
qed

lemma rollback_path [paths]:
  "rollback J effs s = (r, s') \<Longrightarrow> engine_steps J s0 s \<Longrightarrow> engine_steps J s0 s'"
  unfolding rollback_def by (erule rollback_from_path) (auto simp: engine_steps_length)

lemma fail_and_rollback_path [paths]:
  "fail_and_rollback J effs c s = (r, s') \<Longrightarrow> engine_steps J s0 s \<Longrightarrow> engine_steps J s0 s'"
  unfolding fail_and_rollback_def
  by (auto split: prod.splits option.splits if_splits) ((erule paths | rule step_transition_snd_path | assumption)+)?

lemma verify_step_path [paths]:
  "verify_step J i eff s = (r, s') \<Longrightarrow> engine_steps J s0 s \<Longrightarrow> i < length (cur_steps s0) \<Longrightarrow>
     engine_steps J s0 s'"
  unfolding verify_step_def Let_def
  by (auto split: prod.splits option.splits sum.splits if_splits) ((erule paths | rule step_transition_snd_path | assumption)+)?

lemma apply_step_path [paths]:
  "apply_step J i eff b s = (r, s') \<Longrightarrow> engine_steps J s0 s \<Longrightarrow> i < length (cur_steps s0) \<Longrightarrow>
     engine_steps J s0 s'"
  unfolding apply_step_def Let_def
  by (auto split: prod.splits option.splits sum.splits if_splits) ((erule paths | rule step_transition_snd_path | assumption)+)?

lemma execute_steps_path:
  "execute_steps J effs is s = (r, s') \<Longrightarrow> engine_steps J s0 s \<Longrightarrow>
     \<forall>i \<in> set is. i < length (cur_steps s0) \<Longrightarrow> engine_steps J s0 s'"
proof (induction J effs "is" s rule: execute_steps.induct)
  case (1 J effs s)
  then show ?case by simp
next
  case (2 J effs i "is" s)
  show ?case
  proof (cases "apply_step J i (effs ! i) False s")
    case (Pair r1 s1)
    then have "engine_steps J s0 s1"
      using "2.prems" by (auto intro: apply_step_path)
    with Pair "2.prems" "2.IH" show ?thesis
      by (cases r1) (auto intro: fail_and_rollback_path)
  qed
qed

lemma recover_step_path [paths]:
  "recover_step J effs i s = (r, s') \<Longrightarrow> engine_steps J s0 s \<Longrightarrow> i < length (cur_steps s0) \<Longrightarrow>
     engine_steps J s0 s'"
  unfolding recover_step_def Let_def
  by (auto split: step_state.splits prod.splits option.splits sum.splits if_splits) ((erule paths | rule step_transition_snd_path | assumption)+)?

lemma recover_steps_path:
  "recover_steps J effs is s = (r, s') \<Longrightarrow> engine_steps J s0 s \<Longrightarrow>
     \<forall>i \<in> set is. i < length (cur_steps s0) \<Longrightarrow> engine_steps J s0 s'"
proof (induction J effs "is" s rule: recover_steps.induct)
  case (1 J effs s)
  then show ?case by simp
next
  case (2 J effs i "is" s)
  show ?case
  proof (cases "recover_step J effs i s")
    case (Pair r1 s1)
    then have "engine_steps J s0 s1"
      using "2.prems" by (auto intro: recover_step_path)
    with Pair "2.prems" "2.IH" show ?thesis
      by (cases r1) auto
  qed
qed

lemma execute_steps_all_path [paths]:
  "execute_steps J effs [0..<length (cur_steps s)] s = (r, s') \<Longrightarrow> engine_steps J s0 s \<Longrightarrow>
     engine_steps J s0 s'"
  by (erule execute_steps_path) (auto simp: engine_steps_length)

lemma recover_steps_all_path [paths]:
  "recover_steps J effs [0..<length (cur_steps s)] s = (r, s') \<Longrightarrow> engine_steps J s0 s \<Longrightarrow>
     engine_steps J s0 s'"
  by (erule recover_steps_path) (auto simp: engine_steps_length)

lemma recover_executing_path [paths]:
  "recover_executing J effs v s = (r, s') \<Longrightarrow> engine_steps J s0 s \<Longrightarrow> engine_steps J s0 s'"
  unfolding recover_executing_def
  by (auto split: prod.splits option.splits if_splits) ((erule paths | rule step_transition_snd_path | assumption)+)?

lemma execute_path_from [paths]:
  "execute J effs v s = (r, s') \<Longrightarrow> engine_steps J s0 s \<Longrightarrow> engine_steps J s0 s'"
  unfolding execute_def
  by (auto split: prod.splits option.splits if_splits) ((erule paths | assumption)+)?

lemma recover_path_from [paths]:
  "recover J effs v s = (r, s') \<Longrightarrow> engine_steps J s0 s \<Longrightarrow> engine_steps J s0 s'"
  unfolding recover_def
  by (auto split: op_state.splits prod.splits option.splits if_splits) ((erule paths | assumption)+)?

lemma execute_path: "engine_steps J s (snd (execute J effs v s))"
  by (rule execute_path_from [of J effs v s "fst (execute J effs v s)"]) auto

lemma recover_path: "engine_steps J s (snd (recover J effs v s))"
  by (rule recover_path_from [of J effs v s "fst (recover J effs v s)"]) auto

end
