(* ===== verification/EngineOutcome.thy ===== *)
theory EngineOutcome
  imports EngineFacts
begin

text \<open>
  What a call of the engine ends in. Each function gets one lemma about its result and the
  record it leaves (\<open>\<dots>_result\<close>); the loops are by induction, and \<open>execute\<close>, \<open>recover\<close>
  combine them. \<open>settled\<close> is the state of a step no rollback has to touch.
\<close>

definition settled :: "step_record \<Rightarrow> bool" where
  "settled st \<longleftrightarrow> step_state st = StepPending \<or> step_state st = StepRolledBack"

definition applied :: "step_record \<Rightarrow> bool" where
  "applied st \<longleftrightarrow> step_state st = StepApplied"

section \<open>Transitions\<close>

lemma operation_transition_result:
  assumes "operation_transition J from to f s = (r, s')"
  shows "cur_steps s' = cur_steps s" and "es_host s' = es_host s"
    and "r = None \<Longrightarrow> cur_state s = from \<and> cur_state s' = to"
    and "r \<noteq> None \<Longrightarrow> cur_state s' = cur_state s"
  using assms by (auto simp: operation_transition_def split: if_splits prod.splits option.splits)

lemma step_transition_result:
  assumes "step_transition J i from to f s = (r, s')"
  shows "cur_state s' = cur_state s" and "es_host s' = es_host s"
    and "r = None \<Longrightarrow> step_state (cur_steps s ! i) = from \<and>
           cur_steps s' = (cur_steps s)[i := (cur_steps s ! i)\<lparr>step_state := to\<rparr>]"
    and "r \<noteq> None \<Longrightarrow> cur_steps s' = cur_steps s"
  using assms by (auto simp: step_transition_def split: if_splits prod.splits option.splits)

text \<open>The two results in one form, for use as destruction rules.\<close>

lemma op_transD:
  "operation_transition J from to f s = (r, s') \<Longrightarrow>
     cur_steps s' = cur_steps s \<and> es_host s' = es_host s \<and>
     (if r = None then cur_state s = from \<and> cur_state s' = to else cur_state s' = cur_state s)"
  using operation_transition_result by (metis (full_types))

lemma step_transD:
  "step_transition J i from to f s = (r, s') \<Longrightarrow>
     cur_state s' = cur_state s \<and> es_host s' = es_host s \<and>
     (if r = None then step_state (cur_steps s ! i) = from \<and>
          cur_steps s' = (cur_steps s)[i := (cur_steps s ! i)\<lparr>step_state := to\<rparr>]
      else cur_steps s' = cur_steps s)"
  using step_transition_result by (metis (full_types))

lemma step_transD_snd:
  "s' = snd (step_transition J i from to f s) \<Longrightarrow>
     cur_state s' = cur_state s \<and> es_host s' = es_host s \<and> length (cur_steps s') = length (cur_steps s) \<and>
     (\<forall>j. j \<noteq> i \<longrightarrow> cur_steps s' ! j = cur_steps s ! j)"
  by (cases "step_transition J i from to f s") (auto dest!: step_transD split: if_splits)

section \<open>Rollback\<close>

lemma rollback_failed_result:
  assumes "rollback_failed J c s = (r, s')"
  shows "r \<noteq> None" and "cur_steps s' = cur_steps s"
    and "cur_state s = StateRollingBack \<Longrightarrow> cur_state s' \<in> {StateRollingBack, StateRollbackFailed}"
  using assms
  by (auto simp: rollback_failed_def split: prod.splits option.splits dest!: op_transD)

lemma rollback_failedD:
  "rollback_failed J c s = (r, s') \<Longrightarrow> r \<noteq> None \<and> cur_steps s' = cur_steps s \<and>
     (cur_state s = StateRollingBack \<longrightarrow> cur_state s' \<in> {StateRollingBack, StateRollbackFailed})"
  using rollback_failed_result by blast

text \<open>The body of the loop: the step it leaves is settled, every other step is untouched.\<close>

lemma rollback_step_result:
  assumes "rollback_step J i eff s = (r, s')"
    and "cur_state s = StateRollingBack" and "i < length (cur_steps s)"
  shows "r = None \<Longrightarrow> cur_state s' = StateRollingBack \<and> settled (cur_steps s' ! i) \<and>
           length (cur_steps s') = length (cur_steps s) \<and>
           (\<forall>j. j \<noteq> i \<longrightarrow> cur_steps s' ! j = cur_steps s ! j)"
    and "r \<noteq> None \<Longrightarrow> cur_state s' \<in> {StateRollingBack, StateRollbackFailed}"
proof -
  have "if r = None then cur_state s' = StateRollingBack \<and> settled (cur_steps s' ! i) \<and>
           length (cur_steps s') = length (cur_steps s) \<and>
           (\<forall>j. j \<noteq> i \<longrightarrow> cur_steps s' ! j = cur_steps s ! j)
        else cur_state s' \<in> {StateRollingBack, StateRollbackFailed}"
  proof (cases "settled (cur_steps s ! i)")
    case True
    with assms show ?thesis by (auto simp: settled_def rollback_step_def)
  next
    case False
    then have "step_state (cur_steps s ! i) = StepRollingBack \<or> step_state (cur_steps s ! i) = StepApplied \<or>
        step_state (cur_steps s ! i) = StepExecuting \<or> step_state (cur_steps s ! i) = StepFailed"
      by (cases "step_state (cur_steps s ! i)") (auto simp: settled_def)
    with assms show ?thesis unfolding rollback_step_def Let_def
      by (auto simp: settled_def split: prod.splits option.splits if_splits
          dest!: step_transD rollback_failedD restore_effect_fields)
  qed
  then show "r = None \<Longrightarrow> cur_state s' = StateRollingBack \<and> settled (cur_steps s' ! i) \<and>
           length (cur_steps s') = length (cur_steps s) \<and>
           (\<forall>j. j \<noteq> i \<longrightarrow> cur_steps s' ! j = cur_steps s ! j)"
    and "r \<noteq> None \<Longrightarrow> cur_state s' \<in> {StateRollingBack, StateRollbackFailed}"
    by (auto split: if_splits)
qed

definition rollback_outcome :: "op_error option \<Rightarrow> ('j, 'h) engine_state \<Rightarrow> bool" where
  "rollback_outcome r s \<longleftrightarrow>
     (r = None \<and> cur_state s = StateRolledBack \<and> list_all settled (cur_steps s)) \<or>
     (r \<noteq> None \<and> cur_state s \<in> {StateRollingBack, StateRollbackFailed})"

lemma rollback_from_outcome:
  "rollback_from J effs n s = (r, s') \<Longrightarrow> cur_state s = StateRollingBack \<Longrightarrow>
   n \<le> length (cur_steps s) \<Longrightarrow> \<forall>j. n \<le> j \<and> j < length (cur_steps s) \<longrightarrow> settled (cur_steps s ! j) \<Longrightarrow>
   rollback_outcome r s'"
proof (induction n arbitrary: s)
  case 0
  then show ?case
    by (auto simp: finish_rolled_back_def rollback_outcome_def list_all_nth_iff
        dest!: op_transD split: if_splits)
next
  case (Suc n)
  obtain r1 s1 where eq: "rollback_step J n (effs ! n) s = (r1, s1)" by fastforce
  note res = rollback_step_result [OF eq Suc.prems(2)]
  show ?case
  proof (cases r1)
    case (Some e)
    with Suc.prems(1,3) eq res(2) show ?thesis by (auto simp: rollback_outcome_def)
  next
    case None
    from None Suc.prems res(1)
    have "\<forall>j. n \<le> j \<and> j < length (cur_steps s1) \<longrightarrow> settled (cur_steps s1 ! j)"
      by (metis Suc_le_eq le_neq_implies_less)
    with None Suc.prems eq res(1) show ?thesis by (intro Suc.IH [of s1]) auto
  qed
qed

lemma rollback_result:
  "rollback J effs s = (r, s') \<Longrightarrow> cur_state s = StateRollingBack \<Longrightarrow> rollback_outcome r s'"
  unfolding rollback_def by (erule rollback_from_outcome) auto

text \<open>
  \<open>failed_outcome st\<close>: the states a call that had to give up in state \<open>st\<close> can leave. A
  rollback that got through leaves only settled steps.
\<close>

definition failed_outcome :: "op_state \<Rightarrow> ('j, 'h) engine_state \<Rightarrow> bool" where
  "failed_outcome st s \<longleftrightarrow>
     cur_state s \<in> {st, StateRollingBack, StateRollbackFailed} \<or>
     (cur_state s = StateRolledBack \<and> list_all settled (cur_steps s))"

definition active_state :: "op_state \<Rightarrow> bool" where
  "active_state st \<longleftrightarrow> st \<in> {StateSnapshotted, StateExecuting, StateVerifying, StateRollingBack}"

lemma rollback_failed_outcome:
  assumes "rollback J effs s = (r, s')" and "cur_state s = StateRollingBack"
  shows "failed_outcome st s'"
  using rollback_result [OF assms] by (auto simp: failed_outcome_def rollback_outcome_def)

lemma fail_and_rollback_result:
  assumes eq: "fail_and_rollback J effs c s = (r, s')" and act: "active_state (cur_state s)"
  shows "r \<noteq> None" and "failed_outcome (cur_state s) s'"
proof -
  have "r \<noteq> None \<and> failed_outcome (cur_state s) s'"
  proof (cases "cur_state s = StateRollingBack")
    case True
    with eq show ?thesis unfolding fail_and_rollback_def
      by (cases "rollback J effs s") (auto intro: rollback_failed_outcome split: option.splits)
  next
    case False
    obtain r1 s1 where tr: "operation_transition J (cur_state s) StateRollingBack
        (Some (safe_failure ''OPERATION_FAILED'' c)) s = (r1, s1)" by fastforce
    note res = op_transD [OF tr]
    obtain r2 s2 where rb: "rollback J effs s1 = (r2, s2)" by fastforce
    from False act have "cur_state s \<in> {StateSnapshotted, StateExecuting, StateVerifying}"
      by (auto simp: active_state_def)
    with eq tr rb have "if r1 = None then r \<noteq> None \<and> s' = s2 else r \<noteq> None \<and> s' = s1"
      unfolding fail_and_rollback_def by (auto split: option.splits)
    with res rollback_failed_outcome [OF rb] show ?thesis
      by (auto simp: failed_outcome_def split: if_splits)
  qed
  then show "r \<noteq> None" and "failed_outcome (cur_state s) s'" by auto
qed

lemma fail_and_rollbackD:
  "fail_and_rollback J effs c s = (r, s') \<Longrightarrow> active_state (cur_state s) \<Longrightarrow>
     r \<noteq> None \<and> failed_outcome (cur_state s) s'"
  using fail_and_rollback_result by blast

lemma fail_and_rollback_same:
  assumes eq: "fail_and_rollback J effs c s = (r, s')" and same: "cur_state s' = cur_state s"
    and st: "cur_state s \<in> {StateSnapshotted, StateExecuting, StateVerifying}"
  shows "cur_steps s' = cur_steps s"
proof -
  obtain r1 s1 where tr: "operation_transition J (cur_state s) StateRollingBack
      (Some (safe_failure ''OPERATION_FAILED'' c)) s = (r1, s1)" by fastforce
  note res = op_transD [OF tr]
  obtain r2 s2 where rb: "rollback J effs s1 = (r2, s2)" by fastforce
  show ?thesis
  proof (cases r1)
    case None
    with eq st tr rb have "s' = s2" by (auto simp: fail_and_rollback_def split: option.splits)
    with None res rollback_result [OF rb] same st show ?thesis by (auto simp: rollback_outcome_def)
  next
    case (Some e)
    with eq st tr res show ?thesis by (auto simp: fail_and_rollback_def)
  qed
qed

section \<open>Applying one step\<close>

text \<open>\<open>only_step i s s'\<close>: the operation state and every step but the one at \<open>i\<close> are as before.\<close>

definition only_step :: "nat \<Rightarrow> ('j, 'h) engine_state \<Rightarrow> ('j, 'h) engine_state \<Rightarrow> bool" where
  "only_step i s s' \<longleftrightarrow> cur_state s' = cur_state s \<and> length (cur_steps s') = length (cur_steps s) \<and>
     (\<forall>j. j \<noteq> i \<longrightarrow> cur_steps s' ! j = cur_steps s ! j)"

lemma only_step_refl [simp]: "only_step i s s"
  by (simp add: only_step_def)

lemma only_step_rec: "es_rec s' = es_rec s \<Longrightarrow> only_step i s s'"
  by (simp add: only_step_def)

lemma only_step_trans [trans]: "only_step i s t \<Longrightarrow> only_step i t u \<Longrightarrow> only_step i s u"
  by (simp add: only_step_def)

lemma step_transition_only:
  "step_transition J i from to f s = (r, s') \<Longrightarrow> only_step i s s'"
  by (auto simp: only_step_def dest!: step_transD split: if_splits)

lemma step_transition_only_snd: "only_step i s (snd (step_transition J i from to f s))"
  by (metis prod.collapse step_transition_only)

lemma step_transition_applied:
  "step_transition J i from StepApplied f s = (None, s') \<Longrightarrow> i < length (cur_steps s) \<Longrightarrow>
     applied (cur_steps s' ! i)"
  by (auto simp: applied_def dest!: step_transD)

lemma verify_step_result:
  assumes "verify_step J i eff s = (r, s')" and i: "i < length (cur_steps s)"
  shows "only_step i s s'" and "r = None \<Longrightarrow> applied (cur_steps s' ! i)"
proof -
  obtain x s1 where ins: "run_inspect eff s = (x, s1)" by fastforce
  have rec: "es_rec s1 = es_rec s" using run_inspect_fields [OF ins] by simp
  then have o1: "only_step i s s1" by (rule only_step_rec)
  have "only_step i s1 s' \<and> (r = None \<longrightarrow> applied (cur_steps s' ! i))"
    using assms ins rec unfolding verify_step_def Let_def
    by (auto split: sum.splits if_splits
        intro: step_transition_only step_transition_only_snd step_transition_applied)
  with o1 show "only_step i s s'" and "r = None \<Longrightarrow> applied (cur_steps s' ! i)"
    by (auto intro: only_step_trans)
qed

lemma apply_step_result:
  assumes "apply_step J i eff b s = (r, s')" and i: "i < length (cur_steps s)"
  shows "only_step i s s'" and "r = None \<Longrightarrow> applied (cur_steps s' ! i)"
proof -
  obtain r1 s1 where t1: "step_transition J i StepPending StepExecuting None s = (r1, s1)" by fastforce
  obtain x s2 where ins: "run_inspect eff s1 = (x, s2)" by fastforce
  obtain r3 s3 where app: "run_apply eff s2 = (r3, s3)" by fastforce
  have o1: "only_step i s s1" using t1 by (rule step_transition_only)
  have o2: "only_step i s s2" "i < length (cur_steps s2)"
    using o1 run_inspect_fields [OF ins] i by (auto simp: only_step_def)
  have o3: "only_step i s s3" "i < length (cur_steps s3)"
    using o2 run_apply_fields [OF app] by (auto simp: only_step_def)
  note st2 = step_transition_only [of J i _ _ _ s2] step_transition_only_snd [of i s2 J]
  note st3 = step_transition_only_snd [of i s3 J] verify_step_result [of J i eff s3, OF _ o3(2)]
  have "only_step i s s' \<and> (r = None \<longrightarrow> applied (cur_steps s' ! i))"
    using assms(1) t1 ins app o1 o2 o3 unfolding apply_step_def
    by (auto split: option.splits sum.splits if_splits
        intro: only_step_trans [OF o2(1)] only_step_trans [OF o3(1)] st2 st3 step_transition_applied)
  then show "only_step i s s'" and "r = None \<Longrightarrow> applied (cur_steps s' ! i)" by auto
qed

section \<open>Execute\<close>

text \<open>\<open>all_applied is s s'\<close>: the steps with an index in \<open>is\<close> got applied, the others are as before.\<close>

definition applied_on :: "nat set \<Rightarrow> ('j, 'h) engine_state \<Rightarrow> ('j, 'h) engine_state \<Rightarrow> bool" where
  "applied_on A s s' \<longleftrightarrow> cur_state s' = cur_state s \<and> length (cur_steps s') = length (cur_steps s) \<and>
     (\<forall>j < length (cur_steps s). if j \<in> A then applied (cur_steps s' ! j)
        else cur_steps s' ! j = cur_steps s ! j)"

lemma applied_on_insert:
  "only_step i s s1 \<Longrightarrow> applied (cur_steps s1 ! i) \<Longrightarrow> applied_on A s1 s2 \<Longrightarrow> applied_on (insert i A) s s2"
  by (auto simp: applied_on_def only_step_def split: if_splits)

lemma applied_on_all:
  "applied_on {0..<length (cur_steps s)} s s' \<Longrightarrow> list_all applied (cur_steps s')"
  by (auto simp: applied_on_def list_all_nth_iff)

lemma execute_steps_result:
  "execute_steps J effs is s = (r, s') \<Longrightarrow> \<forall>i \<in> set is. i < length (cur_steps s) \<Longrightarrow>
   cur_state s = StateExecuting \<Longrightarrow>
   if r = None then applied_on (set is) s s' else failed_outcome StateExecuting s'"
proof (induction "is" arbitrary: s)
  case Nil
  then show ?case by (auto simp: applied_on_def)
next
  case (Cons i "is")
  obtain r1 s1 where eq: "apply_step J i (effs ! i) False s = (r1, s1)" by fastforce
  have only: "only_step i s s1" using apply_step_result(1) [OF eq] Cons.prems(2) by simp
  show ?case
  proof (cases r1)
    case (Some e)
    have "active_state (cur_state s1)" "cur_state s1 = StateExecuting"
      using only Cons.prems(3) by (auto simp: only_step_def active_state_def)
    with Some Cons.prems(1) eq show ?thesis by (auto dest!: fail_and_rollbackD)
  next
    case None
    with eq Cons.prems(2) have "applied (cur_steps s1 ! i)" by (auto dest: apply_step_result(2))
    moreover have "if r = None then applied_on (set is) s1 s' else failed_outcome StateExecuting s'"
      using None eq only Cons.prems by (intro Cons.IH) (auto simp: only_step_def)
    ultimately show ?thesis using only by (auto intro: applied_on_insert)
  qed
qed

text \<open>
  The end of \<open>Execute\<close> and of \<open>recoverExecuting\<close>, from the moment every step is applied:
  verify, then commit.
\<close>

definition success_outcome :: "('j, 'h) engine_state \<Rightarrow> bool" where
  "success_outcome s \<longleftrightarrow> cur_state s = StateCommitted \<and> list_all applied (cur_steps s)"

definition failure_outcome :: "op_state \<Rightarrow> ('j, 'h) engine_state \<Rightarrow> bool" where
  "failure_outcome st s \<longleftrightarrow>
     cur_state s \<in> {st, StateExecuting, StateRollingBack, StateRollbackFailed} \<or>
     (cur_state s = StateVerifying \<and> list_all applied (cur_steps s)) \<or>
     (cur_state s = StateRolledBack \<and> list_all settled (cur_steps s))"

lemma failed_failure:
  "failed_outcome st s \<Longrightarrow> st \<in> {st', StateExecuting} \<Longrightarrow> failure_outcome st' s"
  by (auto simp: failed_outcome_def failure_outcome_def)

lemma verifying_fails:
  assumes eq: "fail_and_rollback J effs c s = (r, s')" and st: "cur_state s = StateVerifying"
    and app: "list_all applied (cur_steps s)"
  shows "r \<noteq> None" and "failure_outcome st s'"
proof -
  have act: "active_state (cur_state s)" using st by (simp add: active_state_def)
  from fail_and_rollbackD [OF eq act] show "r \<noteq> None" by simp
  from fail_and_rollbackD [OF eq act] have fo: "failed_outcome StateVerifying s'" using st by simp
  show "failure_outcome st s'"
  proof (cases "cur_state s' = StateVerifying")
    case True
    with fail_and_rollback_same [OF eq] st have "cur_steps s' = cur_steps s" by simp
    with True app show ?thesis by (simp add: failure_outcome_def)
  next
    case False
    with fo show ?thesis by (auto simp: failed_outcome_def failure_outcome_def)
  qed
qed

lemma verify_commit_result:
  assumes "cur_state s = StateVerifying" and "list_all applied (cur_steps s)"
    and "run_verify v s = (x, s1)"
    and "(case x of Some e \<Rightarrow> fail_and_rollback J effs (w e) s1
          | None \<Rightarrow> operation_transition J StateVerifying StateCommitted None s1) = (r, s')"
  shows "if r = None then success_outcome s' else failure_outcome st s'"
proof -
  have rec: "es_rec s1 = es_rec s" using run_verify_fields [OF assms(3)] by simp
  show ?thesis
  proof (cases x)
    case None
    with assms rec show ?thesis
      by (auto simp: success_outcome_def failure_outcome_def dest!: op_transD split: if_splits)
  next
    case (Some e)
    with assms(4) have eq: "fail_and_rollback J effs (w e) s1 = (r, s')" by simp
    from verifying_fails(1) [OF eq] verifying_fails(2) [OF eq, of st] rec assms(1,2) show ?thesis by auto
  qed
qed

end
