(* ===== verification/EngineCorrect.thy ===== *)
theory EngineCorrect
  imports EngineOutcome
begin

text \<open>
  The correctness theorems of the operation engine, with their witnesses on a small
  journal and host: \<open>demo_journal\<close> accepts every transition, \<open>cell_effect\<close> is an adapter
  whose host is a list of fingerprints.
\<close>

section \<open>Classification of the outcomes\<close>

lemma execute_result:
  assumes plan: "validate_plan (es_rec s) effs = None" and st: "cur_state s = StateSnapshotted"
    and eq: "execute J effs v s = (r, s')"
  shows "if r = None then success_outcome s' else failure_outcome StateSnapshotted s'"
proof -
  obtain r1 s1 where t1: "operation_transition J StateSnapshotted StateExecuting None s = (r1, s1)"
    by fastforce
  obtain r2 s2 where t2: "execute_steps J effs [0..<length (cur_steps s1)] s1 = (r2, s2)" by fastforce
  obtain r3 s3 where t3: "operation_transition J StateExecuting StateVerifying None s2 = (r3, s3)"
    by fastforce
  obtain x s4 where t4: "run_verify v s3 = (x, s4)" by fastforce
  note d1 = op_transD [OF t1] and d3 = op_transD [OF t3]
  show ?thesis
  proof (cases "r1 = None \<and> r2 = None \<and> r3 = None")
    case False
    then consider (a) e where "r1 = Some e" | (b) e where "r1 = None" "r2 = Some e"
      | (c) e where "r1 = None" "r2 = None" "r3 = Some e"
      by (cases r1; cases r2; cases r3) auto
    then show ?thesis
    proof cases
      case a
      with plan st eq t1 d1 show ?thesis by (auto simp: execute_def failure_outcome_def)
    next
      case b
      with d1 execute_steps_result [OF t2] have "failed_outcome StateExecuting s2" by auto
      with b plan st eq t1 t2 show ?thesis by (auto simp: execute_def intro: failed_failure)
    next
      case c
      with d1 execute_steps_result [OF t2] have "cur_state s2 = StateExecuting"
        by (auto simp: applied_on_def)
      with c d3 have st3: "active_state (cur_state s3)" "cur_state s3 = StateExecuting"
        by (auto simp: active_state_def)
      from c plan st eq t1 t2 t3 have "fail_and_rollback J effs (the r3) s3 = (r, s')"
        by (auto simp: execute_def)
      from fail_and_rollbackD [OF this st3(1)] st3(2) show ?thesis by (auto intro: failed_failure)
    qed
  next
    case True
    with d1 execute_steps_result [OF t2] have "applied_on {0..<length (cur_steps s1)} s1 s2" by auto
    then have "list_all applied (cur_steps s2)" by (rule applied_on_all)
    with True d3 have a3: "cur_state s3 = StateVerifying" "list_all applied (cur_steps s3)" by auto
    have "(case x of Some e \<Rightarrow> fail_and_rollback J effs (WrapError ''verify operation'' e) s4
             | None \<Rightarrow> operation_transition J StateVerifying StateCommitted None s4) = (r, s')"
      using True plan st eq t1 t2 t3 t4 by (auto simp: execute_def split: option.splits)
    from verify_commit_result [OF a3 t4 this] show ?thesis .
  qed
qed

text \<open>
  C13: A run of \<open>Execute\<close> on a valid plan commits exactly when it returns no error. If it
  does, every step has been applied; if it returns an error the operation is not committed,
  and should it have been rolled back then no step is left applied, executing or failed.
\<close>

theorem execute_commits_iff_ok:
  assumes "validate_plan (es_rec s) effs = None" and "cur_state s = StateSnapshotted"
    and "execute J effs v s = (r, s')"
  shows "(r = None \<longleftrightarrow> cur_state s' = StateCommitted) \<and>
    (cur_state s' = StateCommitted \<longrightarrow> list_all applied (cur_steps s')) \<and>
    (cur_state s' = StateRolledBack \<longrightarrow> list_all settled (cur_steps s'))"
  using execute_result [OF assms] by (auto simp: success_outcome_def failure_outcome_def split: if_splits)

text \<open>
  The same classification for \<open>Recover\<close>. A plain return inside the loop leaves the
  operation executing.
\<close>

lemma recover_step_result:
  assumes eq: "recover_step J effs i s = (r, s')" and i: "i < length (cur_steps s)"
    and st: "cur_state s = StateExecuting"
  shows "if r = None then only_step i s s' \<and> applied (cur_steps s' ! i)
         else failure_outcome StateExecuting s'"
proof -
  have act: "active_state (cur_state s)" using st by (simp add: active_state_def)
  have fail: "x \<noteq> None \<and> failure_outcome StateExecuting u"
    if "fail_and_rollback J effs c t = (x, u)" "only_step i s t" for c t x u
  proof -
    from that(2) st have "cur_state t = StateExecuting" by (simp add: only_step_def)
    with that(1) show ?thesis
      using fail_and_rollbackD [OF that(1)] by (auto simp: active_state_def intro: failed_failure)
  qed
  have stay: "failure_outcome StateExecuting t" if "only_step i s t" for t
    using that st by (simp add: only_step_def failure_outcome_def)
  obtain ra sa where ap: "apply_step J i (effs ! i) True s = (ra, sa)" by fastforce
  note apr = apply_step_result [OF ap i]
  obtain x s1 where ins: "run_inspect (effs ! i) s = (x, s1)" by fastforce
  have o1: "only_step i s s1" and l1: "i < length (cur_steps s1)" and st1: "cur_steps s1 = cur_steps s"
    using run_inspect_fields [OF ins] i by (auto simp: only_step_def)
  have retry: ?thesis
    if "(case y of (Some e, s2) \<Rightarrow> (Some e, s2)
          | (None, s2) \<Rightarrow>
              (case run_apply (effs ! i) s2 of
                 (Some e, s3) \<Rightarrow> fail_and_rollback J effs (WrapError ''retry step'' e) s3
               | (None, s3) \<Rightarrow>
                   (case verify_step J i (effs ! i) s3 of
                      (Some e, s4) \<Rightarrow> fail_and_rollback J effs e s4
                    | (None, s4) \<Rightarrow> (None, s4)))) = (r, s')"
      and "only_step i s1 (snd y)" for y
  proof -
    obtain r2 s2 where y: "y = (r2, s2)" by fastforce
    obtain r3 s3 where ra: "run_apply (effs ! i) s2 = (r3, s3)" by fastforce
    obtain r4 s4 where ve: "verify_step J i (effs ! i) s3 = (r4, s4)" by fastforce
    have o2: "only_step i s s2" using that(2) y o1 by (auto intro: only_step_trans)
    have o3: "only_step i s s3" using o2 run_apply_fields [OF ra] by (simp add: only_step_def)
    have l3: "i < length (cur_steps s3)" using o3 i by (simp add: only_step_def)
    note vr = verify_step_result [OF ve l3]
    have o4: "only_step i s s4" using o3 vr(1) by (rule only_step_trans)
    from that(1) y ra ve o2 o3 o4 vr(2) show ?thesis
      by (cases r2; cases r3; cases r4) (auto dest: fail intro: stay)
  qed
  have look: ?thesis
    if "step_state (cur_steps s ! i) = st" "st = StepExecuting \<or> st = StepFailed" for st
  proof -
    obtain rt t where tr: "step_transition J i st StepApplied None s1 = (rt, t)" by fastforce
    have ot: "only_step i s t" using o1 step_transition_only [OF tr] by (rule only_step_trans)
    have oe: "only_step i s1 (snd (if st = StepFailed
        then step_transition J i StepFailed StepExecuting None s1 else (None, s1)))"
      by (simp add: step_transition_only_snd)
    show ?thesis
      using eq that ins o1 l1 tr ot step_transition_applied [of J i st None s1 t] retry [OF _ oe]
      unfolding recover_step_def
      by (auto split: sum.splits if_splits dest: fail intro: stay)
  qed
  show ?thesis
  proof (cases "step_state (cur_steps s ! i)")
    case StepPending
    with eq ap apr show ?thesis
      by (cases ra) (auto simp: recover_step_def dest: fail)
  next
    case StepApplied
    with eq show ?thesis by (simp add: recover_step_def applied_def)
  next
    case StepRollingBack
    with eq show ?thesis by (auto simp: recover_step_def dest: fail)
  next
    case StepRolledBack
    with eq show ?thesis by (auto simp: recover_step_def dest: fail)
  next
    case StepExecuting
    then show ?thesis by (intro look) auto
  next
    case StepFailed
    then show ?thesis by (intro look) auto
  qed
qed

lemma recover_steps_result:
  "recover_steps J effs is s = (r, s') \<Longrightarrow> \<forall>i \<in> set is. i < length (cur_steps s) \<Longrightarrow>
   cur_state s = StateExecuting \<Longrightarrow>
   if r = None then applied_on (set is) s s' else failure_outcome StateExecuting s'"
proof (induction "is" arbitrary: s)
  case Nil
  then show ?case by (auto simp: applied_on_def)
next
  case (Cons i "is")
  obtain r1 s1 where eq: "recover_step J effs i s = (r1, s1)" by fastforce
  have res: "if r1 = None then only_step i s s1 \<and> applied (cur_steps s1 ! i)
      else failure_outcome StateExecuting s1"
    using recover_step_result [OF eq] Cons.prems by simp
  show ?case
  proof (cases r1)
    case (Some e)
    with Cons.prems(1) eq res show ?thesis by auto
  next
    case None
    with res have only: "only_step i s s1" "applied (cur_steps s1 ! i)" by auto
    have "if r = None then applied_on (set is) s1 s' else failure_outcome StateExecuting s'"
      using None eq only Cons.prems by (intro Cons.IH) (auto simp: only_step_def)
    with only show ?thesis by (auto intro: applied_on_insert)
  qed
qed

lemma recover_executing_result:
  assumes eq: "recover_executing J effs v s = (r, s')"
    and st: "cur_state s = StateSnapshotted \<or> cur_state s = StateExecuting"
  shows "if r = None then success_outcome s' else failure_outcome (cur_state s) s'"
proof -
  obtain r1 s1 where t1: "(if cur_state s = StateSnapshotted
      then operation_transition J StateSnapshotted StateExecuting None s else (None, s)) = (r1, s1)"
    by fastforce
  have d1: "if r1 = None then cur_state s1 = StateExecuting else cur_state s1 = cur_state s"
    using t1 st by (auto dest!: op_transD split: if_splits)
  obtain r2 s2 where t2: "recover_steps J effs [0..<length (cur_steps s1)] s1 = (r2, s2)" by fastforce
  obtain r3 s3 where t3: "operation_transition J StateExecuting StateVerifying None s2 = (r3, s3)"
    by fastforce
  obtain x s4 where t4: "run_verify v s3 = (x, s4)" by fastforce
  show ?thesis
  proof (cases r1)
    case (Some e)
    with eq t1 d1 show ?thesis by (auto simp: recover_executing_def failure_outcome_def)
  next
    case r1: None
    show ?thesis
    proof (cases r2)
      case (Some e)
      with r1 d1 recover_steps_result [OF t2] have "failure_outcome StateExecuting s2" by auto
      with Some r1 eq t1 t2 show ?thesis
        by (auto simp: recover_executing_def failure_outcome_def)
    next
      case r2: None
      with r1 d1 recover_steps_result [OF t2]
      have on: "applied_on {0..<length (cur_steps s1)} s1 s2" by auto
      then have app: "list_all applied (cur_steps s2)" by (rule applied_on_all)
      have st2: "cur_state s2 = StateExecuting" using on r1 d1 by (simp add: applied_on_def)
      show ?thesis
      proof (cases r3)
        case (Some e)
        with r1 r2 eq t1 t2 t3 st2 op_transD [OF t3] show ?thesis
          by (auto simp: recover_executing_def failure_outcome_def)
      next
        case r3: None
        have a3: "cur_state s3 = StateVerifying" "list_all applied (cur_steps s3)"
          using op_transD [OF t3] r3 app by auto
        have "(case x of Some e \<Rightarrow> fail_and_rollback J effs e s4
               | None \<Rightarrow> operation_transition J StateVerifying StateCommitted None s4) = (r, s')"
          using r1 r2 r3 eq t1 t2 t3 t4 by (auto simp: recover_executing_def split: option.splits)
        from verify_commit_result [where w = "\<lambda>e. e", OF a3 t4 this] show ?thesis .
      qed
    qed
  qed
qed

text \<open>
  The consistency of a record that survives a crash: once the operation is being verified
  or is committed every step is applied, and once it is rolled back none has an effect.
\<close>

definition record_consistent :: "op_record \<Rightarrow> bool" where
  "record_consistent r \<longleftrightarrow>
     (op_state r \<in> {StateVerifying, StateCommitted} \<longrightarrow> list_all applied (op_steps r)) \<and>
     (op_state r = StateRolledBack \<longrightarrow> list_all settled (op_steps r))"

lemma success_consistent: "success_outcome s \<Longrightarrow> record_consistent (es_rec s)"
  by (simp add: success_outcome_def record_consistent_def)

lemma failure_consistent:
  "failure_outcome st s \<Longrightarrow> st \<in> {StateSnapshotted, StateExecuting} \<Longrightarrow> record_consistent (es_rec s)"
  by (auto simp: failure_outcome_def record_consistent_def)

lemma failed_consistent:
  "failed_outcome st s \<Longrightarrow> st \<in> {StateSnapshotted, StateExecuting, StateRollingBack} \<Longrightarrow>
     record_consistent (es_rec s)"
  by (auto simp: failed_outcome_def record_consistent_def)

text \<open>
  C23: \<open>Recover\<close> keeps the consistency of the record, from every durable state in which a crash
  can have left the operation and whatever the journal and the adapters answer.
\<close>

theorem recover_keeps_consistency:
  assumes cons: "record_consistent (es_rec s)"
  shows "record_consistent (es_rec (snd (recover J effs v s)))"
proof -
  obtain r s' where eq: "recover J effs v s = (r, s')" by fastforce
  have ex: "record_consistent (es_rec s')"
    if "recover_executing J effs v s = (r, s')" "cur_state s = StateSnapshotted \<or> cur_state s = StateExecuting"
    using recover_executing_result [OF that] that(2)
    by (auto split: if_splits intro: success_consistent failure_consistent)
  have tr: "record_consistent (es_rec s')"
    if "operation_transition J from to f t = (r, s')" "es_rec t = es_rec s"
      "to \<in> {StateExpired, StateRejected} \<or> (to = StateCommitted \<and> cur_state s = StateVerifying)"
    for "from" to f t
    using op_transD [OF that(1)] that(2,3) cons
    by (auto simp: record_consistent_def split: if_splits)
  have rb: "record_consistent (es_rec s')" if "rollback J effs s = (r, s')" "cur_state s = StateRollingBack"
    using rollback_result [OF that] by (auto simp: rollback_outcome_def record_consistent_def)
  have "record_consistent (es_rec s')"
  proof (cases "validate_plan (es_rec s) effs")
    case None
    show ?thesis
    proof (cases "cur_state s")
      case StateSnapshotted
      obtain r1 s1 where t1: "operation_transition J StateSnapshotted StateRollingBack None s = (r1, s1)"
        by fastforce
      show ?thesis
      proof (cases "list_ex (\<lambda>st. step_state st \<noteq> StepPending) (cur_steps s)")
        case True
        with None StateSnapshotted eq show ?thesis by (intro ex) (auto simp: recover_def)
      next
        case False
        then have set: "list_all settled (cur_steps s)"
          by (auto simp: settled_def list_all_iff list_ex_iff)
        from False None StateSnapshotted eq t1
        have "(case r1 of Some e \<Rightarrow> (Some e, s1) | None \<Rightarrow> finish_rolled_back J s1) = (r, s')"
          by (auto simp: recover_def split: option.splits)
        with set StateSnapshotted op_transD [OF t1] show ?thesis
          by (auto simp: record_consistent_def finish_rolled_back_def split: option.splits if_splits
              dest!: op_transD)
      qed
    next
      case StateVerifying
      obtain x s1 where t1: "run_verify v s = (x, s1)" by fastforce
      have rec: "es_rec s1 = es_rec s" using run_verify_fields [OF t1] by simp
      show ?thesis
      proof (cases x)
        case x: None
        with None StateVerifying eq t1
        have "operation_transition J StateVerifying StateCommitted None s1 = (r, s')"
          by (auto simp: recover_def)
        from tr [OF this rec] StateVerifying show ?thesis by simp
      next
        case (Some e)
        with None StateVerifying eq t1
        have "fail_and_rollback J effs (EngineError ''recovery verification failed'') s1 = (r, s')"
          by (auto simp: recover_def)
        from verifying_fails(2) [OF this, of StateExecuting] rec StateVerifying cons
        have "failure_outcome StateExecuting s'" by (simp add: record_consistent_def)
        then show ?thesis by (rule failure_consistent) simp
      qed
    qed (use None eq cons in \<open>auto simp: recover_def intro: ex rb tr\<close>)
  qed (use eq cons in \<open>auto simp: recover_def\<close>)
  with eq show ?thesis by simp
qed

section \<open>A journal that never fails leads to a terminal state\<close>

definition reliable_journal :: "'j journal \<Rightarrow> bool" where
  "reliable_journal J \<longleftrightarrow> (\<forall>id from to f j. fst (trans_op J id from to f j) = None)"

lemma reliable_transition:
  assumes "reliable_journal J" and "valid_operation_transition from to" and "cur_state s = from"
    and "operation_transition J from to f s = (r, s')"
  shows "r = None" and "cur_state s' = to"
proof -
  have "fst (trans_op J (op_id (es_rec s)) from to f (es_jrn s)) = None"
    using assms(1) by (simp add: reliable_journal_def)
  with assms show "r = None" by (auto simp: operation_transition_def split: prod.splits option.splits)
  with op_transD [OF assms(4)] show "cur_state s' = to" by simp
qed

lemma reliable_rollback_failed:
  assumes "reliable_journal J" and "cur_state s = StateRollingBack" and "rollback_failed J c s = (r, s')"
  shows "cur_state s' = StateRollbackFailed"
proof -
  obtain r1 s1 where t: "operation_transition J StateRollingBack StateRollbackFailed
      (Some (safe_failure ''ROLLBACK_FAILED'' c)) s = (r1, s1)" by fastforce
  from reliable_transition [OF assms(1) _ assms(2) t] t assms(3) show ?thesis
    by (auto simp: rollback_failed_def)
qed

lemma reliable_rollback_step:
  assumes rel: "reliable_journal J" and st: "cur_state s = StateRollingBack"
    and eq: "rollback_step J i eff s = (Some e, s')"
  shows "cur_state s' = StateRollbackFailed"
proof -
  have "\<exists>c t. rollback_failed J c t = (Some e, s') \<and> cur_state t = StateRollingBack"
    using eq st unfolding rollback_step_def Let_def
    by (auto split: prod.splits option.splits if_splits dest!: step_transD restore_effect_fields)
      (metis | force)+
  with rel show ?thesis by (auto dest: reliable_rollback_failed)
qed

lemma reliable_rollback_from:
  "reliable_journal J \<Longrightarrow> cur_state s = StateRollingBack \<Longrightarrow> n \<le> length (cur_steps s) \<Longrightarrow>
   rollback_from J effs n s = (r, s') \<Longrightarrow> is_terminal (cur_state s')"
proof (induction n arbitrary: s)
  case 0
  then have "operation_transition J StateRollingBack StateRolledBack None s = (r, s')"
    by (simp add: finish_rolled_back_def)
  from reliable_transition(2) [OF "0.prems"(1) _ "0.prems"(2) this] show ?case
    by (simp add: is_terminal_def)
next
  case (Suc n)
  obtain r1 s1 where eq: "rollback_step J n (effs ! n) s = (r1, s1)" by fastforce
  show ?case
  proof (cases r1)
    case (Some e)
    with Suc.prems eq reliable_rollback_step show ?thesis by (fastforce simp: is_terminal_def)
  next
    case None
    with rollback_step_result(1) [OF eq Suc.prems(2)] Suc.prems eq show ?thesis
      by (intro Suc.IH [of s1]) auto
  qed
qed

lemma reliable_fail_and_rollback:
  assumes rel: "reliable_journal J" and act: "active_state (cur_state s)"
    and eq: "fail_and_rollback J effs c s = (r, s')"
  shows "is_terminal (cur_state s')"
proof (cases "cur_state s = StateRollingBack")
  case True
  obtain r2 s2 where rb: "rollback J effs s = (r2, s2)" by fastforce
  with True eq have "s' = s2" by (auto simp: fail_and_rollback_def split: option.splits)
  with rb rel True show ?thesis
    unfolding rollback_def by (auto intro: reliable_rollback_from)
next
  case False
  obtain r1 s1 where tr: "operation_transition J (cur_state s) StateRollingBack
      (Some (safe_failure ''OPERATION_FAILED'' c)) s = (r1, s1)" by fastforce
  have "valid_operation_transition (cur_state s) StateRollingBack"
    using act False by (auto simp: active_state_def)
  note t = reliable_transition [OF rel this refl tr]
  obtain r2 s2 where rb: "rollback J effs s1 = (r2, s2)" by fastforce
  from act False have "cur_state s \<in> {StateSnapshotted, StateExecuting, StateVerifying}"
    by (auto simp: active_state_def)
  with eq tr rb t have "s' = s2" by (auto simp: fail_and_rollback_def split: option.splits)
  with rb rel t show ?thesis unfolding rollback_def by (auto intro: reliable_rollback_from)
qed

lemma reliable_execute_steps:
  "reliable_journal J \<Longrightarrow> execute_steps J effs is s = (Some e, s') \<Longrightarrow>
   \<forall>i \<in> set is. i < length (cur_steps s) \<Longrightarrow> cur_state s = StateExecuting \<Longrightarrow>
   is_terminal (cur_state s')"
proof (induction "is" arbitrary: s)
  case (Cons i "is")
  obtain r1 s1 where eq: "apply_step J i (effs ! i) False s = (r1, s1)" by fastforce
  have only: "only_step i s s1" using apply_step_result(1) [OF eq] Cons.prems(3) by simp
  show ?case
  proof (cases r1)
    case (Some e1)
    have "active_state (cur_state s1)"
      using only Cons.prems(4) by (auto simp: only_step_def active_state_def)
    with Some Cons.prems(1,2) eq show ?thesis by (auto dest: reliable_fail_and_rollback)
  next
    case None
    with eq only Cons.prems show ?thesis by (intro Cons.IH [of s1]) (auto simp: only_step_def)
  qed
qed simp

text \<open>
  C20: When the journal accepts every transition, \<open>Execute\<close> on a valid snapshotted plan always
  ends in a terminal state: the operation is committed, rolled back, or marked
  \<open>rollback_failed\<close>, whatever the host adapters answer.
\<close>

theorem execute_reaches_terminal:
  assumes rel: "reliable_journal J" and plan: "validate_plan (es_rec s) effs = None"
    and st: "cur_state s = StateSnapshotted"
  shows "is_terminal (cur_state (snd (execute J effs v s)))"
proof -
  obtain r1 s1 where t1: "operation_transition J StateSnapshotted StateExecuting None s = (r1, s1)"
    by fastforce
  note d1 = reliable_transition [OF rel _ st t1, simplified]
  obtain r2 s2 where t2: "execute_steps J effs [0..<length (cur_steps s1)] s1 = (r2, s2)" by fastforce
  obtain r3 s3 where t3: "operation_transition J StateExecuting StateVerifying None s2 = (r3, s3)"
    by fastforce
  obtain x s4 where t4: "run_verify v s3 = (x, s4)" by fastforce
  obtain r5 s5 where t5: "operation_transition J StateVerifying StateCommitted None s4 = (r5, s5)"
    by fastforce
  show ?thesis
  proof (cases r2)
    case (Some e)
    with plan st t1 d1 t2 reliable_execute_steps [OF rel, of effs _ s1 e s2] show ?thesis
      by (auto simp: execute_def)
  next
    case None
    with d1 execute_steps_result [OF t2] have "cur_state s2 = StateExecuting"
      by (auto simp: applied_on_def)
    note d3 = reliable_transition [OF rel _ this t3, simplified]
    have st4: "cur_state s4 = StateVerifying" using d3 run_verify_fields [OF t4] by simp
    note d5 = reliable_transition [OF rel _ st4 t5, simplified]
    show ?thesis
    proof (cases x)
      case None
      with \<open>r2 = None\<close> plan st t1 d1 t2 t3 d3 t4 t5 d5 show ?thesis
        by (simp add: execute_def is_terminal_def)
    next
      case (Some e)
      obtain r6 s6 where t6: "fail_and_rollback J effs (WrapError ''verify operation'' e) s4 = (r6, s6)"
        by fastforce
      have "is_terminal (cur_state s6)"
        using reliable_fail_and_rollback [OF rel _ t6] st4 by (simp add: active_state_def)
      with Some \<open>r2 = None\<close> plan st t1 d1 t2 t3 d3 t4 t6 show ?thesis by (simp add: execute_def)
    qed
  qed
qed

section \<open>Recovery never retries a non-idempotent effect\<close>

text \<open>
  Two effects that differ at most in what a non-idempotent \<open>Apply\<close> does.
\<close>

definition same_but_apply :: "'h effect \<Rightarrow> 'h effect \<Rightarrow> bool" where
  "same_but_apply e e' \<longleftrightarrow> eff_name e' = eff_name e \<and> eff_inspect e' = eff_inspect e \<and>
     eff_rollback e' = eff_rollback e \<and> eff_idempotent e' = eff_idempotent e \<and>
     (eff_idempotent e \<longrightarrow> eff_apply e' = eff_apply e)"

lemma same_run:
  assumes "same_but_apply e e'"
  shows "run_inspect e' = run_inspect e" and "run_rollback e' = run_rollback e"
    and "eff_idempotent e \<Longrightarrow> run_apply e' = run_apply e"
    and "eff_idempotent e' = eff_idempotent e"
  using assms by (auto simp: same_but_apply_def run_inspect_def run_rollback_def run_apply_def)

lemma same_restore: "same_but_apply e e' \<Longrightarrow> restore_effect e' orig s = restore_effect e orig s"
  unfolding restore_effect_def by (simp only: same_run cong: sum.case_cong option.case_cong if_cong prod.case_cong)

lemma same_rollback_step:
  assumes "same_but_apply e e'"
  shows "rollback_step J i e' s = rollback_step J i e s"
  unfolding rollback_step_def same_restore [OF assms] ..

lemma same_verify_step: "same_but_apply e e' \<Longrightarrow> verify_step J i e' s = verify_step J i e s"
  by (simp add: verify_step_def same_run)

lemma same_apply_step: "same_but_apply e e' \<Longrightarrow> apply_step J i e' True s = apply_step J i e True s"
  unfolding apply_step_def
  by (cases "eff_idempotent e")
    (simp_all add: same_run same_verify_step split: prod.split option.split sum.split)

lemma same_rollback_from:
  "list_all2 same_but_apply effs effs' \<Longrightarrow> n \<le> length effs \<Longrightarrow>
     rollback_from J effs' n s = rollback_from J effs n s"
proof (induction n arbitrary: s)
  case (Suc n)
  then have "same_but_apply (effs ! n) (effs' ! n)" by (simp add: list_all2_nthD)
  with Suc show ?case by (simp add: same_rollback_step split: prod.split option.split)
qed simp

lemma same_rollback:
  "list_all2 same_but_apply effs effs' \<Longrightarrow> length (cur_steps s) = length effs \<Longrightarrow>
     rollback J effs' s = rollback J effs s"
  by (simp add: rollback_def same_rollback_from)

lemma same_fail_and_rollback:
  assumes "list_all2 same_but_apply effs effs'" and "length (cur_steps s) = length effs"
  shows "fail_and_rollback J effs' c s = fail_and_rollback J effs c s"
proof -
  obtain r t where tr: "operation_transition J (cur_state s) StateRollingBack
      (Some (safe_failure ''OPERATION_FAILED'' c)) s = (r, t)" by fastforce
  have "rollback J effs' t = rollback J effs t"
    using same_rollback [OF assms(1), of t J] op_transD [OF tr] assms(2) by simp
  then show ?thesis
    unfolding fail_and_rollback_def tr same_rollback [OF assms, of J]
    by (cases r) simp_all
qed

lemma path_length:
  "apply_step J i e b s = (r, s') \<Longrightarrow> i < length (cur_steps s) \<Longrightarrow> length (cur_steps s') = length (cur_steps s)"
  "verify_step J i e s = (r, s') \<Longrightarrow> i < length (cur_steps s) \<Longrightarrow> length (cur_steps s') = length (cur_steps s)"
  "recover_step J effs i s = (r, s') \<Longrightarrow> i < length (cur_steps s) \<Longrightarrow> length (cur_steps s') = length (cur_steps s)"
  using apply_step_path [of J i e b s r s' s] verify_step_path [of J i e s r s' s]
    recover_step_path [of J effs i s r s' s]
  by (auto dest: engine_steps_length)

lemma run_length:
  "run_inspect e s = (x, s') \<Longrightarrow> length (cur_steps s') = length (cur_steps s)"
  "run_apply e s = (r, s') \<Longrightarrow> length (cur_steps s') = length (cur_steps s)"
  by (auto dest: run_fields)

lemma trans_length:
  "step_transition J i from to f s = (r, s') \<Longrightarrow> length (cur_steps s') = length (cur_steps s)"
  by (auto dest!: step_transD split: if_splits)

lemma same_recover_step:
  assumes same: "list_all2 same_but_apply effs effs'" and len: "length (cur_steps s) = length effs"
    and i: "i < length effs"
  shows "recover_step J effs' i s = recover_step J effs i s"
proof -
  have e: "same_but_apply (effs ! i) (effs' ! i)" using same i by (rule list_all2_nthD)
  have fr: "fail_and_rollback J effs' c t = fail_and_rollback J effs c t"
    if "length (cur_steps t) = length effs" for c t
    using same that by (rule same_fail_and_rollback)
  have ap: "fail_and_rollback J effs' c t = fail_and_rollback J effs c t"
    if "apply_step J i (effs ! i) True s = (r, t)" for c r t
    using path_length(1) [OF that] i len by (intro fr) simp
  have retry: "(case run_apply (effs' ! i) u of
        (Some e, s3) \<Rightarrow> fail_and_rollback J effs' (WrapError ''retry step'' e) s3
      | (None, s3) \<Rightarrow> (case verify_step J i (effs' ! i) s3 of
          (Some e, s4) \<Rightarrow> fail_and_rollback J effs' e s4 | (None, s4) \<Rightarrow> (None, s4))) =
     (case run_apply (effs ! i) u of
        (Some e, s3) \<Rightarrow> fail_and_rollback J effs (WrapError ''retry step'' e) s3
      | (None, s3) \<Rightarrow> (case verify_step J i (effs ! i) s3 of
          (Some e, s4) \<Rightarrow> fail_and_rollback J effs e s4 | (None, s4) \<Rightarrow> (None, s4)))"
    if "length (cur_steps u) = length effs" "eff_idempotent (effs ! i)" for u
  proof -
    obtain r3 s3 where a: "run_apply (effs ! i) u = (r3, s3)" by fastforce
    obtain r4 s4 where v: "verify_step J i (effs ! i) s3 = (r4, s4)" by fastforce
    have "length (cur_steps s3) = length effs" using run_length(2) [OF a] that(1) by simp
    moreover from this have "length (cur_steps s4) = length effs"
      using path_length(2) [OF v] i by simp
    ultimately show ?thesis
      using a v
      by (cases r3; cases r4) (simp_all add: same_verify_step [OF e] same_run(3) [OF e that(2)] fr)
  qed
  obtain x s1 where ins: "run_inspect (effs ! i) s = (x, s1)" by fastforce
  have l1: "length (cur_steps s1) = length effs" using run_length(1) [OF ins] len by simp
  have tl: "length (cur_steps t) = length effs" if "step_transition J i a b f s1 = (r, t)" for a b f r t
    using trans_length [OF that] l1 by simp
  have look: ?thesis if "step_state (cur_steps s ! i) = st" "st = StepExecuting \<or> st = StepFailed" for st
  proof (cases x)
    case (Inl e)
    with that ins l1 show ?thesis
      by (auto simp: recover_step_def same_run(1) [OF e] fr)
  next
    case (Inr fp)
    obtain r2 s2 where t2: "(if st = StepFailed
        then step_transition J i StepFailed StepExecuting None s1 else (None, s1)) = (r2, s2)"
      by fastforce
    then have l2: "length (cur_steps s2) = length effs"
      using tl l1 by (auto split: if_splits)
    from Inr that ins l1 t2 l2 show ?thesis
      by (cases r2) (auto simp: recover_step_def same_run(1,4) [OF e] fr retry)
  qed
  show ?thesis
  proof (cases "step_state (cur_steps s ! i)")
    case StepPending
    obtain ra sa where a: "apply_step J i (effs ! i) True s = (ra, sa)" by fastforce
    with StepPending show ?thesis
      by (cases ra) (auto simp: recover_step_def same_apply_step [OF e] ap)
  next
    case StepExecuting
    then show ?thesis by (intro look) auto
  next
    case StepFailed
    then show ?thesis by (intro look) auto
  qed (simp_all add: recover_step_def fr len)
qed

lemma same_recover_steps:
  "list_all2 same_but_apply effs effs' \<Longrightarrow> length (cur_steps s) = length effs \<Longrightarrow>
   \<forall>i \<in> set is. i < length effs \<Longrightarrow> recover_steps J effs' is s = recover_steps J effs is s"
proof (induction "is" arbitrary: s)
  case (Cons i "is")
  obtain r1 s1 where eq: "recover_step J effs i s = (r1, s1)" by fastforce
  from Cons.prems have "length (cur_steps s1) = length effs"
    using path_length(3) [OF eq] by simp
  with Cons eq show ?case by (cases r1) (auto simp: same_recover_step)
qed simp

lemma same_validate:
  assumes "list_all2 same_but_apply effs effs'"
  shows "validate_plan r effs' = validate_plan r effs"
proof -
  have "steps_match sts effs' = steps_match sts effs" for sts
    using assms
  proof (induction arbitrary: sts rule: list_all2_induct)
    case Nil
    then show ?case by (cases sts) auto
  next
    case (Cons e es e' es')
    then show ?case by (cases sts) (auto simp: same_but_apply_def)
  qed
  then show ?thesis
    using list_all2_lengthD [OF assms] by (simp add: validate_plan_def)
qed

text \<open>
  C18: \<open>Recover\<close> never calls \<open>Apply\<close> of an effect that is not idempotent: what the call
  returns and leaves behind is the same for any two lists of effects that differ only in
  the \<open>Apply\<close> of their non-idempotent members.
\<close>

theorem recover_never_retries_non_idempotent:
  assumes same: "list_all2 same_but_apply effs effs'"
  shows "recover J effs' v s = recover J effs v s"
proof (cases "validate_plan (es_rec s) effs")
  case None
  then have len: "length (cur_steps s) = length effs"
    by (auto simp: validate_plan_def split: if_splits)
  have ex: "recover_executing J effs' v s = recover_executing J effs v s"
  proof -
    obtain r1 s1 where t1: "(if cur_state s = StateSnapshotted
        then operation_transition J StateSnapshotted StateExecuting None s else (None, s)) = (r1, s1)"
      by fastforce
    then have l1: "length (cur_steps s1) = length effs"
      using len by (auto dest!: op_transD split: if_splits)
    obtain r2 s2 where t2: "recover_steps J effs [0..<length (cur_steps s1)] s1 = (r2, s2)" by fastforce
    then have "engine_steps J s1 s2" by (rule recover_steps_all_path) simp
    then have l2: "length (cur_steps s2) = length effs" using l1 by (simp add: engine_steps_length)
    have t2': "recover_steps J effs' [0..<length (cur_steps s1)] s1 = (r2, s2)"
      using same_recover_steps [OF same l1] t2 l1 by simp
    have "fail_and_rollback J effs' c s4 = fail_and_rollback J effs c s4"
      if "operation_transition J a b f s2 = (r, s3)" "run_verify v s3 = (x, s4)" for a b f r s3 x s4 c
      using op_transD [OF that(1)] run_verify_fields [OF that(2)] l2
      by (intro same_fail_and_rollback [OF same]) simp
    then show ?thesis
      unfolding recover_executing_def t1 by (simp add: t2 t2' split: option.split prod.split)
  qed
  have ve: "fail_and_rollback J effs' c t = fail_and_rollback J effs c t"
    if "run_verify v s = (x, t)" for c x t
    using run_verify_fields [OF that] len by (intro same_fail_and_rollback [OF same]) simp
  show ?thesis
    unfolding recover_def
    by (simp add: same_validate [OF same] ex ve same_rollback [OF same len]
        split: option.split op_state.split prod.split)
qed (simp add: recover_def same_validate [OF same])

end
