(* ===== verification/EngineJournal.thy ===== *)
theory EngineJournal
  imports EngineCorrect
begin

text \<open>
  The engine against its two partners. \<open>cas_journal\<close> is the contract the engine needs of
  its journal (a compare-and-set on the stored state, as the \<open>WHERE id = ? AND state = ?\<close> of
  the repository's updates promises); inside it the durable state and the engine's record
  never drift apart. The rollback theorem relates the loop to what the host shows, and the
  last section is the one recovery path the transition table blocks.
\<close>

section \<open>The journal's contract\<close>

definition journal_agrees ::
  "('j \<Rightarrow> string \<Rightarrow> op_state option) \<Rightarrow> ('j \<Rightarrow> string \<Rightarrow> step_state option)
     \<Rightarrow> ('j, 'h) engine_state \<Rightarrow> bool" where
  "journal_agrees so ss s \<longleftrightarrow> distinct (map step_id (cur_steps s)) \<and>
     so (es_jrn s) (op_id (es_rec s)) = Some (cur_state s) \<and>
     list_all (\<lambda>st. ss (es_jrn s) (step_id st) = Some (step_state st)) (cur_steps s)"

locale cas_journal =
  fixes J :: "'j journal"
    and inv :: "'j \<Rightarrow> bool"
    and stored_op :: "'j \<Rightarrow> string \<Rightarrow> op_state option"
    and stored_step :: "'j \<Rightarrow> string \<Rightarrow> step_state option"
  assumes op_cas: "inv j \<Longrightarrow> trans_op J oid from to f j = (None, j') \<Longrightarrow>
      inv j' \<and> stored_op j oid = Some from \<and> stored_op j' = (stored_op j)(oid \<mapsto> to) \<and>
      stored_step j' = stored_step j"
    and op_refuse: "inv j \<Longrightarrow> trans_op J oid from to f j = (Some e, j') \<Longrightarrow>
      inv j' \<and> stored_op j' = stored_op j \<and> stored_step j' = stored_step j"
    and step_cas: "inv j \<Longrightarrow> trans_step J sid sfrom sto f j = (None, j') \<Longrightarrow>
      inv j' \<and> stored_step j sid = Some sfrom \<and> stored_step j' = (stored_step j)(sid \<mapsto> sto) \<and>
      stored_op j' = stored_op j"
    and step_refuse: "inv j \<Longrightarrow> trans_step J sid sfrom sto f j = (Some e, j') \<Longrightarrow>
      inv j' \<and> stored_op j' = stored_op j \<and> stored_step j' = stored_step j"
begin

lemma moved_step_agrees:
  assumes agr: "list_all (\<lambda>st. stored_step j (step_id st) = Some (step_state st)) sts"
    and dist: "distinct (map step_id sts)" and i: "i < length sts"
    and upd: "stored_step j' = (stored_step j)(step_id (sts ! i) \<mapsto> to)"
  shows "list_all (\<lambda>st. stored_step j' (step_id st) = Some (step_state st))
           (sts[i := (sts ! i)\<lparr>step_state := to\<rparr>])"
  unfolding list_all_nth_iff
proof (intro allI impI)
  fix k assume k: "k < length (sts[i := (sts ! i)\<lparr>step_state := to\<rparr>])"
  show "stored_step j' (step_id (sts[i := (sts ! i)\<lparr>step_state := to\<rparr>] ! k)) =
      Some (step_state (sts[i := (sts ! i)\<lparr>step_state := to\<rparr>] ! k))"
  proof (cases "k = i")
    case True
    with k upd show ?thesis by simp
  next
    case False
    with dist i k have "step_id (sts ! k) \<noteq> step_id (sts ! i)"
      by (auto simp: distinct_conv_nth)
    with False k upd agr show ?thesis by (auto simp: list_all_nth_iff)
  qed
qed

lemma engine_step_agrees:
  assumes "engine_step J s s'" and "inv (es_jrn s) \<and> journal_agrees stored_op stored_step s"
  shows "inv (es_jrn s') \<and> journal_agrees stored_op stored_step s'"
  using assms
proof (induction rule: engine_step.induct)
  case (op_moved s to f j)
  then show ?case using op_cas [OF _ op_moved.hyps(2)] by (simp add: journal_agrees_def)
next
  case (op_refused s to f e j)
  then show ?case using op_refuse [OF _ op_refused.hyps] by (simp add: journal_agrees_def)
next
  case (step_moved i s to f j)
  have ids: "map step_id ((cur_steps s)[i := (cur_steps s ! i)\<lparr>step_state := to\<rparr>]) = map step_id (cur_steps s)"
    using step_moved.hyps(1) list_update_id [of "map step_id (cur_steps s)" i] by (simp add: map_update)
  show ?case
    using step_moved step_cas [OF _ step_moved.hyps(3)]
      moved_step_agrees [of "es_jrn s" "cur_steps s" i j to]
    by (simp add: journal_agrees_def ids)
next
  case (step_refused i s to f e j)
  then show ?case using step_refuse [OF _ step_refused.hyps(2)] by (simp add: journal_agrees_def)
next
  case (host_called s h)
  then show ?case by (simp add: journal_agrees_def)
qed

lemma engine_steps_agree:
  "engine_steps J s s' \<Longrightarrow> inv (es_jrn s) \<Longrightarrow> journal_agrees stored_op stored_step s \<Longrightarrow>
     inv (es_jrn s') \<and> journal_agrees stored_op stored_step s'"
  by (induction rule: rtranclp_induct) (auto dest: engine_step_agrees)

lemma execute_agrees:
  "inv (es_jrn s) \<Longrightarrow> journal_agrees stored_op stored_step s \<Longrightarrow>
     inv (es_jrn (snd (execute J effs v s))) \<and> journal_agrees stored_op stored_step (snd (execute J effs v s))"
  by (rule engine_steps_agree [OF execute_path])

lemma recover_agrees:
  "inv (es_jrn s) \<Longrightarrow> journal_agrees stored_op stored_step s \<Longrightarrow>
     inv (es_jrn (snd (recover J effs v s))) \<and> journal_agrees stored_op stored_step (snd (recover J effs v s))"
  by (rule engine_steps_agree [OF recover_path])

end

section \<open>Paths of the operation state\<close>

lemma engine_step_edge:
  "engine_step J s s' \<Longrightarrow> valid_operation_transition\<^sup>*\<^sup>* (cur_state s) (cur_state s')"
  by (induction rule: engine_step.induct) auto

lemma engine_steps_edges:
  "engine_steps J s s' \<Longrightarrow> valid_operation_transition\<^sup>*\<^sup>* (cur_state s) (cur_state s')"
  by (induction rule: rtranclp_induct) (auto dest: engine_step_edge intro: rtranclp_trans)

lemma terminal_no_edge: "is_terminal st \<Longrightarrow> \<not> valid_operation_transition st st'"
  by (cases st) (auto simp: is_terminal_def)

lemma terminal_absorbing: "valid_operation_transition\<^sup>*\<^sup>* st st' \<Longrightarrow> is_terminal st \<Longrightarrow> st' = st"
  by (induction rule: converse_rtranclp_induct) (auto dest: terminal_no_edge)

text \<open>
  C27: A terminal operation stays as it is: \<open>Execute\<close> and \<open>Recover\<close> leave its state unchanged,
  and every other run moves the state only along edges of the transition table.
\<close>

theorem engine_moves_along_table:
  "valid_operation_transition\<^sup>*\<^sup>* (cur_state s) (cur_state (snd (execute J effs v s))) \<and>
   valid_operation_transition\<^sup>*\<^sup>* (cur_state s) (cur_state (snd (recover J effs v s))) \<and>
   (if is_terminal (cur_state s)
    then cur_state (snd (execute J effs v s)) = cur_state s \<and>
         cur_state (snd (recover J effs v s)) = cur_state s
    else True)"
  using engine_steps_edges [OF execute_path [of J s effs v]] engine_steps_edges [OF recover_path [of J s effs v]]
  by (auto dest: terminal_absorbing)

section \<open>Rollback and the host\<close>

text \<open>
  \<open>observes effs obs\<close>: \<open>obs i\<close> is what the \<open>i\<close>-th adapter shows of the host. Inspecting changes
  nothing and reports \<open>obs i\<close> when it succeeds; undoing one effect leaves what the others show.
\<close>

definition observes :: "'h effect list \<Rightarrow> (nat \<Rightarrow> 'h \<Rightarrow> string) \<Rightarrow> bool" where
  "observes effs obs \<longleftrightarrow> (\<forall>i < length effs.
     (\<forall>h. snd (eff_inspect (effs ! i) h) = h) \<and>
     (\<forall>h fp. fst (eff_inspect (effs ! i) h) = Inr fp \<longrightarrow> fp = obs i h) \<and>
     (\<forall>h j. j \<noteq> i \<longrightarrow> obs j (snd (eff_rollback (effs ! i) h)) = obs j h))"

lemma observes_inspect:
  assumes "observes effs obs" and "i < length effs" and "run_inspect (effs ! i) s = (x, s')"
  shows "s' = s" and "x = Inr fp \<Longrightarrow> fp = obs i (es_host s)"
proof -
  have h: "snd (eff_inspect (effs ! i) (es_host s)) = es_host s"
    and fp: "\<And>fp. fst (eff_inspect (effs ! i) (es_host s)) = Inr fp \<Longrightarrow> fp = obs i (es_host s)"
    using assms(1,2) by (auto simp: observes_def)
  from h assms(3) show "s' = s" by (auto simp: run_inspect_def split: prod.splits)
  from fp assms(3) show "x = Inr fp \<Longrightarrow> fp = obs i (es_host s)"
    by (auto simp: run_inspect_def split: prod.splits)
qed

lemma observes_rollback:
  assumes "observes effs obs" and "i < length effs" and "run_rollback (effs ! i) s = (x, s')" and "j \<noteq> i"
  shows "obs j (es_host s') = obs j (es_host s)"
proof -
  have "es_host s' = snd (eff_rollback (effs ! i) (es_host s))"
    using assms(3) by (auto simp: run_rollback_def split: prod.splits)
  with assms(1,2,4) show ?thesis by (simp add: observes_def)
qed

lemma observes_restore:
  assumes obs: "observes effs obs" and i: "i < length effs"
    and eq: "restore_effect (effs ! i) orig s = (None, s')"
  shows "obs i (es_host s') = orig" and "j \<noteq> i \<Longrightarrow> obs j (es_host s') = obs j (es_host s)"
proof -
  obtain x s1 where ins: "run_inspect (effs ! i) s = (x, s1)" by fastforce
  note o1 = observes_inspect [OF obs i ins]
  from eq ins obtain fp where x: "x = Inr fp" by (auto simp: restore_effect_def split: sum.splits)
  have "obs i (es_host s') = orig \<and> (j \<noteq> i \<longrightarrow> obs j (es_host s') = obs j (es_host s))"
  proof (cases "fp = orig")
    case True
    with eq ins x o1 show ?thesis by (auto simp: restore_effect_def)
  next
    case False
    obtain r2 s2 where rb: "run_rollback (effs ! i) s1 = (r2, s2)" by fastforce
    obtain y s3 where ins2: "run_inspect (effs ! i) s2 = (y, s3)" by fastforce
    note o2 = observes_inspect [OF obs i ins2]
    from False eq ins x rb ins2 have "y = Inr orig" "s' = s3"
      by (auto simp: restore_effect_def split: option.splits sum.splits if_splits)
    with o1 o2 observes_rollback [OF obs i rb] show ?thesis by auto
  qed
  then show "obs i (es_host s') = orig" and "j \<noteq> i \<Longrightarrow> obs j (es_host s') = obs j (es_host s)" by auto
qed

lemma observes_rollback_step:
  assumes obs: "observes effs obs" and i: "i < length effs" "i < length (cur_steps s)"
    and eq: "rollback_step J i (effs ! i) s = (None, s')"
  shows "\<not> settled (cur_steps s ! i) \<Longrightarrow>
      step_state (cur_steps s' ! i) = StepRolledBack \<and> obs i (es_host s') = original_fp (cur_steps s ! i)"
    and "j \<noteq> i \<Longrightarrow> obs j (es_host s') = obs j (es_host s) \<and> cur_steps s' ! j = cur_steps s ! j"
    and "length (cur_steps s') = length (cur_steps s)"
proof -
  have "(\<not> settled (cur_steps s ! i) \<longrightarrow> step_state (cur_steps s' ! i) = StepRolledBack \<and>
          obs i (es_host s') = original_fp (cur_steps s ! i)) \<and>
        (j \<noteq> i \<longrightarrow> obs j (es_host s') = obs j (es_host s) \<and> cur_steps s' ! j = cur_steps s ! j) \<and>
        length (cur_steps s') = length (cur_steps s)"
  proof (cases "settled (cur_steps s ! i)")
    case True
    with eq show ?thesis by (auto simp: settled_def rollback_step_def)
  next
    case False
    then have st: "step_state (cur_steps s ! i) \<in> {StepApplied, StepExecuting, StepFailed, StepRollingBack}"
      by (cases "step_state (cur_steps s ! i)") (auto simp: settled_def)
    let ?st = "step_state (cur_steps s ! i)"
    obtain r1 s1 where t1: "(if ?st \<noteq> StepRollingBack then step_transition J i ?st StepRollingBack None s
        else (None, s)) = (r1, s1)" by fastforce
    obtain r2 s2 where t2: "restore_effect (effs ! i) (original_fp (cur_steps s1 ! i)) s1 = (r2, s2)" by fastforce
    obtain r3 s3 where t3: "step_transition J i StepRollingBack StepRolledBack None s2 = (r3, s3)" by fastforce
    from eq st t1 t2 t3 have n: "r1 = None" "r2 = None" "r3 = None" "s' = s3"
      unfolding rollback_step_def Let_def
      by (auto split: option.splits if_splits dest: rollback_failedD)
    have s1: "es_host s1 = es_host s" "original_fp (cur_steps s1 ! i) = original_fp (cur_steps s ! i)"
      "length (cur_steps s1) = length (cur_steps s)" "j \<noteq> i \<Longrightarrow> cur_steps s1 ! j = cur_steps s ! j"
      using t1 n(1) i(2) by (auto split: if_splits dest!: step_transD)
    have s2: "es_rec s2 = es_rec s1" using restore_effect_fields [OF t2] by simp
    have s3: "es_host s3 = es_host s2" "cur_steps s3 = (cur_steps s2)[i := (cur_steps s2 ! i)\<lparr>step_state := StepRolledBack\<rparr>]"
      using step_transD [OF t3] n(3) by auto
    show ?thesis
      using observes_restore [OF obs i(1) t2 [unfolded n(2)]] s1 s2 s3 n(4) i(2) by auto
  qed
  then show "\<not> settled (cur_steps s ! i) \<Longrightarrow>
      step_state (cur_steps s' ! i) = StepRolledBack \<and> obs i (es_host s') = original_fp (cur_steps s ! i)"
    and "j \<noteq> i \<Longrightarrow> obs j (es_host s') = obs j (es_host s) \<and> cur_steps s' ! j = cur_steps s ! j"
    and "length (cur_steps s') = length (cur_steps s)" by auto
qed

lemma observes_rollback_from:
  "rollback_from J effs n s = (None, s') \<Longrightarrow> n \<le> length effs \<Longrightarrow> length (cur_steps s) = length effs \<Longrightarrow>
   observes effs obs \<Longrightarrow> i < length effs \<Longrightarrow>
   if i < n \<and> \<not> settled (cur_steps s ! i)
   then step_state (cur_steps s' ! i) = StepRolledBack \<and> obs i (es_host s') = original_fp (cur_steps s ! i)
   else i < n \<or> (obs i (es_host s') = obs i (es_host s) \<and> cur_steps s' ! i = cur_steps s ! i)"
proof (induction n arbitrary: s)
  case 0
  then show ?case by (auto simp: finish_rolled_back_def dest!: op_transD)
next
  case (Suc n)
  obtain r1 s1 where eq: "rollback_step J n (effs ! n) s = (r1, s1)" by fastforce
  with Suc.prems(1) have r1: "r1 = None" by (auto split: option.splits)
  note eqN = eq [unfolded r1]
  have n: "n < length effs" "n < length (cur_steps s)" using Suc.prems by auto
  note st = observes_rollback_step [OF Suc.prems(4) n eqN]
  have IH: "if i < n \<and> \<not> settled (cur_steps s1 ! i)
    then step_state (cur_steps s' ! i) = StepRolledBack \<and> obs i (es_host s') = original_fp (cur_steps s1 ! i)
    else i < n \<or> (obs i (es_host s') = obs i (es_host s1) \<and> cur_steps s' ! i = cur_steps s1 ! i)"
    using eqN Suc.prems st(3) by (intro Suc.IH) auto
  show ?case
  proof (cases "i = n")
    case True
    with IH st(1) show ?thesis by auto
  next
    case False
    with IH st(2) [of i] show ?thesis by auto
  qed
qed

text \<open>
  C16: A rollback that reports success has put the host back: every step that was applied,
  executing, failed or half rolled back is now rolled back, and its adapter shows the
  fingerprint the plan recorded as the original.
\<close>

theorem rollback_restores_host:
  assumes "observes effs obs" and "length (cur_steps s) = length effs"
    and "rollback J effs s = (None, s')" and "i < length effs" and "\<not> settled (cur_steps s ! i)"
  shows "step_state (cur_steps s' ! i) = StepRolledBack \<and>
    obs i (es_host s') = original_fp (cur_steps s ! i)"
  using observes_rollback_from [of J effs "length (cur_steps s)" s s' obs i] assms
  by (simp add: rollback_def)

section \<open>A failed step whose effect took place\<close>

lemma recover_steps_skip:
  "\<forall>j \<in> set is1. step_state (cur_steps s ! j) = StepApplied \<Longrightarrow>
     recover_steps J effs (is1 @ is2) s = recover_steps J effs is2 s"
  by (induction is1) (auto simp: recover_step_def)

text \<open>
  When the operation crashed while executing, with a step journalled as failed although its
  proposed fingerprint is on the host, \<open>Recover\<close> asks for the transition failed to applied,
  which the table does not have. It returns that error and leaves the record and the journal as
  they were, so every later recovery meets the same state again.
\<close>

theorem recover_stuck_on_failed_step:
  assumes plan: "validate_plan (es_rec s) effs = None" and st: "cur_state s = StateExecuting"
    and i: "i < length (cur_steps s)" and bad: "step_state (cur_steps s ! i) = StepFailed"
    and before: "\<forall>j < i. step_state (cur_steps s ! j) = StepApplied"
    and ins: "eff_inspect (effs ! i) (es_host s) = (Inr (proposed_fp (cur_steps s ! i)), h)"
  shows "recover J effs v s = (Some (EngineError ''invalid step transition''), s\<lparr>es_host := h\<rparr>)"
proof -
  have split: "[0..<length (cur_steps s)] = [0..<i] @ i # [Suc i..<length (cur_steps s)]"
    using upt_add_eq_append [of 0 i "length (cur_steps s) - i"] upt_conv_Cons [OF i] i by simp
  have "recover_steps J effs [0..<length (cur_steps s)] s =
      recover_steps J effs (i # [Suc i..<length (cur_steps s)]) s"
    unfolding split using before by (intro recover_steps_skip) simp
  moreover have "recover_step J effs i s = (Some (EngineError ''invalid step transition''), s\<lparr>es_host := h\<rparr>)"
    using bad ins by (simp add: recover_step_def run_inspect_def step_transition_def)
  ultimately show ?thesis
    using plan st by (simp add: recover_def recover_executing_def)
qed

section \<open>Witnesses\<close>

definition demo_journal :: "unit journal" where
  "demo_journal = \<lparr>trans_op = \<lambda>_ _ _ _ j. (None, j), trans_step = \<lambda>_ _ _ _ j. (None, j)\<rparr>"

definition cell_effect :: "string \<Rightarrow> nat \<Rightarrow> string \<Rightarrow> string \<Rightarrow> bool \<Rightarrow> string list effect" where
  "cell_effect name i orig prop idem =
     \<lparr>eff_name = name, eff_inspect = \<lambda>h. (Inr (h ! i), h),
      eff_apply = \<lambda>h. (None, h[i := prop]), eff_rollback = \<lambda>h. (None, h[i := orig]),
      eff_idempotent = idem\<rparr>"

definition demo_step :: "string \<Rightarrow> int \<Rightarrow> step_state \<Rightarrow> step_record" where
  "demo_step name k st =
     \<lparr>step_id = name, step_order = k, step_name = name, step_kind = ''file'', step_state = st,
      original_fp = ''old'', proposed_fp = ''new'', step_error = []\<rparr>"

definition demo_record :: "op_state \<Rightarrow> step_state list \<Rightarrow> op_record" where
  "demo_record st sts =
     \<lparr>op_id = ''op'', op_interface_id = ''if'', op_type = ''create_peer'', op_state = st,
      expected_revision = None, proposed_diff_json = [], op_error_code = [], op_error_message = [],
      op_created_at = 0, op_updated_at = 0, op_finished_at = 0,
      op_steps = map2 (\<lambda>(n, k). demo_step n k) [(''one'', 1), (''two'', 2)] sts\<rparr>"

definition demo_effects :: "string list effect list" where
  "demo_effects = 
     [cell_effect ''one'' 0 ''old'' ''new'' True, cell_effect ''two'' 1 ''old'' ''new'' False]"

definition demo_start :: "op_state \<Rightarrow> step_state list \<Rightarrow> string list \<Rightarrow> (unit, string list) engine_state" where
  "demo_start st sts h = \<lparr>es_rec = demo_record st sts, es_jrn = (), es_host = h\<rparr>"

lemmas demo_defs = demo_journal_def cell_effect_def demo_step_def demo_record_def demo_effects_def
  demo_start_def

lemma demo_observes: "observes demo_effects (\<lambda>i h. h ! i)"
  by (auto simp: observes_def demo_effects_def cell_effect_def less_Suc_eq nth_Cons')

lemma demo_plan: "validate_plan (demo_record st [a, b]) demo_effects = None"
  by (simp add: demo_defs validate_plan_def upto.simps)

lemma demo_start_fields:
  "validate_plan (es_rec (demo_start st [a, b] h)) demo_effects = None"
  "cur_state (demo_start st [a, b] h) = st"
  "map step_state (cur_steps (demo_start st [a, b] h)) = [a, b]"
  "es_host (demo_start st [a, b] h) = h"
  by (simp add: demo_start_def demo_plan) (simp_all add: demo_defs)

lemmas demo_eval = demo_defs validate_plan_def execute_def recover_def recover_executing_def
  recover_step_def apply_step_def verify_step_def operation_transition_def step_transition_def
  set_op_state_def set_step_state_def run_inspect_def run_apply_def run_rollback_def run_verify_def
  rollback_def rollback_step_def restore_effect_def finish_rolled_back_def fail_and_rollback_def
  is_terminal_def upt_conv_Cons

lemma execute_commits_iff_ok_witness:
  "cur_state (snd (execute demo_journal demo_effects None
      (demo_start StateSnapshotted [StepPending, StepPending] [''old'', ''old'']))) = StateCommitted \<and>
   cur_state (snd (execute demo_journal demo_effects (Some (Pair (Some Canceled)))
      (demo_start StateSnapshotted [StepPending, StepPending] [''old'', ''old'']))) = StateRolledBack \<and>
   es_host (snd (execute demo_journal demo_effects (Some (Pair (Some Canceled)))
      (demo_start StateSnapshotted [StepPending, StepPending] [''old'', ''old'']))) = [''old'', ''old'']"
proof -
  let ?s = "demo_start StateSnapshotted [StepPending, StepPending] [''old'', ''old'']"
  obtain r s' where eq: "execute demo_journal demo_effects None ?s = (r, s')" by fastforce
  have "fst (execute demo_journal demo_effects None ?s) = None"
    by code_simp
  with execute_commits_iff_ok [OF demo_start_fields(1,2) eq] eq
  have "cur_state (snd (execute demo_journal demo_effects None ?s)) = StateCommitted" by simp
  moreover have "cur_state (snd (execute demo_journal demo_effects (Some (Pair (Some Canceled))) ?s)) = StateRolledBack"
    "es_host (snd (execute demo_journal demo_effects (Some (Pair (Some Canceled))) ?s)) = [''old'', ''old'']"
    by code_simp+
  ultimately show ?thesis by simp
qed

lemma recover_keeps_consistency_witness:
  "record_consistent (es_rec (snd (recover demo_journal demo_effects None
      (demo_start StateExecuting [StepApplied, StepExecuting] [''new'', ''new''])))) \<and>
   cur_state (snd (recover demo_journal demo_effects None
      (demo_start StateExecuting [StepApplied, StepExecuting] [''new'', ''new'']))) = StateCommitted"
proof -
  let ?s = "demo_start StateExecuting [StepApplied, StepExecuting] [''new'', ''new'']"
  have "record_consistent (es_rec ?s)" by (simp add: demo_defs record_consistent_def)
  moreover have "cur_state (snd (recover demo_journal demo_effects None ?s)) = StateCommitted"
    by code_simp
  ultimately show ?thesis using recover_keeps_consistency [of ?s demo_journal demo_effects None] by simp
qed

lemma execute_reaches_terminal_witness:
  "is_terminal (cur_state (snd (execute demo_journal demo_effects (Some (Pair (Some Canceled)))
     (demo_start StateSnapshotted [StepPending, StepPending] [''old'', ''drift'']))))"
  by (rule execute_reaches_terminal)
    (simp_all add: reliable_journal_def demo_journal_def demo_start_fields)

lemma recover_never_retries_non_idempotent_witness:
  "recover demo_journal (demo_effects[1 := (demo_effects ! 1)\<lparr>eff_apply := \<lambda>h. (Some Canceled, [])\<rparr>]) None
     (demo_start StateExecuting [StepPending, StepExecuting] [''old'', ''old'']) =
   recover demo_journal demo_effects None
     (demo_start StateExecuting [StepPending, StepExecuting] [''old'', ''old'']) \<and>
   cur_state (snd (recover demo_journal demo_effects None
     (demo_start StateExecuting [StepPending, StepExecuting] [''old'', ''old'']))) = StateRolledBack"
proof -
  have "list_all2 same_but_apply demo_effects
      (demo_effects[1 := (demo_effects ! 1)\<lparr>eff_apply := \<lambda>h. (Some Canceled, [])\<rparr>])"
    by (simp add: demo_effects_def cell_effect_def same_but_apply_def)
  moreover have "cur_state (snd (recover demo_journal demo_effects None
     (demo_start StateExecuting [StepPending, StepExecuting] [''old'', ''old'']))) = StateRolledBack"
    by code_simp
  ultimately show ?thesis by (simp add: recover_never_retries_non_idempotent)
qed

lemma rollback_restores_host_witness:
  "es_host (snd (rollback demo_journal demo_effects
     (demo_start StateRollingBack [StepApplied, StepExecuting] [''new'', ''half'']))) ! 1 = ''old''"
proof -
  let ?s = "demo_start StateRollingBack [StepApplied, StepExecuting] [''new'', ''half'']"
  obtain r s' where eq: "rollback demo_journal demo_effects ?s = (r, s')" by fastforce
  moreover have "fst (rollback demo_journal demo_effects ?s) = None"
    by code_simp
  ultimately have "rollback demo_journal demo_effects ?s = (None, s')" by simp
  with rollback_restores_host [OF demo_observes _ this, of 1] eq show ?thesis
    by (simp add: demo_defs settled_def)
qed

lemma recover_stuck_on_failed_step_witness:
  "recover demo_journal demo_effects None (demo_start StateExecuting [StepApplied, StepFailed] [''new'', ''new'']) =
     (Some (EngineError ''invalid step transition''),
      demo_start StateExecuting [StepApplied, StepFailed] [''new'', ''new''])"
proof -
  let ?s = "demo_start StateExecuting [StepApplied, StepFailed] [''new'', ''new'']"
  have "recover demo_journal demo_effects None ?s =
      (Some (EngineError ''invalid step transition''), ?s\<lparr>es_host := [''new'', ''new'']\<rparr>)"
    by (rule recover_stuck_on_failed_step [where i = 1])
      (simp_all add: demo_start_fields, simp_all add: demo_defs)
  then show ?thesis by (simp add: demo_start_def)
qed

end
