(* ===== verification/OperationStore.thy ===== *)
theory OperationStore
  imports AgentDb EngineJournal "HOL-Library.List_Lexorder" "HOL-Library.Product_Lexorder" "HOL-Library.Char_ord"
begin

text \<open>
  \<^verbatim>\<open>src/internal/agent/repository/operation_store.go\<close>: how operations and their steps are
  stored. Every method is a function of the database and of what it takes from outside (the
  clock's readings, the identifiers). SQLite orders TEXT bytewise, which is the
  lexicographic order of \<open>List_Lexorder\<close> on \<open>string\<close>.
\<close>

section \<open>States as stored\<close>

fun op_state_name :: "op_state \<Rightarrow> string" where
  "op_state_name StatePending = ''pending''"
| "op_state_name StateValidated = ''validated''"
| "op_state_name StateSnapshotted = ''snapshotted''"
| "op_state_name StateExecuting = ''executing''"
| "op_state_name StateVerifying = ''verifying''"
| "op_state_name StateCommitted = ''committed''"
| "op_state_name StateRollingBack = ''rolling_back''"
| "op_state_name StateRolledBack = ''rolled_back''"
| "op_state_name StateRollbackFailed = ''rollback_failed''"
| "op_state_name StateRejected = ''rejected''"
| "op_state_name StateExpired = ''expired''"

definition all_op_states :: "op_state list" where
  "all_op_states = [StatePending, StateValidated, StateSnapshotted, StateExecuting, StateVerifying,
     StateCommitted, StateRollingBack, StateRolledBack, StateRollbackFailed, StateRejected, StateExpired]"

definition valid_stored_operation_state :: "string \<Rightarrow> bool" where
  "valid_stored_operation_state s = (s \<in> set (map op_state_name all_op_states))"

section \<open>Reading operations\<close>

record operation_metadata =
  om_id :: string
  om_interface_id :: string
  om_type :: string
  om_state :: op_state
  om_actor_id :: string
  om_actor_role :: string
  om_request_id :: string
  om_reason :: string
  om_intent_json :: string
  om_proposed_file_hash :: string
  om_expected_revision :: "int option"
  om_original_file_hash :: string
  om_original_runtime_hash :: string
  om_expires_at :: time

definition row_step :: "step_row \<Rightarrow> step_record" where
  "row_step r = \<lparr>step_id = s_id r, step_order = s_order r, step_name = s_name r,
     step_kind = s_effect_kind r, step_state = s_state r,
     original_fp = coalesce (s_original_fingerprint r),
     proposed_fp = coalesce (s_proposed_fingerprint r), step_error = coalesce (s_error r)\<rparr>"

definition operation_steps :: "string \<Rightarrow> agent_db \<Rightarrow> step_record list" where
  "operation_steps oid db =
     map row_step (sort_key s_order (filter (\<lambda>r. s_operation_id r = oid) (db_steps db)))"

definition row_record :: "operation_row \<Rightarrow> step_record list \<Rightarrow> op_record" where
  "row_record r steps =
     \<lparr>op_id = o_id r, op_interface_id = coalesce (o_interface_id r), op_type = o_type r,
      op_state = o_state r, expected_revision = o_expected_revision r,
      proposed_diff_json = coalesce (o_proposed_diff_json r),
      op_error_code = coalesce (o_error_code r), op_error_message = coalesce (o_error_message r),
      op_created_at = of_milli (o_created_at_ms r), op_updated_at = of_milli (o_updated_at_ms r),
      op_finished_at = (case o_finished_at_ms r of None \<Rightarrow> zero_time | Some ms \<Rightarrow> of_milli ms),
      op_steps = steps\<rparr>"

definition get_operation :: "string \<Rightarrow> agent_db \<Rightarrow> repo_error + op_record" where
  "get_operation oid db =
     bind_r (query_row (\<lambda>r. o_id r = oid) (db_operations db)) (\<lambda>r.
     Inr (row_record r (operation_steps oid db)))"

definition get_operation_metadata :: "string \<Rightarrow> agent_db \<Rightarrow> repo_error + operation_metadata" where
  "get_operation_metadata oid db =
     bind_r (query_row (\<lambda>r. o_id r = oid) (db_operations db)) (\<lambda>r.
     Inr \<lparr>om_id = o_id r, om_interface_id = coalesce (o_interface_id r), om_type = o_type r,
          om_state = o_state r, om_actor_id = o_actor_id r, om_actor_role = o_actor_role r,
          om_request_id = o_request_id r, om_reason = coalesce (o_reason r),
          om_intent_json = o_intent_json r, om_proposed_file_hash = coalesce (o_proposed_file_hash r),
          om_expected_revision = o_expected_revision r,
          om_original_file_hash = coalesce (o_original_file_hash r),
          om_original_runtime_hash = coalesce (o_original_runtime_hash r),
          om_expires_at = (case o_expires_at_ms r of None \<Rightarrow> zero_time | Some ms \<Rightarrow> of_milli ms)\<rparr>)"

text \<open>The \<open>WHERE\<close> clause and the ordering of \<open>ListOperations\<close>.\<close>

definition listed :: "string \<Rightarrow> string \<Rightarrow> int \<Rightarrow> string \<Rightarrow> operation_row \<Rightarrow> bool" where
  "listed iid st before_ms before_id r \<longleftrightarrow>
     (iid = [] \<or> o_interface_id r = Some iid) \<and> (st = [] \<or> op_state_name (o_state r) = st) \<and>
     (before_ms = 0 \<or> o_created_at_ms r < before_ms \<or> (o_created_at_ms r = before_ms \<and> o_id r < before_id))"

definition newest_first :: "operation_row list \<Rightarrow> operation_row list" where
  "newest_first t = rev (sort_key (\<lambda>r. (o_created_at_ms r, o_id r)) t)"

definition list_operations ::
  "string \<Rightarrow> string \<Rightarrow> int \<Rightarrow> time \<Rightarrow> string \<Rightarrow> agent_db \<Rightarrow> repo_error + op_record list" where
  "list_operations iid st page_size before before_id db =
     bind_r (check (\<not> (page_size < 1 \<or> page_size > 201))
               (RepoError ''operation repository page size must be between 1 and 201'')) (\<lambda>_.
     bind_r (check (\<not> (st \<noteq> [] \<and> \<not> valid_stored_operation_state st))
               (RepoError ''invalid operation state filter'')) (\<lambda>_.
     bind_r (check (\<not> (before \<noteq> zero_time \<and> before_id = []))
               (RepoError ''operation cursor requires an ID'')) (\<lambda>_.
     let before_ms = (if before = zero_time then 0 else unix_milli before) in
     map_r (\<lambda>r. get_operation (o_id r) db)
       (take (nat page_size) (newest_first (filter (listed iid st before_ms before_id) (db_operations db)))))))"

text \<open>\<open>ORDER BY created_at_ms\<close> leaves ties to SQLite; the model keeps the table's order.\<close>

definition recoverable_operations :: "agent_db \<Rightarrow> repo_error + op_record list" where
  "recoverable_operations db =
     map_r (\<lambda>r. get_operation (o_id r) db)
       (sort_key o_created_at_ms (filter (\<lambda>r. active_op_state (o_state r)) (db_operations db)))"

section \<open>Creating an operation\<close>

record create_operation_input =
  ci_interface_id :: string
  ci_type :: string
  ci_intent_json :: string
  ci_idempotency_key :: string
  ci_actor_id :: string
  ci_actor_role :: string
  ci_request_id :: string
  ci_reason :: string
  ci_expected_revision :: "int option"
  ci_original_file_hash :: string
  ci_proposed_file_hash :: string
  ci_original_runtime_hash :: string
  ci_proposed_diff_json :: string
  ci_expires_at :: time
  ci_steps :: "step_record list"

definition same_request :: "create_operation_input \<Rightarrow> operation_row \<Rightarrow> bool" where
  "same_request inp r \<longleftrightarrow> o_actor_id r = ci_actor_id inp \<and> o_type r = ci_type inp \<and>
     o_idempotency_key r = ci_idempotency_key inp"

text \<open>A pending preview of the same actor and action is superseded.\<close>

definition superseded :: "create_operation_input \<Rightarrow> operation_row \<Rightarrow> bool" where
  "superseded inp r \<longleftrightarrow> o_interface_id r = Some (ci_interface_id inp) \<and> o_actor_id r = ci_actor_id inp \<and>
     o_type r = ci_type inp \<and> o_state r = StatePending"

definition supersede :: "time \<Rightarrow> operation_row \<Rightarrow> operation_row" where
  "supersede now r = r\<lparr>o_state := StateExpired, o_error_code := Some ''PREVIEW_SUPERSEDED'',
     o_error_message := Some ''superseded by a newer preview'',
     o_updated_at_ms := unix_milli now, o_finished_at_ms := Some (unix_milli now)\<rparr>"

definition new_operation_row :: "create_operation_input \<Rightarrow> string \<Rightarrow> time \<Rightarrow> operation_row" where
  "new_operation_row inp oid now =
     \<lparr>o_id = oid, o_interface_id = nullable (ci_interface_id inp), o_type = ci_type inp,
      o_state = StatePending, o_plan_version = 1, o_intent_json = ci_intent_json inp,
      o_idempotency_key = ci_idempotency_key inp, o_actor_id = ci_actor_id inp,
      o_actor_role = ci_actor_role inp, o_request_id = ci_request_id inp,
      o_reason = nullable (ci_reason inp), o_expected_revision = ci_expected_revision inp,
      o_original_file_hash = nullable (ci_original_file_hash inp),
      o_proposed_file_hash = nullable (ci_proposed_file_hash inp),
      o_original_runtime_hash = nullable (ci_original_runtime_hash inp),
      o_proposed_diff_json = nullable (ci_proposed_diff_json inp),
      o_error_code = None, o_error_message = None,
      o_expires_at_ms = (if ci_expires_at inp = zero_time then None else Some (unix_milli (ci_expires_at inp))),
      o_created_at_ms = unix_milli now, o_updated_at_ms = unix_milli now, o_finished_at_ms = None\<rparr>"

text \<open>One turn of the loop over the steps: the step as it is returned, and the database after it.\<close>

definition insert_plan_step ::
  "id_source \<Rightarrow> time \<Rightarrow> string \<Rightarrow> nat \<times> step_record \<Rightarrow> step_record list \<times> agent_db
     \<Rightarrow> repo_error + step_record list \<times> agent_db" where
  "insert_plan_step gen now oid = (\<lambda>(k, st) (done, db).
     bind_r (if step_id st = [] then gen (Suc k) (now + int (Suc k)) else Inr (step_id st)) (\<lambda>sid.
     let st' = st\<lparr>step_id := sid, step_order := int k + 1, step_state := StepPending\<rparr> in
     bind_r (check (\<not> (step_kind st' = [] \<or> step_name st' = [] \<or> original_fp st' = [] \<or> proposed_fp st' = []))
               (RepoError ''operation step is incomplete'')) (\<lambda>_.
     case insert_step \<lparr>s_id = sid, s_operation_id = oid, s_order = int k + 1, s_name = step_name st',
            s_state = StepPending, s_effect_kind = step_kind st',
            s_original_fingerprint = Some (original_fp st'), s_proposed_fingerprint = Some (proposed_fp st'),
            s_started_at_ms = None, s_finished_at_ms = None, s_error = None\<rparr> db of
       Inl e \<Rightarrow> Inl (WrapRepo ''insert operation step'' e)
     | Inr db' \<Rightarrow> Inr (done @ [st'], db'))))"

text \<open>
  After the idempotency check, the transaction of a new request: \<open>clear_previews\<close> supersedes
  the actor's pending preview and refuses a second active operation, \<open>store_plan\<close> inserts
  the operation and its steps. The lookup after a failed insert sees the same keys as the
  check before it.
\<close>

definition clear_previews :: "time \<Rightarrow> create_operation_input \<Rightarrow> agent_db \<Rightarrow> repo_error + agent_db" where
  "clear_previews now inp db =
     (if ci_interface_id inp = [] then Inr db
      else (case update_operations (superseded inp) (supersede now) db of
          Inl e \<Rightarrow> Inl (WrapRepo ''expire superseded operation preview'' e)
        | Inr (_, db1) \<Rightarrow>
            bind_r (check (\<not> has_active (ci_interface_id inp) (db_operations db1))
                      (RepoError ''operation already in progress for interface'')) (\<lambda>_. Inr db1)))"

definition new_record :: "create_operation_input \<Rightarrow> string \<Rightarrow> step_record list \<Rightarrow> op_record" where
  "new_record inp oid steps =
     \<lparr>op_id = oid, op_interface_id = ci_interface_id inp, op_type = ci_type inp,
      op_state = StatePending, expected_revision = None, proposed_diff_json = [],
      op_error_code = [], op_error_message = [], op_created_at = zero_time,
      op_updated_at = zero_time, op_finished_at = zero_time, op_steps = steps\<rparr>"

definition store_plan ::
  "id_source \<Rightarrow> time \<Rightarrow> create_operation_input \<Rightarrow> string \<Rightarrow> agent_db \<Rightarrow> agent_db \<Rightarrow> op_record tx" where
  "store_plan gen now inp oid db db1 =
     (case insert_operation (new_operation_row inp oid now) db1 of
        Inl e \<Rightarrow> (case find (same_request inp) (db_operations db1) of
            Some r \<Rightarrow>
              (if o_intent_json r \<noteq> ci_intent_json inp
               then Inl (RepoError ''idempotency key was already used for different intent'')
               else bind_r (get_operation (o_id r) db) (\<lambda>rec. Inr (rec, db)))
          | None \<Rightarrow> Inl (WrapRepo ''insert operation'' e))
      | Inr db2 \<Rightarrow>
          bind_r (fold_r (insert_plan_step gen now oid) (enumerate 0 (ci_steps inp)) ([], db2))
            (\<lambda>(steps, db3). Inr (new_record inp oid steps, db3)))"

definition create_new_operation ::
  "id_source \<Rightarrow> time \<Rightarrow> create_operation_input \<Rightarrow> string \<Rightarrow> agent_db \<Rightarrow> op_record tx" where
  "create_new_operation gen now inp oid db =
     bind_r (clear_previews now inp db) (store_plan gen now inp oid db)"

definition create_operation ::
  "id_source \<Rightarrow> time \<Rightarrow> create_operation_input \<Rightarrow> agent_db \<Rightarrow> (repo_error + op_record) \<times> agent_db" where
  "create_operation gen now inp db =
     (if ci_type inp = [] \<or> ci_intent_json inp = [] \<or> ci_idempotency_key inp = [] \<or>
         ci_actor_id inp = [] \<or> ci_actor_role inp = [] \<or> ci_request_id inp = []
      then (Inl (RepoError ''operation type, intent, idempotency and actor context are required''), db)
      else (case gen 0 now of
          Inl e \<Rightarrow> (Inl e, db)
        | Inr oid \<Rightarrow>
            (case find (same_request inp) (db_operations db) of
               Some r \<Rightarrow>
                 (if o_intent_json r \<noteq> ci_intent_json inp
                  then (Inl (RepoError ''idempotency key was already used for different intent''), db)
                  else (get_operation (o_id r) db, db))
             | None \<Rightarrow> commit_tx db (create_new_operation gen now inp oid db))))"

section \<open>Transitions\<close>

text \<open>\<open>now1\<close> is the reading for \<open>finished_at_ms\<close>, \<open>now2\<close> the one for \<open>updated_at_ms\<close>.\<close>

definition transition_operation ::
  "time \<Rightarrow> time \<Rightarrow> string \<Rightarrow> op_state \<Rightarrow> op_state \<Rightarrow> failure option \<Rightarrow> agent_db
     \<Rightarrow> repo_error option \<times> agent_db" where
  "transition_operation now1 now2 oid from to f db =
     (case update_operations (\<lambda>r. o_id r = oid \<and> o_state r = from)
             (\<lambda>r. r\<lparr>o_state := to, o_error_code := map_option fail_code f,
                    o_error_message := map_option fail_message f, o_updated_at_ms := unix_milli now2,
                    o_finished_at_ms := (if is_terminal to then Some (unix_milli now1) else o_finished_at_ms r)\<rparr>) db of
        Inl e \<Rightarrow> (Some (WrapRepo ''transition operation'' e), db)
      | Inr (n, db') \<Rightarrow>
          (if n \<noteq> 1 then (Some (RepoError (''operation state conflict: expected '' @ op_state_name from)), db')
           else (None, db')))"

definition move_step_row :: "time \<Rightarrow> step_state \<Rightarrow> failure option \<Rightarrow> step_row \<Rightarrow> step_row" where
  "move_step_row now to f r =
     (let started = (if to = StepExecuting \<or> to = StepRollingBack then Some (unix_milli now) else None);
          finished = (if to = StepApplied \<or> to = StepFailed \<or> to = StepRolledBack
                      then Some (unix_milli now) else None) in
      r\<lparr>s_state := to, s_error := map_option fail_message f,
        s_started_at_ms := (if s_started_at_ms r = None then started else s_started_at_ms r),
        s_finished_at_ms := (if finished = None then s_finished_at_ms r else finished)\<rparr>)"

definition transition_step ::
  "time \<Rightarrow> string \<Rightarrow> step_state \<Rightarrow> step_state \<Rightarrow> failure option \<Rightarrow> agent_db
     \<Rightarrow> repo_error option \<times> agent_db" where
  "transition_step now sid from to f db =
     (let P = (\<lambda>r. s_id r = sid \<and> s_state r = from);
          db' = db\<lparr>db_steps := update_rows P (move_step_row now to f) (db_steps db)\<rparr> in
      if affected P (db_steps db) \<noteq> 1
      then (Some (RepoError ''operation step state conflict''), db') else (None, db'))"

lemma move_step_row_fields [simp]:
  "s_id (move_step_row now to f r) = s_id r" "s_state (move_step_row now to f r) = to"
  "s_operation_id (move_step_row now to f r) = s_operation_id r" "s_order (move_step_row now to f r) = s_order r"
  by (simp_all add: move_step_row_def Let_def)

section \<open>Every method keeps the tables well formed\<close>

lemma transition_operation_wf:
  "operations_wf db \<Longrightarrow> operations_wf (snd (transition_operation now1 now2 oid from to f db))"
  by (auto simp: transition_operation_def idem_key_def split: sum.split prod.split
      elim!: update_operations_wf)

lemma transition_step_wf:
  "operations_wf db \<Longrightarrow> operations_wf (snd (transition_step now sid from to f db))"
  by (auto simp: transition_step_def operations_wf_def Let_def set_update_rows intro!: keyed_update)

lemma insert_plan_step_wf:
  "insert_plan_step gen now oid x sdb = Inr sdb' \<Longrightarrow> operations_wf (snd sdb) \<Longrightarrow> operations_wf (snd sdb')"
  by (cases x; cases sdb)
    (auto simp: insert_plan_step_def Let_def split: if_splits sum.splits dest: insert_step_wf)

lemma insert_plan_steps_wf:
  "fold_r (insert_plan_step gen now oid) xs sdb = Inr sdb' \<Longrightarrow> operations_wf (snd sdb) \<Longrightarrow> operations_wf (snd sdb')"
  by (rule fold_r_invariant [where P = "\<lambda>x. operations_wf (snd x)"]) (auto dest: insert_plan_step_wf)

lemma clear_previews_wf: "clear_previews now inp db = Inr db1 \<Longrightarrow> operations_wf db \<Longrightarrow> operations_wf db1"
  by (auto simp: clear_previews_def supersede_def idem_key_def split: if_splits sum.splits
      elim!: update_operations_wf)

lemma store_plan_wf:
  "store_plan gen now inp oid db db1 = Inr (r, db') \<Longrightarrow> operations_wf db \<Longrightarrow> operations_wf db1 \<Longrightarrow> operations_wf db'"
  by (auto simp: store_plan_def split: sum.splits option.splits if_splits
      dest!: insert_operation_wf insert_plan_steps_wf)

lemma create_operation_wf:
  assumes "operations_wf db"
  shows "operations_wf (snd (create_operation gen now inp db))"
proof -
  have "operations_wf (snd (commit_tx db (create_new_operation gen now inp oid db)))" for oid
    using assms
    by (auto simp: commit_tx_def create_new_operation_def split: sum.splits
        dest: clear_previews_wf store_plan_wf)
  with assms show ?thesis
    by (simp add: create_operation_def split: sum.split option.split)
qed

end
