(* ===== verification/RepositoryJournal.thy ===== *)
theory RepositoryJournal
  imports OperationStore
begin

text \<open>
  The repository as the engine's journal. \<open>repo_journal\<close> runs the two transition methods on
  the database, each call with its own readings of the clock; the interpretation discharges
  the engine's contract for it, so a run of the engine and the rows it leaves in SQLite
  never disagree.
\<close>

section \<open>The journal\<close>

type_synonym repo_state = "agent_db \<times> nat"

definition journal_error :: "repo_error option \<Rightarrow> op_error option" where
  "journal_error r = map_option (\<lambda>e. case e of RepoError m \<Rightarrow> AdapterError m
     | WrapRepo m e' \<Rightarrow> AdapterError m | _ \<Rightarrow> AdapterError []) r"

definition repo_journal :: "(nat \<Rightarrow> time) \<Rightarrow> repo_state journal" where
  "repo_journal clock =
     \<lparr>trans_op = \<lambda>oid from to f (db, n).
        (case transition_operation (clock n) (clock (Suc n)) oid from to f db of
           (r, db') \<Rightarrow> (journal_error r, (db', n + 2))),
      trans_step = \<lambda>sid from to f (db, n).
        (case transition_step (clock n) sid from to f db of
           (r, db') \<Rightarrow> (journal_error r, (db', n + 1)))\<rparr>"

definition stored_op_state :: "repo_state \<Rightarrow> string \<Rightarrow> op_state option" where
  "stored_op_state j oid = map_option o_state (find (\<lambda>r. o_id r = oid) (db_operations (fst j)))"

definition stored_step_state :: "repo_state \<Rightarrow> string \<Rightarrow> step_state option" where
  "stored_step_state j sid = map_option s_state (find (\<lambda>r. s_id r = sid) (db_steps (fst j)))"

lemma journal_error_None [simp]: "journal_error r = None \<longleftrightarrow> r = None"
  by (simp add: journal_error_def)

lemma journal_error_Some: "journal_error r = Some e \<Longrightarrow> r \<noteq> None"
  by (auto simp: journal_error_def)

lemma update_rows_none:
  "affected P t = 0 \<Longrightarrow> update_rows P f t = t"
  by (induction t) (auto simp: affected_def update_rows_def filter_empty_conv)

lemma keyed_affected_le: "keyed key t \<Longrightarrow> affected (\<lambda>r. key r = k \<and> Q r) t \<le> 1"
proof (induction t)
  case (Cons r t)
  show ?case
  proof (cases "key r = k")
    case True
    with Cons.prems have "filter (\<lambda>r. key r = k \<and> Q r) t = []"
      by (auto simp: keyed_def filter_empty_conv intro: rev_image_eqI)
    then show ?thesis by (simp add: affected_def)
  next
    case False
    with Cons show ?thesis by (simp add: affected_def keyed_def)
  qed
qed (simp add: affected_def)

lemma find_update_key:
  assumes "keyed key t" and "affected (\<lambda>r. key r = k \<and> g r = v) t = Suc 0"
    and "\<And>r. key (f r) = key r" and "\<And>r. g (f r) = w"
  shows "map_option g (find (\<lambda>x. key x = k') (update_rows (\<lambda>r. key r = k \<and> g r = v) f t)) =
      ((\<lambda>k'. map_option g (find (\<lambda>x. key x = k') t))(k \<mapsto> w)) k'"
    and "map_option g (find (\<lambda>x. key x = k) t) = Some v"
proof -
  obtain r where r: "find (\<lambda>x. key x = k) t = Some r" "g r = v" "key r = k"
    using keyed_affected [OF assms(1,2)] by blast
  then show "map_option g (find (\<lambda>x. key x = k) t) = Some v" by simp
  have "find (\<lambda>x. key x = k') (update_rows (\<lambda>r. key r = k \<and> g r = v) f t) =
      map_option (\<lambda>r. if key r = k \<and> g r = v then f r else r) (find (\<lambda>x. key x = k') t)"
    by (rule find_update_rows) (simp add: assms(3))
  then show "map_option g (find (\<lambda>x. key x = k') (update_rows (\<lambda>r. key r = k \<and> g r = v) f t)) =
      ((\<lambda>k'. map_option g (find (\<lambda>x. key x = k') t))(k \<mapsto> w)) k'"
    using r assms(4) by (auto simp: option.map_comp comp_def dest: find_SomeD intro!: map_option_cong)
qed

section \<open>The contract holds\<close>

lemma repo_op_cas:
  assumes wf: "operations_wf (fst j)" and eq: "trans_op (repo_journal clock) oid from to f j = (None, j')"
  shows "operations_wf (fst j') \<and> stored_op_state j oid = Some from \<and>
    stored_op_state j' = (stored_op_state j)(oid \<mapsto> to) \<and> stored_step_state j' = stored_step_state j"
proof -
  obtain db n where j: "j = (db, n)" by (cases j)
  obtain r db' where t: "transition_operation (clock n) (clock (Suc n)) oid from to f db = (r, db')" by fastforce
  have r: "r = None" and j': "j' = (db', n + 2)" using eq j t by (auto simp: repo_journal_def)
  let ?f = "\<lambda>r. r\<lparr>o_state := to, o_error_code := map_option fail_code f,
                    o_error_message := map_option fail_message f, o_updated_at_ms := unix_milli (clock (Suc n)),
                    o_finished_at_ms := (if is_terminal to then Some (unix_milli (clock n)) else o_finished_at_ms r)\<rparr>"
  let ?P = "\<lambda>r. o_id r = oid \<and> o_state r = from"
  from t r have aff: "affected ?P (db_operations db) = Suc 0"
    and db': "db' = db\<lparr>db_operations := update_rows ?P ?f (db_operations db)\<rparr>"
    by (auto simp: transition_operation_def update_operations_def Let_def split: if_splits)
  have keyed: "keyed o_id (db_operations db)" using wf j by (simp add: operations_wf_def)
  have "operations_wf db'"
    using transition_operation_wf [of db "clock n" "clock (Suc n)" oid "from" to f] wf j t by simp
  moreover note find_update_key [OF keyed aff, of ?f to]
  ultimately show ?thesis
    using j j' db' by (auto simp: stored_op_state_def stored_step_state_def fun_eq_iff)
qed

lemma repo_op_refuse:
  assumes wf: "operations_wf (fst j)" and eq: "trans_op (repo_journal clock) oid from to f j = (Some e, j')"
  shows "operations_wf (fst j') \<and> stored_op_state j' = stored_op_state j \<and> stored_step_state j' = stored_step_state j"
proof -
  obtain db n where j: "j = (db, n)" by (cases j)
  obtain r db' where t: "transition_operation (clock n) (clock (Suc n)) oid from to f db = (r, db')" by fastforce
  have r: "r \<noteq> None" and j': "j' = (db', n + 2)"
    using eq j t journal_error_Some [of r e] by (auto simp: repo_journal_def)
  have "affected (\<lambda>r. o_id r = oid \<and> o_state r = from) (db_operations db) \<le> 1"
    using wf j by (intro keyed_affected_le) (simp add: operations_wf_def)
  with t r have "db' = db"
    by (auto simp: transition_operation_def update_operations_def Let_def update_rows_none le_Suc_eq
        split: if_splits)
  with j j' wf show ?thesis by (simp add: stored_op_state_def stored_step_state_def fun_eq_iff)
qed

lemma repo_step_cas:
  assumes wf: "operations_wf (fst j)" and eq: "trans_step (repo_journal clock) sid from to f j = (None, j')"
  shows "operations_wf (fst j') \<and> stored_step_state j sid = Some from \<and>
    stored_step_state j' = (stored_step_state j)(sid \<mapsto> to) \<and> stored_op_state j' = stored_op_state j"
proof -
  obtain db n where j: "j = (db, n)" by (cases j)
  obtain r db' where t: "transition_step (clock n) sid from to f db = (r, db')" by fastforce
  have r: "r = None" and j': "j' = (db', n + 1)" using eq j t by (auto simp: repo_journal_def)
  let ?P = "\<lambda>r. s_id r = sid \<and> s_state r = from"
  have keyed: "keyed s_id (db_steps db)" using wf j by (simp add: operations_wf_def)
  from t r have aff: "affected ?P (db_steps db) = Suc 0"
    by (auto simp: transition_step_def Let_def split: if_splits)
  have "operations_wf db'"
    using transition_step_wf [of db "clock n" sid "from" to f] wf j t by simp
  moreover note find_update_key [OF keyed aff, of "move_step_row (clock n) to f" to]
  moreover have "db' = db\<lparr>db_steps := update_rows ?P (move_step_row (clock n) to f) (db_steps db)\<rparr>"
    using t r aff by (simp add: transition_step_def Let_def)
  ultimately show ?thesis
    using j j' by (auto simp: stored_op_state_def stored_step_state_def fun_eq_iff)
qed

lemma repo_step_refuse:
  assumes wf: "operations_wf (fst j)" and eq: "trans_step (repo_journal clock) sid from to f j = (Some e, j')"
  shows "operations_wf (fst j') \<and> stored_op_state j' = stored_op_state j \<and> stored_step_state j' = stored_step_state j"
proof -
  obtain db n where j: "j = (db, n)" by (cases j)
  obtain r db' where t: "transition_step (clock n) sid from to f db = (r, db')" by fastforce
  have r: "r \<noteq> None" and j': "j' = (db', n + 1)"
    using eq j t journal_error_Some [of r e] by (auto simp: repo_journal_def)
  have "affected (\<lambda>r. s_id r = sid \<and> s_state r = from) (db_steps db) \<le> 1"
    using wf j by (intro keyed_affected_le) (simp add: operations_wf_def)
  with t r have "db' = db"
    by (auto simp: transition_step_def Let_def update_rows_none le_Suc_eq split: if_splits)
  with j j' wf show ?thesis by (simp add: stored_op_state_def stored_step_state_def fun_eq_iff)
qed

text \<open>The engine never changes which steps exist, whose they are, or their order.\<close>

definition step_keys :: "agent_db \<Rightarrow> (string \<times> string \<times> int) list" where
  "step_keys db = map (\<lambda>r. (s_id r, s_operation_id r, s_order r)) (db_steps db)"

lemma step_keys_kept:
  "trans_op (repo_journal clock) oid from to f j = (r, j') \<Longrightarrow> step_keys (fst j') = step_keys (fst j)"
  "trans_step (repo_journal clock) sid sfrom sto f j = (r, j') \<Longrightarrow> step_keys (fst j') = step_keys (fst j)"
  by (auto simp: repo_journal_def transition_operation_def update_operations_def transition_step_def
      step_keys_def Let_def update_rows_def split: prod.splits if_splits sum.splits)

definition repo_inv :: "(string \<times> string \<times> int) list \<Rightarrow> repo_state \<Rightarrow> bool" where
  "repo_inv ks j \<longleftrightarrow> operations_wf (fst j) \<and> step_keys (fst j) = ks"

interpretation repo: cas_journal "repo_journal clock" "repo_inv ks" stored_op_state stored_step_state
  for clock ks
proof
  fix j oid "from" to f and j' :: repo_state
  assume "repo_inv ks j" and eq: "trans_op (repo_journal clock) oid from to f j = (None, j')"
  with repo_op_cas [OF _ eq] step_keys_kept(1) [OF eq]
  show "repo_inv ks j' \<and> stored_op_state j oid = Some from \<and>
      stored_op_state j' = (stored_op_state j)(oid \<mapsto> to) \<and> stored_step_state j' = stored_step_state j"
    by (simp add: repo_inv_def)
next
  fix j oid "from" to f e and j' :: repo_state
  assume "repo_inv ks j" and eq: "trans_op (repo_journal clock) oid from to f j = (Some e, j')"
  with repo_op_refuse [OF _ eq] step_keys_kept(1) [OF eq]
  show "repo_inv ks j' \<and> stored_op_state j' = stored_op_state j \<and> stored_step_state j' = stored_step_state j"
    by (simp add: repo_inv_def)
next
  fix j sid sfrom sto f and j' :: repo_state
  assume "repo_inv ks j" and eq: "trans_step (repo_journal clock) sid sfrom sto f j = (None, j')"
  with repo_step_cas [OF _ eq] step_keys_kept(2) [OF eq]
  show "repo_inv ks j' \<and> stored_step_state j sid = Some sfrom \<and>
      stored_step_state j' = (stored_step_state j)(sid \<mapsto> sto) \<and> stored_op_state j' = stored_op_state j"
    by (simp add: repo_inv_def)
next
  fix j sid sfrom sto f e and j' :: repo_state
  assume "repo_inv ks j" and eq: "trans_step (repo_journal clock) sid sfrom sto f j = (Some e, j')"
  with repo_step_refuse [OF _ eq] step_keys_kept(2) [OF eq]
  show "repo_inv ks j' \<and> stored_op_state j' = stored_op_state j \<and> stored_step_state j' = stored_step_state j"
    by (simp add: repo_inv_def)
qed

section \<open>The engine and the rows never disagree\<close>

lemma map_sort_key: "map f (sort_key (\<lambda>x. k (f x)) xs) = sort_key k (map f xs)"
proof (induction xs)
  case (Cons x xs)
  have ins: "map f (insort_key (\<lambda>x. k (f x)) x ys) = insort_key k (f x) (map f ys)" for ys
    by (induction ys) auto
  with Cons show ?case by simp
qed simp

definition ids_of :: "string \<Rightarrow> (string \<times> string \<times> int) list \<Rightarrow> string list" where
  "ids_of oid ks = map fst (sort_key (\<lambda>(_, _, n). n) (filter (\<lambda>(_, x, _). x = oid) ks))"

lemma operation_step_ids: "map step_id (operation_steps oid db) = ids_of oid (step_keys db)"
proof -
  let ?rs = "filter (\<lambda>r. s_operation_id r = oid) (db_steps db)"
  let ?f = "\<lambda>r. (s_id r, s_operation_id r, s_order r)"
  have "map step_id (operation_steps oid db) = map fst (map ?f (sort_key (\<lambda>x. (\<lambda>(_, _, n). n) (?f x)) ?rs))"
    by (simp add: operation_steps_def row_step_def comp_def)
  also have "\<dots> = map fst (sort_key (\<lambda>(_, _, n). n) (map ?f ?rs))"
    by (rule arg_cong [where f = "map fst"]) (rule map_sort_key)
  also have "map ?f ?rs = filter (\<lambda>(_, x, _). x = oid) (step_keys db)"
    by (simp add: step_keys_def filter_map comp_def)
  finally show ?thesis by (simp add: ids_of_def)
qed

lemma stored_step_of_operation:
  assumes "operations_wf db" and "st \<in> set (operation_steps oid db)"
  shows "stored_step_state (db, n) (step_id st) = Some (step_state st)"
proof -
  obtain r where r: "r \<in> set (db_steps db)" "st = row_step r"
    using assms(2) by (auto simp: operation_steps_def)
  have "find (\<lambda>x. s_id x = s_id r) (db_steps db) = Some r"
    using assms(1) r(1) by (intro keyed_find) (auto simp: operations_wf_def)
  with r(2) show ?thesis by (simp add: stored_step_state_def row_step_def)
qed

lemma operation_steps_distinct:
  assumes "operations_wf db" shows "distinct (map step_id (operation_steps oid db))"
proof -
  have "distinct (map s_id (filter (\<lambda>r. s_operation_id r = oid) (db_steps db)))"
    using assms by (simp add: operations_wf_def keyed_def distinct_map_filter)
  then have "distinct (map s_id (sort_key s_order (filter (\<lambda>r. s_operation_id r = oid) (db_steps db))))"
    by (simp add: distinct_map)
  then show ?thesis by (simp add: operation_steps_def row_step_def comp_def)
qed

lemma loaded_agrees:
  assumes "operations_wf db" and "get_operation oid db = Inr rec"
  shows "journal_agrees stored_op_state stored_step_state \<lparr>es_rec = rec, es_jrn = (db, n), es_host = h\<rparr>"
    and "op_id rec = oid" and "map step_id (op_steps rec) = ids_of oid (step_keys db)"
proof -
  from assms(2) obtain r where r: "find (\<lambda>r. o_id r = oid) (db_operations db) = Some r"
    "rec = row_record r (operation_steps oid db)"
    by (auto simp: get_operation_def query_row_Inr)
  then have "o_id r = oid" by (auto dest: find_SomeD)
  with r assms(1) show "journal_agrees stored_op_state stored_step_state \<lparr>es_rec = rec, es_jrn = (db, n), es_host = h\<rparr>"
    and "op_id rec = oid" and "map step_id (op_steps rec) = ids_of oid (step_keys db)"
    by (auto simp: journal_agrees_def row_record_def stored_op_state_def list_all_iff operation_step_ids
        stored_step_of_operation operation_steps_distinct [unfolded operation_step_ids])
qed

lemma agrees_get_operation:
  assumes agr: "journal_agrees stored_op_state stored_step_state s" and wf: "operations_wf (fst (es_jrn s))"
    and ids: "map step_id (cur_steps s) = ids_of (op_id (es_rec s)) (step_keys (fst (es_jrn s)))"
  shows "\<exists>rec. get_operation (op_id (es_rec s)) (fst (es_jrn s)) = Inr rec \<and> op_state rec = cur_state s \<and>
    map (\<lambda>st. (step_id st, step_state st)) (op_steps rec) = map (\<lambda>st. (step_id st, step_state st)) (cur_steps s)"
proof -
  obtain db n where j: "es_jrn s = (db, n)" by fastforce
  let ?oid = "op_id (es_rec s)"
  from agr j obtain r where r: "find (\<lambda>r. o_id r = ?oid) (db_operations db) = Some r" "o_state r = cur_state s"
    by (auto simp: journal_agrees_def stored_op_state_def)
  let ?ss = "operation_steps ?oid db"
  have ids': "map step_id ?ss = map step_id (cur_steps s)"
    using ids j by (simp add: operation_step_ids)
  have "map (\<lambda>st. (step_id st, Some (step_state st))) ?ss =
      map (\<lambda>i. (i, stored_step_state (db, n) i)) (map step_id ?ss)"
    using wf j by (auto simp: stored_step_of_operation)
  also have "\<dots> = map (\<lambda>st. (step_id st, Some (step_state st))) (cur_steps s)"
    using agr j by (auto simp: ids' journal_agrees_def list_all_iff)
  finally have "map (\<lambda>st. (step_id st, step_state st)) ?ss = map (\<lambda>st. (step_id st, step_state st)) (cur_steps s)"
    by (auto simp: list_eq_iff_nth_eq dest: map_eq_imp_length_eq)
  with r j show ?thesis
    by (simp add: get_operation_def query_row_Inr [THEN iffD2] row_record_def)
qed

lemma engine_run_stored:
  assumes wf: "operations_wf db" and got: "get_operation oid db = Inr rec"
    and steps: "engine_steps (repo_journal clock) \<lparr>es_rec = rec, es_jrn = (db, n), es_host = h\<rparr> s'"
  shows "\<exists>rec'. get_operation oid (fst (es_jrn s')) = Inr rec' \<and> op_state rec' = cur_state s' \<and>
    map (\<lambda>st. (step_id st, step_state st)) (op_steps rec') = map (\<lambda>st. (step_id st, step_state st)) (cur_steps s')"
proof -
  note start = loaded_agrees [OF wf got]
  have "repo_inv (step_keys db) (db, n)" using wf by (simp add: repo_inv_def)
  with repo.engine_steps_agree [OF steps, of "step_keys db"] start(1) [of n h]
  have fin: "repo_inv (step_keys db) (es_jrn s')" "journal_agrees stored_op_state stored_step_state s'"
    by simp_all
  have "op_id (es_rec s') = oid" "map step_id (cur_steps s') = map step_id (op_steps rec)"
    using engine_steps_keep_ids [OF steps] start(2) by auto
  with agrees_get_operation [OF fin(2)] fin(1) start(3) show ?thesis
    by (simp add: repo_inv_def)
qed

end
