(* ===== verification/OperationStoreCorrect.thy ===== *)
theory OperationStoreCorrect
  imports DemoDb RepositoryJournal
begin

text \<open>
  What the operation store promises: its tables stay well formed, a created operation can be
  read back, a repeated request finds it again, a second active operation on an interface is
  refused, the pages of a listing are the consecutive parts of one ordering, and the engine
  running on the repository agrees with the rows.
\<close>

section \<open>The tables\<close>


text \<open>
  C15: The engine running on the repository and the rows it writes never disagree: after
  \<open>Execute\<close> or \<open>Recover\<close> on a record that \<open>GetOperation\<close> loaded, whatever the host did,
  \<open>GetOperation\<close> returns the state of the in-memory record and of each of its steps.
\<close>

theorem engine_agrees_with_rows:
  assumes wf: "operations_wf db" and got: "get_operation oid db = Inr rec"
    and run: "s' = snd (execute (repo_journal clock) effs v \<lparr>es_rec = rec, es_jrn = (db, n), es_host = h\<rparr>) \<or>
              s' = snd (recover (repo_journal clock) effs v \<lparr>es_rec = rec, es_jrn = (db, n), es_host = h\<rparr>)"
  shows "\<exists>rec'. get_operation oid (fst (es_jrn s')) = Inr rec' \<and> op_state rec' = cur_state s' \<and>
    map (\<lambda>st. (step_id st, step_state st)) (op_steps rec') = map (\<lambda>st. (step_id st, step_state st)) (cur_steps s')"
  using run
proof
  assume "s' = snd (execute (repo_journal clock) effs v \<lparr>es_rec = rec, es_jrn = (db, n), es_host = h\<rparr>)"
  then show ?thesis by (simp only:) (rule engine_run_stored [OF wf got execute_path])
next
  assume "s' = snd (recover (repo_journal clock) effs v \<lparr>es_rec = rec, es_jrn = (db, n), es_host = h\<rparr>)"
  then show ?thesis by (simp only:) (rule engine_run_stored [OF wf got recover_path])
qed

section \<open>Creating\<close>

abbreviation clear_error :: "step_record \<Rightarrow> step_record" where
  "clear_error st \<equiv> st\<lparr>step_error := []\<rparr>"

lemma insert_plan_step_Inr:
  assumes "insert_plan_step gen now oid (k, st) (done, db) = Inr (done', db')"
  obtains st' row where "done' = done @ [st']" and "db_steps db' = db_steps db @ [row]"
    and "db_operations db' = db_operations db" and "s_operation_id row = oid"
    and "s_order row = int k + 1" and "row_step row = clear_error st'" and "step_state st' = StepPending"
  using assms
  by (fastforce simp: insert_plan_step_def insert_step_def row_step_def coalesce_def Let_def
      split: sum.splits if_splits)

lemma insert_plan_steps_Inr:
  "fold_r (insert_plan_step gen now oid) (enumerate k sts) (done, db) = Inr (done', db') \<Longrightarrow>
   \<exists>new rows. done' = done @ new \<and> db_steps db' = db_steps db @ rows \<and> db_operations db' = db_operations db \<and>
     list_all (\<lambda>r. s_operation_id r = oid) rows \<and> sorted_wrt (\<lambda>r r'. s_order r \<le> s_order r') rows \<and>
     list_all (\<lambda>r. int k < s_order r) rows \<and> map row_step rows = map clear_error new"
proof (induction sts arbitrary: k "done" db)
  case (Cons st sts)
  from Cons.prems obtain p where p: "insert_plan_step gen now oid (k, st) (done, db) = Inr p"
    "fold_r (insert_plan_step gen now oid) (enumerate (Suc k) sts) p = Inr (done', db')"
    by auto
  obtain done1 db1 where pp: "p = (done1, db1)" by fastforce
  from p(1) pp obtain st' row where one: "done1 = done @ [st']" "db_steps db1 = db_steps db @ [row]"
    "db_operations db1 = db_operations db" "s_operation_id row = oid" "s_order row = int k + 1"
    "row_step row = clear_error st'"
    by (auto elim: insert_plan_step_Inr)
  from Cons.IH p(2) pp obtain new rows where more: "done' = done1 @ new" "db_steps db' = db_steps db1 @ rows"
    "db_operations db' = db_operations db1" "list_all (\<lambda>r. s_operation_id r = oid) rows"
    "sorted_wrt (\<lambda>r r'. s_order r \<le> s_order r') rows" "list_all (\<lambda>r. int (Suc k) < s_order r) rows"
    "map row_step rows = map clear_error new"
    by blast
  from more(6) have "list_all (\<lambda>r. int k < s_order r \<and> s_order row \<le> s_order r) rows"
    using one(5) by (auto simp: list_all_iff)
  with one more show ?case
    by (intro exI [of _ "st' # new"] exI [of _ "row # rows"]) (auto simp: list_all_iff)
qed auto

text \<open>What a new plan leaves in the tables.\<close>

lemma create_new_Inr:
  assumes wf: "operations_wf db" and none: "find (same_request inp) (db_operations db) = None"
    and eq: "create_new_operation gen now inp oid db = Inr (rec, db')"
  obtains steps t where "rec = new_record inp oid steps"
    and "db_operations db' = t @ [new_operation_row inp oid now]"
    and "map idem_key t = map idem_key (db_operations db)"
    and "key_fresh o_id oid t" and "key_fresh idem_key (idem_key (new_operation_row inp oid now)) t"
    and "map clear_error (operation_steps oid db') = map clear_error steps"
proof -
  from eq obtain db1 where c: "clear_previews now inp db = Inr db1"
    and s: "store_plan gen now inp oid db db1 = Inr (rec, db')"
    by (auto simp: create_new_operation_def)
  have ops1: "map idem_key (db_operations db1) = map idem_key (db_operations db)" and "db_steps db1 = db_steps db"
    using c by (auto simp: clear_previews_def update_operations_def Let_def map_update_rows idem_key_def
        supersede_def split: if_splits sum.splits)
  have wf1: "operations_wf db1" using clear_previews_wf [OF c wf] .
  have none1: "find (same_request inp) (db_operations db1) = None"
  proof -
    have "same_request inp = (\<lambda>r. idem_key r = (ci_actor_id inp, ci_type inp, ci_idempotency_key inp))"
      by (auto simp: same_request_def idem_key_def fun_eq_iff)
    with none ops1 show ?thesis
      by (simp add: find_None_iff) (metis (no_types, lifting) image_iff set_map)
  qed
  from s none1 obtain db2 where i: "insert_operation (new_operation_row inp oid now) db1 = Inr db2"
    and f: "\<exists>steps. fold_r (insert_plan_step gen now oid) (enumerate 0 (ci_steps inp)) ([], db2) = Inr (steps, db')
        \<and> rec = new_record inp oid steps"
    by (auto simp: store_plan_def split: sum.splits)
  then obtain steps where f': "fold_r (insert_plan_step gen now oid) (enumerate 0 (ci_steps inp)) ([], db2) = Inr (steps, db')"
    and rec: "rec = new_record inp oid steps" by blast
  from i have i': "db2 = db1\<lparr>db_operations := db_operations db1 @ [new_operation_row inp oid now]\<rparr>"
    "key_fresh o_id oid (db_operations db1)"
    "key_fresh idem_key (idem_key (new_operation_row inp oid now)) (db_operations db1)"
    by (auto simp: insert_operation_def new_operation_row_def split: if_splits)
  from insert_plan_steps_Inr [OF f'] obtain rows where r: "db_steps db' = db_steps db2 @ rows"
    "db_operations db' = db_operations db2" "list_all (\<lambda>r. s_operation_id r = oid) rows"
    "sorted_wrt (\<lambda>r r'. s_order r \<le> s_order r') rows" "map row_step rows = map clear_error steps"
    by auto
  have "\<forall>r \<in> set (db_steps db1). s_operation_id r \<noteq> oid"
    using wf1 i'(2) by (auto simp: operations_wf_def key_fresh_def)
  then have "filter (\<lambda>r. s_operation_id r = oid) (db_steps db') = rows"
    using r(1,3) i'(1) by (simp add: list_all_iff filter_empty_conv)
  moreover have "sort_key s_order rows = rows"
    using r(4) by (intro sort_key_id_if_sorted) (simp add: sorted_wrt_map sorted_map)
  ultimately have "operation_steps oid db' = map clear_error steps"
    using r(5) by (simp add: operation_steps_def)
  then have st: "map clear_error (operation_steps oid db') = map clear_error steps"
    by (simp add: comp_def)
  show thesis by (rule that [OF rec _ ops1 i'(2,3) st]) (simp add: r(2) i'(1))
qed

lemma same_request_key:
  "same_request inp r \<longleftrightarrow> idem_key r = (ci_actor_id inp, ci_type inp, ci_idempotency_key inp)"
  by (auto simp: same_request_def idem_key_def)

lemma new_operation_row_fields [simp]:
  "o_id (new_operation_row inp oid now) = oid"
  "same_request inp (new_operation_row inp oid now)"
  "o_intent_json (new_operation_row inp oid now) = ci_intent_json inp"
  "o_state (new_operation_row inp oid now) = StatePending"
  "o_type (new_operation_row inp oid now) = ci_type inp"
  "coalesce (o_interface_id (new_operation_row inp oid now)) = ci_interface_id inp"
  by (simp_all add: new_operation_row_def same_request_def)

text \<open>The two ways \<open>CreateOperation\<close> succeeds.\<close>

lemma create_operation_Inr:
  assumes "create_operation gen now inp db = (Inr rec, db')"
  obtains (replay) r where "find (same_request inp) (db_operations db) = Some r"
      and "o_intent_json r = ci_intent_json inp" and "get_operation (o_id r) db = Inr rec" and "db' = db"
    | (fresh) oid where "find (same_request inp) (db_operations db) = None"
      and "create_new_operation gen now inp oid db = Inr (rec, db')"
  using assms
  by (fastforce simp: create_operation_def commit_tx_Inr split: if_splits sum.splits option.splits)

lemma get_operation_id: "get_operation oid db = Inr rec \<Longrightarrow> op_id rec = oid"
  by (auto simp: get_operation_def query_row_Inr row_record_def dest: find_SomeD)

lemma create_get:
  assumes wf: "operations_wf db" and eq: "create_operation gen now inp db = (Inr rec, db')"
  shows "\<exists>rec'. get_operation (op_id rec) db' = Inr rec' \<and> op_interface_id rec' = op_interface_id rec \<and>
    op_type rec' = op_type rec \<and> op_state rec' = op_state rec \<and>
    map clear_error (op_steps rec') = map clear_error (op_steps rec)"
  using eq
proof (cases rule: create_operation_Inr)
  case (replay r)
  then show ?thesis by (simp add: get_operation_id)
next
  case (fresh oid)
  from create_new_Inr [OF wf fresh] obtain steps t where
    rec: "rec = new_record inp oid steps" "db_operations db' = t @ [new_operation_row inp oid now]"
    "key_fresh o_id oid t" and st: "map clear_error (operation_steps oid db') = map clear_error steps"
    by metis
  have "find (\<lambda>r. o_id r = oid) (db_operations db') = Some (new_operation_row inp oid now)"
    using rec(2,3) by (auto simp: key_fresh_def intro!: find_append_fresh)
  then have "get_operation oid db' = Inr (row_record (new_operation_row inp oid now) (operation_steps oid db'))"
    by (simp add: get_operation_def query_row_def)
  with rec(1) st show ?thesis
    by (simp add: new_record_def) (simp add: row_record_def)
qed


text \<open>
  What \<open>CreateOperation\<close> returns can be read back: \<open>GetOperation\<close> on the new database
  finds the operation under the returned identifier, with the same interface, type, state
  and, in order, the same steps (a stored step starts without an error).
\<close>

theorem create_then_get:
  assumes wf: "operations_wf db" and eq: "create_operation gen now inp db = (Inr rec, db')"
  shows "\<exists>rec'. get_operation (op_id rec) db' = Inr rec' \<and> op_interface_id rec' = op_interface_id rec \<and>
    op_type rec' = op_type rec \<and> op_state rec' = op_state rec \<and>
    map (step_error_update (\<lambda>_. [])) (op_steps rec') = map (step_error_update (\<lambda>_. [])) (op_steps rec)"
  by (rule create_get [OF assms])

text \<open>
  C19: A repeated request is not executed twice: after a successful \<open>CreateOperation\<close>, the same
  request (at any later time, with any fresh identifiers) returns an operation with the same
  identifier and leaves the database as it is.
\<close>

theorem create_is_idempotent:
  assumes wf: "operations_wf db" and eq: "create_operation gen now inp db = (Inr rec, db')"
    and ids: "gen' 0 now' = Inr oid'"
  shows "\<exists>rec'. create_operation gen' now' inp db' = (Inr rec', db') \<and> op_id rec' = op_id rec"
proof -
  have valid: "\<not> (ci_type inp = [] \<or> ci_intent_json inp = [] \<or> ci_idempotency_key inp = [] \<or>
      ci_actor_id inp = [] \<or> ci_actor_role inp = [] \<or> ci_request_id inp = [])"
    using eq by (auto simp: create_operation_def split: if_splits)
  have "\<exists>r rec'. find (same_request inp) (db_operations db') = Some r \<and> o_intent_json r = ci_intent_json inp \<and>
      get_operation (o_id r) db' = Inr rec' \<and> o_id r = op_id rec"
    using eq
  proof (cases rule: create_operation_Inr)
    case (replay r)
    then show ?thesis by (simp add: get_operation_id)
  next
    case (fresh oid)
    from create_new_Inr [OF wf fresh] obtain steps t where
      rec: "rec = new_record inp oid steps" "db_operations db' = t @ [new_operation_row inp oid now]"
      "key_fresh idem_key (idem_key (new_operation_row inp oid now)) t"
      by metis
    have "find (same_request inp) (db_operations db') = Some (new_operation_row inp oid now)"
      unfolding rec(2)
    proof (rule find_append_fresh)
      show "\<forall>x \<in> set t. \<not> same_request inp x"
      proof (intro ballI notI)
        fix x assume x: "x \<in> set t" and "same_request inp x"
        then have "idem_key (new_operation_row inp oid now) = idem_key x"
          by (simp add: same_request_def idem_key_def new_operation_row_def)
        with rec(3) x show False by (simp add: key_fresh_def)
      qed
    qed simp
    moreover obtain rec' where "get_operation (op_id rec) db' = Inr rec'"
      using create_get [OF wf eq] by blast
    ultimately show ?thesis using rec(1) by (simp add: new_record_def)
  qed
  with valid ids show ?thesis
    by (fastforce simp: create_operation_def get_operation_id)
qed

section \<open>One active operation per interface\<close>

lemma supersede_has_active:
  "has_active i (update_rows (superseded inp) (supersede now) t) \<Longrightarrow> has_active i t"
  by (auto simp: has_active_def list_ex_iff set_update_rows supersede_def active_op_state_def)

lemma supersede_one_active:
  "one_active t \<Longrightarrow> one_active (update_rows (superseded inp) (supersede now) t)"
proof (induction t)
  case (Cons x t)
  show ?case
  proof (cases "superseded inp x")
    case True
    then have "\<not> active_op_state (o_state (supersede now x))"
      by (simp add: supersede_def active_op_state_def)
    with True Cons show ?thesis by (simp add: table_simps split: option.split)
  next
    case False
    show ?thesis
    proof (cases "o_interface_id x")
      case None
      with False Cons show ?thesis by (simp add: table_simps)
    next
      case (Some i)
      with False Cons supersede_has_active [of i inp now t] show ?thesis by (auto simp: table_simps)
    qed
  qed
qed (simp add: table_simps)

text \<open>
  While an interface has an active operation that a new preview does not supersede (one of
  another actor or type, or one that is past pending), a new request for it is refused and
  the database stays as it was.
\<close>

theorem create_conflict:
  assumes req: "ci_type inp \<noteq> [] \<and> ci_intent_json inp \<noteq> [] \<and> ci_idempotency_key inp \<noteq> [] \<and>
      ci_actor_id inp \<noteq> [] \<and> ci_actor_role inp \<noteq> [] \<and> ci_request_id inp \<noteq> []"
    and wf: "operations_wf db" and ids: "gen 0 now = Inr oid"
    and fresh: "find (same_request inp) (db_operations db) = None"
    and r: "r \<in> set (db_operations db)" "o_interface_id r = Some (ci_interface_id inp)" "ci_interface_id inp \<noteq> []"
    and act: "active_op_state (o_state r)" and other: "\<not> superseded inp r"
  shows "create_operation gen now inp db = (Inl (RepoError ''operation already in progress for interface''), db)"
proof -
  let ?t = "update_rows (superseded inp) (supersede now) (db_operations db)"
  have upd: "update_operations (superseded inp) (supersede now) db =
      Inr (affected (superseded inp) (db_operations db), db\<lparr>db_operations := ?t\<rparr>)"
    using wf by (simp add: update_operations_def Let_def operations_wf_def supersede_one_active)
  have "r \<in> set ?t" using r(1) other by (simp add: set_update_rows)
  then have "has_active (ci_interface_id inp) ?t"
    using r(2) act by (auto simp: has_active_def list_ex_iff)
  with upd r(3) have "clear_previews now inp db =
      Inl (RepoError ''operation already in progress for interface'')"
    by (simp add: clear_previews_def)
  with req ids fresh show ?thesis
    by (simp add: create_operation_def create_new_operation_def)
qed

section \<open>Pages\<close>

abbreviation page_key :: "operation_row \<Rightarrow> int \<times> string" where
  "page_key r \<equiv> (o_created_at_ms r, o_id r)"

lemma filter_below_nth:
  fixes key :: "'a \<Rightarrow> 'k::linorder"
  shows "sorted_wrt (\<lambda>x y. key y < key x) xs \<Longrightarrow> k < length xs \<Longrightarrow>
    filter (\<lambda>x. key x < key (xs ! k)) xs = drop (Suc k) xs"
proof (induction xs arbitrary: k)
  case (Cons x xs)
  show ?case
  proof (cases k)
    case 0
    with Cons.prems show ?thesis by (auto simp: filter_id_conv)
  next
    case (Suc j)
    with Cons.prems have "key (xs ! j) < key x" by simp
    then have "\<not> key x < key (xs ! j)" by simp
    with Suc Cons show ?thesis by simp
  qed
qed simp

lemma newest_first_filter: "newest_first (filter P t) = filter P (newest_first t)"
  by (simp add: newest_first_def filter_sort [symmetric] rev_filter)

lemma newest_first_sorted:
  assumes "keyed o_id t"
  shows "sorted_wrt (\<lambda>x y. page_key y < page_key x) (newest_first t)"
proof -
  let ?s = "sort_key page_key t"
  have "distinct (map o_id ?s)" using assms by (simp add: keyed_def distinct_map)
  then have "distinct (map page_key ?s)" by (auto simp: distinct_map inj_on_def)
  then have "sorted_wrt (<) (map page_key ?s)"
    by (simp add: strict_sorted_iff)
  then have "sorted_wrt (\<lambda>x y. page_key x < page_key y) ?s" by (simp only: sorted_wrt_map)
  then show ?thesis by (simp add: newest_first_def sorted_wrt_rev)
qed

lemma listed_after:
  assumes "ms \<noteq> 0"
  shows "listed iid st ms x r \<longleftrightarrow> listed iid st 0 [] r \<and> page_key r < (ms, x)"
  using assms by (auto simp: listed_def)

text \<open>
  The pages of \<open>ListOperations\<close> are the consecutive parts of one listing: with the last
  record of a page as the cursor, the next page holds exactly the records that follow it
  in the newest-first order of all that match, none skipped and none repeated.
\<close>

theorem list_operations_pages:
  fixes db st iid
  defines "L \<equiv> newest_first (filter (listed iid st 0 []) (db_operations db))"
  assumes wf: "operations_wf db" and k: "k < length L" and n: "1 \<le> n" "n \<le> 201"
    and st: "st = [] \<or> valid_stored_operation_state st"
    and cur: "o_created_at_ms (L ! k) > 0" "o_id (L ! k) \<noteq> []"
  shows "list_operations iid st n zero_time [] db = map_r (\<lambda>r. get_operation (o_id r) db) (take (nat n) L) \<and>
    list_operations iid st n (of_milli (o_created_at_ms (L ! k))) (o_id (L ! k)) db =
      map_r (\<lambda>r. get_operation (o_id r) db) (take (nat n) (drop (Suc k) L))"
proof
  show "list_operations iid st n zero_time [] db = map_r (\<lambda>r. get_operation (o_id r) db) (take (nat n) L)"
    using n st by (auto simp: list_operations_def L_def)
  let ?ms = "o_created_at_ms (L ! k)" and ?id = "o_id (L ! k)"
  have "keyed o_id (filter (listed iid st 0 []) (db_operations db))"
    using wf by (auto simp: operations_wf_def)
  then have "drop (Suc k) L = filter (\<lambda>r. page_key r < page_key (L ! k)) L"
    unfolding L_def
    by (rule filter_below_nth [OF newest_first_sorted k [unfolded L_def], symmetric])
  also have "\<dots> = newest_first (filter (listed iid st ?ms ?id) (db_operations db))"
  proof -
    have "(\<lambda>r. page_key r < page_key (L ! k) \<and> listed iid st 0 [] r) = listed iid st ?ms ?id"
      using cur(1) by (auto simp: fun_eq_iff listed_after)
    then show ?thesis
      by (simp add: L_def newest_first_filter [symmetric] conj_commute)
  qed
  finally have "drop (Suc k) L = newest_first (filter (listed iid st ?ms ?id) (db_operations db))" .
  moreover have "of_milli ?ms \<noteq> zero_time" using cur(1) by (simp add: of_milli_def zero_time_def)
  ultimately show "list_operations iid st n (of_milli ?ms) ?id db =
      map_r (\<lambda>r. get_operation (o_id r) db) (take (nat n) (drop (Suc k) L))"
    using n st cur by (auto simp: list_operations_def)
qed

section \<open>Witnesses\<close>

definition demo_input :: "string \<Rightarrow> string \<Rightarrow> create_operation_input" where
  "demo_input actor key = \<lparr>ci_interface_id = ''wg0'', ci_type = ''create_peer'', ci_intent_json = ''{}'',
     ci_idempotency_key = key, ci_actor_id = actor, ci_actor_role = ''admin'', ci_request_id = ''r'',
     ci_reason = [], ci_expected_revision = None, ci_original_file_hash = [], ci_proposed_file_hash = [],
     ci_original_runtime_hash = [], ci_proposed_diff_json = [], ci_expires_at = zero_time,
     ci_steps = [demo_step ''one'' 1 StepPending, (demo_step ''two'' 2 StepPending)\<lparr>step_id := []\<rparr>]\<rparr>"

definition demo_db :: agent_db where
  "demo_db = empty_db\<lparr>db_interfaces := [demo_iface ''wg0'', demo_iface ''wg1'']\<rparr>"

text \<open>The database after one request, and the same with the operation ready to execute.\<close>

definition demo_created :: agent_db where
  "demo_created = snd (create_operation (demo_ids CHR ''a'') second (demo_input ''ann'' ''k1'') demo_db)"

definition demo_ready :: agent_db where
  "demo_ready = snd (transition_operation 0 0 ''a'' StateValidated StateSnapshotted None
     (snd (transition_operation 0 0 ''a'' StatePending StateValidated None demo_created)))"

lemma demo_wf: "operations_wf demo_db" "operations_wf demo_created" "operations_wf demo_ready"
  by code_simp+


lemma create_then_get_witness:
  "\<exists>rec'. get_operation ''a'' demo_created = Inr rec' \<and> map step_name (op_steps rec') = [''one'', ''two'']"
proof -
  obtain res db' where eq: "create_operation (demo_ids CHR ''a'') second (demo_input ''ann'' ''k1'') demo_db = (res, db')"
    by fastforce
  have "(case fst (create_operation (demo_ids CHR ''a'') second (demo_input ''ann'' ''k1'') demo_db) of
      Inl _ \<Rightarrow> False | Inr rec \<Rightarrow> op_id rec = ''a'' \<and> map step_name (op_steps rec) = [''one'', ''two''])"
    by code_simp
  with eq obtain rec where rec: "res = Inr rec" "op_id rec = ''a''" "map step_name (op_steps rec) = [''one'', ''two'']"
    by (cases res) auto
  have db': "db' = demo_created" using eq by (simp add: demo_created_def)
  from create_then_get [OF demo_wf(1) eq [unfolded rec(1)]] obtain rec' where
    r: "get_operation ''a'' demo_created = Inr rec'"
    "map (step_error_update (\<lambda>_. [])) (op_steps rec') = map (step_error_update (\<lambda>_. [])) (op_steps rec)"
    unfolding rec(2) db' by blast
  have names: "map step_name (map (step_error_update (\<lambda>_. [])) sts) = map step_name sts" for sts
    by (induction sts) simp_all
  have "map step_name (op_steps rec') = map step_name (op_steps rec)"
    unfolding names [of "op_steps rec", symmetric] r(2) [symmetric] names ..
  with rec(3) have "map step_name (op_steps rec') = [''one'', ''two'']" by (simp only:)
  with r(1) show ?thesis by (intro exI conjI)
qed

lemma create_is_idempotent_witness:
  "\<exists>rec'. create_operation (demo_ids CHR ''z'') (2 * second) (demo_input ''ann'' ''k1'') demo_created =
     (Inr rec', demo_created) \<and> op_id rec' = ''a''"
proof -
  obtain res db' where eq: "create_operation (demo_ids CHR ''a'') second (demo_input ''ann'' ''k1'') demo_db = (res, db')"
    by fastforce
  have "(case fst (create_operation (demo_ids CHR ''a'') second (demo_input ''ann'' ''k1'') demo_db) of
      Inl _ \<Rightarrow> False | Inr rec \<Rightarrow> op_id rec = ''a'')"
    by code_simp
  with eq obtain rec where rec: "res = Inr rec" "op_id rec = ''a''" by (cases res) auto
  have db': "db' = demo_created" using eq by (simp add: demo_created_def)
  have "demo_ids CHR ''z'' 0 (2 * second) = Inr ''z''" by (simp add: demo_ids_def)
  from create_is_idempotent [OF demo_wf(1) eq [unfolded rec(1)], where gen' = "demo_ids CHR ''z''", OF this] show ?thesis
    unfolding db' rec(2) .
qed

lemma create_conflict_witness:
  "create_operation (demo_ids CHR ''b'') second (demo_input ''bob'' ''k2'') demo_created =
     (Inl (RepoError ''operation already in progress for interface''), demo_created)"
proof (rule create_conflict [where r = "hd (db_operations demo_created)" and oid = "''b''"])
  show "operations_wf demo_created" by (rule demo_wf)
  show "find (same_request (demo_input ''bob'' ''k2'')) (db_operations demo_created) = None" by code_simp
  show "hd (db_operations demo_created) \<in> set (db_operations demo_created)"
    by (rule list.set_sel(1)) code_simp
  show "active_op_state (o_state (hd (db_operations demo_created)))" by code_simp
  show "\<not> superseded (demo_input ''bob'' ''k2'') (hd (db_operations demo_created))" by code_simp
  show "o_interface_id (hd (db_operations demo_created)) = Some (ci_interface_id (demo_input ''bob'' ''k2''))"
    by code_simp
qed (simp_all add: demo_input_def demo_ids_def)

text \<open>Two operations, on two interfaces.\<close>

definition demo_two :: agent_db where
  "demo_two = snd (create_operation (demo_ids CHR ''b'') (2 * second)
     ((demo_input ''bob'' ''k2'')\<lparr>ci_interface_id := ''wg1'', ci_steps := []\<rparr>) demo_created)"

lemma list_operations_pages_witness:
  "list_operations [] [] 1 zero_time [] demo_two = map_r (\<lambda>r. get_operation (o_id r) demo_two)
     (take 1 (newest_first (filter (listed [] [] 0 []) (db_operations demo_two)))) \<and>
   list_operations [] [] 1 (of_milli 2000) ''b'' demo_two =
     map_r (\<lambda>r. get_operation (o_id r) demo_two)
       (take 1 (drop 1 (newest_first (filter (listed [] [] 0 []) (db_operations demo_two))))) \<and>
   map o_id (newest_first (filter (listed [] [] 0 []) (db_operations demo_two))) = [''b'', ''a'']"
proof -
  let ?L = "newest_first (filter (listed [] [] 0 []) (db_operations demo_two))"
  have wf: "operations_wf demo_two" unfolding demo_two_def by (rule create_operation_wf) (rule demo_wf)
  have ids: "map o_id ?L = [''b'', ''a'']" by code_simp
  have "map o_created_at_ms ?L = [2000, 1000]" by code_simp
  with ids have L: "0 < length ?L" "o_id (?L ! 0) = ''b''" "o_created_at_ms (?L ! 0) = 2000"
    by (auto simp: map_eq_Cons_conv)
  from list_operations_pages [OF wf L(1), of 1] L(2,3) ids show ?thesis by simp
qed

lemma engine_agrees_with_rows_witness:
  "\<exists>rec rec'. get_operation ''a'' demo_ready = Inr rec \<and>
     get_operation ''a'' (fst (es_jrn (snd (execute (repo_journal (\<lambda>n. second)) demo_effects None
       \<lparr>es_rec = rec, es_jrn = (demo_ready, 0), es_host = [''old'', ''old'']\<rparr>)))) = Inr rec' \<and>
     op_state rec' = StateCommitted"
proof -
  let ?run = "\<lambda>rec. snd (execute (repo_journal (\<lambda>n. second)) demo_effects None
       \<lparr>es_rec = rec, es_jrn = (demo_ready, 0), es_host = [''old'', ''old'']\<rparr>)"
  have "(case get_operation ''a'' demo_ready of Inl _ \<Rightarrow> False | Inr rec \<Rightarrow> cur_state (?run rec) = StateCommitted)"
    by code_simp
  then obtain rec where rec: "get_operation ''a'' demo_ready = Inr rec" "cur_state (?run rec) = StateCommitted"
    by (auto split: sum.splits)
  obtain rec' where "get_operation ''a'' (fst (es_jrn (?run rec))) = Inr rec'"
    "op_state rec' = cur_state (?run rec)"
    using engine_agrees_with_rows [OF demo_wf(3) rec(1) disjI1 [OF refl],
        where clock = "\<lambda>n. second" and effs = demo_effects and v = None and n = 0 and h = "[''old'', ''old'']"]
    by blast
  with rec show ?thesis by (intro exI [of _ rec] exI [of _ rec']) (simp only:)
qed

end
