(* ===== verification/GoStrings.thy ===== *)
theory GoStrings
  imports Prelude
begin

text \<open>
  The parts of Go's \<open>strings\<close>, \<open>bytes\<close>, \<open>strconv\<close> and \<open>encoding/base64\<close> that the program calls,
  on byte strings: a Go \<open>string\<close> or \<open>[]byte\<close> is a HOL \<open>string\<close>, one \<open>char\<close> per byte. Lower-casing
  text with non-ASCII runes needs Go's Unicode tables, so that case of \<open>to_lower\<close> is an
  argument; every theorem holds for any such function.
\<close>

section \<open>Searching\<close>

definition has_prefix :: "string \<Rightarrow> string \<Rightarrow> bool" where
  "has_prefix s p \<longleftrightarrow> take (length p) s = p"

definition has_suffix :: "string \<Rightarrow> string \<Rightarrow> bool" where
  "has_suffix s p \<longleftrightarrow> has_prefix (rev s) (rev p)"

fun contains_sub :: "string \<Rightarrow> string \<Rightarrow> bool" where
  "contains_sub [] p = (p = [])"
| "contains_sub (c # s) p = (has_prefix (c # s) p \<or> contains_sub s p)"

definition contains_any :: "string \<Rightarrow> string \<Rightarrow> bool" where
  "contains_any s cs = list_ex (\<lambda>c. c \<in> set cs) s"

lemma has_prefix_append [simp]: "has_prefix (p @ s) p"
  by (simp add: has_prefix_def)

lemma has_prefixD: "has_prefix s p \<Longrightarrow> s = p @ drop (length p) s"
  by (metis append_take_drop_id has_prefix_def)

lemma has_suffix_append [simp]: "has_suffix (s @ p) p"
  by (simp add: has_suffix_def)

section \<open>White space\<close>

text \<open>The UTF-8 encodings of the runes for which \<open>unicode.IsSpace\<close> holds.\<close>

definition go_spaces :: "string list" where
  "go_spaces =
     [[CHR 0x09], [CHR 0x0A], [CHR 0x0B], [CHR 0x0C], [CHR 0x0D], [CHR 0x20],
      [CHR 0xC2, CHR 0x85], [CHR 0xC2, CHR 0xA0], [CHR 0xE1, CHR 0x9A, CHR 0x80],
      [CHR 0xE2, CHR 0x80, CHR 0x80], [CHR 0xE2, CHR 0x80, CHR 0x81], [CHR 0xE2, CHR 0x80, CHR 0x82],
      [CHR 0xE2, CHR 0x80, CHR 0x83], [CHR 0xE2, CHR 0x80, CHR 0x84], [CHR 0xE2, CHR 0x80, CHR 0x85],
      [CHR 0xE2, CHR 0x80, CHR 0x86], [CHR 0xE2, CHR 0x80, CHR 0x87], [CHR 0xE2, CHR 0x80, CHR 0x88],
      [CHR 0xE2, CHR 0x80, CHR 0x89], [CHR 0xE2, CHR 0x80, CHR 0x8A], [CHR 0xE2, CHR 0x80, CHR 0xA8],
      [CHR 0xE2, CHR 0x80, CHR 0xA9], [CHR 0xE2, CHR 0x80, CHR 0xAF], [CHR 0xE2, CHR 0x81, CHR 0x9F],
      [CHR 0xE3, CHR 0x80, CHR 0x80]]"

definition space_head :: "string list \<Rightarrow> string \<Rightarrow> string option" where
  "space_head ws s = find (\<lambda>w. w \<noteq> [] \<and> has_prefix s w) ws"

function trim_with :: "string list \<Rightarrow> string \<Rightarrow> string" where
  "trim_with ws s =
     (case space_head ws s of None \<Rightarrow> s | Some w \<Rightarrow> trim_with ws (drop (length w) s))"
  by pat_completeness auto
termination
proof (relation "measure (\<lambda>(ws, s). length s)")
  fix ws s w assume "space_head ws s = Some w"
  then have "w \<noteq> []" "has_prefix s w" by (auto simp: space_head_def dest: find_SomeD)
  then show "((ws, drop (length w) s), ws, s) \<in> measure (\<lambda>(ws, s). length s)"
    by (cases s) (auto simp: has_prefix_def)
qed simp

declare trim_with.simps [simp del]

definition trim_left :: "string \<Rightarrow> string" where
  "trim_left s = trim_with go_spaces s"

definition trim_right :: "string \<Rightarrow> string" where
  "trim_right s = rev (trim_with (map rev go_spaces) (rev s))"

definition trim_space :: "string \<Rightarrow> string" where
  "trim_space s = trim_right (trim_left s)"

lemma trim_with_stop: "space_head ws s = None \<Longrightarrow> trim_with ws s = s"
  by (subst trim_with.simps) simp

lemma trim_with_drop: "\<exists>n. trim_with ws s = drop n s"
proof (induction ws s rule: trim_with.induct)
  case (1 ws s)
  show ?case
  proof (cases "space_head ws s")
    case None
    then show ?thesis by (intro exI [of _ 0]) (simp add: trim_with_stop)
  next
    case (Some w)
    with 1 obtain n where "trim_with ws (drop (length w) s) = drop n (drop (length w) s)" by blast
    with Some show ?thesis
      by (subst trim_with.simps) (auto intro: exI [of _ "n + length w"])
  qed
qed

lemma trim_with_stopped: "space_head ws (trim_with ws s) = None"
proof (induction ws s rule: trim_with.induct)
  case (1 ws s)
  then show ?case by (subst trim_with.simps) (auto split: option.split)
qed

lemma space_head_take: "space_head ws s = None \<Longrightarrow> space_head ws (take n s) = None"
  by (auto simp: space_head_def find_None_iff has_prefix_def min_def split: if_splits)

lemma trim_space_idem: "trim_space (trim_space s) = trim_space s"
proof -
  obtain n where "trim_with (map rev go_spaces) (rev (trim_left s)) = drop n (rev (trim_left s))"
    using trim_with_drop by blast
  then have "trim_space s = take (length (trim_left s) - n) (trim_left s)"
    by (simp add: trim_space_def trim_right_def rev_drop)
  moreover have "space_head go_spaces (trim_left s) = None" unfolding trim_left_def by (rule trim_with_stopped)
  ultimately have "trim_left (trim_space s) = trim_space s"
    unfolding trim_left_def by (metis space_head_take trim_with_stop)
  moreover have "trim_right (trim_space s) = trim_space s"
    unfolding trim_space_def trim_right_def by (simp add: trim_with_stop trim_with_stopped)
  ultimately show ?thesis by (subst trim_space_def) simp
qed

section \<open>Letters and numbers\<close>

definition code :: "char \<Rightarrow> nat" where
  "code c = of_char c"

definition is_ascii :: "string \<Rightarrow> bool" where
  "is_ascii s = list_all (\<lambda>c. code c < 128) s"

definition lower_char :: "char \<Rightarrow> char" where
  "lower_char c = (if 65 \<le> code c \<and> code c \<le> 90 then char_of (code c + 32) else c)"

definition to_lower :: "(string \<Rightarrow> string) \<Rightarrow> string \<Rightarrow> string" where
  "to_lower ul s = (if is_ascii s then map lower_char s else ul s)"

definition is_digit :: "char \<Rightarrow> bool" where
  "is_digit c \<longleftrightarrow> 48 \<le> code c \<and> code c \<le> 57"

definition dec_value :: "string \<Rightarrow> nat" where
  "dec_value s = foldl (\<lambda>v c. 10 * v + (code c - 48)) 0 s"

text \<open>\<open>strconv.ParseUint(s, 10, bits)\<close>.\<close>

definition parse_uint :: "nat \<Rightarrow> string \<Rightarrow> nat option" where
  "parse_uint bits s =
     (if s \<noteq> [] \<and> list_all is_digit s \<and> dec_value s < 2 ^ bits then Some (dec_value s) else None)"

text \<open>\<open>strconv.FormatUint(n, 10)\<close> and \<open>strconv.Itoa\<close>.\<close>

fun show_nat :: "nat \<Rightarrow> string" where
  "show_nat n = (if n < 10 then [char_of (48 + n)] else show_nat (n div 10) @ [char_of (48 + n mod 10)])"

declare show_nat.simps [simp del]

definition show_int :: "int \<Rightarrow> string" where
  "show_int i = (if i < 0 then CHR ''-'' # show_nat (nat (- i)) else show_nat (nat i))"

lemma code_char_of [simp]: "n < 256 \<Longrightarrow> code (char_of n) = n"
  by (simp add: code_def)

lemma dec_value_snoc: "dec_value (s @ [c]) = 10 * dec_value s + (code c - 48)"
  by (simp add: dec_value_def)

lemma dec_value_show_nat: "dec_value (show_nat n) = n"
proof (induction n rule: show_nat.induct)
  case (1 n)
  show ?case
  proof (cases "n < 10")
    case True
    then show ?thesis by (subst show_nat.simps) (simp add: dec_value_def)
  next
    case False
    with 1 show ?thesis by (subst show_nat.simps) (simp add: dec_value_snoc)
  qed
qed

lemma is_digit_char_of: "n < (10::nat) \<Longrightarrow> is_digit (char_of (48 + n))"
  by (simp add: is_digit_def)

lemma show_nat_digits: "list_all is_digit (show_nat n)" and show_nat_Nil [simp]: "show_nat n \<noteq> []"
proof (induction n rule: show_nat.induct)
  case (1 n)
  {
    case 1
    show ?case
      using "1.IH"(1) by (subst show_nat.simps) (auto simp: is_digit_char_of)
  next
    case 2
    show ?case by (subst show_nat.simps) simp
  }
qed

lemma parse_uint_show_nat: "n < 2 ^ bits \<Longrightarrow> parse_uint bits (show_nat n) = Some n"
  by (simp add: parse_uint_def show_nat_digits dec_value_show_nat)

section \<open>Splitting and joining\<close>

fun split_on :: "char \<Rightarrow> string \<Rightarrow> string list" where
  "split_on c [] = [[]]"
| "split_on c (x # xs) =
     (if x = c then [] # split_on c xs
      else (case split_on c xs of [] \<Rightarrow> [[x]] | w # ws \<Rightarrow> (x # w) # ws))"

fun join :: "string \<Rightarrow> string list \<Rightarrow> string" where
  "join sep [] = []"
| "join sep [x] = x"
| "join sep (x # y # ys) = x @ sep @ join sep (y # ys)"

lemma split_on_not_Nil [simp]: "split_on c xs \<noteq> []"
  by (cases xs) (auto split: list.split)

lemma split_on_fresh: "c \<notin> set xs \<Longrightarrow> split_on c xs = [xs]"
  by (induction xs) auto

lemma split_on_append: "c \<notin> set xs \<Longrightarrow> split_on c (xs @ c # ys) = xs # split_on c ys"
  by (induction xs) auto

lemma split_on_join:
  "xs \<noteq> [] \<Longrightarrow> list_all (\<lambda>x. c \<notin> set x) xs \<Longrightarrow> split_on c (join [c] xs) = xs"
  by (induction "[c]" xs rule: join.induct) (auto simp: split_on_fresh split_on_append)

section \<open>Standard base64\<close>

definition b64_digit :: "char \<Rightarrow> nat option" where
  "b64_digit c =
     (let n = code c in
      if 65 \<le> n \<and> n \<le> 90 then Some (n - 65)
      else if 97 \<le> n \<and> n \<le> 122 then Some (n - 71)
      else if 48 \<le> n \<and> n \<le> 57 then Some (n + 4)
      else if c = CHR ''+'' then Some 62
      else if c = CHR ''/'' then Some 63
      else None)"

fun b64_quads :: "string \<Rightarrow> nat list option" where
  "b64_quads [] = Some []"
| "b64_quads [a, b, c, d] =
     (case (b64_digit a, b64_digit b) of
        (Some p, Some q) \<Rightarrow>
          (if c = CHR ''='' \<and> d = CHR ''='' then Some [(p * 4 + q div 16) mod 256]
           else (case b64_digit c of
               None \<Rightarrow> None
             | Some r \<Rightarrow>
                 (if d = CHR ''='' then Some [p * 4 + q div 16, (q mod 16) * 16 + r div 4]
                  else (case b64_digit d of
                      None \<Rightarrow> None
                    | Some t \<Rightarrow> Some [p * 4 + q div 16, (q mod 16) * 16 + r div 4, (r mod 4) * 64 + t]))))
      | _ \<Rightarrow> None)"
| "b64_quads (a # b # c # d # rest) =
     (case (b64_digit a, b64_digit b, b64_digit c, b64_digit d) of
        (Some p, Some q, Some r, Some t) \<Rightarrow>
          map_option (\<lambda>bs. [p * 4 + q div 16, (q mod 16) * 16 + r div 4, (r mod 4) * 64 + t] @ bs)
            (b64_quads rest)
      | _ \<Rightarrow> None)"
| "b64_quads _ = None"

text \<open>\<open>base64.StdEncoding.DecodeString\<close>, which skips line breaks; the result as byte values.\<close>

definition b64_decode :: "string \<Rightarrow> nat list option" where
  "b64_decode s = b64_quads (filter (\<lambda>c. c \<noteq> CHR 0x0A \<and> c \<noteq> CHR 0x0D) s)"

end
