(* ===== verification/Netip.thy ===== *)
theory Netip
  imports GoStrings
begin

text \<open>
  Go's \<open>net/netip\<close>: addresses and prefixes as values, parsing and printing as the program
  relies on them. An IPv4 address is a 32-bit word, an IPv6 address a 128-bit word with its
  zone (the empty string for none); \<open>NoAddr\<close> is the zero \<open>Addr\<close>. A prefix keeps its length as
  an integer, \<open>- 1\<close> when it is invalid.
\<close>

unbundle bit_operations_syntax

section \<open>Addresses\<close>

datatype addr = NoAddr | V4 "32 word" | V6 "128 word" string

record ip_prefix =
  pfx_addr :: addr
  pfx_bits :: int

fun bit_len :: "addr \<Rightarrow> int" where
  "bit_len NoAddr = 0" | "bit_len (V4 w) = 32" | "bit_len (V6 w z) = 128"

fun is4 :: "addr \<Rightarrow> bool" where
  "is4 (V4 w) = True" | "is4 _ = False"

fun is6 :: "addr \<Rightarrow> bool" where
  "is6 (V6 w z) = True" | "is6 _ = False"

fun addr_zone :: "addr \<Rightarrow> string" where
  "addr_zone (V6 w z) = z" | "addr_zone _ = []"

fun without_zone :: "addr \<Rightarrow> addr" where
  "without_zone (V6 w z) = V6 w []" | "without_zone a = a"

fun is4in6 :: "addr \<Rightarrow> bool" where
  "is4in6 (V6 w z) = (drop_bit 32 w = 0xFFFF)" | "is4in6 _ = False"

fun unmap :: "addr \<Rightarrow> addr" where
  "unmap (V6 w z) = (if drop_bit 32 w = 0xFFFF then V4 (ucast w) else V6 w z)"
| "unmap a = a"

definition is_valid_addr :: "addr \<Rightarrow> bool" where
  "is_valid_addr a \<longleftrightarrow> a \<noteq> NoAddr"

text \<open>The successor, or \<open>NoAddr\<close> past the last address of the family.\<close>

fun next_addr :: "addr \<Rightarrow> addr" where
  "next_addr NoAddr = NoAddr"
| "next_addr (V4 w) = (if w = - 1 then NoAddr else V4 (w + 1))"
| "next_addr (V6 w z) = (if w = - 1 then NoAddr else V6 (w + 1) z)"

section \<open>Prefixes\<close>

definition prefix_from :: "addr \<Rightarrow> int \<Rightarrow> ip_prefix" where
  "prefix_from a b =
     \<lparr>pfx_addr = without_zone a,
      pfx_bits = (if a \<noteq> NoAddr \<and> 0 \<le> b \<and> b \<le> bit_len a then b else - 1)\<rparr>"

definition no_prefix :: ip_prefix where
  "no_prefix = \<lparr>pfx_addr = NoAddr, pfx_bits = - 1\<rparr>"

definition valid_prefix :: "ip_prefix \<Rightarrow> bool" where
  "valid_prefix p \<longleftrightarrow> 0 \<le> pfx_bits p"

definition top_bits :: "nat \<Rightarrow> 'a::len word \<Rightarrow> 'a word" where
  "top_bits n w = push_bit (LENGTH('a) - n) (drop_bit (LENGTH('a) - n) w)"

text \<open>\<open>Addr.Prefix(b)\<close>: the prefix of \<open>b\<close> bits with the host bits cleared.\<close>

definition addr_prefix :: "addr \<Rightarrow> int \<Rightarrow> ip_prefix option" where
  "addr_prefix a b =
     (if b < 0 then None
      else (case a of
          NoAddr \<Rightarrow> Some no_prefix
        | V4 w \<Rightarrow> if b > 32 then None else Some (prefix_from (V4 (top_bits (nat b) w)) b)
        | V6 w z \<Rightarrow> if b > 128 then None else Some (prefix_from (V6 (top_bits (nat b) w) z) b)))"

definition masked :: "ip_prefix \<Rightarrow> ip_prefix" where
  "masked p = (case addr_prefix (pfx_addr p) (pfx_bits p) of None \<Rightarrow> no_prefix | Some m \<Rightarrow> m)"

definition contains :: "ip_prefix \<Rightarrow> addr \<Rightarrow> bool" where
  "contains p a =
     (if \<not> valid_prefix p \<or> addr_zone a \<noteq> [] then False
      else (case (pfx_addr p, a) of
          (V4 v, V4 w) \<Rightarrow> drop_bit (32 - nat (pfx_bits p)) (v XOR w) = 0
        | (V6 v _, V6 w _) \<Rightarrow> drop_bit (128 - nat (pfx_bits p)) (v XOR w) = 0
        | _ \<Rightarrow> False))"

definition overlaps :: "ip_prefix \<Rightarrow> ip_prefix \<Rightarrow> bool" where
  "overlaps p q =
     (if \<not> valid_prefix p \<or> \<not> valid_prefix q then False
      else if p = q then True
      else if is4 (pfx_addr p) \<noteq> is4 (pfx_addr q) then False
      else if min (pfx_bits p) (pfx_bits q) = 0 then True
      else (case (addr_prefix (pfx_addr p) (min (pfx_bits p) (pfx_bits q)),
                  addr_prefix (pfx_addr q) (min (pfx_bits p) (pfx_bits q))) of
          (Some p', Some q') \<Rightarrow> pfx_addr p' = pfx_addr q'
        | _ \<Rightarrow> False))"

section \<open>Parsing\<close>

definition octet :: "string \<Rightarrow> nat option" where
  "octet s =
     (if s \<noteq> [] \<and> list_all is_digit s \<and> (length s = 1 \<or> hd s \<noteq> CHR ''0'') \<and> dec_value s \<le> 255
      then Some (dec_value s) else None)"

definition parse_v4 :: "string \<Rightarrow> nat list option" where
  "parse_v4 s =
     (case map octet (split_on CHR ''.'' s) of
        [Some a, Some b, Some c, Some d] \<Rightarrow> Some [a, b, c, d]
      | _ \<Rightarrow> None)"

definition v4_of :: "nat list \<Rightarrow> 32 word" where
  "v4_of bs = foldl (\<lambda>w b. push_bit 8 w OR of_nat b) 0 bs"

definition hex_digit :: "char \<Rightarrow> nat option" where
  "hex_digit c =
     (let n = code c in
      if 48 \<le> n \<and> n \<le> 57 then Some (n - 48)
      else if 97 \<le> n \<and> n \<le> 102 then Some (n - 87)
      else if 65 \<le> n \<and> n \<le> 70 then Some (n - 55)
      else None)"

definition hex_value :: "string \<Rightarrow> nat" where
  "hex_value s = foldl (\<lambda>v c. 16 * v + (case hex_digit c of None \<Rightarrow> 0 | Some d \<Rightarrow> d)) 0 s"

text \<open>
  The loop of \<open>parseIPv6\<close>: \<open>k\<close> groups may still follow, \<open>gs\<close> are the groups read so far, \<open>ell\<close> is
  the number of groups before the ellipsis. The value is the groups, the ellipsis and what is
  left of the text.
\<close>

fun v6_groups :: "nat \<Rightarrow> string \<Rightarrow> nat list \<Rightarrow> nat option \<Rightarrow> (nat list \<times> nat option \<times> string) option" where
  "v6_groups 0 s gs ell = Some (gs, ell, s)"
| "v6_groups (Suc k) s gs ell =
     (let hex = takeWhile (\<lambda>c. hex_digit c \<noteq> None) s; rest = dropWhile (\<lambda>c. hex_digit c \<noteq> None) s in
      if hex = [] \<or> length hex > 4 then None
      else (case rest of
          [] \<Rightarrow> Some (gs @ [hex_value hex], ell, [])
        | c # rest' \<Rightarrow>
            if c = CHR ''.'' then
              (if (ell = None \<and> length gs \<noteq> 6) \<or> length gs > 6 then None
               else (case parse_v4 s of
                   Some [a, b, d, e] \<Rightarrow> Some (gs @ [a * 256 + b, d * 256 + e], ell, [])
                 | _ \<Rightarrow> None))
            else if c \<noteq> CHR '':'' \<or> rest' = [] then None
            else if hd rest' = CHR '':'' then
              (if ell \<noteq> None then None
               else if tl rest' = [] then Some (gs @ [hex_value hex], Some (Suc (length gs)), [])
               else v6_groups k (tl rest') (gs @ [hex_value hex]) (Some (Suc (length gs))))
            else v6_groups k rest' (gs @ [hex_value hex]) ell))"

definition v6_of :: "nat list \<Rightarrow> 128 word" where
  "v6_of gs = foldl (\<lambda>w g. push_bit 16 w OR of_nat g) 0 gs"

definition parse_v6_body :: "string \<Rightarrow> (128 word) option" where
  "parse_v6_body s =
     (let start = (if has_prefix s ''::'' then v6_groups 8 (drop 2 s) [] (Some 0)
                   else v6_groups 8 s [] None) in
      if s = ''::'' then Some 0
      else (case start of
          None \<Rightarrow> None
        | Some (gs, ell, rest) \<Rightarrow>
            if rest \<noteq> [] then None
            else if length gs < 8 then
              (case ell of
                 None \<Rightarrow> None
               | Some e \<Rightarrow> Some (v6_of (take e gs @ replicate (8 - length gs) 0 @ drop e gs)))
            else if ell \<noteq> None then None
            else Some (v6_of gs)))"

definition parse_v6 :: "string \<Rightarrow> addr option" where
  "parse_v6 s =
     (let body = takeWhile (\<lambda>c. c \<noteq> CHR ''%'') s; zone = drop (Suc (length body)) s in
      if CHR ''%'' \<in> set s \<and> zone = [] then None
      else map_option (\<lambda>w. V6 w zone) (parse_v6_body body))"

fun first_mark :: "string \<Rightarrow> char option" where
  "first_mark [] = None"
| "first_mark (c # s) = (if c \<in> {CHR ''.'', CHR '':'', CHR ''%''} then Some c else first_mark s)"

definition parse_addr :: "string \<Rightarrow> addr option" where
  "parse_addr s =
     (case first_mark s of
        Some c \<Rightarrow>
          (if c = CHR ''.'' then map_option (\<lambda>bs. V4 (v4_of bs)) (parse_v4 s)
           else if c = CHR '':'' then parse_v6 s else None)
      | None \<Rightarrow> None)"

text \<open>The part before and after the last \<open>/\<close>.\<close>

definition cut_last_slash :: "string \<Rightarrow> (string \<times> string) option" where
  "cut_last_slash s =
     (if CHR ''/'' \<in> set s
      then (let tail = takeWhile (\<lambda>c. c \<noteq> CHR ''/'') (rev s) in
            Some (take (length s - length tail - 1) s, rev tail))
      else None)"

definition parse_bits :: "string \<Rightarrow> int \<Rightarrow> int option" where
  "parse_bits s limit =
     (if s \<noteq> [] \<and> list_all is_digit s \<and> (length s = 1 \<or> hd s \<noteq> CHR ''0'') \<and> int (dec_value s) \<le> limit
      then Some (int (dec_value s)) else None)"

definition parse_prefix :: "string \<Rightarrow> ip_prefix option" where
  "parse_prefix s =
     (case cut_last_slash s of
        None \<Rightarrow> None
      | Some (host, bits) \<Rightarrow>
          (case parse_addr host of
             None \<Rightarrow> None
           | Some a \<Rightarrow>
               if addr_zone a \<noteq> [] then None
               else map_option (prefix_from a) (parse_bits bits (bit_len a))))"

section \<open>Printing\<close>

definition show_v4 :: "32 word \<Rightarrow> string" where
  "show_v4 w = join ''.'' (map (\<lambda>k. show_nat (unat (drop_bit k w AND 0xFF))) [24, 16, 8, 0])"

definition hex_char :: "nat \<Rightarrow> char" where
  "hex_char n = (if n < 10 then char_of (48 + n) else char_of (87 + n))"

fun show_hex :: "nat \<Rightarrow> string" where
  "show_hex n = (if n < 16 then [hex_char n] else show_hex (n div 16) @ [hex_char (n mod 16)])"

declare show_hex.simps [simp del]

definition v6_group_list :: "128 word \<Rightarrow> nat list" where
  "v6_group_list w = map (\<lambda>k. unat (drop_bit (16 * k) w AND 0xFFFF)) [7, 6, 5, 4, 3, 2, 1, 0]"

definition zero_run :: "nat list \<Rightarrow> nat \<Rightarrow> nat" where
  "zero_run gs i = length (takeWhile (\<lambda>g. g = 0) (drop i gs))"

text \<open>The first longest run of at least two zero groups, as its start and its end.\<close>

definition longest_zeros :: "nat list \<Rightarrow> (nat \<times> nat) option" where
  "longest_zeros gs =
     foldl (\<lambda>best i. let l = zero_run gs i in
        if l \<ge> 2 \<and> (case best of None \<Rightarrow> True | Some (a, b) \<Rightarrow> l > b - a) then Some (i, i + l) else best)
       None [0, 1, 2, 3, 4, 5, 6, 7]"

definition show_v6 :: "128 word \<Rightarrow> string" where
  "show_v6 w =
     (let gs = v6_group_list w in
      case longest_zeros gs of
        None \<Rightarrow> join '':'' (map show_hex gs)
      | Some (a, b) \<Rightarrow> join '':'' (map show_hex (take a gs)) @ ''::'' @ join '':'' (map show_hex (drop b gs)))"

fun show_addr :: "addr \<Rightarrow> string" where
  "show_addr NoAddr = ''invalid IP''"
| "show_addr (V4 w) = show_v4 w"
| "show_addr (V6 w z) =
     (if drop_bit 32 w = 0xFFFF then ''::ffff:'' @ show_v4 (ucast w) else show_v6 w) @
     (if z = [] then [] else CHR ''%'' # z)"

definition show_prefix :: "ip_prefix \<Rightarrow> string" where
  "show_prefix p =
     (if \<not> valid_prefix p then ''invalid Prefix''
      else show_addr (without_zone (pfx_addr p)) @ ''/'' @ show_int (pfx_bits p))"

end
