(* ===== verification/ConfigDoc.thy ===== *)
theory ConfigDoc
  imports Netip
begin

text \<open>
  \<^verbatim>\<open>src/internal/agent/configdoc/document.go\<close>: the line-preserving wg-quick document. A document
  owns its bytes; parsing splits them into nodes, \<open>analyze\<close> folds over the nodes, and every
  patch renders new bytes and parses them again. \<open>ul\<close> is \<open>strings.ToLower\<close> on text that is not
  ASCII. Go's map of a peer's fields is an association list in the order of first use.
\<close>

section \<open>Data\<close>

datatype node_kind = RawLine | BlankLine | CommentLine | SectionHeader | Assignment

record node =
  nd_kind :: node_kind
  nd_raw :: string
  nd_section :: string
  nd_key :: string
  nd_value :: string
  nd_value_start :: nat
  nd_value_end :: nat

record warning =
  w_line :: nat
  w_code :: string
  w_message :: string

record doc_peer =
  dp_public_key :: string
  dp_psk_present :: bool
  dp_allowed_ips :: "string list"
  dp_endpoint :: string
  dp_keepalive :: nat
  dp_block_start :: nat
  dp_block_end :: nat
  dp_fields :: "(string \<times> nat) list"

record analysis =
  an_interface_count :: nat
  an_private_key_present :: bool
  an_save_config :: bool
  an_has_hooks :: bool
  an_has_unknown :: bool
  an_peers :: "doc_peer list"
  an_warnings :: "warning list"

record document =
  d_raw :: string
  d_nodes :: "node list"
  d_analysis :: analysis
  d_newline :: string

record peer_patch =
  pp_allowed_ips :: "string list option"
  pp_endpoint :: "string option"
  pp_keepalive :: "nat option"
  pp_preshared_key :: "string option"

record new_peer =
  np_public_key :: string
  np_preshared_key :: string
  np_allowed_ips :: "string list"
  np_endpoint :: string
  np_keepalive :: nat

datatype doc_error =
    ErrUnsupportedSyntax string
  | ErrPeerNotFound
  | ErrDuplicatePeer string
  | DocError string

section \<open>Lines and nodes\<close>

abbreviation (input) LF :: char where "LF \<equiv> CHR 0x0A"
abbreviation (input) CR :: char where "CR \<equiv> CHR 0x0D"

fun split_lines :: "string \<Rightarrow> string list" where
  "split_lines [] = []"
| "split_lines (c # s) =
     (if c = LF then [c] # split_lines s
      else (case split_lines s of [] \<Rightarrow> [[c]] | l # ls \<Rightarrow> (c # l) # ls))"

definition trim_suffix :: "string \<Rightarrow> char \<Rightarrow> string" where
  "trim_suffix s c = (if s \<noteq> [] \<and> last s = c then butlast s else s)"

definition trim_newline :: "string \<Rightarrow> string" where
  "trim_newline raw = trim_suffix (trim_suffix raw LF) CR"

definition is_blank :: "char \<Rightarrow> bool" where
  "is_blank c \<longleftrightarrow> c = CHR '' '' \<or> c = CHR 0x09"

text \<open>The node of one line, and the section that holds after it.\<close>

definition parse_line :: "(string \<Rightarrow> string) \<Rightarrow> string \<Rightarrow> string \<Rightarrow> node" where
  "parse_line ul section raw =
     (let body = trim_newline raw; trimmed = trim_space body;
          nd = \<lparr>nd_kind = RawLine, nd_raw = raw, nd_section = section, nd_key = [], nd_value = [],
                nd_value_start = 0, nd_value_end = 0\<rparr> in
      if trimmed = [] then nd\<lparr>nd_kind := BlankLine\<rparr>
      else if hd trimmed = CHR ''#'' \<or> hd trimmed = CHR '';'' then nd\<lparr>nd_kind := CommentLine\<rparr>
      else if hd trimmed = CHR ''['' \<and> last trimmed = CHR '']'' then
        nd\<lparr>nd_kind := SectionHeader,
           nd_section := to_lower ul (trim_space (take (length trimmed - 2) (drop 1 trimmed)))\<rparr>
      else if CHR ''='' \<in> set body then
        (let equal = length (takeWhile (\<lambda>c. c \<noteq> CHR ''='') body);
             key = to_lower ul (trim_space (take equal body));
             start = Suc equal + length (takeWhile is_blank (drop (Suc equal) body));
             stop = max start (length body - length (takeWhile is_blank (rev body))) in
         if key = [] then nd
         else nd\<lparr>nd_kind := Assignment, nd_key := key, nd_value := drop start (take stop body),
                 nd_value_start := start, nd_value_end := stop\<rparr>)
      else nd)"

fun parse_lines :: "(string \<Rightarrow> string) \<Rightarrow> string \<Rightarrow> string list \<Rightarrow> node list" where
  "parse_lines ul section [] = []"
| "parse_lines ul section (raw # rest) =
     (let nd = parse_line ul section raw in
      nd # parse_lines ul (if nd_kind nd = SectionHeader then nd_section nd else section) rest)"

definition parse_nodes :: "(string \<Rightarrow> string) \<Rightarrow> string \<Rightarrow> node list" where
  "parse_nodes ul input = parse_lines ul [] (split_lines input)"

definition render_nodes :: "node list \<Rightarrow> string" where
  "render_nodes nodes = concat (map nd_raw nodes)"

definition detect_newline :: "string \<Rightarrow> string" where
  "detect_newline input = (if contains_sub input [CR, LF] then [CR, LF] else [LF])"

definition ends_with_blank_line :: "string \<Rightarrow> bool" where
  "ends_with_blank_line input \<longleftrightarrow> has_suffix input [LF, LF] \<or> has_suffix input [CR, LF, CR, LF]"

definition replace_assignment_value :: "node \<Rightarrow> string \<Rightarrow> string" where
  "replace_assignment_value nd value =
     (let raw = nd_raw nd; body_length = length (trim_newline raw) in
      if nd_value_start nd > body_length \<or> nd_value_end nd > body_length then raw
      else take (nd_value_start nd) raw @ value @ drop (nd_value_end nd) raw)"

section \<open>Keys and prefixes\<close>

definition validate_key :: "string \<Rightarrow> doc_error option" where
  "validate_key value =
     (case b64_decode (trim_space value) of
        None \<Rightarrow> Some (DocError ''key must decode to exactly 32 bytes'')
      | Some bs \<Rightarrow>
          (if length bs \<noteq> 32 then Some (DocError ''key must decode to exactly 32 bytes'')
           else if list_all (\<lambda>b. b = 0) bs then Some (DocError ''key cannot be all zero'')
           else None))"

fun canonical_prefixes_from :: "string list \<Rightarrow> string list \<Rightarrow> doc_error + string list" where
  "canonical_prefixes_from result [] = Inr result"
| "canonical_prefixes_from result (v # vs) =
     (case parse_prefix (trim_space v) of
        None \<Rightarrow> Inl (DocError ''invalid CIDR'')
      | Some p \<Rightarrow>
          (let canonical = show_prefix (masked p) in
           canonical_prefixes_from (if canonical \<in> set result then result else result @ [canonical]) vs))"

definition canonical_prefixes :: "string list \<Rightarrow> doc_error + string list" where
  "canonical_prefixes values = canonical_prefixes_from [] values"

definition display_key :: "string \<Rightarrow> string" where
  "display_key key =
     (if key = ''allowedips'' then ''AllowedIPs''
      else if key = ''endpoint'' then ''Endpoint''
      else if key = ''persistentkeepalive'' then ''PersistentKeepalive''
      else if key = ''presharedkey'' then ''PresharedKey''
      else key)"

section \<open>Analysis\<close>

definition known_interface :: "string list" where
  "known_interface = [''privatekey'', ''address'', ''listenport'', ''fwmark'', ''dns'', ''mtu'', ''table'',
     ''preup'', ''postup'', ''predown'', ''postdown'', ''saveconfig'']"

definition known_peer :: "string list" where
  "known_peer = [''publickey'', ''presharedkey'', ''allowedips'', ''endpoint'', ''persistentkeepalive'']"

text \<open>The variables of \<open>analyze\<close>: the analysis so far, the open peer section, the count of private keys.\<close>

record analyzer =
  az_analysis :: analysis
  az_peer :: "doc_peer option"
  az_private_keys :: nat

definition warn :: "nat \<Rightarrow> string \<Rightarrow> string \<Rightarrow> analyzer \<Rightarrow> analyzer" where
  "warn line c msg z = z\<lparr>az_analysis := (az_analysis z)\<lparr>an_warnings :=
     an_warnings (az_analysis z) @ [\<lparr>w_line = line, w_code = c, w_message = msg\<rparr>]\<rparr>\<rparr>"

definition mark_unknown :: "analyzer \<Rightarrow> analyzer" where
  "mark_unknown z = z\<lparr>az_analysis := (az_analysis z)\<lparr>an_has_unknown := True\<rparr>\<rparr>"

definition finish_peer :: "nat \<Rightarrow> analyzer \<Rightarrow> analyzer" where
  "finish_peer stop z =
     (case az_peer z of
        None \<Rightarrow> z
      | Some p \<Rightarrow>
          (let p' = p\<lparr>dp_block_end := stop\<rparr>; z' = z\<lparr>az_peer := None\<rparr> in
           if dp_public_key p' = []
           then warn (Suc (dp_block_start p')) ''PEER_PUBLIC_KEY_MISSING'' ''Peer section has no valid PublicKey'' z'
           else (let z'' = (if list_ex (\<lambda>q. dp_public_key q = dp_public_key p') (an_peers (az_analysis z'))
                            then warn (Suc (dp_block_start p')) ''DUPLICATE_PEER_PUBLIC_KEY''
                                   ''Peer PublicKey appears more than once'' z'
                            else z') in
                 z''\<lparr>az_analysis := (az_analysis z'')\<lparr>an_peers := an_peers (az_analysis z'') @ [p']\<rparr>\<rparr>)))"

definition new_doc_peer :: "nat \<Rightarrow> doc_peer" where
  "new_doc_peer start = \<lparr>dp_public_key = [], dp_psk_present = False, dp_allowed_ips = [], dp_endpoint = [],
     dp_keepalive = 0, dp_block_start = start, dp_block_end = 0, dp_fields = []\<rparr>"

definition analyze_header :: "nat \<Rightarrow> node \<Rightarrow> analyzer \<Rightarrow> analyzer" where
  "analyze_header i nd z0 =
     (let z = finish_peer i z0 in
      if nd_section nd = ''interface''
      then z\<lparr>az_analysis := (az_analysis z)\<lparr>an_interface_count := Suc (an_interface_count (az_analysis z))\<rparr>\<rparr>
      else if nd_section nd = ''peer'' then z\<lparr>az_peer := Some (new_doc_peer i)\<rparr>
      else warn (Suc i) ''UNKNOWN_SECTION''
             (''Unknown section '' @ nd_section nd @ '' is preserved but blocks adoption'') (mark_unknown z))"

definition analyze_interface_key :: "nat \<Rightarrow> node \<Rightarrow> analyzer \<Rightarrow> analyzer" where
  "analyze_interface_key i nd z0 =
     (let z = (if nd_key nd \<notin> set known_interface
               then warn (Suc i) ''UNKNOWN_INTERFACE_KEY'' ''Unknown Interface key is preserved'' z0 else z0) in
      if nd_key nd = ''privatekey'' then
        (let z1 = z\<lparr>az_private_keys := Suc (az_private_keys z)\<rparr> in
         if az_private_keys z1 > 1
         then warn (Suc i) ''REPEATED_SECRET_KEY'' ''Repeated Interface PrivateKey is unsafe to adopt'' z1
         else if validate_key (nd_value nd) \<noteq> None
         then warn (Suc i) ''INTERFACE_PRIVATE_KEY_INVALID''
                ''Interface PrivateKey is not a non-zero 32-byte base64 key'' z1
         else z1\<lparr>az_analysis := (az_analysis z1)\<lparr>an_private_key_present := True\<rparr>\<rparr>)
      else if nd_key nd = ''saveconfig'' then
        z\<lparr>az_analysis := (az_analysis z)\<lparr>an_save_config :=
            map lower_char (trim_space (nd_value nd)) = ''true''\<rparr>\<rparr>
      else if nd_key nd \<in> {''preup'', ''postup'', ''predown'', ''postdown''} then
        z\<lparr>az_analysis := (az_analysis z)\<lparr>an_has_hooks := True\<rparr>\<rparr>
      else z)"

definition split_allowed :: "string \<Rightarrow> string list" where
  "split_allowed value = List.map_filter
     (\<lambda>item. map_option (\<lambda>p. show_prefix (masked p)) (parse_prefix (trim_space item))) (split_on CHR '','' value)"

definition analyze_peer_key :: "nat \<Rightarrow> node \<Rightarrow> analyzer \<Rightarrow> analyzer" where
  "analyze_peer_key i nd z0 =
     (let z = (if nd_key nd \<notin> set known_peer
               then warn (Suc i) ''UNKNOWN_PEER_KEY'' ''Unknown Peer key is preserved'' z0 else z0) in
      case az_peer z of
        None \<Rightarrow> z
      | Some p \<Rightarrow>
          (let repeated = nd_key nd \<in> fst ` set (dp_fields p);
               p1 = (if repeated then p else p\<lparr>dp_fields := dp_fields p @ [(nd_key nd, i)]\<rparr>);
               z1 = (if repeated \<and> (nd_key nd = ''publickey'' \<or> nd_key nd = ''presharedkey'')
                     then warn (Suc i) ''REPEATED_SECRET_KEY''
                            ''Repeated peer identity/secret key is unsafe to adopt'' z
                     else z) in
           if nd_key nd = ''publickey'' then
             (if validate_key (nd_value nd) \<noteq> None
              then (warn (Suc i) ''PEER_PUBLIC_KEY_INVALID''
                      ''Peer PublicKey is not a non-zero 32-byte base64 key'' z1)\<lparr>az_peer := Some p1\<rparr>
              else z1\<lparr>az_peer := Some (p1\<lparr>dp_public_key := trim_space (nd_value nd)\<rparr>)\<rparr>)
           else if nd_key nd = ''presharedkey'' then
             z1\<lparr>az_peer := Some (p1\<lparr>dp_psk_present := trim_space (nd_value nd) \<noteq> []\<rparr>)\<rparr>
           else if nd_key nd = ''allowedips'' then
             z1\<lparr>az_peer := Some (p1\<lparr>dp_allowed_ips := dp_allowed_ips p1 @ split_allowed (nd_value nd)\<rparr>)\<rparr>
           else if nd_key nd = ''endpoint'' then
             z1\<lparr>az_peer := Some (p1\<lparr>dp_endpoint := trim_space (nd_value nd)\<rparr>)\<rparr>
           else if nd_key nd = ''persistentkeepalive'' then
             (case parse_uint 16 (trim_space (nd_value nd)) of
                None \<Rightarrow> z1\<lparr>az_peer := Some p1\<rparr>
              | Some v \<Rightarrow> z1\<lparr>az_peer := Some (p1\<lparr>dp_keepalive := v\<rparr>)\<rparr>)
           else z1\<lparr>az_peer := Some p1\<rparr>))"

definition analyze_node :: "nat \<times> node \<Rightarrow> analyzer \<Rightarrow> analyzer" where
  "analyze_node = (\<lambda>(i, nd) z.
     (case nd_kind nd of
        SectionHeader \<Rightarrow> analyze_header i nd z
      | RawLine \<Rightarrow> warn (Suc i) ''UNPARSED_STATEMENT'' ''Unparsed statement is preserved but blocks adoption''
                     (mark_unknown z)
      | Assignment \<Rightarrow>
          (if nd_section nd = ''interface'' then analyze_interface_key i nd z
           else if nd_section nd = ''peer'' then analyze_peer_key i nd z
           else warn (Suc i) ''ASSIGNMENT_OUTSIDE_SECTION''
                  ''Assignment outside a known section blocks adoption'' (mark_unknown z))
      | _ \<Rightarrow> z))"

definition empty_analyzer :: analyzer where
  "empty_analyzer = \<lparr>az_analysis = \<lparr>an_interface_count = 0, an_private_key_present = False,
     an_save_config = False, an_has_hooks = False, an_has_unknown = False, an_peers = [], an_warnings = []\<rparr>,
     az_peer = None, az_private_keys = 0\<rparr>"

definition analyze :: "node list \<Rightarrow> analysis" where
  "analyze nodes =
     (let z = finish_peer (length nodes) (fold (analyze_node) (enumerate 0 nodes) empty_analyzer) in
      az_analysis (if an_interface_count (az_analysis z) = 1 \<and> az_private_keys z = 0
        then warn 0 ''INTERFACE_PRIVATE_KEY_MISSING'' ''Interface section has no PrivateKey'' z else z))"

section \<open>Documents\<close>

definition default_max_bytes :: nat where
  "default_max_bytes = 4 * 2 ^ 20"

definition parse_doc :: "(string \<Rightarrow> string) \<Rightarrow> string \<Rightarrow> doc_error + document" where
  "parse_doc ul input =
     (if length input > default_max_bytes then Inl (DocError ''config exceeds the size limit'')
      else Inr \<lparr>d_raw = input, d_nodes = parse_nodes ul input,
                d_analysis = analyze (parse_nodes ul input), d_newline = detect_newline input\<rparr>)"

text \<open>\<open>Destroy\<close> clears the bytes and drops the nodes.\<close>

definition destroy_doc :: "document \<Rightarrow> document" where
  "destroy_doc d = d\<lparr>d_raw := [], d_nodes := [], d_analysis := az_analysis empty_analyzer\<rparr>"

definition adoption_safe :: "document \<Rightarrow> doc_error option" where
  "adoption_safe d =
     (if an_interface_count (d_analysis d) \<noteq> 1
      then Some (ErrUnsupportedSyntax ''expected exactly one Interface section'')
      else if an_has_unknown (d_analysis d)
      then Some (ErrUnsupportedSyntax ''document contains an unknown section or raw statement'')
      else (case find (\<lambda>w. w_code w \<in> {''DUPLICATE_PEER_PUBLIC_KEY'', ''PEER_PUBLIC_KEY_MISSING'',
                   ''PEER_PUBLIC_KEY_INVALID'', ''INTERFACE_PRIVATE_KEY_MISSING'',
                   ''INTERFACE_PRIVATE_KEY_INVALID'', ''REPEATED_SECRET_KEY''}) (an_warnings (d_analysis d)) of
          None \<Rightarrow> None
        | Some w \<Rightarrow> Some (if w_code w = ''DUPLICATE_PEER_PUBLIC_KEY'' then ErrDuplicatePeer (w_message w)
                       else ErrUnsupportedSyntax (w_message w))))"

definition find_peer :: "string \<Rightarrow> document \<Rightarrow> doc_error + doc_peer" where
  "find_peer pk d = (case find (\<lambda>p. dp_public_key p = pk) (an_peers (d_analysis d)) of
     None \<Rightarrow> Inl ErrPeerNotFound | Some p \<Rightarrow> Inr p)"

definition replace_node_range ::
  "(string \<Rightarrow> string) \<Rightarrow> nat \<Rightarrow> nat \<Rightarrow> string \<Rightarrow> document \<Rightarrow> doc_error + document" where
  "replace_node_range ul start stop replacement d =
     parse_doc ul (render_nodes (take start (d_nodes d)) @ replacement @ render_nodes (drop stop (d_nodes d)))"

text \<open>\<open>PeerSecrets\<close>: the decoded preshared keys, the error naming the first invalid one.\<close>

definition peer_secret :: "document \<Rightarrow> doc_peer \<Rightarrow> doc_error + (string \<times> nat list) list" where
  "peer_secret d p =
     (if \<not> dp_psk_present p then Inr []
      else (case map_of (dp_fields p) ''presharedkey'' of
          None \<Rightarrow> Inr []
        | Some i \<Rightarrow>
            (case b64_decode (trim_space (nd_value (d_nodes d ! i))) of
               None \<Rightarrow> Inl (DocError ''peer has an invalid preshared key'')
             | Some bs \<Rightarrow> (if length bs \<noteq> 32 then Inl (DocError ''peer has an invalid preshared key'')
                         else Inr [(dp_public_key p, bs)]))))"

definition peer_secrets :: "document \<Rightarrow> doc_error + (string \<times> nat list) list" where
  "peer_secrets d = bind_r (map_r (peer_secret d) (an_peers (d_analysis d))) (\<lambda>xs. Inr (concat xs))"

section \<open>Patching a peer\<close>

text \<open>The requested values by key; the empty value removes the assignment.\<close>

definition patch_values :: "peer_patch \<Rightarrow> doc_error + (string \<Rightarrow> string option)" where
  "patch_values patch =
     bind_r (case pp_allowed_ips patch of
         None \<Rightarrow> Inr None
       | Some vs \<Rightarrow> bind_r (canonical_prefixes vs) (\<lambda>c. Inr (Some (join '', '' c)))) (\<lambda>allowed.
     bind_r (case pp_preshared_key patch of
         None \<Rightarrow> Inr None
       | Some k \<Rightarrow>
           (if k \<noteq> [] \<and> validate_key k \<noteq> None then Inl (DocError ''invalid preshared key'')
            else Inr (Some (trim_space k)))) (\<lambda>psk.
     Inr (\<lambda>key. if key = ''allowedips'' then allowed
                else if key = ''endpoint'' then map_option trim_space (pp_endpoint patch)
                else if key = ''persistentkeepalive'' then map_option show_nat (pp_keepalive patch)
                else if key = ''presharedkey'' then psk
                else None)))"

definition is_assignment :: "string \<Rightarrow> node \<Rightarrow> bool" where
  "is_assignment key nd \<longleftrightarrow> nd_kind nd = Assignment \<and> nd_key nd = key"

text \<open>The first assignment is rewritten and the others are removed; without one a line is appended.\<close>

fun set_first :: "string \<Rightarrow> string \<Rightarrow> node list \<Rightarrow> node list" where
  "set_first key value [] = []"
| "set_first key value (nd # nds) =
     (if is_assignment key nd
      then nd\<lparr>nd_raw := replace_assignment_value nd value, nd_value := value\<rparr> #
             filter (\<lambda>x. \<not> is_assignment key x) nds
      else nd # set_first key value nds)"

definition patch_key :: "string \<Rightarrow> string \<Rightarrow> string \<Rightarrow> node list \<Rightarrow> node list" where
  "patch_key newline key value block =
     (if list_ex (is_assignment key) block then
        (if value \<noteq> [] then set_first key value block
         else filter (\<lambda>x. \<not> is_assignment key x) block)
      else if value = [] then block
      else block @ [\<lparr>nd_kind = Assignment, nd_raw = display_key key @ '' = '' @ value @ newline,
                     nd_section = ''peer'', nd_key = key, nd_value = value,
                     nd_value_start = 0, nd_value_end = 0\<rparr>])"

definition patch_keys :: "string list" where
  "patch_keys = [''allowedips'', ''endpoint'', ''persistentkeepalive'', ''presharedkey'']"

definition patch_block :: "string \<Rightarrow> (string \<Rightarrow> string option) \<Rightarrow> node list \<Rightarrow> node list" where
  "patch_block newline vals block =
     fold (\<lambda>key b. case vals key of None \<Rightarrow> b | Some v \<Rightarrow> patch_key newline key v b) patch_keys block"

definition block_nodes :: "doc_peer \<Rightarrow> document \<Rightarrow> node list" where
  "block_nodes p d = drop (dp_block_start p) (take (dp_block_end p) (d_nodes d))"

definition patch_peer :: "(string \<Rightarrow> string) \<Rightarrow> string \<Rightarrow> peer_patch \<Rightarrow> document \<Rightarrow> doc_error + document" where
  "patch_peer ul pk patch d =
     (case adoption_safe d of
        Some e \<Rightarrow> Inl e
      | None \<Rightarrow>
          bind_r (find_peer pk d) (\<lambda>p.
          bind_r (patch_values patch) (\<lambda>vals.
          replace_node_range ul (dp_block_start p) (dp_block_end p)
            (render_nodes (patch_block (d_newline d) vals (block_nodes p d))) d)))"

section \<open>Adding, removing and restoring a peer\<close>

definition separator :: "string \<Rightarrow> string \<Rightarrow> string" where
  "separator newline raw =
     (if raw \<noteq> [] \<and> last raw \<noteq> LF \<and> last raw \<noteq> CR then newline else [])"

definition peer_lines :: "string \<Rightarrow> new_peer \<Rightarrow> string list \<Rightarrow> string" where
  "peer_lines nl p allowed =
     ''[Peer]'' @ nl @ ''PublicKey = '' @ np_public_key p @ nl @
     (if np_preshared_key p \<noteq> [] then ''PresharedKey = '' @ np_preshared_key p @ nl else []) @
     ''AllowedIPs = '' @ join '', '' allowed @ nl @
     (if np_endpoint p \<noteq> [] then ''Endpoint = '' @ trim_space (np_endpoint p) @ nl else []) @
     (if np_keepalive p \<noteq> 0 then ''PersistentKeepalive = '' @ show_nat (np_keepalive p) @ nl else [])"

definition add_peer :: "(string \<Rightarrow> string) \<Rightarrow> new_peer \<Rightarrow> document \<Rightarrow> doc_error + document" where
  "add_peer ul p d =
     (case adoption_safe d of
        Some e \<Rightarrow> Inl e
      | None \<Rightarrow>
          bind_r (check (validate_key (np_public_key p) = None) (DocError ''invalid public key'')) (\<lambda>_.
          bind_r (check (find_peer (np_public_key p) d = Inl ErrPeerNotFound) (ErrDuplicatePeer [])) (\<lambda>_.
          bind_r (canonical_prefixes (np_allowed_ips p)) (\<lambda>allowed.
          bind_r (check (allowed \<noteq> []) (DocError ''peer requires at least one AllowedIPs prefix'')) (\<lambda>_.
          bind_r (check (\<not> (np_preshared_key p \<noteq> [] \<and> validate_key (np_preshared_key p) \<noteq> None))
                    (DocError ''invalid preshared key'')) (\<lambda>_.
          parse_doc ul (d_raw d @ separator (d_newline d) (d_raw d) @
            (if d_raw d \<noteq> [] \<and> \<not> ends_with_blank_line (d_raw d) then d_newline d else []) @
            peer_lines (d_newline d) p allowed)))))))"

text \<open>The archived block and the document without it.\<close>

definition remove_peer :: "(string \<Rightarrow> string) \<Rightarrow> string \<Rightarrow> document \<Rightarrow> doc_error + (string \<times> document)" where
  "remove_peer ul pk d =
     (case adoption_safe d of
        Some e \<Rightarrow> Inl e
      | None \<Rightarrow>
          bind_r (find_peer pk d) (\<lambda>p.
          bind_r (replace_node_range ul (dp_block_start p) (dp_block_end p) [] d) (\<lambda>d'.
          Inr (render_nodes (block_nodes p d), d'))))"

definition archived_block_ok :: "string \<Rightarrow> analysis \<Rightarrow> bool" where
  "archived_block_ok pk a \<longleftrightarrow> an_interface_count a = 0 \<and> \<not> an_has_unknown a \<and>
     length (an_peers a) = 1 \<and> dp_public_key (hd (an_peers a)) = pk"

definition restore_peer_block ::
  "(string \<Rightarrow> string) \<Rightarrow> string \<Rightarrow> string \<Rightarrow> document \<Rightarrow> doc_error + document" where
  "restore_peer_block ul pk archived d =
     (case adoption_safe d of
        Some e \<Rightarrow> Inl e
      | None \<Rightarrow>
          bind_r (check (find_peer pk d = Inl ErrPeerNotFound) (ErrDuplicatePeer [])) (\<lambda>_.
          bind_r (parse_doc ul archived) (\<lambda>b.
          bind_r (check (archived_block_ok pk (d_analysis b))
                    (ErrUnsupportedSyntax ''archived payload is not the requested peer block'')) (\<lambda>_.
          bind_r (check (list_all (\<lambda>w. w_code w \<notin> {''DUPLICATE_PEER_PUBLIC_KEY'', ''PEER_PUBLIC_KEY_MISSING'',
                         ''PEER_PUBLIC_KEY_INVALID'', ''REPEATED_SECRET_KEY''}) (an_warnings (d_analysis b)))
                    (ErrUnsupportedSyntax ''archived peer block is unsafe'')) (\<lambda>_.
          let out = d_raw d @ separator (d_newline d) (d_raw d) in
          parse_doc ul (out @ (if out \<noteq> [] \<and> \<not> ends_with_blank_line out then d_newline d else []) @ archived))))))"

end
