(* ===== verification/ConfigDocFacts.thy ===== *)
theory ConfigDocFacts
  imports ConfigDoc
begin

text \<open>
  How a document decomposes. Lines: splitting and rendering are inverse, and parsing a text
  whose parts end in line breaks and begin with section headers is parsing the parts.
  Sections: \<open>scan\<close> is a reference reading of the peers, section by section and without
  positions; the analysis agrees with it, and it distributes over the sections of a document.
\<close>

section \<open>Lines\<close>

definition full_line :: "string \<Rightarrow> bool" where
  "full_line l \<longleftrightarrow> l \<noteq> [] \<and> last l = LF \<and> LF \<notin> set (butlast l)"

definition open_line :: "string \<Rightarrow> bool" where
  "open_line l \<longleftrightarrow> l \<noteq> [] \<and> LF \<notin> set l"

text \<open>The lines of a text: all complete, except perhaps the last.\<close>

fun lines_ok :: "string list \<Rightarrow> bool" where
  "lines_ok [] = True"
| "lines_ok [l] = (full_line l \<or> open_line l)"
| "lines_ok (l # ls) = (full_line l \<and> lines_ok ls)"

lemma lines_ok_Cons: "lines_ok (l # ls) \<longleftrightarrow> (full_line l \<or> (ls = [] \<and> open_line l)) \<and> lines_ok ls"
  by (cases ls) auto

lemma split_lines_Nil [simp]: "split_lines s = [] \<longleftrightarrow> s = []"
  by (cases s) (auto split: list.splits)

lemma concat_split_lines [simp]: "concat (split_lines s) = s"
  by (induction s) (auto split: list.splits)

lemma split_lines_ok: "lines_ok (split_lines s)"
proof (induction s)
  case (Cons c s)
  show ?case
  proof (cases "c = LF")
    case True
    with Cons show ?thesis by (simp add: lines_ok_Cons full_line_def)
  next
    case False
    with Cons show ?thesis
      by (auto simp: lines_ok_Cons full_line_def open_line_def split: list.splits)
  qed
qed simp

lemma split_lines_full: "full_line l \<Longrightarrow> split_lines (l @ s) = l # split_lines s"
proof (induction l)
  case (Cons c l)
  show ?case
  proof (cases "l = []")
    case True
    with Cons.prems show ?thesis by (auto simp: full_line_def)
  next
    case False
    with Cons.prems have "c \<noteq> LF" "full_line l" by (auto simp: full_line_def split: if_splits)
    with Cons.IH show ?thesis by simp
  qed
qed (simp add: full_line_def)

lemma split_lines_open: "open_line l \<Longrightarrow> split_lines l = [l]"
proof (induction l)
  case (Cons c l)
  then show ?case by (cases "l = []") (auto simp: open_line_def)
qed (simp add: open_line_def)

lemma split_lines_concat: "lines_ok ls \<Longrightarrow> split_lines (concat ls) = ls"
proof (induction ls)
  case (Cons l ls)
  then consider "full_line l" "lines_ok ls" | "ls = []" "open_line l"
    by (auto simp: lines_ok_Cons)
  then show ?case
    using Cons.IH by cases (auto simp: split_lines_full split_lines_open)
qed simp

lemma lines_ok_append:
  "lines_ok (xs @ ys) \<longleftrightarrow> (if ys = [] then lines_ok xs else list_all full_line xs \<and> lines_ok ys)"
  by (induction xs) (auto simp: lines_ok_Cons)

lemma full_lines_ok: "list_all full_line xs \<Longrightarrow> lines_ok xs"
  by (induction xs) (auto simp: lines_ok_Cons)

section \<open>Parsing by parts\<close>

fun section_after :: "(string \<Rightarrow> string) \<Rightarrow> string \<Rightarrow> string list \<Rightarrow> string" where
  "section_after ul sec [] = sec"
| "section_after ul sec (l # ls) =
     section_after ul (let nd = parse_line ul sec l in
       if nd_kind nd = SectionHeader then nd_section nd else sec) ls"

lemma parse_line_raw [simp]: "nd_raw (parse_line ul sec l) = l"
  by (simp add: parse_line_def Let_def)

lemma parse_lines_raw [simp]: "map nd_raw (parse_lines ul sec ls) = ls"
  by (induction ls arbitrary: sec) (simp_all add: Let_def)

lemma length_parse_lines [simp]: "length (parse_lines ul sec ls) = length ls"
  by (induction ls arbitrary: sec) (simp_all add: Let_def)

lemma parse_lines_append:
  "parse_lines ul sec (xs @ ys) = parse_lines ul sec xs @ parse_lines ul (section_after ul sec xs) ys"
  by (induction xs arbitrary: sec) (simp_all add: Let_def)

lemma parse_line_kind: "nd_kind (parse_line ul sec l) = nd_kind (parse_line ul sec' l)"
  by (simp add: parse_line_def Let_def)

lemma parse_line_header:
  "nd_kind (parse_line ul sec l) = SectionHeader \<Longrightarrow> parse_line ul sec' l = parse_line ul sec l"
  by (auto simp: parse_line_def Let_def split: if_splits)

lemma parse_lines_header:
  assumes "ls = [] \<or> nd_kind (hd (parse_lines ul sec ls)) = SectionHeader"
  shows "parse_lines ul sec' ls = parse_lines ul sec ls"
proof (cases ls)
  case (Cons l ls')
  with assms have h: "nd_kind (parse_line ul sec l) = SectionHeader" by (simp add: Let_def)
  with Cons parse_line_header [OF h, of sec'] show ?thesis by (simp add: Let_def)
qed simp

lemma render_parse: "render_nodes (parse_nodes ul s) = s"
  by (simp add: render_nodes_def parse_nodes_def)

text \<open>Cutting a middle part that is followed by a section header, or by nothing.\<close>

lemma parse_without_middle:
  assumes nodes: "parse_nodes ul raw = A @ B @ C" and B: "B \<noteq> []"
    and C: "C = [] \<or> nd_kind (hd C) = SectionHeader"
  shows "parse_nodes ul (render_nodes A @ render_nodes C) = A @ C"
proof -
  let ?ls = "split_lines raw"
  have raws: "?ls = map nd_raw A @ map nd_raw B @ map nd_raw C"
    using arg_cong [OF nodes, of "map nd_raw"] by (simp add: parse_nodes_def)
  have ok: "list_all full_line (map nd_raw A)" "lines_ok (map nd_raw C)"
    using split_lines_ok [of raw] B unfolding raws lines_ok_append by (auto split: if_splits)
  have "split_lines (render_nodes A @ render_nodes C) = map nd_raw A @ map nd_raw C"
    using split_lines_concat [of "map nd_raw A @ map nd_raw C"] ok
    by (simp add: render_nodes_def lines_ok_append full_lines_ok)
  moreover have "parse_lines ul [] (map nd_raw A) = A"
    and Cs: "parse_lines ul (section_after ul [] (map nd_raw A @ map nd_raw B)) (map nd_raw C) = C"
    using nodes unfolding parse_nodes_def raws parse_lines_append append_assoc [symmetric]
    by (auto simp: append_eq_append_conv)
  moreover have "parse_lines ul sec (map nd_raw C) = C" for sec
    using parse_lines_header [of "map nd_raw C" ul "section_after ul [] (map nd_raw A @ map nd_raw B)" sec] C Cs
    by auto
  ultimately show ?thesis by (simp add: parse_nodes_def parse_lines_append)
qed

section \<open>A reference reading of the peers\<close>

record peer_data =
  pd_public_key :: string
  pd_psk :: bool
  pd_allowed :: "string list"
  pd_endpoint :: string
  pd_keepalive :: nat

definition peer_data_of :: "doc_peer \<Rightarrow> peer_data" where
  "peer_data_of p = \<lparr>pd_public_key = dp_public_key p, pd_psk = dp_psk_present p,
     pd_allowed = dp_allowed_ips p, pd_endpoint = dp_endpoint p, pd_keepalive = dp_keepalive p\<rparr>"

definition blank_peer :: peer_data where
  "blank_peer = \<lparr>pd_public_key = [], pd_psk = False, pd_allowed = [], pd_endpoint = [], pd_keepalive = 0\<rparr>"

definition read_key :: "node \<Rightarrow> peer_data \<Rightarrow> peer_data" where
  "read_key nd d =
     (if nd_kind nd \<noteq> Assignment \<or> nd_section nd \<noteq> ''peer'' then d
      else if nd_key nd = ''publickey'' then
        (if validate_key (nd_value nd) \<noteq> None then d else d\<lparr>pd_public_key := trim_space (nd_value nd)\<rparr>)
      else if nd_key nd = ''presharedkey'' then d\<lparr>pd_psk := trim_space (nd_value nd) \<noteq> []\<rparr>
      else if nd_key nd = ''allowedips'' then d\<lparr>pd_allowed := pd_allowed d @ split_allowed (nd_value nd)\<rparr>
      else if nd_key nd = ''endpoint'' then d\<lparr>pd_endpoint := trim_space (nd_value nd)\<rparr>
      else if nd_key nd = ''persistentkeepalive'' then
        (case parse_uint 16 (trim_space (nd_value nd)) of None \<Rightarrow> d | Some v \<Rightarrow> d\<lparr>pd_keepalive := v\<rparr>)
      else d)"

definition close_peer :: "peer_data option \<Rightarrow> peer_data list" where
  "close_peer c = (case c of None \<Rightarrow> [] | Some d \<Rightarrow> if pd_public_key d = [] then [] else [d])"

fun scan :: "peer_data option \<Rightarrow> node list \<Rightarrow> peer_data list" where
  "scan c [] = close_peer c"
| "scan c (nd # nds) =
     (if nd_kind nd = SectionHeader
      then close_peer c @ scan (if nd_section nd = ''peer'' then Some blank_peer else None) nds
      else scan (map_option (read_key nd) c) nds)"

definition doc_peers :: "document \<Rightarrow> peer_data list" where
  "doc_peers d = map peer_data_of (an_peers (d_analysis d))"

lemma warn_peers [simp]:
  "an_peers (az_analysis (warn l c m z)) = an_peers (az_analysis z)" "az_peer (warn l c m z) = az_peer z"
  by (simp_all add: warn_def)

lemma mark_unknown_peers [simp]:
  "an_peers (az_analysis (mark_unknown z)) = an_peers (az_analysis z)" "az_peer (mark_unknown z) = az_peer z"
  by (simp_all add: mark_unknown_def)

lemma finish_peer_peers [simp]: "az_peer (finish_peer k z) = None"
  by (auto simp: finish_peer_def Let_def split: option.split)

lemma finish_peer_data:
  "map peer_data_of (an_peers (az_analysis (finish_peer k z))) =
     map peer_data_of (an_peers (az_analysis z)) @ close_peer (map_option peer_data_of (az_peer z))"
  by (auto simp: finish_peer_def Let_def close_peer_def peer_data_of_def split: option.split)

lemma analyze_interface_key_peers:
  "an_peers (az_analysis (analyze_interface_key i nd z)) = an_peers (az_analysis z)"
  "az_peer (analyze_interface_key i nd z) = az_peer z"
  by (simp_all add: analyze_interface_key_def Let_def del: insert_iff)

lemma analyze_peer_key_peers:
  "an_peers (az_analysis (analyze_peer_key i nd z)) = an_peers (az_analysis z)"
  by (simp add: analyze_peer_key_def Let_def split: option.split)

lemma analyze_peer_key_open:
  assumes "nd_kind nd = Assignment" and "nd_section nd = ''peer''"
  shows "map_option peer_data_of (az_peer (analyze_peer_key i nd z)) =
    map_option (read_key nd) (map_option peer_data_of (az_peer z))"
  using assms
  by (cases "az_peer z")
    (auto simp: analyze_peer_key_def Let_def read_key_def peer_data_of_def split: option.split)

lemma analyze_node_data:
  "map peer_data_of (an_peers (az_analysis (analyze_node (i, nd) z))) =
     map peer_data_of (an_peers (az_analysis z)) @
       (if nd_kind nd = SectionHeader then close_peer (map_option peer_data_of (az_peer z)) else [])"
  by (cases "nd_kind nd")
    (auto simp: analyze_node_def analyze_header_def Let_def finish_peer_data analyze_interface_key_peers
      analyze_peer_key_peers)

lemma analyze_node_open:
  "map_option peer_data_of (az_peer (analyze_node (i, nd) z)) =
     (if nd_kind nd = SectionHeader then (if nd_section nd = ''peer'' then Some blank_peer else None)
      else map_option (read_key nd) (map_option peer_data_of (az_peer z)))"
proof (cases "nd_kind nd = Assignment \<and> nd_section nd = ''peer''")
  case True
  then show ?thesis by (simp add: analyze_node_def analyze_peer_key_open)
next
  case False
  then have "nd_kind nd \<noteq> SectionHeader \<Longrightarrow> read_key nd = (\<lambda>d. d)" by (auto simp: read_key_def fun_eq_iff)
  with False show ?thesis
    by (cases "nd_kind nd")
      (auto simp: analyze_node_def analyze_header_def Let_def analyze_interface_key_peers
        new_doc_peer_def blank_peer_def peer_data_of_def option.map_id [unfolded id_def])
qed

lemma fold_analyze_data:
  "map peer_data_of (an_peers (az_analysis (finish_peer n (fold analyze_node (enumerate k nds) z)))) =
     map peer_data_of (an_peers (az_analysis z)) @ scan (map_option peer_data_of (az_peer z)) nds"
proof (induction nds arbitrary: k z)
  case Nil
  then show ?case by (simp add: finish_peer_data)
next
  case (Cons nd nds)
  then show ?case by (simp add: analyze_node_data analyze_node_open)
qed

text \<open>The peers of the analysis are the peers of the reference reading.\<close>

lemma analyze_scan: "map peer_data_of (an_peers (analyze nds)) = scan None nds"
  using fold_analyze_data [of "length nds" 0 nds empty_analyzer]
  by (simp add: analyze_def Let_def empty_analyzer_def)

lemma scan_append:
  "ys = [] \<or> nd_kind (hd ys) = SectionHeader \<Longrightarrow> scan c (xs @ ys) = scan c xs @ scan None ys"
proof (induction xs arbitrary: c)
  case Nil
  then show ?case by (cases ys) (auto simp: close_peer_def)
qed auto

section \<open>Where the blocks are\<close>

definition is_header :: "node \<Rightarrow> bool" where
  "is_header nd \<longleftrightarrow> nd_kind nd = SectionHeader"

text \<open>The open section begins at \<open>start\<close>; \<open>q\<close> is what was read since.\<close>

definition open_at :: "node list \<Rightarrow> doc_peer \<Rightarrow> bool" where
  "open_at xs q \<longleftrightarrow> dp_block_start q < length xs \<and> is_header (xs ! dp_block_start q) \<and>
     nd_section (xs ! dp_block_start q) = ''peer'' \<and>
     list_all (\<lambda>nd. \<not> is_header nd) (drop (Suc (dp_block_start q)) xs) \<and>
     peer_data_of q = fold read_key (drop (Suc (dp_block_start q)) xs) blank_peer"

definition closed_at :: "node list \<Rightarrow> doc_peer \<Rightarrow> bool" where
  "closed_at xs p \<longleftrightarrow> dp_block_end p \<le> length xs \<and> open_at (take (dp_block_end p) xs) p \<and>
     (dp_block_end p < length xs \<longrightarrow> is_header (xs ! dp_block_end p)) \<and> dp_public_key p \<noteq> []"

lemma finish_peer_set:
  "set (an_peers (az_analysis (finish_peer k z))) = set (an_peers (az_analysis z)) \<union>
     (case az_peer z of None \<Rightarrow> {} | Some q \<Rightarrow> if dp_public_key q = [] then {} else {q\<lparr>dp_block_end := k\<rparr>})"
  by (auto simp: finish_peer_def Let_def split: option.split)

lemma analyze_peer_key_start:
  "az_peer (analyze_peer_key i nd z) = Some q' \<Longrightarrow>
     \<exists>q. az_peer z = Some q \<and> dp_block_start q' = dp_block_start q"
  by (cases "az_peer z") (auto simp: analyze_peer_key_def Let_def split: if_splits option.splits)

lemma open_at_snoc:
  assumes "open_at xs q" and "\<not> is_header nd" and "dp_block_start q' = dp_block_start q"
    and "peer_data_of q' = read_key nd (peer_data_of q)"
  shows "open_at (xs @ [nd]) q'"
  using assms by (auto simp: open_at_def nth_append)

lemma closed_at_snoc: "closed_at xs p \<Longrightarrow> dp_block_end p < length xs \<Longrightarrow> closed_at (xs @ [nd]) p"
  by (simp add: closed_at_def nth_append)

lemma open_closed:
  assumes "open_at xs q" and "dp_public_key q \<noteq> []" and "ys = [] \<or> is_header (hd ys)"
  shows "closed_at (xs @ ys) (q\<lparr>dp_block_end := length xs\<rparr>)"
  using assms by (cases ys) (auto simp: closed_at_def open_at_def peer_data_of_def)

definition analyzer_ok :: "node list \<Rightarrow> analyzer \<Rightarrow> bool" where
  "analyzer_ok xs z \<longleftrightarrow>
     (\<forall>p \<in> set (an_peers (az_analysis z)). closed_at xs p \<and> dp_block_end p < length xs) \<and>
     (\<forall>q. az_peer z = Some q \<longrightarrow> open_at xs q)"

lemma analyzer_ok_header:
  assumes ok: "analyzer_ok xs z" and h: "is_header nd"
  shows "analyzer_ok (xs @ [nd]) (analyze_node (length xs, nd) z)"
proof -
  let ?z = "finish_peer (length xs) z"
  have closed: "closed_at (xs @ [nd]) p \<and> dp_block_end p < length (xs @ [nd])"
    if "p \<in> set (an_peers (az_analysis ?z))" for p
  proof -
    from that consider "p \<in> set (an_peers (az_analysis z))"
      | q where "az_peer z = Some q" "dp_public_key q \<noteq> []" "p = q\<lparr>dp_block_end := length xs\<rparr>"
      by (auto simp: finish_peer_set split: option.splits if_splits)
    then show ?thesis
    proof cases
      case 1
      with ok show ?thesis by (auto simp: analyzer_ok_def intro: closed_at_snoc)
    next
      case 2
      with ok have "open_at xs q" by (simp add: analyzer_ok_def)
      from open_closed [OF this 2(2), of "[nd]"] h 2(3) show ?thesis by simp
    qed
  qed
  have "open_at (xs @ [nd]) (new_doc_peer (length xs))" if "nd_section nd = ''peer''"
    using h that by (simp add: open_at_def new_doc_peer_def peer_data_of_def blank_peer_def nth_append)
  with closed h show ?thesis
    by (auto simp: analyzer_ok_def analyze_node_def analyze_header_def Let_def is_header_def)
qed

lemma analyzer_ok_other:
  assumes ok: "analyzer_ok xs z" and h: "\<not> is_header nd"
  shows "analyzer_ok (xs @ [nd]) (analyze_node (length xs, nd) z)"
proof -
  let ?z = "analyze_node (length xs, nd) z"
  have same: "an_peers (az_analysis ?z) = an_peers (az_analysis z)"
    using h
    by (cases "nd_kind nd") (auto simp: analyze_node_def is_header_def analyze_interface_key_peers
        analyze_peer_key_peers)
  have "open_at (xs @ [nd]) q'" if q': "az_peer ?z = Some q'" for q'
  proof -
    have "\<exists>q. az_peer z = Some q \<and> dp_block_start q' = dp_block_start q"
      using q' h
      by (cases "nd_kind nd") (auto simp: analyze_node_def is_header_def analyze_interface_key_peers
          dest: analyze_peer_key_start split: if_splits)
    then obtain q where q: "az_peer z = Some q" "dp_block_start q' = dp_block_start q" by blast
    moreover from analyze_node_open [of "length xs" nd z] q(1) q' h
    have "peer_data_of q' = read_key nd (peer_data_of q)" by (simp add: is_header_def)
    ultimately show ?thesis
      using ok h by (auto simp: analyzer_ok_def intro: open_at_snoc)
  qed
  with ok same show ?thesis
    by (auto simp: analyzer_ok_def intro: closed_at_snoc)
qed

lemma analyzer_ok_fold: "analyzer_ok xs (fold analyze_node (enumerate 0 xs) empty_analyzer)"
proof (induction xs rule: rev_induct)
  case Nil
  then show ?case by (simp add: analyzer_ok_def empty_analyzer_def)
next
  case (snoc nd xs)
  then show ?case
    by (cases "is_header nd") (simp_all add: enumerate_append_eq analyzer_ok_header analyzer_ok_other)
qed

lemma analyze_peers_closed:
  assumes "p \<in> set (an_peers (analyze nds))"
  shows "closed_at nds p"
proof -
  let ?z = "fold analyze_node (enumerate 0 nds) empty_analyzer"
  from assms have "p \<in> set (an_peers (az_analysis (finish_peer (length nds) ?z)))"
    by (auto simp: analyze_def Let_def split: if_splits)
  then consider "p \<in> set (an_peers (az_analysis ?z))"
    | q where "az_peer ?z = Some q" "dp_public_key q \<noteq> []" "p = q\<lparr>dp_block_end := length nds\<rparr>"
    by (auto simp: finish_peer_set split: option.splits if_splits)
  then show ?thesis
  proof cases
    case 1
    with analyzer_ok_fold [of nds] show ?thesis by (simp add: analyzer_ok_def)
  next
    case 2
    with analyzer_ok_fold [of nds] have "open_at nds q" by (simp add: analyzer_ok_def)
    from open_closed [OF this 2(2), of "[]"] 2(3) show ?thesis by simp
  qed
qed

text \<open>A document splits around the block of a peer.\<close>

lemma scan_body:
  "list_all (\<lambda>nd. \<not> is_header nd) nds \<Longrightarrow> scan (Some d) nds = close_peer (Some (fold read_key nds d))"
  by (induction nds arbitrary: d) (auto simp: is_header_def)

lemma block_split:
  assumes "p \<in> set (an_peers (analyze nds))"
  obtains A B C where "nds = A @ B @ C" and "A = take (dp_block_start p) nds"
    and "B = drop (dp_block_start p) (take (dp_block_end p) nds)" and "C = drop (dp_block_end p) nds"
    and "B \<noteq> []" and "is_header (hd B)" and "nd_section (hd B) = ''peer''"
    and "list_all (\<lambda>nd. \<not> is_header nd) (tl B)" and "C = [] \<or> is_header (hd C)"
    and "scan None B = [peer_data_of p]"
proof -
  let ?s = "dp_block_start p" and ?e = "dp_block_end p"
  let ?xs = "take ?e nds"
  have cl: "closed_at nds p" using assms by (rule analyze_peers_closed)
  then have op: "open_at ?xs p" and e: "?e \<le> length nds" and pk: "dp_public_key p \<noteq> []"
    and hdC: "?e < length nds \<Longrightarrow> is_header (nds ! ?e)" by (auto simp: closed_at_def)
  from op have s: "?s < length ?xs" by (simp add: open_at_def)
  have B: "drop ?s ?xs = ?xs ! ?s # drop (Suc ?s) ?xs" using s by (rule Cons_nth_drop_Suc [symmetric])
  show thesis
  proof (rule that [of "take ?s nds" "drop ?s ?xs" "drop ?e nds"])
    have "?s \<le> ?e" using s by simp
    then have "take ?s ?xs = take ?s nds" by (simp add: min_def)
    then have "nds = take ?s nds @ drop ?s ?xs @ drop ?e nds"
      by (metis append.assoc append_take_drop_id)
    then show "nds = take ?s nds @ drop ?s ?xs @ drop ?e nds" .
    show "drop ?e nds = [] \<or> is_header (hd (drop ?e nds))"
      using hdC e by (cases "?e < length nds") (auto simp: hd_drop_conv_nth)
    have "scan None (drop ?s ?xs) = scan (Some blank_peer) (drop (Suc ?s) ?xs)"
      unfolding B using op s by (auto simp: open_at_def is_header_def close_peer_def)
    also have "\<dots> = close_peer (Some (peer_data_of p))"
      using op by (simp add: open_at_def scan_body)
    also have "\<dots> = [peer_data_of p]"
      using pk by (simp add: close_peer_def peer_data_of_def)
    finally show "scan None (drop ?s ?xs) = [peer_data_of p]" .
  qed (use op B in \<open>auto simp: open_at_def\<close>)
qed

section \<open>Appending to a document\<close>

lemma split_lines_fulls: "list_all full_line ls \<Longrightarrow> split_lines (concat ls @ t) = ls @ split_lines t"
  by (induction ls) (auto simp: split_lines_full)

lemma open_line_last: "open_line l \<Longrightarrow> last l \<noteq> LF"
  by (metis last_in_set open_line_def)

lemma split_lines_last:
  assumes "s \<noteq> []"
  shows "if last s = LF then list_all full_line (split_lines s)
    else \<exists>ls l. split_lines s = ls @ [l] \<and> list_all full_line ls \<and> open_line l \<and> last l = last s"
proof -
  from assms have "split_lines s \<noteq> []" by simp
  then obtain ls l where s: "split_lines s = ls @ [l]" by (metis rev_exhaust)
  with split_lines_ok [of s] have ok: "list_all full_line ls" "full_line l \<or> open_line l"
    by (auto simp: lines_ok_append)
  have "s = concat ls @ l" using s concat_split_lines [of s] by simp
  moreover have "l \<noteq> []" using ok(2) by (auto simp: full_line_def open_line_def)
  ultimately have last: "last s = last l" by simp
  show ?thesis
  proof (cases "full_line l")
    case True
    with last s ok show ?thesis by (simp add: full_line_def)
  next
    case False
    with ok(2) have "open_line l" by simp
    with last s ok open_line_last show ?thesis by (metis)
  qed
qed

lemma parse_nodes_append:
  assumes "s = [] \<or> last s = LF"
  shows "parse_nodes ul (s @ t) =
    parse_nodes ul s @ parse_lines ul (section_after ul [] (split_lines s)) (split_lines t)"
proof -
  have "split_lines (s @ t) = split_lines s @ split_lines t"
  proof (cases "s = []")
    case False
    with assms split_lines_last [of s] have "list_all full_line (split_lines s)" by simp
    from split_lines_fulls [OF this, of t] show ?thesis by simp
  qed simp
  then show ?thesis by (simp add: parse_nodes_def parse_lines_append)
qed

lemma scan_snoc_raw: "scan c (xs @ [nd\<lparr>nd_raw := r\<rparr>]) = scan c (xs @ [nd])"
proof -
  have "read_key (nd\<lparr>nd_raw := r\<rparr>) = read_key nd" by (simp add: read_key_def fun_eq_iff)
  then show ?thesis by (induction xs arbitrary: c) simp_all
qed

lemma scan_snoc_other:
  "nd_kind nd \<noteq> SectionHeader \<Longrightarrow> nd_kind nd \<noteq> Assignment \<Longrightarrow> scan c (xs @ [nd]) = scan c xs"
proof (induction xs arbitrary: c)
  case Nil
  then have "read_key nd = (\<lambda>d. d)" by (simp add: read_key_def fun_eq_iff)
  with Nil show ?case by (simp add: option.map_id [unfolded id_def])
qed auto

lemma trim_newline_append:
  assumes "open_line l" and "last l \<noteq> CR" and "nl = [LF] \<or> nl = [CR, LF]"
  shows "trim_newline (l @ nl) = trim_newline l"
proof -
  have l: "l \<noteq> []" using assms(1) by (simp add: open_line_def)
  note l = this open_line_last [OF assms(1)]
  from assms(3) show ?thesis
  proof
    assume "nl = [LF]"
    with l assms(2) show ?thesis by (simp add: trim_newline_def trim_suffix_def)
  next
    assume "nl = [CR, LF]"
    moreover have "butlast (l @ [CR, LF]) = l @ [CR]" by (simp add: butlast_append)
    ultimately show ?thesis using l assms(2) by (simp add: trim_newline_def trim_suffix_def)
  qed
qed

lemma parse_line_newline:
  assumes "open_line l" and "last l \<noteq> CR" and "nl = [LF] \<or> nl = [CR, LF]"
  shows "parse_line ul sec (l @ nl) = (parse_line ul sec l)\<lparr>nd_raw := l @ nl\<rparr>"
  by (simp add: parse_line_def Let_def trim_newline_append [OF assms])

text \<open>Completing the last line, and adding an empty one, leave the peers as they are.\<close>

lemma scan_complete_line:
  assumes s: "s \<noteq> []" "last s \<noteq> LF" "last s \<noteq> CR" and nl: "nl = [LF] \<or> nl = [CR, LF]"
  shows "scan None (parse_nodes ul (s @ nl)) = scan None (parse_nodes ul s)"
proof -
  from split_lines_last [OF s(1)] s(2) obtain ls l where
    l: "split_lines s = ls @ [l]" "list_all full_line ls" "open_line l" "last l = last s" by auto
  have "s = concat ls @ l" using l(1) concat_split_lines [of s] by simp
  moreover have "split_lines (l @ nl) = [l @ nl]"
  proof -
    have "full_line (l @ nl)" using l(3) nl by (auto simp: full_line_def open_line_def butlast_append)
    from split_lines_full [OF this, of "[]"] show ?thesis by simp
  qed
  ultimately have "split_lines (s @ nl) = ls @ [l @ nl]"
    using split_lines_fulls [OF l(2), of "l @ nl"] by simp
  then show ?thesis
    using l s(3) nl
    by (simp add: parse_nodes_def parse_lines_append Let_def parse_line_newline scan_snoc_raw)
qed

lemma scan_blank_line:
  assumes "s = [] \<or> last s = LF" and nl: "nl = [LF] \<or> nl = [CR, LF]"
  shows "scan None (parse_nodes ul (s @ nl)) = scan None (parse_nodes ul s)"
proof -
  have blank: "nd_kind (parse_line ul sec nl) = BlankLine" for sec
  proof -
    have "trim_newline nl = []" using nl by (auto simp: trim_newline_def trim_suffix_def)
    moreover have "trim_space [] = []" by code_simp
    ultimately show ?thesis by (simp add: parse_line_def)
  qed
  have "split_lines nl = [nl]" using nl by auto
  then show ?thesis
    by (simp add: parse_nodes_append [OF assms(1)] Let_def scan_snoc_other blank)
qed

lemma scan_append_block:
  assumes s: "s = [] \<or> last s = LF" and B: "parse_nodes ul blk = B" "B = [] \<or> is_header (hd B)"
  shows "scan None (parse_nodes ul (s @ blk)) = scan None (parse_nodes ul s) @ scan None B"
proof -
  have "parse_lines ul sec (split_lines blk) = B" for sec
  proof (cases "blk = []")
    case False
    with B have "B \<noteq> []" by (metis length_0_conv length_parse_lines parse_nodes_def split_lines_Nil)
    with parse_lines_header [of "split_lines blk" ul "[]" sec] B show ?thesis
      by (simp add: parse_nodes_def is_header_def)
  qed (use B in \<open>auto simp: parse_nodes_def\<close>)
  then have "parse_nodes ul (s @ blk) = parse_nodes ul s @ B"
    by (simp add: parse_nodes_append [OF s])
  with B(2) show ?thesis by (simp add: scan_append is_header_def)
qed

end
