(* ===== verification/ConfigDocCorrect.thy ===== *)
theory ConfigDocCorrect
  imports ConfigDocFacts
begin

text \<open>
  What the document model promises: parsing is lossless, a patch touches only the block of its
  peer, removing a peer removes exactly its bytes and that peer, and restoring an archived
  block gives the peer back. The last section is a patch that joins two lines.
\<close>

section \<open>Parsing\<close>

lemma parse_doc_Inr:
  assumes "parse_doc ul raw = Inr d"
  shows "d_raw d = raw" and "d_nodes d = parse_nodes ul raw" and "d_analysis d = analyze (parse_nodes ul raw)"
    and "d_newline d = detect_newline raw"
  using assms by (auto simp: parse_doc_def split: if_splits)

text \<open>
  Parsing is lossless: a text within the size limit is parsed to a document that owns
  exactly these bytes, and rendering its nodes gives them back.
\<close>

theorem parse_lossless:
  "case parse_doc ul raw of
     Inl e \<Rightarrow> length raw > default_max_bytes
   | Inr d \<Rightarrow> d_raw d = raw \<and> render_nodes (d_nodes d) = raw"
  by (simp add: parse_doc_def render_parse)

lemma parse_block:
  assumes "parse_nodes ul raw = A @ B @ C" and "B \<noteq> []" and "is_header (hd B)"
  shows "parse_nodes ul (render_nodes B) = B"
proof -
  let ?ls = "split_lines raw"
  have raws: "?ls = map nd_raw A @ map nd_raw B @ map nd_raw C"
    using arg_cong [OF assms(1), of "map nd_raw"] by (simp add: parse_nodes_def)
  have "lines_ok (map nd_raw B)"
    using split_lines_ok [of raw] assms(2) unfolding raws lines_ok_append
    by (auto simp: full_lines_ok split: if_splits)
  then have "split_lines (render_nodes B) = map nd_raw B"
    by (simp add: render_nodes_def split_lines_concat)
  moreover have "parse_lines ul (section_after ul [] (map nd_raw A)) (map nd_raw B) = B"
    using assms(1) unfolding parse_nodes_def raws parse_lines_append by (auto simp: append_eq_append_conv)
  ultimately show ?thesis
    using parse_lines_header [of "map nd_raw B" ul "section_after ul [] (map nd_raw A)" "[]"] assms(3)
    by (simp add: parse_nodes_def is_header_def)
qed

section \<open>Duplicate keys\<close>

definition dup_noted :: "analyzer \<Rightarrow> bool" where
  "dup_noted z \<longleftrightarrow> distinct (map dp_public_key (an_peers (az_analysis z))) \<or>
     ''DUPLICATE_PEER_PUBLIC_KEY'' \<in> w_code ` set (an_warnings (az_analysis z))"

lemma dup_noted_warn: "dup_noted z \<Longrightarrow> dup_noted (warn l c m z)"
  by (auto simp: dup_noted_def warn_def)

lemma dup_noted_same:
  "dup_noted z \<Longrightarrow> an_peers (az_analysis z') = an_peers (az_analysis z) \<Longrightarrow>
     set (an_warnings (az_analysis z)) \<subseteq> set (an_warnings (az_analysis z')) \<Longrightarrow> dup_noted z'"
  by (auto simp: dup_noted_def)

lemma warn_warnings [simp]:
  "an_warnings (az_analysis (warn l c m z)) = an_warnings (az_analysis z) @ [\<lparr>w_line = l, w_code = c, w_message = m\<rparr>]"
  by (simp add: warn_def)

lemma mark_unknown_warnings [simp]:
  "an_warnings (az_analysis (mark_unknown z)) = an_warnings (az_analysis z)"
  by (simp add: mark_unknown_def)

lemma dup_noted_finish: "dup_noted z \<Longrightarrow> dup_noted (finish_peer k z)"
  by (auto simp: dup_noted_def finish_peer_def Let_def list_ex_iff split: option.split)

lemma interface_key_warnings:
  "set (an_warnings (az_analysis z)) \<subseteq> set (an_warnings (az_analysis (analyze_interface_key i nd z)))"
  by (auto simp: analyze_interface_key_def Let_def simp del: insert_iff)

lemma peer_key_warnings:
  "set (an_warnings (az_analysis z)) \<subseteq> set (an_warnings (az_analysis (analyze_peer_key i nd z)))"
  by (auto simp: analyze_peer_key_def Let_def split: option.split)

lemma dup_noted_node: "dup_noted z \<Longrightarrow> dup_noted (analyze_node (i, nd) z)"
proof (cases "nd_kind nd")
  case SectionHeader
  moreover assume "dup_noted z"
  then have "dup_noted (finish_peer i z)" by (rule dup_noted_finish)
  then have "dup_noted (analyze_header i nd z)"
    unfolding analyze_header_def Let_def by (elim dup_noted_same) (simp_all add: subset_insertI)
  ultimately show ?thesis by (simp add: analyze_node_def)
next
  case Assignment
  moreover assume "dup_noted z"
  then have "dup_noted (analyze_interface_key i nd z)" "dup_noted (analyze_peer_key i nd z)"
    "dup_noted (warn (Suc i) c m (mark_unknown z))" for c m
    by (auto elim!: dup_noted_same simp: analyze_interface_key_peers analyze_peer_key_peers
        interface_key_warnings [THEN subsetD] peer_key_warnings [THEN subsetD])
  ultimately show ?thesis by (simp add: analyze_node_def)
qed (auto simp: analyze_node_def elim!: dup_noted_same)

lemma dup_noted_analyze:
  "distinct (map dp_public_key (an_peers (analyze nds))) \<or>
     ''DUPLICATE_PEER_PUBLIC_KEY'' \<in> w_code ` set (an_warnings (analyze nds))"
proof -
  have run: "dup_noted z \<Longrightarrow> dup_noted (fold analyze_node xs z)" for xs z
    by (induction xs arbitrary: z) (auto simp: dup_noted_node)
  have "dup_noted empty_analyzer" by (simp add: dup_noted_def empty_analyzer_def)
  from run [OF this] have "dup_noted (finish_peer (length nds) (fold analyze_node (enumerate 0 nds) empty_analyzer))"
    by (rule dup_noted_finish)
  then show ?thesis
    unfolding analyze_def Let_def by (auto simp: dup_noted_def)
qed

lemma adoption_safe_distinct:
  assumes "parse_doc ul raw = Inr d" and "adoption_safe d = None"
  shows "distinct (map pd_public_key (doc_peers d))"
proof -
  have "''DUPLICATE_PEER_PUBLIC_KEY'' \<notin> w_code ` set (an_warnings (d_analysis d))"
    using assms(2) by (auto simp: adoption_safe_def find_None_iff split: if_splits option.splits)
  with dup_noted_analyze [of "parse_nodes ul raw"] parse_doc_Inr(3) [OF assms(1)]
  have "distinct (map dp_public_key (an_peers (d_analysis d)))" by simp
  moreover have "map pd_public_key (doc_peers d) = map dp_public_key (an_peers (d_analysis d))"
    by (simp add: doc_peers_def peer_data_of_def comp_def)
  ultimately show ?thesis by simp
qed

section \<open>Removing a peer\<close>

lemma find_peer_Inr:
  assumes "find_peer pk d = Inr p"
  shows "p \<in> set (an_peers (d_analysis d))" and "dp_public_key p = pk"
  using assms by (auto simp: find_peer_def dest: find_SomeD split: option.splits)

text \<open>The nodes, the bytes and the peers of a document around the block of one peer.\<close>

lemma doc_split:
  assumes doc: "parse_doc ul raw = Inr d" and p: "find_peer pk d = Inr p"
  obtains A B C where "parse_nodes ul raw = A @ B @ C" and "raw = render_nodes A @ render_nodes B @ render_nodes C"
    and "A = take (dp_block_start p) (d_nodes d)" and "B = block_nodes p d" and "C = drop (dp_block_end p) (d_nodes d)"
    and "B \<noteq> []" and "is_header (hd B)" and "nd_section (hd B) = ''peer''"
    and "list_all (\<lambda>nd. \<not> is_header nd) (tl B)" and "C = [] \<or> is_header (hd C)"
    and "scan None B = [peer_data_of p]" and "doc_peers d = scan None A @ [peer_data_of p] @ scan None C"
proof -
  let ?nds = "parse_nodes ul raw"
  have "p \<in> set (an_peers (analyze ?nds))"
    using find_peer_Inr(1) [OF p] parse_doc_Inr(3) [OF doc] by simp
  then obtain A B C where s: "?nds = A @ B @ C" "A = take (dp_block_start p) ?nds"
    "B = drop (dp_block_start p) (take (dp_block_end p) ?nds)" "C = drop (dp_block_end p) ?nds"
    "B \<noteq> []" "is_header (hd B)" "nd_section (hd B) = ''peer''"
    "list_all (\<lambda>nd. \<not> is_header nd) (tl B)" "C = [] \<or> is_header (hd C)" "scan None B = [peer_data_of p]"
    by (rule block_split)
  have raw: "raw = render_nodes A @ render_nodes B @ render_nodes C"
    using render_parse [of ul raw] unfolding s(1) by (simp add: render_nodes_def)
  have "doc_peers d = scan None (A @ B @ C)"
    using parse_doc_Inr(3) [OF doc] s(1) by (simp add: doc_peers_def analyze_scan)
  also have "\<dots> = scan None A @ scan None (B @ C)"
    using s(5,6) by (intro scan_append) (simp add: is_header_def)
  also have "scan None (B @ C) = scan None B @ scan None C"
    using s(9) by (intro scan_append) (auto simp: is_header_def)
  finally have peers: "doc_peers d = scan None A @ [peer_data_of p] @ scan None C" using s(10) by simp
  from parse_doc_Inr(2) [OF doc] have nodes: "d_nodes d = ?nds" .
  show thesis
    by (rule that [OF s(1) raw _ _ _ s(5-10) peers]) (use s nodes in \<open>simp_all add: block_nodes_def\<close>)
qed

lemma remove_peer_Inr:
  assumes "parse_doc ul raw = Inr d" and rm: "remove_peer ul pk d = Inr (blk, d')"
  obtains p A C where "find_peer pk d = Inr p" and "adoption_safe d = None"
    and "raw = render_nodes A @ blk @ render_nodes C"
    and "parse_doc ul (render_nodes A @ render_nodes C) = Inr d'"
    and "parse_nodes ul (render_nodes A @ render_nodes C) = A @ C"
    and "C = [] \<or> is_header (hd C)" and "blk = render_nodes (block_nodes p d)"
    and "doc_peers d = scan None A @ [peer_data_of p] @ scan None C"
proof -
  from rm obtain p where safe: "adoption_safe d = None" and p: "find_peer pk d = Inr p"
    and rp: "replace_node_range ul (dp_block_start p) (dp_block_end p) [] d = Inr d'"
    and blk: "blk = render_nodes (block_nodes p d)"
    by (auto simp: remove_peer_def split: option.splits)
  from doc_split [OF assms(1) p] obtain A B C where s: "parse_nodes ul raw = A @ B @ C"
    "raw = render_nodes A @ render_nodes B @ render_nodes C"
    "A = take (dp_block_start p) (d_nodes d)" "B = block_nodes p d" "C = drop (dp_block_end p) (d_nodes d)"
    "B \<noteq> []" "C = [] \<or> is_header (hd C)" "doc_peers d = scan None A @ [peer_data_of p] @ scan None C"
    by metis
  have "parse_nodes ul (render_nodes A @ render_nodes C) = A @ C"
    using parse_without_middle [OF s(1,6)] s(7) by (simp add: is_header_def)
  with that [OF p safe _ _ _ s(7) blk s(8)] s(2-5) rp blk show thesis
    by (simp add: replace_node_range_def)
qed

lemma remove_peer_succeeds:
  assumes doc: "parse_doc ul raw = Inr d" and safe: "adoption_safe d = None" and p: "find_peer pk d = Inr p"
  shows "\<exists>d'. remove_peer ul pk d = Inr (render_nodes (block_nodes p d), d')"
proof -
  from doc_split [OF doc p] obtain A C where s: "raw = render_nodes A @ render_nodes (block_nodes p d) @ render_nodes C"
    "A = take (dp_block_start p) (d_nodes d)" "C = drop (dp_block_end p) (d_nodes d)" by metis
  have "length raw \<le> default_max_bytes" using doc by (simp add: parse_doc_def split: if_splits)
  with s(1) have "length (render_nodes A @ render_nodes C) \<le> default_max_bytes" by simp
  with s(2,3) safe p show ?thesis
    by (simp add: remove_peer_def replace_node_range_def parse_doc_def)
qed

lemma filter_other_keys:
  assumes "distinct (map pd_public_key (xs @ [q] @ ys))"
  shows "filter (\<lambda>x. pd_public_key x \<noteq> pd_public_key q) (xs @ [q] @ ys) = xs @ ys"
    and "filter (\<lambda>x. pd_public_key x = pd_public_key q) (xs @ [q] @ ys) = [q]"
proof -
  have "\<forall>x \<in> set xs. pd_public_key x \<noteq> pd_public_key q" "\<forall>x \<in> set ys. pd_public_key x \<noteq> pd_public_key q"
    using assms by (auto simp: image_iff)
  then have "filter (\<lambda>x. pd_public_key x \<noteq> pd_public_key q) xs = xs"
    "filter (\<lambda>x. pd_public_key x \<noteq> pd_public_key q) ys = ys"
    "filter (\<lambda>x. pd_public_key x = pd_public_key q) xs = []"
    "filter (\<lambda>x. pd_public_key x = pd_public_key q) ys = []"
    by (auto simp: filter_id_conv filter_empty_conv)
  then show "filter (\<lambda>x. pd_public_key x \<noteq> pd_public_key q) (xs @ [q] @ ys) = xs @ ys"
    and "filter (\<lambda>x. pd_public_key x = pd_public_key q) (xs @ [q] @ ys) = [q]" by simp_all
qed


section \<open>Restoring an archived block\<close>

lemma newline_cases: "detect_newline raw = [LF] \<or> detect_newline raw = [CR, LF]"
  by (simp add: detect_newline_def)

lemma ends_blank_LF: "ends_with_blank_line s \<Longrightarrow> last s = LF"
  by (auto simp: ends_with_blank_line_def has_suffix_def has_prefix_def hd_rev [symmetric]
      dest: arg_cong [of _ _ hd])

text \<open>The separator before a block: the text so far ends in a line break and has the same peers.\<close>

lemma scan_separator:
  assumes nl: "nl = [LF] \<or> nl = [CR, LF]" and cr: "raw = [] \<or> last raw \<noteq> CR"
    and out: "out = raw @ separator nl raw"
    and out': "out' = out @ (if out \<noteq> [] \<and> \<not> ends_with_blank_line out then nl else [])"
  shows "out' = [] \<or> last out' = LF" and "scan None (parse_nodes ul out') = scan None (parse_nodes ul raw)"
proof -
  have o: "(out = [] \<or> last out = LF) \<and> scan None (parse_nodes ul out) = scan None (parse_nodes ul raw)"
  proof (cases "raw = [] \<or> last raw = LF")
    case True
    with out show ?thesis by (auto simp: separator_def)
  next
    case False
    with cr out have "out = raw @ nl" by (simp add: separator_def)
    with False cr nl scan_complete_line [of raw nl ul] show ?thesis by auto
  qed
  then show "out' = [] \<or> last out' = LF" using out' nl by auto
  show "scan None (parse_nodes ul out') = scan None (parse_nodes ul raw)"
    using o out' scan_blank_line [OF _ nl, of out ul] by auto
qed

text \<open>
  C38: Removing a peer and restoring its archived block gives it back: the archived bytes follow
  all the bytes of the document, unchanged, and its peers are the others, in order, and then
  the restored one with the keys, addresses, endpoint and keepalive it had.
\<close>

theorem restore_after_remove:
  assumes doc: "parse_doc ul raw = Inr d" and rm: "remove_peer ul pk d = Inr (blk, d')"
    and rs: "restore_peer_block ul pk blk d' = Inr d''"
    and cr: "d_raw d' = [] \<or> last (d_raw d') \<noteq> CR"
  shows "(\<exists>sep. d_raw d'' = d_raw d' @ sep @ blk) \<and>
    doc_peers d'' = filter (\<lambda>q. pd_public_key q \<noteq> pk) (doc_peers d) @ filter (\<lambda>q. pd_public_key q = pk) (doc_peers d)"
proof -
  from remove_peer_Inr [OF doc rm] obtain p A C where s: "find_peer pk d = Inr p" "adoption_safe d = None"
    "parse_doc ul (render_nodes A @ render_nodes C) = Inr d'"
    "parse_nodes ul (render_nodes A @ render_nodes C) = A @ C" "C = [] \<or> is_header (hd C)"
    "blk = render_nodes (block_nodes p d)" "doc_peers d = scan None A @ [peer_data_of p] @ scan None C" by metis
  from doc_split [OF doc s(1)] obtain A' C' where B: "parse_nodes ul raw = A' @ block_nodes p d @ C'"
    "block_nodes p d \<noteq> []" "is_header (hd (block_nodes p d))" "scan None (block_nodes p d) = [peer_data_of p]"
    by metis
  define out where "out = d_raw d' @ separator (d_newline d') (d_raw d')"
  define out' where "out' = out @ (if out \<noteq> [] \<and> \<not> ends_with_blank_line out then d_newline d' else [])"
  from rs have final: "parse_doc ul (out' @ blk) = Inr d''"
    by (auto simp: restore_peer_block_def Let_def out_def out'_def split: option.splits if_splits)
  have nl: "d_newline d' = [LF] \<or> d_newline d' = [CR, LF]"
    using parse_doc_Inr(4) [OF s(3)] newline_cases by simp
  note sep = scan_separator(1) [OF nl cr out_def out'_def] scan_separator(2) [OF nl cr out_def out'_def, of ul]
  have "parse_nodes ul blk = block_nodes p d"
    using parse_block [OF B(1-3)] s(6) by simp
  then have "doc_peers d'' = scan None (parse_nodes ul (d_raw d')) @ [peer_data_of p]"
    using scan_append_block [OF sep(1), of ul blk] B(2-4) sep(2) parse_doc_Inr(3) [OF final]
    by (simp add: doc_peers_def analyze_scan)
  also have "scan None (parse_nodes ul (d_raw d')) = scan None A @ scan None C"
    using parse_doc_Inr(1) [OF s(3)] s(4,5) scan_append [of C None A] by (simp add: is_header_def)
  finally have "doc_peers d'' = (scan None A @ scan None C) @ [peer_data_of p]" .
  moreover have "pd_public_key (peer_data_of p) = pk"
    using find_peer_Inr(2) [OF s(1)] by (simp add: peer_data_of_def)
  moreover have "\<exists>sep. d_raw d'' = d_raw d' @ sep @ blk"
    using parse_doc_Inr(1) [OF final] by (auto simp: out_def out'_def)
  ultimately show ?thesis
    using filter_other_keys [of "scan None A" "peer_data_of p" "scan None C"]
      adoption_safe_distinct [OF doc s(2)] s(7) by simp
qed

section \<open>Patching a peer\<close>

lemma patch_key_keeps:
  assumes "nd_key_kept = (\<lambda>nd. \<not> is_assignment key nd)"
  shows "filter nd_key_kept (patch_key nl key value block) = filter nd_key_kept block"
proof -
  have "filter (\<lambda>nd. \<not> is_assignment key nd) (set_first key value block) =
      filter (\<lambda>nd. \<not> is_assignment key nd) block"
    by (induction block) (auto simp: is_assignment_def)
  with assms show ?thesis by (auto simp: patch_key_def is_assignment_def)
qed

definition untouched :: "(string \<Rightarrow> string option) \<Rightarrow> node \<Rightarrow> bool" where
  "untouched vals nd \<longleftrightarrow> (\<forall>key \<in> set patch_keys. vals key \<noteq> None \<longrightarrow> \<not> is_assignment key nd)"

lemma patch_block_keeps: "filter (untouched vals) (patch_block nl vals block) = filter (untouched vals) block"
proof -
  have "filter (untouched vals) (fold (\<lambda>key b. case vals key of None \<Rightarrow> b | Some v \<Rightarrow> patch_key nl key v b) ks b) =
      filter (untouched vals) b" if "set ks \<subseteq> set patch_keys" for ks b
    using that
  proof (induction ks arbitrary: b)
    case (Cons k ks)
    have "filter (untouched vals) (patch_key nl k v b) = filter (untouched vals) b" if "vals k = Some v" for v
    proof -
      have "untouched vals nd \<Longrightarrow> \<not> is_assignment k nd" for nd
        using that Cons.prems by (auto simp: untouched_def)
      then have "filter (untouched vals) xs = filter (untouched vals) (filter (\<lambda>nd. \<not> is_assignment k nd) xs)" for xs
        by (auto intro!: filter_cong)
      then show ?thesis by (metis patch_key_keeps)
    qed
    with Cons show ?case by (auto split: option.split)
  qed simp
  then show ?thesis by (simp add: patch_block_def)
qed


section \<open>A patch that joins two lines\<close>

text \<open>
  When the block of the peer ends the text and its last line has no line break, a patch that
  adds a key writes the new assignment straight after the last byte, on the same line.
\<close>

theorem patch_peer_joins_lines:
  assumes doc: "parse_doc ul raw = Inr d" and p: "find_peer pk d = Inr p"
    and stop: "dp_block_end p = length (d_nodes d)"
    and new: "\<not> list_ex (is_assignment ''endpoint'') (block_nodes p d)" and v: "trim_space v \<noteq> []"
    and pt: "patch_peer ul pk \<lparr>pp_allowed_ips = None, pp_endpoint = Some v, pp_keepalive = None,
        pp_preshared_key = None\<rparr> d = Inr d'"
  shows "d_raw d' = raw @ ''Endpoint = '' @ trim_space v @ d_newline d"
proof -
  let ?vals = "\<lambda>key. if key = ''allowedips'' then None else if key = ''endpoint'' then Some (trim_space v)
      else if key = ''persistentkeepalive'' then None else if key = ''presharedkey'' then None else None"
  have vals: "patch_values \<lparr>pp_allowed_ips = None, pp_endpoint = Some v, pp_keepalive = None,
        pp_preshared_key = None\<rparr> = Inr ?vals"
    by (simp add: patch_values_def cong: if_cong)
  have block: "patch_block (d_newline d) ?vals (block_nodes p d) = block_nodes p d @
      [\<lparr>nd_kind = Assignment, nd_raw = ''Endpoint = '' @ trim_space v @ d_newline d, nd_section = ''peer'',
        nd_key = ''endpoint'', nd_value = trim_space v, nd_value_start = 0, nd_value_end = 0\<rparr>]"
    using new v by (simp add: patch_block_def patch_keys_def patch_key_def display_key_def)
  from pt p vals have rp: "replace_node_range ul (dp_block_start p) (dp_block_end p)
      (render_nodes (patch_block (d_newline d) ?vals (block_nodes p d))) d = Inr d'"
    by (auto simp: patch_peer_def split: option.splits)
  from doc_split [OF doc p] obtain A C where s: "raw = render_nodes A @ render_nodes (block_nodes p d) @ render_nodes C"
    "A = take (dp_block_start p) (d_nodes d)" "C = drop (dp_block_end p) (d_nodes d)" by metis
  from s(3) stop have "C = []" by simp
  with rp [unfolded block] s show ?thesis
    by (auto simp: replace_node_range_def render_nodes_def dest!: parse_doc_Inr(1))
qed

end
