(* ===== verification/ConfigDocWitness.thy ===== *)
theory ConfigDocWitness
  imports ConfigDocCorrect
begin

text \<open>
  The document theorems on a concrete configuration: an interface and two peers, the last line
  without a line break.
\<close>

definition key_line :: "string \<Rightarrow> char \<Rightarrow> string" where
  "key_line name c = name @ '' = '' @ [c] @ ''AAAAAAAAAAAAAAAAAAAAAAAAAAAAAAAAAAAAAAAAAA=''"

definition demo_key :: "char \<Rightarrow> string" where
  "demo_key c = [c] @ ''AAAAAAAAAAAAAAAAAAAAAAAAAAAAAAAAAAAAAAAAAA=''"

definition demo_raw :: string where
  "demo_raw = ''[Interface]'' @ [LF] @ key_line ''PrivateKey'' CHR ''B'' @ [LF] @
     ''[Peer]'' @ [LF] @ key_line ''PublicKey'' CHR ''C'' @ [LF] @ ''AllowedIPs = 10.0.0.2/32'' @ [LF] @
     ''[Peer]'' @ [LF] @ key_line ''PublicKey'' CHR ''D'' @ [LF] @ ''AllowedIPs = 10.0.0.3/32''"

definition demo_doc :: document where
  "demo_doc = \<lparr>d_raw = demo_raw, d_nodes = parse_nodes (\<lambda>s. s) demo_raw,
     d_analysis = analyze (parse_nodes (\<lambda>s. s) demo_raw), d_newline = detect_newline demo_raw\<rparr>"

lemma parse_doc_small:
  "length raw \<le> 4096 \<Longrightarrow> parse_doc ul raw = Inr \<lparr>d_raw = raw, d_nodes = parse_nodes ul raw,
     d_analysis = analyze (parse_nodes ul raw), d_newline = detect_newline raw\<rparr>"
  by (simp add: parse_doc_def default_max_bytes_def)

lemma demo_doc: "parse_doc (\<lambda>s. s) demo_raw = Inr demo_doc"
  by (subst parse_doc_small) (simp_all add: demo_doc_def demo_raw_def key_line_def)

definition demo_peer :: "char \<Rightarrow> string \<Rightarrow> nat \<Rightarrow> doc_peer" where
  "demo_peer c ip start = \<lparr>dp_public_key = demo_key c, dp_psk_present = False, dp_allowed_ips = [ip],
     dp_endpoint = [], dp_keepalive = 0, dp_block_start = start, dp_block_end = start + 3,
     dp_fields = [(''publickey'', Suc start), (''allowedips'', Suc (Suc start))]\<rparr>"

definition demo_analysis :: "nat \<Rightarrow> doc_peer list \<Rightarrow> analysis" where
  "demo_analysis n ps = \<lparr>an_interface_count = n, an_private_key_present = (n = 1), an_save_config = False,
     an_has_hooks = False, an_has_unknown = False, an_peers = ps, an_warnings = []\<rparr>"

lemma demo_doc_analysis:
  "d_analysis demo_doc = demo_analysis 1 [demo_peer CHR ''C'' ''10.0.0.2/32'' 2, demo_peer CHR ''D'' ''10.0.0.3/32'' 5]"
  by code_simp

lemma demo_safe: "d_analysis d = demo_analysis (Suc 0) ps \<Longrightarrow> adoption_safe d = None"
  by (simp add: adoption_safe_def demo_analysis_def)

lemma demo_doc_safe: "adoption_safe demo_doc = None"
  by (rule demo_safe) (simp add: demo_doc_analysis)

lemma demo_doc_keys: "map pd_public_key (doc_peers demo_doc) = [demo_key CHR ''C'', demo_key CHR ''D'']"
  by (simp add: doc_peers_def demo_doc_analysis demo_analysis_def demo_peer_def peer_data_of_def)

lemma demo_find:
  "find_peer (demo_key CHR ''C'') demo_doc = Inr (demo_peer CHR ''C'' ''10.0.0.2/32'' 2)"
  "find_peer (demo_key CHR ''D'') demo_doc = Inr (demo_peer CHR ''D'' ''10.0.0.3/32'' 5)"
  by (simp_all add: find_peer_def demo_doc_analysis demo_analysis_def demo_peer_def demo_key_def)


text \<open>The two blocks of the demo document, and the document without the first.\<close>

definition demo_block :: "char \<Rightarrow> string \<Rightarrow> string" where
  "demo_block c ip = ''[Peer]'' @ [LF] @ key_line ''PublicKey'' c @ [LF] @ ''AllowedIPs = '' @ ip"

definition demo_rest :: document where
  "demo_rest = (let raw = ''[Interface]'' @ [LF] @ key_line ''PrivateKey'' CHR ''B'' @ [LF] @
       demo_block CHR ''D'' ''10.0.0.3/32'' in
     \<lparr>d_raw = raw, d_nodes = parse_nodes (\<lambda>s. s) raw, d_analysis = analyze (parse_nodes (\<lambda>s. s) raw),
      d_newline = detect_newline raw\<rparr>)"

lemma demo_removed:
  "remove_peer (\<lambda>s. s) (demo_key CHR ''C'') demo_doc = Inr (demo_block CHR ''C'' ''10.0.0.2/32'' @ [LF], demo_rest)"
proof -
  let ?p = "demo_peer CHR ''C'' ''10.0.0.2/32'' 2"
  have ps: "dp_block_start ?p = 2" "dp_block_end ?p = 5" by (simp_all add: demo_peer_def)
  have "map nd_raw (d_nodes demo_doc) = split_lines demo_raw"
    by (simp add: demo_doc_def parse_nodes_def)
  also have "\<dots> = [''[Interface]'' @ [LF], key_line ''PrivateKey'' CHR ''B'' @ [LF], ''[Peer]'' @ [LF],
      key_line ''PublicKey'' CHR ''C'' @ [LF], ''AllowedIPs = 10.0.0.2/32'' @ [LF], ''[Peer]'' @ [LF],
      key_line ''PublicKey'' CHR ''D'' @ [LF], ''AllowedIPs = 10.0.0.3/32'']"
    by code_simp
  finally have lines: "map nd_raw (d_nodes demo_doc) = [''[Interface]'' @ [LF], key_line ''PrivateKey'' CHR ''B'' @ [LF],
      ''[Peer]'' @ [LF], key_line ''PublicKey'' CHR ''C'' @ [LF], ''AllowedIPs = 10.0.0.2/32'' @ [LF],
      ''[Peer]'' @ [LF], key_line ''PublicKey'' CHR ''D'' @ [LF], ''AllowedIPs = 10.0.0.3/32'']" .
  have "render_nodes (block_nodes ?p demo_doc) = demo_block CHR ''C'' ''10.0.0.2/32'' @ [LF]"
    by (simp add: render_nodes_def block_nodes_def ps drop_map [symmetric] take_map [symmetric] lines demo_block_def)
  moreover have "render_nodes (take (dp_block_start ?p) (d_nodes demo_doc)) @ [] @
      render_nodes (drop (dp_block_end ?p) (d_nodes demo_doc)) = d_raw demo_rest"
    by (simp add: render_nodes_def ps drop_map [symmetric] take_map [symmetric] lines demo_block_def demo_rest_def Let_def)
  moreover note p = calculation demo_find(1)
  have "length (d_raw demo_rest) \<le> 4096" by (simp add: demo_rest_def demo_block_def key_line_def Let_def)
  from parse_doc_small [OF this, of "\<lambda>s. s"] have "parse_doc (\<lambda>s. s) (d_raw demo_rest) = Inr demo_rest"
    by (simp add: demo_rest_def Let_def)
  with p demo_doc_safe show ?thesis by (simp add: remove_peer_def replace_node_range_def)
qed

lemma demo_rest_analysis: "d_analysis demo_rest = demo_analysis 1 [demo_peer CHR ''D'' ''10.0.0.3/32'' 2]"
  by code_simp

lemma demo_block_analysis:
  "analyze (parse_nodes (\<lambda>s. s) (demo_block CHR ''C'' ''10.0.0.2/32'' @ [LF])) =
     demo_analysis 0 [demo_peer CHR ''C'' ''10.0.0.2/32'' 0]"
  by code_simp

lemma demo_restored: "\<exists>d''. restore_peer_block (\<lambda>s. s) (demo_key CHR ''C'') (demo_block CHR ''C'' ''10.0.0.2/32'' @ [LF]) demo_rest = Inr d''"
proof -
  let ?blk = "demo_block CHR ''C'' ''10.0.0.2/32'' @ [LF]"
  have len: "length ?blk \<le> 1000" "length (d_raw demo_rest) \<le> 1000" "length (d_newline demo_rest) \<le> 2"
    by (simp_all add: demo_block_def key_line_def demo_rest_def Let_def detect_newline_def)
  have "parse_doc (\<lambda>s. s) ?blk = Inr \<lparr>d_raw = ?blk, d_nodes = parse_nodes (\<lambda>s. s) ?blk,
      d_analysis = demo_analysis 0 [demo_peer CHR ''C'' ''10.0.0.2/32'' 0], d_newline = detect_newline ?blk\<rparr>"
    using len by (simp add: parse_doc_small demo_block_analysis)
  moreover have "archived_block_ok (demo_key CHR ''C'') (demo_analysis 0 [demo_peer CHR ''C'' ''10.0.0.2/32'' 0])"
    by (simp add: archived_block_ok_def demo_analysis_def demo_peer_def)
  moreover have "an_warnings (demo_analysis 0 [demo_peer CHR ''C'' ''10.0.0.2/32'' 0]) = []"
    by (simp add: demo_analysis_def)
  moreover have "adoption_safe demo_rest = None" by (rule demo_safe) (simp add: demo_rest_analysis)
  moreover have "find_peer (demo_key CHR ''C'') demo_rest = Inl ErrPeerNotFound"
    by (simp add: find_peer_def demo_rest_analysis demo_analysis_def demo_peer_def demo_key_def)
  moreover have "\<exists>d''. parse_doc (\<lambda>s. s) (d_raw demo_rest @ separator nl (d_raw demo_rest) @ e @ ?blk) = Inr d''"
    if "length nl \<le> 2" "length e \<le> 2" for e nl
  proof -
    have "length (separator nl (d_raw demo_rest)) \<le> 2" using that(1) by (simp add: separator_def)
    with len that(2) have "length (d_raw demo_rest @ separator nl (d_raw demo_rest) @ e @ ?blk) \<le> 4096" by simp
    from parse_doc_small [OF this] show ?thesis by blast
  qed
  ultimately show ?thesis using len(3) by (simp add: restore_peer_block_def Let_def)
qed

lemma restore_after_remove_witness:
  "\<exists>d''. restore_peer_block (\<lambda>s. s) (demo_key CHR ''C'') (demo_block CHR ''C'' ''10.0.0.2/32'' @ [LF]) demo_rest = Inr d'' \<and>
     map pd_public_key (doc_peers d'') = [demo_key CHR ''D'', demo_key CHR ''C'']"
proof -
  obtain d'' where d: "restore_peer_block (\<lambda>s. s) (demo_key CHR ''C'') (demo_block CHR ''C'' ''10.0.0.2/32'' @ [LF]) demo_rest = Inr d''"
    using demo_restored by blast
  have "last (d_raw demo_rest) \<noteq> CR" by (simp add: demo_rest_def demo_block_def key_line_def Let_def)
  with restore_after_remove [OF demo_doc demo_removed d] have
    "map pd_public_key (doc_peers d'') = map pd_public_key
       (filter (\<lambda>q. pd_public_key q \<noteq> demo_key CHR ''C'') (doc_peers demo_doc) @
        filter (\<lambda>q. pd_public_key q = demo_key CHR ''C'') (doc_peers demo_doc))" by simp
  moreover from demo_doc_keys
  obtain q r where "doc_peers demo_doc = [q, r]" "pd_public_key q = demo_key CHR ''C''"
    "pd_public_key r = demo_key CHR ''D''" by (auto simp: map_eq_Cons_conv)
  ultimately have "map pd_public_key (doc_peers d'') = [demo_key CHR ''D'', demo_key CHR ''C'']"
    by (simp add: demo_key_def)
  with d show ?thesis by (intro exI conjI)
qed

text \<open>The last peer gets an endpoint: the patch succeeds, and afterwards the peer has lost its address.\<close>

definition demo_patch :: peer_patch where
  "demo_patch = \<lparr>pp_allowed_ips = None, pp_endpoint = Some ''vpn:1'', pp_keepalive = None, pp_preshared_key = None\<rparr>"

lemma demo_patched: "\<exists>d'. patch_peer (\<lambda>s. s) (demo_key CHR ''D'') demo_patch demo_doc = Inr d'"
proof -
  let ?p = "demo_peer CHR ''D'' ''10.0.0.3/32'' 5"
  have trim: "trim_space ''vpn:1'' = ''vpn:1''" by code_simp
  obtain vals where vals: "patch_values demo_patch = Inr vals"
    "vals = (\<lambda>key. if key = ''allowedips'' then None else if key = ''endpoint'' then Some ''vpn:1''
       else if key = ''persistentkeepalive'' then None else if key = ''presharedkey'' then None else None)"
    by (simp add: patch_values_def demo_patch_def trim cong: if_cong)
  have "map nd_key (block_nodes ?p demo_doc) = [[], ''publickey'', ''allowedips'']"
    unfolding demo_doc_def demo_peer_def block_nodes_def by code_simp
  then have none: "\<not> list_ex (is_assignment ''endpoint'') (block_nodes ?p demo_doc)"
    by (auto simp: is_assignment_def map_eq_Cons_conv)
  then have rendered: "render_nodes (patch_block nl vals (block_nodes ?p demo_doc)) =
      render_nodes (block_nodes ?p demo_doc) @ ''Endpoint = vpn:1'' @ nl" for nl
    by (simp add: patch_block_def patch_keys_def patch_key_def display_key_def vals(2) render_nodes_def)
  from doc_split [OF demo_doc demo_find(2)] obtain A C where s:
    "demo_raw = render_nodes A @ render_nodes (block_nodes ?p demo_doc) @ render_nodes C"
    "A = take (dp_block_start ?p) (d_nodes demo_doc)" "C = drop (dp_block_end ?p) (d_nodes demo_doc)" by metis
  have "length demo_raw \<le> 1000" by (simp add: demo_raw_def key_line_def)
  moreover have "length demo_raw = length (render_nodes A) + length (render_nodes (block_nodes ?p demo_doc)) +
      length (render_nodes C)"
    using arg_cong [OF s(1), of length] by (simp only: length_append add.assoc)
  moreover have "length (d_newline demo_doc) \<le> 2" by (simp add: demo_doc_def detect_newline_def)
  ultimately have "length (render_nodes A @ (render_nodes (block_nodes ?p demo_doc) @ ''Endpoint = vpn:1'' @
      d_newline demo_doc) @ render_nodes C) \<le> 4096"
    by simp
  from parse_doc_small [OF this, of "\<lambda>s. s"] show ?thesis
    by (simp add: rendered patch_peer_def demo_doc_safe demo_find(2) vals(1) replace_node_range_def s(2,3))
qed


lemma patch_peer_joins_lines_witness:
  "\<exists>d'. patch_peer (\<lambda>s. s) (demo_key CHR ''D'') demo_patch demo_doc = Inr d' \<and>
     d_raw d' = demo_raw @ ''Endpoint = vpn:1'' @ [LF] \<and>
     an_peers (analyze (parse_nodes (\<lambda>s. s) (demo_raw @ ''Endpoint = vpn:1'' @ [LF]))) =
       [demo_peer CHR ''C'' ''10.0.0.2/32'' 2, (demo_peer CHR ''D'' [] 5)\<lparr>dp_allowed_ips := []\<rparr>]"
proof -
  obtain d' where d: "patch_peer (\<lambda>s. s) (demo_key CHR ''D'') demo_patch demo_doc = Inr d'"
    using demo_patched by blast
  let ?p = "demo_peer CHR ''D'' ''10.0.0.3/32'' 5"
  have trim: "trim_space ''vpn:1'' = ''vpn:1''" by code_simp
  have "map nd_key (block_nodes ?p demo_doc) = [[], ''publickey'', ''allowedips'']"
    unfolding demo_doc_def demo_peer_def block_nodes_def by code_simp
  then have none: "\<not> list_ex (is_assignment ''endpoint'') (block_nodes ?p demo_doc)"
    by (auto simp: is_assignment_def map_eq_Cons_conv)
  have "length (d_nodes demo_doc) = 8"
    unfolding demo_doc_def by code_simp
  then have stop: "dp_block_end ?p = length (d_nodes demo_doc)" by (simp add: demo_peer_def)
  have nl: "d_newline demo_doc = [LF]" unfolding demo_doc_def by code_simp
  from patch_peer_joins_lines [OF demo_doc demo_find(2) stop none _ d [unfolded demo_patch_def]]
  have "d_raw d' = demo_raw @ ''Endpoint = vpn:1'' @ [LF]" by (simp add: trim nl)
  moreover have "an_peers (analyze (parse_nodes (\<lambda>s. s) (demo_raw @ ''Endpoint = vpn:1'' @ [LF]))) =
       [demo_peer CHR ''C'' ''10.0.0.2/32'' 2, (demo_peer CHR ''D'' [] 5)\<lparr>dp_allowed_ips := []\<rparr>]"
    by code_simp
  ultimately show ?thesis using d by (intro exI conjI)
qed

end
