(* ===== verification/Validation.thy ===== *)
theory Validation
  imports Netip "HOL-Library.List_Lexorder" "HOL-Library.Product_Lexorder" "HOL-Library.Char_ord"
begin

text \<open>
  \<^verbatim>\<open>src/internal/agent/validation/validation.go\<close>: the checks on names, keys, prefixes, hosts and
  numbers. A regular expression of the source is a test of the length and of every byte; a
  check returns \<open>None\<close> for \<open>nil\<close> or the error's text. \<open>net.ParseIP\<close> is \<open>netip.ParseAddr\<close>
  without a zone.
\<close>

definition is_alnum :: "char \<Rightarrow> bool" where
  "is_alnum c \<longleftrightarrow> (97 \<le> code c \<and> code c \<le> 122) \<or> (65 \<le> code c \<and> code c \<le> 90) \<or> is_digit c"

definition interface_name :: "string \<Rightarrow> string option" where
  "interface_name name =
     (if 1 \<le> length name \<and> length name \<le> 15 \<and> list_all (\<lambda>c. is_alnum c \<or> c \<in> set ''_=+.-'') name then None
      else Some ''interface name must match ^[A-Za-z0-9_=+.-]{1,15}$'')"

definition wireguard_key :: "string \<Rightarrow> string option" where
  "wireguard_key value =
     (case b64_decode (trim_space value) of
        None \<Rightarrow> Some ''WireGuard key must decode to exactly 32 bytes''
      | Some bs \<Rightarrow>
          (if length bs \<noteq> 32 then Some ''WireGuard key must decode to exactly 32 bytes''
           else if list_all (\<lambda>b. b = 0) bs then Some ''WireGuard public key cannot be all zero''
           else None))"

definition listen_port :: "nat \<Rightarrow> string option" where
  "listen_port port = (if port = 0 then Some ''listen port must be between 1 and 65535'' else None)"

definition persistent_keepalive :: "nat \<Rightarrow> string option" where
  "persistent_keepalive seconds = None"

text \<open>The value of an address, for \<open>Addr.Less\<close> within one family.\<close>

fun addr_value :: "addr \<Rightarrow> nat" where
  "addr_value NoAddr = 0" | "addr_value (V4 w) = unat w" | "addr_value (V6 w z) = unat w"

definition prefix_order :: "ip_prefix \<Rightarrow> int \<times> nat \<times> int" where
  "prefix_order p = (bit_len (pfx_addr p), addr_value (pfx_addr p), pfx_bits p)"

fun collect_prefixes :: "ip_prefix list \<Rightarrow> string list \<Rightarrow> string + ip_prefix list" where
  "collect_prefixes result [] = Inr result"
| "collect_prefixes result (v # vs) =
     (case parse_prefix (trim_space v) of
        None \<Rightarrow> Inl ''invalid CIDR''
      | Some p \<Rightarrow> collect_prefixes (if masked p \<in> set result then result else result @ [masked p]) vs)"

definition canonical_prefix_list :: "string list \<Rightarrow> string + ip_prefix list" where
  "canonical_prefix_list values =
     bind_r (collect_prefixes [] values) (\<lambda>ps. Inr (sort_key prefix_order ps))"

definition tunnel_address :: "string \<Rightarrow> string + ip_prefix" where
  "tunnel_address value =
     (case parse_prefix (trim_space value) of
        None \<Rightarrow> Inl ''invalid tunnel address''
      | Some p \<Rightarrow>
          (if is4 (pfx_addr p) \<and> pfx_bits p \<noteq> 32 then Inl ''IPv4 peer tunnel address must be /32''
           else if is6 (pfx_addr p) \<and> pfx_bits p \<noteq> 128 then Inl ''IPv6 peer tunnel address must be /128''
           else Inr p))"

record owned_prefix =
  ow_peer_id :: string
  ow_prefix :: ip_prefix

definition clashes :: "ip_prefix \<Rightarrow> ip_prefix \<Rightarrow> bool" where
  "clashes p q \<longleftrightarrow> bit_len (pfx_addr p) = bit_len (pfx_addr q) \<and> overlaps p q"

definition reject_overlaps :: "ip_prefix list \<Rightarrow> owned_prefix list \<Rightarrow> string \<Rightarrow> string option" where
  "reject_overlaps candidate existing excluded =
     (case find (\<lambda>(p, q). ow_peer_id q \<noteq> excluded \<and> clashes p (ow_prefix q)) (List.product candidate existing) of
        None \<Rightarrow> None
      | Some (p, q) \<Rightarrow> Some (''AllowedIPs '' @ show_prefix p @ '' overlaps '' @ show_prefix (ow_prefix q) @
                           '' owned by peer '' @ ow_peer_id q))"

definition net_parse_ip :: "string \<Rightarrow> bool" where
  "net_parse_ip s = (case parse_addr s of None \<Rightarrow> False | Some a \<Rightarrow> addr_zone a = [])"

definition strip_brackets :: "string \<Rightarrow> string" where
  "strip_brackets host =
     (let h = (if host \<noteq> [] \<and> last host = CHR '']'' then butlast host else host) in
      if h \<noteq> [] \<and> hd h = CHR ''['' then tl h else h)"

definition bad_label :: "string \<Rightarrow> string option" where
  "bad_label label =
     (if label = [] \<or> length label > 63 then Some ''endpoint DNS name has an invalid label''
      else if hd label = CHR ''-'' \<or> last label = CHR ''-''
      then Some ''endpoint DNS label cannot start or end with a hyphen''
      else if \<not> list_all (\<lambda>c. is_alnum c \<or> c = CHR ''-'') label
      then Some ''endpoint DNS name contains an invalid character''
      else None)"

fun first_bad_label :: "string list \<Rightarrow> string option" where
  "first_bad_label [] = None"
| "first_bad_label (l # ls) = (case bad_label l of Some e \<Rightarrow> Some e | None \<Rightarrow> first_bad_label ls)"

definition endpoint_host :: "string \<Rightarrow> string option" where
  "endpoint_host host0 =
     (let host = trim_space host0 in
      if host = [] then Some ''endpoint host is required''
      else if contains_any host [CHR 0x0D, CHR 0x0A, CHR 0x09, CHR 0x20, CHR ''/'']
      then Some ''endpoint host contains invalid characters''
      else if net_parse_ip (strip_brackets host) then None
      else if length host > 253 then Some ''endpoint DNS name is too long''
      else first_bad_label (split_on CHR ''.'' host))"

definition valid_mtu :: "nat \<Rightarrow> string option" where
  "valid_mtu v = (if v \<noteq> 0 \<and> (v < 1280 \<or> v > 9000)
     then Some ''MTU must be zero (omit) or between 1280 and 9000'' else None)"

definition valid_dns :: "string list \<Rightarrow> string option" where
  "valid_dns vs = (if list_ex (\<lambda>v. parse_addr (trim_space v) = None) vs
     then Some ''DNS value must be an IP literal'' else None)"

section \<open>Canonical prefixes\<close>

lemma collect_prefixes_Inr:
  "collect_prefixes acc vs = Inr ps \<Longrightarrow> distinct acc \<Longrightarrow>
     distinct ps \<and> set ps = set acc \<union> {masked p | p v. v \<in> set vs \<and> parse_prefix (trim_space v) = Some p}"
proof (induction vs arbitrary: acc)
  case (Cons v vs)
  from Cons.prems(1) obtain p where p: "parse_prefix (trim_space v) = Some p"
    by (auto split: option.splits)
  let ?acc = "if masked p \<in> set acc then acc else acc @ [masked p]"
  have "distinct ps \<and> set ps = set ?acc \<union> {masked q | q v. v \<in> set vs \<and> parse_prefix (trim_space v) = Some q}"
    using Cons.prems p by (intro Cons.IH) auto
  moreover have "set ?acc = insert (masked p) (set acc)" by auto
  ultimately show ?case using p by auto
qed simp

lemma canonical_prefix_list_Inr:
  assumes "canonical_prefix_list vs = Inr ps"
  shows "distinct ps" and "sorted (map prefix_order ps)"
    and "set ps = {masked p | p v. v \<in> set vs \<and> parse_prefix (trim_space v) = Some p}"
proof -
  from assms obtain qs where qs: "collect_prefixes [] vs = Inr qs" "ps = sort_key prefix_order qs"
    by (auto simp: canonical_prefix_list_def)
  with collect_prefixes_Inr [OF qs(1)]
  show "distinct ps" and "sorted (map prefix_order ps)"
    and "set ps = {masked p | p v. v \<in> set vs \<and> parse_prefix (trim_space v) = Some p}"
    by auto
qed

text \<open>
  \<open>RejectOverlaps\<close> accepts exactly when no proposed prefix shares an address range with a
  prefix of another peer; the peer being edited does not conflict with itself.
\<close>

theorem reject_overlaps_iff:
  "reject_overlaps candidate existing excluded = None \<longleftrightarrow>
     (\<not> (\<exists>p \<in> set candidate. \<exists>q \<in> set existing. ow_peer_id q \<noteq> excluded \<and>
        bit_len (pfx_addr p) = bit_len (pfx_addr (ow_prefix q)) \<and> overlaps p (ow_prefix q)))"
proof -
  have "reject_overlaps candidate existing excluded = None \<longleftrightarrow>
      find (\<lambda>(p, q). ow_peer_id q \<noteq> excluded \<and> clashes p (ow_prefix q)) (List.product candidate existing) = None"
    by (auto simp: reject_overlaps_def split: option.splits)
  then show ?thesis by (auto simp: find_None_iff clashes_def)
qed

end
