(* ===== verification/Ipam.thy ===== *)
theory Ipam
  imports Validation
begin

text \<open>
  \<^verbatim>\<open>src/internal/agent/ipam/allocator.go\<close>: the address allocator. The sets of taken addresses are
  lists; the scan is bounded by \<open>max_allocation_scan\<close>, which is the fuel of the recursion.
\<close>

record candidate_set =
  cs_pool :: ip_prefix
  cs_gateway :: addr
  cs_allocated :: "addr list"
  cs_quarantined :: "addr list"
  cs_reservations :: "addr list"

definition max_allocation_scan :: nat where
  "max_allocation_scan = 2 ^ 20"

definition last_address :: "ip_prefix \<Rightarrow> addr" where
  "last_address p =
     (case pfx_addr (masked p) of
        V4 w \<Rightarrow> V4 (fold (\<lambda>b w. w OR push_bit (31 - b) 1) [nat (pfx_bits p)..<32] w)
      | _ \<Rightarrow> NoAddr)"

definition usable :: "ip_prefix \<Rightarrow> addr \<Rightarrow> addr \<Rightarrow> bool" where
  "usable pool candidate gateway \<longleftrightarrow>
     (if candidate = gateway \<or> candidate = pfx_addr pool then False
      else if is4 candidate \<and> candidate = last_address pool then False
      else True)"

definition free_addr :: "candidate_set \<Rightarrow> ip_prefix \<Rightarrow> addr \<Rightarrow> bool" where
  "free_addr inp pool a \<longleftrightarrow> usable pool a (cs_gateway inp) \<and> a \<notin> set (cs_allocated inp) \<and>
     a \<notin> set (cs_quarantined inp) \<and> a \<notin> set (cs_reservations inp)"

text \<open>The loop: the candidate it stops at, and whether that candidate is free.\<close>

fun alloc_scan :: "candidate_set \<Rightarrow> ip_prefix \<Rightarrow> nat \<Rightarrow> addr \<Rightarrow> bool \<times> addr" where
  "alloc_scan inp pool n a =
     (if n = 0 \<or> a = NoAddr \<or> \<not> contains pool a then (False, a)
      else if free_addr inp pool a then (True, a)
      else alloc_scan inp pool (n - 1) (next_addr a))"

declare alloc_scan.simps [simp del]

definition allocate :: "candidate_set \<Rightarrow> string + addr" where
  "allocate inp =
     (let pool = masked (cs_pool inp) in
      if \<not> valid_prefix pool then Inl ''address pool is invalid''
      else if cs_gateway inp = NoAddr \<or> \<not> contains pool (cs_gateway inp)
      then Inl ''gateway address must belong to the pool''
      else (case alloc_scan inp pool max_allocation_scan (pfx_addr pool) of
          (True, a) \<Rightarrow> Inr a
        | (False, a) \<Rightarrow>
            if a \<noteq> NoAddr \<and> contains pool a then Inl ''allocation scan exceeded 1048576 candidates''
            else Inl ''address pool is exhausted''))"

definition validate_pool :: "ip_prefix \<Rightarrow> addr \<Rightarrow> ip_prefix list \<Rightarrow> string option" where
  "validate_pool pool0 gateway occupied =
     (let pool = masked pool0 in
      if \<not> valid_prefix pool \<or> gateway = NoAddr \<or> \<not> contains pool gateway then Some ''invalid pool or gateway''
      else (case find (clashes pool) occupied of
          None \<Rightarrow> None
        | Some q \<Rightarrow> Some (''pool '' @ show_prefix pool @ '' overlaps occupied prefix '' @ show_prefix q)))"

section \<open>Ranges\<close>

text \<open>The addresses of a prefix are an interval: \<open>size\<close> addresses from the masked one.\<close>

lemma drop_bit_xor_zero:
  fixes v w :: "'a::len word"
  shows "drop_bit m (v XOR w) = 0 \<longleftrightarrow> unat v div 2 ^ m = unat w div 2 ^ m"
proof -
  have "drop_bit m (v XOR w) = 0 \<longleftrightarrow> drop_bit m v = drop_bit m w"
    by (auto simp: bit_eq_iff bit_simps)
  also have "\<dots> \<longleftrightarrow> unat v div 2 ^ m = unat w div 2 ^ m"
    by (simp add: word_unat_eq_iff unat_drop)
  finally show ?thesis .
qed

lemma unat_top_bits:
  fixes w :: "'a::len word"
  shows "unat (top_bits n w) = unat w div 2 ^ (LENGTH('a) - n) * 2 ^ (LENGTH('a) - n)"
proof -
  let ?m = "LENGTH('a) - n"
  have "unat w div 2 ^ ?m * 2 ^ ?m \<le> unat w" by (rule div_times_less_eq_dividend)
  then have "unat w div 2 ^ ?m * 2 ^ ?m < 2 ^ LENGTH('a)"
    using unsigned_less [of w] by (rule le_less_trans)
  then show ?thesis
    by (simp add: top_bits_def unsigned_push_bit_eq unat_drop push_bit_eq_mult [where ?'a = nat]
        take_bit_eq_mod [where ?'a = nat])
qed

text \<open>The first address of a valid masked prefix and the number of its addresses.\<close>

definition pool_size :: "ip_prefix \<Rightarrow> nat" where
  "pool_size p = 2 ^ nat (bit_len (pfx_addr p) - pfx_bits p)"

lemma masked_cases:
  assumes "valid_prefix (masked p)"
  obtains (v4) w n where "masked p = \<lparr>pfx_addr = V4 w, pfx_bits = int n\<rparr>" and "n \<le> 32"
      and "w = top_bits n w" and "unat w mod 2 ^ (32 - n) = 0"
    | (v6) w n where "masked p = \<lparr>pfx_addr = V6 w [], pfx_bits = int n\<rparr>" and "n \<le> 128"
      and "w = top_bits n w" and "unat w mod 2 ^ (128 - n) = 0"
proof (cases "pfx_addr p")
  case NoAddr
  with assms show thesis
    by (auto simp: masked_def addr_prefix_def valid_prefix_def no_prefix_def split: if_splits)
next
  case (V4 w)
  let ?n = "nat (pfx_bits p)"
  from V4 assms have m: "masked p = \<lparr>pfx_addr = V4 (top_bits ?n w), pfx_bits = int ?n\<rparr>" and "?n \<le> 32"
    by (auto simp: masked_def addr_prefix_def valid_prefix_def no_prefix_def prefix_from_def split: if_splits)
  moreover have "top_bits ?n w = top_bits ?n (top_bits ?n w)" by (simp add: word_unat_eq_iff unat_top_bits)
  ultimately show thesis by (intro v4 [OF m]) (simp_all add: unat_top_bits)
next
  case (V6 w z)
  let ?n = "nat (pfx_bits p)"
  from V6 assms have m: "masked p = \<lparr>pfx_addr = V6 (top_bits ?n w) [], pfx_bits = int ?n\<rparr>" and "?n \<le> 128"
    by (auto simp: masked_def addr_prefix_def valid_prefix_def no_prefix_def prefix_from_def split: if_splits)
  moreover have "top_bits ?n w = top_bits ?n (top_bits ?n w)" by (simp add: word_unat_eq_iff unat_top_bits)
  ultimately show thesis by (intro v6 [OF m]) (simp_all add: unat_top_bits)
qed

lemma same_block:
  fixes a b :: nat
  assumes "b mod s = 0" and "s > 0"
  shows "b div s = a div s \<longleftrightarrow> b \<le> a \<and> a < b + s"
proof -
  have b: "b = s * (b div s)" using assms(1) by auto
  show ?thesis
  proof
    assume eq: "b div s = a div s"
    have "s * (a div s) \<le> a" "a < s * (a div s) + s"
      using mod_less_divisor [OF assms(2), of a] mult_div_mod_eq [of s a] by linarith+
    with eq b show "b \<le> a \<and> a < b + s" by simp
  next
    assume "b \<le> a \<and> a < b + s"
    then obtain r where "a = b + r" "r < s" by (metis add_less_cancel_left le_Suc_ex)
    with assms b show "b div s = a div s" by (metis add.right_neutral div_less div_mult_self4 not_less0)
  qed
qed

lemma unat_range: "unat (w :: 32 word) < 2 ^ 32" "unat (u :: 128 word) < 2 ^ 128"
  using unsigned_less [of w] unsigned_less [of u] by simp_all

text \<open>The \<open>k\<close>-th successor of the first address is the \<open>k\<close>-th address of the pool.\<close>

lemma unat_next:
  fixes w :: "'a::len word"
  assumes "w \<noteq> - 1" shows "unat (w + 1) = Suc (unat w)"
proof -
  have "1 + w \<noteq> 0" using assms by (metis add.commute add_eq_0_iff)
  then show ?thesis using unatSuc [of w] by (simp add: add.commute)
qed

lemma unat_last:
  fixes w :: "'a::len word"
  shows "w = - 1 \<longleftrightarrow> Suc (unat w) = 2 ^ LENGTH('a)"
proof -
  have "unat (- 1 :: 'a word) = 2 ^ LENGTH('a) - 1"
    by (simp add: unsigned_minus_1_eq_mask mask_eq_exp_minus_1 [where ?'a = nat])
  moreover have "(2 :: nat) ^ LENGTH('a) \<ge> 1" by simp
  ultimately show ?thesis by (auto simp: word_unat_eq_iff)
qed

lemma next_value:
  "a \<noteq> NoAddr \<Longrightarrow> next_addr a \<noteq> NoAddr \<Longrightarrow> addr_value (next_addr a) = Suc (addr_value a) \<and>
     bit_len (next_addr a) = bit_len a \<and> addr_zone (next_addr a) = addr_zone a"
  by (cases a) (auto simp: unat_next split: if_splits)

lemma next_none: "a \<noteq> NoAddr \<Longrightarrow> next_addr a = NoAddr \<longleftrightarrow> Suc (addr_value a) = 2 ^ nat (bit_len a)"
  by (cases a) (auto simp: unat_last)

lemma addr_eqI:
  "bit_len a = bit_len b \<Longrightarrow> addr_zone a = addr_zone b \<Longrightarrow> addr_value a = addr_value b \<Longrightarrow> a = b"
  by (cases a; cases b) (auto simp: word_unat_eq_iff)

lemma nth_addr:
  "a \<noteq> NoAddr \<Longrightarrow> addr_value a + k < 2 ^ nat (bit_len a) \<Longrightarrow>
     (next_addr ^^ k) a \<noteq> NoAddr \<and> addr_value ((next_addr ^^ k) a) = addr_value a + k \<and>
     bit_len ((next_addr ^^ k) a) = bit_len a \<and> addr_zone ((next_addr ^^ k) a) = addr_zone a"
proof (induction k)
  case (Suc k)
  let ?x = "(next_addr ^^ k) a"
  from Suc have x: "?x \<noteq> NoAddr" "addr_value ?x = addr_value a + k" "bit_len ?x = bit_len a"
    "addr_zone ?x = addr_zone a" by auto
  with Suc.prems have "next_addr ?x \<noteq> NoAddr" by (simp add: next_none)
  with next_value [OF x(1) this] x show ?case by simp
qed simp

text \<open>A valid masked pool holds exactly the addresses of an interval of its family.\<close>

lemma contains_masked:
  assumes "valid_prefix (masked p)"
  defines "b \<equiv> pfx_addr (masked p)"
  shows "contains (masked p) a \<longleftrightarrow> bit_len a = bit_len b \<and> addr_zone a = [] \<and>
      addr_value b \<le> addr_value a \<and> addr_value a < addr_value b + pool_size (masked p)"
    and "b \<noteq> NoAddr" and "addr_zone b = []"
    and "addr_value b + pool_size (masked p) \<le> 2 ^ nat (bit_len b)"
proof -
  have fits: "x + 2 ^ m \<le> 2 ^ l" if "x mod 2 ^ m = 0" "x < 2 ^ l" "m \<le> l" for x m l :: nat
  proof -
    from mod_0_imp_dvd [OF that(1)] obtain q where q: "x = 2 ^ m * q" by (rule dvdE)
    have l: "(2 :: nat) ^ l = 2 ^ m * 2 ^ (l - m)" using that(3) by (simp flip: power_add)
    with that(2) q have "q < 2 ^ (l - m)" by simp
    then have "Suc q \<le> 2 ^ (l - m)" by simp
    then have "2 ^ m * Suc q \<le> 2 ^ m * 2 ^ (l - m)" by (rule mult_le_mono2)
    with l q show ?thesis by simp
  qed
  have "(contains (masked p) a \<longleftrightarrow> bit_len a = bit_len b \<and> addr_zone a = [] \<and>
      addr_value b \<le> addr_value a \<and> addr_value a < addr_value b + pool_size (masked p)) \<and>
    b \<noteq> NoAddr \<and> addr_zone b = [] \<and> addr_value b + pool_size (masked p) \<le> 2 ^ nat (bit_len b)"
    using assms(1)
  proof (cases rule: masked_cases)
    case (v4 w n)
    have "nat (32 - int n) = 32 - n" by simp
    then show ?thesis
      using v4(1,2) same_block [OF v4(4)] fits [OF v4(4) unat_range(1)]
      by (cases a) (simp_all add: b_def contains_def valid_prefix_def drop_bit_xor_zero pool_size_def del: drop_bit_xor)
  next
    case (v6 w n)
    have "nat (128 - int n) = 128 - n" by simp
    then show ?thesis
      using v6(1,2) same_block [OF v6(4)] fits [OF v6(4) unat_range(2)]
      by (cases a) (simp_all add: b_def contains_def valid_prefix_def drop_bit_xor_zero pool_size_def del: drop_bit_xor)
  qed
  then show "contains (masked p) a \<longleftrightarrow> bit_len a = bit_len b \<and> addr_zone a = [] \<and>
      addr_value b \<le> addr_value a \<and> addr_value a < addr_value b + pool_size (masked p)"
    and "b \<noteq> NoAddr" and "addr_zone b = []"
    and "addr_value b + pool_size (masked p) \<le> 2 ^ nat (bit_len b)" by auto
qed

text \<open>The broadcast address the code computes bit by bit is the last address of the pool.\<close>

lemma bit_set_low:
  fixes w :: "32 word"
  assumes "n \<le> 32" and "j < 32"
  shows "bit (fold (\<lambda>b w. w OR push_bit (31 - b) 1) [n..<32] w) j \<longleftrightarrow> bit w j \<or> j < 32 - n"
  using assms(1)
proof (induction n arbitrary: w rule: inc_induct)
  case (step n)
  then have "bit (fold (\<lambda>b w. w OR push_bit (31 - b) 1) [n..<32] w) j \<longleftrightarrow>
      bit (w OR push_bit (31 - n) 1) j \<or> j < 32 - Suc n"
    by (simp add: upt_conv_Cons del: upt_Suc)
  also have "\<dots> \<longleftrightarrow> bit w j \<or> j < 32 - n"
    using step.hyps assms(2) by (auto simp: bit_simps)
  finally show ?case .
qed simp

lemma last_value:
  assumes "valid_prefix (masked p)" and "is4 (pfx_addr (masked p))"
  shows "bit_len (last_address (masked p)) = 32"
    and "addr_value (last_address (masked p)) + 1 = addr_value (pfx_addr (masked p)) + pool_size (masked p)"
proof -
  have "bit_len (last_address (masked p)) = 32 \<and>
    addr_value (last_address (masked p)) + 1 = addr_value (pfx_addr (masked p)) + pool_size (masked p)"
    using assms(1)
  proof (cases rule: masked_cases)
    case (v4 w n)
    let ?l = "fold (\<lambda>b w. w OR push_bit (31 - b) 1) [n..<32] w"
    have low: "\<not> bit w j" if "j < 32 - n" for j
    proof -
      have "bit w j = bit (top_bits n w) j" using v4(3) by (rule arg_cong)
      with that show ?thesis by (simp add: top_bits_def bit_simps)
    qed
    have "?l = w OR mask (32 - n)"
    proof (rule bit_word_eqI)
      fix j :: nat
      assume j: "j < LENGTH(32)"
      then show "bit ?l j = bit (w OR mask (32 - n)) j"
        using bit_set_low [OF v4(2), of j w] by (auto simp: bit_simps)
    qed
    also have "\<dots> = w + mask (32 - n)"
      by (rule disjunctive_add_eq_or [symmetric]) (auto intro!: bit_eqI simp: bit_simps low)
    finally have l: "?l = w + mask (32 - n)" .
    have "unat (mask (32 - n) :: 32 word) = mask (32 - n)" by (rule bit_eqI) (auto simp: bit_simps)
    then have mask: "unat (mask (32 - n) :: 32 word) = 2 ^ (32 - n) - 1"
      by (simp add: mask_eq_exp_minus_1 [where ?'a = nat])
    have size: "pool_size (masked p) = 2 ^ (32 - n)"
      using v4(1) by (simp add: pool_size_def nat_diff_distrib')
    have "unat w + 2 ^ (32 - n) \<le> 2 ^ 32"
      using contains_masked(4) [OF assms(1)] v4(1) size by simp
    then have "unat w + unat (mask (32 - n) :: 32 word) < 2 ^ LENGTH(32)" by (simp add: mask)
    then have "unat (w + mask (32 - n)) = unat w + (2 ^ (32 - n) - 1)"
      using mask by (simp only: iffD1 [OF unat_add_lem])
    moreover have "top_bits n w = w" using v4(3) by (rule sym)
    then have "last_address (masked p) = V4 ?l"
      using v4(1,2) by (simp add: last_address_def masked_def addr_prefix_def prefix_from_def)
    ultimately show ?thesis using v4(1) l size by simp
  next
    case (v6 w n)
    with assms(2) show ?thesis by simp
  qed
  then show "bit_len (last_address (masked p)) = 32"
    and "addr_value (last_address (masked p)) + 1 = addr_value (pfx_addr (masked p)) + pool_size (masked p)"
    by auto
qed

section \<open>The scan\<close>

lemma alloc_scan_free:
  "alloc_scan inp pool n a = (True, x) \<Longrightarrow>
     \<exists>k<n. x = (next_addr ^^ k) a \<and> contains pool x \<and> free_addr inp pool x \<and>
       (\<forall>j<k. \<not> free_addr inp pool ((next_addr ^^ j) a))"
proof (induction inp pool n a rule: alloc_scan.induct)
  case (1 inp pool n a)
  note step = "1.prems" [unfolded alloc_scan.simps [of inp pool n a]]
  show ?case
  proof (cases "free_addr inp pool a")
    case True
    with step show ?thesis by (intro exI [of _ 0]) (auto split: if_splits)
  next
    case False
    with step have *: "\<not> (n = 0 \<or> a = NoAddr \<or> \<not> contains pool a)"
      "alloc_scan inp pool (n - 1) (next_addr a) = (True, x)" by (auto split: if_splits)
    from "1.IH" [OF *(1) False *(2)] obtain k where k: "k < n - 1" "x = (next_addr ^^ k) (next_addr a)"
      "contains pool x" "free_addr inp pool x" "\<forall>j<k. \<not> free_addr inp pool ((next_addr ^^ j) (next_addr a))"
      by blast
    have "\<not> free_addr inp pool ((next_addr ^^ j) a)" if "j < Suc k" for j
      using k(5) that False by (cases j) (simp_all add: funpow_swap1)
    with k(1-4) show ?thesis by (intro exI [of _ "Suc k"]) (simp add: funpow_swap1)
  qed
qed

lemma alloc_scan_none:
  "alloc_scan inp pool n a = (False, x) \<Longrightarrow>
     \<exists>k\<le>n. x = (next_addr ^^ k) a \<and>
       (\<forall>j<k. contains pool ((next_addr ^^ j) a) \<and> \<not> free_addr inp pool ((next_addr ^^ j) a)) \<and>
       (k = n \<or> x = NoAddr \<or> \<not> contains pool x)"
proof (induction inp pool n a rule: alloc_scan.induct)
  case (1 inp pool n a)
  note step = "1.prems" [unfolded alloc_scan.simps [of inp pool n a]]
  show ?case
  proof (cases "n = 0 \<or> a = NoAddr \<or> \<not> contains pool a")
    case True
    with step show ?thesis by (intro exI [of _ 0]) auto
  next
    case False
    with step have *: "\<not> free_addr inp pool a" "alloc_scan inp pool (n - 1) (next_addr a) = (False, x)"
      by (auto split: if_splits)
    from "1.IH" [OF False *] obtain k where k: "k \<le> n - 1" "x = (next_addr ^^ k) (next_addr a)"
      "\<forall>j<k. contains pool ((next_addr ^^ j) (next_addr a)) \<and> \<not> free_addr inp pool ((next_addr ^^ j) (next_addr a))"
      "k = n - 1 \<or> x = NoAddr \<or> \<not> contains pool x"
      by blast
    have "contains pool ((next_addr ^^ j) a) \<and> \<not> free_addr inp pool ((next_addr ^^ j) a)" if "j < Suc k" for j
      using k(3) that *(1) False by (cases j) (simp_all add: funpow_swap1)
    with k False show ?thesis by (intro exI [of _ "Suc k"]) (auto simp: funpow_swap1)
  qed
qed

lemma pool_nth:
  assumes "valid_prefix (masked p)" and "contains (masked p) x"
  shows "x = (next_addr ^^ (addr_value x - addr_value (pfx_addr (masked p)))) (pfx_addr (masked p))"
    (is "x = (next_addr ^^ ?k) ?b")
proof -
  note c = contains_masked [OF assms(1)]
  have x: "bit_len x = bit_len ?b" "addr_zone x = []" "addr_value ?b \<le> addr_value x"
    "addr_value x < addr_value ?b + pool_size (masked p)" using assms(2) c(1) [of x] by auto
  with c(4) have "addr_value ?b + ?k < 2 ^ nat (bit_len ?b)" by simp
  from nth_addr [OF c(2) this] x c(3) show ?thesis by (intro addr_eqI) auto
qed

lemma pool_nth_value:
  assumes "valid_prefix (masked p)" and "k < pool_size (masked p)"
  defines "x \<equiv> (next_addr ^^ k) (pfx_addr (masked p))"
  shows "addr_value x = addr_value (pfx_addr (masked p)) + k" and "contains (masked p) x" and "x \<noteq> NoAddr"
proof -
  note c = contains_masked [OF assms(1)]
  have "addr_value (pfx_addr (masked p)) + k < 2 ^ nat (bit_len (pfx_addr (masked p)))"
    using c(4) assms(2) by simp
  from nth_addr [OF c(2) this] c(1) [of x] c(3) assms(2)
  show "addr_value x = addr_value (pfx_addr (masked p)) + k" "contains (masked p) x" "x \<noteq> NoAddr"
    by (simp_all add: x_def)
qed

lemma allocate_Inr:
  assumes "allocate inp = Inr a"
  defines "pool \<equiv> masked (cs_pool inp)"
  shows "valid_prefix pool" and "alloc_scan inp pool max_allocation_scan (pfx_addr pool) = (True, a)"
  using assms(1) by (auto simp: allocate_def Let_def pool_def split: if_splits prod.splits bool.splits)

lemma free_addrD:
  "free_addr inp pool a \<Longrightarrow> a \<noteq> cs_gateway inp \<and> a \<noteq> pfx_addr pool \<and>
     a \<notin> set (cs_allocated inp @ cs_quarantined inp @ cs_reservations inp) \<and>
     (is4 a \<longrightarrow> a \<noteq> last_address pool)"
  by (auto simp: free_addr_def usable_def split: if_splits)

text \<open>
  C34: an address the allocator returns lies in the pool and is neither the gateway, the network
  address, an allocated, quarantined or reserved address nor, in an IPv4 pool, the broadcast
  address; and it is the lowest such address: every lower address of the pool is one of these.
\<close>

theorem allocated_is_lowest_free:
  assumes "allocate inp = Inr a"
  defines "pool \<equiv> masked (cs_pool inp)"
  defines "taken \<equiv> set (cs_gateway inp # pfx_addr pool # cs_allocated inp @ cs_quarantined inp @ cs_reservations inp)"
  shows "contains pool a \<and> a \<notin> taken \<and>
    (is4 a \<longrightarrow> addr_value a + 1 < addr_value (pfx_addr pool) + pool_size pool) \<and>
    (\<forall>b. contains pool b \<longrightarrow> addr_value b < addr_value a \<longrightarrow> b \<in> taken)"
proof -
  note v = allocate_Inr(1) [OF assms(1), folded pool_def]
  note c = contains_masked [OF v [unfolded pool_def], folded pool_def]
  from alloc_scan_free [OF allocate_Inr(2) [OF assms(1), folded pool_def]]
  obtain k where k: "a = (next_addr ^^ k) (pfx_addr pool)" "contains pool a" "free_addr inp pool a"
    "\<forall>j<k. \<not> free_addr inp pool ((next_addr ^^ j) (pfx_addr pool))" by blast
  have in_a: "bit_len a = bit_len (pfx_addr pool)" "addr_value a < addr_value (pfx_addr pool) + pool_size pool"
    "addr_zone a = []" using c(1) [of a] k(2) by auto
  show ?thesis
  proof (intro conjI allI impI)
    show "contains pool a" by (rule k(2))
    show "a \<notin> taken" using free_addrD [OF k(3)] by (auto simp: taken_def)
    show "addr_value a + 1 < addr_value (pfx_addr pool) + pool_size pool" if "is4 a"
    proof -
      from that in_a(1) have b4: "is4 (pfx_addr pool)" by (cases a; cases "pfx_addr pool") auto
      note l = last_value [OF v [unfolded pool_def], folded pool_def, OF b4]
      have "addr_value a \<noteq> addr_value (last_address pool)"
      proof
        assume "addr_value a = addr_value (last_address pool)"
        moreover have "addr_zone (last_address pool) = []" using l(1) by (cases "last_address pool") auto
        moreover have "bit_len a = 32" using that by (cases a) auto
        ultimately have "a = last_address pool" using l(1) in_a(3) by (intro addr_eqI) auto
        with free_addrD [OF k(3)] that show False by simp
      qed
      with l(2) in_a(2) show ?thesis by simp
    qed
  next
    fix b assume b: "contains pool b" "addr_value b < addr_value a"
    let ?j = "addr_value b - addr_value (pfx_addr pool)"
    note nb = pool_nth [OF v [unfolded pool_def], folded pool_def, OF b(1)]
    have "?j < k"
    proof (rule ccontr)
      assume "\<not> ?j < k"
      then have "k < pool_size pool" "k \<le> ?j" using c(1) [of b] b(1) by auto
      with pool_nth_value(1) [OF v [unfolded pool_def], folded pool_def, of k] k(1) b c(1) [of b]
      show False by auto
    qed
    with k(4) nb have "\<not> free_addr inp pool b" by metis
    moreover have "b \<noteq> last_address pool" if "is4 b"
    proof
      assume eq: "b = last_address pool"
      from that c(1) [of b] b(1) have b4: "is4 (pfx_addr pool)" by (cases b; cases "pfx_addr pool") auto
      from last_value(2) [OF v [unfolded pool_def], folded pool_def, OF b4] eq b(2) in_a(2) show False by simp
    qed
    ultimately show "b \<in> taken" by (auto simp: free_addr_def usable_def taken_def split: if_splits)
  qed
qed

lemma pool_end:
  assumes "valid_prefix (masked p)"
  shows "\<not> contains (masked p) ((next_addr ^^ pool_size (masked p)) (pfx_addr (masked p)))"
proof -
  let ?b = "pfx_addr (masked p)" and ?s = "pool_size (masked p)"
  note c = contains_masked [OF assms]
  show ?thesis
  proof (cases "addr_value ?b + ?s < 2 ^ nat (bit_len ?b)")
    case True
    from nth_addr [OF c(2) True] c(1) [of "(next_addr ^^ ?s) ?b"] show ?thesis by simp
  next
    case False
    have pos: "0 < ?s" by (simp add: pool_size_def)
    let ?x = "(next_addr ^^ (?s - 1)) ?b"
    have x: "?x \<noteq> NoAddr" "addr_value ?x = addr_value ?b + (?s - 1)"
      using pool_nth_value [OF assms, of "?s - 1"] pos by auto
    have "bit_len ?x = bit_len ?b"
      using pool_nth_value(2) [OF assms, of "?s - 1"] c(1) [of ?x] pos by simp
    with x False c(4) pos have "next_addr ?x = NoAddr" by (simp add: next_none)
    then have "(next_addr ^^ Suc (?s - 1)) ?b = NoAddr" by simp
    moreover have "\<not> contains (masked p) NoAddr" using c(1) [of NoAddr] c(2) by (cases ?b) auto
    ultimately show ?thesis using pos by simp
  qed
qed

text \<open>
  C35: a failed allocation is justified: the allocator reports an exhausted pool only when every
  address of the pool is the gateway, the network or IPv4 broadcast address or taken, and gives up
  at the scan limit only when the pool has more than \<open>2 ^ 20\<close> addresses and the first
  \<open>2 ^ 20\<close> of them are all unusable. Any other error means that the pool is invalid or does not
  hold the gateway.
\<close>

theorem allocation_failure_is_justified:
  assumes "allocate inp = Inl e" and "contains (masked (cs_pool inp)) (cs_gateway inp)"
  defines "pool \<equiv> masked (cs_pool inp)"
  shows "e = ''address pool is exhausted'' \<and> (\<forall>b. contains pool b \<longrightarrow> \<not> free_addr inp pool b) \<or>
    e = ''allocation scan exceeded 1048576 candidates'' \<and> 2 ^ 20 < pool_size pool \<and>
      (\<forall>b. contains pool b \<longrightarrow> addr_value b < addr_value (pfx_addr pool) + 2 ^ 20 \<longrightarrow> \<not> free_addr inp pool b)"
proof -
  from assms(2) have v: "valid_prefix pool" and gw: "cs_gateway inp \<noteq> NoAddr"
    by (auto simp: contains_def pool_def split: if_splits addr.splits)
  note c = contains_masked [OF v [unfolded pool_def], folded pool_def]
    and nth = pool_nth_value [OF v [unfolded pool_def], folded pool_def]
    and pos = pool_nth [OF v [unfolded pool_def], folded pool_def]
  from assms(1,2) v gw obtain x where x: "alloc_scan inp pool max_allocation_scan (pfx_addr pool) = (False, x)"
    and e: "e = (if x \<noteq> NoAddr \<and> contains pool x then ''allocation scan exceeded 1048576 candidates''
      else ''address pool is exhausted'')"
    by (auto simp: allocate_def Let_def pool_def split: prod.splits bool.splits if_splits)
  from alloc_scan_none [OF x] obtain k where k: "k \<le> max_allocation_scan" "x = (next_addr ^^ k) (pfx_addr pool)"
    "\<forall>j<k. contains pool ((next_addr ^^ j) (pfx_addr pool)) \<and> \<not> free_addr inp pool ((next_addr ^^ j) (pfx_addr pool))"
    "k = max_allocation_scan \<or> x = NoAddr \<or> \<not> contains pool x" by blast
  have below: "\<not> free_addr inp pool b" if "contains pool b" "addr_value b < addr_value (pfx_addr pool) + k" for b
  proof -
    have "addr_value b - addr_value (pfx_addr pool) < k" using that c(1) [of b] by auto
    with k(3) pos [OF that(1)] show ?thesis by metis
  qed
  show ?thesis
  proof (cases "x \<noteq> NoAddr \<and> contains pool x")
    case True
    have "k < pool_size pool"
    proof (rule ccontr)
      assume "\<not> k < pool_size pool"
      then consider "k = pool_size pool" | "pool_size pool < k" by fastforce
      then show False
        using pool_end [OF v [unfolded pool_def], folded pool_def] True k(2,3) by cases auto
    qed
    moreover have "k = 2 ^ 20" using True k(4) by (simp add: max_allocation_scan_def)
    ultimately show ?thesis using True e below by auto
  next
    case False
    have "pool_size pool \<le> k"
    proof (rule ccontr)
      assume "\<not> pool_size pool \<le> k"
      with nth(2,3) [of k] k(2) False show False by auto
    qed
    with below c(1) have "\<forall>b. contains pool b \<longrightarrow> \<not> free_addr inp pool b" by fastforce
    with e False show ?thesis by auto
  qed
qed

definition demo_pool :: "addr list \<Rightarrow> candidate_set" where
  "demo_pool used =
     \<lparr>cs_pool = prefix_from (V4 0x0A080002) 30, cs_gateway = V4 0x0A080001, cs_allocated = used,
      cs_quarantined = [], cs_reservations = []\<rparr>"

lemma demo_scan:
  "masked (cs_pool (demo_pool used)) = prefix_from (V4 0x0A080000) 30"
  "contains (prefix_from (V4 0x0A080000) 30) (V4 0x0A080000)"
  "contains (prefix_from (V4 0x0A080000) 30) (V4 0x0A080001)"
  "contains (prefix_from (V4 0x0A080000) 30) (V4 0x0A080002)"
  "contains (prefix_from (V4 0x0A080000) 30) (V4 0x0A080003)"
  "\<not> contains (prefix_from (V4 0x0A080000) 30) (V4 0x0A080004)"
  "last_address (prefix_from (V4 0x0A080000) 30) = V4 0x0A080003"
  "valid_prefix (prefix_from (V4 0x0A080000) 30)"
  by code_simp+

text \<open>One step of the scan, as conditional rewrite rules.\<close>

lemma alloc_scan_step:
  "\<not> contains pool a \<Longrightarrow> alloc_scan inp pool n a = (False, a)"
  "0 < n \<Longrightarrow> a \<noteq> NoAddr \<Longrightarrow> contains pool a \<Longrightarrow> free_addr inp pool a \<Longrightarrow> alloc_scan inp pool n a = (True, a)"
  "0 < n \<Longrightarrow> a \<noteq> NoAddr \<Longrightarrow> contains pool a \<Longrightarrow> \<not> free_addr inp pool a \<Longrightarrow>
     alloc_scan inp pool n a = alloc_scan inp pool (n - 1) (next_addr a)"
  by (simp_all add: alloc_scan.simps [of inp pool n a])

lemma demo_fields:
  "cs_gateway (demo_pool used) = V4 0x0A080001" "cs_allocated (demo_pool used) = used"
  "cs_quarantined (demo_pool used) = []" "cs_reservations (demo_pool used) = []"
  "pfx_addr (prefix_from (V4 0x0A080000) 30) = V4 0x0A080000"
  by (simp_all add: demo_pool_def prefix_from_def)

lemma demo_free:
  "free_addr (demo_pool used) (prefix_from (V4 0x0A080000) 30) a \<longleftrightarrow>
     a \<noteq> V4 0x0A080000 \<and> a \<noteq> V4 0x0A080001 \<and> \<not> (is4 a \<and> a = V4 0x0A080003) \<and> a \<notin> set used"
  by (auto simp: free_addr_def usable_def demo_scan demo_fields)

lemma demo_allocate:
  "allocate (demo_pool []) = Inr (V4 0x0A080002)"
  "allocate (demo_pool [V4 0x0A080002]) = Inl ''address pool is exhausted''"
  by (simp_all add: allocate_def max_allocation_scan_def alloc_scan_step demo_scan demo_free demo_fields Let_def)

theorem allocated_is_lowest_free_witness:
  "contains (masked (cs_pool (demo_pool []))) (V4 0x0A080002) \<and> V4 0x0A080002 \<noteq> cs_gateway (demo_pool [])"
  using allocated_is_lowest_free [OF demo_allocate(1)] by simp

theorem allocation_failure_is_justified_witness:
  "\<not> free_addr (demo_pool [V4 0x0A080002]) (masked (cs_pool (demo_pool [V4 0x0A080002]))) (V4 0x0A080002)"
  using allocation_failure_is_justified [OF demo_allocate(2)]
  by (simp add: demo_scan demo_fields)

section \<open>How long the scan takes\<close>

text \<open>A scan that stopped before its bound stops there under any larger bound.\<close>

lemma alloc_scan_stable:
  "alloc_scan inp pool n a = (r, x) \<Longrightarrow> r \<or> x = NoAddr \<or> \<not> contains pool x \<Longrightarrow> n \<le> n' \<Longrightarrow>
     alloc_scan inp pool n' a = (r, x)"
proof (induction inp pool n a arbitrary: n' rule: alloc_scan.induct)
  case (1 inp pool n a)
  note step = "1.prems"(1) [unfolded alloc_scan.simps [of inp pool n a]]
  show ?case
  proof (cases "a = NoAddr \<or> \<not> contains pool a \<or> n = 0")
    case True
    with step "1.prems"(2) show ?thesis by (subst alloc_scan.simps) auto
  next
    case stop: False
    show ?thesis
    proof (cases "free_addr inp pool a")
      case True
      with stop step "1.prems"(3) show ?thesis by (subst alloc_scan.simps) auto
    next
      case False
      with stop step have "alloc_scan inp pool (n - 1) (next_addr a) = (r, x)" by simp
      from "1.IH" [OF _ False this "1.prems"(2), of "n' - 1"] stop "1.prems"(3)
      have "alloc_scan inp pool (n' - 1) (next_addr a) = (r, x)" by (simp add: diff_le_mono)
      with stop False "1.prems"(3) show ?thesis by (subst alloc_scan.simps) auto
    qed
  qed
qed

text \<open>The addresses that may be passed over: the taken ones, the gateway, the network and the broadcast address.\<close>

definition passed_over :: "candidate_set \<Rightarrow> ip_prefix \<Rightarrow> addr list" where
  "passed_over inp pool = cs_allocated inp @ cs_quarantined inp @ cs_reservations inp @
     [cs_gateway inp, pfx_addr pool, last_address pool]"

lemma not_free_passed: "\<not> free_addr inp pool a \<Longrightarrow> a \<in> set (passed_over inp pool)"
  by (auto simp: free_addr_def usable_def passed_over_def split: if_splits)

text \<open>
  C36: The scan ends by itself: it passes over each unusable address once, so with \<open>t\<close> taken addresses it stops
  within \<open>t + 4\<close> candidates, whatever the size of the pool, and a larger bound changes nothing. In particular the
  limit of \<open>2 ^ 20\<close> candidates is never the reason of a failure while fewer than \<open>2 ^ 20 - 3\<close> addresses are taken.
\<close>

theorem allocation_scan_terminates:
  assumes "valid_prefix (masked (cs_pool inp))"
  defines "pool \<equiv> masked (cs_pool inp)"
  defines "n \<equiv> length (cs_allocated inp @ cs_quarantined inp @ cs_reservations inp) + 4"
  shows "(\<exists>r a. alloc_scan inp pool n (pfx_addr pool) = (r, a) \<and> (r \<or> a = NoAddr \<or> \<not> contains pool a) \<and>
      (\<forall>m. n \<le> m \<longrightarrow> alloc_scan inp pool m (pfx_addr pool) = (r, a))) \<and>
    (n \<le> max_allocation_scan \<longrightarrow> allocate inp \<noteq> Inl ''allocation scan exceeded 1048576 candidates'')"
proof -
  obtain r a where scan: "alloc_scan inp pool n (pfx_addr pool) = (r, a)" by fastforce
  have stops: "r \<or> a = NoAddr \<or> \<not> contains pool a"
  proof (rule ccontr)
    assume no: "\<not> ?thesis"
    with scan alloc_scan_none [of inp pool n "pfx_addr pool" a] obtain k where k: "k \<le> n" "k = n"
      "\<forall>j<k. contains pool ((next_addr ^^ j) (pfx_addr pool)) \<and> \<not> free_addr inp pool ((next_addr ^^ j) (pfx_addr pool))"
      "a = (next_addr ^^ k) (pfx_addr pool)"
      by auto
    have below: "j < pool_size pool" if "j < n" for j
    proof (rule ccontr)
      assume "\<not> j < pool_size pool"
      then have "pool_size pool < n" using that by simp
      with k(2,3) pool_end [OF assms(1), folded pool_def] show False by simp
    qed
    have "inj_on (\<lambda>j. (next_addr ^^ j) (pfx_addr pool)) {..<n}"
    proof (rule inj_onI)
      fix i j assume ij: "i \<in> {..<n}" "j \<in> {..<n}" "(next_addr ^^ i) (pfx_addr pool) = (next_addr ^^ j) (pfx_addr pool)"
      have "addr_value ((next_addr ^^ l) (pfx_addr pool)) = addr_value (pfx_addr pool) + l" if "l < n" for l
        using pool_nth_value(1) [OF assms(1), folded pool_def, OF below [OF that]] .
      from this [of i] this [of j] ij(1,2) arg_cong [OF ij(3), of addr_value] show "i = j"
        unfolding lessThan_iff by linarith
    qed
    then have "n = card ((\<lambda>j. (next_addr ^^ j) (pfx_addr pool)) ` {..<n})" by (simp add: card_image)
    also have "\<dots> \<le> card (set (passed_over inp pool))"
      by (rule card_mono) (use k(2,3) not_free_passed in auto)
    also have "\<dots> \<le> length (passed_over inp pool)" by (rule card_length)
    finally show False by (simp add: passed_over_def n_def)
  qed
  have stable: "alloc_scan inp pool m (pfx_addr pool) = (r, a)" if "n \<le> m" for m
    using alloc_scan_stable [OF scan stops that] .
  have "allocate inp \<noteq> Inl ''allocation scan exceeded 1048576 candidates''" if "n \<le> max_allocation_scan"
    using stable [OF that] stops by (cases r) (auto simp: allocate_def Let_def pool_def)
  with scan stops stable show ?thesis by blast
qed

theorem allocation_scan_terminates_witness:
  "allocate (demo_pool [V4 0x0A080002]) \<noteq> Inl ''allocation scan exceeded 1048576 candidates''"
proof -
  have "valid_prefix (masked (cs_pool (demo_pool [V4 0x0A080002])))" by (simp add: demo_scan)
  from conjunct2 [OF allocation_scan_terminates [OF this]] show ?thesis
    by (rule mp) (simp add: demo_fields max_allocation_scan_def)
qed

end
