(* ===== verification/SecretEnvelope.thy ===== *)
theory SecretEnvelope
  imports GoStrings
begin

text \<open>
  \<^verbatim>\<open>src/internal/agent/secret/envelope.go\<close>: secrets sealed with a data key, which is sealed with a
  key derived from the master key. The ciphers and hashes of \<^verbatim>\<open>golang.org/x/crypto\<close> and
  \<^verbatim>\<open>crypto/*\<close> are the fields of \<open>crypto\<close>; what is read from \<open>rand.Reader\<close> is an argument, \<open>None\<close>
  for a read error. Bytes are characters.
\<close>

section \<open>Ciphers\<close>

record crypto =
  cr_seal :: "string \<Rightarrow> string \<Rightarrow> string \<Rightarrow> string \<Rightarrow> string"
  cr_open :: "string \<Rightarrow> string \<Rightarrow> string \<Rightarrow> string \<Rightarrow> string option"
  cr_hkdf :: "string \<Rightarrow> string \<Rightarrow> string \<Rightarrow> string"
  cr_hmac :: "string \<Rightarrow> string \<Rightarrow> string"
  cr_sha256 :: "string \<Rightarrow> string"

text \<open>
  What the code relies on: opening what was sealed under the same key, nonce and additional
  data gives the plaintext, sealing adds 16 bytes, and the derived key has 32 bytes.
\<close>

definition key_size :: nat where "key_size = 32"
definition nonce_size :: nat where "nonce_size = 24"
definition overhead :: nat where "overhead = 16"

definition crypto_ok :: "crypto \<Rightarrow> bool" where
  "crypto_ok C \<longleftrightarrow>
     (\<forall>k n p a. length k = key_size \<longrightarrow> length n = nonce_size \<longrightarrow> cr_open C k n (cr_seal C k n p a) a = Some p) \<and>
     (\<forall>k n p a. length (cr_seal C k n p a) = length p + overhead) \<and>
     (\<forall>m g i. length (cr_hkdf C m g i) = key_size)"

section \<open>Envelopes\<close>

definition algorithm :: string where
  "algorithm = ''xchacha20-poly1305+hkdf-sha256''"

definition aad_version :: "32 word" where
  "aad_version = 1"

record secret_context =
  sx_gateway_id :: string
  sx_owner_type :: string
  sx_owner_id :: string
  sx_purpose :: string

record envelope =
  en_algorithm :: string
  en_ciphertext :: string
  en_payload_nonce :: string
  en_wrapped_dek :: string
  en_wrap_nonce :: string
  en_key_version :: "32 word"
  en_aad_version :: "32 word"
  en_fingerprint :: string

definition validate_inputs :: "string \<Rightarrow> 32 word \<Rightarrow> secret_context \<Rightarrow> string option" where
  "validate_inputs master version cx =
     (if length master \<noteq> key_size then Some ''master key must be 32 bytes''
      else if version = 0 then Some ''key version must be positive''
      else if sx_gateway_id cx = [] \<or> sx_owner_type cx = [] \<or> sx_owner_id cx = [] \<or> sx_purpose cx = []
      then Some ''all secret AAD context fields are required''
      else None)"

definition validate_envelope :: "string \<Rightarrow> secret_context \<Rightarrow> envelope \<Rightarrow> string option" where
  "validate_envelope master cx e =
     (case validate_inputs master (en_key_version e) cx of
        Some err \<Rightarrow> Some err
      | None \<Rightarrow>
          if en_algorithm e \<noteq> algorithm then Some ''unsupported secret algorithm''
          else if en_aad_version e \<noteq> aad_version then Some ''unsupported AAD version''
          else if length (en_payload_nonce e) \<noteq> nonce_size then Some ''invalid payload nonce length''
          else if length (en_wrap_nonce e) \<noteq> nonce_size then Some ''invalid wrap nonce length''
          else if length (en_wrapped_dek e) \<noteq> key_size + overhead then Some ''invalid wrapped key length''
          else None)"

text \<open>\<open>binary.BigEndian.PutUint32\<close>.\<close>

definition put_uint32 :: "32 word \<Rightarrow> string" where
  "put_uint32 w = map (\<lambda>k. char_of (unat (drop_bit k w) mod 256)) [24, 16, 8, 0]"

definition framed :: "string \<Rightarrow> string" where
  "framed value = put_uint32 (of_nat (length value)) @ value"

definition encode_aad :: "secret_context \<Rightarrow> 32 word \<Rightarrow> string \<Rightarrow> string" where
  "encode_aad cx version domain =
     concat (map framed [''wiregate/secret/v1'', domain, sx_gateway_id cx, sx_owner_type cx,
       sx_owner_id cx, sx_purpose cx]) @ put_uint32 aad_version @ put_uint32 version"

definition derive_wrap_key :: "crypto \<Rightarrow> string \<Rightarrow> string \<Rightarrow> string" where
  "derive_wrap_key C master gateway = cr_hkdf C master gateway ''wiregate/wrap/v1''"

text \<open>\<open>io.ReadFull(rand.Reader, ...)\<close> with the error it is wrapped in, and \<open>chacha20poly1305.NewX\<close>.\<close>

definition read_full :: "string \<Rightarrow> string option \<Rightarrow> string + string" where
  "read_full err r = (case r of None \<Rightarrow> Inl err | Some bs \<Rightarrow> Inr bs)"

definition new_x :: "string \<Rightarrow> string \<Rightarrow> string + unit" where
  "new_x err key = check (length key = key_size) err"

definition seal ::
  "crypto \<Rightarrow> string option \<Rightarrow> string option \<Rightarrow> string option \<Rightarrow> string \<Rightarrow> 32 word \<Rightarrow> secret_context
     \<Rightarrow> string \<Rightarrow> string \<Rightarrow> string + envelope" where
  "seal C rand1 rand2 rand3 master version cx plaintext fp =
     (case validate_inputs master version cx of Some e \<Rightarrow> Inl e | None \<Rightarrow>
      bind_r (read_full ''generate data encryption key'' rand1) (\<lambda>dek.
      bind_r (new_x ''create payload cipher'' dek) (\<lambda>_.
      bind_r (read_full ''generate payload nonce'' rand2) (\<lambda>payload_nonce.
      let ciphertext = cr_seal C dek payload_nonce plaintext (encode_aad cx 0 ''payload'');
          wrap_key = derive_wrap_key C master (sx_gateway_id cx) in
      bind_r (new_x ''create wrapping cipher'' wrap_key) (\<lambda>_.
      bind_r (read_full ''generate wrapping nonce'' rand3) (\<lambda>wrap_nonce.
      Inr \<lparr>en_algorithm = algorithm, en_ciphertext = ciphertext, en_payload_nonce = payload_nonce,
        en_wrapped_dek = cr_seal C wrap_key wrap_nonce dek (encode_aad cx version ''wrap''),
        en_wrap_nonce = wrap_nonce, en_key_version = version, en_aad_version = aad_version,
        en_fingerprint = fp\<rparr>))))))"

definition unwrap_dek :: "crypto \<Rightarrow> string \<Rightarrow> secret_context \<Rightarrow> envelope \<Rightarrow> string + string" where
  "unwrap_dek C master cx e =
     (let wrap_key = derive_wrap_key C master (sx_gateway_id cx) in
      bind_r (new_x ''create wrapping cipher'' wrap_key) (\<lambda>_.
      case cr_open C wrap_key (en_wrap_nonce e) (en_wrapped_dek e) (encode_aad cx (en_key_version e) ''wrap'') of
        None \<Rightarrow> Inl ''decrypt wrapped key: authentication failed''
      | Some dek \<Rightarrow> Inr dek))"

definition open_envelope :: "crypto \<Rightarrow> string \<Rightarrow> secret_context \<Rightarrow> envelope \<Rightarrow> string + string" where
  "open_envelope C master cx e =
     (case validate_envelope master cx e of Some err \<Rightarrow> Inl err | None \<Rightarrow>
      bind_r (unwrap_dek C master cx e) (\<lambda>dek.
      bind_r (new_x ''create payload cipher'' dek) (\<lambda>_.
      case cr_open C dek (en_payload_nonce e) (en_ciphertext e) (encode_aad cx 0 ''payload'') of
        None \<Rightarrow> Inl ''decrypt secret payload: authentication failed''
      | Some plaintext \<Rightarrow> Inr plaintext)))"

definition rewrap ::
  "crypto \<Rightarrow> string option \<Rightarrow> string \<Rightarrow> string \<Rightarrow> 32 word \<Rightarrow> secret_context \<Rightarrow> envelope \<Rightarrow> string + envelope" where
  "rewrap C rand old new version cx e =
     (if version = 0 then Inl ''new key version must be positive''
      else if length new \<noteq> key_size then Inl ''new master key must be 32 bytes''
      else (case validate_envelope old cx e of Some err \<Rightarrow> Inl err | None \<Rightarrow>
        bind_r (unwrap_dek C old cx e) (\<lambda>dek.
        let wrap_key = derive_wrap_key C new (sx_gateway_id cx) in
        bind_r (new_x ''create wrapping cipher'' wrap_key) (\<lambda>_.
        bind_r (read_full ''generate wrapping nonce'' rand) (\<lambda>nonce.
        Inr (e\<lparr>en_wrapped_dek := cr_seal C wrap_key nonce dek (encode_aad cx version ''wrap''),
               en_wrap_nonce := nonce, en_key_version := version\<rparr>))))))"

definition fingerprint_of :: "crypto \<Rightarrow> string \<Rightarrow> string \<Rightarrow> string + string" where
  "fingerprint_of C key plain =
     (if length key \<noteq> key_size then Inl ''fingerprint key must be 32 bytes'' else Inr (cr_hmac C key plain))"

definition token_hash :: "crypto \<Rightarrow> string \<Rightarrow> string" where
  "token_hash C token = cr_sha256 C token"

section \<open>Round trips\<close>

lemma crypto_okD:
  assumes "crypto_ok C"
  shows "length k = key_size \<Longrightarrow> length n = nonce_size \<Longrightarrow> cr_open C k n (cr_seal C k n p a) a = Some p"
    and "length (cr_seal C k n p a) = length p + overhead"
    and "length (derive_wrap_key C m g) = key_size"
  using assms by (simp_all add: crypto_ok_def derive_wrap_key_def)

text \<open>
  C29: what was sealed can be opened again: under a cipher that inverts its own sealing, the
  envelope \<open>Seal\<close> returns opens, with the same master key and context, to the plaintext.
\<close>

theorem open_seal:
  assumes "crypto_ok C" and "length dek = key_size" and "length pn = nonce_size" and "length wn = nonce_size"
    and "seal C (Some dek) (Some pn) (Some wn) master version cx plaintext fp = Inr e"
  shows "open_envelope C master cx e = Inr plaintext"
proof -
  let ?w = "derive_wrap_key C master (sx_gateway_id cx)"
  from assms(5) have v: "validate_inputs master version cx = None"
    and e: "e = \<lparr>en_algorithm = algorithm, en_ciphertext = cr_seal C dek pn plaintext (encode_aad cx 0 ''payload''),
        en_payload_nonce = pn, en_wrapped_dek = cr_seal C ?w wn dek (encode_aad cx version ''wrap''),
        en_wrap_nonce = wn, en_key_version = version, en_aad_version = aad_version, en_fingerprint = fp\<rparr>"
    by (auto simp: seal_def read_full_def new_x_def Let_def split: option.splits if_splits)
  from v e assms(2-4) have "validate_envelope master cx e = None"
    by (simp add: validate_envelope_def crypto_okD(2) [OF assms(1)])
  moreover have "unwrap_dek C master cx e = Inr dek"
    using e assms(4) by (simp add: unwrap_dek_def new_x_def crypto_okD [OF assms(1)])
  ultimately show ?thesis
    using e assms(2,3) by (simp add: open_envelope_def new_x_def crypto_okD(1) [OF assms(1)])
qed

text \<open>
  C30: a key rotation re-wraps only the data key: the payload ciphertext, its nonce and the
  fingerprint stay as they are, and the new envelope opens under the new master key to what
  the old envelope opened to under the old one.
\<close>

theorem rewrap_keeps_payload:
  assumes "crypto_ok C" and "length nonce = nonce_size"
    and "rewrap C (Some nonce) old new version cx e = Inr e'"
    and "open_envelope C old cx e = Inr plaintext"
  shows "open_envelope C new cx e' = Inr plaintext \<and> en_ciphertext e' = en_ciphertext e \<and>
    en_payload_nonce e' = en_payload_nonce e \<and> en_fingerprint e' = en_fingerprint e \<and> en_key_version e' = version"
proof -
  let ?w = "derive_wrap_key C new (sx_gateway_id cx)"
  from assms(3) obtain dek where v: "validate_envelope old cx e = None" "version \<noteq> 0" "length new = key_size"
    and dek: "unwrap_dek C old cx e = Inr dek"
    and e': "e' = e\<lparr>en_wrapped_dek := cr_seal C ?w nonce dek (encode_aad cx version ''wrap''),
               en_wrap_nonce := nonce, en_key_version := version\<rparr>"
    by (auto simp: rewrap_def read_full_def Let_def split: option.splits if_splits)
  from assms(4) v dek have k: "length dek = key_size"
    by (auto simp: open_envelope_def new_x_def split: if_splits)
  have "validate_envelope new cx e' = None"
    using v e' k assms(2) crypto_okD(2) [OF assms(1)]
    by (auto simp: validate_envelope_def validate_inputs_def split: if_splits)
  moreover have "unwrap_dek C new cx e' = Inr dek"
    using e' assms(2) by (simp add: unwrap_dek_def new_x_def crypto_okD [OF assms(1)])
  ultimately show ?thesis
    using e' assms(4) v dek by (auto simp: open_envelope_def)
qed

section \<open>Additional data\<close>

lemma length_put_uint32 [simp]: "length (put_uint32 w) = 4"
  by (simp add: put_uint32_def)

definition get_uint32 :: "string \<Rightarrow> nat" where
  "get_uint32 bs = foldl (\<lambda>v c. 256 * v + code c) 0 bs"

lemma get_put_uint32: "get_uint32 (put_uint32 w) = unat w"
proof -
  let ?n = "unat w"
  have char_of_mod_256: "(char_of (n mod 256) :: char) = char_of n" for n :: nat by simp
  have digit: "code (char_of (unat (drop_bit k w))) = ?n div 2 ^ k mod 256" for k
    by (simp add: unat_drop code_def)
  have small: "?n < 2 ^ 32" using unsigned_less [of w] by simp
  have "256 * (256 * (256 * (?n div 2 ^ 24 mod 256) + ?n div 2 ^ 16 mod 256) + ?n div 2 ^ 8 mod 256) + ?n mod 256 = ?n"
  proof -
    have "?n div 2 ^ 24 mod 256 = ?n div 2 ^ 24" using small by (intro mod_less) (simp add: less_mult_imp_div_less)
    moreover have "?n div 2 ^ 16 = 256 * (?n div 2 ^ 24) + ?n div 2 ^ 16 mod 256"
      using mult_div_mod_eq [of 256 "?n div 2 ^ 16"] by (simp add: div_mult2_eq [symmetric])
    moreover have "?n div 2 ^ 8 = 256 * (?n div 2 ^ 16) + ?n div 2 ^ 8 mod 256"
      using mult_div_mod_eq [of 256 "?n div 2 ^ 8"] by (simp add: div_mult2_eq [symmetric])
    moreover have "?n = 256 * (?n div 2 ^ 8) + ?n mod 256" by simp
    ultimately show ?thesis by presburger
  qed
  moreover have "code (char_of ?n) = ?n mod 256" by (simp add: code_def)
  ultimately show ?thesis
    by (simp only: get_uint32_def put_uint32_def list.map foldl.simps digit char_of_mod_256 drop_bit_0 id_apply
        mult_0_right add_0_left)
qed

lemma put_uint32_inj: "put_uint32 v = put_uint32 w \<Longrightarrow> v = w"
  by (metis get_put_uint32 word_unat_eq_iff)

lemma framed_inj:
  assumes "framed v @ x = framed w @ y" and "length v < 2 ^ 32" and "length w < 2 ^ 32"
  shows "v = w \<and> x = y"
proof -
  from assms(1) have head: "put_uint32 (of_nat (length v)) = put_uint32 (of_nat (length w))"
    and rest: "v @ x = w @ y" by (auto simp: framed_def append_eq_append_conv)
  from put_uint32_inj [OF head] have "unat (of_nat (length v) :: 32 word) = unat (of_nat (length w) :: 32 word)"
    by simp
  with assms(2,3) have "length v = length w" by (simp add: unat_of_nat)
  with rest show ?thesis by simp
qed

text \<open>
  C31: the additional data binds a ciphertext to its place: two additional-data strings are equal
  only for the same gateway, owner, purpose, key version and domain, so a cipher that refuses
  other additional data refuses an envelope moved to another peer or operation, and a wrapped
  key in place of a payload.
\<close>

theorem encode_aad_injective:
  assumes "\<forall>c \<in> {cx, cx'}. length (sx_gateway_id c) < 2 ^ 32 \<and> length (sx_owner_type c) < 2 ^ 32 \<and>
      length (sx_owner_id c) < 2 ^ 32 \<and> length (sx_purpose c) < 2 ^ 32"
    and "length domain < 2 ^ 32" and "length domain' < 2 ^ 32"
  shows "encode_aad cx version domain = encode_aad cx' version' domain' \<longleftrightarrow>
    cx = cx' \<and> version = version' \<and> domain = domain'"
proof
  let ?h = "''wiregate/secret/v1''"
  have h: "length ?h < 2 ^ 32" by simp
  assume "encode_aad cx version domain = encode_aad cx' version' domain'"
  note eq = this [unfolded encode_aad_def, simplified list.map concat.simps append.assoc]
  note a = framed_inj [OF eq h h, THEN conjunct2]
  note b = framed_inj [OF a assms(2,3)]
  note c = framed_inj [OF b [THEN conjunct2]]
  note d = framed_inj [OF c [THEN conjunct2]]
  note e = framed_inj [OF d [THEN conjunct2]]
  note f = framed_inj [OF e [THEN conjunct2]]
  from assms(1) b c d e f put_uint32_inj show "cx = cx' \<and> version = version' \<and> domain = domain'"
    by (cases cx; cases cx') (auto simp: append_eq_append_conv)
qed simp

section \<open>Witnesses\<close>

text \<open>A cipher that satisfies \<open>crypto_ok\<close>, with a tag of sixteen bytes.\<close>

definition demo_crypto :: crypto where
  "demo_crypto = \<lparr>cr_seal = (\<lambda>k n p a. p @ replicate 16 CHR ''t''),
     cr_open = (\<lambda>k n c a. Some (take (length c - 16) c)), cr_hkdf = (\<lambda>m g i. replicate 32 CHR ''w''),
     cr_hmac = (\<lambda>k s. replicate 32 CHR ''f''), cr_sha256 = (\<lambda>s. replicate 32 CHR ''h'')\<rparr>"

definition demo_context :: "string \<Rightarrow> secret_context" where
  "demo_context owner = \<lparr>sx_gateway_id = ''gw'', sx_owner_type = ''peer'', sx_owner_id = owner,
     sx_purpose = ''client_private_key''\<rparr>"

lemma demo_crypto_ok: "crypto_ok demo_crypto"
  by (simp add: crypto_ok_def demo_crypto_def key_size_def overhead_def)

lemma demo_key: "length (replicate 32 c) = key_size" "length (replicate 24 c) = nonce_size"
  by (simp_all add: key_size_def nonce_size_def)

lemma demo_seal:
  "\<exists>e. seal demo_crypto (Some (replicate 32 CHR ''d'')) (Some (replicate 24 CHR ''p'')) (Some (replicate 24 CHR ''n''))
     (replicate 32 CHR ''m'') 1 (demo_context ''p1'') ''secret'' ''fp'' = Inr e"
  by (simp add: seal_def validate_inputs_def read_full_def new_x_def key_size_def demo_context_def Let_def
      crypto_okD(3) [OF demo_crypto_ok, unfolded key_size_def])

theorem open_seal_witness:
  "\<exists>e. seal demo_crypto (Some (replicate 32 CHR ''d'')) (Some (replicate 24 CHR ''p'')) (Some (replicate 24 CHR ''n''))
     (replicate 32 CHR ''m'') 1 (demo_context ''p1'') ''secret'' ''fp'' = Inr e \<and>
     open_envelope demo_crypto (replicate 32 CHR ''m'') (demo_context ''p1'') e = Inr ''secret''"
proof -
  obtain e where e: "seal demo_crypto (Some (replicate 32 CHR ''d'')) (Some (replicate 24 CHR ''p''))
     (Some (replicate 24 CHR ''n'')) (replicate 32 CHR ''m'') 1 (demo_context ''p1'') ''secret'' ''fp'' = Inr e"
    using demo_seal by blast
  from open_seal [OF demo_crypto_ok demo_key(1) demo_key(2) demo_key(2) e] e show ?thesis by blast
qed

theorem rewrap_keeps_payload_witness:
  "\<exists>e e'. rewrap demo_crypto (Some (replicate 24 CHR ''q'')) (replicate 32 CHR ''m'') (replicate 32 CHR ''o'') 2
       (demo_context ''p1'') e = Inr e' \<and>
     open_envelope demo_crypto (replicate 32 CHR ''o'') (demo_context ''p1'') e' = Inr ''secret'' \<and>
     en_ciphertext e' = en_ciphertext e"
proof -
  let ?m = "replicate 32 CHR ''m''" and ?o = "replicate 32 CHR ''o''" and ?cx = "demo_context ''p1''"
  obtain e where e: "seal demo_crypto (Some (replicate 32 CHR ''d'')) (Some (replicate 24 CHR ''p''))
     (Some (replicate 24 CHR ''n'')) ?m 1 ?cx ''secret'' ''fp'' = Inr e"
    using demo_seal by blast
  note op = open_seal [OF demo_crypto_ok demo_key(1) demo_key(2) demo_key(2) e]
  from op obtain dek where "validate_envelope ?m ?cx e = None" "unwrap_dek demo_crypto ?m ?cx e = Inr dek"
    by (auto simp: open_envelope_def split: option.splits)
  then obtain e' where e': "rewrap demo_crypto (Some (replicate 24 CHR ''q'')) ?m ?o 2 ?cx e = Inr e'"
    by (simp add: rewrap_def read_full_def new_x_def key_size_def crypto_okD(3) [OF demo_crypto_ok, unfolded key_size_def] Let_def)
  from rewrap_keeps_payload [OF demo_crypto_ok demo_key(2) e' op] e' show ?thesis by blast
qed

theorem encode_aad_injective_witness:
  "encode_aad (demo_context ''p1'') 1 ''wrap'' \<noteq> encode_aad (demo_context ''p2'') 1 ''wrap''"
  using encode_aad_injective [of "demo_context ''p1''" "demo_context ''p2''" "''wrap''" "''wrap''" 1 1]
  by (simp add: demo_context_def)

end
