(* ===== verification/AgentTables.thy ===== *)
theory AgentTables
  imports AgentDb SecretEnvelope
begin

text \<open>
  The statements of the agent's repositories on the tables of \<^verbatim>\<open>src/migrations/agent\<close>: an
  \<open>INSERT\<close> checks the constraints of its table (\<open>CHECK\<close>, primary and unique keys, foreign keys)
  and fails on the first that does not hold, \<open>INSERT OR IGNORE\<close> skips a row that breaks a key,
  \<open>DELETE\<close> runs the \<open>ON DELETE\<close> actions of the rows that refer to the deleted ones. The
  table that no modelled code reads (\<open>firewall_objects\<close>) has no rows here.
\<close>

section \<open>Constraints\<close>

fun constraints :: "(bool \<times> string) list \<Rightarrow> repo_error + unit" where
  "constraints [] = Inr ()"
| "constraints ((ok, e) # cs) = (if ok then constraints cs else Inl (SqlConstraint e))"

lemma constraints_Inr [simp]: "constraints cs = Inr u \<longleftrightarrow> list_all fst cs"
  by (induction cs) (auto split: if_splits)

declare constraints.simps(2) [simp del]

lemma guarded_row: "bind_r (constraints cs) (\<lambda>_. Inr x) = Inr y \<Longrightarrow> y = x"
  by auto

text \<open>\<open>fmt.Errorf("...: %w", err)\<close>.\<close>

definition wrap_r :: "string \<Rightarrow> repo_error + 'a \<Rightarrow> repo_error + 'a" where
  "wrap_r label r = (case r of Inl e \<Rightarrow> Inl (WrapRepo label e) | Inr x \<Rightarrow> Inr x)"

lemma wrap_r_Inr [simp]: "wrap_r label r = Inr x \<longleftrightarrow> r = Inr x" "wrap_r label (Inr x) = Inr x"
  by (simp_all add: wrap_r_def split: sum.split)

definition fk_to :: "('r \<Rightarrow> string) \<Rightarrow> 'r list \<Rightarrow> string option \<Rightarrow> bool" where
  "fk_to key t v = (case v of None \<Rightarrow> True | Some x \<Rightarrow> x \<in> key ` set t)"

definition one_of :: "string option \<Rightarrow> string list \<Rightarrow> bool" where
  "one_of v vs = (case v of None \<Rightarrow> True | Some x \<Rightarrow> x \<in> set vs)"

text \<open>The steps of a transaction that succeeded.\<close>

lemma scan_string_Inr [simp]: "scan_string v = Inr x \<longleftrightarrow> v = Some x"
  by (simp add: scan_string_def split: option.split)

lemmas tx_simps = commit_tx_Inr bind_r_eq_Inr split_paired_Ex prod.case check_eq_Inr wrap_r_Inr(1)
  scan_string_Inr Let_def sum.inject prod.inject

section \<open>Inserts\<close>

definition insert_interface :: "iface_row \<Rightarrow> agent_db \<Rightarrow> repo_error + agent_db" where
  "insert_interface r db =
     bind_r (constraints
       [(i_backend r \<in> set [''wg_quick'', ''runtime_only'', ''networkmanager'', ''networkd'', ''container'', ''unknown''],
         ''interfaces.backend''),
        (i_namespace_kind r \<in> set [''host'', ''external''], ''interfaces.namespace_kind''),
        (i_management_mode r \<in> set [''observed'', ''adopted'', ''managed'', ''unsupported''], ''interfaces.management_mode''),
        (i_drift_state r \<in> set [''none'', ''file'', ''runtime'', ''both'', ''secret'', ''unknown''], ''interfaces.drift_state''),
        (one_of (i_deployment_profile r) [''server_only'', ''lan'', ''full_tunnel'', ''site_to_site''],
         ''interfaces.deployment_profile''),
        (one_of (i_firewall_mode r) [''managed_nft'', ''external''], ''interfaces.firewall_mode''),
        (one_of (i_managed_firewall_backend r) [''nftables'', ''none''], ''interfaces.managed_firewall_backend''),
        (i_service_state r \<in> set [''unknown'', ''inactive'', ''active'', ''failed''], ''interfaces.service_state''),
        (key_fresh i_id (i_id r) (db_interfaces db), ''interfaces.id''),
        (key_fresh i_name (i_name r) (db_interfaces db), ''interfaces.name''),
        (fk_to rv_id (db_revisions db) (i_last_applied_revision_id r), ''interfaces.last_applied_revision_id'')]) (\<lambda>_.
     Inr (db\<lparr>db_interfaces := db_interfaces db @ [r]\<rparr>))"

definition insert_revision :: "revision_row \<Rightarrow> agent_db \<Rightarrow> repo_error + agent_db" where
  "insert_revision r db =
     bind_r (constraints
       [(key_fresh rv_id (rv_id r) (db_revisions db), ''config_revisions.id''),
        (key_fresh (\<lambda>x. (rv_interface_id x, rv_sequence x)) (rv_interface_id r, rv_sequence r) (db_revisions db),
         ''config_revisions.interface_id,sequence''),
        (rv_interface_id r \<in> i_id ` set (db_interfaces db), ''config_revisions.interface_id''),
        (fk_to o_id (db_operations db) (rv_operation_id r), ''config_revisions.operation_id'')]) (\<lambda>_.
     Inr (db\<lparr>db_revisions := db_revisions db @ [r]\<rparr>))"

definition insert_audit :: "audit_row \<Rightarrow> agent_db \<Rightarrow> repo_error + agent_db" where
  "insert_audit r db =
     bind_r (constraints
       [(au_actor_type r \<in> set [''user'', ''system''], ''audit_events.actor_type''),
        (key_fresh au_id (au_id r) (db_audit db), ''audit_events.id''),
        (fk_to o_id (db_operations db) (au_operation_id r), ''audit_events.operation_id'')]) (\<lambda>_.
     Inr (db\<lparr>db_audit := db_audit db @ [r]\<rparr>))"

definition insert_resource :: "resource_row \<Rightarrow> agent_db \<Rightarrow> repo_error + agent_db" where
  "insert_resource r db =
     bind_r (constraints
       [(mr_kind r \<in> set [''wireguard_config'', ''nft_up'', ''nft_down'', ''sysctl'', ''systemd_enable''],
         ''managed_resources.resource_kind''),
        (key_fresh mr_id (mr_id r) (db_resources db), ''managed_resources.id''),
        (key_fresh (\<lambda>x. (mr_interface_id x, mr_kind x)) (mr_interface_id r, mr_kind r) (db_resources db),
         ''managed_resources.interface_id,resource_kind''),
        (mr_interface_id r \<in> i_id ` set (db_interfaces db), ''managed_resources.interface_id''),
        (mr_operation_id r \<in> o_id ` set (db_operations db), ''managed_resources.operation_id'')]) (\<lambda>_.
     Inr (db\<lparr>db_resources := db_resources db @ [r]\<rparr>))"

definition address_key :: "iface_address_row \<Rightarrow> string \<times> int \<times> string \<times> int" where
  "address_key r = (ia_interface_id r, ia_family r, ia_address r, ia_prefix_length r)"

definition insert_address_or_ignore :: "iface_address_row \<Rightarrow> agent_db \<Rightarrow> repo_error + agent_db" where
  "insert_address_or_ignore r db =
     (if ia_family r \<notin> {4, 6} \<or> ia_source r \<notin> set [''file'', ''runtime'', ''managed''] \<or>
        \<not> key_fresh ia_id (ia_id r) (db_addresses db) \<or> \<not> key_fresh address_key (address_key r) (db_addresses db)
      then Inr db
      else bind_r (constraints [(ia_interface_id r \<in> i_id ` set (db_interfaces db), ''interface_addresses.interface_id'')])
        (\<lambda>_. Inr (db\<lparr>db_addresses := db_addresses db @ [r]\<rparr>)))"

definition insert_pool_or_ignore :: "pool_row \<Rightarrow> agent_db \<Rightarrow> repo_error + agent_db" where
  "insert_pool_or_ignore r db =
     (if ap_family r \<notin> {4, 6} \<or> \<not> key_fresh ap_id (ap_id r) (db_pools db) \<or>
        \<not> key_fresh (\<lambda>x. (ap_interface_id x, ap_cidr x)) (ap_interface_id r, ap_cidr r) (db_pools db)
      then Inr db
      else bind_r (constraints [(ap_interface_id r \<in> i_id ` set (db_interfaces db), ''address_pools.interface_id'')])
        (\<lambda>_. Inr (db\<lparr>db_pools := db_pools db @ [r]\<rparr>)))"

definition insert_peer :: "peer_row \<Rightarrow> agent_db \<Rightarrow> repo_error + agent_db" where
  "insert_peer r db =
     bind_r (constraints
       [(p_key_mode r \<in> set [''managed'', ''one_time'', ''external''], ''peers.key_mode''),
        (p_lifecycle_state r \<in> set [''active'', ''disabled'', ''pending_reenroll'', ''revoked'', ''archived''],
         ''peers.lifecycle_state''),
        (key_fresh p_id (p_id r) (db_peers db), ''peers.id''),
        (key_fresh (\<lambda>x. (p_interface_id x, p_public_key x)) (p_interface_id r, p_public_key r) (db_peers db),
         ''peers.interface_id,public_key''),
        (p_interface_id r \<in> i_id ` set (db_interfaces db), ''peers.interface_id''),
        (fk_to se_id (db_envelopes db) (p_archived_block_secret_id r), ''peers.archived_block_secret_id'')]) (\<lambda>_.
     Inr (db\<lparr>db_peers := db_peers db @ [r]\<rparr>))"

definition insert_allocation :: "alloc_row \<Rightarrow> agent_db \<Rightarrow> repo_error + agent_db" where
  "insert_allocation r db =
     bind_r (constraints
       [(aa_state r \<in> set [''allocated'', ''quarantined'', ''released''], ''address_allocations.state''),
        (key_fresh aa_id (aa_id r) (db_allocations db), ''address_allocations.id''),
        (key_fresh (\<lambda>x. (aa_pool_id x, aa_address x)) (aa_pool_id r, aa_address r) (db_allocations db),
         ''address_allocations.pool_id,address''),
        (aa_pool_id r \<in> ap_id ` set (db_pools db), ''address_allocations.pool_id''),
        (fk_to p_id (db_peers db) (aa_peer_id r), ''address_allocations.peer_id'')]) (\<lambda>_.
     Inr (db\<lparr>db_allocations := db_allocations db @ [r]\<rparr>))"

definition insert_allowed :: "allowed_row \<Rightarrow> agent_db \<Rightarrow> repo_error + agent_db" where
  "insert_allowed r db =
     bind_r (constraints
       [(pa_purpose r \<in> set [''tunnel_address'', ''routed_subnet''], ''peer_allowed_ips.purpose''),
        (key_fresh pa_id (pa_id r) (db_allowed db), ''peer_allowed_ips.id''),
        (key_fresh (\<lambda>x. (pa_peer_id x, pa_cidr x)) (pa_peer_id r, pa_cidr r) (db_allowed db),
         ''peer_allowed_ips.peer_id,cidr''),
        (pa_peer_id r \<in> p_id ` set (db_peers db), ''peer_allowed_ips.peer_id'')]) (\<lambda>_.
     Inr (db\<lparr>db_allowed := db_allowed db @ [r]\<rparr>))"

definition insert_profile :: "profile_row \<Rightarrow> agent_db \<Rightarrow> repo_error + agent_db" where
  "insert_profile r db =
     bind_r (constraints
       [(cp_profile_state r \<in> set [''ready'', ''one_time_pending'', ''consumed'', ''external'', ''revoked'',
          ''secret_unavailable''], ''client_profiles.profile_state''),
        (key_fresh cp_id (cp_id r) (db_profiles db), ''client_profiles.id''),
        (key_fresh cp_peer_id (cp_peer_id r) (db_profiles db), ''client_profiles.peer_id''),
        (cp_peer_id r \<in> p_id ` set (db_peers db), ''client_profiles.peer_id''),
        (fk_to se_id (db_envelopes db) (cp_client_private_secret_id r), ''client_profiles.client_private_secret_id''),
        (fk_to se_id (db_envelopes db) (cp_preshared_secret_id r), ''client_profiles.preshared_secret_id'')]) (\<lambda>_.
     Inr (db\<lparr>db_profiles := db_profiles db @ [r]\<rparr>))"

definition insert_route :: "route_row \<Rightarrow> agent_db \<Rightarrow> repo_error + agent_db" where
  "insert_route r db =
     bind_r (constraints
       [(key_fresh cr_id (cr_id r) (db_routes db), ''client_routes.id''),
        (key_fresh (\<lambda>x. (cr_profile_id x, cr_cidr x)) (cr_profile_id r, cr_cidr r) (db_routes db),
         ''client_routes.client_profile_id,cidr''),
        (cr_profile_id r \<in> cp_id ` set (db_profiles db), ''client_routes.client_profile_id'')]) (\<lambda>_.
     Inr (db\<lparr>db_routes := db_routes db @ [r]\<rparr>))"

definition envelope_owner :: "envelope_row \<Rightarrow> string \<times> string \<times> string" where
  "envelope_owner r = (se_owner_type r, se_owner_id r, se_purpose r)"

definition insert_envelope_row :: "envelope_row \<Rightarrow> agent_db \<Rightarrow> repo_error + agent_db" where
  "insert_envelope_row r db =
     bind_r (constraints
       [(se_purpose r \<in> set [''client_private_key'', ''preshared_key'', ''one_time_payload'',
          ''archived_peer_block'', ''snapshot_payload''], ''secret_envelopes.purpose''),
        (key_fresh se_id (se_id r) (db_envelopes db), ''secret_envelopes.id''),
        (key_fresh envelope_owner (envelope_owner r) (db_envelopes db),
         ''secret_envelopes.owner_type,owner_id,purpose'')]) (\<lambda>_.
     Inr (db\<lparr>db_envelopes := db_envelopes db @ [r]\<rparr>))"

text \<open>The \<open>CHECK\<close> of \<open>one_time_artifacts\<close>: an artifact has its ciphertext until it is consumed or expired.\<close>

definition artifact_check :: "artifact_row \<Rightarrow> bool" where
  "artifact_check r \<longleftrightarrow>
     (oa_state r \<in> {ArtReady, ArtConsuming} \<and> oa_secret_envelope_id r \<noteq> None) \<or>
     (oa_state r \<in> {ArtConsumed, ArtExpired} \<and> oa_secret_envelope_id r = None)"

definition insert_artifact :: "artifact_row \<Rightarrow> agent_db \<Rightarrow> repo_error + agent_db" where
  "insert_artifact r db =
     bind_r (constraints
       [(artifact_check r, ''one_time_artifacts''),
        (key_fresh oa_id (oa_id r) (db_artifacts db), ''one_time_artifacts.id''),
        (key_fresh oa_token_hash (oa_token_hash r) (db_artifacts db), ''one_time_artifacts.token_hash''),
        (oa_peer_id r \<in> p_id ` set (db_peers db), ''one_time_artifacts.peer_id''),
        (fk_to se_id (db_envelopes db) (oa_secret_envelope_id r), ''one_time_artifacts.secret_envelope_id'')]) (\<lambda>_.
     Inr (db\<lparr>db_artifacts := db_artifacts db @ [r]\<rparr>))"

section \<open>Updates\<close>

definition update_interfaces :: "(iface_row \<Rightarrow> bool) \<Rightarrow> (iface_row \<Rightarrow> iface_row) \<Rightarrow> agent_db
    \<Rightarrow> repo_error + nat \<times> agent_db" where
  "update_interfaces P f db =
     Inr (affected P (db_interfaces db), db\<lparr>db_interfaces := update_rows P f (db_interfaces db)\<rparr>)"

definition update_peers :: "(peer_row \<Rightarrow> bool) \<Rightarrow> (peer_row \<Rightarrow> peer_row) \<Rightarrow> agent_db
    \<Rightarrow> repo_error + nat \<times> agent_db" where
  "update_peers P f db = Inr (affected P (db_peers db), db\<lparr>db_peers := update_rows P f (db_peers db)\<rparr>)"

definition update_allocations :: "(alloc_row \<Rightarrow> bool) \<Rightarrow> (alloc_row \<Rightarrow> alloc_row) \<Rightarrow> agent_db \<Rightarrow> agent_db" where
  "update_allocations P f db = db\<lparr>db_allocations := update_rows P f (db_allocations db)\<rparr>"

definition update_profiles :: "(profile_row \<Rightarrow> bool) \<Rightarrow> (profile_row \<Rightarrow> profile_row) \<Rightarrow> agent_db \<Rightarrow> agent_db" where
  "update_profiles P f db = db\<lparr>db_profiles := update_rows P f (db_profiles db)\<rparr>"

definition update_artifacts ::
  "(artifact_row \<Rightarrow> bool) \<Rightarrow> (artifact_row \<Rightarrow> artifact_row) \<Rightarrow> agent_db \<Rightarrow> repo_error + nat \<times> agent_db" where
  "update_artifacts P f db =
     (let t = update_rows P f (db_artifacts db) in
      bind_r (constraints [(list_all artifact_check t, ''one_time_artifacts'')]) (\<lambda>_.
      Inr (affected P (db_artifacts db), db\<lparr>db_artifacts := t\<rparr>)))"

section \<open>Deletes\<close>

definition drop_ref :: "(string \<Rightarrow> bool) \<Rightarrow> string option \<Rightarrow> string option" where
  "drop_ref gone v = (case v of None \<Rightarrow> None | Some x \<Rightarrow> (if gone x then None else Some x))"

text \<open>
  \<open>DELETE FROM secret_envelopes WHERE id = ?\<close>: a snapshot that refers to the envelope refuses the
  delete, references of peers, profiles and artifacts become NULL (which the \<open>CHECK\<close> of an
  artifact that still needs it refuses), staged secrets go with it.
\<close>

definition delete_envelope :: "string \<Rightarrow> agent_db \<Rightarrow> repo_error + agent_db" where
  "delete_envelope eid db =
     (if eid \<notin> se_id ` set (db_envelopes db) then Inr db
      else
        let artifacts = map (\<lambda>a. a\<lparr>oa_secret_envelope_id := drop_ref (\<lambda>x. x = eid) (oa_secret_envelope_id a)\<rparr>)
              (db_artifacts db) in
        bind_r (constraints
          [(eid \<notin> sn_secret_envelope_id ` set (db_snapshots db), ''snapshots.secret_envelope_id''),
           (list_all artifact_check artifacts, ''one_time_artifacts'')]) (\<lambda>_.
        Inr (db\<lparr>db_envelopes := filter (\<lambda>e. se_id e \<noteq> eid) (db_envelopes db),
          db_artifacts := artifacts,
          db_peers := map (\<lambda>p. p\<lparr>p_archived_block_secret_id :=
            drop_ref (\<lambda>x. x = eid) (p_archived_block_secret_id p)\<rparr>) (db_peers db),
          db_profiles := map (\<lambda>c. c\<lparr>cp_client_private_secret_id :=
              drop_ref (\<lambda>x. x = eid) (cp_client_private_secret_id c),
            cp_preshared_secret_id := drop_ref (\<lambda>x. x = eid) (cp_preshared_secret_id c)\<rparr>) (db_profiles db),
          db_staged := map (\<lambda>s. s\<lparr>ss_previous_secret_envelope_id :=
              drop_ref (\<lambda>x. x = eid) (ss_previous_secret_envelope_id s)\<rparr>)
            (filter (\<lambda>s. ss_secret_envelope_id s \<noteq> eid) (db_staged db))\<rparr>)))"

text \<open>
  \<open>DELETE FROM interfaces WHERE ...\<close>: an operation that still refers to a deleted interface
  refuses the delete; addresses, pools with their allocations, peers with what they own,
  snapshots, revisions and managed resources go with the interface.
\<close>

definition delete_interfaces :: "(iface_row \<Rightarrow> bool) \<Rightarrow> agent_db \<Rightarrow> repo_error + nat \<times> agent_db" where
  "delete_interfaces P db =
     (let gone = (\<lambda>x. \<exists>r \<in> set (db_interfaces db). P r \<and> i_id r = x);
          gone_pool = (\<lambda>x. \<exists>r \<in> set (db_pools db). gone (ap_interface_id r) \<and> ap_id r = x);
          gone_peer = (\<lambda>x. \<exists>r \<in> set (db_peers db). gone (p_interface_id r) \<and> p_id r = x);
          gone_profile = (\<lambda>x. \<exists>r \<in> set (db_profiles db). gone_peer (cp_peer_id r) \<and> cp_id r = x);
          gone_revision = (\<lambda>x. \<exists>r \<in> set (db_revisions db). gone (rv_interface_id r) \<and> rv_id r = x) in
      bind_r (constraints
        [(list_all (\<lambda>r. case o_interface_id r of None \<Rightarrow> True | Some x \<Rightarrow> \<not> gone x) (db_operations db),
          ''operations.interface_id'')]) (\<lambda>_.
      Inr (affected P (db_interfaces db), db\<lparr>
        db_interfaces := map (\<lambda>r. r\<lparr>i_last_applied_revision_id :=
          drop_ref gone_revision (i_last_applied_revision_id r)\<rparr>) (filter (\<lambda>r. \<not> P r) (db_interfaces db)),
        db_addresses := filter (\<lambda>r. \<not> gone (ia_interface_id r)) (db_addresses db),
        db_pools := filter (\<lambda>r. \<not> gone (ap_interface_id r)) (db_pools db),
        db_peers := map (\<lambda>r. r\<lparr>p_config_revision_id := drop_ref gone_revision (p_config_revision_id r)\<rparr>)
          (filter (\<lambda>r. \<not> gone (p_interface_id r)) (db_peers db)),
        db_allocations := map (\<lambda>r. r\<lparr>aa_peer_id := drop_ref gone_peer (aa_peer_id r)\<rparr>)
          (filter (\<lambda>r. \<not> gone_pool (aa_pool_id r)) (db_allocations db)),
        db_allowed := filter (\<lambda>r. \<not> gone_peer (pa_peer_id r)) (db_allowed db),
        db_profiles := filter (\<lambda>r. \<not> gone_peer (cp_peer_id r)) (db_profiles db),
        db_routes := filter (\<lambda>r. \<not> gone_profile (cr_profile_id r)) (db_routes db),
        db_artifacts := filter (\<lambda>r. \<not> gone_peer (oa_peer_id r)) (db_artifacts db),
        db_runtime := filter (\<lambda>r. \<not> gone_peer (rt_peer_id r)) (db_runtime db),
        db_staged := map (\<lambda>r. r\<lparr>ss_profile_id := drop_ref gone_profile (ss_profile_id r)\<rparr>)
          (filter (\<lambda>r. \<not> gone_peer (ss_peer_id r)) (db_staged db)),
        db_snapshots := filter (\<lambda>r. \<not> gone (sn_interface_id r)) (db_snapshots db),
        db_revisions := filter (\<lambda>r. \<not> gone (rv_interface_id r)) (db_revisions db),
        db_resources := filter (\<lambda>r. \<not> gone (mr_interface_id r)) (db_resources db)\<rparr>)))"

section \<open>Envelopes as stored\<close>

text \<open>\<open>insertEnvelope\<close> and \<open>loadEnvelope\<close> of \<^verbatim>\<open>secret_store.go\<close>; an empty fingerprint is stored as NULL.\<close>

definition envelope_row_of :: "string \<Rightarrow> secret_context \<Rightarrow> envelope \<Rightarrow> time \<Rightarrow> envelope_row" where
  "envelope_row_of eid cx e now =
     \<lparr>se_id = eid, se_owner_type = sx_owner_type cx, se_owner_id = sx_owner_id cx, se_purpose = sx_purpose cx,
      se_algorithm = en_algorithm e, se_ciphertext = en_ciphertext e, se_payload_nonce = en_payload_nonce e,
      se_wrapped_dek = en_wrapped_dek e, se_wrap_nonce = en_wrap_nonce e,
      se_key_version = uint (en_key_version e), se_aad_version = uint (en_aad_version e),
      se_secret_fingerprint = nullable (en_fingerprint e),
      se_created_at_ms = unix_milli now, se_updated_at_ms = unix_milli now\<rparr>"

definition insert_envelope :: "string \<Rightarrow> secret_context \<Rightarrow> envelope \<Rightarrow> time \<Rightarrow> agent_db \<Rightarrow> repo_error + agent_db" where
  "insert_envelope eid cx e now db =
     wrap_r ''insert secret envelope'' (insert_envelope_row (envelope_row_of eid cx e now) db)"

definition load_envelope :: "string \<Rightarrow> agent_db \<Rightarrow> repo_error + secret_context \<times> envelope" where
  "load_envelope eid db =
     bind_r (wrap_r ''load secret envelope'' (query_row (\<lambda>r. se_id r = eid) (db_envelopes db))) (\<lambda>r.
     case db_gateway_id db of
       None \<Rightarrow> Inl (WrapRepo ''load envelope gateway ID'' SqlNoRows)
     | Some gw \<Rightarrow>
         Inr (\<lparr>sx_gateway_id = gw, sx_owner_type = se_owner_type r, sx_owner_id = se_owner_id r,
               sx_purpose = se_purpose r\<rparr>,
              \<lparr>en_algorithm = se_algorithm r, en_ciphertext = se_ciphertext r,
               en_payload_nonce = se_payload_nonce r, en_wrapped_dek = se_wrapped_dek r,
               en_wrap_nonce = se_wrap_nonce r, en_key_version = of_int (se_key_version r),
               en_aad_version = of_int (se_aad_version r),
               en_fingerprint = coalesce (se_secret_fingerprint r)\<rparr>))"

lemma insert_artifact_Inr:
  "insert_artifact r db = Inr db' \<longleftrightarrow> artifact_check r \<and> oa_id r \<notin> oa_id ` set (db_artifacts db) \<and>
     oa_token_hash r \<notin> oa_token_hash ` set (db_artifacts db) \<and> oa_peer_id r \<in> p_id ` set (db_peers db) \<and>
     fk_to se_id (db_envelopes db) (oa_secret_envelope_id r) \<and>
     db' = db\<lparr>db_artifacts := db_artifacts db @ [r]\<rparr>"
  by (auto simp: insert_artifact_def key_fresh_def)

lemma insert_envelope_Inr:
  "insert_envelope eid cx e now db = Inr db' \<longleftrightarrow>
     sx_purpose cx \<in> set [''client_private_key'', ''preshared_key'', ''one_time_payload'',
       ''archived_peer_block'', ''snapshot_payload''] \<and>
     eid \<notin> se_id ` set (db_envelopes db) \<and>
     (sx_owner_type cx, sx_owner_id cx, sx_purpose cx) \<notin> envelope_owner ` set (db_envelopes db) \<and>
     db' = db\<lparr>db_envelopes := db_envelopes db @ [envelope_row_of eid cx e now]\<rparr>"
  by (auto simp: insert_envelope_def insert_envelope_row_def key_fresh_def envelope_row_of_def envelope_owner_def)

lemma load_last_envelope:
  assumes "eid \<notin> se_id ` set envs" and "db_envelopes db = envs @ [envelope_row_of eid cx e now]"
    and "db_gateway_id db = Some (sx_gateway_id cx)"
  shows "load_envelope eid db = Inr (cx, e)"
proof -
  have "find (\<lambda>r. se_id r = eid) (envs @ [envelope_row_of eid cx e now]) = Some (envelope_row_of eid cx e now)"
    by (rule find_append_fresh) (use assms(1) in \<open>auto simp: envelope_row_of_def\<close>)
  with assms(2,3) show ?thesis by (simp add: load_envelope_def query_row_def envelope_row_of_def)
qed

end
