(* ===== verification/ControlStore.thy ===== *)
theory ControlStore
  imports AgentTables OperationStore Netip
begin

text \<open>
  \<^verbatim>\<open>src/internal/agent/repository/control_store.go\<close>, \<^verbatim>\<open>interface_removal_store.go\<close> and
  \<^verbatim>\<open>runtime_fingerprint_store.go\<close>: the life of a managed interface in the database, from its
  reservation to its removal. A method is a function of the clock's reading \<open>now\<close>, the source
  \<open>gen\<close> of identifiers and the database; a transaction that fails leaves the database as it was.
\<close>

section \<open>Inputs\<close>

record managed_interface =
  mi_id :: string
  mi_name :: string
  mi_config_path :: string
  mi_listen_port :: int
  mi_public_key :: string
  mi_deployment_profile :: string
  mi_firewall_mode :: string
  mi_auto_start :: bool
  mi_addresses :: "string list"
  mi_file_hash :: string
  mi_runtime_fingerprint :: string

record managed_resource =
  rs_kind :: string
  rs_path :: string
  rs_fingerprint :: string

section \<open>Statements on operations\<close>

text \<open>\<open>SELECT ... FROM operations WHERE ...\<close> and the conditional updates of its state.\<close>

definition op_where :: "(operation_row \<Rightarrow> bool) \<Rightarrow> agent_db \<Rightarrow> repo_error + operation_row" where
  "op_where P db = query_row P (db_operations db)"

definition finish_operation ::
  "string \<Rightarrow> op_state \<Rightarrow> op_state \<Rightarrow> time \<Rightarrow> string \<Rightarrow> agent_db \<Rightarrow> repo_error + agent_db" where
  "finish_operation oid from to now conflict db =
     bind_r (update_operations (\<lambda>r. o_id r = oid \<and> o_state r = from)
       (\<lambda>r. r\<lparr>o_state := to, o_updated_at_ms := unix_milli now, o_finished_at_ms := Some (unix_milli now)\<rparr>) db)
       (\<lambda>(n, db'). bind_r (check (n = 1) (RepoError conflict)) (\<lambda>_. Inr db'))"

definition to_verifying :: "string \<Rightarrow> string \<Rightarrow> time \<Rightarrow> agent_db \<Rightarrow> repo_error + agent_db" where
  "to_verifying oid file_hash now db =
     bind_r (update_operations (\<lambda>r. o_id r = oid \<and> o_state r = StateExecuting)
       (\<lambda>r. r\<lparr>o_proposed_file_hash := Some file_hash, o_state := StateVerifying,
              o_updated_at_ms := unix_milli now\<rparr>) db)
       (\<lambda>(n, db'). Inr db')"

definition detach_operations :: "(operation_row \<Rightarrow> bool) \<Rightarrow> agent_db \<Rightarrow> repo_error + agent_db" where
  "detach_operations P db =
     bind_r (update_operations P (\<lambda>r. r\<lparr>o_interface_id := None\<rparr>) db) (\<lambda>(n, db'). Inr db')"

section \<open>Reservation\<close>

definition reserved_row :: "managed_interface \<Rightarrow> time \<Rightarrow> iface_row" where
  "reserved_row inp now =
     \<lparr>i_id = mi_id inp, i_name = mi_name inp, i_backend = ''wg_quick'', i_namespace_kind = ''host'',
      i_management_mode = ''managed'', i_config_path = Some (mi_config_path inp),
      i_service_owner = Some ''systemd'', i_service_unit = Some (''wg-quick@'' @ mi_name inp @ ''.service''),
      i_save_config_detected = False, i_config_present = False, i_runtime_present = False, i_file_hash = None, i_runtime_fingerprint = None,
      i_last_applied_revision_id = None, i_revision = 0, i_drift_state = ''unknown'',
      i_deployment_profile = Some (mi_deployment_profile inp), i_firewall_mode = Some (mi_firewall_mode inp),
      i_managed_firewall_backend = Some (if mi_firewall_mode inp = ''managed_nft'' then ''nftables'' else ''none''),
      i_listen_port = Some (mi_listen_port inp), i_public_key = nullable (mi_public_key inp),
      i_auto_start = mi_auto_start inp, i_service_state = ''inactive'',
      i_last_seen_at_ms = unix_milli now, i_created_at_ms = unix_milli now, i_updated_at_ms = unix_milli now\<rparr>"

definition reserve_managed_interface ::
  "time \<Rightarrow> string \<Rightarrow> managed_interface \<Rightarrow> agent_db \<Rightarrow> (repo_error + unit) \<times> agent_db" where
  "reserve_managed_interface now oid inp db =
     commit_tx db (
       bind_r (check (\<not> (mi_id inp = [] \<or> mi_name inp = [] \<or> mi_config_path inp = []))
         (RepoError ''managed interface identity is required'')) (\<lambda>_.
       bind_r (op_where (\<lambda>r. o_id r = oid) db) (\<lambda>op.
       bind_r (check (o_type op = ''create_interface'' \<and> o_state op = StateValidated)
         (RepoError ''create-interface operation is not validated'')) (\<lambda>_.
       bind_r (check (key_fresh i_name (mi_name inp) (db_interfaces db))
         (RepoError ''interface name is already reserved'')) (\<lambda>_.
       bind_r (wrap_r ''reserve managed interface'' (insert_interface (reserved_row inp now) db)) (\<lambda>db1.
       bind_r (update_operations
         (\<lambda>r. o_id r = oid \<and> o_state r = StateValidated \<and> o_interface_id r = None)
         (\<lambda>r. r\<lparr>o_interface_id := Some (mi_id inp), o_updated_at_ms := unix_milli now\<rparr>) db1) (\<lambda>(n, db2).
       bind_r (check (n = 1) (RepoError ''create-interface operation reservation conflict'')) (\<lambda>_.
       Inr ((), db2)))))))))"

section \<open>Completion\<close>

definition revision_row_of ::
  "string \<Rightarrow> string \<Rightarrow> int \<Rightarrow> string option \<Rightarrow> string \<Rightarrow> string \<Rightarrow> time \<Rightarrow> revision_row" where
  "revision_row_of rid iid seq file_hash runtime oid now =
     \<lparr>rv_id = rid, rv_interface_id = iid, rv_sequence = seq, rv_file_hash = file_hash,
      rv_runtime_fingerprint = nullable runtime, rv_operation_id = Some oid, rv_created_at_ms = unix_milli now\<rparr>"

definition family_of :: "ip_prefix \<Rightarrow> int" where
  "family_of p = (if is4 (pfx_addr p) then 4 else 6)"

definition add_managed_address ::
  "id_source \<Rightarrow> time \<Rightarrow> string \<Rightarrow> nat \<times> string \<Rightarrow> agent_db \<Rightarrow> repo_error + agent_db" where
  "add_managed_address gen now iid = (\<lambda>(k, value) db.
     case parse_prefix value of
       None \<Rightarrow> Inl (RepoError ''parse managed address'')
     | Some p \<Rightarrow>
         bind_r (gen (2 * k + 1) (now + int (k + 1))) (\<lambda>aid.
         bind_r (insert_address_or_ignore \<lparr>ia_id = aid, ia_interface_id = iid, ia_family = family_of p,
           ia_address = show_addr (pfx_addr p), ia_prefix_length = pfx_bits p, ia_source = ''managed''\<rparr> db) (\<lambda>db1.
         bind_r (gen (2 * k + 2) (now + int (k + 100))) (\<lambda>pid.
         insert_pool_or_ignore \<lparr>ap_id = pid, ap_interface_id = iid, ap_family = family_of p,
           ap_cidr = show_prefix (masked p), ap_gateway_address = show_addr (pfx_addr p),
           ap_created_at_ms = unix_milli now\<rparr> db1))))"

definition add_managed_resource ::
  "id_source \<Rightarrow> time \<Rightarrow> string \<Rightarrow> string \<Rightarrow> nat \<Rightarrow> nat \<times> managed_resource \<Rightarrow> agent_db \<Rightarrow> repo_error + agent_db" where
  "add_managed_resource gen now iid oid calls = (\<lambda>(k, r) db.
     bind_r (gen (calls + k) (now + int (k + 200))) (\<lambda>rid.
     wrap_r ''record managed resource'' (insert_resource \<lparr>mr_id = rid, mr_interface_id = iid,
       mr_operation_id = oid, mr_kind = rs_kind r, mr_path = nullable (rs_path r),
       mr_fingerprint = nullable (rs_fingerprint r), mr_created_at_ms = unix_milli now\<rparr> db)))"

definition activate_row :: "managed_interface \<Rightarrow> string \<Rightarrow> time \<Rightarrow> iface_row \<Rightarrow> iface_row" where
  "activate_row inp rid now r =
     r\<lparr>i_config_present := True, i_runtime_present := True, i_file_hash := Some (mi_file_hash inp),
       i_runtime_fingerprint := nullable (mi_runtime_fingerprint inp), i_revision := 1,
       i_last_applied_revision_id := Some rid, i_drift_state := ''none'',
       i_listen_port := Some (mi_listen_port inp), i_public_key := nullable (mi_public_key inp),
       i_auto_start := mi_auto_start inp, i_service_state := ''active'',
       i_last_seen_at_ms := unix_milli now, i_updated_at_ms := unix_milli now\<rparr>"

definition complete_managed_interface ::
  "id_source \<Rightarrow> time \<Rightarrow> string \<Rightarrow> managed_interface \<Rightarrow> managed_resource list \<Rightarrow> agent_db
     \<Rightarrow> (repo_error + int) \<times> agent_db" where
  "complete_managed_interface gen now oid inp resources db =
     commit_tx db (
       bind_r (op_where (\<lambda>r. o_id r = oid \<and> o_type r = ''create_interface'') db) (\<lambda>op.
       bind_r (scan_string (o_interface_id op)) (\<lambda>iid.
       bind_r (check (o_state op = StateExecuting \<and> iid = mi_id inp)
         (RepoError ''create-interface operation is not executing'')) (\<lambda>_.
       bind_r (gen 0 now) (\<lambda>rid.
       bind_r (wrap_r ''record managed interface revision''
         (insert_revision (revision_row_of rid (mi_id inp) 1 (nullable (mi_file_hash inp))
           (mi_runtime_fingerprint inp) oid now) db)) (\<lambda>db1.
       bind_r (update_interfaces
         (\<lambda>r. i_id r = mi_id inp \<and> i_management_mode r = ''managed'' \<and> i_revision r = 0)
         (activate_row inp rid now) db1) (\<lambda>(n, db2).
       bind_r (check (n = 1) (RepoError ''managed interface reservation changed'')) (\<lambda>_.
       bind_r (fold_r (add_managed_address gen now (mi_id inp)) (enumerate 0 (mi_addresses inp)) db2) (\<lambda>db3.
       bind_r (fold_r (add_managed_resource gen now (mi_id inp) oid (2 * length (mi_addresses inp) + 1))
         (enumerate 0 resources) db3) (\<lambda>db4.
       bind_r (to_verifying oid (mi_file_hash inp) now db4) (\<lambda>db5.
       Inr (1, db5))))))))))))"

section \<open>Finishing an operation\<close>

definition audit_of ::
  "string \<Rightarrow> operation_row \<Rightarrow> string \<Rightarrow> string \<Rightarrow> string \<Rightarrow> int option \<Rightarrow> int option \<Rightarrow> string option \<Rightarrow> time \<Rightarrow> audit_row" where
  "audit_of aid op action target_type target_id before after details now =
     \<lparr>au_id = aid, au_actor_type = ''user'', au_actor_id = o_actor_id op, au_actor_role = Some (o_actor_role op),
      au_action = action, au_target_type = target_type, au_target_id = Some target_id,
      au_request_id = o_request_id op, au_operation_id = Some (o_id op), au_before_revision = before,
      au_after_revision = after, au_result = ''success'', au_reason = o_reason op, au_details = details,
      au_created_at_ms = unix_milli now\<rparr>"

definition finalize_control_operation ::
  "id_source \<Rightarrow> time \<Rightarrow> string \<Rightarrow> string \<Rightarrow> string \<Rightarrow> string \<Rightarrow> int \<Rightarrow> int \<Rightarrow> agent_db \<Rightarrow> (repo_error + unit) \<times> agent_db" where
  "finalize_control_operation gen now oid action target_type target_id before after db =
     commit_tx db (
       bind_r (op_where (\<lambda>r. o_id r = oid \<and> o_state r = StateVerifying) db) (\<lambda>op.
       bind_r (gen 0 now) (\<lambda>aid.
       bind_r (insert_audit (audit_of aid op action target_type target_id (Some before) (Some after) None now) db) (\<lambda>db1.
       bind_r (finish_operation oid StateVerifying StateCommitted now ''operation verification state changed'' db1) (\<lambda>db2.
       Inr ((), db2))))))"

text \<open>A single statement outside a transaction: the update stays although the method reports a conflict.\<close>

definition finish_control_rollback :: "time \<Rightarrow> string \<Rightarrow> agent_db \<Rightarrow> repo_error option \<times> agent_db" where
  "finish_control_rollback now oid db =
     (case update_operations (\<lambda>r. o_id r = oid \<and> o_state r = StateRollingBack)
         (\<lambda>r. r\<lparr>o_state := StateRolledBack, o_updated_at_ms := unix_milli now,
                o_finished_at_ms := Some (unix_milli now)\<rparr>) db of
        Inl e \<Rightarrow> (Some e, db)
      | Inr (n, db') \<Rightarrow> (if n \<noteq> 1 then Some (RepoError ''operation rollback state changed'') else None, db'))"

definition load_operation_snapshot :: "string \<Rightarrow> agent_db \<Rightarrow> repo_error + secret_context \<times> envelope" where
  "load_operation_snapshot oid db =
     bind_r (query_row (\<lambda>s. sn_operation_id s = oid) (db_snapshots db)) (\<lambda>s.
     load_envelope (sn_secret_envelope_id s) db)"

section \<open>Rollback and rejection of a reservation\<close>

definition remove_reservation :: "string \<Rightarrow> string \<Rightarrow> agent_db \<Rightarrow> repo_error + agent_db" where
  "remove_reservation oid iid db =
     (if iid = [] then Inr db
      else
        bind_r (query_row (\<lambda>r. i_id r = iid) (db_interfaces db)) (\<lambda>i.
        let owned = affected (\<lambda>r. rv_interface_id r = iid \<and> rv_sequence r = 1 \<and> rv_operation_id r = Some oid)
              (db_revisions db) in
        bind_r (check (\<not> (i_revision i > 1 \<or> (i_revision i = 1 \<and> owned \<noteq> 1)))
          (RepoError ''managed interface has a revision not owned by this operation'')) (\<lambda>_.
        bind_r (detach_operations (\<lambda>r. o_id r = oid) db) (\<lambda>db1.
        bind_r (delete_interfaces
          (\<lambda>r. i_id r = iid \<and> i_management_mode r = ''managed'' \<and> i_revision r \<in> {0, 1}) db1) (\<lambda>(n, db2).
        bind_r (check (n = 1) (RepoError ''managed interface is no longer a rollback-safe reservation'')) (\<lambda>_.
        Inr db2))))))"

definition rollback_managed_interface :: "time \<Rightarrow> string \<Rightarrow> agent_db \<Rightarrow> (repo_error + unit) \<times> agent_db" where
  "rollback_managed_interface now oid db =
     commit_tx db (
       bind_r (op_where (\<lambda>r. o_id r = oid \<and> o_type r = ''create_interface'') db) (\<lambda>op.
       bind_r (check (o_state op = StateRollingBack)
         (RepoError ''create-interface operation is not rolling back'')) (\<lambda>_.
       let snapshot = find (\<lambda>s. sn_operation_id s = oid) (db_snapshots db) in
       bind_r (remove_reservation oid (coalesce (o_interface_id op)) db) (\<lambda>db1.
       bind_r (case snapshot of None \<Rightarrow> Inr db1 | Some s \<Rightarrow> delete_envelope (sn_secret_envelope_id s) db1) (\<lambda>db2.
       bind_r (finish_operation oid StateRollingBack StateRolledBack now
         ''create-interface rollback state changed'' db2) (\<lambda>db3.
       Inr ((), db3)))))))"

definition reject_managed_interface ::
  "time \<Rightarrow> string \<Rightarrow> failure option \<Rightarrow> agent_db \<Rightarrow> (repo_error + unit) \<times> agent_db" where
  "reject_managed_interface now oid f db =
     commit_tx db (
       bind_r (op_where (\<lambda>r. o_id r = oid \<and> o_type r = ''create_interface'') db) (\<lambda>op.
       bind_r (check (o_state op = StateValidated)
         (RepoError ''create-interface operation cannot be rejected from its current state'')) (\<lambda>_.
       let iid = coalesce (o_interface_id op) in
       bind_r (if iid = [] then Inr db
         else
           bind_r (detach_operations (\<lambda>r. o_id r = oid) db) (\<lambda>db1.
           bind_r (delete_interfaces
             (\<lambda>r. i_id r = iid \<and> i_management_mode r = ''managed'' \<and> i_revision r = 0) db1) (\<lambda>(n, db2).
           bind_r (check (n = 1) (RepoError ''managed interface reservation changed before rejection'')) (\<lambda>_.
           Inr db2)))) (\<lambda>db3.
       bind_r (update_operations (\<lambda>r. o_id r = oid \<and> o_state r = StateValidated)
         (\<lambda>r. r\<lparr>o_state := StateRejected, o_error_code := map_option fail_code f,
                o_error_message := map_option fail_message f, o_updated_at_ms := unix_milli now,
                o_finished_at_ms := Some (unix_milli now)\<rparr>) db3) (\<lambda>(n, db4).
       bind_r (check (n = 1) (RepoError ''create-interface rejection state changed'')) (\<lambda>_.
       Inr ((), db4)))))))"

section \<open>Removal of a managed interface\<close>

definition list_managed_resources :: "string \<Rightarrow> agent_db \<Rightarrow> repo_error + managed_resource list" where
  "list_managed_resources iid db =
     map_r (\<lambda>r. bind_r (scan_string (mr_fingerprint r)) (\<lambda>fp.
         Inr \<lparr>rs_kind = mr_kind r, rs_path = coalesce (mr_path r), rs_fingerprint = fp\<rparr>))
       (sort_key (\<lambda>r. map code (mr_kind r)) (filter (\<lambda>r. mr_interface_id r = iid \<and>
         (\<exists>i \<in> set (db_interfaces db). i_id i = iid \<and> i_management_mode i = ''managed'')) (db_resources db)))"

text \<open>The envelopes owned by the interface's peers, by their artifacts and by its operations.\<close>

definition owned_by_interface :: "string \<Rightarrow> agent_db \<Rightarrow> envelope_row \<Rightarrow> bool" where
  "owned_by_interface iid db e \<longleftrightarrow>
     (se_owner_type e = ''peer'' \<and>
       (\<exists>p \<in> set (db_peers db). p_interface_id p = iid \<and> p_id p = se_owner_id e)) \<or>
     (se_owner_type e = ''artifact'' \<and>
       (\<exists>a \<in> set (db_artifacts db). oa_id a = se_owner_id e \<and>
         (\<exists>p \<in> set (db_peers db). p_id p = oa_peer_id a \<and> p_interface_id p = iid))) \<or>
     (se_owner_type e = ''operation'' \<and>
       (\<exists>o' \<in> set (db_operations db). o_interface_id o' = Some iid \<and> o_id o' = se_owner_id e))"

definition finalize_interface_removal ::
  "id_source \<Rightarrow> time \<Rightarrow> string \<Rightarrow> agent_db \<Rightarrow> (repo_error + int \<times> nat) \<times> agent_db" where
  "finalize_interface_removal gen now oid db =
     commit_tx db (
       bind_r (op_where (\<lambda>r. o_id r = oid) db) (\<lambda>op.
       bind_r (scan_string (o_interface_id op)) (\<lambda>iid.
       case o_expected_revision op of
         None \<Rightarrow> Inl (RepoError ''interface-removal operation is not ready to finalize'')
       | Some expected \<Rightarrow>
       bind_r (check (o_type op = ''set_interface_state'' \<and> o_state op = StateVerifying)
         (RepoError ''interface-removal operation is not ready to finalize'')) (\<lambda>_.
       bind_r (query_row (\<lambda>r. i_id r = iid) (db_interfaces db)) (\<lambda>i.
       bind_r (check (i_management_mode i = ''managed'' \<and> i_revision i = expected)
         (RepoError ''managed interface changed before removal finalization'')) (\<lambda>_.
       let peer_count = affected (\<lambda>p. p_interface_id p = iid) (db_peers db);
           secret_ids = map se_id (filter (owned_by_interface iid db) (db_envelopes db)) in
       bind_r (detach_operations (\<lambda>r. o_interface_id r = Some iid) db) (\<lambda>db1.
       bind_r (delete_interfaces
         (\<lambda>r. i_id r = iid \<and> i_management_mode r = ''managed'' \<and> i_revision r = i_revision i) db1) (\<lambda>(n, db2).
       bind_r (check (n = 1) (RepoError ''managed interface changed during removal'')) (\<lambda>_.
       bind_r (fold_r (\<lambda>eid d. wrap_r ''delete interface-owned secret'' (delete_envelope eid d)) secret_ids db2) (\<lambda>db3.
       bind_r (gen 0 now) (\<lambda>aid.
       bind_r (insert_audit (audit_of aid op ''remove_interface'' ''interface'' iid (Some (i_revision i)) None
         (Some (''removed managed interface with '' @ show_nat peer_count @ '' peer(s)'')) now) db3) (\<lambda>db4.
       bind_r (finish_operation oid StateVerifying StateCommitted now
         ''interface-removal operation state changed'' db4) (\<lambda>db5.
       Inr ((i_revision i, peer_count), db5))))))))))))))"

section \<open>Repair of a legacy runtime fingerprint\<close>

text \<open>\<open>later\<close> is the second reading of the clock; a mismatch is not an error but \<open>False\<close>.\<close>

definition repair_runtime_fingerprint ::
  "time \<Rightarrow> string \<Rightarrow> string \<Rightarrow> string \<Rightarrow> agent_db \<Rightarrow> (repo_error + bool) \<times> agent_db" where
  "repair_runtime_fingerprint later iid legacy replacement db =
     (if iid = [] \<or> legacy = [] \<or> replacement = [] \<or> legacy = replacement then (Inr False, db)
      else commit_tx db (
        bind_r (query_row (\<lambda>(i, cr). i_last_applied_revision_id i = Some (rv_id cr) \<and> i_id i = iid \<and>
            (i_management_mode i = ''managed'' \<or> i_management_mode i = ''adopted''))
          (List.product (db_interfaces db) (db_revisions db))) (\<lambda>(i, cr).
        bind_r (scan_string (rv_file_hash cr)) (\<lambda>revision_file.
        if revision_file \<noteq> coalesce (i_file_hash i) \<or> coalesce (rv_runtime_fingerprint cr) \<noteq> legacy \<or>
           coalesce (i_runtime_fingerprint i) \<noteq> replacement \<or> i_drift_state i \<noteq> ''runtime''
        then Inr (False, db)
        else
          let P = (\<lambda>r. rv_id r = rv_id cr \<and> rv_runtime_fingerprint r = Some legacy);
              db1 = db\<lparr>db_revisions := update_rows P (\<lambda>r. r\<lparr>rv_runtime_fingerprint := Some replacement\<rparr>)
                (db_revisions db)\<rparr> in
          bind_r (check (affected P (db_revisions db) = 1) (RepoError ''legacy runtime revision changed'')) (\<lambda>_.
          bind_r (update_interfaces
            (\<lambda>r. i_id r = iid \<and> i_drift_state r = ''runtime'' \<and>
                 i_file_hash r = Some (coalesce (i_file_hash i)) \<and> i_runtime_fingerprint r = Some replacement)
            (\<lambda>r. r\<lparr>i_drift_state := ''none'', i_updated_at_ms := unix_milli later\<rparr>) db1) (\<lambda>(n, db2).
          bind_r (check (n = 1) (RepoError ''legacy runtime interface changed'')) (\<lambda>_.
          Inr (True, db2))))))))"

end
