(* ===== verification/PeerStore.thy ===== *)
theory PeerStore
  imports ControlStore Ipam
begin

text \<open>
  \<^verbatim>\<open>src/internal/agent/repository/peer_store.go\<close>, \<^verbatim>\<open>peer_update_store.go\<close> and
  \<^verbatim>\<open>peer_lifecycle_store.go\<close>: addresses, allowed prefixes, secrets and the life cycle of a peer.
  Where the source leaves an order open (a \<open>SELECT\<close> without \<open>ORDER BY\<close>, the iteration over a
  map) the order is the argument \<open>ord\<close>.
\<close>

section \<open>Inputs\<close>

record address_candidate =
  ac_pool_id :: string
  ac_address :: string
  ac_prefix :: string

record owned_allowed =
  oap_peer_id :: string
  oap_cidr :: string

record secret_input =
  si_context :: secret_context
  si_envelope :: envelope

record one_time_input =
  ot_id :: string
  ot_token_hash :: string
  ot_expires_at :: time
  ot_secret :: secret_input

record peer_create_input =
  pc_id :: string
  pc_interface_id :: string
  pc_name :: string
  pc_public_key :: string
  pc_key_mode :: string
  pc_allowed_ips :: "string list"
  pc_client_routes :: "string list"
  pc_dns_json :: string
  pc_mtu :: int
  pc_endpoint_host :: string
  pc_endpoint_port :: int
  pc_persistent_keepalive :: int
  pc_allocation :: address_candidate
  pc_client_private :: "secret_input option"
  pc_preshared_key :: "secret_input option"
  pc_one_time :: "one_time_input option"
  pc_original_file_hash :: string
  pc_proposed_file_hash :: string
  pc_runtime_fingerprint :: string

record peer_update_input =
  pu_peer_id :: string
  pu_interface_id :: string
  pu_name :: string
  pu_endpoint :: string
  pu_persistent_keepalive :: int
  pu_allowed_ips :: "string list"
  pu_client_routes :: "string list"
  pu_original_file_hash :: string
  pu_proposed_file_hash :: string
  pu_runtime_fingerprint :: string

section \<open>Addresses\<close>

definition taken_state :: "string \<Rightarrow> bool" where
  "taken_state st \<longleftrightarrow> st = ''allocated'' \<or> st = ''quarantined''"

definition parse_stored :: "string \<Rightarrow> repo_error + addr" where
  "parse_stored s = (case parse_addr s of None \<Rightarrow> Inl (RepoError ''ParseAddr'') | Some a \<Rightarrow> Inr a)"

text \<open>\<open>poolUsage\<close>: the allocated and the quarantined addresses of a pool.\<close>

definition pool_usage :: "string \<Rightarrow> agent_db \<Rightarrow> repo_error + addr list \<times> addr list" where
  "pool_usage pool db =
     bind_r (map_r (\<lambda>r. bind_r (parse_stored (aa_address r)) (\<lambda>a. Inr (a, aa_state r)))
       (filter (\<lambda>r. aa_pool_id r = pool \<and> taken_state (aa_state r)) (db_allocations db))) (\<lambda>rows.
     Inr (map fst (filter (\<lambda>(a, st). st = ''allocated'') rows),
          map fst (filter (\<lambda>(a, st). st \<noteq> ''allocated'') rows)))"

fun next_in_pools :: "agent_db \<Rightarrow> pool_row list \<Rightarrow> repo_error + address_candidate" where
  "next_in_pools db [] = Inl (RepoError ''address pools are exhausted or unavailable'')"
| "next_in_pools db (p # ps) =
     (case parse_prefix (ap_cidr p) of
        None \<Rightarrow> Inl (RepoError ''ParsePrefix'')
      | Some prefix \<Rightarrow>
          bind_r (parse_stored (ap_gateway_address p)) (\<lambda>gateway.
          bind_r (pool_usage (ap_id p) db) (\<lambda>(allocated, quarantined).
          case allocate \<lparr>cs_pool = prefix, cs_gateway = gateway, cs_allocated = allocated,
              cs_quarantined = quarantined, cs_reservations = []\<rparr> of
            Inl _ \<Rightarrow> next_in_pools db ps
          | Inr a \<Rightarrow> Inr \<lparr>ac_pool_id = ap_id p, ac_address = show_addr a,
              ac_prefix = show_prefix (prefix_from a (if is4 a then 32 else 128))\<rparr>)))"

definition sorted_pools :: "string \<Rightarrow> agent_db \<Rightarrow> pool_row list" where
  "sorted_pools iid db =
     sort_key (\<lambda>p. (ap_family p, map code (ap_cidr p))) (filter (\<lambda>p. ap_interface_id p = iid) (db_pools db))"

definition next_available_address :: "string \<Rightarrow> agent_db \<Rightarrow> repo_error + address_candidate" where
  "next_available_address iid db = next_in_pools db (sorted_pools iid db)"

definition host_prefix :: "ip_prefix \<Rightarrow> bool" where
  "host_prefix p \<longleftrightarrow> (is4 (pfx_addr p) \<and> pfx_bits p = 32) \<or> (is6 (pfx_addr p) \<and> pfx_bits p = 128)"

definition address_uses :: "string \<Rightarrow> string \<Rightarrow> agent_db \<Rightarrow> nat" where
  "address_uses pool address db =
     affected (\<lambda>r. aa_pool_id r = pool \<and> aa_address r = address \<and> taken_state (aa_state r)) (db_allocations db)"

definition pool_holds :: "addr \<Rightarrow> pool_row \<Rightarrow> bool" where
  "pool_holds a p = (case parse_prefix (ap_cidr p) of None \<Rightarrow> False | Some pool \<Rightarrow> contains pool a)"

definition validate_address_candidate ::
  "(pool_row list \<Rightarrow> pool_row list) \<Rightarrow> string \<Rightarrow> string \<Rightarrow> agent_db \<Rightarrow> repo_error + address_candidate" where
  "validate_address_candidate ord iid value db =
     (case parse_prefix value of
        None \<Rightarrow> Inl (RepoError ''peer tunnel address must be a /32 or /128'')
      | Some p \<Rightarrow>
          if (is4 (pfx_addr p) \<and> pfx_bits p \<noteq> 32) \<or> (is6 (pfx_addr p) \<and> pfx_bits p \<noteq> 128)
          then Inl (RepoError ''peer tunnel address must be a /32 or /128'')
          else (case find (pool_holds (pfx_addr p)) (ord (filter (\<lambda>r. ap_interface_id r = iid) (db_pools db))) of
              None \<Rightarrow> Inl (RepoError ''peer tunnel address is outside managed pools'')
            | Some pool \<Rightarrow>
                if address_uses (ap_id pool) (show_addr (pfx_addr p)) db \<noteq> 0
                then Inl (RepoError ''peer tunnel address is unavailable'')
                else Inr \<lparr>ac_pool_id = ap_id pool, ac_address = show_addr (pfx_addr p), ac_prefix = show_prefix p\<rparr>))"

text \<open>The join of \<open>peer_allowed_ips\<close> with the active peers of the interface.\<close>

definition active_owned_prefixes :: "string \<Rightarrow> agent_db \<Rightarrow> owned_allowed list" where
  "active_owned_prefixes iid db =
     map (\<lambda>r. \<lparr>oap_peer_id = pa_peer_id r, oap_cidr = pa_cidr r\<rparr>)
       (sort_key (\<lambda>r. map code (pa_cidr r)) (filter (\<lambda>r. \<exists>p \<in> set (db_peers db).
          p_id p = pa_peer_id r \<and> p_interface_id p = iid \<and> p_lifecycle_state p = ''active'') (db_allowed db)))"

definition active_allowed_prefixes :: "string \<Rightarrow> agent_db \<Rightarrow> string list" where
  "active_allowed_prefixes iid db = map oap_cidr (active_owned_prefixes iid db)"

section \<open>Parts the completions share\<close>

text \<open>The operation, found by \<open>P\<close>, is executing and says which revision it was planned against.\<close>

definition executing_revision :: "string \<Rightarrow> operation_row \<Rightarrow> repo_error + int" where
  "executing_revision conflict op =
     (case o_expected_revision op of
        None \<Rightarrow> Inl (RepoError conflict)
      | Some expected \<Rightarrow>
          bind_r (check (o_state op = StateExecuting) (RepoError conflict)) (\<lambda>_. Inr expected))"

definition applied_row :: "string \<Rightarrow> string \<Rightarrow> int \<Rightarrow> string \<Rightarrow> time \<Rightarrow> iface_row \<Rightarrow> iface_row" where
  "applied_row proposed runtime next rid now r =
     r\<lparr>i_file_hash := Some proposed, i_runtime_fingerprint := nullable runtime, i_revision := next,
       i_last_applied_revision_id := Some rid, i_drift_state := ''none'', i_updated_at_ms := unix_milli now\<rparr>"

section \<open>Creation\<close>

definition allowed_purpose :: "string \<Rightarrow> string" where
  "allowed_purpose value =
     (case parse_prefix value of
        Some p \<Rightarrow> if host_prefix p then ''tunnel_address'' else ''routed_subnet''
      | None \<Rightarrow> ''routed_subnet'')"

definition add_allowed_ip :: "id_source \<Rightarrow> time \<Rightarrow> string \<Rightarrow> nat \<times> string \<Rightarrow> agent_db \<Rightarrow> repo_error + agent_db" where
  "add_allowed_ip gen now pid = (\<lambda>(k, value) db.
     bind_r (gen k (now + int (k + 1))) (\<lambda>aid.
     insert_allowed \<lparr>pa_id = aid, pa_peer_id = pid, pa_cidr = value, pa_purpose = allowed_purpose value,
       pa_created_at_ms = unix_milli now\<rparr> db))"

text \<open>
  An optional secret: the identifier it is stored under. \<open>k\<close> is the number of identifiers
  drawn before, \<open>offset\<close> the nanoseconds added to the clock.
\<close>

definition add_secret ::
  "id_source \<Rightarrow> time \<Rightarrow> nat \<Rightarrow> int \<Rightarrow> secret_input option \<Rightarrow> agent_db \<Rightarrow> repo_error + string option \<times> agent_db" where
  "add_secret gen now k offset s db =
     (case s of
        None \<Rightarrow> Inr (None, db)
      | Some x \<Rightarrow>
          bind_r (gen k (now + offset)) (\<lambda>eid.
          bind_r (insert_envelope eid (si_context x) (si_envelope x) now db) (\<lambda>db'.
          Inr (Some eid, db'))))"

definition add_client_route ::
  "id_source \<Rightarrow> time \<Rightarrow> string \<Rightarrow> nat \<Rightarrow> nat \<Rightarrow> nat \<times> string \<Rightarrow> agent_db \<Rightarrow> repo_error + agent_db" where
  "add_client_route gen now profile calls offset = (\<lambda>(k, route) db.
     bind_r (gen (calls + k) (now + int (k + offset))) (\<lambda>rid.
     insert_route \<lparr>cr_id = rid, cr_profile_id = profile, cr_cidr = route\<rparr> db))"

definition add_one_time ::
  "id_source \<Rightarrow> time \<Rightarrow> nat \<Rightarrow> string \<Rightarrow> one_time_input option \<Rightarrow> agent_db \<Rightarrow> repo_error + agent_db" where
  "add_one_time gen now k pid ot db =
     (case ot of
        None \<Rightarrow> Inr db
      | Some x \<Rightarrow>
          bind_r (check (length (ot_token_hash x) = 32 \<and> ot_expires_at x > now)
            (RepoError ''invalid one-time artifact'')) (\<lambda>_.
          bind_r (gen k (now + 90)) (\<lambda>eid.
          bind_r (insert_envelope eid (si_context (ot_secret x)) (si_envelope (ot_secret x)) now db) (\<lambda>db'.
          insert_artifact \<lparr>oa_id = ot_id x, oa_peer_id = pid, oa_secret_envelope_id = Some eid,
            oa_token_hash = ot_token_hash x, oa_state = ArtReady, oa_expires_at_ms = unix_milli (ot_expires_at x),
            oa_consumed_at_ms = None, oa_created_at_ms = unix_milli now\<rparr> db'))))"

definition profile_state_of :: "string \<Rightarrow> string" where
  "profile_state_of key_mode =
     (if key_mode = ''managed'' then ''ready''
      else if key_mode = ''one_time'' then ''one_time_pending'' else ''external'')"

definition new_peer_row :: "peer_create_input \<Rightarrow> time \<Rightarrow> peer_row" where
  "new_peer_row inp now =
     \<lparr>p_id = pc_id inp, p_interface_id = pc_interface_id inp, p_name = pc_name inp,
      p_public_key = pc_public_key inp, p_key_mode = pc_key_mode inp, p_lifecycle_state = ''active'',
      p_config_revision_id = None, p_archived_block_secret_id = None, p_endpoint = None,
      p_persistent_keepalive = pc_persistent_keepalive inp, p_observed_present = True,
      p_last_seen_at_ms = unix_milli now, p_created_at_ms = unix_milli now, p_updated_at_ms = unix_milli now,
      p_revoked_at_ms = None\<rparr>"

definition new_allocation_row :: "string \<Rightarrow> string \<Rightarrow> string \<Rightarrow> string \<Rightarrow> time \<Rightarrow> alloc_row" where
  "new_allocation_row aid pool pid address now =
     \<lparr>aa_id = aid, aa_pool_id = pool, aa_peer_id = Some pid, aa_address = address, aa_state = ''allocated'',
      aa_quarantine_until_ms = None, aa_created_at_ms = unix_milli now, aa_updated_at_ms = unix_milli now\<rparr>"

definition new_profile_row ::
  "peer_create_input \<Rightarrow> string \<Rightarrow> string option \<Rightarrow> string option \<Rightarrow> time \<Rightarrow> profile_row" where
  "new_profile_row inp profile client_secret psk_secret now =
     \<lparr>cp_id = profile, cp_peer_id = pc_id inp, cp_profile_state = profile_state_of (pc_key_mode inp),
      cp_client_private_secret_id = client_secret, cp_preshared_secret_id = psk_secret,
      cp_endpoint_host = nullable (pc_endpoint_host inp), cp_endpoint_port = Some (pc_endpoint_port inp),
      cp_mtu = (if pc_mtu inp = 0 then None else Some (pc_mtu inp)), cp_dns_json = pc_dns_json inp,
      cp_created_at_ms = unix_milli now, cp_updated_at_ms = unix_milli now\<rparr>"

definition drawn :: "'a option \<Rightarrow> nat" where
  "drawn v = (case v of None \<Rightarrow> 0 | Some _ \<Rightarrow> 1)"

text \<open>The rows of the peer itself, up to its one-time artifact.\<close>

definition store_peer :: "id_source \<Rightarrow> time \<Rightarrow> peer_create_input \<Rightarrow> agent_db \<Rightarrow> repo_error + agent_db" where
  "store_peer gen now inp db =
     (let n = length (pc_allowed_ips inp);
          k = n + 1 + drawn (pc_client_private inp) + drawn (pc_preshared_key inp) in
      bind_r (wrap_r ''insert managed peer'' (insert_peer (new_peer_row inp now) db)) (\<lambda>db1.
      bind_r (fold_r (add_allowed_ip gen now (pc_id inp)) (enumerate 0 (pc_allowed_ips inp)) db1) (\<lambda>db2.
      bind_r (gen n (now + 50)) (\<lambda>aid.
      bind_r (wrap_r ''allocate peer address'' (insert_allocation (new_allocation_row aid
        (ac_pool_id (pc_allocation inp)) (pc_id inp) (ac_address (pc_allocation inp)) now) db2)) (\<lambda>db3.
      bind_r (add_secret gen now (n + 1) 60 (pc_client_private inp) db3) (\<lambda>(client_secret, db4).
      bind_r (add_secret gen now (n + 1 + drawn (pc_client_private inp)) 61 (pc_preshared_key inp) db4) (\<lambda>(psk_secret, db5).
      bind_r (gen k (now + 70)) (\<lambda>profile.
      bind_r (wrap_r ''insert client profile''
        (insert_profile (new_profile_row inp profile client_secret psk_secret now) db5)) (\<lambda>db6.
      bind_r (fold_r (add_client_route gen now profile (k + 1) 80) (enumerate 0 (pc_client_routes inp)) db6) (\<lambda>db7.
      add_one_time gen now (k + 1 + length (pc_client_routes inp)) (pc_id inp) (pc_one_time inp) db7))))))))))"

definition identifiers_of_create :: "peer_create_input \<Rightarrow> nat" where
  "identifiers_of_create inp =
     length (pc_allowed_ips inp) + 2 + drawn (pc_client_private inp) + drawn (pc_preshared_key inp) +
     length (pc_client_routes inp) + drawn (pc_one_time inp)"

definition complete_peer_create ::
  "id_source \<Rightarrow> time \<Rightarrow> string \<Rightarrow> peer_create_input \<Rightarrow> agent_db \<Rightarrow> (repo_error + int) \<times> agent_db" where
  "complete_peer_create gen now oid inp db =
     commit_tx db (
       bind_r (op_where (\<lambda>r. o_id r = oid \<and> o_type r = ''create_peer'' \<and>
         o_interface_id r = Some (pc_interface_id inp)) db) (\<lambda>op.
       bind_r (executing_revision ''peer operation is not executing'' op) (\<lambda>expected.
       bind_r (query_row (\<lambda>r. i_id r = pc_interface_id inp) (db_interfaces db)) (\<lambda>i.
       bind_r (check (i_revision i = expected \<and> coalesce (i_file_hash i) = pc_original_file_hash inp)
         (RepoError ''interface changed before peer metadata commit'')) (\<lambda>_.
       bind_r (store_peer gen now inp db) (\<lambda>db1.
       bind_r (gen (identifiers_of_create inp) (now + 100)) (\<lambda>rid.
       bind_r (insert_revision (revision_row_of rid (pc_interface_id inp) (i_revision i + 1)
         (Some (pc_proposed_file_hash inp)) (pc_runtime_fingerprint inp) oid now) db1) (\<lambda>db2.
       bind_r (update_interfaces
         (\<lambda>r. i_id r = pc_interface_id inp \<and> i_revision r = i_revision i \<and>
              i_file_hash r = Some (coalesce (i_file_hash i)))
         (applied_row (pc_proposed_file_hash inp) (pc_runtime_fingerprint inp) (i_revision i + 1) rid now) db2) (\<lambda>(n, db3).
       bind_r (check (n = 1) (RepoError ''interface revision changed while creating peer'')) (\<lambda>_.
       bind_r (to_verifying oid (pc_proposed_file_hash inp) now db3) (\<lambda>db4.
       Inr (i_revision i + 1, db4))))))))))))"

section \<open>Update\<close>

record update_allocation =
  ua_pool_id :: string
  ua_address :: string

definition alloc_key :: "update_allocation \<Rightarrow> string" where
  "alloc_key a = ua_pool_id a @ ''|'' @ ua_address a"

definition load_update_pools :: "string \<Rightarrow> agent_db \<Rightarrow> repo_error + (string \<times> ip_prefix) list" where
  "load_update_pools iid db =
     map_r (\<lambda>p. case parse_prefix (ap_cidr p) of
         None \<Rightarrow> Inl (RepoError ''ParsePrefix'')
       | Some c \<Rightarrow> Inr (ap_id p, c)) (sorted_pools iid db)"

text \<open>
  One value: its canonical form, its purpose and the allocation it needs. An address in two
  pools is an error.
\<close>

definition classify_value ::
  "(string \<times> ip_prefix) list \<Rightarrow> string \<Rightarrow> repo_error + (string \<times> string) \<times> update_allocation option" where
  "classify_value pools value =
     (case parse_prefix value of
        None \<Rightarrow> Inl (RepoError ''ParsePrefix'')
      | Some p0 \<Rightarrow>
          (let p = masked p0; key = show_prefix p in
           if host_prefix p
           then (case filter (\<lambda>(pid, c). contains c (pfx_addr p)) pools of
               [] \<Rightarrow> Inr ((key, ''routed_subnet''), None)
             | [(pid, c)] \<Rightarrow> Inr ((key, ''tunnel_address''),
                 Some \<lparr>ua_pool_id = pid, ua_address = show_addr (pfx_addr p)\<rparr>)
             | _ \<Rightarrow> Inl (RepoError (''peer address '' @ show_addr (pfx_addr p) @ '' matches multiple pools'')))
           else Inr ((key, ''routed_subnet''), None)))"

definition classify_updated_allowed_ips ::
  "string list \<Rightarrow> (string \<times> ip_prefix) list \<Rightarrow> repo_error + (string \<times> string) list \<times> update_allocation list" where
  "classify_updated_allowed_ips values pools =
     bind_r (map_r (classify_value pools) values) (\<lambda>rs.
     Inr (map fst rs, concat (map (\<lambda>(_, a). case a of None \<Rightarrow> [] | Some x \<Rightarrow> [x]) rs)))"

text \<open>The map \<open>desiredKeys\<close>: one allocation for each key.\<close>

definition desired_map :: "update_allocation list \<Rightarrow> update_allocation list" where
  "desired_map xs = fold (\<lambda>a m. filter (\<lambda>b. alloc_key b \<noteq> alloc_key a) m @ [a]) xs []"

definition quarantined_row :: "time \<Rightarrow> alloc_row \<Rightarrow> alloc_row" where
  "quarantined_row now r = r\<lparr>aa_state := ''quarantined'',
     aa_quarantine_until_ms := Some (unix_milli (now + 24 * 3600 * second)), aa_updated_at_ms := unix_milli now\<rparr>"

text \<open>The allocations the peer has now: the wanted ones are ticked off, the others quarantined.\<close>

definition retire_allocation ::
  "time \<Rightarrow> alloc_row \<Rightarrow> update_allocation list \<times> agent_db \<Rightarrow> update_allocation list \<times> agent_db" where
  "retire_allocation now r = (\<lambda>(desired, db).
     let key = alloc_key \<lparr>ua_pool_id = aa_pool_id r, ua_address = aa_address r\<rparr> in
     if key \<in> alloc_key ` set desired then (filter (\<lambda>b. alloc_key b \<noteq> key) desired, db)
     else (desired, update_allocations (\<lambda>x. aa_id x = aa_id r \<and> aa_state x = ''allocated'') (quarantined_row now) db))"

definition claim_allocation ::
  "id_source \<Rightarrow> time \<Rightarrow> string \<Rightarrow> nat \<times> update_allocation \<Rightarrow> agent_db \<Rightarrow> repo_error + agent_db" where
  "claim_allocation gen now pid = (\<lambda>(k, a) db.
     bind_r (check (address_uses (ua_pool_id a) (ua_address a) db = 0)
       (RepoError (''peer address '' @ ua_address a @ '' is unavailable''))) (\<lambda>_.
     bind_r (gen k (now + int (k + 300))) (\<lambda>aid.
     insert_allocation (new_allocation_row aid (ua_pool_id a) pid (ua_address a) now) db)))"

text \<open>The result also says how many identifiers were drawn.\<close>

definition sync_peer_allocations ::
  "id_source \<Rightarrow> time \<Rightarrow> (update_allocation list \<Rightarrow> update_allocation list) \<Rightarrow> string
     \<Rightarrow> update_allocation list \<Rightarrow> agent_db \<Rightarrow> repo_error + nat \<times> agent_db" where
  "sync_peer_allocations gen now ord pid desired db =
     (let current = filter (\<lambda>r. aa_peer_id r = Some pid \<and> aa_state r = ''allocated'') (db_allocations db);
          (missing, db1) = fold (retire_allocation now) current (desired_map desired, db) in
      bind_r (fold_r (claim_allocation gen now pid) (enumerate 0 (ord missing)) db1) (\<lambda>db2.
      Inr (length missing, db2)))"

definition add_updated_ip ::
  "id_source \<Rightarrow> time \<Rightarrow> string \<Rightarrow> (string \<times> string) list \<Rightarrow> nat \<Rightarrow> nat \<times> string \<Rightarrow> agent_db \<Rightarrow> repo_error + agent_db" where
  "add_updated_ip gen now pid purposes calls = (\<lambda>(k, value) db.
     case parse_prefix value of
       None \<Rightarrow> Inl (RepoError ''ParsePrefix'')
     | Some p \<Rightarrow>
         (let canonical = show_prefix (masked p) in
          bind_r (gen (calls + k) (now + int (k + 10))) (\<lambda>aid.
          insert_allowed \<lparr>pa_id = aid, pa_peer_id = pid, pa_cidr = canonical,
            pa_purpose = coalesce (map_of (rev purposes) canonical), pa_created_at_ms = unix_milli now\<rparr> db)))"

definition updated_peer_row :: "peer_update_input \<Rightarrow> time \<Rightarrow> peer_row \<Rightarrow> peer_row" where
  "updated_peer_row inp now r =
     r\<lparr>p_name := pu_name inp, p_endpoint := nullable (pu_endpoint inp),
       p_persistent_keepalive := pu_persistent_keepalive inp, p_updated_at_ms := unix_milli now\<rparr>"

text \<open>The rows of the peer; the result is the number of identifiers drawn and the database.\<close>

definition store_peer_update ::
  "id_source \<Rightarrow> time \<Rightarrow> (update_allocation list \<Rightarrow> update_allocation list) \<Rightarrow> peer_update_input
     \<Rightarrow> agent_db \<Rightarrow> repo_error + nat \<times> agent_db" where
  "store_peer_update gen now ord inp db =
     (let pid = pu_peer_id inp in
      bind_r (query_row (\<lambda>r. p_id r = pid \<and> p_interface_id r = pu_interface_id inp) (db_peers db)) (\<lambda>peer.
      bind_r (check (p_lifecycle_state peer = ''active'') (RepoError ''only an active peer can be updated'')) (\<lambda>_.
      bind_r (load_update_pools (pu_interface_id inp) db) (\<lambda>pools.
      bind_r (classify_updated_allowed_ips (pu_allowed_ips inp) pools) (\<lambda>(purposes, desired).
      bind_r (sync_peer_allocations gen now ord pid desired db) (\<lambda>(calls, db1).
      let db2 = db1\<lparr>db_allowed := filter (\<lambda>r. pa_peer_id r \<noteq> pid) (db_allowed db1)\<rparr> in
      bind_r (fold_r (add_updated_ip gen now pid purposes calls) (enumerate 0 (pu_allowed_ips inp)) db2) (\<lambda>db3.
      bind_r (query_row (\<lambda>r. cp_peer_id r = pid) (db_profiles db3)) (\<lambda>profile.
      let db4 = db3\<lparr>db_routes := filter (\<lambda>r. cr_profile_id r \<noteq> cp_id profile) (db_routes db3)\<rparr>;
          calls' = calls + length (pu_allowed_ips inp) in
      bind_r (fold_r (add_client_route gen now (cp_id profile) calls' 100) (enumerate 0 (pu_client_routes inp)) db4) (\<lambda>db5.
      bind_r (update_peers (\<lambda>r. p_id r = pid \<and> p_interface_id r = pu_interface_id inp) (updated_peer_row inp now) db5) (\<lambda>(n, db6).
      Inr (calls' + length (pu_client_routes inp), db6)))))))))))"

definition complete_peer_update ::
  "id_source \<Rightarrow> time \<Rightarrow> (update_allocation list \<Rightarrow> update_allocation list) \<Rightarrow> string \<Rightarrow> peer_update_input
     \<Rightarrow> agent_db \<Rightarrow> (repo_error + int) \<times> agent_db" where
  "complete_peer_update gen now ord oid inp db =
     commit_tx db (
       bind_r (op_where (\<lambda>r. o_id r = oid \<and> o_type r = ''update_peer'' \<and>
         o_interface_id r = Some (pu_interface_id inp)) db) (\<lambda>op.
       bind_r (executing_revision ''peer update operation is not executing'' op) (\<lambda>expected.
       bind_r (query_row (\<lambda>r. i_id r = pu_interface_id inp) (db_interfaces db)) (\<lambda>i.
       bind_r (check (i_revision i = expected \<and> coalesce (i_file_hash i) = pu_original_file_hash inp)
         (RepoError ''interface changed during peer update'')) (\<lambda>_.
       bind_r (store_peer_update gen now ord inp db) (\<lambda>(calls, db1).
       bind_r (gen calls (now + 500)) (\<lambda>rid.
       bind_r (insert_revision (revision_row_of rid (pu_interface_id inp) (i_revision i + 1)
         (Some (pu_proposed_file_hash inp)) (pu_runtime_fingerprint inp) oid now) db1) (\<lambda>db2.
       bind_r (update_interfaces
         (\<lambda>r. i_id r = pu_interface_id inp \<and> i_revision r = i_revision i \<and>
              coalesce (i_file_hash r) = pu_original_file_hash inp)
         (applied_row (pu_proposed_file_hash inp) (pu_runtime_fingerprint inp) (i_revision i + 1) rid now) db2) (\<lambda>(n, db3).
       bind_r (check (n = 1) (RepoError ''interface changed while updating peer'')) (\<lambda>_.
       bind_r (to_verifying oid (pu_proposed_file_hash inp) now db3) (\<lambda>db4.
       Inr (i_revision i + 1, db4))))))))))))"

section \<open>Life cycle\<close>

definition valid_archive :: "string \<Rightarrow> secret_input option \<Rightarrow> bool" where
  "valid_archive pid s =
     (case s of
        None \<Rightarrow> False
      | Some x \<Rightarrow> sx_owner_type (si_context x) = ''peer'' \<and> sx_owner_id (si_context x) = pid \<and>
          sx_purpose (si_context x) = ''archived_peer_block'')"

text \<open>The archived block after the mutation: none when the peer is enabled, else a new envelope.\<close>

definition next_archive ::
  "id_source \<Rightarrow> time \<Rightarrow> string \<Rightarrow> string \<Rightarrow> string option \<Rightarrow> secret_input option \<Rightarrow> agent_db
     \<Rightarrow> repo_error + string option \<times> agent_db" where
  "next_archive gen now pid mutation previous archive db =
     (if mutation = ''enable''
      then bind_r (check (previous \<noteq> None) (RepoError ''disabled peer has no archived block'')) (\<lambda>_. Inr (None, db))
      else
        bind_r (check (valid_archive pid archive) (RepoError ''peer lifecycle archive is required'')) (\<lambda>_.
        bind_r (check (previous = None) (RepoError ''active peer already has an archived block'')) (\<lambda>_.
        bind_r (gen 0 (now + 1)) (\<lambda>eid.
        bind_r (wrap_r ''store archived peer block'' (insert_envelope eid (si_context (the archive))
          (si_envelope (the archive)) now db)) (\<lambda>db'.
        Inr (Some eid, db'))))))"

definition lifecycle_target :: "string \<Rightarrow> string" where
  "lifecycle_target mutation =
     (if mutation = ''enable'' then ''active'' else if mutation = ''revoke'' then ''revoked'' else ''disabled'')"

definition lifecycle_row :: "string \<Rightarrow> string option \<Rightarrow> time \<Rightarrow> peer_row \<Rightarrow> peer_row" where
  "lifecycle_row mutation archive now r =
     r\<lparr>p_lifecycle_state := lifecycle_target mutation, p_observed_present := (mutation = ''enable''),
       p_archived_block_secret_id := archive, p_updated_at_ms := unix_milli now,
       p_revoked_at_ms := (if lifecycle_target mutation = ''revoked'' then Some (unix_milli now)
         else p_revoked_at_ms r)\<rparr>"

definition revoke_rows :: "time \<Rightarrow> string \<Rightarrow> agent_db \<Rightarrow> agent_db" where
  "revoke_rows now pid db =
     update_profiles (\<lambda>r. cp_peer_id r = pid)
       (\<lambda>r. r\<lparr>cp_profile_state := ''revoked'', cp_updated_at_ms := unix_milli now\<rparr>)
       (update_allocations (\<lambda>r. aa_peer_id r = Some pid \<and> aa_state r = ''allocated'') (quarantined_row now) db)"

definition complete_peer_lifecycle ::
  "id_source \<Rightarrow> time \<Rightarrow> string \<Rightarrow> string \<Rightarrow> string \<Rightarrow> string \<Rightarrow> string \<Rightarrow> string \<Rightarrow> secret_input option
     \<Rightarrow> agent_db \<Rightarrow> (repo_error + int) \<times> agent_db" where
  "complete_peer_lifecycle gen now oid pid mutation original proposed runtime archive db =
     commit_tx db (
       bind_r (op_where (\<lambda>r. o_id r = oid) db) (\<lambda>op.
       bind_r (scan_string (o_interface_id op)) (\<lambda>iid.
       bind_r (check (o_type op = mutation @ ''_peer'') (RepoError ''peer lifecycle operation is not executing'')) (\<lambda>_.
       bind_r (executing_revision ''peer lifecycle operation is not executing'' op) (\<lambda>expected.
       bind_r (query_row (\<lambda>r. i_id r = iid) (db_interfaces db)) (\<lambda>i.
       bind_r (check (i_revision i = expected \<and> coalesce (i_file_hash i) = original)
         (RepoError ''interface changed during peer lifecycle operation'')) (\<lambda>_.
       bind_r (query_row (\<lambda>r. p_id r = pid \<and> p_interface_id r = iid) (db_peers db)) (\<lambda>peer.
       bind_r (next_archive gen now pid mutation (p_archived_block_secret_id peer) archive db) (\<lambda>(next_id, db1).
       bind_r (gen (if mutation = ''enable'' then 0 else 1) (now + 2)) (\<lambda>rid.
       bind_r (insert_revision (revision_row_of rid iid (i_revision i + 1) (Some proposed) runtime oid now) db1) (\<lambda>db2.
       bind_r (update_peers (\<lambda>r. p_id r = pid \<and> p_interface_id r = iid) (lifecycle_row mutation next_id now) db2) (\<lambda>(n, db3).
       bind_r (check (n = 1) (RepoError ''peer changed during lifecycle operation'')) (\<lambda>_.
       let db4 = (if mutation = ''revoke'' then revoke_rows now pid db3 else db3) in
       bind_r (if mutation = ''enable''
         then wrap_r ''remove restored peer archive'' (delete_envelope (coalesce (p_archived_block_secret_id peer)) db4)
         else Inr db4) (\<lambda>db5.
       bind_r (update_interfaces
         (\<lambda>r. i_id r = iid \<and> i_revision r = i_revision i \<and> coalesce (i_file_hash r) = original)
         (applied_row proposed runtime (i_revision i + 1) rid now) db5) (\<lambda>(m, db6).
       bind_r (to_verifying oid proposed now db6) (\<lambda>db7.
       Inr (i_revision i + 1, db7)))))))))))))))))"

section \<open>Client material\<close>

record client_material =
  cm_peer_id :: string
  cm_peer_name :: string
  cm_interface_name :: string
  cm_key_mode :: string
  cm_profile_state :: string
  cm_client_private :: "secret_input option"
  cm_preshared_key :: "secret_input option"
  cm_addresses :: "string list"
  cm_routes :: "string list"
  cm_dns_json :: string
  cm_mtu :: int
  cm_endpoint_host :: string
  cm_endpoint_port :: int
  cm_persistent_keepalive :: int
  cm_server_public_key :: string

definition load_secret :: "string \<Rightarrow> agent_db \<Rightarrow> repo_error + secret_input" where
  "load_secret eid db =
     bind_r (load_envelope eid db) (\<lambda>(cx, e). Inr \<lparr>si_context = cx, si_envelope = e\<rparr>)"

definition load_optional_secret :: "string option \<Rightarrow> agent_db \<Rightarrow> repo_error + secret_input option" where
  "load_optional_secret v db =
     (case v of None \<Rightarrow> Inr None | Some eid \<Rightarrow> bind_r (load_secret eid db) (\<lambda>s. Inr (Some s)))"

definition zero_if_null :: "int option \<Rightarrow> int" where
  "zero_if_null v = (case v of None \<Rightarrow> 0 | Some x \<Rightarrow> x)"

definition client_material_of :: "string \<Rightarrow> agent_db \<Rightarrow> repo_error + client_material" where
  "client_material_of pid db =
     bind_r (query_row (\<lambda>r. p_id r = pid) (db_peers db)) (\<lambda>p.
     bind_r (query_row (\<lambda>r. cp_peer_id r = pid) (db_profiles db)) (\<lambda>cp.
     bind_r (query_row (\<lambda>r. i_id r = p_interface_id p) (db_interfaces db)) (\<lambda>i.
     bind_r (load_optional_secret (cp_client_private_secret_id cp) db) (\<lambda>private.
     bind_r (load_optional_secret (cp_preshared_secret_id cp) db) (\<lambda>psk.
     Inr \<lparr>cm_peer_id = p_id p, cm_peer_name = p_name p, cm_interface_name = i_name i,
       cm_key_mode = p_key_mode p, cm_profile_state = cp_profile_state cp,
       cm_client_private = private, cm_preshared_key = psk,
       cm_addresses = map pa_cidr (sort_key (\<lambda>r. map code (pa_cidr r))
         (filter (\<lambda>r. pa_peer_id r = pid \<and> pa_purpose r = ''tunnel_address'') (db_allowed db))),
       cm_routes = map cr_cidr (sort_key (\<lambda>r. map code (cr_cidr r))
         (filter (\<lambda>r. cr_profile_id r = cp_id cp) (db_routes db))),
       cm_dns_json = cp_dns_json cp, cm_mtu = zero_if_null (cp_mtu cp),
       cm_endpoint_host = coalesce (cp_endpoint_host cp), cm_endpoint_port = zero_if_null (cp_endpoint_port cp),
       cm_persistent_keepalive = p_persistent_keepalive p, cm_server_public_key = coalesce (i_public_key i)\<rparr>)))))"

definition archived_peer_block :: "string \<Rightarrow> agent_db \<Rightarrow> repo_error + secret_input" where
  "archived_peer_block pid db =
     bind_r (query_row (\<lambda>r. p_id r = pid \<and> p_lifecycle_state r = ''disabled'') (db_peers db)) (\<lambda>p.
     bind_r (scan_string (p_archived_block_secret_id p)) (\<lambda>eid.
     bind_r (load_secret eid db) (\<lambda>s.
     bind_r (check (valid_archive pid (Some s)) (RepoError ''archived peer block ownership mismatch'')) (\<lambda>_.
     Inr s))))"

end
