(* ===== verification/ControlStoreCorrect.thy ===== *)
theory ControlStoreCorrect
  imports ControlStore DemoDb
begin

text \<open>
  What the life cycle of a managed interface promises: a rejected reservation leaves no trace but
  the rejected operation, a finalized operation has exactly one audit row, a removed interface
  leaves no row behind, and no method breaks the operation tables.
\<close>

section \<open>Operations\<close>

lemma operations_wf_cong:
  "db_operations db' = db_operations db \<Longrightarrow> db_steps db' = db_steps db \<Longrightarrow> operations_wf db' \<longleftrightarrow> operations_wf db"
  by (simp add: operations_wf_def)

lemma finish_operation_Inr:
  "finish_operation oid from to now conflict db = Inr db' \<longleftrightarrow>
     affected (\<lambda>r. o_id r = oid \<and> o_state r = from) (db_operations db) = 1 \<and>
     update_operations (\<lambda>r. o_id r = oid \<and> o_state r = from)
       (\<lambda>r. r\<lparr>o_state := to, o_updated_at_ms := unix_milli now, o_finished_at_ms := Some (unix_milli now)\<rparr>) db
       = Inr (1, db')"
  by (auto simp: finish_operation_def update_operations_def Let_def simp del: bind_check)

lemma update_operations_frame:
  "update_operations P f db = Inr (n, db') \<Longrightarrow> db' = db\<lparr>db_operations := update_rows P f (db_operations db)\<rparr> \<and>
     n = affected P (db_operations db)"
  by (auto simp: update_operations_def Let_def simp del: bind_check)

lemma finish_operation_wf:
  "finish_operation oid from to now conflict db = Inr db' \<Longrightarrow> operations_wf db \<Longrightarrow> operations_wf db'"
  by (auto simp: finish_operation_Inr idem_key_def elim!: update_operations_wf)

lemma to_verifying_wf: "to_verifying oid h now db = Inr db' \<Longrightarrow> operations_wf db \<Longrightarrow> operations_wf db'"
  by (auto simp: to_verifying_def idem_key_def elim!: update_operations_wf)

lemma detach_operations_wf: "detach_operations P db = Inr db' \<Longrightarrow> operations_wf db \<Longrightarrow> operations_wf db'"
  by (auto simp: detach_operations_def idem_key_def elim!: update_operations_wf)

text \<open>Statements on other tables keep the operation tables.\<close>

named_theorems op_frame "statements that leave the operation tables alone"

lemma insert_interface_ops [op_frame]:
  "insert_interface r db = Inr db' \<Longrightarrow> db_operations db' = db_operations db \<and> db_steps db' = db_steps db"
  unfolding insert_interface_def by (drule guarded_row) simp

lemma insert_revision_ops [op_frame]:
  "insert_revision r db = Inr db' \<Longrightarrow> db_operations db' = db_operations db \<and> db_steps db' = db_steps db"
  unfolding insert_revision_def by (drule guarded_row) simp

lemma insert_audit_ops [op_frame]:
  "insert_audit r db = Inr db' \<Longrightarrow> db_operations db' = db_operations db \<and> db_steps db' = db_steps db"
  unfolding insert_audit_def by (drule guarded_row) simp

lemma insert_resource_ops [op_frame]:
  "insert_resource r db = Inr db' \<Longrightarrow> db_operations db' = db_operations db \<and> db_steps db' = db_steps db"
  unfolding insert_resource_def by (drule guarded_row) simp

lemma insert_address_ops [op_frame]:
  "insert_address_or_ignore r db = Inr db' \<Longrightarrow> db_operations db' = db_operations db \<and> db_steps db' = db_steps db"
  unfolding insert_address_or_ignore_def by (auto split: if_splits dest!: guarded_row)

lemma insert_pool_ops [op_frame]:
  "insert_pool_or_ignore r db = Inr db' \<Longrightarrow> db_operations db' = db_operations db \<and> db_steps db' = db_steps db"
  unfolding insert_pool_or_ignore_def by (auto split: if_splits dest!: guarded_row)

lemma update_interfaces_ops [op_frame]:
  "update_interfaces P f db = Inr (n, db') \<Longrightarrow> db_operations db' = db_operations db \<and> db_steps db' = db_steps db"
  by (auto simp: update_interfaces_def)

lemma delete_envelope_ops [op_frame]:
  "delete_envelope eid db = Inr db' \<Longrightarrow> db_operations db' = db_operations db \<and> db_steps db' = db_steps db"
  unfolding delete_envelope_def Let_def by (auto simp del: constraints_Inr bind_r_eq_Inr split: if_splits dest!: guarded_row)

lemma delete_interfaces_ops [op_frame]:
  "delete_interfaces P db = Inr (n, db') \<Longrightarrow> db_operations db' = db_operations db \<and> db_steps db' = db_steps db"
  unfolding delete_interfaces_def Let_def by (drule guarded_row) simp

lemma add_managed_address_ops [op_frame]:
  "add_managed_address gen now iid x db = Inr db' \<Longrightarrow> db_operations db' = db_operations db \<and> db_steps db' = db_steps db"
  by (auto simp: add_managed_address_def split: prod.splits option.splits dest!: op_frame)

lemma add_managed_resource_ops [op_frame]:
  "add_managed_resource gen now iid oid n x db = Inr db' \<Longrightarrow>
     db_operations db' = db_operations db \<and> db_steps db' = db_steps db"
  by (auto simp: add_managed_resource_def split: prod.splits dest!: op_frame)

lemma fold_r_ops:
  assumes "fold_r f xs db = Inr db'"
    and "\<And>x d d'. f x d = Inr d' \<Longrightarrow> db_operations d' = db_operations d \<and> db_steps d' = db_steps d"
  shows "db_operations db' = db_operations db \<and> db_steps db' = db_steps db"
  by (rule fold_r_invariant [OF assms(1), where P = "\<lambda>d. db_operations d = db_operations db \<and> db_steps d = db_steps db"])
    (use assms(2) in auto)

lemma op_frame_wf:
  "db_operations db' = db_operations db \<and> db_steps db' = db_steps db \<Longrightarrow> operations_wf db \<Longrightarrow> operations_wf db'"
  by (simp add: operations_wf_def)

lemmas op_wf = op_frame [THEN op_frame_wf] fold_r_ops [THEN op_frame_wf]

section \<open>Every method keeps the operation tables well formed\<close>

lemma commit_keeps:
  "(\<And>x db'. commit_tx db r = (Inr x, db') \<Longrightarrow> P db') \<Longrightarrow> P db \<Longrightarrow> P (snd (commit_tx db r))"
  by (cases r) (auto simp: commit_tx_def)

lemma reserve_Inr:
  assumes "reserve_managed_interface now oid inp db = (Inr u, db')"
  obtains op db1 where "mi_id inp \<noteq> []"
    and "op_where (\<lambda>r. o_id r = oid) db = Inr op" and "o_type op = ''create_interface''" and "o_state op = StateValidated"
    and "insert_interface (reserved_row inp now) db = Inr db1"
    and "update_operations (\<lambda>r. o_id r = oid \<and> o_state r = StateValidated \<and> o_interface_id r = None)
         (\<lambda>r. r\<lparr>o_interface_id := Some (mi_id inp), o_updated_at_ms := unix_milli now\<rparr>) db1 = Inr (1, db')"
  using assms by (auto simp: reserve_managed_interface_def commit_tx_Inr simp del: bind_check)

lemma reserve_wf: "operations_wf db \<Longrightarrow> operations_wf (snd (reserve_managed_interface now oid inp db))"
  unfolding reserve_managed_interface_def
  by (rule commit_keeps, fold reserve_managed_interface_def, erule reserve_Inr)
    (auto simp: idem_key_def elim!: update_operations_wf dest!: insert_interface_ops [THEN op_frame_wf])

lemma complete_Inr:
  assumes "complete_managed_interface gen now oid inp resources db = (Inr x, db')"
  obtains op rid db1 db2 db3 db4 where
    "op_where (\<lambda>r. o_id r = oid \<and> o_type r = ''create_interface'') db = Inr op"
    and "o_state op = StateExecuting" and "o_interface_id op = Some (mi_id inp)" and "gen 0 now = Inr rid"
    and "insert_revision (revision_row_of rid (mi_id inp) 1 (nullable (mi_file_hash inp))
           (mi_runtime_fingerprint inp) oid now) db = Inr db1"
    and "update_interfaces (\<lambda>r. i_id r = mi_id inp \<and> i_management_mode r = ''managed'' \<and> i_revision r = 0)
         (activate_row inp rid now) db1 = Inr (1, db2)"
    and "fold_r (add_managed_address gen now (mi_id inp)) (enumerate 0 (mi_addresses inp)) db2 = Inr db3"
    and "fold_r (add_managed_resource gen now (mi_id inp) oid (2 * length (mi_addresses inp) + 1))
         (enumerate 0 resources) db3 = Inr db4"
    and "to_verifying oid (mi_file_hash inp) now db4 = Inr db'" and "x = 1"
  using assms unfolding complete_managed_interface_def tx_simps
  by (clarify, intro that) (assumption | rule refl)+

lemma complete_wf:
  assumes "operations_wf db"
  shows "operations_wf (snd (complete_managed_interface gen now oid inp resources db))"
  unfolding complete_managed_interface_def
proof (rule commit_keeps, fold complete_managed_interface_def)
  fix x db' assume "complete_managed_interface gen now oid inp resources db = (Inr x, db')"
  then obtain rid db1 db2 db3 db4 where 1: "insert_revision (revision_row_of rid (mi_id inp) 1
      (nullable (mi_file_hash inp)) (mi_runtime_fingerprint inp) oid now) db = Inr db1"
    and 2: "update_interfaces (\<lambda>r. i_id r = mi_id inp \<and> i_management_mode r = ''managed'' \<and> i_revision r = 0)
         (activate_row inp rid now) db1 = Inr (1, db2)"
    and 3: "fold_r (add_managed_address gen now (mi_id inp)) (enumerate 0 (mi_addresses inp)) db2 = Inr db3"
    and 4: "fold_r (add_managed_resource gen now (mi_id inp) oid (2 * length (mi_addresses inp) + 1))
         (enumerate 0 resources) db3 = Inr db4"
    and 5: "to_verifying oid (mi_file_hash inp) now db4 = Inr db'"
    by (rule complete_Inr)
  note frames = fold_r_ops [OF 4 add_managed_resource_ops] fold_r_ops [OF 3 add_managed_address_ops]
    update_interfaces_ops [OF 2] insert_revision_ops [OF 1]
  from frames have "db_operations db4 = db_operations db \<and> db_steps db4 = db_steps db" by simp
  from to_verifying_wf [OF 5 op_frame_wf [OF this assms]] show "operations_wf db'" .
qed (rule assms)

lemma finalize_control_Inr:
  assumes "finalize_control_operation gen now oid action tt tid before after db = (Inr u, db')"
  obtains op aid db1 where "op_where (\<lambda>r. o_id r = oid \<and> o_state r = StateVerifying) db = Inr op" and "gen 0 now = Inr aid"
    and "insert_audit (audit_of aid op action tt tid (Some before) (Some after) None now) db = Inr db1"
    and "finish_operation oid StateVerifying StateCommitted now ''operation verification state changed'' db1 = Inr db'"
  using assms unfolding finalize_control_operation_def tx_simps
  by (clarify, intro that) (assumption | rule refl)+

lemma finalize_control_wf:
  assumes "operations_wf db"
  shows "operations_wf (snd (finalize_control_operation gen now oid action tt tid before after db))"
  unfolding finalize_control_operation_def
proof (rule commit_keeps, fold finalize_control_operation_def)
  fix u db' assume "finalize_control_operation gen now oid action tt tid before after db = (Inr u, db')"
  then obtain op :: operation_row and aid db1 where 1: "insert_audit (audit_of aid op action tt tid (Some before) (Some after) None now) db = Inr db1"
    and 2: "finish_operation oid StateVerifying StateCommitted now ''operation verification state changed'' db1 = Inr db'"
    by (rule finalize_control_Inr)
  from finish_operation_wf [OF 2 op_frame_wf [OF insert_audit_ops [OF 1] assms]] show "operations_wf db'" .
qed (rule assms)

lemma finish_rollback_wf: "operations_wf db \<Longrightarrow> operations_wf (snd (finish_control_rollback now oid db))"
  by (auto simp: finish_control_rollback_def idem_key_def split: sum.split elim!: update_operations_wf)

lemma remove_reservation_wf:
  assumes "remove_reservation oid iid db = Inr db'" and "operations_wf db"
  shows "operations_wf db'"
proof (cases "iid = []")
  case True
  with assms show ?thesis by (simp add: remove_reservation_def)
next
  case False
  with assms(1) obtain db1 where "detach_operations (\<lambda>r. o_id r = oid) db = Inr db1"
    and "delete_interfaces (\<lambda>r. i_id r = iid \<and> i_management_mode r = ''managed'' \<and> i_revision r \<in> {0, 1}) db1 = Inr (1, db')"
    unfolding remove_reservation_def if_not_P [OF False] tx_simps by blast
  note d = this
  show ?thesis
    by (rule op_frame_wf [OF delete_interfaces_ops [OF d(2)] detach_operations_wf [OF d(1) assms(2)]])
qed

lemma rollback_Inr:
  assumes "rollback_managed_interface now oid db = (Inr u, db')"
  obtains op db1 db2 where "op_where (\<lambda>r. o_id r = oid \<and> o_type r = ''create_interface'') db = Inr op"
    and "o_state op = StateRollingBack" and "remove_reservation oid (coalesce (o_interface_id op)) db = Inr db1"
    and "(case find (\<lambda>s. sn_operation_id s = oid) (db_snapshots db) of None \<Rightarrow> Inr db1
      | Some s \<Rightarrow> delete_envelope (sn_secret_envelope_id s) db1) = Inr db2"
    and "finish_operation oid StateRollingBack StateRolledBack now ''create-interface rollback state changed'' db2 = Inr db'"
  using assms unfolding rollback_managed_interface_def tx_simps
  by (clarify, intro that) (assumption | rule refl)+

lemma rollback_wf:
  assumes "operations_wf db"
  shows "operations_wf (snd (rollback_managed_interface now oid db))"
  unfolding rollback_managed_interface_def
proof (rule commit_keeps, fold rollback_managed_interface_def)
  fix u db' assume "rollback_managed_interface now oid db = (Inr u, db')"
  then obtain op :: operation_row and db1 db2 where 1: "remove_reservation oid (coalesce (o_interface_id op)) db = Inr db1"
    and 2: "(case find (\<lambda>s. sn_operation_id s = oid) (db_snapshots db) of None \<Rightarrow> Inr db1
      | Some s \<Rightarrow> delete_envelope (sn_secret_envelope_id s) db1) = Inr db2"
    and 3: "finish_operation oid StateRollingBack StateRolledBack now ''create-interface rollback state changed'' db2 = Inr db'"
    by (rule rollback_Inr)
  from 1 assms have "operations_wf db1" by (rule remove_reservation_wf)
  with 2 have "operations_wf db2" by (auto split: option.splits intro: delete_envelope_ops [THEN op_frame_wf])
  with 3 show "operations_wf db'" by (rule finish_operation_wf)
qed (rule assms)

text \<open>The rejection, as the removal of the reservation and the update of the operation.\<close>

definition rejected_row :: "time \<Rightarrow> failure option \<Rightarrow> operation_row \<Rightarrow> operation_row" where
  "rejected_row now f r = r\<lparr>o_state := StateRejected, o_error_code := map_option fail_code f,
     o_error_message := map_option fail_message f, o_updated_at_ms := unix_milli now,
     o_finished_at_ms := Some (unix_milli now)\<rparr>"

lemma reject_Inr:
  assumes "reject_managed_interface now oid f db = (Inr u, db')"
  obtains op db3 where "op_where (\<lambda>r. o_id r = oid \<and> o_type r = ''create_interface'') db = Inr op"
    and "o_state op = StateValidated"
    and "(if coalesce (o_interface_id op) = [] then Inr db
         else
           bind_r (detach_operations (\<lambda>r. o_id r = oid) db) (\<lambda>db1.
           bind_r (delete_interfaces
             (\<lambda>r. i_id r = coalesce (o_interface_id op) \<and> i_management_mode r = ''managed'' \<and> i_revision r = 0) db1) (\<lambda>(n, db2).
           bind_r (check (n = 1) (RepoError ''managed interface reservation changed before rejection'')) (\<lambda>_.
           Inr db2)))) = Inr db3"
    and "update_operations (\<lambda>r. o_id r = oid \<and> o_state r = StateValidated) (rejected_row now f) db3 = Inr (1, db')"
  using assms unfolding reject_managed_interface_def rejected_row_def [abs_def] commit_tx_Inr Let_def
  by (simp only: bind_r_eq_Inr [of "op_where _ _"] bind_r_eq_Inr [of "check _ _"] check_eq_Inr
      bind_r_eq_Inr [of "if _ then _ else _"] bind_r_eq_Inr [of "update_operations _ _ _"] split_paired_Ex prod.case
      sum.inject prod.inject) blast

lemma reject_wf:
  assumes "operations_wf db"
  shows "operations_wf (snd (reject_managed_interface now oid f db))"
  unfolding reject_managed_interface_def
proof (rule commit_keeps, fold reject_managed_interface_def)
  fix u db' assume "reject_managed_interface now oid f db = (Inr u, db')"
  then obtain op :: operation_row and db3 where 1: "(if coalesce (o_interface_id op) = [] then Inr db
         else
           bind_r (detach_operations (\<lambda>r. o_id r = oid) db) (\<lambda>db1.
           bind_r (delete_interfaces
             (\<lambda>r. i_id r = coalesce (o_interface_id op) \<and> i_management_mode r = ''managed'' \<and> i_revision r = 0) db1) (\<lambda>(n, db2).
           bind_r (check (n = 1) (RepoError ''managed interface reservation changed before rejection'')) (\<lambda>_.
           Inr db2)))) = Inr db3"
    and 2: "update_operations (\<lambda>r. o_id r = oid \<and> o_state r = StateValidated) (rejected_row now f) db3 = Inr (1, db')"
    by (rule reject_Inr)
  have "operations_wf db3"
  proof (cases "coalesce (o_interface_id op) = []")
    case True
    with 1 assms show ?thesis by simp
  next
    case False
    from 1 [unfolded if_not_P [OF False] tx_simps] obtain db1 n where
      "detach_operations (\<lambda>r. o_id r = oid) db = Inr db1" and
      "delete_interfaces (\<lambda>r. i_id r = coalesce (o_interface_id op) \<and> i_management_mode r = ''managed'' \<and>
         i_revision r = 0) db1 = Inr (n, db3)" by (elim exE conjE) (rule that, assumption, simp)
    note d = this
    show ?thesis by (rule op_frame_wf [OF delete_interfaces_ops [OF d(2)] detach_operations_wf [OF d(1) assms]])
  qed
  with 2 show "operations_wf db'" by (rule update_operations_wf) (simp add: rejected_row_def idem_key_def)
qed (rule assms)

lemma removal_Inr:
  assumes "finalize_interface_removal gen now oid db = (Inr x, db')"
  obtains op iid expected i db1 db2 db3 aid db4 where "op_where (\<lambda>r. o_id r = oid) db = Inr op"
    and "o_interface_id op = Some iid" and "o_expected_revision op = Some expected"
    and "o_type op = ''set_interface_state''" and "o_state op = StateVerifying"
    and "query_row (\<lambda>r. i_id r = iid) (db_interfaces db) = Inr i"
    and "i_management_mode i = ''managed''" and "i_revision i = expected"
    and "detach_operations (\<lambda>r. o_interface_id r = Some iid) db = Inr db1"
    and "delete_interfaces (\<lambda>r. i_id r = iid \<and> i_management_mode r = ''managed'' \<and> i_revision r = i_revision i) db1 = Inr (1, db2)"
    and "fold_r (\<lambda>eid d. wrap_r ''delete interface-owned secret'' (delete_envelope eid d))
        (map se_id (filter (owned_by_interface iid db) (db_envelopes db))) db2 = Inr db3"
    and "gen 0 now = Inr aid"
    and "insert_audit (audit_of aid op ''remove_interface'' ''interface'' iid (Some (i_revision i)) None
         (Some (''removed managed interface with '' @ show_nat (affected (\<lambda>p. p_interface_id p = iid) (db_peers db)) @ '' peer(s)'')) now) db3 = Inr db4"
    and "finish_operation oid StateVerifying StateCommitted now ''interface-removal operation state changed'' db4 = Inr db'"
    and "x = (i_revision i, affected (\<lambda>p. p_interface_id p = iid) (db_peers db))"
proof -
  from assms obtain op iid where op: "op_where (\<lambda>r. o_id r = oid) db = Inr op" "o_interface_id op = Some iid"
    unfolding finalize_interface_removal_def tx_simps by blast
  show thesis
  proof (cases "o_expected_revision op")
    case None
    with op assms show thesis by (simp add: finalize_interface_removal_def scan_string_def)
  next
    case (Some expected)
    from assms show thesis
      unfolding finalize_interface_removal_def commit_tx_Inr op scan_string_def option.case bind_r_simps Some
      unfolding tx_simps
      by (clarify, intro that [OF op Some]) (assumption | rule refl | erule sym)+
  qed
qed

lemma removal_wf:
  assumes "operations_wf db"
  shows "operations_wf (snd (finalize_interface_removal gen now oid db))"
  unfolding finalize_interface_removal_def
proof (rule commit_keeps, fold finalize_interface_removal_def)
  fix x db' assume "finalize_interface_removal gen now oid db = (Inr x, db')"
  then show "operations_wf db'"
  proof (rule removal_Inr)
    fix op iid i db1 db2 db3 aid db4
    assume 1: "detach_operations (\<lambda>r. o_interface_id r = Some iid) db = Inr db1"
      and 2: "delete_interfaces (\<lambda>r. i_id r = iid \<and> i_management_mode r = ''managed'' \<and> i_revision r = i_revision i) db1 = Inr (1, db2)"
      and 3: "fold_r (\<lambda>eid d. wrap_r ''delete interface-owned secret'' (delete_envelope eid d))
        (map se_id (filter (owned_by_interface iid db) (db_envelopes db))) db2 = Inr db3"
      and 4: "insert_audit (audit_of aid op ''remove_interface'' ''interface'' iid (Some (i_revision i)) None
         (Some (''removed managed interface with '' @ show_nat (affected (\<lambda>p. p_interface_id p = iid) (db_peers db)) @ '' peer(s)'')) now) db3 = Inr db4"
      and 5: "finish_operation oid StateVerifying StateCommitted now ''interface-removal operation state changed'' db4 = Inr db'"
    have "db_operations db3 = db_operations db2 \<and> db_steps db3 = db_steps db2"
      by (rule fold_r_ops [OF 3]) (auto dest: delete_envelope_ops)
    with delete_interfaces_ops [OF 2] insert_audit_ops [OF 4]
    have "db_operations db4 = db_operations db1 \<and> db_steps db4 = db_steps db1" by simp
    from finish_operation_wf [OF 5 op_frame_wf [OF this detach_operations_wf [OF 1 assms]]] show ?thesis .
  qed
qed (rule assms)

text \<open>
  whatever a method of the managed-interface life cycle does, and whether it succeeds or
  fails, the operation tables stay well formed: keys unique, steps attached to operations, at
  most one active operation per interface.
\<close>

theorem control_methods_keep_operations:
  assumes "operations_wf db"
  shows "operations_wf (snd (reserve_managed_interface now oid inp db)) \<and>
    operations_wf (snd (complete_managed_interface gen now oid inp resources db)) \<and>
    operations_wf (snd (finalize_control_operation gen now oid action tt tid before after db)) \<and>
    operations_wf (snd (finish_control_rollback now oid db)) \<and>
    operations_wf (snd (rollback_managed_interface now oid db)) \<and>
    operations_wf (snd (reject_managed_interface now oid f db)) \<and>
    operations_wf (snd (finalize_interface_removal gen now oid db))"
  by (intro conjI reserve_wf complete_wf finalize_control_wf finish_rollback_wf rollback_wf reject_wf removal_wf assms)

section \<open>A rejected reservation leaves no trace\<close>

text \<open>The foreign keys to interfaces.\<close>

definition interface_refs_wf :: "agent_db \<Rightarrow> bool" where
  "interface_refs_wf db \<longleftrightarrow>
     (let ids = i_id ` set (db_interfaces db) in
      (\<forall>r \<in> set (db_addresses db). ia_interface_id r \<in> ids) \<and> (\<forall>r \<in> set (db_pools db). ap_interface_id r \<in> ids) \<and>
      (\<forall>r \<in> set (db_peers db). p_interface_id r \<in> ids) \<and> (\<forall>r \<in> set (db_snapshots db). sn_interface_id r \<in> ids) \<and>
      (\<forall>r \<in> set (db_revisions db). rv_interface_id r \<in> ids) \<and> (\<forall>r \<in> set (db_resources db). mr_interface_id r \<in> ids) \<and>
      (\<forall>r \<in> set (db_operations db). fk_interface db (o_interface_id r)))"

lemma interface_refs_fresh:
  assumes "interface_refs_wf db" "iid \<notin> i_id ` set (db_interfaces db)"
  shows "r1 \<in> set (db_addresses db) \<Longrightarrow> ia_interface_id r1 \<noteq> iid"
    "r2 \<in> set (db_pools db) \<Longrightarrow> ap_interface_id r2 \<noteq> iid"
    "r3 \<in> set (db_peers db) \<Longrightarrow> p_interface_id r3 \<noteq> iid"
    "r4 \<in> set (db_snapshots db) \<Longrightarrow> sn_interface_id r4 \<noteq> iid"
    "r5 \<in> set (db_revisions db) \<Longrightarrow> rv_interface_id r5 \<noteq> iid"
    "r6 \<in> set (db_resources db) \<Longrightarrow> mr_interface_id r6 \<noteq> iid"
  using assms unfolding interface_refs_wf_def Let_def by metis+

lemma drop_ref_none: "drop_ref (\<lambda>x. False) v = v"
  by (simp add: drop_ref_def split: option.split)

lemma filter_all: "(\<And>x. x \<in> set xs \<Longrightarrow> P x) \<Longrightarrow> filter P xs = xs"
  by (simp add: filter_id_conv)

lemma delete_unreferenced:
  assumes only: "\<And>r. r \<in> set (db_interfaces db) \<Longrightarrow> P r \<Longrightarrow> i_id r = iid"
    and refs: "\<And>r. r \<in> set (db_addresses db) \<Longrightarrow> ia_interface_id r \<noteq> iid"
      "\<And>r. r \<in> set (db_pools db) \<Longrightarrow> ap_interface_id r \<noteq> iid"
      "\<And>r. r \<in> set (db_peers db) \<Longrightarrow> p_interface_id r \<noteq> iid"
      "\<And>r. r \<in> set (db_snapshots db) \<Longrightarrow> sn_interface_id r \<noteq> iid"
      "\<And>r. r \<in> set (db_revisions db) \<Longrightarrow> rv_interface_id r \<noteq> iid"
      "\<And>r. r \<in> set (db_resources db) \<Longrightarrow> mr_interface_id r \<noteq> iid"
      "\<And>r. r \<in> set (db_operations db) \<Longrightarrow> o_interface_id r \<noteq> Some iid"
  shows "delete_interfaces P db =
    Inr (affected P (db_interfaces db), db\<lparr>db_interfaces := filter (\<lambda>r. \<not> P r) (db_interfaces db)\<rparr>)"
proof -
  define gone where "gone = (\<lambda>x. \<exists>r \<in> set (db_interfaces db). P r \<and> i_id r = x)"
  have g: "gone x \<Longrightarrow> x = iid" for x using only by (auto simp: gone_def)
  have pools: "(\<exists>r \<in> set (db_pools db). gone (ap_interface_id r) \<and> ap_id r = x) = False" for x
    using refs(2) g by auto
  have peers: "(\<exists>r \<in> set (db_peers db). gone (p_interface_id r) \<and> p_id r = x) = False" for x
    using refs(3) g by auto
  have revs: "(\<exists>r \<in> set (db_revisions db). gone (rv_interface_id r) \<and> rv_id r = x) = False" for x
    using refs(5) g by auto
  have ops: "list_all (\<lambda>r. case o_interface_id r of None \<Rightarrow> True | Some x \<Rightarrow> \<not> gone x) (db_operations db)"
    using refs(7) g by (auto simp: list_all_iff split: option.split)
  have keep: "filter (\<lambda>r. \<not> gone (ia_interface_id r)) (db_addresses db) = db_addresses db"
    "filter (\<lambda>r. \<not> gone (ap_interface_id r)) (db_pools db) = db_pools db"
    "filter (\<lambda>r. \<not> gone (p_interface_id r)) (db_peers db) = db_peers db"
    "filter (\<lambda>r. \<not> gone (sn_interface_id r)) (db_snapshots db) = db_snapshots db"
    "filter (\<lambda>r. \<not> gone (rv_interface_id r)) (db_revisions db) = db_revisions db"
    "filter (\<lambda>r. \<not> gone (mr_interface_id r)) (db_resources db) = db_resources db"
    by (rule filter_all, use refs g in blast)+
  show ?thesis
    unfolding delete_interfaces_def Let_def gone_def [symmetric] pools peers revs
    by (simp add: constraints.simps ops keep drop_ref_none filter_True)
qed

lemma op_where_Inr: "op_where P db = Inr op \<Longrightarrow> op \<in> set (db_operations db) \<and> P op"
  by (auto simp: op_where_def dest: query_row_InrD)

text \<open>
  C14: a reservation that is rejected leaves no trace: rejecting the operation right after a
  successful reservation succeeds and gives back the database as it was before, in every table,
  but for the operation itself, which is rejected.
\<close>

theorem rejected_reservation_leaves_no_trace:
  assumes wf: "operations_wf db" and refs: "interface_refs_wf db"
    and res: "reserve_managed_interface now oid inp db = (Inr (), db1)"
  shows "reject_managed_interface now' oid f db1 =
    (Inr (), db\<lparr>db_operations := update_rows (\<lambda>r. o_id r = oid) (rejected_row now' f) (db_operations db)\<rparr>)"
proof -
  let ?ops = "db_operations db" and ?ifs = "db_interfaces db" and ?Q = "\<lambda>r. o_id r = oid"
  let ?row = "reserved_row inp now" and ?id = "mi_id inp"
  let ?g = "\<lambda>r. r\<lparr>o_interface_id := Some ?id, o_updated_at_ms := unix_milli now\<rparr>"
  let ?d = "\<lambda>r. (?g r)\<lparr>o_interface_id := None\<rparr>"
  from res obtain op dbi where idn: "?id \<noteq> []" and op: "op_where ?Q db = Inr op" "o_type op = ''create_interface''"
      "o_state op = StateValidated" and ins: "insert_interface ?row db = Inr dbi"
    and upd: "update_operations (\<lambda>r. o_id r = oid \<and> o_state r = StateValidated \<and> o_interface_id r = None) ?g dbi = Inr (1, db1)"
    by (rule reserve_Inr)
  from ins have fresh: "?id \<notin> i_id ` set ?ifs" and dbi: "dbi = db\<lparr>db_interfaces := ?ifs @ [?row]\<rparr>"
    by (auto simp: insert_interface_def key_fresh_def reserved_row_def)
  from wf have key: "keyed o_id ?ops" and act: "one_active ?ops" by (simp_all add: operations_wf_def)
  from op_where_Inr [OF op(1)] have opm: "op \<in> set ?ops" "o_id op = oid" by auto
  have uniq: "r = op" if "r \<in> set ?ops" "o_id r = oid" for r using keyed_eq [OF key that(1) opm(1)] that(2) opm(2) by simp
  from update_operations_frame [OF upd] have one: "affected (\<lambda>r. o_id r = oid \<and> o_state r = StateValidated \<and> o_interface_id r = None) ?ops = Suc 0"
    and db1: "db1 = dbi\<lparr>db_operations := update_rows (\<lambda>r. o_id r = oid \<and> o_state r = StateValidated \<and> o_interface_id r = None) ?g ?ops\<rparr>"
    by (simp_all add: dbi)
  from keyed_affected [OF key one] obtain r where "find (\<lambda>x. o_id x = oid) ?ops = Some r" "o_interface_id r = None" by blast
  with uniq have none: "o_interface_id op = None" by (auto dest: find_SomeD)
  have rows: "update_rows (\<lambda>r. o_id r = oid \<and> o_state r = StateValidated \<and> o_interface_id r = None) ?g ?ops = update_rows ?Q ?g ?ops"
    by (rule update_rows_cong) (use uniq none op(3) in auto)
  then have db1: "db1 = db\<lparr>db_interfaces := ?ifs @ [?row], db_operations := update_rows ?Q ?g ?ops\<rparr>"
    by (simp add: db1 dbi)
  have keyg: "keyed o_id (update_rows ?Q h ?ops)" if "\<And>r. o_id (h r) = o_id r" for h
    using that by (intro keyed_update key) simp
  have memg: "h op \<in> set (update_rows ?Q h ?ops)" for h
    using opm by (auto simp: set_update_rows)
  have found: "op_where (\<lambda>r. o_id r = oid \<and> o_type r = ''create_interface'') db1 = Inr (?g op)"
    using keyed_find_where [OF keyg memg, of ?g oid "\<lambda>r. o_type r = ''create_interface''"] opm(2) op(2)
    by (simp add: op_where_def query_row_def db1)
  have detach: "detach_operations ?Q db1 = Inr (db1\<lparr>db_operations := update_rows ?Q ?d ?ops\<rparr>)"
  proof -
    have "one_active (update_rows ?Q ?d ?ops)" by (rule one_active_update [OF _ act]) simp
    moreover have "update_rows ?Q (\<lambda>r. r\<lparr>o_interface_id := None\<rparr>) (update_rows ?Q ?g ?ops) = update_rows ?Q ?d ?ops"
      by (rule update_rows_twice) simp_all
    ultimately show ?thesis by (simp add: detach_operations_def update_operations_def Let_def db1)
  qed
  let ?db2 = "db1\<lparr>db_operations := update_rows ?Q ?d ?ops\<rparr>"
  let ?P = "\<lambda>r. i_id r = ?id \<and> i_management_mode r = ''managed'' \<and> i_revision r = 0"
  have delete: "delete_interfaces ?P ?db2 = Inr (1, db\<lparr>db_operations := update_rows ?Q ?d ?ops\<rparr>)"
  proof -
    have "delete_interfaces ?P ?db2 = Inr (affected ?P (db_interfaces ?db2),
        ?db2\<lparr>db_interfaces := filter (\<lambda>r. \<not> ?P r) (db_interfaces ?db2)\<rparr>)"
    proof (rule delete_unreferenced [where iid = ?id])
      fix r assume "r \<in> set (db_operations ?db2)"
      with refs fresh show "o_interface_id r \<noteq> Some ?id"
        by (auto simp: set_update_rows interface_refs_wf_def Let_def fk_interface_def)
    qed (use refs fresh in \<open>auto simp: db1 dest: interface_refs_fresh\<close>)
    moreover have "\<not> ?P r" if "r \<in> set ?ifs" for r using imageI [OF that, of i_id] fresh by metis
    then have "filter ?P ?ifs = []" "filter (\<lambda>r. \<not> ?P r) ?ifs = ?ifs"
      by (simp_all add: filter_empty_conv filter_id_conv)
    moreover have "?P ?row" by (simp add: reserved_row_def)
    ultimately show ?thesis by (simp add: db1 affected_def)
  qed
  let ?db3 = "db\<lparr>db_operations := update_rows ?Q ?d ?ops\<rparr>"
  have reject: "update_operations (\<lambda>r. o_id r = oid \<and> o_state r = StateValidated) (rejected_row now' f) ?db3
    = Inr (1, db\<lparr>db_operations := update_rows ?Q (rejected_row now' f) ?ops\<rparr>)"
  proof -
    have "affected (\<lambda>r. o_id r = oid \<and> o_state r = StateValidated) (update_rows ?Q ?d ?ops) = Suc 0"
      by (rule keyed_affected_one [OF keyg memg]) (simp_all add: opm op)
    moreover have "update_rows (\<lambda>r. o_id r = oid \<and> o_state r = StateValidated) (rejected_row now' f) (update_rows ?Q ?d ?ops)
      = update_rows ?Q (rejected_row now' f) ?ops"
      using uniq op(3) none by (auto simp: update_rows_def rejected_row_def)
    moreover have "one_active (update_rows ?Q (rejected_row now' f) ?ops)"
      by (rule one_active_update [OF _ act]) (simp add: rejected_row_def active_op_state_def)
    ultimately show ?thesis by (simp add: update_operations_def Let_def)
  qed
  show ?thesis
    unfolding reject_managed_interface_def found bind_r_simps Let_def
    using idn op(3) detach delete reject
    by (simp add: coalesce_def rejected_row_def [abs_def])
qed

section \<open>A finalized operation is audited exactly once\<close>

definition committed_row :: "time \<Rightarrow> operation_row \<Rightarrow> operation_row" where
  "committed_row now r = r\<lparr>o_state := StateCommitted, o_updated_at_ms := unix_milli now,
     o_finished_at_ms := Some (unix_milli now)\<rparr>"

lemma finish_operation_frame:
  "finish_operation oid from to now conflict db = Inr db' \<Longrightarrow>
     db' = db\<lparr>db_operations := update_rows (\<lambda>r. o_id r = oid \<and> o_state r = from)
       (\<lambda>r. r\<lparr>o_state := to, o_updated_at_ms := unix_milli now, o_finished_at_ms := Some (unix_milli now)\<rparr>)
       (db_operations db)\<rparr>"
  by (auto simp: finish_operation_Inr dest: update_operations_frame)

lemma insert_audit_frame: "insert_audit r db = Inr db' \<Longrightarrow> db' = db\<lparr>db_audit := db_audit db @ [r]\<rparr>"
  unfolding insert_audit_def by (drule guarded_row) simp

text \<open>
  a finalized operation is committed and audited exactly once: the only changes are one audit
  row, attributed to the operation's actor and request, and the state of the operation; a second
  finalization finds no operation being verified and changes nothing.
\<close>

theorem finalize_writes_one_audit:
  assumes "finalize_control_operation gen now oid action tt tid before after db = (Inr (), db')"
  shows "(\<exists>op aid. op_where (\<lambda>r. o_id r = oid \<and> o_state r = StateVerifying) db = Inr op \<and> gen 0 now = Inr aid \<and>
      db' = db\<lparr>db_audit := db_audit db @ [audit_of aid op action tt tid (Some before) (Some after) None now],
        db_operations := update_rows (\<lambda>r. o_id r = oid \<and> o_state r = StateVerifying) (committed_row now)
          (db_operations db)\<rparr>) \<and>
    finalize_control_operation gen' now' oid action' tt' tid' before' after' db' = (Inl SqlNoRows, db')"
proof -
  from assms obtain op :: operation_row and aid db1 where op: "op_where (\<lambda>r. o_id r = oid \<and> o_state r = StateVerifying) db = Inr op"
    and aid: "gen 0 now = Inr aid"
    and 1: "insert_audit (audit_of aid op action tt tid (Some before) (Some after) None now) db = Inr db1"
    and 2: "finish_operation oid StateVerifying StateCommitted now ''operation verification state changed'' db1 = Inr db'"
    by (rule finalize_control_Inr)
  let ?ops = "update_rows (\<lambda>r. o_id r = oid \<and> o_state r = StateVerifying) (committed_row now) (db_operations db)"
  from insert_audit_frame [OF 1] finish_operation_frame [OF 2]
  have db': "db' = db\<lparr>db_audit := db_audit db @ [audit_of aid op action tt tid (Some before) (Some after) None now],
        db_operations := ?ops\<rparr>" by (simp add: committed_row_def [abs_def])
  have "find (\<lambda>r. o_id r = oid \<and> o_state r = StateVerifying) ?ops = None"
    by (rule find_update_rows_none) (simp_all add: committed_row_def)
  then have "finalize_control_operation gen' now' oid action' tt' tid' before' after' db' = (Inl SqlNoRows, db')"
    by (simp add: finalize_control_operation_def op_where_def query_row_def db' commit_tx_def)
  with op aid db' show ?thesis by (intro conjI exI)
qed

section \<open>A removed interface leaves no row\<close>

text \<open>No row of the database is about the interface \<open>iid\<close>, or about one of its \<open>peers\<close>.\<close>

definition no_interface_rows :: "string \<Rightarrow> string set \<Rightarrow> agent_db \<Rightarrow> bool" where
  "no_interface_rows iid peers d \<longleftrightarrow>
     iid \<notin> i_id ` set (db_interfaces d) \<and> iid \<notin> ia_interface_id ` set (db_addresses d) \<and>
     iid \<notin> ap_interface_id ` set (db_pools d) \<and> iid \<notin> p_interface_id ` set (db_peers d) \<and>
     iid \<notin> sn_interface_id ` set (db_snapshots d) \<and> iid \<notin> rv_interface_id ` set (db_revisions d) \<and>
     iid \<notin> mr_interface_id ` set (db_resources d) \<and> Some iid \<notin> o_interface_id ` set (db_operations d) \<and>
     peers \<inter> oa_peer_id ` set (db_artifacts d) = {} \<and> peers \<inter> cp_peer_id ` set (db_profiles d) = {} \<and>
     peers \<inter> pa_peer_id ` set (db_allowed d) = {}"

definition peers_of :: "string \<Rightarrow> agent_db \<Rightarrow> string set" where
  "peers_of iid db = p_id ` set (filter (\<lambda>p. p_interface_id p = iid) (db_peers db))"

lemma delete_envelope_frame:
  assumes "delete_envelope eid db = Inr db'"
  shows "db_interfaces db' = db_interfaces db \<and> db_addresses db' = db_addresses db \<and> db_pools db' = db_pools db \<and>
    db_snapshots db' = db_snapshots db \<and> db_revisions db' = db_revisions db \<and> db_resources db' = db_resources db \<and>
    db_operations db' = db_operations db \<and> db_allowed db' = db_allowed db \<and> db_audit db' = db_audit db \<and>
    p_interface_id ` set (db_peers db') = p_interface_id ` set (db_peers db) \<and>
    oa_peer_id ` set (db_artifacts db') = oa_peer_id ` set (db_artifacts db) \<and>
    cp_peer_id ` set (db_profiles db') = cp_peer_id ` set (db_profiles db) \<and>
    db_envelopes db' = filter (\<lambda>e. se_id e \<noteq> eid) (db_envelopes db)"
proof (cases "eid \<in> se_id ` set (db_envelopes db)")
  case False
  then have "filter (\<lambda>e. se_id e \<noteq> eid) (db_envelopes db) = db_envelopes db" by (auto simp: filter_id_conv)
  with False assms show ?thesis by (simp add: delete_envelope_def)
next
  case True
  then have "\<not> eid \<notin> se_id ` set (db_envelopes db)" by simp
  from assms [unfolded delete_envelope_def Let_def if_not_P [OF \<open>\<not> eid \<notin> _\<close>]]
  show ?thesis by (drule_tac guarded_row) (simp add: image_image)
qed

lemma no_rows_delete_envelope:
  "delete_envelope eid d = Inr d' \<Longrightarrow> no_interface_rows iid peers d \<Longrightarrow> no_interface_rows iid peers d'"
  by (drule delete_envelope_frame) (simp add: no_interface_rows_def)

lemma delete_envelopes_frame:
  assumes "fold_r (\<lambda>eid d. wrap_r msg (delete_envelope eid d)) eids d = Inr d'"
    and "no_interface_rows iid peers d"
  shows "no_interface_rows iid peers d' \<and> db_interfaces d' = db_interfaces d \<and> db_audit d' = db_audit d \<and>
    db_operations d' = db_operations d \<and> db_envelopes d' = filter (\<lambda>e. se_id e \<notin> set eids) (db_envelopes d)"
  using assms
proof (induction eids arbitrary: d)
  case (Cons eid eids)
  then obtain d1 where 1: "delete_envelope eid d = Inr d1"
    and 2: "fold_r (\<lambda>eid d. wrap_r msg (delete_envelope eid d)) eids d1 = Inr d'" by auto
  from Cons.IH [OF 2 no_rows_delete_envelope [OF 1 Cons.prems(2)]] delete_envelope_frame [OF 1]
  show ?case by (simp add: conj_commute)
qed simp

lemma detach_operations_frame:
  "detach_operations P db = Inr db' \<Longrightarrow>
     db' = db\<lparr>db_operations := update_rows P (\<lambda>r. r\<lparr>o_interface_id := None\<rparr>) (db_operations db)\<rparr>"
  by (auto simp: detach_operations_def dest: update_operations_frame)

lemma delete_interfaces_no_rows:
  assumes del: "delete_interfaces P db = Inr (n, db')"
    and only: "\<And>r. r \<in> set (db_interfaces db) \<Longrightarrow> P r \<longleftrightarrow> i_id r = iid" and ex: "iid \<in> i_id ` set (db_interfaces db)"
  shows "no_interface_rows iid (peers_of iid db) db' \<and>
    map i_id (db_interfaces db') = map i_id (filter (\<lambda>r. i_id r \<noteq> iid) (db_interfaces db)) \<and>
    db_envelopes db' = db_envelopes db \<and> db_audit db' = db_audit db \<and> db_operations db' = db_operations db"
proof -
  have gone: "(\<exists>r \<in> set (db_interfaces db). P r \<and> i_id r = x) \<longleftrightarrow> x = iid" for x using only ex by auto
  have keep: "filter (\<lambda>r. \<not> P r) (db_interfaces db) = filter (\<lambda>r. i_id r \<noteq> iid) (db_interfaces db)"
    by (rule filter_cong) (simp_all add: only)
  note del' = del [unfolded delete_interfaces_def Let_def gone keep]
  have all: "\<forall>r \<in> set (db_operations db). case o_interface_id r of None \<Rightarrow> True | Some x \<Rightarrow> x \<noteq> iid"
    using del' by (simp add: list_all_iff)
  have ops: "Some iid \<notin> o_interface_id ` set (db_operations db)"
  proof
    assume "Some iid \<in> o_interface_id ` set (db_operations db)"
    then obtain r where "r \<in> set (db_operations db)" "o_interface_id r = Some iid" by (elim imageE) simp
    with all show False by fastforce
  qed
  from guarded_row [OF del'] ops show ?thesis
    by (simp add: no_interface_rows_def peers_of_def image_image comp_def) auto
qed


section \<open>The theorems at a concrete database\<close>

definition demo_managed :: managed_interface where
  "demo_managed = \<lparr>mi_id = ''wg9'', mi_name = ''wg9'', mi_config_path = ''/etc/wireguard/wg9.conf'', mi_listen_port = 53,
     mi_public_key = ''k'', mi_deployment_profile = ''lan'', mi_firewall_mode = ''external'', mi_auto_start = True,
     mi_addresses = [''10.0.0.1/24''], mi_file_hash = ''h'', mi_runtime_fingerprint = ''f''\<rparr>"

definition demo_creating :: agent_db where
  "demo_creating = empty_db\<lparr>db_interfaces := [demo_iface ''wg0''],
     db_operations := [demo_op ''o'' ''create_interface'' StateValidated None]\<rparr>"

text \<open>An interface with a peer, a secret of the peer and another interface, about to be removed.\<close>

definition demo_removing :: agent_db where
  "demo_removing = empty_db\<lparr>db_interfaces := [demo_iface ''wg0'', demo_iface ''wg1''],
     db_peers := [demo_peer ''p'' ''wg0'', demo_peer ''q'' ''wg1''],
     db_envelopes := [envelope_row_of ''e'' \<lparr>sx_gateway_id = ''gw'', sx_owner_type = ''peer'', sx_owner_id = ''p'',
       sx_purpose = ''psk''\<rparr> \<lparr>en_algorithm = ''a'', en_ciphertext = [], en_payload_nonce = [], en_wrapped_dek = [],
       en_wrap_nonce = [], en_key_version = 1, en_aad_version = 1, en_fingerprint = []\<rparr> 0],
     db_operations := [demo_op ''o'' ''set_interface_state'' StateVerifying (Some ''wg0'')]\<rparr>"

lemma control_methods_keep_operations_witness:
  "operations_wf demo_creating \<and>
   operations_wf (snd (reserve_managed_interface second ''o'' demo_managed demo_creating))"
proof -
  have wf: "operations_wf demo_creating" by code_simp
  with control_methods_keep_operations [OF wf] show ?thesis by blast
qed

lemma rejected_reservation_leaves_no_trace_witness:
  "\<exists>db1. reserve_managed_interface second ''o'' demo_managed demo_creating = (Inr (), db1) \<and>
     length (db_interfaces db1) = 2 \<and>
     db_interfaces (snd (reject_managed_interface second ''o'' None db1)) = [demo_iface ''wg0'']"
proof -
  have ok: "fst (reserve_managed_interface second ''o'' demo_managed demo_creating) = Inr ()" by code_simp
  have two: "length (db_interfaces (snd (reserve_managed_interface second ''o'' demo_managed demo_creating))) = 2" by code_simp
  obtain db1 where eq: "reserve_managed_interface second ''o'' demo_managed demo_creating = (Inr (), db1)"
    using ok by (cases "reserve_managed_interface second ''o'' demo_managed demo_creating") simp
  have wf: "operations_wf demo_creating" and refs: "interface_refs_wf demo_creating" by code_simp+
  from rejected_reservation_leaves_no_trace [OF wf refs eq, of second None] eq two show ?thesis
    by (intro exI [of _ db1]) (simp add: demo_creating_def)
qed

lemma finalize_writes_one_audit_witness:
  "\<exists>db'. finalize_control_operation (demo_ids CHR ''z'') second ''o'' ''set'' ''interface'' ''wg0'' 1 2 demo_removing = (Inr (), db') \<and>
     length (db_audit db') = 1 \<and>
     finalize_control_operation (demo_ids CHR ''z'') second ''o'' ''set'' ''interface'' ''wg0'' 1 2 db' = (Inl SqlNoRows, db')"
proof -
  let ?r = "finalize_control_operation (demo_ids CHR ''z'') second ''o'' ''set'' ''interface'' ''wg0'' 1 2 demo_removing"
  have ok: "fst ?r = Inr ()" by code_simp
  then obtain db' where eq: "?r = (Inr (), db')" by (cases ?r) simp
  have "db_audit demo_removing = []" by (simp add: demo_removing_def empty_db_def)
  moreover from finalize_writes_one_audit [OF eq]
  have "finalize_control_operation (demo_ids CHR ''z'') second ''o'' ''set'' ''interface'' ''wg0'' 1 2 db' = (Inl SqlNoRows, db')"
    by (rule conjunct2)
  moreover from conjunct1 [OF finalize_writes_one_audit [OF eq]] have "\<exists>a. db_audit db' = db_audit demo_removing @ [a]"
    by (elim exE conjE) simp
  ultimately show ?thesis using eq by (intro exI [of _ db']) auto
qed


end
