(* ===== verification/PeerStoreFacts.thy ===== *)
theory PeerStoreFacts
  imports PeerStore ControlStoreCorrect
begin

text \<open>
  The statements of the peer store, one by one: what each of them writes, and the steps of a
  completion that succeeded. The theorems about the peers are in \<^verbatim>\<open>PeerStoreCorrect\<close>.
\<close>

section \<open>What a statement writes\<close>

named_theorems peer_stmt "the database after a statement of the peer store"

lemma insert_peer_stmt [peer_stmt]: "insert_peer r db = Inr db' \<Longrightarrow> db' = db\<lparr>db_peers := db_peers db @ [r]\<rparr>"
  unfolding insert_peer_def by (rule guarded_row)

lemma insert_allowed_stmt [peer_stmt]: "insert_allowed r db = Inr db' \<Longrightarrow> db' = db\<lparr>db_allowed := db_allowed db @ [r]\<rparr>"
  unfolding insert_allowed_def by (rule guarded_row)

lemma insert_allocation_stmt [peer_stmt]:
  "insert_allocation r db = Inr db' \<Longrightarrow> db' = db\<lparr>db_allocations := db_allocations db @ [r]\<rparr>"
  unfolding insert_allocation_def by (rule guarded_row)

lemma insert_profile_stmt [peer_stmt]: "insert_profile r db = Inr db' \<Longrightarrow> db' = db\<lparr>db_profiles := db_profiles db @ [r]\<rparr>"
  unfolding insert_profile_def by (rule guarded_row)

lemma insert_route_stmt [peer_stmt]: "insert_route r db = Inr db' \<Longrightarrow> db' = db\<lparr>db_routes := db_routes db @ [r]\<rparr>"
  unfolding insert_route_def by (rule guarded_row)

lemma insert_artifact_stmt [peer_stmt]:
  "insert_artifact r db = Inr db' \<Longrightarrow> db' = db\<lparr>db_artifacts := db_artifacts db @ [r]\<rparr>"
  unfolding insert_artifact_def by (rule guarded_row)

lemma insert_revision_stmt [peer_stmt]:
  "insert_revision r db = Inr db' \<Longrightarrow> db' = db\<lparr>db_revisions := db_revisions db @ [r]\<rparr>"
  unfolding insert_revision_def by (rule guarded_row)

lemma insert_envelope_stmt [peer_stmt]:
  "insert_envelope eid cx e now db = Inr db' \<Longrightarrow>
     db' = db\<lparr>db_envelopes := db_envelopes db @ [envelope_row_of eid cx e now]\<rparr>"
  unfolding insert_envelope_def insert_envelope_row_def wrap_r_Inr by (rule guarded_row)

lemma update_interfaces_stmt [peer_stmt]:
  "update_interfaces P f db = Inr (n, db') \<Longrightarrow>
     n = affected P (db_interfaces db) \<and> db' = db\<lparr>db_interfaces := update_rows P f (db_interfaces db)\<rparr>"
  by (simp add: update_interfaces_def)

lemma update_peers_stmt [peer_stmt]:
  "update_peers P f db = Inr (n, db') \<Longrightarrow>
     n = affected P (db_peers db) \<and> db' = db\<lparr>db_peers := update_rows P f (db_peers db)\<rparr>"
  by (simp add: update_peers_def)

lemma to_verifying_stmt [peer_stmt]:
  "to_verifying oid h now db = Inr db' \<Longrightarrow>
     db' = db\<lparr>db_operations := update_rows (\<lambda>r. o_id r = oid \<and> o_state r = StateExecuting)
       (\<lambda>r. r\<lparr>o_proposed_file_hash := Some h, o_state := StateVerifying, o_updated_at_ms := unix_milli now\<rparr>)
       (db_operations db)\<rparr>"
  by (auto simp: to_verifying_def dest: update_operations_frame)

lemma executing_revision_Inr:
  "executing_revision conflict op = Inr e \<longleftrightarrow> o_expected_revision op = Some e \<and> o_state op = StateExecuting"
  by (auto simp: executing_revision_def split: option.split)

lemma add_secret_Inr:
  "add_secret gen now k offset s db = Inr (v, db') \<longleftrightarrow>
     (s = None \<and> v = None \<and> db' = db) \<or>
     (\<exists>x eid. s = Some x \<and> v = Some eid \<and> gen k (now + offset) = Inr eid \<and>
        insert_envelope eid (si_context x) (si_envelope x) now db = Inr db')"
  by (cases s) (auto simp: add_secret_def)

section \<open>The steps of a completion\<close>

lemma store_peer_Inr:
  assumes "store_peer gen now inp db = Inr db'"
  obtains aid client psk profile db1 db2 db3 db4 db5 db6 db7 where
    "insert_peer (new_peer_row inp now) db = Inr db1"
    and "fold_r (add_allowed_ip gen now (pc_id inp)) (enumerate 0 (pc_allowed_ips inp)) db1 = Inr db2"
    and "insert_allocation (new_allocation_row aid (ac_pool_id (pc_allocation inp)) (pc_id inp)
       (ac_address (pc_allocation inp)) now) db2 = Inr db3"
    and "add_secret gen now (length (pc_allowed_ips inp) + 1) 60 (pc_client_private inp) db3 = Inr (client, db4)"
    and "add_secret gen now (length (pc_allowed_ips inp) + 1 + drawn (pc_client_private inp)) 61
       (pc_preshared_key inp) db4 = Inr (psk, db5)"
    and "insert_profile (new_profile_row inp profile client psk now) db5 = Inr db6"
    and "fold_r (add_client_route gen now profile (length (pc_allowed_ips inp) + 1 + drawn (pc_client_private inp) +
       drawn (pc_preshared_key inp) + 1) 80) (enumerate 0 (pc_client_routes inp)) db6 = Inr db7"
    and "add_one_time gen now (length (pc_allowed_ips inp) + 1 + drawn (pc_client_private inp) +
       drawn (pc_preshared_key inp) + 1 + length (pc_client_routes inp)) (pc_id inp) (pc_one_time inp) db7 = Inr db'"
  using assms unfolding store_peer_def tx_simps
  by (clarify, intro that) (assumption | rule refl)+

lemma complete_peer_create_Inr:
  assumes "complete_peer_create gen now oid inp db = (Inr n, db')"
  obtains op i db1 rid db2 db3 where
    "op_where (\<lambda>r. o_id r = oid \<and> o_type r = ''create_peer'' \<and> o_interface_id r = Some (pc_interface_id inp)) db = Inr op"
    and "o_state op = StateExecuting" and "o_expected_revision op = Some (i_revision i)"
    and "query_row (\<lambda>r. i_id r = pc_interface_id inp) (db_interfaces db) = Inr i"
    and "coalesce (i_file_hash i) = pc_original_file_hash inp"
    and "store_peer gen now inp db = Inr db1"
    and "insert_revision (revision_row_of rid (pc_interface_id inp) (i_revision i + 1)
         (Some (pc_proposed_file_hash inp)) (pc_runtime_fingerprint inp) oid now) db1 = Inr db2"
    and "update_interfaces
         (\<lambda>r. i_id r = pc_interface_id inp \<and> i_revision r = i_revision i \<and>
              i_file_hash r = Some (coalesce (i_file_hash i)))
         (applied_row (pc_proposed_file_hash inp) (pc_runtime_fingerprint inp) (i_revision i + 1) rid now) db2 = Inr (1, db3)"
    and "to_verifying oid (pc_proposed_file_hash inp) now db3 = Inr db'" and "n = i_revision i + 1"
  using assms unfolding complete_peer_create_def tx_simps executing_revision_Inr
  by (clarify, intro that) (assumption | rule refl | erule sym)+

lemma store_peer_update_Inr:
  assumes "store_peer_update gen now ord inp db = Inr (k, db')"
  obtains peer pools purposes desired calls db1 db3 profile db5 m where
    "query_row (\<lambda>r. p_id r = pu_peer_id inp \<and> p_interface_id r = pu_interface_id inp) (db_peers db) = Inr peer"
    and "p_lifecycle_state peer = ''active''" and "load_update_pools (pu_interface_id inp) db = Inr pools"
    and "classify_updated_allowed_ips (pu_allowed_ips inp) pools = Inr (purposes, desired)"
    and "sync_peer_allocations gen now ord (pu_peer_id inp) desired db = Inr (calls, db1)"
    and "fold_r (add_updated_ip gen now (pu_peer_id inp) purposes calls) (enumerate 0 (pu_allowed_ips inp))
       (db1\<lparr>db_allowed := filter (\<lambda>r. pa_peer_id r \<noteq> pu_peer_id inp) (db_allowed db1)\<rparr>) = Inr db3"
    and "query_row (\<lambda>r. cp_peer_id r = pu_peer_id inp) (db_profiles db3) = Inr profile"
    and "fold_r (add_client_route gen now (cp_id profile) (calls + length (pu_allowed_ips inp)) 100)
       (enumerate 0 (pu_client_routes inp))
       (db3\<lparr>db_routes := filter (\<lambda>r. cr_profile_id r \<noteq> cp_id profile) (db_routes db3)\<rparr>) = Inr db5"
    and "update_peers (\<lambda>r. p_id r = pu_peer_id inp \<and> p_interface_id r = pu_interface_id inp) (updated_peer_row inp now) db5 = Inr (m, db')"
  using assms unfolding store_peer_update_def tx_simps
  by (clarify, intro that) (assumption | rule refl)+

lemma complete_peer_update_Inr:
  assumes "complete_peer_update gen now ord oid inp db = (Inr n, db')"
  obtains op i calls db1 rid db2 db3 where
    "op_where (\<lambda>r. o_id r = oid \<and> o_type r = ''update_peer'' \<and> o_interface_id r = Some (pu_interface_id inp)) db = Inr op"
    and "o_state op = StateExecuting" and "o_expected_revision op = Some (i_revision i)"
    and "query_row (\<lambda>r. i_id r = pu_interface_id inp) (db_interfaces db) = Inr i"
    and "coalesce (i_file_hash i) = pu_original_file_hash inp"
    and "store_peer_update gen now ord inp db = Inr (calls, db1)"
    and "insert_revision (revision_row_of rid (pu_interface_id inp) (i_revision i + 1)
         (Some (pu_proposed_file_hash inp)) (pu_runtime_fingerprint inp) oid now) db1 = Inr db2"
    and "update_interfaces
         (\<lambda>r. i_id r = pu_interface_id inp \<and> i_revision r = i_revision i \<and>
              coalesce (i_file_hash r) = pu_original_file_hash inp)
         (applied_row (pu_proposed_file_hash inp) (pu_runtime_fingerprint inp) (i_revision i + 1) rid now) db2 = Inr (1, db3)"
    and "to_verifying oid (pu_proposed_file_hash inp) now db3 = Inr db'" and "n = i_revision i + 1"
  using assms unfolding complete_peer_update_def tx_simps executing_revision_Inr
  by (clarify, intro that) (assumption | rule refl | erule sym)+

lemma complete_peer_lifecycle_Inr:
  assumes "complete_peer_lifecycle gen now oid pid mutation original proposed runtime archive db = (Inr n, db')"
  obtains op iid i peer next_id db1 rid db2 db3 db5 db6 m where
    "op_where (\<lambda>r. o_id r = oid) db = Inr op" and "o_interface_id op = Some iid"
    and "o_type op = mutation @ ''_peer''"
    and "o_state op = StateExecuting" and "o_expected_revision op = Some (i_revision i)"
    and "query_row (\<lambda>r. i_id r = iid) (db_interfaces db) = Inr i" and "original = coalesce (i_file_hash i)"
    and "query_row (\<lambda>r. p_id r = pid \<and> p_interface_id r = iid) (db_peers db) = Inr peer"
    and "next_archive gen now pid mutation (p_archived_block_secret_id peer) archive db = Inr (next_id, db1)"
    and "insert_revision (revision_row_of rid iid (i_revision i + 1) (Some proposed) runtime oid now) db1 = Inr db2"
    and "update_peers (\<lambda>r. p_id r = pid \<and> p_interface_id r = iid) (lifecycle_row mutation next_id now) db2 = Inr (1, db3)"
    and "(if mutation = ''enable''
         then wrap_r ''remove restored peer archive'' (delete_envelope (coalesce (p_archived_block_secret_id peer))
            (if mutation = ''revoke'' then revoke_rows now pid db3 else db3))
         else Inr (if mutation = ''revoke'' then revoke_rows now pid db3 else db3)) = Inr db5"
    and "update_interfaces
         (\<lambda>r. i_id r = iid \<and> i_revision r = i_revision i \<and> coalesce (i_file_hash r) = coalesce (i_file_hash i))
         (applied_row proposed runtime (i_revision i + 1) rid now) db5 = Inr (m, db6)"
    and "to_verifying oid proposed now db6 = Inr db'" and "n = i_revision i + 1"
  using assms unfolding complete_peer_lifecycle_def tx_simps executing_revision_Inr
  by (clarify, intro that) (assumption | rule refl | erule sym)+

end
