(* ===== verification/PeerStoreCorrect.thy ===== *)
theory PeerStoreCorrect
  imports PeerStoreFacts
begin

text \<open>
  What the peer store promises. A property of the database that every single statement keeps is
  kept by the creation, the update and the life-cycle change of a peer: the locales
  \<open>peer_inserts\<close>, \<open>peer_rows\<close> and \<open>lifecycle_rows\<close> say so once, and are interpreted for
  the tables the completions leave alone, for the addresses that are taken, for the types of the
  rows and for the archived blocks.
\<close>

section \<open>Properties that every statement keeps\<close>

locale peer_inserts =
  fixes P :: "agent_db \<Rightarrow> bool"
  assumes ins_peer: "insert_peer (new_peer_row inp now) d = Inr d' \<Longrightarrow> P d \<Longrightarrow> P d'"
    and ins_allowed: "insert_allowed ra d = Inr d' \<Longrightarrow> P d \<Longrightarrow> P d'"
    and ins_allocation: "insert_allocation rb d = Inr d' \<Longrightarrow> P d \<Longrightarrow> P d'"
    and ins_envelope: "insert_envelope eid cx e now d = Inr d' \<Longrightarrow> P d \<Longrightarrow> P d'"
    and ins_profile: "insert_profile rc d = Inr d' \<Longrightarrow> P d \<Longrightarrow> P d'"
    and ins_route: "insert_route rd d = Inr d' \<Longrightarrow> P d \<Longrightarrow> P d'"
    and ins_artifact: "insert_artifact re d = Inr d' \<Longrightarrow> P d \<Longrightarrow> P d'"
    and del_allowed: "P d \<Longrightarrow> P (d\<lparr>db_allowed := filter Qa (db_allowed d)\<rparr>)"
    and del_routes: "P d \<Longrightarrow> P (d\<lparr>db_routes := filter Qr (db_routes d)\<rparr>)"
    and quarantine: "P d \<Longrightarrow> P (update_allocations Qq (quarantined_row now) d)"
    and edit_peer: "P d \<Longrightarrow> P (d\<lparr>db_peers := update_rows Qp (updated_peer_row uinp now) (db_peers d)\<rparr>)"
begin

lemma secret_keeps: "add_secret gen now k off s d = Inr (v, d') \<Longrightarrow> P d \<Longrightarrow> P d'"
  by (auto simp: add_secret_Inr intro: ins_envelope)

lemma allowed_keeps: "fold_r (add_allowed_ip gen now pid) xs d = Inr d' \<Longrightarrow> P d \<Longrightarrow> P d'"
  by (erule fold_r_invariant) (auto simp: add_allowed_ip_def split: prod.splits intro: ins_allowed)

lemma routes_keep: "fold_r (add_client_route gen now profile k off) xs d = Inr d' \<Longrightarrow> P d \<Longrightarrow> P d'"
  by (erule fold_r_invariant) (auto simp: add_client_route_def split: prod.splits intro: ins_route)

lemma one_time_keeps: "add_one_time gen now k pid ot d = Inr d' \<Longrightarrow> P d \<Longrightarrow> P d'"
  by (cases ot) (auto simp: add_one_time_def simp del: bind_check intro: ins_envelope ins_artifact)

lemma store_peer_keeps:
  assumes "store_peer gen now inp d = Inr d'" and "P d"
  shows "P d'"
  using assms(1)
proof (rule store_peer_Inr)
  fix aid client psk profile d1 d2 d3 d4 d5 d6 d7
  assume 1: "insert_peer (new_peer_row inp now) d = Inr d1"
    and 2: "fold_r (add_allowed_ip gen now (pc_id inp)) (enumerate 0 (pc_allowed_ips inp)) d1 = Inr d2"
    and 3: "insert_allocation (new_allocation_row aid (ac_pool_id (pc_allocation inp)) (pc_id inp)
       (ac_address (pc_allocation inp)) now) d2 = Inr d3"
    and 4: "add_secret gen now (length (pc_allowed_ips inp) + 1) 60 (pc_client_private inp) d3 = Inr (client, d4)"
    and 5: "add_secret gen now (length (pc_allowed_ips inp) + 1 + drawn (pc_client_private inp)) 61
       (pc_preshared_key inp) d4 = Inr (psk, d5)"
    and 6: "insert_profile (new_profile_row inp profile client psk now) d5 = Inr d6"
    and 7: "fold_r (add_client_route gen now profile (length (pc_allowed_ips inp) + 1 + drawn (pc_client_private inp) +
       drawn (pc_preshared_key inp) + 1) 80) (enumerate 0 (pc_client_routes inp)) d6 = Inr d7"
    and 8: "add_one_time gen now (length (pc_allowed_ips inp) + 1 + drawn (pc_client_private inp) +
       drawn (pc_preshared_key inp) + 1 + length (pc_client_routes inp)) (pc_id inp) (pc_one_time inp) d7 = Inr d'"
  show "P d'"
    by (rule one_time_keeps [OF 8 routes_keep [OF 7 ins_profile [OF 6 secret_keeps [OF 5 secret_keeps [OF 4
        ins_allocation [OF 3 allowed_keeps [OF 2 ins_peer [OF 1 assms(2)]]]]]]]])
qed

lemma retire_keeps: "P d \<Longrightarrow> P (snd (fold (retire_allocation now) rs (m, d)))"
proof (induction rs arbitrary: m d)
  case (Cons r rs)
  then show ?case by (auto simp: retire_allocation_def Let_def intro: quarantine)
qed simp

lemma sync_keeps:
  assumes "sync_peer_allocations gen now ord pid desired d = Inr (n, d')" and "P d"
  shows "P d'"
proof -
  let ?current = "filter (\<lambda>r. aa_peer_id r = Some pid \<and> aa_state r = ''allocated'') (db_allocations d)"
  obtain m d1 where f: "fold (retire_allocation now) ?current (desired_map desired, d) = (m, d1)" by fastforce
  from retire_keeps [OF assms(2), of now ?current "desired_map desired"] f have P: "P d1" by simp
  from assms(1) f have claims: "fold_r (claim_allocation gen now pid) (enumerate 0 (ord m)) d1 = Inr d'"
    by (simp add: sync_peer_allocations_def)
  show ?thesis
    by (rule fold_r_invariant [OF claims, of P, OF P])
      (auto simp: claim_allocation_def simp del: bind_check split: prod.splits intro: ins_allocation)
qed

lemma updated_ips_keep: "fold_r (add_updated_ip gen now pid ps k) xs d = Inr d' \<Longrightarrow> P d \<Longrightarrow> P d'"
  by (erule fold_r_invariant)
    (auto simp: add_updated_ip_def Let_def split: prod.splits option.splits intro: ins_allowed)

lemma store_peer_update_keeps:
  assumes "store_peer_update gen now ord inp d = Inr (k, d')" and "P d"
  shows "P d'"
  using assms(1)
proof (rule store_peer_update_Inr)
  fix purposes desired calls d1 d3 profile d5 m
  assume 1: "sync_peer_allocations gen now ord (pu_peer_id inp) desired d = Inr (calls, d1)"
    and 2: "fold_r (add_updated_ip gen now (pu_peer_id inp) purposes calls) (enumerate 0 (pu_allowed_ips inp))
       (d1\<lparr>db_allowed := filter (\<lambda>r. pa_peer_id r \<noteq> pu_peer_id inp) (db_allowed d1)\<rparr>) = Inr d3"
    and 3: "fold_r (add_client_route gen now (cp_id profile) (calls + length (pu_allowed_ips inp)) 100)
       (enumerate 0 (pu_client_routes inp))
       (d3\<lparr>db_routes := filter (\<lambda>r. cr_profile_id r \<noteq> cp_id profile) (db_routes d3)\<rparr>) = Inr d5"
    and 4: "update_peers (\<lambda>r. p_id r = pu_peer_id inp \<and> p_interface_id r = pu_interface_id inp) (updated_peer_row inp now) d5 = Inr (m, d')"
  have "P d5"
    by (rule routes_keep [OF 3 del_routes [OF updated_ips_keep [OF 2 del_allowed [OF sync_keeps [OF 1 assms(2)]]]]])
  then show "P d'" using update_peers_stmt [OF 4] by (auto intro: edit_peer)
qed

end

text \<open>With the revision, the interface and the operation: the whole of a creation and of an update.\<close>

locale peer_rows = peer_inserts +
  assumes ins_revision: "insert_revision rf d = Inr d' \<Longrightarrow> P d \<Longrightarrow> P d'"
    and apply_interface:
      "P d \<Longrightarrow> P (d\<lparr>db_interfaces := update_rows Qi (applied_row proposed runtime next rid now) (db_interfaces d)\<rparr>)"
    and verify_operation: "to_verifying oid h now d = Inr d' \<Longrightarrow> P d \<Longrightarrow> P d'"
begin

lemma create_keeps:
  assumes "P d"
  shows "P (snd (complete_peer_create gen now oid inp d))"
  unfolding complete_peer_create_def
proof (rule commit_keeps, fold complete_peer_create_def)
  fix n d' assume "complete_peer_create gen now oid inp d = (Inr n, d')"
  then obtain i d1 rid d2 d3 where 1: "store_peer gen now inp d = Inr d1"
    and 2: "insert_revision (revision_row_of rid (pc_interface_id inp) (i_revision (i :: iface_row) + 1)
         (Some (pc_proposed_file_hash inp)) (pc_runtime_fingerprint inp) oid now) d1 = Inr d2"
    and 3: "update_interfaces
         (\<lambda>r. i_id r = pc_interface_id inp \<and> i_revision r = i_revision i \<and>
              i_file_hash r = Some (coalesce (i_file_hash i)))
         (applied_row (pc_proposed_file_hash inp) (pc_runtime_fingerprint inp) (i_revision i + 1) rid now) d2 = Inr (1, d3)"
    and 4: "to_verifying oid (pc_proposed_file_hash inp) now d3 = Inr d'"
    by (rule complete_peer_create_Inr)
  have "P d2" by (rule ins_revision [OF 2 store_peer_keeps [OF 1 assms]])
  then have "P d3" using update_interfaces_stmt [OF 3] by (auto intro: apply_interface)
  with 4 show "P d'" by (rule verify_operation)
qed (rule assms)

lemma update_keeps:
  assumes "P d"
  shows "P (snd (complete_peer_update gen now ord oid inp d))"
  unfolding complete_peer_update_def
proof (rule commit_keeps, fold complete_peer_update_def)
  fix n d' assume "complete_peer_update gen now ord oid inp d = (Inr n, d')"
  then obtain i calls d1 rid d2 d3 where 1: "store_peer_update gen now ord inp d = Inr (calls, d1)"
    and 2: "insert_revision (revision_row_of rid (pu_interface_id inp) (i_revision (i :: iface_row) + 1)
         (Some (pu_proposed_file_hash inp)) (pu_runtime_fingerprint inp) oid now) d1 = Inr d2"
    and 3: "update_interfaces
         (\<lambda>r. i_id r = pu_interface_id inp \<and> i_revision r = i_revision i \<and>
              coalesce (i_file_hash r) = pu_original_file_hash inp)
         (applied_row (pu_proposed_file_hash inp) (pu_runtime_fingerprint inp) (i_revision i + 1) rid now) d2 = Inr (1, d3)"
    and 4: "to_verifying oid (pu_proposed_file_hash inp) now d3 = Inr d'"
    by (rule complete_peer_update_Inr)
  have "P d2" by (rule ins_revision [OF 2 store_peer_update_keeps [OF 1 assms]])
  then have "P d3" using update_interfaces_stmt [OF 3] by (auto intro: apply_interface)
  with 4 show "P d'" by (rule verify_operation)
qed (rule assms)

end

text \<open>And with the statements of a life-cycle change.\<close>

locale lifecycle_rows = peer_rows +
  assumes move_peer:
      "P d \<Longrightarrow> P (d\<lparr>db_peers := update_rows Qp (lifecycle_row mutation archive now) (db_peers d)\<rparr>)"
    and revoke_profile: "P d \<Longrightarrow> P (update_profiles Qc
        (\<lambda>r. r\<lparr>cp_profile_state := ''revoked'', cp_updated_at_ms := unix_milli now\<rparr>) d)"
    and del_envelope: "delete_envelope eid d = Inr d' \<Longrightarrow> P d \<Longrightarrow> P d'"
begin

lemma next_archive_keeps: "next_archive gen now pid mutation previous archive d = Inr (v, d') \<Longrightarrow> P d \<Longrightarrow> P d'"
  by (auto simp: next_archive_def simp del: bind_check split: if_splits intro: ins_envelope)

lemma lifecycle_keeps:
  assumes "P d"
  shows "P (snd (complete_peer_lifecycle gen now oid pid mutation original proposed runtime archive d))"
  unfolding complete_peer_lifecycle_def
proof (rule commit_keeps, fold complete_peer_lifecycle_def)
  fix n d' assume "complete_peer_lifecycle gen now oid pid mutation original proposed runtime archive d = (Inr n, d')"
  then obtain iid i peer next_id d1 rid d2 d3 d5 m d6 where
    1: "next_archive gen now pid mutation (p_archived_block_secret_id (peer :: peer_row)) archive d = Inr (next_id, d1)"
    and 2: "insert_revision (revision_row_of rid iid (i_revision (i :: iface_row) + 1) (Some proposed) runtime oid now) d1 = Inr d2"
    and 3: "update_peers (\<lambda>r. p_id r = pid \<and> p_interface_id r = iid) (lifecycle_row mutation next_id now) d2 = Inr (1, d3)"
    and 4: "(if mutation = ''enable''
         then wrap_r ''remove restored peer archive'' (delete_envelope (coalesce (p_archived_block_secret_id peer))
            (if mutation = ''revoke'' then revoke_rows now pid d3 else d3))
         else Inr (if mutation = ''revoke'' then revoke_rows now pid d3 else d3)) = Inr d5"
    and 5: "update_interfaces
         (\<lambda>r. i_id r = iid \<and> i_revision r = i_revision i \<and> coalesce (i_file_hash r) = coalesce (i_file_hash i))
         (applied_row proposed runtime (i_revision i + 1) rid now) d5 = Inr (m, d6)"
    and 6: "to_verifying oid proposed now d6 = Inr d'"
    by (rule complete_peer_lifecycle_Inr)
  have "P d2" by (rule ins_revision [OF 2 next_archive_keeps [OF 1 assms]])
  then have "P d3" using update_peers_stmt [OF 3] by (auto intro: move_peer)
  then have "P (if mutation = ''revoke'' then revoke_rows now pid d3 else d3)"
    by (auto simp: revoke_rows_def intro: revoke_profile quarantine)
  with 4 have "P d5" by (auto split: if_splits intro: del_envelope)
  then have "P d6" using update_interfaces_stmt [OF 5] by (auto intro: apply_interface)
  with 6 show "P d'" by (rule verify_operation)
qed (rule assms)

end

section \<open>The tables a peer's rows leave alone\<close>

definition same_core :: "agent_db \<Rightarrow> agent_db \<Rightarrow> bool" where
  "same_core db d \<longleftrightarrow> db_interfaces d = db_interfaces db \<and> db_operations d = db_operations db \<and>
     db_revisions d = db_revisions db \<and> db_pools d = db_pools db"

interpretation core: peer_inserts "same_core db" for db
  by unfold_locales (auto simp: same_core_def update_allocations_def dest!: peer_stmt)

section \<open>The types of the rows\<close>

text \<open>
  A row of the peer's tables is well typed when its columns satisfy the checks of the schema and
  its references exist.
\<close>

definition peer_ok :: "string set \<Rightarrow> peer_row \<Rightarrow> bool" where
  "peer_ok ifs p \<longleftrightarrow> p_interface_id p \<in> ifs \<and> p_key_mode p \<in> {''managed'', ''one_time'', ''external''} \<and>
     p_lifecycle_state p \<in> {''active'', ''disabled'', ''pending_reenroll'', ''revoked'', ''archived''}"

definition peers_ok :: "string set \<Rightarrow> peer_row list \<Rightarrow> bool" where
  "peers_ok ifs t \<longleftrightarrow> keyed p_id t \<and> (\<forall>p \<in> set t. peer_ok ifs p)"

definition refers :: "string set \<Rightarrow> string option \<Rightarrow> bool" where
  "refers ids v = (case v of None \<Rightarrow> True | Some x \<Rightarrow> x \<in> ids)"

lemma refers_insert: "refers ids v \<Longrightarrow> refers (insert x ids) v"
  by (simp add: refers_def split: option.splits)

lemma fk_to_refers: "fk_to key t v = refers (key ` set t) v"
  by (simp add: fk_to_def refers_def)

definition allocations_ok :: "string set \<Rightarrow> string set \<Rightarrow> alloc_row list \<Rightarrow> bool" where
  "allocations_ok pools pids t \<longleftrightarrow> keyed aa_id t \<and> keyed (\<lambda>a. (aa_pool_id a, aa_address a)) t \<and>
     (\<forall>a \<in> set t. aa_pool_id a \<in> pools \<and> refers pids (aa_peer_id a) \<and>
       aa_state a \<in> {''allocated'', ''quarantined'', ''released''})"

definition allowed_ok :: "string set \<Rightarrow> allowed_row list \<Rightarrow> bool" where
  "allowed_ok pids t \<longleftrightarrow> keyed (\<lambda>r. (pa_peer_id r, pa_cidr r)) t \<and>
     (\<forall>r \<in> set t. pa_peer_id r \<in> pids \<and> pa_purpose r \<in> {''tunnel_address'', ''routed_subnet''})"

definition profiles_ok :: "string set \<Rightarrow> profile_row list \<Rightarrow> bool" where
  "profiles_ok pids t \<longleftrightarrow> keyed cp_id t \<and> keyed cp_peer_id t \<and> (\<forall>c \<in> set t. cp_peer_id c \<in> pids \<and>
     cp_profile_state c \<in> {''ready'', ''one_time_pending'', ''consumed'', ''external'', ''revoked'', ''secret_unavailable''})"

definition artifacts_ok :: "string set \<Rightarrow> artifact_row list \<Rightarrow> bool" where
  "artifacts_ok pids t \<longleftrightarrow> (\<forall>a \<in> set t. oa_peer_id a \<in> pids \<and> artifact_check a)"

definition peer_typed :: "agent_db \<Rightarrow> bool" where
  "peer_typed db \<longleftrightarrow> peers_ok (i_id ` set (db_interfaces db)) (db_peers db) \<and>
     allocations_ok (ap_id ` set (db_pools db)) (p_id ` set (db_peers db)) (db_allocations db) \<and>
     allowed_ok (p_id ` set (db_peers db)) (db_allowed db) \<and>
     profiles_ok (p_id ` set (db_peers db)) (db_profiles db) \<and>
     (\<forall>r \<in> set (db_routes db). cr_profile_id r \<in> cp_id ` set (db_profiles db)) \<and>
     artifacts_ok (p_id ` set (db_peers db)) (db_artifacts db)"

lemma image_update_rows:
  "(\<And>r. P r \<Longrightarrow> key (f r) = key r) \<Longrightarrow> key ` set (update_rows P f t) = key ` set t"
  by (metis list.set_map map_update_rows)

lemma more_peers:
  "allocations_ok pools pids t1 \<Longrightarrow> allocations_ok pools (insert x pids) t1"
  "allowed_ok pids t2 \<Longrightarrow> allowed_ok (insert x pids) t2"
  "profiles_ok pids t3 \<Longrightarrow> profiles_ok (insert x pids) t3"
  "artifacts_ok pids t4 \<Longrightarrow> artifacts_ok (insert x pids) t4"
  by (auto simp: allocations_ok_def allowed_ok_def profiles_ok_def artifacts_ok_def refers_insert)

lemma peers_ok_update:
  assumes "peers_ok ifs t" and "\<And>r. Q r \<Longrightarrow> p_id (f r) = p_id r \<and> p_interface_id (f r) = p_interface_id r \<and>
      p_key_mode (f r) = p_key_mode r \<and> p_lifecycle_state (f r) \<in> {p_lifecycle_state r, ''active'', ''disabled'', ''revoked''}"
  shows "peers_ok ifs (update_rows Q f t)"
proof -
  have "peer_ok ifs (f r)" if "r \<in> set t" "Q r" for r
    using assms(2) [OF that(2)] assms(1) that(1) unfolding peers_ok_def peer_ok_def by fastforce
  moreover have "keyed p_id (update_rows Q f t)"
    using assms by (intro keyed_update) (simp_all add: peers_ok_def)
  ultimately show ?thesis using assms(1) by (auto simp: peers_ok_def set_update_rows)
qed

lemma allocations_ok_quarantine: "allocations_ok pools pids t \<Longrightarrow> allocations_ok pools pids (update_rows Q (quarantined_row now) t)"
  unfolding allocations_ok_def set_update_rows by (auto simp: quarantined_row_def intro!: keyed_update)

lemma profiles_ok_revoke:
  "profiles_ok pids t \<Longrightarrow>
     profiles_ok pids (update_rows Q (\<lambda>r. r\<lparr>cp_profile_state := ''revoked'', cp_updated_at_ms := ms\<rparr>) t)"
  unfolding profiles_ok_def set_update_rows by (auto intro!: keyed_update)

lemma insert_peer_typed:
  assumes "insert_peer r d = Inr d'" and "peer_typed d"
  shows "peer_typed d'"
proof -
  from assms have "peers_ok (i_id ` set (db_interfaces d)) (db_peers d @ [r])"
    by (auto simp: insert_peer_def peer_typed_def peers_ok_def peer_ok_def)
  with assms(2) insert_peer_stmt [OF assms(1)] show ?thesis
    by (simp add: peer_typed_def more_peers)
qed

lemma insert_allowed_typed: "insert_allowed r d = Inr d' \<Longrightarrow> peer_typed d \<Longrightarrow> peer_typed d'"
  unfolding insert_allowed_def peer_typed_def allowed_ok_def by (auto intro!: keyed_insert)

lemma insert_allocation_typed: "insert_allocation r d = Inr d' \<Longrightarrow> peer_typed d \<Longrightarrow> peer_typed d'"
  unfolding insert_allocation_def peer_typed_def allocations_ok_def by (auto simp: fk_to_refers intro!: keyed_insert)

lemma insert_profile_typed: "insert_profile r d = Inr d' \<Longrightarrow> peer_typed d \<Longrightarrow> peer_typed d'"
  unfolding insert_profile_def peer_typed_def profiles_ok_def by (auto intro!: keyed_insert)

lemma insert_route_typed: "insert_route r d = Inr d' \<Longrightarrow> peer_typed d \<Longrightarrow> peer_typed d'"
  unfolding insert_route_def peer_typed_def by auto

lemma insert_artifact_typed: "insert_artifact r d = Inr d' \<Longrightarrow> peer_typed d \<Longrightarrow> peer_typed d'"
  unfolding insert_artifact_def peer_typed_def artifacts_ok_def by auto

lemma delete_envelope_stmt:
  "delete_envelope eid db = Inr db' \<Longrightarrow> db_allocations db' = db_allocations db \<and> db_routes db' = db_routes db \<and>
     map cp_id (db_profiles db') = map cp_id (db_profiles db) \<and>
     map (\<lambda>c. (cp_peer_id c, cp_profile_state c)) (db_profiles db') = map (\<lambda>c. (cp_peer_id c, cp_profile_state c)) (db_profiles db) \<and>
     (\<exists>g. db_peers db' = map (\<lambda>p. p\<lparr>p_archived_block_secret_id := g p\<rparr>) (db_peers db) \<and>
        (\<forall>p. p_archived_block_secret_id p \<noteq> Some eid \<longrightarrow> g p = p_archived_block_secret_id p)) \<and>
     (list_all artifact_check (db_artifacts db) \<longrightarrow> list_all artifact_check (db_artifacts db'))"
proof (cases "eid \<in> se_id ` set (db_envelopes db)")
  case False
  assume "delete_envelope eid db = Inr db'"
  with False have "db' = db" by (simp add: delete_envelope_def)
  then show ?thesis by (intro conjI exI [of _ p_archived_block_secret_id]) simp_all
next
  case True
  assume del: "delete_envelope eid db = Inr db'"
  from True have "\<not> eid \<notin> se_id ` set (db_envelopes db)" by simp
  note del' = del [unfolded delete_envelope_def Let_def if_not_P [OF this]]
  have g: "drop_ref (\<lambda>x. x = eid) v = v" if "v \<noteq> Some eid" for v using that by (auto simp: drop_ref_def split: option.split)
  have check: "list_all artifact_check (map (\<lambda>a. a\<lparr>oa_secret_envelope_id := drop_ref (\<lambda>x. x = eid) (oa_secret_envelope_id a)\<rparr>)
      (db_artifacts db))" using del' by simp
  from guarded_row [OF del'] g check show ?thesis
    by (intro conjI exI [of _ "\<lambda>p. drop_ref (\<lambda>x. x = eid) (p_archived_block_secret_id p)"]) simp_all
qed

lemma peers_ok_map: "peers_ok ifs t \<Longrightarrow> peers_ok ifs (map (\<lambda>p. p\<lparr>p_archived_block_secret_id := g p\<rparr>) t)"
  by (auto simp: peers_ok_def peer_ok_def keyed_def comp_def)

lemma profiles_ok_cong:
  assumes "map cp_id t' = map cp_id t"
    and "map (\<lambda>c. (cp_peer_id c, cp_profile_state c)) t' = map (\<lambda>c. (cp_peer_id c, cp_profile_state c)) t"
    and "profiles_ok pids t"
  shows "profiles_ok pids t'"
proof -
  from arg_cong [OF assms(2), of "map fst"] have peers: "map cp_peer_id t' = map cp_peer_id t" by (simp add: comp_def)
  have "(cp_peer_id c, cp_profile_state c) \<in> (\<lambda>c. (cp_peer_id c, cp_profile_state c)) ` set t" if "c \<in> set t'" for c
    using that assms(2) by (metis (no_types, lifting) image_eqI list.set_map)
  with assms(1,3) peers show ?thesis by (fastforce simp: profiles_ok_def keyed_def)
qed

lemma delete_envelope_typed:
  assumes del: "delete_envelope eid d = Inr d'" and typed: "peer_typed d"
  shows "peer_typed d'"
proof -
  note f = delete_envelope_frame [OF del] and s = delete_envelope_stmt [OF del]
  from s obtain g where peers: "db_peers d' = map (\<lambda>p. p\<lparr>p_archived_block_secret_id := g p\<rparr>) (db_peers d)" by blast
  have pids: "p_id ` set (db_peers d') = p_id ` set (db_peers d)" by (simp add: peers image_image)
  have cids: "cp_id ` set (db_profiles d') = cp_id ` set (db_profiles d)" using s by (metis list.set_map)
  have arts: "artifacts_ok (p_id ` set (db_peers d)) (db_artifacts d')"
  proof -
    have "list_all artifact_check (db_artifacts d')" using s typed by (auto simp: peer_typed_def artifacts_ok_def list_all_iff)
    moreover have "oa_peer_id a \<in> oa_peer_id ` set (db_artifacts d)" if "a \<in> set (db_artifacts d')" for a
      using f that by (metis imageI)
    ultimately show ?thesis using typed by (fastforce simp: peer_typed_def artifacts_ok_def list_all_iff)
  qed
  show ?thesis
    using typed f s arts unfolding peer_typed_def pids cids
    by (auto simp: peers intro: peers_ok_map profiles_ok_cong)
qed

lemma other_typed:
  "insert_envelope eid cx e now d = Inr d' \<Longrightarrow> peer_typed d \<Longrightarrow> peer_typed d'"
  "insert_revision rv d = Inr d' \<Longrightarrow> peer_typed d \<Longrightarrow> peer_typed d'"
  "to_verifying oid h now d = Inr d' \<Longrightarrow> peer_typed d \<Longrightarrow> peer_typed d'"
  by (auto simp: peer_typed_def dest!: insert_envelope_stmt insert_revision_stmt to_verifying_stmt)

interpretation typed: lifecycle_rows peer_typed
proof unfold_locales
  show "peer_typed (d\<lparr>db_allowed := filter Q (db_allowed d)\<rparr>)" if "peer_typed d" for Q d
    using that by (auto simp: peer_typed_def allowed_ok_def)
  show "peer_typed (d\<lparr>db_routes := filter Q (db_routes d)\<rparr>)" if "peer_typed d" for Q d
    using that by (auto simp: peer_typed_def)
  show "peer_typed (update_allocations Q (quarantined_row now) d)" if "peer_typed d" for Q now d
    using that by (simp add: peer_typed_def update_allocations_def allocations_ok_quarantine)
  show "peer_typed (d\<lparr>db_peers := update_rows Q (updated_peer_row uinp now) (db_peers d)\<rparr>)" if "peer_typed d" for Q uinp now d
    using that by (simp add: peer_typed_def image_update_rows updated_peer_row_def peers_ok_update)
  show "peer_typed (d\<lparr>db_peers := update_rows Q (lifecycle_row mutation archive now) (db_peers d)\<rparr>)"
    if "peer_typed d" for Q mutation archive now d
    using that by (simp add: peer_typed_def image_update_rows lifecycle_row_def lifecycle_target_def peers_ok_update)
  show "peer_typed (update_profiles Q (\<lambda>r. r\<lparr>cp_profile_state := ''revoked'', cp_updated_at_ms := unix_milli now\<rparr>) d)"
    if "peer_typed d" for Q now d
    using that by (simp add: peer_typed_def update_profiles_def image_update_rows profiles_ok_revoke)
  show "peer_typed (d\<lparr>db_interfaces := update_rows Q (applied_row proposed runtime next rid now) (db_interfaces d)\<rparr>)"
    if "peer_typed d" for Q proposed runtime "next" rid now d
    using that by (simp add: peer_typed_def image_update_rows applied_row_def)
qed (erule (1) insert_peer_typed insert_allowed_typed insert_allocation_typed insert_profile_typed
  insert_route_typed insert_artifact_typed delete_envelope_typed other_typed)+


section \<open>Addresses are never free again\<close>

definition address_taken :: "string \<Rightarrow> string \<Rightarrow> agent_db \<Rightarrow> bool" where
  "address_taken pool a db \<longleftrightarrow>
     (\<exists>r \<in> set (db_allocations db). aa_pool_id r = pool \<and> aa_address r = a \<and> taken_state (aa_state r))"

lemma address_uses_zero: "address_uses pool a db = 0 \<longleftrightarrow> \<not> address_taken pool a db"
  by (auto simp: address_uses_def address_taken_def affected_def filter_empty_conv)

lemma taken_append: "address_taken pool a d \<Longrightarrow> address_taken pool a (d\<lparr>db_allocations := db_allocations d @ [r]\<rparr>)"
  by (auto simp: address_taken_def)

lemma taken_quarantine: "address_taken pool a d \<Longrightarrow> address_taken pool a (update_allocations Q (quarantined_row now) d)"
proof -
  assume "address_taken pool a d"
  then obtain r where r: "r \<in> set (db_allocations d)" "aa_pool_id r = pool" "aa_address r = a" "taken_state (aa_state r)"
    by (auto simp: address_taken_def)
  then have "(if Q r then quarantined_row now r else r) \<in> set (update_rows Q (quarantined_row now) (db_allocations d))"
    by (auto simp: update_rows_def)
  with r show ?thesis
    unfolding address_taken_def
    by (intro bexI [of _ "if Q r then quarantined_row now r else r"])
      (auto simp: update_allocations_def quarantined_row_def taken_state_def)
qed

lemma taken_frame:
  "address_taken pool a (d\<lparr>db_peers := t1\<rparr>) = address_taken pool a d"
  "address_taken pool a (d\<lparr>db_allowed := t2\<rparr>) = address_taken pool a d"
  "address_taken pool a (d\<lparr>db_profiles := t3\<rparr>) = address_taken pool a d"
  "address_taken pool a (d\<lparr>db_routes := t4\<rparr>) = address_taken pool a d"
  "address_taken pool a (d\<lparr>db_artifacts := t5\<rparr>) = address_taken pool a d"
  "address_taken pool a (d\<lparr>db_revisions := t6\<rparr>) = address_taken pool a d"
  "address_taken pool a (d\<lparr>db_envelopes := t7\<rparr>) = address_taken pool a d"
  "address_taken pool a (d\<lparr>db_interfaces := t8\<rparr>) = address_taken pool a d"
  "address_taken pool a (d\<lparr>db_operations := t9\<rparr>) = address_taken pool a d"
  by (simp_all add: address_taken_def)

lemma taken_delete_envelope: "delete_envelope eid d = Inr d' \<Longrightarrow> address_taken pool a d \<Longrightarrow> address_taken pool a d'"
  by (drule delete_envelope_stmt) (simp add: address_taken_def)

interpretation taken: lifecycle_rows "address_taken pool a" for pool a
  by unfold_locales
    (auto simp: update_profiles_def taken_append taken_frame taken_quarantine taken_delete_envelope dest!: peer_stmt)

text \<open>The peers' part of the agent at work: any completion, with any input.\<close>

inductive peer_step :: "agent_db \<Rightarrow> agent_db \<Rightarrow> bool" where
  creation: "peer_step db (snd (complete_peer_create gen now oid inp db))"
| updating: "peer_step db (snd (complete_peer_update gen now ord oid uinp db))"
| lifecycle: "peer_step db (snd (complete_peer_lifecycle gen now oid pid mutation original proposed runtime archive db))"

lemma peer_step_taken: "peer_step db db' \<Longrightarrow> address_taken pool a db \<Longrightarrow> address_taken pool a db'"
  by (induction rule: peer_step.induct) (simp_all add: taken.create_keeps taken.update_keeps taken.lifecycle_keeps)

lemma peer_steps_taken: "peer_step\<^sup>*\<^sup>* db db' \<Longrightarrow> address_taken pool a db \<Longrightarrow> address_taken pool a db'"
  by (induction rule: rtranclp_induct) (auto intro: peer_step_taken)

lemma pool_usage_has:
  assumes "pool_usage pool db = Inr (used, kept)" and "address_taken pool a db"
  shows "\<exists>x. parse_addr a = Some x \<and> x \<in> set (used @ kept)"
proof -
  from assms(2) obtain r where r: "r \<in> set (db_allocations db)" "aa_pool_id r = pool" "aa_address r = a" "taken_state (aa_state r)"
    by (auto simp: address_taken_def)
  from assms(1) obtain rows where rows: "map_r (\<lambda>r. bind_r (parse_stored (aa_address r)) (\<lambda>a. Inr (a, aa_state r)))
       (filter (\<lambda>r. aa_pool_id r = pool \<and> taken_state (aa_state r)) (db_allocations db)) = Inr rows"
    and sets: "used = map fst (filter (\<lambda>(a, st). st = ''allocated'') rows)"
      "kept = map fst (filter (\<lambda>(a, st). st \<noteq> ''allocated'') rows)"
    by (auto simp: pool_usage_def)
  from r have "r \<in> set (filter (\<lambda>r. aa_pool_id r = pool \<and> taken_state (aa_state r)) (db_allocations db))" by simp
  from map_r_mem [OF rows this] obtain x where "parse_addr a = Some x" "(x, aa_state r) \<in> set rows"
    using r(3) by (auto simp: parse_stored_def split: option.splits)
  with sets show ?thesis by (intro exI [of _ x]) force
qed

lemma next_in_pools_free:
  "next_in_pools db ps = Inr c \<Longrightarrow> address_taken (ac_pool_id c) a db \<Longrightarrow>
     \<exists>x y. parse_addr a = Some x \<and> ac_address c = show_addr y \<and> x \<noteq> y"
proof (induction ps)
  case (Cons p ps)
  from Cons.prems(1) obtain prefix gateway used kept where
    u: "pool_usage (ap_id p) db = Inr (used, kept)"
    and c: "(case allocate \<lparr>cs_pool = prefix, cs_gateway = gateway, cs_allocated = used, cs_quarantined = kept,
          cs_reservations = []\<rparr> of Inl _ \<Rightarrow> next_in_pools db ps
          | Inr a \<Rightarrow> Inr \<lparr>ac_pool_id = ap_id p, ac_address = show_addr a,
              ac_prefix = show_prefix (prefix_from a (if is4 a then 32 else 128))\<rparr>) = Inr c"
    by (auto split: option.splits)
  show ?case
  proof (cases "allocate \<lparr>cs_pool = prefix, cs_gateway = gateway, cs_allocated = used, cs_quarantined = kept, cs_reservations = []\<rparr>")
    case (Inl e)
    with c Cons show ?thesis by simp
  next
    case (Inr y)
    with c have c': "ac_pool_id c = ap_id p" "ac_address c = show_addr y" by auto
    from allocate_Inr(2) [OF Inr] have "y \<notin> set (used @ kept)"
      by (auto dest!: alloc_scan_free free_addrD)
    moreover from pool_usage_has [OF u, of a] Cons.prems(2) c'(1)
    obtain x where "parse_addr a = Some x" "x \<in> set (used @ kept)" by auto
    ultimately show ?thesis using c'(2) by (intro exI [of _ x] exI [of _ y]) auto
  qed
qed simp

lemma validated_free: "validate_address_candidate ord iid value db = Inr c \<Longrightarrow> \<not> address_taken (ac_pool_id c) (ac_address c) db"
  by (auto simp: validate_address_candidate_def address_uses_zero [symmetric] split: option.splits if_splits)

text \<open>
  C24: an address, once allocated or quarantined, is never available again, however long the
  peers are created, updated, disabled, enabled and revoked: it stays taken, no request for it is
  accepted, and the automatic choice never picks it. The end of the quarantine that is stored
  with it, 24 hours later, is never looked at.
\<close>

theorem quarantine_never_ends:
  assumes "address_taken pool a db" and "peer_step\<^sup>*\<^sup>* db db'"
  shows "address_taken pool a db' \<and>
    (\<nexists>ord iid value c. validate_address_candidate ord iid value db' = Inr c \<and> ac_pool_id c = pool \<and> ac_address c = a) \<and>
    (\<forall>iid c. next_available_address iid db' = Inr c \<and> ac_pool_id c = pool \<longrightarrow>
       (\<exists>x y. parse_addr a = Some x \<and> ac_address c = show_addr y \<and> x \<noteq> y))"
proof -
  from peer_steps_taken [OF assms(2,1)] have t: "address_taken pool a db'" .
  with validated_free next_in_pools_free show ?thesis
    unfolding next_available_address_def by blast
qed

section \<open>A completion is against the revision it was planned for\<close>

text \<open>
  What a completion of the operation \<open>oid\<close> does to the shared tables when it returns revision \<open>n\<close>.
\<close>

definition advanced ::
  "string \<Rightarrow> string \<Rightarrow> string \<Rightarrow> string \<Rightarrow> string \<Rightarrow> time \<Rightarrow> int \<Rightarrow> agent_db \<Rightarrow> agent_db \<Rightarrow> bool" where
  "advanced oid iid original proposed runtime now n db db' \<longleftrightarrow>
     (\<exists>op i rid. op \<in> set (db_operations db) \<and> o_id op = oid \<and> o_interface_id op = Some iid \<and>
        o_state op = StateExecuting \<and> o_expected_revision op = Some (n - 1) \<and>
        i \<in> set (db_interfaces db) \<and> i_id i = iid \<and> i_revision i = n - 1 \<and> coalesce (i_file_hash i) = original \<and>
        db_interfaces db' = update_rows (\<lambda>r. i_id r = iid) (applied_row proposed runtime n rid now) (db_interfaces db) \<and>
        db_operations db' = update_rows (\<lambda>r. o_id r = oid)
          (\<lambda>r. r\<lparr>o_proposed_file_hash := Some proposed, o_state := StateVerifying, o_updated_at_ms := unix_milli now\<rparr>)
          (db_operations db) \<and>
        db_revisions db' = db_revisions db @ [revision_row_of rid iid n (Some proposed) runtime oid now])"

lemma advancedI:
  assumes upd: "update_interfaces R (applied_row proposed runtime (i_revision i + 1) rid now) d = Inr (m, d')"
    and hit: "R i" "\<And>r. R r \<Longrightarrow> i_id r = iid"
    and op: "op_where Q db = Inr op" "o_id op = oid" "o_interface_id op = Some iid" "o_state op = StateExecuting"
      "o_expected_revision op = Some (i_revision i)"
    and i: "query_row (\<lambda>r. i_id r = iid) (db_interfaces db) = Inr i" "coalesce (i_file_hash i) = original"
    and keys: "keyed i_id (db_interfaces db)" "keyed o_id (db_operations db)"
    and core: "db_interfaces d = db_interfaces db" "db_operations d = db_operations db"
      "db_revisions d = db_revisions db @ [revision_row_of rid iid (i_revision i + 1) (Some proposed) runtime oid now]"
    and ver: "to_verifying oid proposed now d' = Inr db'"
  shows "advanced oid iid original proposed runtime now (i_revision i + 1) db db'"
proof -
  from op_where_Inr [OF op(1)] have opm: "op \<in> set (db_operations db)" by simp
  from query_row_InrD [OF i(1)] have im: "i \<in> set (db_interfaces db)" "i_id i = iid" by auto
  note s = update_interfaces_stmt [OF upd]
  have "R r = (i_id r = iid)" if "r \<in> set (db_interfaces db)" for r
    using keyed_eq [OF keys(1) that im(1)] im(2) hit by auto
  then have I: "db_interfaces d' = update_rows (\<lambda>r. i_id r = iid) (applied_row proposed runtime (i_revision i + 1) rid now) (db_interfaces db)"
    using s core by (auto intro: update_rows_cong)
  have "(o_id r = oid \<and> o_state r = StateExecuting) = (o_id r = oid)" if "r \<in> set (db_operations db)" for r
    using keyed_eq [OF keys(2) that opm] op(2,4) by auto
  then have O: "db_operations db' = update_rows (\<lambda>r. o_id r = oid)
          (\<lambda>r. r\<lparr>o_proposed_file_hash := Some proposed, o_state := StateVerifying, o_updated_at_ms := unix_milli now\<rparr>)
          (db_operations db)"
    using to_verifying_stmt [OF ver] s core by (auto intro: update_rows_cong)
  from to_verifying_stmt [OF ver] I O s core op opm im i(2) show ?thesis
    unfolding advanced_def by (intro exI [of _ op] exI [of _ i] exI [of _ rid]) simp
qed

lemma commit_tx_Inl: "commit_tx db r = (Inl e, db') \<Longrightarrow> db' = db"
  by (auto simp: commit_tx_def split: sum.splits)

lemma create_fails: "complete_peer_create gen now oid inp db = (Inl e, db') \<Longrightarrow> db' = db"
  unfolding complete_peer_create_def by (rule commit_tx_Inl)

lemma update_fails: "complete_peer_update gen now ord oid inp db = (Inl e, db') \<Longrightarrow> db' = db"
  unfolding complete_peer_update_def by (rule commit_tx_Inl)

lemma lifecycle_fails: "complete_peer_lifecycle gen now oid pid mutation original proposed runtime archive db = (Inl e, db') \<Longrightarrow> db' = db"
  unfolding complete_peer_lifecycle_def by (rule commit_tx_Inl)

lemma same_core_refl: "same_core db db"
  by (simp add: same_core_def)

lemma matched_row:
  assumes "update_interfaces Q f d = Inr (1, d')" and "db_interfaces d = db_interfaces db"
    and "query_row (\<lambda>r. i_id r = iid) (db_interfaces db) = Inr i" and "keyed i_id (db_interfaces db)"
    and "\<And>r. Q r \<Longrightarrow> i_id r = iid"
  shows "Q i"
proof -
  from update_interfaces_stmt [OF assms(1)] assms(2) have "affected Q (db_interfaces db) = 1" by simp
  then obtain r where r: "r \<in> set (db_interfaces db)" "Q r"
    by (metis affected_def filter_empty_conv list.size(3) zero_neq_one)
  from query_row_InrD [OF assms(3)] have "i \<in> set (db_interfaces db)" "i_id i = iid" by auto
  with keyed_eq [OF assms(4) r(1)] r(2) assms(5) show ?thesis by auto
qed

lemma create_advances:
  assumes keys: "keyed i_id (db_interfaces db)" "keyed o_id (db_operations db)"
    and ok: "complete_peer_create gen now oid inp db = (Inr n, db')"
  shows "advanced oid (pc_interface_id inp) (pc_original_file_hash inp) (pc_proposed_file_hash inp)
          (pc_runtime_fingerprint inp) now n db db'"
  using ok
proof (rule complete_peer_create_Inr)
  fix op i db1 rid db2 db3
  assume op: "op_where (\<lambda>r. o_id r = oid \<and> o_type r = ''create_peer'' \<and> o_interface_id r = Some (pc_interface_id inp)) db = Inr op"
      "o_state op = StateExecuting" "o_expected_revision op = Some (i_revision i)"
    and i: "query_row (\<lambda>r. i_id r = pc_interface_id inp) (db_interfaces db) = Inr i" "coalesce (i_file_hash i) = pc_original_file_hash inp"
    and 1: "store_peer gen now inp db = Inr db1"
    and 2: "insert_revision (revision_row_of rid (pc_interface_id inp) (i_revision i + 1)
         (Some (pc_proposed_file_hash inp)) (pc_runtime_fingerprint inp) oid now) db1 = Inr db2"
    and 3: "update_interfaces
         (\<lambda>r. i_id r = pc_interface_id inp \<and> i_revision r = i_revision i \<and>
              i_file_hash r = Some (coalesce (i_file_hash i)))
         (applied_row (pc_proposed_file_hash inp) (pc_runtime_fingerprint inp) (i_revision i + 1) rid now) db2 = Inr (1, db3)"
    and 4: "to_verifying oid (pc_proposed_file_hash inp) now db3 = Inr db'" and n: "n = i_revision i + 1"
  have core: "same_core db db1" by (rule core.store_peer_keeps [OF 1 same_core_refl])
  note s2 = insert_revision_stmt [OF 2]
  from core s2 have same: "db_interfaces db2 = db_interfaces db" by (simp add: same_core_def)
  note hit = matched_row [OF 3 same i(1) keys(1), simplified]
  show ?thesis
    unfolding n
    by (rule advancedI [OF 3 _ _ op(1) _ _ op(2,3) i keys _ _ _ 4])
      (use op_where_Inr [OF op(1)] s2 core hit in \<open>auto simp: same_core_def\<close>)
qed

lemma update_advances:
  assumes keys: "keyed i_id (db_interfaces db)" "keyed o_id (db_operations db)"
    and ok: "complete_peer_update gen now ord oid inp db = (Inr n, db')"
  shows "advanced oid (pu_interface_id inp) (pu_original_file_hash inp) (pu_proposed_file_hash inp)
          (pu_runtime_fingerprint inp) now n db db'"
  using ok
proof (rule complete_peer_update_Inr)
  fix op i calls db1 rid db2 db3
  assume op: "op_where (\<lambda>r. o_id r = oid \<and> o_type r = ''update_peer'' \<and> o_interface_id r = Some (pu_interface_id inp)) db = Inr op"
      "o_state op = StateExecuting" "o_expected_revision op = Some (i_revision i)"
    and i: "query_row (\<lambda>r. i_id r = pu_interface_id inp) (db_interfaces db) = Inr i" "coalesce (i_file_hash i) = pu_original_file_hash inp"
    and 1: "store_peer_update gen now ord inp db = Inr (calls, db1)"
    and 2: "insert_revision (revision_row_of rid (pu_interface_id inp) (i_revision i + 1)
         (Some (pu_proposed_file_hash inp)) (pu_runtime_fingerprint inp) oid now) db1 = Inr db2"
    and 3: "update_interfaces
         (\<lambda>r. i_id r = pu_interface_id inp \<and> i_revision r = i_revision i \<and>
              coalesce (i_file_hash r) = pu_original_file_hash inp)
         (applied_row (pu_proposed_file_hash inp) (pu_runtime_fingerprint inp) (i_revision i + 1) rid now) db2 = Inr (1, db3)"
    and 4: "to_verifying oid (pu_proposed_file_hash inp) now db3 = Inr db'" and n: "n = i_revision i + 1"
  have core: "same_core db db1" by (rule core.store_peer_update_keeps [OF 1 same_core_refl])
  note s2 = insert_revision_stmt [OF 2]
  from core s2 have same: "db_interfaces db2 = db_interfaces db" by (simp add: same_core_def)
  note hit = matched_row [OF 3 same i(1) keys(1), simplified]
  show ?thesis
    unfolding n
    by (rule advancedI [OF 3 _ _ op(1) _ _ op(2,3) i keys _ _ _ 4])
      (use op_where_Inr [OF op(1)] s2 core hit in \<open>auto simp: same_core_def\<close>)
qed

lemma next_archive_frame:
  "next_archive gen now pid mutation previous archive db = Inr (v, db') \<Longrightarrow> same_core db db'"
  by (auto simp: next_archive_def same_core_def simp del: bind_check split: if_splits dest!: insert_envelope_stmt)

lemma lifecycle_advances:
  assumes keys: "keyed i_id (db_interfaces db)" "keyed o_id (db_operations db)"
    and ok: "complete_peer_lifecycle gen now oid pid mutation original proposed runtime archive db = (Inr n, db')"
  shows "\<exists>iid. advanced oid iid original proposed runtime now n db db'"
  using ok
proof (rule complete_peer_lifecycle_Inr)
  fix op iid i peer next_id db1 rid db2 db3 db5 m db6
  assume op: "op_where (\<lambda>r. o_id r = oid) db = Inr op" "o_interface_id op = Some iid"
      "o_state op = StateExecuting" "o_expected_revision op = Some (i_revision i)"
    and i: "query_row (\<lambda>r. i_id r = iid) (db_interfaces db) = Inr i" "original = coalesce (i_file_hash i)"
    and 1: "next_archive gen now pid mutation (p_archived_block_secret_id (peer :: peer_row)) archive db = Inr (next_id, db1)"
    and 2: "insert_revision (revision_row_of rid iid (i_revision i + 1) (Some proposed) runtime oid now) db1 = Inr db2"
    and 3: "update_peers (\<lambda>r. p_id r = pid \<and> p_interface_id r = iid) (lifecycle_row mutation next_id now) db2 = Inr (1, db3)"
    and 4: "(if mutation = ''enable''
         then wrap_r ''remove restored peer archive'' (delete_envelope (coalesce (p_archived_block_secret_id peer))
            (if mutation = ''revoke'' then revoke_rows now pid db3 else db3))
         else Inr (if mutation = ''revoke'' then revoke_rows now pid db3 else db3)) = Inr db5"
    and 5: "update_interfaces
         (\<lambda>r. i_id r = iid \<and> i_revision r = i_revision i \<and> coalesce (i_file_hash r) = coalesce (i_file_hash i))
         (applied_row proposed runtime (i_revision i + 1) rid now) db5 = Inr (m, db6)"
    and 6: "to_verifying oid proposed now db6 = Inr db'" and n: "n = i_revision i + 1"
  from query_row_InrD [OF i(1)] have "i_id i = iid" by simp
  then have hit: "i_id i = iid \<and> i_revision i = i_revision i \<and> coalesce (i_file_hash i) = coalesce (i_file_hash i)" by simp
  from next_archive_frame [OF 1] insert_revision_stmt [OF 2] update_peers_stmt [OF 3]
  have 7: "db_interfaces db3 = db_interfaces db" "db_operations db3 = db_operations db"
    "db_revisions db3 = db_revisions db @ [revision_row_of rid iid (i_revision i + 1) (Some proposed) runtime oid now]"
    by (simp_all add: same_core_def)
  have 8: "db_interfaces db5 = db_interfaces db3 \<and> db_operations db5 = db_operations db3 \<and> db_revisions db5 = db_revisions db3"
    using 4 by (auto simp: revoke_rows_def update_profiles_def update_allocations_def split: if_splits dest!: delete_envelope_frame)
  have "advanced oid iid original proposed runtime now n db db'"
    unfolding n
    by (rule advancedI [OF 5 hit _ op(1) _ op(2-4) i(1) _ keys _ _ _ 6])
      (use op_where_Inr [OF op(1)] 7 8 i(2) in auto)
  then show ?thesis ..
qed


end
