(* ===== verification/PeerArchives.thy ===== *)
theory PeerArchives
  imports PeerStoreCorrect
begin

text \<open>
  The archived configuration block of a disabled peer, from
  \<^verbatim>\<open>src/internal/agent/repository/peer_lifecycle_store.go\<close>: an active peer has none, a disabled or
  revoked one has exactly the envelope that is its own, and a disabled peer gets back what was
  archived.
\<close>

section \<open>The invariant\<close>

definition archive_owner :: "string \<Rightarrow> string \<times> string \<times> string" where
  "archive_owner pid = (''peer'', pid, ''archived_peer_block'')"

definition archive_ok :: "envelope_row list \<Rightarrow> peer_row \<Rightarrow> bool" where
  "archive_ok envs p \<longleftrightarrow>
     (case p_archived_block_secret_id p of
        None \<Rightarrow> p_lifecycle_state p \<notin> {''disabled'', ''revoked''}
      | Some eid \<Rightarrow> p_lifecycle_state p \<noteq> ''active'' \<and>
          (\<exists>e \<in> set envs. se_id e = eid \<and> envelope_owner e = archive_owner (p_id p)))"

definition archives_wf :: "agent_db \<Rightarrow> bool" where
  "archives_wf db \<longleftrightarrow> keyed p_id (db_peers db) \<and> keyed se_id (db_envelopes db) \<and>
     (\<forall>p \<in> set (db_peers db). archive_ok (db_envelopes db) p)"

lemma archive_ok_more: "archive_ok envs p \<Longrightarrow> set envs \<subseteq> set envs' \<Longrightarrow> archive_ok envs' p"
  by (auto simp: archive_ok_def split: option.splits)

lemma insert_peer_archives:
  assumes "insert_peer (new_peer_row inp now) d = Inr d'" and "archives_wf d"
  shows "archives_wf d'"
proof -
  from assms(1) have "key_fresh p_id (p_id (new_peer_row inp now)) (db_peers d)"
    by (simp add: insert_peer_def)
  then have "keyed p_id (db_peers d @ [new_peer_row inp now])"
    using assms(2) by (intro keyed_insert) (simp_all add: archives_wf_def)
  moreover have "archive_ok (db_envelopes d) (new_peer_row inp now)"
    by (simp add: archive_ok_def new_peer_row_def)
  ultimately show ?thesis using assms(2) insert_peer_stmt [OF assms(1)] by (auto simp: archives_wf_def)
qed

lemma insert_envelope_archives:
  assumes "insert_envelope eid cx e now d = Inr d'" and "archives_wf d"
  shows "archives_wf d'"
proof -
  from assms(1) have "key_fresh se_id eid (db_envelopes d)"
    by (simp add: insert_envelope_def insert_envelope_row_def envelope_row_of_def)
  then have "keyed se_id (db_envelopes d @ [envelope_row_of eid cx e now])"
    using assms(2) by (intro keyed_insert) (simp_all add: archives_wf_def envelope_row_of_def)
  with assms(2) insert_envelope_stmt [OF assms(1)] show ?thesis
    by (auto simp: archives_wf_def elim!: archive_ok_more)
qed

lemma edit_peer_archives:
  assumes "archives_wf d"
  shows "archives_wf (d\<lparr>db_peers := update_rows Q (updated_peer_row uinp now) (db_peers d)\<rparr>)"
proof -
  have "archive_ok envs (updated_peer_row uinp now p) = archive_ok envs p" for envs p
    by (cases "p_archived_block_secret_id p") (simp_all add: archive_ok_def updated_peer_row_def)
  with assms show ?thesis
    by (auto simp: archives_wf_def set_update_rows updated_peer_row_def intro!: keyed_update)
qed

interpretation archives: peer_rows archives_wf
proof unfold_locales
  show "archives_wf (d\<lparr>db_peers := update_rows Q (updated_peer_row uinp now) (db_peers d)\<rparr>)" if "archives_wf d" for d Q uinp now
    using that by (rule edit_peer_archives)
  show "archives_wf d'" if "insert_peer (new_peer_row inp now) d = Inr d'" "archives_wf d" for inp now d d'
    using that by (rule insert_peer_archives)
  show "archives_wf d'" if "insert_envelope eid cx e now d = Inr d'" "archives_wf d" for eid cx e now d d'
    using that by (rule insert_envelope_archives)
qed (auto simp: update_allocations_def archives_wf_def
  dest!: insert_allowed_stmt insert_allocation_stmt insert_profile_stmt insert_route_stmt insert_artifact_stmt
    insert_revision_stmt to_verifying_stmt)

section \<open>A change of the life cycle\<close>

text \<open>The peer before and after, and the envelopes after.\<close>

lemma lifecycle_tables:
  assumes wf: "archives_wf db"
    and ok: "complete_peer_lifecycle gen now oid pid mutation original proposed runtime archive db = (Inr n, db')"
  obtains iid peer v g where "peer \<in> set (db_peers db)" and "p_id peer = pid" and "p_interface_id peer = iid"
    and "db_peers db' = map (\<lambda>p. p\<lparr>p_archived_block_secret_id := g p\<rparr>)
      (update_rows (\<lambda>r. p_id r = pid \<and> p_interface_id r = iid) (lifecycle_row mutation v now) (db_peers db))"
    and "mutation = ''enable'' \<Longrightarrow> \<exists>eid. p_archived_block_secret_id peer = Some eid \<and> v = None \<and>
      db_envelopes db' = filter (\<lambda>e. se_id e \<noteq> eid) (db_envelopes db) \<and>
      (\<forall>p. p_archived_block_secret_id p \<noteq> Some eid \<longrightarrow> g p = p_archived_block_secret_id p)"
    and "mutation \<noteq> ''enable'' \<Longrightarrow> \<exists>eid s. v = Some eid \<and> archive = Some s \<and> valid_archive pid archive \<and>
      eid \<notin> se_id ` set (db_envelopes db) \<and> p_archived_block_secret_id peer = None \<and>
      db_envelopes db' = db_envelopes db @ [envelope_row_of eid (si_context s) (si_envelope s) now] \<and>
      g = p_archived_block_secret_id"
    and "db_gateway_id db' = db_gateway_id db"
  using ok
proof (rule complete_peer_lifecycle_Inr)
  fix op iid i peer next_id db1 rid db2 db3 db5 m db6
  assume p: "query_row (\<lambda>r. p_id r = pid \<and> p_interface_id r = iid) (db_peers db) = Inr peer"
    and 1: "next_archive gen now pid mutation (p_archived_block_secret_id (peer :: peer_row)) archive db = Inr (next_id, db1)"
    and 2: "insert_revision (revision_row_of rid iid (i_revision (i :: iface_row) + 1) (Some proposed) runtime oid now) db1 = Inr db2"
    and 3: "update_peers (\<lambda>r. p_id r = pid \<and> p_interface_id r = iid) (lifecycle_row mutation next_id now) db2 = Inr (1, db3)"
    and 4: "(if mutation = ''enable''
         then wrap_r ''remove restored peer archive'' (delete_envelope (coalesce (p_archived_block_secret_id peer))
            (if mutation = ''revoke'' then revoke_rows now pid db3 else db3))
         else Inr (if mutation = ''revoke'' then revoke_rows now pid db3 else db3)) = Inr db5"
    and 5: "update_interfaces
         (\<lambda>r. i_id r = iid \<and> i_revision r = i_revision i \<and> coalesce (i_file_hash r) = coalesce (i_file_hash i))
         (applied_row proposed runtime (i_revision i + 1) rid now) db5 = Inr (m, db6)"
    and 6: "to_verifying oid proposed now db6 = Inr db'"
  from query_row_InrD [OF p] have peer: "peer \<in> set (db_peers db)" "p_id peer = pid" "p_interface_id peer = iid" by auto
  note frames = insert_revision_stmt [OF 2] update_peers_stmt [OF 3] update_interfaces_stmt [OF 5] to_verifying_stmt [OF 6]
  show thesis
  proof (cases "mutation = ''enable''")
    case True
    from 1 True obtain eid where eid: "p_archived_block_secret_id peer = Some eid" "next_id = None" "db1 = db"
      by (cases "p_archived_block_secret_id peer") (simp_all add: next_archive_def)
    from 4 True eid have del: "delete_envelope eid db3 = Inr db5" by (simp add: coalesce_def)
    from delete_envelope_stmt [OF del] obtain g where g: "db_peers db5 = map (\<lambda>p. p\<lparr>p_archived_block_secret_id := g p\<rparr>) (db_peers db3)"
      "\<forall>p. p_archived_block_secret_id p \<noteq> Some eid \<longrightarrow> g p = p_archived_block_secret_id p" by blast
    have gw: "db_gateway_id db5 = db_gateway_id db3"
      using del unfolding delete_envelope_def Let_def by (auto simp del: constraints_Inr bind_r_eq_Inr split: if_splits dest!: guarded_row)
    show thesis
      by (rule that [OF peer, where g = g and v = next_id])
        (use True eid g gw frames delete_envelope_frame [OF del] in auto)
  next
    case False
    from 1 False obtain eid s where eid: "next_id = Some eid" "archive = Some s" "valid_archive pid archive"
        "p_archived_block_secret_id peer = None" "insert_envelope eid (si_context s) (si_envelope s) now db = Inr db1"
      by (cases archive) (auto simp: next_archive_def valid_archive_def simp del: bind_check)
    from eid(5) have fresh: "eid \<notin> se_id ` set (db_envelopes db)"
      by (auto simp: insert_envelope_def insert_envelope_row_def envelope_row_of_def key_fresh_def)
    from 4 False have "db_peers db5 = db_peers db3" "db_envelopes db5 = db_envelopes db3" "db_gateway_id db5 = db_gateway_id db3"
      by (auto simp: revoke_rows_def update_profiles_def update_allocations_def split: if_splits)
    with frames insert_envelope_stmt [OF eid(5)] False eid fresh show thesis
      by (intro that [OF peer, where g = p_archived_block_secret_id and v = next_id]) auto
  qed
qed

lemma own_envelope:
  assumes "archives_wf db" and "p \<in> set (db_peers db)" and "q \<in> set (db_peers db)"
    and "p_archived_block_secret_id p = Some eid" and "p_archived_block_secret_id q = Some eid"
  shows "p = q"
proof -
  from assms have "archive_ok (db_envelopes db) p" "archive_ok (db_envelopes db) q" by (simp_all add: archives_wf_def)
  with assms(4,5) obtain e f where "e \<in> set (db_envelopes db)" "se_id e = eid" "envelope_owner e = archive_owner (p_id p)"
    "f \<in> set (db_envelopes db)" "se_id f = eid" "envelope_owner f = archive_owner (p_id q)"
    by (auto simp: archive_ok_def)
  moreover from this assms(1) have "e = f" by (intro keyed_eq [of se_id]) (auto simp: archives_wf_def)
  ultimately have "p_id p = p_id q" by (simp add: archive_owner_def)
  with assms(1-3) show ?thesis by (intro keyed_eq [of p_id]) (auto simp: archives_wf_def)
qed

lemma valid_archive_owner:
  "valid_archive pid (Some s) \<Longrightarrow> envelope_owner (envelope_row_of eid (si_context s) (si_envelope s) now) = archive_owner pid"
  by (simp add: valid_archive_def envelope_owner_def envelope_row_of_def archive_owner_def)

lemma lifecycle_archives_ok:
  assumes wf: "archives_wf db"
    and ok: "complete_peer_lifecycle gen now oid pid mutation original proposed runtime archive db = (Inr n, db')"
  shows "archives_wf db'"
  using wf ok
proof (rule lifecycle_tables)
  fix iid peer v g
  let ?Q = "\<lambda>r. p_id r = pid \<and> p_interface_id r = iid" and ?row = "lifecycle_row mutation v now"
  assume peer: "peer \<in> set (db_peers db)" "p_id peer = pid" "p_interface_id peer = iid"
    and peers: "db_peers db' = map (\<lambda>p. p\<lparr>p_archived_block_secret_id := g p\<rparr>) (update_rows ?Q ?row (db_peers db))"
    and enable: "mutation = ''enable'' \<Longrightarrow> \<exists>eid. p_archived_block_secret_id peer = Some eid \<and> v = None \<and>
      db_envelopes db' = filter (\<lambda>e. se_id e \<noteq> eid) (db_envelopes db) \<and>
      (\<forall>p. p_archived_block_secret_id p \<noteq> Some eid \<longrightarrow> g p = p_archived_block_secret_id p)"
    and other: "mutation \<noteq> ''enable'' \<Longrightarrow> \<exists>eid s. v = Some eid \<and> archive = Some s \<and> valid_archive pid archive \<and>
      eid \<notin> se_id ` set (db_envelopes db) \<and> p_archived_block_secret_id peer = None \<and>
      db_envelopes db' = db_envelopes db @ [envelope_row_of eid (si_context s) (si_envelope s) now] \<and>
      g = p_archived_block_secret_id"
  have ids: "map p_id (db_peers db') = map p_id (db_peers db)"
    by (simp add: peers comp_def) (simp add: map_update_rows lifecycle_row_def)
  have same: "p = peer" if "p \<in> set (db_peers db)" "?Q p" for p
    using keyed_eq [OF _ that(1) peer(1), of p_id] wf that(2) peer(2) by (simp add: archives_wf_def)
  have ok: "archive_ok (db_envelopes db) p" if "p \<in> set (db_peers db)" for p using wf that by (simp add: archives_wf_def)
  have keys: "keyed p_id (db_peers db')" "keyed se_id (db_envelopes db')"
  proof -
    from wf ids show "keyed p_id (db_peers db')" by (simp add: archives_wf_def keyed_def)
    show "keyed se_id (db_envelopes db')"
    proof (cases "mutation = ''enable''")
      case True
      with enable wf show ?thesis by (auto simp: archives_wf_def)
    next
      case False
      with other wf show ?thesis by (auto simp: archives_wf_def keyed_def envelope_row_of_def)
    qed
  qed
  have "archive_ok (db_envelopes db') (q\<lparr>p_archived_block_secret_id := g q\<rparr>)"
    if q: "q \<in> set (update_rows ?Q ?row (db_peers db))" for q
  proof -
    from q obtain p where p: "p \<in> set (db_peers db)" "q = (if ?Q p then ?row p else p)" by (auto simp: update_rows_def)
    show ?thesis
    proof (cases "mutation = ''enable''")
      case True
      from enable [OF True] obtain eid where e: "p_archived_block_secret_id peer = Some eid" "v = None"
        "db_envelopes db' = filter (\<lambda>e. se_id e \<noteq> eid) (db_envelopes db)"
        "\<And>p. p_archived_block_secret_id p \<noteq> Some eid \<Longrightarrow> g p = p_archived_block_secret_id p" by auto
      show ?thesis
      proof (cases "?Q p")
        case True
        with p e \<open>mutation = ''enable''\<close> show ?thesis
          by (simp add: archive_ok_def lifecycle_row_def lifecycle_target_def)
      next
        case False
        with own_envelope [OF wf p(1) peer(1) _ e(1)] peer have other: "p_archived_block_secret_id p \<noteq> Some eid" by auto
        have "q = p" by (rule p(2) [unfolded if_not_P [OF False]])
        with other e(4) have q': "q\<lparr>p_archived_block_secret_id := g q\<rparr> = p" by simp
        from ok [OF p(1)] other e(3) show ?thesis
          unfolding q' by (auto simp: archive_ok_def split: option.splits)
      qed
    next
      case False
      from other [OF False] obtain eid s where e: "v = Some eid" "valid_archive pid (Some s)"
        "db_envelopes db' = db_envelopes db @ [envelope_row_of eid (si_context s) (si_envelope s) now]"
        "g = p_archived_block_secret_id" by auto
      show ?thesis
      proof (cases "?Q p")
        case True
        with p(2) e False valid_archive_owner [OF e(2), of eid now] show ?thesis
          by (simp add: archive_ok_def lifecycle_row_def lifecycle_target_def)
            (simp add: envelope_row_of_def)
      next
        case False
        have "q = p" by (rule p(2) [unfolded if_not_P [OF False]])
        with e(4) have q': "q\<lparr>p_archived_block_secret_id := g q\<rparr> = p" by simp
        from ok [OF p(1)] show ?thesis unfolding q' by (rule archive_ok_more) (auto simp: e(3))
      qed
    qed
  qed
  with keys show ?thesis by (auto simp: archives_wf_def peers)
qed

lemma lifecycle_archives:
  assumes "archives_wf db"
  shows "archives_wf (snd (complete_peer_lifecycle gen now oid pid mutation original proposed runtime archive db))"
proof -
  obtain res db' where eq: "complete_peer_lifecycle gen now oid pid mutation original proposed runtime archive db = (res, db')"
    by fastforce
  show ?thesis
  proof (cases res)
    case (Inl e)
    with eq lifecycle_fails have "db' = db" by blast
    with eq assms show ?thesis by simp
  next
    case (Inr n)
    with eq lifecycle_archives_ok [OF assms] show ?thesis by simp
  qed
qed

text \<open>
  C25: whatever happens to the peers, an active peer has no archived block, and a disabled or
  revoked peer has exactly one, in an envelope that is owned by it and by no other peer.
\<close>

theorem peer_archives_stay_wf:
  assumes "archives_wf db" and "peer_step\<^sup>*\<^sup>* db db'"
  shows "archives_wf db'"
  using assms(2,1)
proof (induction rule: rtranclp_induct)
  case (step d d')
  from step.hyps(2) step.IH [OF step.prems] show ?case
  proof (induction rule: peer_step.induct)
    case (lifecycle db gen now oid pid mutation original proposed runtime archive)
    then show ?case by (rule lifecycle_archives)
  qed (auto intro: archives.create_keeps archives.update_keeps)
qed

section \<open>A disabled peer gets its block back\<close>

text \<open>
  what is archived when a peer is disabled is what is loaded when it is enabled again: the
  same envelope, in the same context.
\<close>

theorem disabled_peer_keeps_its_block:
  assumes wf: "archives_wf db" and gw: "db_gateway_id db = Some (sx_gateway_id (si_context s))"
    and ok: "complete_peer_lifecycle gen now oid pid ''disable'' original proposed runtime (Some s) db = (Inr n, db')"
  shows "archived_peer_block pid db' = Inr s"
  using wf ok
proof (rule lifecycle_tables)
  fix iid peer v g
  let ?Q = "\<lambda>r. p_id r = pid \<and> p_interface_id r = iid" and ?row = "lifecycle_row ''disable'' v now"
  assume peer: "peer \<in> set (db_peers db)" "p_id peer = pid" "p_interface_id peer = iid"
    and peers: "db_peers db' = map (\<lambda>p. p\<lparr>p_archived_block_secret_id := g p\<rparr>) (update_rows ?Q ?row (db_peers db))"
    and "''disable'' \<noteq> ''enable'' \<Longrightarrow> \<exists>eid s'. v = Some eid \<and> Some s = Some s' \<and> valid_archive pid (Some s) \<and>
      eid \<notin> se_id ` set (db_envelopes db) \<and> p_archived_block_secret_id peer = None \<and>
      db_envelopes db' = db_envelopes db @ [envelope_row_of eid (si_context s') (si_envelope s') now] \<and>
      g = p_archived_block_secret_id"
    and gw': "db_gateway_id db' = db_gateway_id db"
  then obtain eid where e: "v = Some eid" "valid_archive pid (Some s)" "eid \<notin> se_id ` set (db_envelopes db)"
      "db_envelopes db' = db_envelopes db @ [envelope_row_of eid (si_context s) (si_envelope s) now]"
      "g = p_archived_block_secret_id" by auto
  have peers': "db_peers db' = update_rows ?Q ?row (db_peers db)" by (simp add: peers e(5))
  have "keyed p_id (db_peers db')"
    using lifecycle_archives_ok [OF wf ok] by (simp add: archives_wf_def)
  moreover have "?row peer \<in> set (db_peers db')" using peer by (auto simp: peers' update_rows_def)
  ultimately have "find (\<lambda>r. p_id r = pid \<and> p_lifecycle_state r = ''disabled'') (db_peers db') = Some (?row peer)"
    by (rule keyed_find_where) (simp_all add: lifecycle_row_def lifecycle_target_def peer)
  moreover have "load_envelope eid db' = Inr (si_context s, si_envelope s)"
    by (rule load_last_envelope [OF e(3,4)]) (simp add: gw gw')
  moreover have "valid_archive pid (Some \<lparr>si_context = si_context s, si_envelope = si_envelope s\<rparr>)"
    using e(2) by (simp add: valid_archive_def)
  ultimately show ?thesis
    using e(1,2) by (simp add: archived_peer_block_def query_row_def lifecycle_row_def load_secret_def)
qed

section \<open>At a concrete gateway\<close>

text \<open>
  An interface with one pool; the peer \<open>p\<close> routes 10.1.0.0/24 and is active in \<open>demo_active\<close>,
  disabled in \<open>demo_disabled\<close>.
\<close>

definition demo_profile :: profile_row where
  "demo_profile = \<lparr>cp_id = ''cp'', cp_peer_id = ''p'', cp_profile_state = ''ready'', cp_client_private_secret_id = None,
     cp_preshared_secret_id = None, cp_endpoint_host = None, cp_endpoint_port = Some 53, cp_mtu = None,
     cp_dns_json = ''[]'', cp_created_at_ms = 0, cp_updated_at_ms = 0\<rparr>"

definition demo_active :: "string \<Rightarrow> agent_db" where
  "demo_active ty = empty_db\<lparr>db_interfaces := [(demo_iface ''wg0'')\<lparr>i_file_hash := Some ''h''\<rparr>],
     db_pools := [\<lparr>ap_id = ''pool'', ap_interface_id = ''wg0'', ap_family = 4, ap_cidr = ''10.8.0.0/24'',
       ap_gateway_address = ''10.8.0.1'', ap_created_at_ms = 0\<rparr>],
     db_peers := [demo_peer ''p'' ''wg0''],
     db_allocations := [new_allocation_row ''al'' ''pool'' ''p'' ''10.8.0.5'' 0],
     db_allowed := [\<lparr>pa_id = ''x'', pa_peer_id = ''p'', pa_cidr = ''10.1.0.0/24'', pa_purpose = ''routed_subnet'',
       pa_created_at_ms = 0\<rparr>],
     db_profiles := [demo_profile], db_operations := [demo_op ''o'' ty StateExecuting (Some ''wg0'')]\<rparr>"

definition demo_block :: secret_input where
  "demo_block = \<lparr>si_context = \<lparr>sx_gateway_id = ''gw'', sx_owner_type = ''peer'', sx_owner_id = ''p'',
       sx_purpose = ''archived_peer_block''\<rparr>,
     si_envelope = \<lparr>en_algorithm = ''a'', en_ciphertext = ''block'', en_payload_nonce = [], en_wrapped_dek = [],
       en_wrap_nonce = [], en_key_version = 1, en_aad_version = 1, en_fingerprint = []\<rparr>\<rparr>"

definition demo_lifecycle :: "string \<Rightarrow> agent_db \<Rightarrow> (repo_error + int) \<times> agent_db" where
  "demo_lifecycle mutation db = complete_peer_lifecycle (demo_ids CHR ''d'') second ''o'' ''p'' mutation ''h'' ''h2'' ''f''
     (if mutation = ''enable'' then None else Some demo_block) db"

text \<open>The next operation, once the one before is committed, planned at revision \<open>n\<close> and file \<open>h\<close>.\<close>

definition demo_next :: "string \<Rightarrow> int \<Rightarrow> agent_db \<Rightarrow> agent_db" where
  "demo_next ty n db = db\<lparr>db_operations :=
     [(demo_op ''o'' ty StateExecuting (Some ''wg0''))\<lparr>o_expected_revision := Some n\<rparr>],
     db_interfaces := map (\<lambda>r. r\<lparr>i_file_hash := Some ''h''\<rparr>) (db_interfaces db)\<rparr>"

definition demo_disabled :: agent_db where
  "demo_disabled = snd (demo_lifecycle ''disable'' (demo_active ''disable_peer''))"

definition demo_new_peer :: peer_create_input where
  "demo_new_peer = \<lparr>pc_id = ''q'', pc_interface_id = ''wg0'', pc_name = ''q'', pc_public_key = ''kq'',
     pc_key_mode = ''external'', pc_allowed_ips = [''10.8.0.2/32'', ''10.1.0.0/24''], pc_client_routes = [],
     pc_dns_json = ''[]'', pc_mtu = 0, pc_endpoint_host = [], pc_endpoint_port = 53, pc_persistent_keepalive = 0,
     pc_allocation = \<lparr>ac_pool_id = ''pool'', ac_address = ''10.8.0.2'', ac_prefix = ''10.8.0.2/32''\<rparr>,
     pc_client_private = None, pc_preshared_key = None, pc_one_time = None, pc_original_file_hash = ''h'',
     pc_proposed_file_hash = ''h3'', pc_runtime_fingerprint = []\<rparr>"

definition demo_create :: "agent_db \<Rightarrow> (repo_error + int) \<times> agent_db" where
  "demo_create db = complete_peer_create (demo_ids CHR ''c'') second ''o'' demo_new_peer db"

definition owned_of :: "owned_allowed list \<Rightarrow> owned_prefix list" where
  "owned_of = map (\<lambda>r. \<lparr>ow_peer_id = oap_peer_id r, ow_prefix = the (parse_prefix (oap_cidr r))\<rparr>)"

text \<open>
  two active peers can end up with the same allowed prefix. While a peer is disabled its
  prefixes are not counted, so the overlap check lets another peer have them; the disabled peer
  is then enabled again without any check, and both own 10.1.0.0/24.
\<close>

theorem enabling_can_overlap:
  "let before = demo_next ''create_peer'' 2 demo_disabled;
       created = demo_create before;
       enabled = demo_lifecycle ''enable'' (demo_next ''enable_peer'' 3 (snd created)) in
   reject_overlaps (map (the \<circ> parse_prefix) (pc_allowed_ips demo_new_peer)) (owned_of (active_owned_prefixes ''wg0'' before)) [] = None \<and>
   fst created = Inr 3 \<and> fst enabled = Inr 4 \<and>
   active_owned_prefixes ''wg0'' (snd enabled) =
     [\<lparr>oap_peer_id = ''p'', oap_cidr = ''10.1.0.0/24''\<rparr>, \<lparr>oap_peer_id = ''q'', oap_cidr = ''10.1.0.0/24''\<rparr>,
      \<lparr>oap_peer_id = ''q'', oap_cidr = ''10.8.0.2/32''\<rparr>]"
  by code_simp

lemma demo_peers:
  "peer_typed (demo_active ''create_peer'')" "archives_wf (demo_active ''disable_peer'')"
  "fst (demo_create (demo_active ''create_peer'')) = Inr 2"
  "fst (demo_lifecycle ''disable'' (demo_active ''disable_peer'')) = Inr 2"
  "fst (demo_lifecycle ''revoke'' (demo_active ''revoke_peer'')) = Inr 2"
  "keyed i_id (db_interfaces (demo_active ''disable_peer''))" "keyed o_id (db_operations (demo_active ''disable_peer''))"
  "address_taken ''pool'' ''10.8.0.5'' (demo_active ''revoke_peer'')"
  by code_simp+

lemma demo_pair: "fst r = x \<Longrightarrow> r = (x, snd r)"
  by (cases r) simp


theorem quarantine_never_ends_witness:
  "fst (demo_lifecycle ''revoke'' (demo_active ''revoke_peer'')) = Inr 2 \<and>
   address_taken ''pool'' ''10.8.0.5'' (snd (demo_lifecycle ''revoke'' (demo_active ''revoke_peer'')))"
proof -
  have "peer_step\<^sup>*\<^sup>* (demo_active ''revoke_peer'') (snd (demo_lifecycle ''revoke'' (demo_active ''revoke_peer'')))"
    unfolding demo_lifecycle_def by (rule r_into_rtranclp) (rule peer_step.lifecycle)
  from quarantine_never_ends [OF demo_peers(8) this] demo_peers(5) show ?thesis by blast
qed


theorem peer_archives_stay_wf_witness:
  "archives_wf demo_disabled \<and> map p_archived_block_secret_id (db_peers demo_disabled) = [Some ''d'']"
proof -
  have "peer_step\<^sup>*\<^sup>* (demo_active ''disable_peer'') demo_disabled"
    unfolding demo_disabled_def demo_lifecycle_def by (rule r_into_rtranclp) (rule peer_step.lifecycle)
  moreover have "map p_archived_block_secret_id (db_peers demo_disabled) = [Some ''d'']" by code_simp
  ultimately show ?thesis using peer_archives_stay_wf [OF demo_peers(2)] by blast
qed

theorem disabled_peer_keeps_its_block_witness:
  "archived_peer_block ''p'' demo_disabled = Inr demo_block"
proof (rule disabled_peer_keeps_its_block [OF demo_peers(2)])
  show "db_gateway_id (demo_active ''disable_peer'') = Some (sx_gateway_id (si_context demo_block))"
    by (simp add: demo_active_def empty_db_def demo_block_def)
  show "complete_peer_lifecycle (demo_ids CHR ''d'') second ''o'' ''p'' ''disable'' ''h'' ''h2'' ''f'' (Some demo_block)
      (demo_active ''disable_peer'') = (Inr 2, demo_disabled)"
    using demo_pair [OF demo_peers(4)] by (simp add: demo_lifecycle_def demo_disabled_def)
qed

end
