(* ===== verification/SecretStore.thy ===== *)
theory SecretStore
  imports AgentTables
begin

text \<open>
  The one-time artifacts of \<^verbatim>\<open>src/internal/agent/repository/secret_store.go\<close>: a sealed payload that
  one holder of its token can claim once. The methods of the store and the invariant of its two
  tables.
\<close>

record artifact_record =
  ar_id :: string
  ar_peer_id :: string
  ar_context :: secret_context
  ar_envelope :: envelope
  ar_expires_at :: time

section \<open>Methods\<close>

text \<open>\<open>now1\<close> and \<open>now\<close> are the two readings of the clock.\<close>

definition create_one_time ::
  "id_source \<Rightarrow> time \<Rightarrow> time \<Rightarrow> string \<Rightarrow> secret_context \<Rightarrow> envelope \<Rightarrow> string \<Rightarrow> time \<Rightarrow> agent_db
     \<Rightarrow> (repo_error + string) \<times> agent_db" where
  "create_one_time gen now1 now peer cx env hash expires db =
     commit_tx db (
       bind_r (check (\<not> (length hash \<noteq> 32 \<or> \<not> expires > now1))
         (RepoError ''invalid one-time artifact token hash or expiry'')) (\<lambda>_.
       bind_r (gen 0 now) (\<lambda>eid.
       bind_r (gen 1 (now + 1)) (\<lambda>aid.
       bind_r (insert_envelope eid cx env now db) (\<lambda>db1.
       bind_r (wrap_r ''insert one-time artifact'' (insert_artifact
         \<lparr>oa_id = aid, oa_peer_id = peer, oa_secret_envelope_id = Some eid, oa_token_hash = hash,
           oa_state = ArtReady, oa_expires_at_ms = unix_milli expires, oa_consumed_at_ms = None,
           oa_created_at_ms = unix_milli now\<rparr> db1)) (\<lambda>db2.
       Inr (aid, db2)))))))"

definition begin_one_time_consume ::
  "string \<Rightarrow> time \<Rightarrow> agent_db \<Rightarrow> (repo_error + artifact_record) \<times> agent_db" where
  "begin_one_time_consume hash now db =
     commit_tx db (
       case find (\<lambda>a. oa_token_hash a = hash \<and> oa_state a = ArtReady \<and> oa_expires_at_ms a > unix_milli now)
           (db_artifacts db) of
         None \<Rightarrow> Inl ErrUnavailable
       | Some a \<Rightarrow>
           bind_r (wrap_r ''find one-time artifact'' (scan_string (oa_secret_envelope_id a))) (\<lambda>eid.
           bind_r (wrap_r ''claim one-time artifact'' (update_artifacts
             (\<lambda>x. oa_id x = oa_id a \<and> oa_state x = ArtReady) (\<lambda>x. x\<lparr>oa_state := ArtConsuming\<rparr>) db)) (\<lambda>(n, db1).
           bind_r (check (n = 1) ErrUnavailable) (\<lambda>_.
           bind_r (load_envelope eid db1) (\<lambda>(cx, env).
           Inr (\<lparr>ar_id = oa_id a, ar_peer_id = oa_peer_id a, ar_context = cx, ar_envelope = env,
                 ar_expires_at = of_milli (oa_expires_at_ms a)\<rparr>, db1))))))"

definition finalize_one_time_consume :: "string \<Rightarrow> time \<Rightarrow> agent_db \<Rightarrow> (repo_error + unit) \<times> agent_db" where
  "finalize_one_time_consume aid now db =
     commit_tx db (
       case find (\<lambda>a. oa_id a = aid \<and> oa_state a = ArtConsuming) (db_artifacts db) of
         None \<Rightarrow> Inr ((), db)
       | Some a \<Rightarrow>
           bind_r (scan_string (oa_secret_envelope_id a)) (\<lambda>eid.
           bind_r (wrap_r ''finalize one-time artifact'' (update_artifacts
             (\<lambda>x. oa_id x = aid \<and> oa_state x = ArtConsuming)
             (\<lambda>x. x\<lparr>oa_state := ArtConsumed, oa_consumed_at_ms := Some (unix_milli now),
                    oa_secret_envelope_id := None\<rparr>) db)) (\<lambda>(n, db1).
           bind_r (wrap_r ''delete consumed secret envelope'' (delete_envelope eid db1)) (\<lambda>db2.
           Inr ((), db2)))))"

definition stale :: "time \<Rightarrow> artifact_row \<Rightarrow> bool" where
  "stale now a \<longleftrightarrow> oa_state a = ArtConsuming \<or> (oa_state a = ArtReady \<and> oa_expires_at_ms a \<le> unix_milli now)"

definition cleanup_item :: "time \<Rightarrow> artifact_row \<times> string \<Rightarrow> agent_db \<Rightarrow> repo_error + agent_db" where
  "cleanup_item now = (\<lambda>(a, eid) db.
     let (target, consumed_at) = (if oa_state a = ArtConsuming then (ArtConsumed, Some (unix_milli now))
           else (ArtExpired, None)) in
     bind_r (update_artifacts (\<lambda>x. oa_id x = oa_id a)
       (\<lambda>x. x\<lparr>oa_state := target, oa_consumed_at_ms := consumed_at, oa_secret_envelope_id := None\<rparr>) db) (\<lambda>(n, db1).
     delete_envelope eid db1))"

definition cleanup_one_time :: "time \<Rightarrow> agent_db \<Rightarrow> (repo_error + unit) \<times> agent_db" where
  "cleanup_one_time now db =
     commit_tx db (
       bind_r (map_r (\<lambda>a. bind_r (scan_string (oa_secret_envelope_id a)) (\<lambda>eid. Inr (a, eid)))
         (filter (stale now) (db_artifacts db))) (\<lambda>records.
       bind_r (fold_r (cleanup_item now) records db) (\<lambda>db1. Inr ((), db1))))"

section \<open>The invariant of the tables\<close>

text \<open>
  Artifacts have distinct identifiers and token hashes and satisfy their \<open>CHECK\<close>; an artifact
  refers to an envelope that is there, and to one of its own.
\<close>

definition artifacts_wf :: "agent_db \<Rightarrow> bool" where
  "artifacts_wf db \<longleftrightarrow> keyed oa_id (db_artifacts db) \<and> keyed oa_token_hash (db_artifacts db) \<and>
     (\<forall>a \<in> set (db_artifacts db). artifact_check a) \<and>
     (\<forall>a \<in> set (db_artifacts db). fk_to se_id (db_envelopes db) (oa_secret_envelope_id a))"

lemma artifacts_wf_iff:
  "artifacts_wf db \<longleftrightarrow> keyed oa_id (db_artifacts db) \<and> keyed oa_token_hash (db_artifacts db) \<and>
     (\<forall>a \<in> set (db_artifacts db). artifact_check a) \<and>
     (\<forall>a \<in> set (db_artifacts db). \<forall>eid. oa_secret_envelope_id a = Some eid \<longrightarrow> eid \<in> se_id ` set (db_envelopes db))"
  unfolding artifacts_wf_def fk_to_def by (simp split: option.split)

text \<open>A token is spent when its artifact is no longer ready.\<close>

definition spent :: "string \<Rightarrow> agent_db \<Rightarrow> bool" where
  "spent hash db \<longleftrightarrow> (\<exists>a \<in> set (db_artifacts db). oa_token_hash a = hash \<and> oa_state a \<noteq> ArtReady)"

lemma artifact_unique:
  "keyed oa_token_hash t \<Longrightarrow> a \<in> set t \<Longrightarrow> b \<in> set t \<Longrightarrow> oa_token_hash a = oa_token_hash b \<Longrightarrow> a = b"
  by (auto simp: keyed_def distinct_map dest: inj_onD)

lemma update_artifacts_wf:
  assumes "update_artifacts P f db = Inr (n, db')" and "artifacts_wf db"
    and "\<And>a. oa_id (f a) = oa_id a \<and> oa_token_hash (f a) = oa_token_hash a"
    and "\<And>a. oa_secret_envelope_id (f a) = oa_secret_envelope_id a \<or> oa_secret_envelope_id (f a) = None"
  shows "artifacts_wf db'"
proof -
  from assms(1) have db': "db' = db\<lparr>db_artifacts := update_rows P f (db_artifacts db)\<rparr>"
    and c: "list_all artifact_check (update_rows P f (db_artifacts db))"
    by (auto simp: update_artifacts_def Let_def)
  have ref: "eid \<in> se_id ` set (db_envelopes db)"
    if "a \<in> set (db_artifacts db)" "oa_secret_envelope_id (f a) = Some eid" for a eid
  proof -
    from assms(4) [of a] that(2) have "oa_secret_envelope_id a = Some eid" by simp
    with that(1) assms(2) show ?thesis by (auto simp: artifacts_wf_iff)
  qed
  show ?thesis
    using assms(2,3) c ref unfolding artifacts_wf_iff db'
    by (auto simp: list_all_iff set_update_rows intro!: keyed_update)
qed

lemma update_artifacts_spent:
  assumes "update_artifacts P f db = Inr (n, db')" and "spent h db"
    and "\<And>a. oa_token_hash (f a) = oa_token_hash a \<and> oa_state (f a) \<noteq> ArtReady"
  shows "spent h db'"
proof -
  from assms(2) obtain a where a: "a \<in> set (db_artifacts db)" "oa_token_hash a = h" "oa_state a \<noteq> ArtReady"
    by (auto simp: spent_def)
  from assms(1) have "db_artifacts db' = update_rows P f (db_artifacts db)" by (auto simp: update_artifacts_def Let_def)
  then have "(if P a then f a else a) \<in> set (db_artifacts db')" using a(1) by (auto simp: update_rows_def)
  moreover have "oa_token_hash (if P a then f a else a) = h" "oa_state (if P a then f a else a) \<noteq> ArtReady"
    using a assms(3) by simp_all
  ultimately show ?thesis unfolding spent_def by blast
qed

text \<open>Deleting an envelope keeps the artifacts, but for their references to it.\<close>

lemma delete_envelope_cases:
  assumes "delete_envelope eid db = Inr db'"
  shows "eid \<notin> se_id ` set (db_envelopes db')"
    and "db_artifacts db' = map (\<lambda>a. a\<lparr>oa_secret_envelope_id := drop_ref (\<lambda>x. x = eid) (oa_secret_envelope_id a)\<rparr>)
           (db_artifacts db) \<and> list_all artifact_check (db_artifacts db') \<or>
         db' = db \<and> eid \<notin> se_id ` set (db_envelopes db)"
    and "se_id ` set (db_envelopes db') = se_id ` set (db_envelopes db) - {eid}"
  using assms by (auto simp: delete_envelope_def Let_def split: if_splits)

lemma delete_envelope_wf:
  assumes "delete_envelope eid db = Inr db'" and "artifacts_wf db"
  shows "artifacts_wf db'"
  using delete_envelope_cases(2) [OF assms(1)]
proof
  assume d: "db_artifacts db' = map (\<lambda>a. a\<lparr>oa_secret_envelope_id := drop_ref (\<lambda>x. x = eid) (oa_secret_envelope_id a)\<rparr>)
     (db_artifacts db) \<and> list_all artifact_check (db_artifacts db')"
  then have art: "db_artifacts db' = map (\<lambda>a. a\<lparr>oa_secret_envelope_id := drop_ref (\<lambda>x. x = eid) (oa_secret_envelope_id a)\<rparr>)
     (db_artifacts db)" and chk: "\<forall>a \<in> set (db_artifacts db'). artifact_check a"
    unfolding list_all_iff by blast+
  have "keyed oa_id (db_artifacts db')" "keyed oa_token_hash (db_artifacts db')"
    using assms(2) by (simp_all add: art artifacts_wf_iff keyed_def o_def)
  moreover have "x \<in> se_id ` set (db_envelopes db')"
    if "a \<in> set (db_artifacts db')" "oa_secret_envelope_id a = Some x" for a x
    using that assms(2) unfolding art delete_envelope_cases(3) [OF assms(1)]
    by (auto simp: artifacts_wf_iff drop_ref_def split: option.splits if_splits)
  ultimately show ?thesis using chk unfolding artifacts_wf_iff by blast
qed (use assms(2) in simp)

lemma delete_envelope_spent:
  assumes "delete_envelope eid db = Inr db'"
  shows "spent h db' \<longleftrightarrow> spent h db"
  using delete_envelope_cases(2) [OF assms] by (elim disjE conjE) (simp_all add: spent_def)

section \<open>Claiming\<close>

lemma begin_one_time_consume_Inr:
  assumes "begin_one_time_consume hash now db = (Inr r, db')"
  obtains a eid n where "a \<in> set (db_artifacts db)" and "oa_token_hash a = hash" and "oa_state a = ArtReady"
    and "oa_expires_at_ms a > unix_milli now" and "oa_secret_envelope_id a = Some eid"
    and "update_artifacts (\<lambda>x. oa_id x = oa_id a \<and> oa_state x = ArtReady) (\<lambda>x. x\<lparr>oa_state := ArtConsuming\<rparr>) db = Inr (n, db')"
    and "load_envelope eid db' = Inr (ar_context r, ar_envelope r)"
    and "ar_id r = oa_id a" and "ar_peer_id r = oa_peer_id a"
  using assms
  by (auto simp: begin_one_time_consume_def commit_tx_Inr scan_string_def
      split: option.splits sum.splits if_splits dest!: find_SomeD)

lemma begin_one_time_consume_Inl: "begin_one_time_consume hash now db = (Inl e, db') \<Longrightarrow> db' = db"
  by (auto simp: begin_one_time_consume_def elim!: commit_tx_cases)

lemma begin_one_time_consume_claims:
  assumes "artifacts_wf db" and "begin_one_time_consume hash now db = (Inr r, db')"
  shows "artifacts_wf db'" and "spent hash db'"
proof -
  from assms(2) obtain a eid n where a: "a \<in> set (db_artifacts db)" "oa_token_hash a = hash" "oa_state a = ArtReady"
    and u: "update_artifacts (\<lambda>x. oa_id x = oa_id a \<and> oa_state x = ArtReady) (\<lambda>x. x\<lparr>oa_state := ArtConsuming\<rparr>) db
      = Inr (n, db')"
    by (rule begin_one_time_consume_Inr)
  show "artifacts_wf db'" by (rule update_artifacts_wf [OF u assms(1)]) simp_all
  from u have "db_artifacts db' = update_rows (\<lambda>x. oa_id x = oa_id a \<and> oa_state x = ArtReady)
      (\<lambda>x. x\<lparr>oa_state := ArtConsuming\<rparr>) (db_artifacts db)"
    by (auto simp: update_artifacts_def Let_def)
  then have "a\<lparr>oa_state := ArtConsuming\<rparr> \<in> set (db_artifacts db')" using a by (auto simp: set_update_rows)
  then show "spent hash db'" using a(2) unfolding spent_def by (intro bexI) auto
qed

lemma begin_one_time_consume_refuses:
  assumes "artifacts_wf db" and "spent hash db"
  shows "begin_one_time_consume hash now db = (Inl ErrUnavailable, db)"
proof -
  from assms(2) obtain b where b: "b \<in> set (db_artifacts db)" "oa_token_hash b = hash" "oa_state b \<noteq> ArtReady"
    by (auto simp: spent_def)
  have "find (\<lambda>a. oa_token_hash a = hash \<and> oa_state a = ArtReady \<and> oa_expires_at_ms a > unix_milli now) (db_artifacts db) = None"
    unfolding find_None_iff
  proof
    assume "\<exists>x. x \<in> set (db_artifacts db) \<and> oa_token_hash x = hash \<and> oa_state x = ArtReady \<and>
      unix_milli now < oa_expires_at_ms x"
    then obtain x where x: "x \<in> set (db_artifacts db)" "oa_token_hash x = hash" "oa_state x = ArtReady" by blast
    have "keyed oa_token_hash (db_artifacts db)" using assms(1) by (simp add: artifacts_wf_iff)
    from artifact_unique [OF this x(1) b(1)] x b show False by simp
  qed
  then show ?thesis by (simp add: begin_one_time_consume_def)
qed

section \<open>Creating\<close>

lemma create_one_time_Inr:
  assumes "create_one_time gen now1 now peer cx env hash expires db = (Inr aid, db')"
  obtains eid db1 where "gen 0 now = Inr eid" and "gen 1 (now + 1) = Inr aid" and "length hash = 32"
    and "insert_envelope eid cx env now db = Inr db1"
    and "db' = db1\<lparr>db_artifacts := db_artifacts db1 @ [\<lparr>oa_id = aid, oa_peer_id = peer, oa_secret_envelope_id = Some eid,
           oa_token_hash = hash, oa_state = ArtReady, oa_expires_at_ms = unix_milli expires,
           oa_consumed_at_ms = None, oa_created_at_ms = unix_milli now\<rparr>]\<rparr>"
    and "aid \<notin> oa_id ` set (db_artifacts db)" and "hash \<notin> oa_token_hash ` set (db_artifacts db)"
proof -
  from assms obtain eid db1 where *: "length hash = 32" "gen 0 now = Inr eid" "gen 1 (now + 1) = Inr aid"
    and ins: "insert_envelope eid cx env now db = Inr db1"
    and art: "insert_artifact \<lparr>oa_id = aid, oa_peer_id = peer, oa_secret_envelope_id = Some eid, oa_token_hash = hash,
           oa_state = ArtReady, oa_expires_at_ms = unix_milli expires, oa_consumed_at_ms = None,
           oa_created_at_ms = unix_milli now\<rparr> db1 = Inr db'"
    by (auto simp: create_one_time_def commit_tx_Inr simp del: bind_check)
  have "db_artifacts db1 = db_artifacts db" using ins by (simp add: insert_envelope_Inr)
  with art [unfolded insert_artifact_Inr] show thesis by (intro that [OF *(2,3,1) ins]) simp_all
qed

lemma create_one_time_keeps:
  assumes "artifacts_wf db"
  shows "artifacts_wf (snd (create_one_time gen now1 now peer cx env hash expires db))"
    and "spent h db \<Longrightarrow> spent h (snd (create_one_time gen now1 now peer cx env hash expires db))"
proof -
  obtain res db' where eq: "create_one_time gen now1 now peer cx env hash expires db = (res, db')" by (cases "create_one_time gen now1 now peer cx env hash expires db")
  have "artifacts_wf db' \<and> (spent h db \<longrightarrow> spent h db')"
  proof (cases res)
    case (Inl e)
    then have "db' = db" using eq by (auto simp: create_one_time_def elim!: commit_tx_cases)
    with assms show ?thesis by simp
  next
    case (Inr aid)
    from eq [unfolded Inr] obtain eid db1 where ins: "insert_envelope eid cx env now db = Inr db1"
      and db': "db' = db1\<lparr>db_artifacts := db_artifacts db1 @ [\<lparr>oa_id = aid, oa_peer_id = peer,
           oa_secret_envelope_id = Some eid, oa_token_hash = hash, oa_state = ArtReady,
           oa_expires_at_ms = unix_milli expires, oa_consumed_at_ms = None, oa_created_at_ms = unix_milli now\<rparr>]\<rparr>"
      and fresh: "aid \<notin> oa_id ` set (db_artifacts db)" "hash \<notin> oa_token_hash ` set (db_artifacts db)"
      by (rule create_one_time_Inr)
    from ins db' fresh assms show ?thesis
      by (auto simp: insert_envelope_Inr artifacts_wf_iff spent_def artifact_check_def keyed_def envelope_row_of_def)
  qed
  with eq show "artifacts_wf (snd (create_one_time gen now1 now peer cx env hash expires db))"
    "spent h db \<Longrightarrow> spent h (snd (create_one_time gen now1 now peer cx env hash expires db))" by auto
qed

section \<open>Finalizing\<close>

lemma finalize_one_time_cases:
  assumes "finalize_one_time_consume aid now db = (res, db')"
  obtains "db' = db"
    | a eid n db1 where "a \<in> set (db_artifacts db)" and "oa_id a = aid" and "oa_state a = ArtConsuming"
      and "oa_secret_envelope_id a = Some eid"
      and "update_artifacts (\<lambda>x. oa_id x = aid \<and> oa_state x = ArtConsuming)
               (\<lambda>x. x\<lparr>oa_state := ArtConsumed, oa_consumed_at_ms := Some (unix_milli now),
                      oa_secret_envelope_id := None\<rparr>) db = Inr (n, db1)"
      and "delete_envelope eid db1 = Inr db'" and "res = Inr ()"
  using assms unfolding finalize_one_time_consume_def
  by (elim commit_tx_cases)
    (auto simp: scan_string_def split: option.splits sum.splits dest!: find_SomeD)

lemma finalize_one_time_keeps:
  assumes "artifacts_wf db"
  shows "artifacts_wf (snd (finalize_one_time_consume aid now db))"
    and "spent h db \<Longrightarrow> spent h (snd (finalize_one_time_consume aid now db))"
proof -
  obtain res db' where eq: "finalize_one_time_consume aid now db = (res, db')" by (cases "finalize_one_time_consume aid now db")
  from eq have "artifacts_wf db' \<and> (spent h db \<longrightarrow> spent h db')"
  proof (cases rule: finalize_one_time_cases)
    case 1
    with assms show ?thesis by simp
  next
    case (2 a eid n db1)
    have "artifacts_wf db1" by (rule update_artifacts_wf [OF 2(5) assms]) simp_all
    with delete_envelope_wf [OF 2(6)] delete_envelope_spent [OF 2(6)] update_artifacts_spent [OF 2(5)]
    show ?thesis by simp
  qed
  with eq show "artifacts_wf (snd (finalize_one_time_consume aid now db))"
    "spent h db \<Longrightarrow> spent h (snd (finalize_one_time_consume aid now db))" by auto
qed

section \<open>Cleanup\<close>

text \<open>
  \<open>closes S db db'\<close>: the artifacts of \<open>db'\<close> are those of \<open>db\<close>, the ones in \<open>S\<close> consumed or
  expired and the others in their state.
\<close>

definition closed_state :: "artifact_state \<Rightarrow> bool" where
  "closed_state st \<longleftrightarrow> st = ArtConsumed \<or> st = ArtExpired"

definition closes :: "string set \<Rightarrow> agent_db \<Rightarrow> agent_db \<Rightarrow> bool" where
  "closes S db db' \<longleftrightarrow> (\<exists>g. db_artifacts db' = map g (db_artifacts db) \<and>
     (\<forall>x. oa_id (g x) = oa_id x \<and> oa_token_hash (g x) = oa_token_hash x \<and>
       oa_expires_at_ms (g x) = oa_expires_at_ms x \<and>
       (oa_id x \<in> S \<longrightarrow> closed_state (oa_state (g x))) \<and> (oa_id x \<notin> S \<longrightarrow> oa_state (g x) = oa_state x)))"

lemma closes_refl: "closes {} db db"
  unfolding closes_def by (intro exI [of _ id]) simp

lemma closes_trans:
  assumes "closes S db db1" and "closes T db1 db2"
  shows "closes (S \<union> T) db db2"
proof -
  from assms(1) obtain g where g: "db_artifacts db1 = map g (db_artifacts db)"
    "\<And>x. oa_id (g x) = oa_id x \<and> oa_token_hash (g x) = oa_token_hash x \<and>
       oa_expires_at_ms (g x) = oa_expires_at_ms x \<and>
       (oa_id x \<in> S \<longrightarrow> closed_state (oa_state (g x))) \<and> (oa_id x \<notin> S \<longrightarrow> oa_state (g x) = oa_state x)"
    unfolding closes_def by blast
  from assms(2) obtain f where f: "db_artifacts db2 = map f (db_artifacts db1)"
    "\<And>x. oa_id (f x) = oa_id x \<and> oa_token_hash (f x) = oa_token_hash x \<and>
       oa_expires_at_ms (f x) = oa_expires_at_ms x \<and>
       (oa_id x \<in> T \<longrightarrow> closed_state (oa_state (f x))) \<and> (oa_id x \<notin> T \<longrightarrow> oa_state (f x) = oa_state x)"
    unfolding closes_def by blast
  show ?thesis
    unfolding closes_def
    by (rule exI [of _ "f \<circ> g"], rule conjI) (simp add: f(1) g(1), metis f(2) g(2) UnE UnI1 UnI2 comp_apply)
qed

lemma closes_delete: "delete_envelope eid db = Inr db' \<Longrightarrow> closes {} db db'"
proof -
  assume "delete_envelope eid db = Inr db'"
  from delete_envelope_cases(2) [OF this] show ?thesis
  proof (elim disjE conjE)
    assume "db_artifacts db' = map (\<lambda>a. a\<lparr>oa_secret_envelope_id := drop_ref (\<lambda>x. x = eid) (oa_secret_envelope_id a)\<rparr>)
      (db_artifacts db)"
    then show ?thesis unfolding closes_def by (intro exI conjI) (assumption, simp)
  next
    assume "db' = db"
    then show ?thesis by (simp add: closes_refl)
  qed
qed

lemma cleanup_item_closes:
  assumes "cleanup_item now (a, eid) db = Inr db'"
  shows "closes {oa_id a} db db'" and "eid \<notin> se_id ` set (db_envelopes db')"
    and "se_id ` set (db_envelopes db') \<subseteq> se_id ` set (db_envelopes db)"
    and "artifacts_wf db \<Longrightarrow> artifacts_wf db'"
proof -
  define st at where "st = (if oa_state a = ArtConsuming then ArtConsumed else ArtExpired)"
    and "at = (if oa_state a = ArtConsuming then Some (unix_milli now) else None)"
  let ?f = "\<lambda>x. x\<lparr>oa_state := st, oa_consumed_at_ms := at, oa_secret_envelope_id := None\<rparr>"
  from assms obtain n db1 where u: "update_artifacts (\<lambda>x. oa_id x = oa_id a) ?f db = Inr (n, db1)"
    and d: "delete_envelope eid db1 = Inr db'"
    by (cases "oa_state a = ArtConsuming") (auto simp: cleanup_item_def st_def at_def)
  from u have db1: "db1 = db\<lparr>db_artifacts := update_rows (\<lambda>x. oa_id x = oa_id a) ?f (db_artifacts db)\<rparr>"
    by (auto simp: update_artifacts_def Let_def)
  have "closes {oa_id a} db db1"
    unfolding closes_def db1 update_rows_def
    by (rule exI [of _ "\<lambda>x. if oa_id x = oa_id a then ?f x else x"]) (simp add: st_def closed_state_def)
  from closes_trans [OF this closes_delete [OF d]] show "closes {oa_id a} db db'" by simp
  show "eid \<notin> se_id ` set (db_envelopes db')" by (rule delete_envelope_cases(1) [OF d])
  show "se_id ` set (db_envelopes db') \<subseteq> se_id ` set (db_envelopes db)"
    using delete_envelope_cases(3) [OF d] db1 by auto
  show "artifacts_wf db'" if "artifacts_wf db"
    by (rule delete_envelope_wf [OF d], rule update_artifacts_wf [OF u that]) simp_all
qed

lemma cleanup_items_close:
  "fold_r (cleanup_item now) records db = Inr db' \<Longrightarrow>
     closes (oa_id ` fst ` set records) db db' \<and> snd ` set records \<inter> se_id ` set (db_envelopes db') = {} \<and>
     se_id ` set (db_envelopes db') \<subseteq> se_id ` set (db_envelopes db) \<and> (artifacts_wf db \<longrightarrow> artifacts_wf db')"
proof (induction records arbitrary: db)
  case Nil
  then show ?case by (simp add: closes_refl)
next
  case (Cons r records)
  obtain a eid where r: "r = (a, eid)" by (cases r)
  with Cons.prems obtain db1 where s: "cleanup_item now (a, eid) db = Inr db1" "fold_r (cleanup_item now) records db1 = Inr db'"
    by auto
  note i = cleanup_item_closes [OF s(1)] and ih = Cons.IH [OF s(2)]
  have ih1: "closes (oa_id ` fst ` set records) db1 db'"
    and ih2: "snd ` set records \<inter> se_id ` set (db_envelopes db') = {}"
    and ih3: "se_id ` set (db_envelopes db') \<subseteq> se_id ` set (db_envelopes db1)"
    and ih4: "artifacts_wf db1 \<longrightarrow> artifacts_wf db'" using ih by simp_all
  have "closes (oa_id ` fst ` set (r # records)) db db'"
    using closes_trans [OF i(1) ih1] r by simp
  moreover have "snd ` set (r # records) \<inter> se_id ` set (db_envelopes db') = {}"
    using i(2) ih2 ih3 r by auto
  moreover have "se_id ` set (db_envelopes db') \<subseteq> se_id ` set (db_envelopes db)"
    using i(3) ih3 by (rule order_trans [rotated])
  moreover have "artifacts_wf db \<longrightarrow> artifacts_wf db'" using i(4) ih4 by simp
  ultimately show ?case by simp
qed

lemma closes_spent: "closes S db db' \<Longrightarrow> spent h db \<Longrightarrow> spent h db'"
proof -
  assume "closes S db db'" and "spent h db"
  then obtain g a where g: "db_artifacts db' = map g (db_artifacts db)"
    "oa_token_hash (g a) = oa_token_hash a" "oa_id a \<in> S \<longrightarrow> closed_state (oa_state (g a))"
    "oa_id a \<notin> S \<longrightarrow> oa_state (g a) = oa_state a"
    and a: "a \<in> set (db_artifacts db)" "oa_token_hash a = h" "oa_state a \<noteq> ArtReady"
    unfolding closes_def spent_def by blast
  then have "g a \<in> set (db_artifacts db')" "oa_token_hash (g a) = h" "oa_state (g a) \<noteq> ArtReady"
    by (auto simp: closed_state_def)
  then show "spent h db'" unfolding spent_def by blast
qed

lemma cleanup_one_time_Inr:
  assumes "cleanup_one_time now db = (Inr (), db')"
  obtains records where "map_r (\<lambda>a. bind_r (scan_string (oa_secret_envelope_id a)) (\<lambda>eid. Inr (a, eid)))
      (filter (stale now) (db_artifacts db)) = Inr records"
    and "fold_r (cleanup_item now) records db = Inr db'"
  using assms by (auto simp: cleanup_one_time_def commit_tx_Inr)

lemma cleanup_one_time_keeps:
  assumes "artifacts_wf db"
  shows "artifacts_wf (snd (cleanup_one_time now db))"
    and "spent h db \<Longrightarrow> spent h (snd (cleanup_one_time now db))"
proof -
  obtain res db' where eq: "cleanup_one_time now db = (res, db')" by (cases "cleanup_one_time now db")
  have "artifacts_wf db' \<and> (spent h db \<longrightarrow> spent h db')"
  proof (cases res)
    case (Inl e)
    then have "db' = db" using eq by (auto simp: cleanup_one_time_def elim!: commit_tx_cases)
    with assms show ?thesis by simp
  next
    case (Inr u)
    with eq have "cleanup_one_time now db = (Inr (), db')" by simp
    then obtain records where "fold_r (cleanup_item now) records db = Inr db'" by (rule cleanup_one_time_Inr)
    note c = cleanup_items_close [OF this]
    from c assms have "artifacts_wf db'" by simp
    with closes_spent [OF c [THEN conjunct1]] show ?thesis by simp
  qed
  with eq show "artifacts_wf (snd (cleanup_one_time now db))"
    "spent h db \<Longrightarrow> spent h (snd (cleanup_one_time now db))" by auto
qed

text \<open>
  the cleanup after a restart fails closed: when it succeeds, no artifact is left in the
  middle of a consumption or ready past its expiry, the ciphertext of every such artifact is gone
  from the database, and no spent token becomes usable again.
\<close>

theorem cleanup_fails_closed:
  assumes "artifacts_wf db" and "cleanup_one_time now db = (Inr (), db')"
  shows "(\<forall>a \<in> set (db_artifacts db'). \<not> stale now a) \<and>
    (\<forall>a \<in> set (db_artifacts db). stale now a \<longrightarrow>
       (\<forall>eid. oa_secret_envelope_id a = Some eid \<longrightarrow> eid \<notin> se_id ` set (db_envelopes db'))) \<and>
    artifacts_wf db' \<and> (\<forall>h. spent h db \<longrightarrow> spent h db')"
proof -
  from assms(2) obtain records where rec: "map_r (\<lambda>a. bind_r (scan_string (oa_secret_envelope_id a)) (\<lambda>eid. Inr (a, eid)))
      (filter (stale now) (db_artifacts db)) = Inr records"
    and fold: "fold_r (cleanup_item now) records db = Inr db'" by (rule cleanup_one_time_Inr)
  note c = cleanup_items_close [OF fold]
  have listed: "\<exists>eid. oa_secret_envelope_id a = Some eid \<and> (a, eid) \<in> set records"
    if a: "a \<in> set (db_artifacts db)" "stale now a" for a
  proof -
    from a have "a \<in> set (filter (stale now) (db_artifacts db))" by simp
    with map_r_mem [OF rec] obtain r where "r \<in> set records"
      "bind_r (scan_string (oa_secret_envelope_id a)) (\<lambda>eid. Inr (a, eid)) = Inr r"
      by blast
    then show ?thesis by (auto simp: scan_string_def split: option.splits)
  qed
  have records: "fst r \<in> set (db_artifacts db) \<and> stale now (fst r)" if "r \<in> set records" for r
  proof -
    from map_r_mem2 [OF rec that] obtain a where "a \<in> set (filter (stale now) (db_artifacts db))"
      "bind_r (scan_string (oa_secret_envelope_id a)) (\<lambda>eid. Inr (a, eid)) = Inr r"
      by blast
    then show ?thesis by auto
  qed
  from c [THEN conjunct1, unfolded closes_def] obtain g where g: "db_artifacts db' = map g (db_artifacts db)"
    and gs: "\<forall>x. oa_id (g x) = oa_id x \<and> oa_token_hash (g x) = oa_token_hash x \<and>
       oa_expires_at_ms (g x) = oa_expires_at_ms x \<and>
       (oa_id x \<in> oa_id ` fst ` set records \<longrightarrow> closed_state (oa_state (g x))) \<and>
       (oa_id x \<notin> oa_id ` fst ` set records \<longrightarrow> oa_state (g x) = oa_state x)"
    by (elim exE conjE)
  have "\<not> stale now a'" if a': "a' \<in> set (db_artifacts db')" for a'
  proof -
    from a' g obtain x where x: "x \<in> set (db_artifacts db)" "a' = g x" by auto
    show ?thesis
    proof (cases "stale now x")
      case True
      from listed [OF x(1) True] have "oa_id x \<in> oa_id ` fst ` set records" by force
      with gs x(2) have "closed_state (oa_state a')" by simp
      then show ?thesis by (auto simp: stale_def closed_state_def)
    next
      case False
      have "oa_id x \<notin> oa_id ` fst ` set records"
      proof
        assume "oa_id x \<in> oa_id ` fst ` set records"
        then obtain r where r: "r \<in> set records" "oa_id (fst r) = oa_id x" by auto
        have "inj_on oa_id (set (db_artifacts db))"
          using assms(1) by (simp add: artifacts_wf_iff keyed_def distinct_map)
        with records [OF r(1)] r(2) x(1) have "fst r = x" by (auto dest: inj_onD)
        with records [OF r(1)] False show False by simp
      qed
      with gs x(2) have "oa_state a' = oa_state x" "oa_expires_at_ms a' = oa_expires_at_ms x" by simp_all
      with False show ?thesis by (simp add: stale_def)
    qed
  qed
  moreover have "eid \<notin> se_id ` set (db_envelopes db')"
    if "a \<in> set (db_artifacts db)" "stale now a" "oa_secret_envelope_id a = Some eid" for a eid
  proof -
    from listed [OF that(1,2)] that(3) have "eid \<in> snd ` set records" by force
    with c show ?thesis by auto
  qed
  moreover have "artifacts_wf db'" using c assms(1) by simp
  moreover have "spent h db'" if "spent h db" for h by (rule closes_spent [OF c [THEN conjunct1] that])
  ultimately show ?thesis by blast
qed

end
