(* ===== verification/ArtifactService.thy ===== *)
theory ArtifactService
  imports SecretStore DemoDb
begin

text \<open>
  \<^verbatim>\<open>src/internal/agent/artifact/service.go\<close>: the service that seals a payload for one reader and
  opens it for the holder of the token. The service is written against the interface \<open>Store\<close>;
  the locale \<open>one_time_store\<close> states what it relies on, and the repository of \<open>SecretStore\<close>
  is shown to provide it.
\<close>

section \<open>The service\<close>

record 'db store =
  st_create :: "string \<Rightarrow> secret_context \<Rightarrow> envelope \<Rightarrow> string \<Rightarrow> time \<Rightarrow> 'db \<Rightarrow> (repo_error + string) \<times> 'db"
  st_begin :: "string \<Rightarrow> time \<Rightarrow> 'db \<Rightarrow> (repo_error + artifact_record) \<times> 'db"
  st_finalize :: "string \<Rightarrow> time \<Rightarrow> 'db \<Rightarrow> (repo_error + unit) \<times> 'db"
  st_cleanup :: "time \<Rightarrow> 'db \<Rightarrow> (repo_error + unit) \<times> 'db"

record service =
  sv_crypto :: crypto
  sv_master_key :: "32 word \<Rightarrow> string + string"
  sv_key_version :: "32 word"

definition from_text :: "string + 'a \<Rightarrow> repo_error + 'a" where
  "from_text r = (case r of Inl e \<Rightarrow> Inl (RepoError e) | Inr x \<Rightarrow> Inr x)"

text \<open>What \<open>Create\<close> takes: three reads for the envelope, one for the token, the clock, the arguments.\<close>

record create_args =
  ca_dek :: "string option"
  ca_payload_nonce :: "string option"
  ca_wrap_nonce :: "string option"
  ca_token :: "string option"
  ca_now :: time
  ca_peer_id :: string
  ca_context :: secret_context
  ca_payload :: string
  ca_ttl :: int

definition seal_payload :: "service \<Rightarrow> create_args \<Rightarrow> repo_error + envelope \<times> string" where
  "seal_payload v c =
     bind_r (check (\<not> (ca_peer_id c = [] \<or> ca_ttl c \<le> 0)) (RepoError ''peer ID and positive TTL are required'')) (\<lambda>_.
     bind_r (from_text (sv_master_key v (sv_key_version v))) (\<lambda>master.
     bind_r (from_text (seal (sv_crypto v) (ca_dek c) (ca_payload_nonce c) (ca_wrap_nonce c) master
       (sv_key_version v) (ca_context c) (ca_payload c) [])) (\<lambda>env.
     bind_r (from_text (read_full ''generate one-time token'' (ca_token c))) (\<lambda>token.
     Inr (env, token)))))"

definition create_artifact ::
  "service \<Rightarrow> 'db store \<Rightarrow> create_args \<Rightarrow> 'db \<Rightarrow> (repo_error + string \<times> string) \<times> 'db" where
  "create_artifact v S c db =
     (case seal_payload v c of
        Inl e \<Rightarrow> (Inl e, db)
      | Inr (env, token) \<Rightarrow>
          (case st_create S (ca_peer_id c) (ca_context c) env (token_hash (sv_crypto v) token)
               (ca_now c + ca_ttl c) db of
             (Inl e, db') \<Rightarrow> (Inl e, db')
           | (Inr aid, db') \<Rightarrow> (Inr (aid, token), db')))"

text \<open>
  \<open>Consume\<close>: the error it returns, the plaintext it passed to the consumer, and the database.
  The deferred finalizer runs on every path after the claim, with a later reading of the clock.
\<close>

record consume_args =
  cn_token :: string
  cn_now :: time
  cn_later :: time
  cn_consumer :: "(string \<Rightarrow> repo_error option) option"

definition open_record :: "service \<Rightarrow> artifact_record \<Rightarrow> repo_error + string" where
  "open_record v r =
     bind_r (from_text (sv_master_key v (en_key_version (ar_envelope r)))) (\<lambda>master.
     from_text (open_envelope (sv_crypto v) master (ar_context r) (ar_envelope r)))"

definition consume_artifact ::
  "service \<Rightarrow> 'db store \<Rightarrow> consume_args \<Rightarrow> 'db \<Rightarrow> repo_error option \<times> string option \<times> 'db" where
  "consume_artifact v S c db =
     (if length (cn_token c) \<noteq> 32 \<or> cn_consumer c = None then (Some ErrUnavailable, None, db)
      else (case st_begin S (token_hash (sv_crypto v) (cn_token c)) (cn_now c) db of
          (Inl e, db1) \<Rightarrow> (Some ErrUnavailable, None, db1)
        | (Inr r, db1) \<Rightarrow>
            (let (err, plain) = (case open_record v r of
                   Inl e \<Rightarrow> (Some e, None)
                 | Inr p \<Rightarrow> (the (cn_consumer c) p, Some p));
                 (fin, db2) = st_finalize S (ar_id r) (cn_later c) db1 in
             (if err = None then (case fin of Inl e \<Rightarrow> Some e | Inr u \<Rightarrow> None) else err, plain, db2))))"

definition recover_artifacts :: "'db store \<Rightarrow> time \<Rightarrow> 'db \<Rightarrow> (repo_error + unit) \<times> 'db" where
  "recover_artifacts S now db = st_cleanup S now db"

text \<open>The database after a consumption.\<close>

lemma consume_artifact_db:
  obtains "snd (snd (consume_artifact v S c db)) = db"
    | e where "st_begin S (token_hash (sv_crypto v) (cn_token c)) (cn_now c) db = (Inl e, snd (snd (consume_artifact v S c db)))"
    | r db1 where "st_begin S (token_hash (sv_crypto v) (cn_token c)) (cn_now c) db = (Inr r, db1)"
      and "snd (snd (consume_artifact v S c db)) = snd (st_finalize S (ar_id r) (cn_later c) db1)"
proof (cases "length (cn_token c) \<noteq> 32 \<or> cn_consumer c = None")
  case True
  then show thesis by (intro that(1)) (simp add: consume_artifact_def)
next
  case False
  obtain res db1 where b: "st_begin S (token_hash (sv_crypto v) (cn_token c)) (cn_now c) db = (res, db1)"
    by fastforce
  show thesis
  proof (cases res)
    case (Inl e)
    with b False show thesis by (intro that(2) [of e]) (auto simp: consume_artifact_def)
  next
    case (Inr r)
    with b False show thesis
      by (intro that(3) [of r db1]) (auto simp: consume_artifact_def Let_def split: prod.splits)
  qed
qed

section \<open>Runs\<close>

text \<open>
  A run is a sequence of calls, each with its own store methods (the repository with that
  call's clock and identifiers); \<open>deliveries\<close> are the tokens and plaintexts passed to consumers.
\<close>

datatype 'db artifact_call =
    Create "'db store" create_args
  | Consume "'db store" consume_args
  | Recover "'db store" time

fun call_db :: "service \<Rightarrow> 'db artifact_call \<Rightarrow> 'db \<Rightarrow> 'db" where
  "call_db v (Create S c) db = snd (create_artifact v S c db)"
| "call_db v (Consume S c) db = snd (snd (consume_artifact v S c db))"
| "call_db v (Recover S now) db = snd (recover_artifacts S now db)"

fun call_delivery :: "service \<Rightarrow> 'db artifact_call \<Rightarrow> 'db \<Rightarrow> (string \<times> string) list" where
  "call_delivery v (Consume S c) db =
     (case fst (snd (consume_artifact v S c db)) of None \<Rightarrow> [] | Some p \<Rightarrow> [(token_hash (sv_crypto v) (cn_token c), p)])"
| "call_delivery v _ db = []"

fun deliveries :: "service \<Rightarrow> 'db artifact_call list \<Rightarrow> 'db \<Rightarrow> (string \<times> string) list" where
  "deliveries v [] db = []"
| "deliveries v (c # cs) db = call_delivery v c db @ deliveries v cs (call_db v c db)"

fun call_store :: "'db artifact_call \<Rightarrow> 'db store" where
  "call_store (Create S c) = S" | "call_store (Consume S c) = S" | "call_store (Recover S now) = S"

section \<open>What the service relies on\<close>

locale one_time_store =
  fixes stores :: "'db store set"
    and inv :: "'db \<Rightarrow> bool"
    and claimed :: "string \<Rightarrow> 'db \<Rightarrow> bool"
  assumes begin_claims: "S \<in> stores \<Longrightarrow> inv db \<Longrightarrow> st_begin S h t db = (Inr r, db') \<Longrightarrow> claimed h db'"
    and begin_refuses: "S \<in> stores \<Longrightarrow> inv db \<Longrightarrow> claimed h db \<Longrightarrow> \<exists>e. st_begin S h t db = (Inl e, db)"
    and begin_keeps: "S \<in> stores \<Longrightarrow> inv db \<Longrightarrow> inv (snd (st_begin S h t db)) \<and>
      (claimed h' db \<longrightarrow> claimed h' (snd (st_begin S h t db)))"
    and create_keeps: "S \<in> stores \<Longrightarrow> inv db \<Longrightarrow> inv (snd (st_create S p cx e h t db)) \<and>
      (claimed h' db \<longrightarrow> claimed h' (snd (st_create S p cx e h t db)))"
    and finalize_keeps: "S \<in> stores \<Longrightarrow> inv db \<Longrightarrow> inv (snd (st_finalize S aid t db)) \<and>
      (claimed h' db \<longrightarrow> claimed h' (snd (st_finalize S aid t db)))"
    and cleanup_keeps: "S \<in> stores \<Longrightarrow> inv db \<Longrightarrow> inv (snd (st_cleanup S t db)) \<and>
      (claimed h' db \<longrightarrow> claimed h' (snd (st_cleanup S t db)))"

context one_time_store
begin

lemma consume_keeps:
  assumes "S \<in> stores" and "inv db"
  shows "inv (snd (snd (consume_artifact v S c db)))"
    and "claimed h db \<Longrightarrow> claimed h (snd (snd (consume_artifact v S c db)))"
proof -
  note b = begin_keeps [OF assms, of "token_hash (sv_crypto v) (cn_token c)" "cn_now c"]
  have "inv (snd (snd (consume_artifact v S c db))) \<and> (claimed h db \<longrightarrow> claimed h (snd (snd (consume_artifact v S c db))))"
  proof (cases rule: consume_artifact_db [where v = v and S = S and c = c and db = db])
    case 1
    with assms show ?thesis by simp
  next
    case (2 e)
    with b [of h] show ?thesis by simp
  next
    case (3 r db1)
    with b [of h] have "inv db1" "claimed h db \<longrightarrow> claimed h db1" by simp_all
    with finalize_keeps [OF assms(1), of db1 "ar_id r" "cn_later c" h] 3(2) show ?thesis by simp
  qed
  then show "inv (snd (snd (consume_artifact v S c db)))"
    "claimed h db \<Longrightarrow> claimed h (snd (snd (consume_artifact v S c db)))" by auto
qed

lemma call_keeps:
  assumes "call_store c \<in> stores" and "inv db"
  shows "inv (call_db v c db)" and "claimed h db \<Longrightarrow> claimed h (call_db v c db)"
proof -
  have "inv (call_db v c db) \<and> (claimed h db \<longrightarrow> claimed h (call_db v c db))"
  proof (cases c)
    case (Create S a)
    show ?thesis
    proof (cases "seal_payload v a")
      case (Inl e)
      with Create assms show ?thesis by (simp add: create_artifact_def)
    next
      case (Inr et)
      let ?r = "st_create S (ca_peer_id a) (ca_context a) (fst et) (token_hash (sv_crypto v) (snd et))
        (ca_now a + ca_ttl a) db"
      have "call_db v c db = snd ?r" using Create Inr by (simp add: create_artifact_def split: prod.split sum.split)
      moreover from Create assms(1) have "S \<in> stores" by simp
      ultimately show ?thesis using create_keeps [OF _ assms(2)] by metis
    qed
  next
    case (Consume S a)
    with assms consume_keeps show ?thesis by simp
  next
    case (Recover S now)
    with assms cleanup_keeps show ?thesis by (simp add: recover_artifacts_def)
  qed
  then show "inv (call_db v c db)" "claimed h db \<Longrightarrow> claimed h (call_db v c db)" by auto
qed

lemma claimed_not_delivered:
  assumes "call_store c \<in> stores" and "inv db" and "claimed h db"
  shows "h \<notin> fst ` set (call_delivery v c db)"
proof (cases c)
  case (Consume S a)
  with assms(1) have S: "S \<in> stores" by simp
  show ?thesis
  proof
    assume d: "h \<in> fst ` set (call_delivery v c db)"
    with Consume have h: "h = token_hash (sv_crypto v) (cn_token a)" by (auto split: option.splits)
    from begin_refuses [OF S assms(2), of h "cn_now a"] assms(3) obtain e where
      "st_begin S h (cn_now a) db = (Inl e, db)" by blast
    with Consume h d show False by (auto simp: consume_artifact_def split: if_splits)
  qed
qed auto

lemma delivered_claims:
  assumes "call_store c \<in> stores" and "inv db" and "(h, p) \<in> set (call_delivery v c db)"
  shows "claimed h (call_db v c db)"
proof (cases c)
  case (Consume S a)
  with assms(1) have S: "S \<in> stores" by simp
  from assms(3) Consume have h: "h = token_hash (sv_crypto v) (cn_token a)" by (auto split: option.splits)
  from assms(3) Consume h obtain r db1 where b: "st_begin S h (cn_now a) db = (Inr r, db1)"
    by (auto simp: consume_artifact_def split: option.splits if_splits prod.splits sum.splits)
  have "claimed h db1" by (rule begin_claims [OF S assms(2) b])
  moreover have "inv db1" using begin_keeps [OF S assms(2), of h "cn_now a"] b by simp
  moreover have "call_db v c db = snd (st_finalize S (ar_id r) (cn_later a) db1)"
    using assms(3) Consume h b by (auto simp: consume_artifact_def Let_def split: option.splits if_splits prod.splits)
  ultimately show ?thesis using finalize_keeps [OF S] by simp
qed (use assms in auto)

lemma claimed_never_delivered:
  "call_store ` set cs \<subseteq> stores \<Longrightarrow> inv db \<Longrightarrow> claimed h db \<Longrightarrow> h \<notin> fst ` set (deliveries v cs db)"
proof (induction cs arbitrary: db)
  case (Cons c cs)
  from Cons.prems have S: "call_store c \<in> stores" and cs: "call_store ` set cs \<subseteq> stores" by auto
  have "h \<notin> fst ` set (call_delivery v c db)" by (rule claimed_not_delivered [OF S Cons.prems(2,3)])
  moreover have "h \<notin> fst ` set (deliveries v cs (call_db v c db))"
    by (rule Cons.IH [OF cs call_keeps(1) [OF S Cons.prems(2)] call_keeps(2) [OF S Cons.prems(2,3)]])
  ultimately show ?case by (simp add: image_Un)
qed simp

lemma call_delivery_length: "length (call_delivery v c db) \<le> 1"
  by (cases c) (auto split: option.split)

lemma at_most_once:
  "call_store ` set cs \<subseteq> stores \<Longrightarrow> inv db \<Longrightarrow> distinct (map fst (deliveries v cs db))"
proof (induction cs arbitrary: db)
  case (Cons c cs)
  from Cons.prems have S: "call_store c \<in> stores" and cs: "call_store ` set cs \<subseteq> stores" by auto
  have "distinct (map fst (call_delivery v c db))"
    using call_delivery_length [of v c db] by (cases "call_delivery v c db") auto
  moreover have "distinct (map fst (deliveries v cs (call_db v c db)))"
    by (rule Cons.IH [OF cs call_keeps(1) [OF S Cons.prems(2)]])
  moreover have "fst ` set (call_delivery v c db) \<inter> fst ` set (deliveries v cs (call_db v c db)) = {}"
  proof -
    have "h \<notin> fst ` set (deliveries v cs (call_db v c db))" if "(h, p) \<in> set (call_delivery v c db)" for h p
      by (rule claimed_never_delivered [OF cs call_keeps(1) [OF S Cons.prems(2)] delivered_claims [OF S Cons.prems(2) that]])
    then have "fst x \<notin> fst ` set (deliveries v cs (call_db v c db))" if "x \<in> set (call_delivery v c db)" for x
      using that by (cases x) simp
    then show ?thesis by blast
  qed
  ultimately show ?case by simp
qed simp

end

section \<open>The repository as store\<close>

definition repository_store :: "id_source \<Rightarrow> time \<Rightarrow> time \<Rightarrow> agent_db store" where
  "repository_store gen now1 now =
     \<lparr>st_create = create_one_time gen now1 now, st_begin = begin_one_time_consume,
      st_finalize = finalize_one_time_consume, st_cleanup = cleanup_one_time\<rparr>"

definition repository_stores :: "agent_db store set" where
  "repository_stores = {repository_store gen now1 now | gen now1 now. True}"

lemma begin_one_time_consume_keeps:
  assumes "artifacts_wf db"
  shows "artifacts_wf (snd (begin_one_time_consume h t db))"
    and "spent h' db \<Longrightarrow> spent h' (snd (begin_one_time_consume h t db))"
proof -
  obtain res db' where eq: "begin_one_time_consume h t db = (res, db')" by (cases "begin_one_time_consume h t db")
  have "artifacts_wf db' \<and> (spent h' db \<longrightarrow> spent h' db')"
  proof (cases res)
    case (Inl e)
    with eq have "db' = db" by (simp add: begin_one_time_consume_Inl)
    with assms show ?thesis by simp
  next
    case (Inr r)
    with eq have b: "begin_one_time_consume h t db = (Inr r, db')" by simp
    then obtain a n where a: "a \<in> set (db_artifacts db)" "oa_token_hash a = h" "oa_state a = ArtReady"
      and u: "update_artifacts (\<lambda>x. oa_id x = oa_id a \<and> oa_state x = ArtReady) (\<lambda>x. x\<lparr>oa_state := ArtConsuming\<rparr>) db
        = Inr (n, db')" by (rule begin_one_time_consume_Inr)
    have "spent h' db'" if "spent h' db" by (rule update_artifacts_spent [OF u that]) simp
    with begin_one_time_consume_claims(1) [OF assms b] show ?thesis by simp
  qed
  with eq show "artifacts_wf (snd (begin_one_time_consume h t db))"
    "spent h' db \<Longrightarrow> spent h' (snd (begin_one_time_consume h t db))" by auto
qed

interpretation artifact_store: one_time_store repository_stores artifacts_wf spent
proof
  fix S :: "agent_db store" and db db' h h' t r p cx e aid
  assume "S \<in> repository_stores" and wf: "artifacts_wf db"
  then obtain gen now1 now where S: "S = repository_store gen now1 now" by (auto simp: repository_stores_def)
  show "spent h db'" if "st_begin S h t db = (Inr r, db')"
    using begin_one_time_consume_claims(2) [OF wf] that by (simp add: S repository_store_def)
  show "\<exists>e. st_begin S h t db = (Inl e, db)" if "spent h db"
    using begin_one_time_consume_refuses [OF wf that] by (simp add: S repository_store_def)
  show "artifacts_wf (snd (st_begin S h t db)) \<and> (spent h' db \<longrightarrow> spent h' (snd (st_begin S h t db)))"
    using begin_one_time_consume_keeps [OF wf] by (simp add: S repository_store_def)
  show "artifacts_wf (snd (st_create S p cx e h t db)) \<and> (spent h' db \<longrightarrow> spent h' (snd (st_create S p cx e h t db)))"
    using create_one_time_keeps [OF wf] by (simp add: S repository_store_def)
  show "artifacts_wf (snd (st_finalize S aid t db)) \<and> (spent h' db \<longrightarrow> spent h' (snd (st_finalize S aid t db)))"
    using finalize_one_time_keeps [OF wf] by (simp add: S repository_store_def)
  show "artifacts_wf (snd (st_cleanup S t db)) \<and> (spent h' db \<longrightarrow> spent h' (snd (st_cleanup S t db)))"
    using cleanup_one_time_keeps [OF wf] by (simp add: S repository_store_def)
qed

section \<open>At most one delivery\<close>

text \<open>
  C5: over any sequence of creations, consumptions and recoveries on the repository, starting
  from a well-formed database, the plaintext of an artifact is handed to a consumer at most once:
  no two deliveries are for the same token.
\<close>

theorem artifact_delivered_at_most_once:
  assumes "call_store ` set calls \<subseteq> repository_stores" and "artifacts_wf db"
  shows "distinct (map fst (deliveries v calls db))"
  using assms by (rule artifact_store.at_most_once)

section \<open>The artifact that was created is the one delivered\<close>

lemma load_inserted_envelope:
  assumes "insert_envelope eid cx env now db = Inr db1" and "db_gateway_id db = Some (sx_gateway_id cx)"
    and "db_envelopes db' = db_envelopes db1" and "db_gateway_id db' = db_gateway_id db1"
  shows "load_envelope eid db' = Inr (cx, env)"
proof -
  from assms(1) have e: "eid \<notin> se_id ` set (db_envelopes db)" and d: "db_gateway_id db1 = db_gateway_id db"
    "db_envelopes db1 = db_envelopes db @ [envelope_row_of eid cx env now]"
    by (auto simp: insert_envelope_Inr)
  from e show ?thesis by (rule load_last_envelope) (use assms(2-4) d in simp_all)
qed

lemma begin_created:
  assumes "artifacts_wf db" and "db_gateway_id db = Some (sx_gateway_id cx)"
    and "create_one_time gen now1 now peer cx env hash expires db = (Inr aid, db1)"
    and "unix_milli t < unix_milli expires"
  shows "\<exists>r db2. begin_one_time_consume hash t db1 = (Inr r, db2) \<and> ar_context r = cx \<and> ar_envelope r = env \<and> ar_id r = aid"
proof -
  from assms(3) obtain eid dbe where ins: "insert_envelope eid cx env now db = Inr dbe"
    and db1: "db1 = dbe\<lparr>db_artifacts := db_artifacts dbe @ [\<lparr>oa_id = aid, oa_peer_id = peer, oa_secret_envelope_id = Some eid,
           oa_token_hash = hash, oa_state = ArtReady, oa_expires_at_ms = unix_milli expires,
           oa_consumed_at_ms = None, oa_created_at_ms = unix_milli now\<rparr>]\<rparr>"
    and fresh: "aid \<notin> oa_id ` set (db_artifacts db)" "hash \<notin> oa_token_hash ` set (db_artifacts db)"
    by (rule create_one_time_Inr)
  let ?a = "\<lparr>oa_id = aid, oa_peer_id = peer, oa_secret_envelope_id = Some eid,
           oa_token_hash = hash, oa_state = ArtReady, oa_expires_at_ms = unix_milli expires,
           oa_consumed_at_ms = None, oa_created_at_ms = unix_milli now\<rparr>"
  let ?P = "\<lambda>x. oa_id x = aid \<and> oa_state x = ArtReady" and ?f = "\<lambda>x. x\<lparr>oa_state := ArtConsuming\<rparr>"
  from ins have dbe: "db_artifacts dbe = db_artifacts db" by (auto simp: insert_envelope_Inr)
  then have art: "db_artifacts db1 = db_artifacts db @ [?a]" by (simp add: db1)
  have find: "find (\<lambda>a. oa_token_hash a = hash \<and> oa_state a = ArtReady \<and> oa_expires_at_ms a > unix_milli t) (db_artifacts db1) = Some ?a"
    unfolding art by (rule find_append_fresh) (use fresh(2) assms(4) in auto)
  have no: "filter ?P (db_artifacts db) = []" using fresh(1) by (auto simp: filter_empty_conv)
  have same: "update_rows ?P ?f (db_artifacts db) = db_artifacts db"
    using fresh(1) unfolding update_rows_def by (intro map_idI) auto
  have "affected ?P (db_artifacts db1) = 1" by (simp add: affected_def art no)
  moreover have upd: "update_rows ?P ?f (db_artifacts db1) = db_artifacts db @ [?f ?a]"
    using same by (simp add: art update_rows_def)
  moreover have "list_all artifact_check (db_artifacts db @ [?f ?a])"
    using assms(1) by (simp add: artifacts_wf_iff list_all_iff artifact_check_def)
  ultimately have u: "update_artifacts ?P ?f db1 = Inr (1, db1\<lparr>db_artifacts := db_artifacts db @ [?f ?a]\<rparr>)"
    by (simp add: update_artifacts_def Let_def constraints.simps)
  have "load_envelope eid (db1\<lparr>db_artifacts := db_artifacts db @ [?f ?a]\<rparr>) = Inr (cx, env)"
    by (rule load_inserted_envelope [OF ins assms(2)]) (simp_all add: db1)
  with find u show ?thesis
    by (simp add: begin_one_time_consume_def scan_string_def)
qed

text \<open>
  C6: an artifact that was created is delivered as it was: under a cipher that inverts its own
  sealing, the holder of the token who comes before the expiry gets exactly the payload, and
  after that the token is spent.
\<close>

theorem created_artifact_is_delivered:
  assumes "crypto_ok (sv_crypto v)" and "artifacts_wf db"
    and "sv_master_key v (sv_key_version v) = Inr master"
    and "ca_dek c = Some dek" and "length dek = key_size"
    and "ca_payload_nonce c = Some pn" and "length pn = nonce_size"
    and "ca_wrap_nonce c = Some wn" and "length wn = nonce_size"
    and "ca_token c = Some token" and "length token = 32"
    and "db_gateway_id db = Some (sx_gateway_id (ca_context c))"
    and "create_artifact v (repository_store gen now1 now) c db = (Inr (aid, token), db1)"
    and "cn_token k = token" and "cn_consumer k = Some f"
    and "unix_milli (cn_now k) < unix_milli (ca_now c + ca_ttl c)"
  shows "fst (snd (consume_artifact v (repository_store gen' now1' now') k db1)) = Some (ca_payload c) \<and>
    spent (token_hash (sv_crypto v) token) (snd (snd (consume_artifact v (repository_store gen' now1' now') k db1)))"
proof -
  let ?h = "token_hash (sv_crypto v) token" and ?S = "repository_store gen' now1' now'"
  from assms(3,10,13) obtain env where
    sealed: "seal (sv_crypto v) (Some dek) (Some pn) (Some wn) master (sv_key_version v) (ca_context c) (ca_payload c) []
      = Inr env"
    and created: "create_one_time gen now1 now (ca_peer_id c) (ca_context c) env ?h (ca_now c + ca_ttl c) db
      = (Inr aid, db1)"
    unfolding create_artifact_def seal_payload_def
    by (auto simp: assms(4,6,8) from_text_def read_full_def repository_store_def
        split: sum.splits prod.splits if_splits)
  from begin_created [OF assms(2,12) created assms(16)] obtain r db2 where
    b: "begin_one_time_consume ?h (cn_now k) db1 = (Inr r, db2)"
    and r: "ar_context r = ca_context c" "ar_envelope r = env" by blast
  have "en_key_version env = sv_key_version v"
    using sealed by (auto simp: seal_def read_full_def new_x_def Let_def split: option.splits if_splits)
  with r open_seal [OF assms(1,5,7,9) sealed] assms(3) have o: "open_record v r = Inr (ca_payload c)"
    by (simp add: open_record_def from_text_def)
  have wf1: "artifacts_wf db1" using create_one_time_keeps(1) [OF assms(2)] created by (metis snd_conv)
  have plain: "fst (snd (consume_artifact v ?S k db1)) = Some (ca_payload c)"
    and db: "snd (snd (consume_artifact v ?S k db1)) = snd (finalize_one_time_consume (ar_id r) (cn_later k) db2)"
    using b o assms(11,14,15)
    by (simp_all add: consume_artifact_def repository_store_def Let_def split: prod.splits)
  have "spent ?h (snd (finalize_one_time_consume (ar_id r) (cn_later k) db2))"
    by (rule finalize_one_time_keeps(2)) (rule begin_one_time_consume_claims [OF wf1 b])+
  with plain db show ?thesis by simp
qed

text \<open>
  once a consumption is finalized the ciphertext is gone: the artifact is no longer
  consuming, and the envelope it referred to is not in the database any more.
\<close>

theorem finalized_ciphertext_gone:
  assumes "artifacts_wf db" and "a \<in> set (db_artifacts db)" and "oa_state a = ArtConsuming"
    and "oa_secret_envelope_id a = Some eid"
    and "finalize_one_time_consume (oa_id a) now db = (Inr (), db')"
  shows "eid \<notin> se_id ` set (db_envelopes db') \<and>
    (\<forall>x \<in> set (db_artifacts db'). oa_id x = oa_id a \<longrightarrow> oa_state x = ArtConsumed \<and> oa_secret_envelope_id x = None)"
proof -
  let ?P = "\<lambda>x. oa_id x = oa_id a \<and> oa_state x = ArtConsuming"
  let ?f = "\<lambda>x. x\<lparr>oa_state := ArtConsumed, oa_consumed_at_ms := Some (unix_milli now), oa_secret_envelope_id := None\<rparr>"
  have inj: "inj_on oa_id (set (db_artifacts db))" using assms(1) by (simp add: artifacts_wf_iff keyed_def distinct_map)
  have "find ?P (db_artifacts db) = Some a"
  proof (cases "find ?P (db_artifacts db)")
    case None
    with assms(2,3) show ?thesis by (auto simp: find_None_iff)
  next
    case (Some b)
    then have "b \<in> set (db_artifacts db)" "oa_id b = oa_id a" by (auto dest: find_SomeD)
    with inj assms(2) Some show ?thesis by (auto dest: inj_onD)
  qed
  with assms(4,5) obtain n db1 where u: "update_artifacts ?P ?f db = Inr (n, db1)"
    and d: "delete_envelope eid db1 = Inr db'"
    by (auto simp: finalize_one_time_consume_def commit_tx_Inr scan_string_def)
  from u have db1: "db_artifacts db1 = update_rows ?P ?f (db_artifacts db)"
    by (auto simp: update_artifacts_def Let_def)
  have 1: "oa_state x = ArtConsumed \<and> oa_secret_envelope_id x = None"
    if x: "x \<in> set (db_artifacts db1)" "oa_id x = oa_id a" for x
  proof -
    from x(1) db1 obtain y where y: "y \<in> set (db_artifacts db)" "x = (if ?P y then ?f y else y)"
      by (auto simp: update_rows_def)
    with x(2) have "oa_id y = oa_id a" by (auto split: if_splits)
    with inj y(1) assms(2) have "y = a" by (auto dest: inj_onD)
    with y assms(3) show ?thesis by simp
  qed
  have "\<forall>x \<in> set (db_artifacts db'). oa_id x = oa_id a \<longrightarrow> oa_state x = ArtConsumed \<and> oa_secret_envelope_id x = None"
    using delete_envelope_cases(2) [OF d]
  proof (elim disjE conjE)
    assume m: "db_artifacts db' = map (\<lambda>a. a\<lparr>oa_secret_envelope_id := drop_ref (\<lambda>x. x = eid) (oa_secret_envelope_id a)\<rparr>)
      (db_artifacts db1)"
    show ?thesis unfolding m using 1 by (auto simp: drop_ref_def)
  next
    assume "db' = db1"
    with 1 show ?thesis by blast
  qed
  with delete_envelope_cases(1) [OF d] show ?thesis by blast
qed

section \<open>Witnesses\<close>

definition demo_service :: service where
  "demo_service = \<lparr>sv_crypto = demo_crypto, sv_master_key = (\<lambda>n. Inr (replicate 32 CHR ''m'')), sv_key_version = 1\<rparr>"

definition demo_peer_db :: agent_db where
  "demo_peer_db = empty_db\<lparr>db_interfaces := [demo_iface ''wg0''], db_peers := [demo_peer ''p1'' ''wg0'']\<rparr>"

definition demo_create :: create_args where
  "demo_create = \<lparr>ca_dek = Some (replicate 32 CHR ''d''), ca_payload_nonce = Some (replicate 24 CHR ''n''),
     ca_wrap_nonce = Some (replicate 24 CHR ''w''), ca_token = Some (replicate 32 CHR ''t''), ca_now = 0,
     ca_peer_id = ''p1'', ca_context = \<lparr>sx_gateway_id = ''gw'', sx_owner_type = ''artifact'', sx_owner_id = ''p1'',
       sx_purpose = ''one_time_payload''\<rparr>, ca_payload = ''config'', ca_ttl = hour\<rparr>"

definition demo_consume :: consume_args where
  "demo_consume = \<lparr>cn_token = replicate 32 CHR ''t'', cn_now = second, cn_later = 2 * second,
     cn_consumer = Some (\<lambda>p. None)\<rparr>"

definition demo_store :: "agent_db store" where
  "demo_store = repository_store (demo_ids CHR ''e'') 0 0"

lemma demo_store_in: "demo_store \<in> repository_stores"
  unfolding demo_store_def repository_stores_def by blast

lemma demo_peer_db_wf: "artifacts_wf demo_peer_db"
  by (simp add: artifacts_wf_def keyed_def demo_peer_db_def empty_db_def)

text \<open>The database after the creation, and after the claim.\<close>

definition demo_artifact_db :: agent_db where
  "demo_artifact_db = snd (create_artifact demo_service demo_store demo_create demo_peer_db)"

lemma demo_created_artifact:
  "create_artifact demo_service demo_store demo_create demo_peer_db
     = (Inr (''ee'', replicate 32 CHR ''t''), demo_artifact_db)"
  "artifacts_wf demo_artifact_db"
proof -
  have "fst (create_artifact demo_service demo_store demo_create demo_peer_db) = Inr (''ee'', replicate 32 CHR ''t'')"
    by code_simp
  then show "create_artifact demo_service demo_store demo_create demo_peer_db
     = (Inr (''ee'', replicate 32 CHR ''t''), demo_artifact_db)"
    by (simp add: demo_artifact_db_def prod_eq_iff)
  show "artifacts_wf demo_artifact_db"
    unfolding artifacts_wf_def keyed_def by code_simp
qed

theorem artifact_delivered_at_most_once_witness:
  "distinct (map fst (deliveries demo_service
     [Create demo_store demo_create, Consume demo_store demo_consume, Consume demo_store demo_consume] demo_peer_db))"
  by (rule artifact_delivered_at_most_once) (simp_all add: demo_store_in demo_peer_db_wf)

theorem created_artifact_is_delivered_witness:
  "fst (snd (consume_artifact demo_service demo_store demo_consume demo_artifact_db)) = Some ''config''"
proof -
  have "fst (snd (consume_artifact demo_service (repository_store (demo_ids CHR ''e'') 0 0) demo_consume demo_artifact_db))
    = Some (ca_payload demo_create)"
  proof (rule created_artifact_is_delivered [THEN conjunct1])
    show "crypto_ok (sv_crypto demo_service)" by (simp add: demo_service_def demo_crypto_ok)
    show "create_artifact demo_service (repository_store (demo_ids CHR ''e'') 0 0) demo_create demo_peer_db
      = (Inr (''ee'', replicate 32 CHR ''t''), demo_artifact_db)"
      using demo_created_artifact(1) by (simp only: demo_store_def)
    show "length (replicate 32 CHR ''d'') = key_size" "length (replicate 24 CHR ''n'') = nonce_size"
      "length (replicate 24 CHR ''w'') = nonce_size" by (rule demo_key)+
    show "db_gateway_id demo_peer_db = Some (sx_gateway_id (ca_context demo_create))"
      by (simp add: demo_peer_db_def empty_db_def demo_create_def)
  qed (simp_all add: demo_service_def demo_create_def demo_consume_def demo_peer_db_wf unix_milli_def)
  then show ?thesis by (simp add: demo_store_def demo_create_def)
qed

definition demo_claimed_db :: agent_db where
  "demo_claimed_db = snd (begin_one_time_consume (replicate 32 CHR ''h'') second demo_artifact_db)"

lemma demo_claimed:
  "artifacts_wf demo_claimed_db"
  "db_artifacts demo_claimed_db = [\<lparr>oa_id = ''ee'', oa_peer_id = ''p1'', oa_secret_envelope_id = Some ''e'',
     oa_token_hash = replicate 32 CHR ''h'', oa_state = ArtConsuming, oa_expires_at_ms = 3600000,
     oa_consumed_at_ms = None, oa_created_at_ms = 0\<rparr>]"
  "fst (finalize_one_time_consume ''ee'' second demo_claimed_db) = Inr ()"
  "fst (cleanup_one_time second demo_claimed_db) = Inr ()"
  unfolding artifacts_wf_def keyed_def by code_simp+

theorem finalized_ciphertext_gone_witness:
  "''e'' \<notin> se_id ` set (db_envelopes (snd (finalize_one_time_consume ''ee'' second demo_claimed_db)))"
proof -
  let ?a = "\<lparr>oa_id = ''ee'', oa_peer_id = ''p1'', oa_secret_envelope_id = Some ''e'',
     oa_token_hash = replicate 32 CHR ''h'', oa_state = ArtConsuming, oa_expires_at_ms = 3600000,
     oa_consumed_at_ms = None, oa_created_at_ms = 0\<rparr>"
  have fin: "finalize_one_time_consume (oa_id ?a) second demo_claimed_db
    = (Inr (), snd (finalize_one_time_consume ''ee'' second demo_claimed_db))"
    using demo_claimed(3) by (simp add: prod_eq_iff)
  show ?thesis
    by (rule finalized_ciphertext_gone [of demo_claimed_db ?a "''e''", OF demo_claimed(1) _ _ _ fin, THEN conjunct1])
      (simp_all add: demo_claimed(2))
qed

theorem cleanup_fails_closed_witness:
  "list_all (stale second) (db_artifacts demo_claimed_db) \<and>
   filter (stale second) (db_artifacts (snd (cleanup_one_time second demo_claimed_db))) = [] \<and>
   ''e'' \<notin> se_id ` set (db_envelopes (snd (cleanup_one_time second demo_claimed_db)))"
proof -
  have "cleanup_one_time second demo_claimed_db = (Inr (), snd (cleanup_one_time second demo_claimed_db))"
    using demo_claimed(4) by (simp add: prod_eq_iff)
  note closed = cleanup_fails_closed [OF demo_claimed(1) this]
  have s: "list_all (stale second) (db_artifacts demo_claimed_db)"
    by (simp add: demo_claimed(2) stale_def)
  moreover from closed have "filter (stale second) (db_artifacts (snd (cleanup_one_time second demo_claimed_db))) = []"
    by (simp add: filter_empty_conv)
  moreover from closed s have "''e'' \<notin> se_id ` set (db_envelopes (snd (cleanup_one_time second demo_claimed_db)))"
    by (simp add: demo_claimed(2))
  ultimately show ?thesis by blast
qed

end
