(* ===== verification/NetworkPlan.thy ===== *)
theory NetworkPlan
  imports Validation "HOL-Library.List_Lexorder"
begin

text \<open>
  \<^verbatim>\<open>src/internal/agent/network/plan.go\<close>: the firewall and routing plan of an interface. The
  rendered files are byte strings; \<open>ul\<close> is the lower-casing of non-ASCII text (\<open>to_lower\<close>).
\<close>

section \<open>Model\<close>

record plan_input =
  pi_interface_id :: string
  pi_interface_name :: string
  pi_profile :: string
  pi_firewall_mode :: string
  pi_listen_port :: nat
  pi_tunnel_cidrs :: "string list"
  pi_lan_cidrs :: "string list"
  pi_egress_device :: string
  pi_enable_ipv6 :: bool

record plan =
  pl_table_name :: string
  pl_client_routes :: "string list"
  pl_up_nft :: string
  pl_down_nft :: string
  pl_sysctl :: string
  pl_post_up :: string
  pl_post_down :: string
  pl_checklist :: "string list"

definition device_char :: "char \<Rightarrow> bool" where
  "device_char c \<longleftrightarrow> is_alnum c \<or> c \<in> set ''_.:-''"

definition valid_device :: "string \<Rightarrow> bool" where
  "valid_device s \<longleftrightarrow> 1 \<le> length s \<and> length s \<le> 15 \<and> list_all device_char s"

abbreviation nl :: string where "nl \<equiv> [CHR 0x0A]"
abbreviation dq :: string where "dq \<equiv> [CHR 0x22]"
abbreviation owned :: string where "owned \<equiv> ''accept comment '' @ dq @ ''wiregate-owned'' @ dq @ nl"

definition family :: "ip_prefix \<Rightarrow> string" where
  "family tunnel = (if is6 (pfx_addr tunnel) then ''ip6'' else ''ip'')"

definition forward_rule :: "plan_input \<Rightarrow> ip_prefix \<Rightarrow> string" where
  "forward_rule inp tunnel =
     ''    iifname '' @ dq @ pi_interface_name inp @ dq @ '' '' @ family tunnel @ '' saddr '' @
     show_prefix tunnel @ '' '' @ owned"

definition masquerade_rule :: "plan_input \<Rightarrow> ip_prefix \<Rightarrow> string" where
  "masquerade_rule inp tunnel =
     ''    '' @ family tunnel @ '' saddr '' @ show_prefix tunnel @ '' oifname '' @ dq @
     pi_egress_device inp @ dq @ '' masquerade comment '' @ dq @ ''wiregate-owned'' @ dq @ nl"

definition render_up_nft :: "plan_input \<Rightarrow> string \<Rightarrow> ip_prefix list \<Rightarrow> ip_prefix list \<Rightarrow> string" where
  "render_up_nft inp table tunnels lan =
     ''destroy table inet '' @ table @ nl @
     ''table inet '' @ table @ '' {'' @ nl @
     ''  chain input {'' @ nl @
     ''    type filter hook input priority -10; policy accept;'' @ nl @
     ''    udp dport '' @ show_nat (pi_listen_port inp) @ '' '' @ owned @
     ''  }'' @ nl @
     (if pi_profile inp \<noteq> ''server_only''
      then ''  chain forward {'' @ nl @
        ''    type filter hook forward priority -10; policy accept;'' @ nl @
        ''    ct state established,related '' @ owned @
        concat (map (forward_rule inp) tunnels) @
        ''  }'' @ nl
      else []) @
     (if pi_profile inp = ''full_tunnel''
      then ''  chain postrouting {'' @ nl @
        ''    type nat hook postrouting priority srcnat; policy accept;'' @ nl @
        concat (map (masquerade_rule inp) tunnels) @
        ''  }'' @ nl
      else []) @
     ''}'' @ nl"

definition external_checklist :: "plan_input \<Rightarrow> ip_prefix list \<Rightarrow> ip_prefix list \<Rightarrow> string list" where
  "external_checklist inp tunnels lan =
     sort_key (map code)
       ([''Allow UDP destination port '' @ show_nat (pi_listen_port inp) @ '' on the gateway input path.''] @
        (if pi_profile inp \<noteq> ''server_only''
         then [''Enable stateful forwarding from '' @ pi_interface_name inp @ '' to '' @ pi_egress_device inp @ ''.'',
               ''Allow established and related return traffic back to '' @ pi_interface_name inp @ ''.'']
         else []) @
        map (\<lambda>p. ''Allow tunnel source CIDR '' @ show_prefix p @ ''.'') tunnels @
        map (\<lambda>p. ''Provide a return route for '' @ show_prefix p @ '' where applicable.'') lan @
        (if pi_profile inp = ''full_tunnel''
         then [''Masquerade tunnel CIDRs only on egress device '' @ pi_egress_device inp @ ''.'']
         else []))"

text \<open>The guards at the start of \<open>BuildPlan\<close>; the tunnel and LAN prefixes when they pass.\<close>

definition plan_prefixes :: "plan_input \<Rightarrow> string + (ip_prefix list \<times> ip_prefix list)" where
  "plan_prefixes inp =
     (case interface_name (pi_interface_name inp) of Some e \<Rightarrow> Inl e | None \<Rightarrow>
      case listen_port (pi_listen_port inp) of Some e \<Rightarrow> Inl e | None \<Rightarrow>
      if pi_profile inp \<notin> {''server_only'', ''lan'', ''full_tunnel''} then Inl ''unsupported deployment profile''
      else if pi_firewall_mode inp \<notin> {''managed_nft'', ''external''} then Inl ''unsupported firewall mode''
      else (case canonical_prefix_list (pi_tunnel_cidrs inp) of
          Inl e \<Rightarrow> Inl ''at least one valid tunnel CIDR is required''
        | Inr [] \<Rightarrow> Inl ''at least one valid tunnel CIDR is required''
        | Inr (t # ts) \<Rightarrow>
            bind_r (canonical_prefix_list (pi_lan_cidrs inp)) (\<lambda>lan.
              if pi_profile inp = ''lan'' \<and> lan = [] then Inl ''LAN profile requires at least one LAN CIDR''
              else if (pi_profile inp = ''lan'' \<or> pi_profile inp = ''full_tunnel'') \<and>
                \<not> valid_device (pi_egress_device inp)
              then Inl ''forwarding profile requires a valid egress device''
              else Inr (t # ts, lan))))"

definition host_route :: "string \<Rightarrow> string + string" where
  "host_route value =
     (case parse_prefix (trim_space value) of
        None \<Rightarrow> Inl ''invalid prefix''
      | Some tunnel \<Rightarrow>
          Inr (show_prefix (prefix_from (pfx_addr tunnel) (if is4 (pfx_addr tunnel) then 32 else 128))))"

definition client_routes :: "plan_input \<Rightarrow> ip_prefix list \<Rightarrow> string + string list" where
  "client_routes inp lan =
     (if pi_profile inp = ''server_only'' then map_r host_route (pi_tunnel_cidrs inp)
      else if pi_profile inp = ''lan'' then Inr (map show_prefix lan)
      else Inr (''0.0.0.0/0'' # (if pi_enable_ipv6 inp then [''::/0''] else [])))"

definition build_plan :: "(string \<Rightarrow> string) \<Rightarrow> plan_input \<Rightarrow> string + plan" where
  "build_plan ul inp =
     bind_r (plan_prefixes inp) (\<lambda>(tunnels, lan).
       let short_id = filter (\<lambda>c. c \<noteq> CHR ''-'') (pi_interface_id inp) in
       if length short_id < 12 then Inl ''interface ID is too short for deterministic firewall ownership''
       else
         let table = ''wiregate_'' @ to_lower ul (take 12 short_id) in
         bind_r (client_routes inp lan) (\<lambda>routes.
           let base = \<lparr>pl_table_name = table, pl_client_routes = routes, pl_up_nft = [], pl_down_nft = [],
             pl_sysctl = (if pi_profile inp \<noteq> ''server_only''
               then ''net.ipv4.ip_forward=1'' @ nl @
                 (if pi_enable_ipv6 inp then ''net.ipv6.conf.all.forwarding=1'' @ nl else [])
               else []),
             pl_post_up = [], pl_post_down = [], pl_checklist = []\<rparr> in
           if pi_firewall_mode inp = ''external''
           then Inr (base\<lparr>pl_checklist := external_checklist inp tunnels lan\<rparr>)
           else
             let root = ''/etc/wiregate/network/'' @ pi_interface_name inp in
             Inr (base\<lparr>pl_up_nft := render_up_nft inp table tunnels lan,
               pl_down_nft := ''destroy table inet '' @ table @ nl,
               pl_post_up := ''/usr/sbin/nft -f '' @ root @ ''/up.nft'',
               pl_post_down := ''/usr/sbin/nft -f '' @ root @ ''/down.nft''\<rparr>)))"

definition reject_network_overlap :: "ip_prefix list \<Rightarrow> ip_prefix list \<Rightarrow> string option" where
  "reject_network_overlap candidate occupied =
     (case find (\<lambda>(p, q). clashes p q) (List.product candidate occupied) of
        None \<Rightarrow> None
      | Some (p, q) \<Rightarrow> Some (''tunnel CIDR '' @ show_prefix p @ '' overlaps host/network prefix '' @ show_prefix q))"

section \<open>What a plan allows\<close>

lemma build_plan_Inr:
  assumes "build_plan ul inp = Inr p"
  obtains tunnels lan routes table where "plan_prefixes inp = Inr (tunnels, lan)"
    and "client_routes inp lan = Inr routes"
    and "table = ''wiregate_'' @ to_lower ul (take 12 (filter (\<lambda>c. c \<noteq> CHR ''-'') (pi_interface_id inp)))"
    and "pl_client_routes p = routes" and "pl_table_name p = table"
    and "pl_sysctl p = (if pi_profile inp \<noteq> ''server_only''
        then ''net.ipv4.ip_forward=1'' @ nl @ (if pi_enable_ipv6 inp then ''net.ipv6.conf.all.forwarding=1'' @ nl else [])
        else [])"
    and "if pi_firewall_mode inp = ''external''
      then pl_up_nft p = [] \<and> pl_down_nft p = [] \<and> pl_post_up p = [] \<and> pl_post_down p = [] \<and>
        pl_checklist p = external_checklist inp tunnels lan
      else pl_up_nft p = render_up_nft inp table tunnels lan \<and> pl_checklist p = [] \<and>
        pl_down_nft p = ''destroy table inet '' @ table @ nl \<and>
        pl_post_up p = ''/usr/sbin/nft -f /etc/wiregate/network/'' @ pi_interface_name inp @ ''/up.nft'' \<and>
        pl_post_down p = ''/usr/sbin/nft -f /etc/wiregate/network/'' @ pi_interface_name inp @ ''/down.nft''"
proof -
  from assms obtain tunnels lan routes where 1: "plan_prefixes inp = Inr (tunnels, lan)" "client_routes inp lan = Inr routes"
    by (auto simp: build_plan_def Let_def split: prod.splits if_splits)
  with assms show thesis
    by (intro that [OF 1 refl]) (auto simp: build_plan_def Let_def split: if_splits)
qed

lemma plan_prefixes_guards:
  assumes "plan_prefixes inp = Inr (tunnels, lan)"
  shows "interface_name (pi_interface_name inp) = None" and "pi_listen_port inp \<noteq> 0"
    and "pi_profile inp \<in> {''server_only'', ''lan'', ''full_tunnel''}"
    and "pi_firewall_mode inp \<in> {''managed_nft'', ''external''}"
    and "pi_profile inp \<noteq> ''server_only'' \<longrightarrow> valid_device (pi_egress_device inp)"
    and "canonical_prefix_list (pi_tunnel_cidrs inp) = Inr tunnels" and "tunnels \<noteq> []"
    and "canonical_prefix_list (pi_lan_cidrs inp) = Inr lan"
  using assms unfolding plan_prefixes_def
  by (auto simp: listen_port_def simp del: insert_iff split: option.splits if_splits sum.splits list.splits)

text \<open>The characters a fixed hook is made of.\<close>

definition hook_char :: "char \<Rightarrow> bool" where
  "hook_char c \<longleftrightarrow> is_alnum c \<or> c \<in> set ''_=+.-/ ''"

text \<open>
  the commands a plan hands to wg-quick are fixed: with a managed firewall they load the two
  files of the interface under \<^verbatim>\<open>/etc/wiregate/network\<close>, whatever the other inputs, and consist of
  letters, digits and \<^verbatim>\<open>_=+.-/\<close> and blanks only; an external firewall gets none. The rule set that
  is loaded first destroys the table the other file destroys, so loading it twice is loading it once.
\<close>

theorem plan_hooks_fixed:
  assumes "build_plan ul inp = Inr p"
  shows "(pl_post_up p = [] \<longleftrightarrow> pi_firewall_mode inp = ''external'') \<and>
    (pl_post_down p = [] \<longleftrightarrow> pi_firewall_mode inp = ''external'') \<and>
    list_all hook_char (pl_post_up p @ pl_post_down p) \<and>
    (pi_firewall_mode inp \<noteq> ''external'' \<longrightarrow>
      pl_post_up p = ''/usr/sbin/nft -f /etc/wiregate/network/'' @ pi_interface_name inp @ ''/up.nft'' \<and>
      has_prefix (pl_up_nft p) (pl_down_nft p))"
proof -
  from assms obtain tunnels lan routes table where 1: "plan_prefixes inp = Inr (tunnels, lan)"
    and 2: "if pi_firewall_mode inp = ''external''
      then pl_up_nft p = [] \<and> pl_down_nft p = [] \<and> pl_post_up p = [] \<and> pl_post_down p = [] \<and>
        pl_checklist p = external_checklist inp tunnels lan
      else pl_up_nft p = render_up_nft inp table tunnels lan \<and> pl_checklist p = [] \<and>
        pl_down_nft p = ''destroy table inet '' @ table @ nl \<and>
        pl_post_up p = ''/usr/sbin/nft -f /etc/wiregate/network/'' @ pi_interface_name inp @ ''/up.nft'' \<and>
        pl_post_down p = ''/usr/sbin/nft -f /etc/wiregate/network/'' @ pi_interface_name inp @ ''/down.nft''"
    by (rule build_plan_Inr)
  have name: "list_all hook_char (pi_interface_name inp)"
    using plan_prefixes_guards(1) [OF 1] by (auto simp: interface_name_def hook_char_def list_all_iff split: if_splits)
  have fixed: "list_all hook_char ''/usr/sbin/nft -f /etc/wiregate/network/''" "list_all hook_char ''/up.nft''"
    "list_all hook_char ''/down.nft''" by code_simp+
  show ?thesis
  proof (cases "pi_firewall_mode inp = ''external''")
    case True
    with 2 show ?thesis by simp
  next
    case False
    with 2 have up: "pl_post_up p = ''/usr/sbin/nft -f /etc/wiregate/network/'' @ pi_interface_name inp @ ''/up.nft''"
      and down: "pl_post_down p = ''/usr/sbin/nft -f /etc/wiregate/network/'' @ pi_interface_name inp @ ''/down.nft''"
      and nft: "pl_up_nft p = render_up_nft inp table tunnels lan" "pl_down_nft p = ''destroy table inet '' @ table @ nl"
      by simp_all
    have "list_all hook_char (pl_post_up p @ pl_post_down p)"
      unfolding up down list_all_append using name fixed by blast
    moreover have "has_prefix (pl_up_nft p) (pl_down_nft p)"
      by (simp add: nft render_up_nft_def has_prefix_def)
    ultimately show ?thesis using False up down by simp
  qed
qed

text \<open>
  a plan forwards nothing that its profile does not name: a server-only plan sets no sysctl
  and routes only single hosts, every other plan names a valid egress device, and only a
  full-tunnel plan gives its clients a default route.
\<close>

theorem plan_forwards_by_profile:
  assumes "build_plan ul inp = Inr p"
  shows "(pi_profile inp = ''server_only'' \<longrightarrow> pl_sysctl p = [] \<and>
      (\<forall>r \<in> set (pl_client_routes p). \<exists>a. r = show_prefix (prefix_from a (if is4 a then 32 else 128)))) \<and>
    (pi_profile inp \<noteq> ''server_only'' \<longrightarrow> valid_device (pi_egress_device inp) \<and> pl_sysctl p \<noteq> []) \<and>
    (pi_profile inp = ''lan'' \<longrightarrow> (\<exists>lan. canonical_prefix_list (pi_lan_cidrs inp) = Inr lan \<and> lan \<noteq> [] \<and>
      pl_client_routes p = map show_prefix lan)) \<and>
    (pi_profile inp = ''full_tunnel'' \<longrightarrow> ''0.0.0.0/0'' \<in> set (pl_client_routes p) \<and>
      (''::/0'' \<in> set (pl_client_routes p) \<longleftrightarrow> pi_enable_ipv6 inp))"
proof -
  from assms obtain tunnels lan routes table where 1: "plan_prefixes inp = Inr (tunnels, lan)"
    and 2: "client_routes inp lan = Inr routes" "pl_client_routes p = routes"
    and 3: "pl_sysctl p = (if pi_profile inp \<noteq> ''server_only''
        then ''net.ipv4.ip_forward=1'' @ nl @ (if pi_enable_ipv6 inp then ''net.ipv6.conf.all.forwarding=1'' @ nl else [])
        else [])"
    by (rule build_plan_Inr)
  note g = plan_prefixes_guards [OF 1]
  have host: "\<exists>a. r = show_prefix (prefix_from a (if is4 a then 32 else 128))"
    if "pi_profile inp = ''server_only''" "r \<in> set routes" for r
  proof -
    from 2(1) that(1) have "map_r host_route (pi_tunnel_cidrs inp) = Inr routes" by (simp add: client_routes_def)
    from map_r_mem2 [OF this that(2)] obtain x where "host_route x = Inr r" by blast
    then show ?thesis by (auto simp: host_route_def split: option.splits)
  qed
  have lan: "lan \<noteq> []" if "pi_profile inp = ''lan''"
    using 1 that by (auto simp: plan_prefixes_def simp del: insert_iff split: option.splits if_splits sum.splits list.splits)
  show ?thesis
  proof (cases "pi_profile inp = ''server_only''")
    case True
    with host 2 3 show ?thesis by simp
  next
    case False
    with g(3) consider (lan) "pi_profile inp = ''lan''" | (full) "pi_profile inp = ''full_tunnel''" by blast
    then show ?thesis
    proof cases
      case lan
      with 2 3 g(5,8) \<open>pi_profile inp = ''lan'' \<Longrightarrow> lan \<noteq> []\<close> show ?thesis by (auto simp: client_routes_def)
    next
      case full
      with 2 3 g(5) show ?thesis by (auto simp: client_routes_def)
    qed
  qed
qed

section \<open>Witnesses\<close>

definition demo_plan :: plan_input where
  "demo_plan = \<lparr>pi_interface_id = ''0190-aaaa-bbbb-cc'', pi_interface_name = ''wg0'', pi_profile = ''server_only'',
     pi_firewall_mode = ''managed_nft'', pi_listen_port = 53, pi_tunnel_cidrs = [''10.8.0.1/24''],
     pi_lan_cidrs = [], pi_egress_device = [], pi_enable_ipv6 = False\<rparr>"

lemma demo_plan_built: "\<exists>p. build_plan (\<lambda>s. s) demo_plan = Inr p \<and> pl_client_routes p = [''10.8.0.1/32'']"
proof -
  have "map_option pl_client_routes (case build_plan (\<lambda>s. s) demo_plan of Inl e \<Rightarrow> None | Inr p \<Rightarrow> Some p) = Some [''10.8.0.1/32'']"
    by code_simp
  then show ?thesis by (auto split: sum.splits)
qed

theorem plan_hooks_fixed_witness:
  "\<exists>p. build_plan (\<lambda>s. s) demo_plan = Inr p \<and> pl_post_up p = ''/usr/sbin/nft -f /etc/wiregate/network/wg0/up.nft''"
proof -
  obtain p where p: "build_plan (\<lambda>s. s) demo_plan = Inr p" using demo_plan_built by blast
  from plan_hooks_fixed [OF p] have "pl_post_up p = ''/usr/sbin/nft -f /etc/wiregate/network/wg0/up.nft''"
    by (simp add: demo_plan_def)
  with p show ?thesis by blast
qed

theorem plan_forwards_by_profile_witness:
  "\<exists>p. build_plan (\<lambda>s. s) demo_plan = Inr p \<and> pl_sysctl p = [] \<and> pl_client_routes p = [''10.8.0.1/32'']"
proof -
  obtain p where p: "build_plan (\<lambda>s. s) demo_plan = Inr p" "pl_client_routes p = [''10.8.0.1/32'']"
    using demo_plan_built by blast
  from plan_forwards_by_profile [OF p(1)] have "pl_sysctl p = []" by (simp add: demo_plan_def)
  with p show ?thesis by blast
qed

end
