(* ===== verification/Profile.thy ===== *)
theory Profile
  imports NetworkPlan
begin

text \<open>
  \<^verbatim>\<open>src/internal/agent/profile/render.go\<close> and \<^verbatim>\<open>server.go\<close>: the WireGuard configuration files the
  agent writes for a peer and for an interface. An error is its text.
\<close>

section \<open>Client configuration\<close>

record client_config =
  cc_private_key :: string
  cc_addresses :: "string list"
  cc_dns :: "string list"
  cc_mtu :: nat
  cc_server_public_key :: string
  cc_preshared_key :: string
  cc_endpoint_host :: string
  cc_endpoint_port :: nat
  cc_routes :: "string list"
  cc_keepalive :: nat

definition guard :: "string option \<Rightarrow> string + unit" where
  "guard r = (case r of None \<Rightarrow> Inr () | Some e \<Rightarrow> Inl e)"

definition guard_as :: "string \<Rightarrow> string option \<Rightarrow> string + unit" where
  "guard_as label r = (case r of None \<Rightarrow> Inr () | Some e \<Rightarrow> Inl (label @ '': '' @ e))"

definition join_host_port :: "string \<Rightarrow> string \<Rightarrow> string" where
  "join_host_port host port =
     (if CHR '':'' \<in> set host then ''['' @ host @ '']:'' @ port else host @ '':'' @ port)"

definition endpoint :: "string \<Rightarrow> nat \<Rightarrow> string" where
  "endpoint host0 port =
     (let host = strip_brackets (trim_space host0) in
      if net_parse_ip host \<and> CHR '':'' \<in> set host then join_host_port host (show_nat port)
      else host @ '':'' @ show_nat port)"

definition dns_text :: "string \<Rightarrow> string" where
  "dns_text value = show_addr (case parse_addr (trim_space value) of None \<Rightarrow> NoAddr | Some a \<Rightarrow> a)"

definition setting :: "string \<Rightarrow> string \<Rightarrow> string" where
  "setting key value = key @ '' = '' @ value @ nl"

definition render_client_config :: "client_config \<Rightarrow> string + string" where
  "render_client_config c =
     (let private = trim_space (cc_private_key c) in
      bind_r (guard_as ''client private key'' (wireguard_key private)) (\<lambda>_.
      bind_r (guard_as ''server public key'' (wireguard_key (cc_server_public_key c))) (\<lambda>_.
      bind_r (if cc_preshared_key c \<noteq> []
        then guard_as ''preshared key'' (wireguard_key (trim_space (cc_preshared_key c))) else Inr ()) (\<lambda>_.
      bind_r (check (cc_addresses c \<noteq> []) ''at least one client tunnel address is required'') (\<lambda>_.
      bind_r (map_r (\<lambda>v. bind_r (tunnel_address v) (\<lambda>p. Inr (show_prefix p))) (cc_addresses c)) (\<lambda>addresses.
      bind_r (check (cc_routes c \<noteq> []) ''at least one client route is required'') (\<lambda>_.
      bind_r (canonical_prefix_list (cc_routes c)) (\<lambda>routes.
      bind_r (guard (endpoint_host (cc_endpoint_host c))) (\<lambda>_.
      bind_r (guard_as ''endpoint port'' (listen_port (cc_endpoint_port c))) (\<lambda>_.
      bind_r (guard (valid_mtu (cc_mtu c))) (\<lambda>_.
      bind_r (guard (valid_dns (cc_dns c))) (\<lambda>_.
      Inr (''[Interface]'' @ nl @
        setting ''PrivateKey'' private @
        setting ''Address'' (join '', '' addresses) @
        (if cc_dns c \<noteq> [] then setting ''DNS'' (join '', '' (map dns_text (cc_dns c))) else []) @
        (if cc_mtu c \<noteq> 0 then setting ''MTU'' (show_nat (cc_mtu c)) else []) @
        nl @
        ''[Peer]'' @ nl @
        setting ''PublicKey'' (trim_space (cc_server_public_key c)) @
        (if cc_preshared_key c \<noteq> [] then setting ''PresharedKey'' (trim_space (cc_preshared_key c)) else []) @
        setting ''Endpoint'' (endpoint (cc_endpoint_host c) (cc_endpoint_port c)) @
        setting ''AllowedIPs'' (join '', '' (map show_prefix routes)) @
        (if cc_keepalive c \<noteq> 0 then setting ''PersistentKeepalive'' (show_nat (cc_keepalive c)) else []))
      ))))))))))))"

section \<open>Server configuration\<close>

record server_config =
  sc_operation_id :: string
  sc_private_key :: string
  sc_addresses :: "string list"
  sc_listen_port :: nat
  sc_post_up :: string
  sc_post_down :: string

definition interface_address :: "string \<Rightarrow> string + string" where
  "interface_address value =
     (case parse_prefix (trim_space value) of
        None \<Rightarrow> Inl ''invalid interface address''
      | Some p \<Rightarrow> (if pfx_bits p = 0 then Inl ''invalid interface address'' else Inr (show_prefix p)))"

abbreviation line_breaks :: string where "line_breaks \<equiv> [CHR 0x0D, CHR 0x0A]"

definition render_server_config :: "server_config \<Rightarrow> string + string" where
  "render_server_config c =
     bind_r (check (trim_space (sc_operation_id c) \<noteq> [] \<and> \<not> contains_any (sc_operation_id c) line_breaks)
       ''operation ID is required'') (\<lambda>_.
     let private = trim_space (sc_private_key c) in
     bind_r (guard_as ''server private key'' (wireguard_key private)) (\<lambda>_.
     bind_r (guard (listen_port (sc_listen_port c))) (\<lambda>_.
     bind_r (check (sc_addresses c \<noteq> []) ''at least one interface address is required'') (\<lambda>_.
     bind_r (map_r interface_address (sc_addresses c)) (\<lambda>addresses.
     bind_r (check (\<not> list_ex (\<lambda>hook. contains_any hook line_breaks) [sc_post_up c, sc_post_down c])
       ''fixed hook contains a newline'') (\<lambda>_.
     bind_r (check ((sc_post_up c = []) = (sc_post_down c = []))
       ''PostUp and PostDown must be supplied together'') (\<lambda>_.
     Inr (''# WireGate-Operation: '' @ sc_operation_id c @ nl @
       ''[Interface]'' @ nl @
       setting ''PrivateKey'' private @
       setting ''Address'' (join '', '' addresses) @
       setting ''ListenPort'' (show_nat (sc_listen_port c)) @
       (if sc_post_up c \<noteq> [] then setting ''PostUp'' (sc_post_up c) @ setting ''PostDown'' (sc_post_down c)
        else []))
     )))))))"

end
