(* ===== verification/RenderedConfig.thy ===== *)
theory RenderedConfig
  imports Profile ConfigDocFacts
begin

text \<open>
  How \<^verbatim>\<open>profile/server.go\<close> and \<^verbatim>\<open>configdoc/document.go\<close> fit together: the configuration file the
  agent renders for an interface is one that it can later adopt and patch.
\<close>

section \<open>Trimming printable text\<close>

definition printable :: "char \<Rightarrow> bool" where
  "printable c \<longleftrightarrow> 33 \<le> code c \<and> code c \<le> 126"

lemma go_spaces_not_printable: "list_all (\<lambda>w. list_all (\<lambda>c. \<not> printable c) w) go_spaces"
  by code_simp

lemma space_head_printable:
  assumes "printable c" and "list_all (\<lambda>w. list_all (\<lambda>c. \<not> printable c) w) ws"
  shows "space_head ws (c # s) = None"
  unfolding space_head_def find_None_iff
proof
  assume "\<exists>w. w \<in> set ws \<and> w \<noteq> [] \<and> has_prefix (c # s) w"
  then obtain w where w: "w \<in> set ws" "w \<noteq> []" "has_prefix (c # s) w" by blast
  from w(2) obtain d v where "w = d # v" by (cases w) auto
  with w(3) have "w = c # v" by (simp add: has_prefix_def)
  with w(1) assms show False by (auto simp: list_all_iff)
qed

lemma trim_with_keeps:
  "list_all (\<lambda>w. list_all (\<lambda>c. \<not> printable c) w) ws \<Longrightarrow> printable c \<Longrightarrow> c \<in> set s \<Longrightarrow> c \<in> set (trim_with ws s)"
proof (induction ws s rule: trim_with.induct)
  case (1 ws s)
  show ?case
  proof (cases "space_head ws s")
    case None
    with 1 show ?thesis by (simp add: trim_with_stop)
  next
    case (Some w)
    then have w: "w \<in> set ws" "has_prefix s w" by (auto simp: space_head_def dest: find_SomeD)
    from has_prefixD [OF w(2)] have "set s = set w \<union> set (drop (length w) s)"
      by (metis set_append)
    moreover have "c \<notin> set w" using 1(2,3) w(1) by (auto simp: list_all_iff)
    ultimately have "c \<in> set (drop (length w) s)" using 1(4) by auto
    with "1.IH" [OF Some 1(2,3)] Some show ?thesis by (subst trim_with.simps) simp
  qed
qed

lemma trim_left_printable [simp]: "printable c \<Longrightarrow> trim_left (c # s) = c # s"
  unfolding trim_left_def by (rule trim_with_stop) (rule space_head_printable [OF _ go_spaces_not_printable])

lemma rev_spaces: "list_all (\<lambda>w. list_all (\<lambda>c. \<not> printable c) w) (map rev go_spaces)"
  using go_spaces_not_printable by (auto simp: list_all_iff)

lemma trim_right_printable: "printable c \<Longrightarrow> trim_right (s @ [c]) = s @ [c]"
  unfolding trim_right_def by (simp add: trim_with_stop [OF space_head_printable [OF _ rev_spaces]])

lemma trim_right_hd: "printable c \<Longrightarrow> \<exists>t. trim_right (c # s) = c # t"
proof -
  assume c: "printable c"
  let ?t = "trim_with (map rev go_spaces) (rev (c # s))"
  obtain n where n: "?t = drop n (rev s @ [c])" using trim_with_drop [of "map rev go_spaces" "rev (c # s)"] by auto
  have "c \<in> set ?t" by (rule trim_with_keeps [OF rev_spaces c]) simp
  then have "?t \<noteq> []" by auto
  with n have "n \<le> length s" by (cases "n \<le> length s") auto
  with n have "rev ?t = c # rev (drop n (rev s))" by simp
  then show ?thesis by (auto simp: trim_right_def)
qed

lemma trim_space_hd: "printable c \<Longrightarrow> \<exists>t. trim_space (c # s) = c # t"
  by (simp add: trim_space_def trim_right_hd)

lemma trim_space_printable: "s \<noteq> [] \<Longrightarrow> printable (hd s) \<Longrightarrow> printable (last s) \<Longrightarrow> trim_space s = s"
proof -
  assume s: "s \<noteq> []" "printable (hd s)" "printable (last s)"
  then have "trim_left s = s" by (cases s) auto
  moreover have "trim_right s = s" using s by (cases s rule: rev_cases) (auto simp: trim_right_printable)
  ultimately show ?thesis by (simp add: trim_space_def)
qed

lemma trim_right_blank:
  assumes "s \<noteq> []" and "printable (last s)"
  shows "trim_right (s @ '' '') = s"
proof -
  have "space_head (map rev go_spaces) (CHR '' '' # rev s) = Some '' ''"
    by (simp add: space_head_def go_spaces_def has_prefix_def)
  then have "trim_with (map rev go_spaces) (CHR '' '' # rev s) = trim_with (map rev go_spaces) (rev s)"
    by (subst trim_with.simps) simp
  also have "\<dots> = rev s"
    using assms by (cases s rule: rev_cases) (simp_all add: trim_with_stop [OF space_head_printable [OF _ rev_spaces]])
  finally show ?thesis by (simp add: trim_right_def)
qed

section \<open>Lines\<close>

definition one_line :: "string \<Rightarrow> bool" where
  "one_line s \<longleftrightarrow> CHR 0x0A \<notin> set s \<and> CHR 0x0D \<notin> set s"

lemma one_line_Nil [simp]: "one_line []"
  by (simp add: one_line_def)

lemma one_line_append [simp]: "one_line (s @ t) \<longleftrightarrow> one_line s \<and> one_line t"
  by (auto simp: one_line_def)

lemma one_line_Cons [simp]: "one_line (c # s) \<longleftrightarrow> c \<noteq> CHR 0x0A \<and> c \<noteq> CHR 0x0D \<and> one_line s"
  by (auto simp: one_line_def)

lemma one_line_contains: "\<not> contains_any s line_breaks \<longleftrightarrow> one_line s"
  by (auto simp: contains_any_def one_line_def list_ex_iff)

lemma one_line_full: "one_line s \<Longrightarrow> full_line (s @ nl)"
  by (simp add: full_line_def one_line_def)

lemma trim_newline_one: "one_line s \<Longrightarrow> trim_newline (s @ nl) = s"
proof -
  assume "one_line s"
  then have "s = [] \<or> last s \<noteq> CHR 0x0D" by (metis last_in_set one_line_def)
  then show ?thesis by (auto simp: trim_newline_def trim_suffix_def)
qed

lemma comment_line:
  assumes "one_line s"
  shows "nd_kind (parse_line ul sec (''#'' @ s @ nl)) = CommentLine"
    and "nd_section (parse_line ul sec (''#'' @ s @ nl)) = sec"
proof -
  have body: "trim_newline (''#'' @ s @ nl) = CHR ''#'' # s"
    using trim_newline_one [of "CHR ''#'' # s"] assms by simp
  obtain t where "trim_space (CHR ''#'' # s) = CHR ''#'' # t"
    using trim_space_hd [of "CHR ''#''" s] by (auto simp: printable_def code_def)
  with body show "nd_kind (parse_line ul sec (''#'' @ s @ nl)) = CommentLine"
    "nd_section (parse_line ul sec (''#'' @ s @ nl)) = sec"
    by (simp_all add: parse_line_def Let_def)
qed

definition key_char :: "char \<Rightarrow> bool" where
  "key_char c \<longleftrightarrow> (65 \<le> code c \<and> code c \<le> 90) \<or> (97 \<le> code c \<and> code c \<le> 122)"

lemma key_char_facts:
  "key_char c \<Longrightarrow> printable c" "key_char c \<Longrightarrow> c \<noteq> CHR ''=''" "key_char c \<Longrightarrow> c \<noteq> CHR ''#''"
  "key_char c \<Longrightarrow> c \<noteq> CHR '';''" "key_char c \<Longrightarrow> c \<noteq> CHR ''[''" "key_char c \<Longrightarrow> c \<noteq> CHR 0x0A"
  "key_char c \<Longrightarrow> c \<noteq> CHR 0x0D" "key_char c \<Longrightarrow> code c < 128"
  by (auto simp: key_char_def printable_def code_def)

lemma setting_line:
  assumes key: "key \<noteq> []" "list_all key_char key" and v: "one_line v"
  shows "nd_kind (parse_line ul sec (setting key v)) = Assignment"
    and "nd_key (parse_line ul sec (setting key v)) = map lower_char key"
    and "nd_section (parse_line ul sec (setting key v)) = sec"
    and "v \<noteq> [] \<Longrightarrow> printable (hd v) \<Longrightarrow> printable (last v) \<Longrightarrow> nd_value (parse_line ul sec (setting key v)) = v"
proof -
  let ?body = "key @ '' = '' @ v"
  from key obtain c k where c: "key = c # k" "key_char c" by (cases key) auto
  have one: "one_line key" using key(2) by (auto simp: one_line_def list_all_iff dest: key_char_facts)
  have body: "trim_newline (setting key v) = ?body"
    using trim_newline_one [of ?body] one v by (simp add: setting_def)
  obtain t where trimmed: "trim_space ?body = c # t"
    using trim_space_hd [of c "k @ '' = '' @ v"] c key_char_facts(1) by auto
  have tw: "takeWhile (\<lambda>c. c \<noteq> CHR ''='') ?body = key @ '' ''"
    using key(2) by (subst takeWhile_append2) (auto simp: list_all_iff dest: key_char_facts)
  have name: "trim_space (key @ '' '') = key"
  proof -
    have "key_char (last key)" using key by (simp add: list_all_iff)
    then have "trim_right (key @ '' '') = key" by (intro trim_right_blank key key_char_facts)
    then show ?thesis using c key_char_facts(1) by (simp add: trim_space_def)
  qed
  have lower: "to_lower ul key = map lower_char key"
    using key(2) by (auto simp: to_lower_def is_ascii_def list_all_iff dest: key_char_facts)
  have pl: "parse_line ul sec (setting key v) =
    \<lparr>nd_kind = Assignment, nd_raw = setting key v, nd_section = sec, nd_key = map lower_char key,
     nd_value = drop (length key + 2 + length (takeWhile is_blank ('' '' @ v)))
       (take (max (length key + 2 + length (takeWhile is_blank ('' '' @ v)))
         (length ?body - length (takeWhile is_blank (rev ?body)))) ?body),
     nd_value_start = length key + 2 + length (takeWhile is_blank ('' '' @ v)),
     nd_value_end = max (length key + 2 + length (takeWhile is_blank ('' '' @ v)))
         (length ?body - length (takeWhile is_blank (rev ?body)))\<rparr>"
  proof -
    have "c \<noteq> CHR ''#''" "c \<noteq> CHR '';''" "c \<noteq> CHR ''[''" using c(2) key_char_facts by auto
    moreover have "take (length key + 1) ?body = key @ '' ''" by simp
    moreover have "drop (Suc (length key + 1)) ?body = '' '' @ v" by simp
    ultimately show ?thesis
      using trimmed tw name lower key(1)
      by (simp add: parse_line_def body Let_def)
  qed
  from pl show "nd_kind (parse_line ul sec (setting key v)) = Assignment"
    "nd_key (parse_line ul sec (setting key v)) = map lower_char key"
    "nd_section (parse_line ul sec (setting key v)) = sec" by simp_all
  assume ends: "v \<noteq> []" "printable (hd v)" "printable (last v)"
  have blank: "\<not> is_blank c" if "printable c" for c using that by (auto simp: is_blank_def printable_def code_def)
  have "takeWhile is_blank v = []" using ends(1,2) blank by (cases v) auto
  then have 1: "length (takeWhile is_blank ('' '' @ v)) = 1" by (simp add: is_blank_def)
  have "takeWhile is_blank (rev ?body) = []"
    using ends(1,3) blank by (cases v rule: rev_cases) auto
  with pl 1 show "nd_value (parse_line ul sec (setting key v)) = v" by simp
qed

section \<open>Printed numbers and prefixes\<close>

lemma one_line_show_nat [simp]: "one_line (show_nat n)"
  using show_nat_digits [of n] by (auto simp: one_line_def list_all_iff is_digit_def code_def)

lemma one_line_join: "one_line sep \<Longrightarrow> list_all one_line xs \<Longrightarrow> one_line (join sep xs)"
  by (induction sep xs rule: join.induct) (auto simp: one_line_def)

lemma one_line_show_hex [simp]: "one_line (show_hex n)"
proof (induction n rule: show_hex.induct)
  case (1 n)
  have digit: "one_line [hex_char k]" if "k < 16" for k
  proof -
    have "code (hex_char k) \<ge> 48" using that by (simp add: hex_char_def)
    then have "hex_char k \<noteq> CHR 0x0A" "hex_char k \<noteq> CHR 0x0D" by (auto simp: code_def)
    then show ?thesis by simp
  qed
  show ?case
    using 1 digit [of n] digit [of "n mod 16"] by (subst show_hex.simps) (simp add: one_line_def)
qed

lemma one_line_show_v4 [simp]: "one_line (show_v4 w)"
  unfolding show_v4_def by (rule one_line_join) (simp_all add: list_all_iff)

lemma one_line_show_v6 [simp]: "one_line (show_v6 w)"
proof -
  have "one_line (join '':'' (map show_hex gs))" for gs
    by (rule one_line_join) (simp_all add: list_all_iff)
  then show ?thesis
    by (simp add: show_v6_def Let_def split: option.split)
qed

lemma one_line_show_prefix [simp]: "one_line (show_prefix p)"
proof -
  have "one_line (show_addr (without_zone a))" for a
    by (cases a) simp_all
  moreover have "one_line (show_int i)" for i by (simp add: show_int_def)
  ultimately show ?thesis by (simp add: show_prefix_def)
qed

section \<open>The rendered document\<close>

definition server_lines :: "server_config \<Rightarrow> string list \<Rightarrow> string list" where
  "server_lines c addresses =
     [''#'' @ ('' WireGate-Operation: '' @ sc_operation_id c) @ nl, ''[Interface]'' @ nl,
      setting ''PrivateKey'' (trim_space (sc_private_key c)), setting ''Address'' (join '', '' addresses),
      setting ''ListenPort'' (show_nat (sc_listen_port c))] @
     (if sc_post_up c \<noteq> [] then [setting ''PostUp'' (sc_post_up c), setting ''PostDown'' (sc_post_down c)] else [])"

lemma render_server_config_Inr:
  assumes "render_server_config c = Inr text"
  obtains addresses where "text = concat (server_lines c addresses)" and "list_all one_line addresses"
    and "one_line (sc_operation_id c)" and "one_line (sc_post_up c)" and "one_line (sc_post_down c)"
    and "wireguard_key (trim_space (sc_private_key c)) = None"
proof -
  from assms obtain addresses where a: "map_r interface_address (sc_addresses c) = Inr addresses"
    and t: "text = concat (server_lines c addresses)"
    and o: "one_line (sc_operation_id c)" "one_line (sc_post_up c)" "one_line (sc_post_down c)"
    and k: "wireguard_key (trim_space (sc_private_key c)) = None"
    by (auto simp: render_server_config_def Let_def one_line_contains server_lines_def guard_as_def
        simp del: bind_check split: option.splits)
  have "one_line x" if "x \<in> set addresses" for x
    using map_r_mem2 [OF a that] by (auto simp: interface_address_def split: option.splits if_splits)
  then show thesis using that t o k by (simp add: list_all_iff)
qed

lemma header_line:
  "nd_kind (parse_line ul sec (''[Interface]'' @ nl)) = SectionHeader"
  "nd_section (parse_line ul sec (''[Interface]'' @ nl)) = ''interface''"
  by code_simp+

lemma server_keys:
  "list_all key_char ''PrivateKey''" "list_all key_char ''Address''" "list_all key_char ''ListenPort''"
  "list_all key_char ''PostUp''" "list_all key_char ''PostDown''"
  "map lower_char ''PrivateKey'' = ''privatekey''" "map lower_char ''Address'' = ''address''"
  "map lower_char ''ListenPort'' = ''listenport''" "map lower_char ''PostUp'' = ''postup''"
  "map lower_char ''PostDown'' = ''postdown''"
  by code_simp+

lemma wireguard_key_validate: "wireguard_key k = None \<Longrightarrow> validate_key k = None"
  by (auto simp: wireguard_key_def validate_key_def split: option.splits if_splits)

text \<open>What each line does to the analysis.\<close>

lemma analyze_comment: "nd_kind nd = CommentLine \<Longrightarrow> analyze_node (i, nd) z = z"
  by (simp add: analyze_node_def)

lemma analyze_interface_header:
  "nd_kind nd = SectionHeader \<Longrightarrow> nd_section nd = ''interface'' \<Longrightarrow> az_peer z = None \<Longrightarrow>
     analyze_node (i, nd) z =
       z\<lparr>az_analysis := (az_analysis z)\<lparr>an_interface_count := Suc (an_interface_count (az_analysis z))\<rparr>\<rparr>"
  by (simp add: analyze_node_def analyze_header_def finish_peer_def)

lemma analyze_private_key:
  "nd_kind nd = Assignment \<Longrightarrow> nd_section nd = ''interface'' \<Longrightarrow> nd_key nd = ''privatekey'' \<Longrightarrow>
     az_private_keys z = 0 \<Longrightarrow> validate_key (nd_value nd) = None \<Longrightarrow>
     analyze_node (i, nd) z =
       z\<lparr>az_private_keys := 1, az_analysis := (az_analysis z)\<lparr>an_private_key_present := True\<rparr>\<rparr>"
  by (simp add: analyze_node_def analyze_interface_key_def known_interface_def Let_def)

lemma analyze_plain_key:
  "nd_kind nd = Assignment \<Longrightarrow> nd_section nd = ''interface'' \<Longrightarrow> nd_key nd \<in> {''address'', ''listenport''} \<Longrightarrow>
     analyze_node (i, nd) z = z"
  by (auto simp: analyze_node_def analyze_interface_key_def known_interface_def Let_def)

lemma analyze_hook:
  "nd_kind nd = Assignment \<Longrightarrow> nd_section nd = ''interface'' \<Longrightarrow> nd_key nd \<in> {''postup'', ''postdown''} \<Longrightarrow>
     analyze_node (i, nd) z = z\<lparr>az_analysis := (az_analysis z)\<lparr>an_has_hooks := True\<rparr>\<rparr>"
  by (auto simp: analyze_node_def analyze_interface_key_def known_interface_def Let_def)

text \<open>
  C28: the configuration the agent renders for a new interface is one it can work with: whatever
  the operation, addresses, port and hooks, the rendered text parses to a document that is safe
  to adopt, has no peer and no warning, and has hooks exactly when the plan has them. The
  private key must be plain text without line breaks, as base64 keys are.
\<close>

theorem rendered_server_config_adoptable:
  assumes "render_server_config c = Inr text" and "list_all printable (sc_private_key c)"
    and "length text \<le> default_max_bytes"
  shows "\<exists>d. parse_doc ul text = Inr d \<and> d_raw d = text \<and> adoption_safe d = None \<and>
    an_peers (d_analysis d) = [] \<and> an_warnings (d_analysis d) = [] \<and>
    (an_has_hooks (d_analysis d) \<longleftrightarrow> sc_post_up c \<noteq> [])"
proof -
  from assms(1) obtain addresses where whole: "text = concat (server_lines c addresses)"
    and one: "list_all one_line addresses" "one_line (sc_operation_id c)" "one_line (sc_post_up c)" "one_line (sc_post_down c)"
    and key: "wireguard_key (trim_space (sc_private_key c)) = None"
    by (rule render_server_config_Inr)
  let ?k = "sc_private_key c"
  have "?k \<noteq> []"
  proof
    assume "?k = []"
    moreover have "wireguard_key (trim_space []) \<noteq> None" by code_simp
    ultimately show False using key by simp
  qed
  with assms(2) have ends: "?k \<noteq> []" "printable (hd ?k)" "printable (last ?k)" by (auto simp: list_all_iff)
  then have trim: "trim_space ?k = ?k" by (rule trim_space_printable)
  have k1: "one_line ?k" using assms(2) by (auto simp: one_line_def list_all_iff printable_def code_def)
  have ad: "one_line (join '', '' addresses)" by (rule one_line_join) (use one(1) in simp_all)
  have op: "one_line ('' WireGate-Operation: '' @ sc_operation_id c)" using one(2) by (simp add: one_line_def)
  note sl = setting_line [OF _ server_keys(1) k1, unfolded server_keys(6)]
    setting_line(1-3) [OF _ server_keys(2) ad, unfolded server_keys(7)]
    setting_line(1-3) [OF _ server_keys(3) one_line_show_nat, unfolded server_keys(8)]
    setting_line(1-3) [OF _ server_keys(4) one(3), unfolded server_keys(9)]
    setting_line(1-3) [OF _ server_keys(5) one(4), unfolded server_keys(10)]
  have full: "list_all full_line (server_lines c addresses)"
  proof -
    have "full_line (setting k v)" if "list_all key_char k" "one_line v" for k v
    proof -
      have "one_line (k @ '' = '' @ v)"
        using that by (auto simp: one_line_def list_all_iff dest: key_char_facts)
      from one_line_full [OF this] show ?thesis by (simp add: setting_def)
    qed
    note set = this
    have "full_line (''#'' @ ('' WireGate-Operation: '' @ sc_operation_id c) @ nl)"
      using one_line_full [of "CHR ''#'' # '' WireGate-Operation: '' @ sc_operation_id c"] op by simp
    moreover have "full_line (''[Interface]'' @ nl)" by (simp add: full_line_def)
    moreover note set [OF server_keys(1) k1] set [OF server_keys(2) ad] set [OF server_keys(3) one_line_show_nat]
      set [OF server_keys(4) one(3)] set [OF server_keys(5) one(4)]
    ultimately show ?thesis unfolding server_lines_def trim by simp
  qed
  have lines: "split_lines text = server_lines c addresses"
    unfolding whole by (rule split_lines_concat) (rule full_lines_ok [OF full])
  let ?nodes = "parse_nodes ul text"
  let ?z = "empty_analyzer\<lparr>az_private_keys := 1, az_analysis := (az_analysis empty_analyzer)
     \<lparr>an_interface_count := 1, an_private_key_present := True, an_has_hooks := sc_post_up c \<noteq> []\<rparr>\<rparr>"
  have "fold analyze_node (enumerate 0 ?nodes) empty_analyzer = ?z"
    unfolding parse_nodes_def lines server_lines_def
    by (simp add: Let_def header_line [unfolded append_Cons append_Nil] comment_line [OF op, unfolded append_Cons append_Nil]
        sl trim ends
        wireguard_key_validate [OF key, unfolded trim] analyze_comment analyze_interface_header analyze_private_key
        analyze_plain_key analyze_hook empty_analyzer_def)
  then have "analyze ?nodes = az_analysis ?z"
    by (simp add: analyze_def Let_def finish_peer_def empty_analyzer_def)
  then show ?thesis
    using assms(3) by (simp add: parse_doc_def adoption_safe_def empty_analyzer_def)
qed

definition demo_server :: server_config where
  "demo_server = \<lparr>sc_operation_id = ''op-1'', sc_private_key = replicate 42 CHR ''A'' @ ''E='',
     sc_addresses = [''10.8.0.1/24''], sc_listen_port = 53, sc_post_up = ''up'', sc_post_down = ''down''\<rparr>"

lemma demo_server_rendered:
  "\<exists>text. render_server_config demo_server = Inr text \<and> length text \<le> default_max_bytes"
proof -
  have "(case render_server_config demo_server of Inl e \<Rightarrow> False | Inr t \<Rightarrow> length t < 500)" by code_simp
  then show ?thesis by (auto simp: default_max_bytes_def split: sum.splits)
qed

theorem rendered_server_config_adoptable_witness:
  "\<exists>t d. render_server_config demo_server = Inr t \<and> parse_doc (\<lambda>s. s) t = Inr d \<and> adoption_safe d = None \<and>
     an_has_hooks (d_analysis d)"
proof -
  obtain t where t: "render_server_config demo_server = Inr t" "length t \<le> default_max_bytes"
    using demo_server_rendered by blast
  have "list_all printable (sc_private_key demo_server)" by code_simp
  from rendered_server_config_adoptable [OF t(1) this t(2), of "\<lambda>s. s"] t(1) show ?thesis
    by (auto simp: demo_server_def)
qed

end
