(* ===== verification/WebDb.thy ===== *)
theory WebDb
  imports AgentTables
begin

text \<open>
  The database of the web process: the tables of \<^verbatim>\<open>src/migrations/web/001_initial.sql\<close> and the
  methods of \<^verbatim>\<open>src/internal/web/repository/auth.go\<close> (users, sessions, login events and the
  bootstrap token). Times are kept in milliseconds, as the columns are; \<open>lower\<close> is
  \<open>strings.ToLower\<close> outside ASCII.
\<close>

section \<open>Tables\<close>

record user_row =
  us_id :: string
  us_username :: string
  us_display_name :: string
  us_password_hash :: string
  us_role :: string
  us_status :: string
  us_failed_login_count :: int
  us_locked_until_ms :: "int option"
  us_password_changed_ms :: int
  us_created_at_ms :: int
  us_updated_at_ms :: int

record session_row =
  ws_id_hash :: string
  ws_user_id :: string
  ws_csrf_hash :: string
  ws_reauth_until_ms :: "int option"
  ws_expires_at_ms :: int
  ws_idle_expires_at_ms :: int
  ws_last_seen_at_ms :: int
  ws_created_at_ms :: int
  ws_revoked_at_ms :: "int option"

record login_event_row =
  le_id :: string
  le_user_id :: "string option"
  le_username_normalized :: string
  le_result :: string
  le_source_ip :: "string option"
  le_request_id :: string
  le_created_at_ms :: int

record web_audit_row =
  wa_id :: string
  wa_actor_user_id :: "string option"
  wa_action :: string
  wa_target_type :: string
  wa_target_id :: "string option"
  wa_request_id :: string
  wa_result :: string
  wa_details_redacted :: "string option"
  wa_created_at_ms :: int

record bootstrap_row =
  bs_token_hash :: string
  bs_expires_at_ms :: int
  bs_consumed_at_ms :: "int option"
  bs_created_at_ms :: int

text \<open>The key of \<open>bootstrap_state\<close> can only be 1: the table is a row or nothing.\<close>

record web_db =
  wd_users :: "user_row list"
  wd_sessions :: "session_row list"
  wd_login_events :: "login_event_row list"
  wd_audit :: "web_audit_row list"
  wd_bootstrap :: "bootstrap_row option"

text \<open>\<open>COLLATE NOCASE\<close> folds the ASCII letters.\<close>

definition nocase :: "string \<Rightarrow> string" where
  "nocase s = map lower_char s"

definition insert_user :: "user_row \<Rightarrow> web_db \<Rightarrow> repo_error + web_db" where
  "insert_user row db =
     bind_r (constraints
       [(us_role row \<in> set [''admin'', ''operator'', ''viewer'', ''auditor''], ''users.role''),
        (us_status row \<in> set [''active'', ''locked'', ''disabled''], ''users.status''),
        (key_fresh us_id (us_id row) (wd_users db), ''users.id''),
        (key_fresh (\<lambda>u. nocase (us_username u)) (nocase (us_username row)) (wd_users db), ''users.username'')]) (\<lambda>_.
     Inr (db\<lparr>wd_users := wd_users db @ [row]\<rparr>))"

definition insert_session :: "session_row \<Rightarrow> web_db \<Rightarrow> repo_error + web_db" where
  "insert_session row db =
     bind_r (constraints
       [(key_fresh ws_id_hash (ws_id_hash row) (wd_sessions db), ''sessions.id_hash''),
        (ws_user_id row \<in> us_id ` set (wd_users db), ''sessions.user_id'')]) (\<lambda>_.
     Inr (db\<lparr>wd_sessions := wd_sessions db @ [row]\<rparr>))"

definition insert_login_row :: "login_event_row \<Rightarrow> web_db \<Rightarrow> repo_error + web_db" where
  "insert_login_row row db =
     bind_r (constraints
       [(key_fresh le_id (le_id row) (wd_login_events db), ''login_events.id''),
        (fk_to us_id (wd_users db) (le_user_id row), ''login_events.user_id'')]) (\<lambda>_.
     Inr (db\<lparr>wd_login_events := wd_login_events db @ [row]\<rparr>))"

definition insert_web_audit :: "web_audit_row \<Rightarrow> web_db \<Rightarrow> repo_error + web_db" where
  "insert_web_audit row db =
     bind_r (constraints
       [(key_fresh wa_id (wa_id row) (wd_audit db), ''web_audit_events.id''),
        (fk_to us_id (wd_users db) (wa_actor_user_id row), ''web_audit_events.actor_user_id'')]) (\<lambda>_.
     Inr (db\<lparr>wd_audit := wd_audit db @ [row]\<rparr>))"

definition update_users :: "(user_row \<Rightarrow> bool) \<Rightarrow> (user_row \<Rightarrow> user_row) \<Rightarrow> web_db \<Rightarrow> nat \<times> web_db" where
  "update_users P f db = (affected P (wd_users db), db\<lparr>wd_users := update_rows P f (wd_users db)\<rparr>)"

definition update_sessions :: "(session_row \<Rightarrow> bool) \<Rightarrow> (session_row \<Rightarrow> session_row) \<Rightarrow> web_db \<Rightarrow> nat \<times> web_db" where
  "update_sessions P f db = (affected P (wd_sessions db), db\<lparr>wd_sessions := update_rows P f (wd_sessions db)\<rparr>)"

section \<open>Users\<close>

record web_user =
  wu_id :: string
  wu_username :: string
  wu_display_name :: string
  wu_password_hash :: string
  wu_role :: string
  wu_status :: string
  wu_locked_until :: time

record web_session =
  se_user :: web_user
  se_csrf_hash :: string
  se_reauth_until :: time

text \<open>A nullable time: Go's zero time when absent.\<close>

definition opt_time :: "int option \<Rightarrow> time" where
  "opt_time v = (case v of None \<Rightarrow> zero_time | Some ms \<Rightarrow> of_milli ms)"

definition user_of :: "user_row \<Rightarrow> web_user" where
  "user_of u = \<lparr>wu_id = us_id u, wu_username = us_username u, wu_display_name = us_display_name u,
     wu_password_hash = us_password_hash u, wu_role = us_role u, wu_status = us_status u,
     wu_locked_until = opt_time (us_locked_until_ms u)\<rparr>"

definition named_user :: "string \<Rightarrow> user_row \<Rightarrow> bool" where
  "named_user name u \<longleftrightarrow> nocase (us_username u) = nocase name"

definition find_user_by_username :: "string \<Rightarrow> web_db \<Rightarrow> repo_error + web_user" where
  "find_user_by_username username db =
     bind_r (query_row (named_user (trim_space username)) (wd_users db)) (\<lambda>u. Inr (user_of u))"

definition insert_login_event ::
  "id_source \<Rightarrow> (string \<Rightarrow> string) \<Rightarrow> string option \<Rightarrow> string \<Rightarrow> string \<Rightarrow> string \<Rightarrow> string \<Rightarrow> time \<Rightarrow> web_db
     \<Rightarrow> repo_error + web_db" where
  "insert_login_event gen lower user username result source_ip request_id now db =
     bind_r (gen 0 now) (\<lambda>eid.
     insert_login_row
       \<lparr>le_id = eid, le_user_id = user, le_username_normalized = to_lower lower username, le_result = result,
        le_source_ip = nullable source_ip, le_request_id = request_id, le_created_at_ms = unix_milli now\<rparr> db)"

text \<open>The row after one more failed login.\<close>

definition failed_row :: "time \<Rightarrow> user_row \<Rightarrow> user_row" where
  "failed_row now u = u\<lparr>us_failed_login_count := us_failed_login_count u + 1,
     us_locked_until_ms := (if us_failed_login_count u + 1 \<ge> 5 then Some (unix_milli (now + 15 * minute))
       else us_locked_until_ms u),
     us_updated_at_ms := unix_milli now\<rparr>"

definition record_login_failure ::
  "id_source \<Rightarrow> (string \<Rightarrow> string) \<Rightarrow> string \<Rightarrow> string \<Rightarrow> string \<Rightarrow> time \<Rightarrow> web_db \<Rightarrow> (repo_error + unit) \<times> web_db" where
  "record_login_failure gen lower username request_id source_ip now db =
     commit_tx db (
       let user = map_option us_id (find (named_user username) (wd_users db));
           db1 = (case user of None \<Rightarrow> db | Some uid \<Rightarrow> snd (update_users (\<lambda>u. us_id u = uid) (failed_row now) db)) in
       bind_r (insert_login_event gen lower user username ''failure'' source_ip request_id now db1) (\<lambda>db2.
       Inr ((), db2)))"

definition record_login_success ::
  "id_source \<Rightarrow> (string \<Rightarrow> string) \<Rightarrow> string \<Rightarrow> string \<Rightarrow> string \<Rightarrow> string \<Rightarrow> time \<Rightarrow> web_db
     \<Rightarrow> (repo_error + unit) \<times> web_db" where
  "record_login_success gen lower uid username request_id source_ip now db =
     commit_tx db (
       let (n, db1) = update_users (\<lambda>u. us_id u = uid)
             (\<lambda>u. u\<lparr>us_failed_login_count := 0, us_locked_until_ms := None, us_updated_at_ms := unix_milli now\<rparr>) db in
       bind_r (insert_login_event gen lower (Some uid) username ''success'' source_ip request_id now db1) (\<lambda>db2.
       Inr ((), db2)))"

section \<open>Bootstrap\<close>

definition bootstrap_required :: "web_db \<Rightarrow> bool" where
  "bootstrap_required db \<longleftrightarrow> length (wd_users db) = 0"

text \<open>\<open>now\<close> is the reading the caller passes.\<close>

definition set_bootstrap_token :: "string \<Rightarrow> time \<Rightarrow> time \<Rightarrow> web_db \<Rightarrow> (repo_error + unit) \<times> web_db" where
  "set_bootstrap_token hash expires now db =
     commit_tx db (
       bind_r (check (\<not> (length hash \<noteq> 32 \<or> \<not> expires > now)) (RepoError ''invalid bootstrap token or expiry'')) (\<lambda>_.
       bind_r (check (length (wd_users db) = 0) (RepoError ''bootstrap is disabled after the first user'')) (\<lambda>_.
       Inr ((), db\<lparr>wd_bootstrap := Some \<lparr>bs_token_hash = hash, bs_expires_at_ms = unix_milli expires,
         bs_consumed_at_ms = None, bs_created_at_ms = unix_milli now\<rparr>\<rparr>))))"

definition token_refused :: "string \<Rightarrow> time \<Rightarrow> bootstrap_row \<Rightarrow> bool" where
  "token_refused hash now b \<longleftrightarrow> bs_consumed_at_ms b \<noteq> None \<or> bs_expires_at_ms b \<le> unix_milli now \<or>
     length (bs_token_hash b) \<noteq> length hash \<or> bs_token_hash b \<noteq> hash"

definition consume_bootstrap :: "time \<Rightarrow> web_db \<Rightarrow> web_db" where
  "consume_bootstrap now db = db\<lparr>wd_bootstrap := map_option (\<lambda>b. if bs_consumed_at_ms b = None
     then b\<lparr>bs_consumed_at_ms := Some (unix_milli now)\<rparr> else b) (wd_bootstrap db)\<rparr>"

definition bootstrap_admin ::
  "id_source \<Rightarrow> string \<Rightarrow> string \<Rightarrow> string \<Rightarrow> string \<Rightarrow> string \<Rightarrow> time \<Rightarrow> web_db \<Rightarrow> (repo_error + web_user) \<times> web_db" where
  "bootstrap_admin gen hash username display_name password_hash request_id now db =
     commit_tx db (
       bind_r (check (\<not> (username = [] \<or> display_name = [] \<or> password_hash = []))
         (RepoError ''bootstrap user fields are required'')) (\<lambda>_.
       bind_r (check (length (wd_users db) = 0) (RepoError ''bootstrap is no longer available'')) (\<lambda>_.
       bind_r (case wd_bootstrap db of None \<Rightarrow> Inl (RepoError ''bootstrap token is invalid'') | Some b \<Rightarrow> Inr b) (\<lambda>b.
       bind_r (check (\<not> token_refused hash now b) (RepoError ''bootstrap token is invalid'')) (\<lambda>_.
       bind_r (gen 0 now) (\<lambda>uid.
       bind_r (wrap_r ''create bootstrap admin'' (insert_user
         \<lparr>us_id = uid, us_username = username, us_display_name = display_name, us_password_hash = password_hash,
          us_role = ''admin'', us_status = ''active'', us_failed_login_count = 0, us_locked_until_ms = None,
          us_password_changed_ms = unix_milli now, us_created_at_ms = unix_milli now,
          us_updated_at_ms = unix_milli now\<rparr> db)) (\<lambda>db1.
       bind_r (gen 1 (now + nanosecond)) (\<lambda>aid.
       bind_r (insert_web_audit
         \<lparr>wa_id = aid, wa_actor_user_id = Some uid, wa_action = ''bootstrap_admin'', wa_target_type = ''user'',
          wa_target_id = Some uid, wa_request_id = request_id, wa_result = ''success'', wa_details_redacted = None,
          wa_created_at_ms = unix_milli now\<rparr> (consume_bootstrap now db1)) (\<lambda>db2.
       Inr (\<lparr>wu_id = uid, wu_username = username, wu_display_name = display_name,
         wu_password_hash = password_hash, wu_role = ''admin'', wu_status = ''active'',
         wu_locked_until = zero_time\<rparr>, db2))))))))))"

section \<open>Sessions\<close>

definition create_session ::
  "string \<Rightarrow> string \<Rightarrow> string \<Rightarrow> time \<Rightarrow> time \<Rightarrow> time \<Rightarrow> web_db \<Rightarrow> (repo_error + unit) \<times> web_db" where
  "create_session uid id_hash csrf_hash expires idle_expires now db =
     commit_tx db (bind_r (insert_session
       \<lparr>ws_id_hash = id_hash, ws_user_id = uid, ws_csrf_hash = csrf_hash, ws_reauth_until_ms = None,
        ws_expires_at_ms = unix_milli expires, ws_idle_expires_at_ms = unix_milli idle_expires,
        ws_last_seen_at_ms = unix_milli now, ws_created_at_ms = unix_milli now, ws_revoked_at_ms = None\<rparr> db) (\<lambda>db1.
     Inr ((), db1)))"

text \<open>The join of \<open>GetSession\<close>, and its refresh of the idle time.\<close>

definition live_session :: "string \<Rightarrow> time \<Rightarrow> session_row \<Rightarrow> bool" where
  "live_session id_hash now s \<longleftrightarrow> ws_id_hash s = id_hash \<and> ws_revoked_at_ms s = None \<and>
     ws_expires_at_ms s > unix_milli now \<and> ws_idle_expires_at_ms s > unix_milli now"

definition joined_sessions :: "string \<Rightarrow> time \<Rightarrow> web_db \<Rightarrow> (session_row \<times> user_row) list" where
  "joined_sessions id_hash now db =
     [(s, u). s \<leftarrow> filter (live_session id_hash now) (wd_sessions db),
       u \<leftarrow> filter (\<lambda>u. us_id u = ws_user_id s \<and> us_status u = ''active'') (wd_users db)]"

definition touch_session :: "string \<Rightarrow> time \<Rightarrow> web_db \<Rightarrow> web_db" where
  "touch_session id_hash now db = snd (update_sessions (\<lambda>s. ws_id_hash s = id_hash)
     (\<lambda>s. s\<lparr>ws_last_seen_at_ms := unix_milli now,
       ws_idle_expires_at_ms := min (ws_expires_at_ms s) (unix_milli (now + 30 * minute))\<rparr>) db)"

definition get_session :: "string \<Rightarrow> time \<Rightarrow> web_db \<Rightarrow> (repo_error + web_session) \<times> web_db" where
  "get_session id_hash now db =
     (case joined_sessions id_hash now db of
        [] \<Rightarrow> (Inl SqlNoRows, db)
      | (s, u) # _ \<Rightarrow>
          if (case us_locked_until_ms u of None \<Rightarrow> False | Some ms \<Rightarrow> ms > unix_milli now)
          then (Inl (RepoError ''user is locked''), db)
          else (Inr \<lparr>se_user = (user_of u)\<lparr>wu_locked_until := zero_time\<rparr>, se_csrf_hash = ws_csrf_hash s,
                  se_reauth_until = opt_time (ws_reauth_until_ms s)\<rparr>,
                touch_session id_hash now db))"

definition mark_reauthenticated :: "string \<Rightarrow> time \<Rightarrow> web_db \<Rightarrow> (repo_error + unit) \<times> web_db" where
  "mark_reauthenticated id_hash until db =
     (let (n, db1) = update_sessions (\<lambda>s. ws_id_hash s = id_hash \<and> ws_revoked_at_ms s = None)
            (\<lambda>s. s\<lparr>ws_reauth_until_ms := Some (unix_milli until)\<rparr>) db in
      if n \<noteq> 1 then (Inl (RepoError ''session is unavailable''), db1) else (Inr (), db1))"

definition revoke_where :: "(session_row \<Rightarrow> bool) \<Rightarrow> time \<Rightarrow> web_db \<Rightarrow> web_db" where
  "revoke_where P now db = snd (update_sessions (\<lambda>s. P s \<and> ws_revoked_at_ms s = None)
     (\<lambda>s. s\<lparr>ws_revoked_at_ms := Some (unix_milli now)\<rparr>) db)"

definition revoke_session :: "string \<Rightarrow> time \<Rightarrow> web_db \<Rightarrow> (repo_error + unit) \<times> web_db" where
  "revoke_session id_hash now db = (Inr (), revoke_where (\<lambda>s. ws_id_hash s = id_hash) now db)"

section \<open>Password changes\<close>

definition change_user_password ::
  "string \<Rightarrow> string \<Rightarrow> string \<Rightarrow> time \<Rightarrow> web_db \<Rightarrow> (repo_error + unit) \<times> web_db" where
  "change_user_password uid current_hash password_hash now db =
     commit_tx db (
       let (n, db1) = update_users (\<lambda>u. us_id u = uid \<and> us_status u = ''active'')
             (\<lambda>u. u\<lparr>us_password_hash := password_hash, us_password_changed_ms := unix_milli now,
                us_updated_at_ms := unix_milli now\<rparr>) db in
       bind_r (check (n = 1) (RepoError ''user is unavailable'')) (\<lambda>_.
       let db2 = revoke_where (\<lambda>s. ws_user_id s = uid \<and> ws_id_hash s \<noteq> current_hash) now db1;
           (m, db3) = update_sessions (\<lambda>s. ws_id_hash s = current_hash \<and> ws_revoked_at_ms s = None)
             (\<lambda>s. s\<lparr>ws_reauth_until_ms := Some (unix_milli (now + 5 * minute))\<rparr>) db2 in
       Inr ((), db3)))"

definition reset_admin_password ::
  "id_source \<Rightarrow> string \<Rightarrow> string \<Rightarrow> time \<Rightarrow> web_db \<Rightarrow> (repo_error + string) \<times> web_db" where
  "reset_admin_password gen username password_hash now db =
     commit_tx db (
       let name = trim_space username in
       bind_r (check (\<not> (name = [] \<or> password_hash = [])) (RepoError ''admin username and password hash are required'')) (\<lambda>_.
       bind_r (case find (\<lambda>u. named_user name u \<and> us_role u = ''admin'') (wd_users db) of
                 None \<Rightarrow> Inl (RepoError ''admin user not found'') | Some u \<Rightarrow> Inr u) (\<lambda>a.
       let (n, db1) = update_users (\<lambda>u. us_id u = us_id a \<and> us_role u = ''admin'')
             (\<lambda>u. u\<lparr>us_password_hash := password_hash, us_status := ''active'', us_failed_login_count := 0,
                us_locked_until_ms := None, us_password_changed_ms := unix_milli now,
                us_updated_at_ms := unix_milli now\<rparr>) db in
       bind_r (check (n = 1) (RepoError ''admin user is unavailable'')) (\<lambda>_.
       let db2 = revoke_where (\<lambda>s. ws_user_id s = us_id a) now db1 in
       bind_r (gen 0 now) (\<lambda>aid.
       bind_r (insert_web_audit
         \<lparr>wa_id = aid, wa_actor_user_id = None, wa_action = ''reset_admin_password_cli'', wa_target_type = ''user'',
          wa_target_id = Some (us_id a), wa_request_id = ''cli-'' @ aid, wa_result = ''success'',
          wa_details_redacted = Some ''physical host recovery'', wa_created_at_ms = unix_milli now\<rparr> db2) (\<lambda>db3.
       Inr (us_username a, db3)))))))"

end
