(* ===== verification/Password.thy ===== *)
theory Password
  imports GoStrings
begin

text \<open>
  \<^verbatim>\<open>src/internal/web/auth/password.go\<close>: password hashes in the PHC format. Argon2id is the argument
  \<open>argon\<close> (password, salt, iterations, memory, parallelism, key length); UTF-8 validity and
  unpadded base64 are translated.
\<close>

section \<open>UTF-8\<close>

text \<open>The length of the first rune and whether it is valid; an invalid byte counts as a rune.\<close>

definition cont :: "nat \<Rightarrow> nat \<Rightarrow> char \<Rightarrow> bool" where
  "cont lo hi c \<longleftrightarrow> lo \<le> code c \<and> code c \<le> hi"

definition first_rune :: "string \<Rightarrow> nat \<times> bool" where
  "first_rune s =
     (case s of
        [] \<Rightarrow> (0, True)
      | c # t \<Rightarrow>
          (let n = code c;
               (lo, hi) = (if n = 0xE0 then (0xA0, 0xBF) else if n = 0xED then (0x80, 0x9F)
                 else if n = 0xF0 then (0x90, 0xBF) else if n = 0xF4 then (0x80, 0x8F) else (0x80, 0xBF));
               need = (if n < 0x80 then 0 else if 0xC2 \<le> n \<and> n \<le> 0xDF then 1
                 else if 0xE0 \<le> n \<and> n \<le> 0xEF then 2 else if 0xF0 \<le> n \<and> n \<le> 0xF4 then 3 else 9) in
           if need \<le> length t \<and> (need = 0 \<or> cont lo hi (hd t)) \<and> list_all (cont 0x80 0xBF) (take (need - 1) (tl t))
           then (Suc need, True) else (1, False)))"

function rune_count :: "string \<Rightarrow> nat" where
  "rune_count s = (if s = [] then 0 else Suc (rune_count (drop (max 1 (fst (first_rune s))) s)))"
  by pat_completeness auto
termination by (relation "measure length") auto

function valid_utf8 :: "string \<Rightarrow> bool" where
  "valid_utf8 s \<longleftrightarrow> (if s = [] then True
     else snd (first_rune s) \<and> valid_utf8 (drop (max 1 (fst (first_rune s))) s))"
  by pat_completeness auto
termination by (relation "measure length") auto

declare rune_count.simps [simp del] valid_utf8.simps [simp del]

section \<open>Unpadded base64\<close>

definition b64_letter :: "nat \<Rightarrow> char" where
  "b64_letter n =
     (if n < 26 then char_of (n + 65) else if n < 52 then char_of (n + 71)
      else if n < 62 then char_of (n - 4) else if n = 62 then CHR ''+'' else CHR ''/'')"

fun b64_raw_encode :: "nat list \<Rightarrow> string" where
  "b64_raw_encode [] = []"
| "b64_raw_encode [x] = [b64_letter (x div 4), b64_letter ((x mod 4) * 16)]"
| "b64_raw_encode [x, y] = [b64_letter (x div 4), b64_letter ((x mod 4) * 16 + y div 16), b64_letter ((y mod 16) * 4)]"
| "b64_raw_encode (x # y # z # rest) =
     [b64_letter (x div 4), b64_letter ((x mod 4) * 16 + y div 16),
      b64_letter ((y mod 16) * 4 + z div 64), b64_letter (z mod 64)] @ b64_raw_encode rest"

fun b64_raw :: "string \<Rightarrow> nat list option" where
  "b64_raw [] = Some []"
| "b64_raw [a] = None"
| "b64_raw [a, b] =
     (case (b64_digit a, b64_digit b) of
        (Some p, Some q) \<Rightarrow> Some [p * 4 + q div 16]
      | _ \<Rightarrow> None)"
| "b64_raw [a, b, c] =
     (case (b64_digit a, b64_digit b, b64_digit c) of
        (Some p, Some q, Some r) \<Rightarrow> Some [p * 4 + q div 16, (q mod 16) * 16 + r div 4]
      | _ \<Rightarrow> None)"
| "b64_raw (a # b # c # d # rest) =
     (case (b64_digit a, b64_digit b, b64_digit c, b64_digit d) of
        (Some p, Some q, Some r, Some t) \<Rightarrow>
          map_option (\<lambda>bs. [p * 4 + q div 16, (q mod 16) * 16 + r div 4, (r mod 4) * 64 + t] @ bs) (b64_raw rest)
      | _ \<Rightarrow> None)"

text \<open>\<open>base64.RawStdEncoding\<close> on byte strings; decoding skips line breaks.\<close>

definition raw_encode :: "string \<Rightarrow> string" where
  "raw_encode s = b64_raw_encode (map code s)"

definition raw_decode :: "string \<Rightarrow> string option" where
  "raw_decode s = map_option (map char_of) (b64_raw (filter (\<lambda>c. c \<noteq> CHR 0x0A \<and> c \<noteq> CHR 0x0D) s))"

lemma b64_digit_letter: "n < 64 \<Longrightarrow> b64_digit (b64_letter n) = Some n"
  by (auto simp: b64_digit_def b64_letter_def Let_def) (simp_all add: code_def)

definition plain :: "char \<Rightarrow> bool" where
  "plain c \<longleftrightarrow> c \<notin> {CHR 0x0A, CHR 0x0D, CHR ''$''}"

lemma b64_letter_plain: "n < 64 \<Longrightarrow> plain (b64_letter n)"
  unfolding plain_def
  by (auto simp: b64_letter_def code_def [symmetric] dest!: arg_cong [of _ _ code]) (simp_all add: code_def)

text \<open>The six-bit groups of one, two and three bytes.\<close>

lemma glue: "(k :: nat) < n \<Longrightarrow> (m * n + k) div n = m" "k < n \<Longrightarrow> (m * n + k) mod n = k"
  by simp_all

lemma groups:
  fixes x y z :: nat
  assumes "x < 256" "y < 256" "z < 256"
  shows "x div 4 < 64" "x mod 4 * 16 < 64" "x mod 4 * 16 + y div 16 < 64" "y mod 16 * 4 < 64"
    "y mod 16 * 4 + z div 64 < 64" "z mod 64 < 64"
    "x div 4 * 4 + x mod 4 * 16 div 16 = x"
    "x div 4 * 4 + (x mod 4 * 16 + y div 16) div 16 = x"
    "(x mod 4 * 16 + y div 16) mod 16 * 16 + y mod 16 * 4 div 4 = y"
    "(x mod 4 * 16 + y div 16) mod 16 * 16 + (y mod 16 * 4 + z div 64) div 4 = y"
    "(y mod 16 * 4 + z div 64) mod 4 * 64 + z mod 64 = z"
proof -
  have y: "y div 16 < 16" and z: "z div 64 < 4" using assms by (simp_all add: less_mult_imp_div_less)
  have x4: "x mod 4 \<le> 3" and y16: "y mod 16 \<le> 15" using mod_less_divisor [of 4 x] mod_less_divisor [of 16 y] by linarith+
  show "x div 4 < 64" "z mod 64 < 64" using assms by (simp_all add: less_mult_imp_div_less)
  show "x mod 4 * 16 < 64" "x mod 4 * 16 + y div 16 < 64" "y mod 16 * 4 < 64" "y mod 16 * 4 + z div 64 < 64"
    using x4 y16 y z by linarith+
  show "x div 4 * 4 + x mod 4 * 16 div 16 = x" by (simp add: div_mult_mod_eq)
  show "x div 4 * 4 + (x mod 4 * 16 + y div 16) div 16 = x"
    by (simp only: glue [OF y] div_mult_mod_eq)
  show "(x mod 4 * 16 + y div 16) mod 16 * 16 + y mod 16 * 4 div 4 = y"
    unfolding glue [OF y] by (simp add: div_mult_mod_eq)
  show "(x mod 4 * 16 + y div 16) mod 16 * 16 + (y mod 16 * 4 + z div 64) div 4 = y"
    by (simp only: glue [OF y] glue [OF z] div_mult_mod_eq)
  show "(y mod 16 * 4 + z div 64) mod 4 * 64 + z mod 64 = z"
    by (simp only: glue [OF z] div_mult_mod_eq)
qed

lemma b64_raw_round_trip: "list_all (\<lambda>x. x < 256) bs \<Longrightarrow> b64_raw (b64_raw_encode bs) = Some bs"
proof (induction bs rule: b64_raw_encode.induct)
  case (2 x)
  then have x: "x < 256" by simp
  show ?case
    by (simp only: b64_raw_encode.simps b64_raw.simps b64_digit_letter groups [OF x x x] option.case prod.case)
next
  case (3 x y)
  then have xy: "x < 256" "y < 256" by simp_all
  show ?case
    by (simp only: b64_raw_encode.simps b64_raw.simps b64_digit_letter groups [OF xy xy(2)] option.case prod.case)
next
  case (4 x y z rest)
  then have xyz: "x < 256" "y < 256" "z < 256" and IH: "b64_raw (b64_raw_encode rest) = Some rest" by simp_all
  have step: "b64_raw ([a, b, c, d] @ t) = (case (b64_digit a, b64_digit b, b64_digit c, b64_digit d) of
        (Some p, Some q, Some r, Some u) \<Rightarrow>
          map_option (\<lambda>bs. [p * 4 + q div 16, (q mod 16) * 16 + r div 4, (r mod 4) * 64 + u] @ bs) (b64_raw t)
      | _ \<Rightarrow> None)" for a b c d t by simp
  show ?case
    unfolding b64_raw_encode.simps step
    by (simp only: b64_digit_letter groups [OF xyz] option.case prod.case IH option.map append.simps)
qed simp

lemma b64_raw_encode_plain: "list_all (\<lambda>x. x < 256) bs \<Longrightarrow> list_all plain (b64_raw_encode bs)"
proof (induction bs rule: b64_raw_encode.induct)
  case (2 x)
  then have x: "x < 256" by simp
  show ?case by (simp add: b64_letter_plain groups(1-6) [OF x x x])
next
  case (3 x y)
  then have xy: "x < 256" "y < 256" by simp_all
  show ?case by (simp add: b64_letter_plain groups(1-6) [OF xy xy(2)])
next
  case (4 x y z rest)
  then have xyz: "x < 256" "y < 256" "z < 256" by simp_all
  with 4 show ?case by (simp add: b64_letter_plain groups(1-6) [OF xyz])
qed simp

lemma code_less: "code c < 256"
  by (simp add: code_def)

lemma raw_decode_encode: "raw_decode (raw_encode s) = Some s"
proof -
  have bytes: "list_all (\<lambda>x. x < 256) (map code s)" by (simp add: list_all_iff code_less)
  have "filter (\<lambda>c. c \<noteq> CHR 0x0A \<and> c \<noteq> CHR 0x0D) (raw_encode s) = raw_encode s"
    using b64_raw_encode_plain [OF bytes] by (auto simp: raw_encode_def filter_id_conv list_all_iff plain_def)
  then show ?thesis
    using b64_raw_round_trip [OF bytes] by (simp add: raw_decode_def raw_encode_def comp_def code_def)
qed

lemma raw_encode_no_dollar: "CHR ''$'' \<notin> set (raw_encode s)"
proof -
  have "list_all (\<lambda>x. x < 256) (map code s)" by (simp add: list_all_iff code_less)
  from b64_raw_encode_plain [OF this] show ?thesis by (auto simp: raw_encode_def list_all_iff plain_def)
qed

section \<open>Passwords\<close>

abbreviation (input) argon_memory :: nat where "argon_memory \<equiv> 19456"
abbreviation (input) argon_iterations :: nat where "argon_iterations \<equiv> 2"
abbreviation (input) argon_parallelism :: nat where "argon_parallelism \<equiv> 1"
abbreviation (input) argon_key_length :: nat where "argon_key_length \<equiv> 32"

type_synonym argon = "string \<Rightarrow> string \<Rightarrow> nat \<Rightarrow> nat \<Rightarrow> nat \<Rightarrow> nat \<Rightarrow> string"

definition validate_password :: "string \<Rightarrow> string option" where
  "validate_password password =
     (let n = rune_count password in
      if n < 12 then Some ''password must contain at least 12 characters''
      else if n > 128 \<or> length password > 1024 then Some ''password exceeds 128 characters''
      else if \<not> valid_utf8 password then Some ''password must be valid UTF-8''
      else None)"

definition show_phc :: "string \<Rightarrow> string \<Rightarrow> string" where
  "show_phc salt hash =
     join ''$'' [[], ''argon2id'', ''v=19'',
       join '','' [''m='' @ show_nat argon_memory, ''t='' @ show_nat argon_iterations, ''p='' @ show_nat argon_parallelism],
       raw_encode salt, raw_encode hash]"

text \<open>\<open>salt\<close> is what the random reader gives, or its error.\<close>

definition hash_password :: "argon \<Rightarrow> string option \<Rightarrow> string \<Rightarrow> string + string" where
  "hash_password argon salt password =
     (case validate_password password of
        Some e \<Rightarrow> Inl e
      | None \<Rightarrow>
          (case salt of
             None \<Rightarrow> Inl ''generate password salt''
           | Some s \<Rightarrow> Inr (show_phc s (argon password s argon_iterations argon_memory argon_parallelism argon_key_length))))"

record phc_params =
  ph_memory :: nat
  ph_iterations :: nat
  ph_parallelism :: nat

definition cut_at :: "char \<Rightarrow> string \<Rightarrow> (string \<times> string) option" where
  "cut_at c s = (if c \<in> set s then Some (takeWhile (\<lambda>x. x \<noteq> c) s, tl (dropWhile (\<lambda>x. x \<noteq> c) s)) else None)"

fun parse_params :: "phc_params \<Rightarrow> string list \<Rightarrow> phc_params option" where
  "parse_params ps [] = Some ps"
| "parse_params ps (parameter # rest) =
     (case cut_at CHR ''='' parameter of
        None \<Rightarrow> None
      | Some (key, value) \<Rightarrow>
          (case parse_uint 32 value of
             None \<Rightarrow> None
           | Some n \<Rightarrow>
               if key = ''m'' then parse_params (ps\<lparr>ph_memory := n\<rparr>) rest
               else if key = ''t'' then parse_params (ps\<lparr>ph_iterations := n\<rparr>) rest
               else if key = ''p'' then parse_params (ps\<lparr>ph_parallelism := n\<rparr>) rest
               else None))"

definition acceptable_params :: "phc_params \<Rightarrow> bool" where
  "acceptable_params ps \<longleftrightarrow> \<not> (ph_memory ps < argon_memory \<or> ph_memory ps > 256 * 1024 \<or>
     ph_iterations ps < argon_iterations \<or> ph_iterations ps > 10 \<or>
     ph_parallelism ps = 0 \<or> ph_parallelism ps > 8)"

definition decode_sized :: "string \<Rightarrow> string option" where
  "decode_sized s =
     (case raw_decode s of
        None \<Rightarrow> None
      | Some bs \<Rightarrow> if length bs < 16 \<or> length bs > 64 then None else Some bs)"

text \<open>What is handed to Argon2: the parameters, the salt and the expected hash; \<open>None\<close> is a refusal before.\<close>

definition parse_phc :: "string \<Rightarrow> (phc_params \<times> string \<times> string) option" where
  "parse_phc encoded =
     (let parts = split_on CHR ''$'' encoded in
      if length parts \<noteq> 6 \<or> parts ! 1 \<noteq> ''argon2id'' \<or> parts ! 2 \<noteq> ''v=19'' then None
      else (case parse_params \<lparr>ph_memory = 0, ph_iterations = 0, ph_parallelism = 0\<rparr> (split_on CHR '','' (parts ! 3)) of
          None \<Rightarrow> None
        | Some ps \<Rightarrow>
            if \<not> acceptable_params ps then None
            else (case (decode_sized (parts ! 4), decode_sized (parts ! 5)) of
                (Some salt, Some expected) \<Rightarrow> Some (ps, salt, expected)
              | _ \<Rightarrow> None)))"

definition verify_password :: "argon \<Rightarrow> string \<Rightarrow> string \<Rightarrow> bool" where
  "verify_password argon encoded password =
     (case parse_phc encoded of
        None \<Rightarrow> False
      | Some (ps, salt, expected) \<Rightarrow>
          argon password salt (ph_iterations ps) (ph_memory ps) (ph_parallelism ps) (length expected) = expected)"

text \<open>The hash of a password is parsed back to its salt and its key.\<close>

lemma show_nat_fresh: "\<not> is_digit c \<Longrightarrow> c \<notin> set (show_nat n)"
  using show_nat_digits [of n] by (auto simp: list_all_iff)

lemma not_digits: "\<not> is_digit CHR ''$''" "\<not> is_digit CHR '',''" "\<not> is_digit CHR ''=''"
  by (simp_all add: is_digit_def code_def)

lemma cut_at_key: "c \<notin> set k \<Longrightarrow> cut_at c (k @ c # v) = Some (k, v)"
  by (auto simp: cut_at_def takeWhile_append dropWhile_append)

lemma parse_params_key:
  assumes "CHR ''='' \<notin> set k" "n < 2 ^ 32"
  shows "parse_params ps ((k @ CHR ''='' # show_nat n) # rest) =
    (if k = ''m'' then parse_params (ps\<lparr>ph_memory := n\<rparr>) rest
     else if k = ''t'' then parse_params (ps\<lparr>ph_iterations := n\<rparr>) rest
     else if k = ''p'' then parse_params (ps\<lparr>ph_parallelism := n\<rparr>) rest
     else None)"
  by (simp only: parse_params.simps cut_at_key [OF assms(1)] parse_uint_show_nat [OF assms(2)] option.case prod.case)

lemma parse_params_show:
  assumes "m < 2 ^ 32" "t < 2 ^ 32" "p < 2 ^ 32"
  shows "parse_params ps (split_on CHR '','' (join '','' [''m='' @ show_nat m, ''t='' @ show_nat t, ''p='' @ show_nat p])) =
    Some (ps\<lparr>ph_memory := m, ph_iterations := t, ph_parallelism := p\<rparr>)"
proof -
  have "split_on CHR '','' (join '','' [''m='' @ show_nat m, ''t='' @ show_nat t, ''p='' @ show_nat p]) =
      [''m'' @ CHR ''='' # show_nat m, ''t'' @ CHR ''='' # show_nat t, ''p'' @ CHR ''='' # show_nat p]"
    by (subst split_on_join) (auto simp: show_nat_fresh not_digits)
  then show ?thesis
    using assms by (simp only: parse_params_key) (simp add: parse_params_key [where k = "''m''", simplified]
        parse_params_key [where k = "''t''", simplified] parse_params_key [where k = "''p''", simplified])
qed

lemma parse_phc_show:
  assumes "16 \<le> length salt" "length salt \<le> 64" "16 \<le> length hash" "length hash \<le> 64"
  shows "parse_phc (show_phc salt hash) =
    Some (\<lparr>ph_memory = argon_memory, ph_iterations = argon_iterations, ph_parallelism = argon_parallelism\<rparr>, salt, hash)"
proof -
  define ps where "ps = join '','' [''m='' @ show_nat argon_memory, ''t='' @ show_nat argon_iterations, ''p='' @ show_nat argon_parallelism]"
  have fresh: "CHR ''$'' \<notin> set ps"
    unfolding ps_def by (simp add: show_nat_fresh not_digits)
  have split: "split_on CHR ''$'' (show_phc salt hash) = [[], ''argon2id'', ''v=19'', ps, raw_encode salt, raw_encode hash]"
    unfolding show_phc_def ps_def [symmetric]
    by (subst split_on_join) (auto simp: fresh raw_encode_no_dollar)
  have params: "parse_params \<lparr>ph_memory = 0, ph_iterations = 0, ph_parallelism = 0\<rparr> (split_on CHR '','' ps) =
      Some \<lparr>ph_memory = argon_memory, ph_iterations = argon_iterations, ph_parallelism = argon_parallelism\<rparr>"
    unfolding ps_def by (subst parse_params_show) simp_all
  have "decode_sized (raw_encode salt) = Some salt" "decode_sized (raw_encode hash) = Some hash"
    using assms by (simp_all add: decode_sized_def raw_decode_encode)
  then show ?thesis
    by (simp add: parse_phc_def Let_def split params acceptable_params_def)
qed

text \<open>What reaches Argon2 is bounded.\<close>

lemma parse_phc_bounded:
  assumes "parse_phc encoded = Some (ps, salt, expected)"
  shows "argon_memory \<le> ph_memory ps \<and> ph_memory ps \<le> 262144 \<and> argon_iterations \<le> ph_iterations ps \<and>
    ph_iterations ps \<le> 10 \<and> 1 \<le> ph_parallelism ps \<and> ph_parallelism ps \<le> 8 \<and>
    16 \<le> length salt \<and> length salt \<le> 64 \<and> 16 \<le> length expected \<and> length expected \<le> 64"
proof -
  have sized: "16 \<le> length b \<and> length b \<le> 64" if "decode_sized s = Some b" for s b
    using that by (auto simp: decode_sized_def split: option.splits if_splits)
  from assms have "acceptable_params ps" "decode_sized (split_on CHR ''$'' encoded ! 4) = Some salt"
    "decode_sized (split_on CHR ''$'' encoded ! 5) = Some expected"
    by (auto simp: parse_phc_def Let_def split: option.splits if_splits)
  then show ?thesis
    using sized by (auto simp: acceptable_params_def not_less)
qed

section \<open>Properties\<close>

text \<open>C32: A password that hashes is accepted against its hash: what \<open>HashPassword\<close> writes is parsed by \<open>VerifyPassword\<close>
  back to the parameters, salt and key it was computed with, for a 16-byte salt and an Argon2 key of the requested
  32 bytes; and another password is accepted only if its key is the same.\<close>

theorem hash_then_verify:
  assumes "hash_password argon (Some salt) password = Inr h" "length salt = 16"
    "length (argon password salt argon_iterations argon_memory argon_parallelism argon_key_length) = argon_key_length"
  shows "verify_password argon h password \<and> validate_password password = None \<and>
    verify_password argon h other =
      (argon other salt argon_iterations argon_memory argon_parallelism argon_key_length =
       argon password salt argon_iterations argon_memory argon_parallelism argon_key_length)"
proof -
  from assms(1) have valid: "validate_password password = None"
    and h: "h = show_phc salt (argon password salt argon_iterations argon_memory argon_parallelism argon_key_length)"
    by (auto simp: hash_password_def split: option.splits)
  show ?thesis
    unfolding h verify_password_def using assms(2,3) valid by (subst (1 2) parse_phc_show) simp_all
qed

definition demo_argon :: argon where
  "demo_argon p s t m k n = replicate n (if p = ''correct horse'' then CHR ''a'' else CHR ''b'')"

theorem hash_then_verify_witness:
  "verify_password demo_argon
     (show_phc (replicate 16 CHR ''s'') (demo_argon ''correct horse'' (replicate 16 CHR ''s'') 2 19456 1 32)) ''correct horse'' \<and>
   \<not> verify_password demo_argon
     (show_phc (replicate 16 CHR ''s'') (demo_argon ''correct horse'' (replicate 16 CHR ''s'') 2 19456 1 32)) ''correct house''"
proof -
  have valid: "validate_password ''correct horse'' = None" by code_simp
  show ?thesis
    using hash_then_verify [where argon = demo_argon and salt = "replicate 16 CHR ''s''" and password = "''correct horse''"
        and other = "''correct house''", OF _ _ _]
    by (simp add: hash_password_def valid demo_argon_def)
qed

text \<open>A stored hash never makes \<open>VerifyPassword\<close> call Argon2 with parameters out of bounds: a verification
  depends on Argon2 only at a memory of 19 to 256 MiB, 2 to 10 iterations, 1 to 8 lanes and salts and keys of 16 to 64
  bytes. Two functions that agree there give the same answer on every stored string.\<close>

theorem verification_is_bounded:
  assumes "\<And>s t m p n. argon_iterations \<le> t \<Longrightarrow> t \<le> 10 \<Longrightarrow> argon_memory \<le> m \<Longrightarrow> m \<le> 262144 \<Longrightarrow>
      1 \<le> p \<Longrightarrow> p \<le> 8 \<Longrightarrow> 16 \<le> length s \<Longrightarrow> length s \<le> 64 \<Longrightarrow> 16 \<le> n \<Longrightarrow> n \<le> 64 \<Longrightarrow>
      argon password s t m p n = argon' password s t m p n"
  shows "verify_password argon encoded password = verify_password argon' encoded password"
proof (cases "parse_phc encoded")
  case (Some r)
  obtain ps salt expected where r: "r = (ps, salt, expected)" by (cases r)
  from parse_phc_bounded [OF Some [unfolded r]] show ?thesis
    by (simp add: verify_password_def Some r assms)
qed (simp add: verify_password_def)

theorem verification_is_bounded_witness:
  "verify_password (\<lambda>p s t m k n. if m \<le> 262144 then replicate n CHR ''a'' else [])
     (show_phc (replicate 16 CHR ''s'') (replicate 32 CHR ''a'')) ''x'' =
   verify_password (\<lambda>p s t m k n. replicate n CHR ''a'') (show_phc (replicate 16 CHR ''s'') (replicate 32 CHR ''a'')) ''x''"
  by (rule verification_is_bounded) simp

end
