(* ===== verification/WebAuth.thy ===== *)
theory WebAuth
  imports WebDb Password
begin

text \<open>
  \<^verbatim>\<open>src/internal/web/auth/manager.go\<close>: bootstrap, login, sessions, reauthentication and the
  permission check of every request. SHA-256, Argon2id, \<open>strings.ToLower\<close> outside ASCII and the random
  reader are the environment; \<open>clock k\<close> is the \<open>k\<close>-th reading of the clock in a call.
\<close>

datatype auth_error =
    ErrUnauthenticated
  | ErrForbidden
  | ErrInvalidLogin
  | AuthError string
  | AuthRepo repo_error

record auth_env =
  ae_argon :: argon
  ae_sha256 :: "string \<Rightarrow> string"
  ae_lower :: "string \<Rightarrow> string"
  ae_ids :: id_source
  ae_rand :: "nat \<Rightarrow> string option"
  ae_dummy_salt :: "string option"

record principal =
  pr_user_id :: string
  pr_username :: string
  pr_display_name :: string
  pr_role :: string
  pr_session_hash :: string
  pr_csrf_hash :: string
  pr_reauth_until :: time

record web_tokens =
  tk_session :: string
  tk_csrf :: string

text \<open>What is read of an HTTP request: its cookies, its headers (empty when absent), its TLS state, its host.\<close>

record web_request =
  rq_cookies :: "(string \<times> string) list"
  rq_header :: "string \<Rightarrow> string"
  rq_tls :: bool
  rq_host :: string

definition cookie_name :: string where
  "cookie_name = ''__Host-wiregate_session''"

definition lift_repo :: "(repo_error + 'a) \<times> web_db \<Rightarrow> (auth_error + 'a) \<times> web_db" where
  "lift_repo r = (case r of (Inl e, db) \<Rightarrow> (Inl (AuthRepo e), db) | (Inr x, db) \<Rightarrow> (Inr x, db))"

section \<open>Tokens, names and roles\<close>

definition url_letter :: "char \<Rightarrow> char" where
  "url_letter c = (if c = CHR ''+'' then CHR ''-'' else if c = CHR ''/'' then CHR ''_'' else c)"

definition raw_url_encode :: "string \<Rightarrow> string" where
  "raw_url_encode s = map url_letter (raw_encode s)"

definition random_token :: "auth_env \<Rightarrow> nat \<Rightarrow> auth_error + string \<times> string" where
  "random_token env k =
     (case ae_rand env k of
        None \<Rightarrow> Inl (AuthError ''generate session token'')
      | Some raw \<Rightarrow> (let encoded = raw_url_encode raw in Inr (encoded, ae_sha256 env encoded)))"

definition alnum :: "char \<Rightarrow> bool" where
  "alnum c \<longleftrightarrow> (65 \<le> code c \<and> code c \<le> 90) \<or> (97 \<le> code c \<and> code c \<le> 122) \<or> is_digit c"

definition valid_username :: "string \<Rightarrow> bool" where
  "valid_username s \<longleftrightarrow>
     (case s of
        [] \<Rightarrow> False
      | c # t \<Rightarrow> alnum c \<and> 2 \<le> length t \<and> length t \<le> 63 \<and>
          list_all (\<lambda>x. alnum x \<or> x \<in> {CHR ''_'', CHR ''.'', CHR ''-''}) t)"

definition role_permissions :: "string \<Rightarrow> string list" where
  "role_permissions role =
     (if role = ''admin'' then
        [''interface:view'', ''interface:adopt'', ''interface:create'', ''interface:manage'', ''client:view'',
         ''client:manage'', ''client:export-secret'', ''diagnostic:view'', ''operation:view'', ''audit:view'']
      else if role = ''operator'' then
        [''interface:view'', ''client:view'', ''client:manage'', ''client:export-secret'', ''diagnostic:view'',
         ''operation:view'', ''audit:view'']
      else if role = ''viewer'' then [''interface:view'', ''client:view'', ''diagnostic:view'']
      else if role = ''auditor'' then
        [''interface:view'', ''client:view'', ''diagnostic:view'', ''operation:view'', ''audit:view'']
      else [])"

definition allowed :: "string \<Rightarrow> string \<Rightarrow> bool" where
  "allowed role permission \<longleftrightarrow> permission \<in> set (role_permissions role)"

definition same_origin :: "web_request \<Rightarrow> bool" where
  "same_origin rq =
     (let origin = rq_header rq ''Origin''; scheme = (if rq_tls rq then ''https'' else ''http'') in
      origin \<noteq> [] \<and> origin = scheme @ ''://'' @ rq_host rq)"

section \<open>Bootstrap and login\<close>

definition bootstrap ::
  "auth_env \<Rightarrow> (nat \<Rightarrow> time) \<Rightarrow> string option \<Rightarrow> string \<Rightarrow> string \<Rightarrow> string \<Rightarrow> string \<Rightarrow> string \<Rightarrow> web_db
     \<Rightarrow> (auth_error + web_user) \<times> web_db" where
  "bootstrap env clock salt token username display_name password request_id db =
     (if trim_space token = [] \<or> request_id = [] then (Inl ErrForbidden, db)
      else
        (let username = trim_space username; display_name = trim_space display_name in
         if \<not> valid_username username \<or> display_name = [] \<or> length display_name > 128
         then (Inl (AuthError ''invalid username or display name''), db)
         else
           (case hash_password (ae_argon env) salt password of
              Inl e \<Rightarrow> (Inl (AuthError e), db)
            | Inr hash \<Rightarrow>
                lift_repo (bootstrap_admin (ae_ids env) (ae_sha256 env token) username display_name hash request_id
                  (clock 0) db))))"

definition dummy_password_hash :: "auth_env \<Rightarrow> string" where
  "dummy_password_hash env =
     (case hash_password (ae_argon env) (ae_dummy_salt env) ''wiregate constant-time dummy password'' of
        Inl e \<Rightarrow> [] | Inr h \<Rightarrow> h)"

text \<open>The user of a login, unless the name is unknown or too long, and whether the login is valid.\<close>

definition login_user :: "string \<Rightarrow> web_db \<Rightarrow> web_user option" where
  "login_user username db =
     (case find_user_by_username (trim_space username) db of
        Inl e \<Rightarrow> None
      | Inr u \<Rightarrow> if length username > 128 then None else Some u)"

definition login_valid :: "auth_env \<Rightarrow> time \<Rightarrow> web_user option \<Rightarrow> string \<Rightarrow> bool" where
  "login_valid env now found password =
     (let hash = (case found of None \<Rightarrow> dummy_password_hash env | Some u \<Rightarrow> wu_password_hash u);
          password_valid = verify_password (ae_argon env) hash password in
      (case found of
         None \<Rightarrow> False
       | Some u \<Rightarrow> password_valid \<and> wu_status u = ''active'' \<and>
           (wu_locked_until u = zero_time \<or> \<not> wu_locked_until u > now)))"

definition open_session ::
  "auth_env \<Rightarrow> time \<Rightarrow> web_user \<Rightarrow> string \<Rightarrow> string \<Rightarrow> web_db \<Rightarrow> (auth_error + web_user \<times> web_tokens) \<times> web_db" where
  "open_session env now user request_id source_ip db =
     (case random_token env 0 of
        Inl e \<Rightarrow> (Inl e, db)
      | Inr (raw_session, session_hash) \<Rightarrow>
          (case random_token env 1 of
             Inl e \<Rightarrow> (Inl e, db)
           | Inr (raw_csrf, csrf_hash) \<Rightarrow>
               (case create_session (wu_id user) session_hash csrf_hash (now + 12 * hour) (now + 30 * minute) now db of
                  (Inl e, db1) \<Rightarrow> (Inl (AuthRepo e), db1)
                | (Inr _, db1) \<Rightarrow>
                    (Inr (user, \<lparr>tk_session = raw_session, tk_csrf = raw_csrf\<rparr>),
                     snd (record_login_success (ae_ids env) (ae_lower env) (wu_id user) (wu_username user)
                       request_id source_ip now db1)))))"

definition login ::
  "auth_env \<Rightarrow> (nat \<Rightarrow> time) \<Rightarrow> string \<Rightarrow> string \<Rightarrow> string \<Rightarrow> string \<Rightarrow> web_db
     \<Rightarrow> (auth_error + web_user \<times> web_tokens) \<times> web_db" where
  "login env clock username password request_id source_ip db =
     (let found = login_user username db in
      if \<not> login_valid env (clock 0) found password then
        (Inl ErrInvalidLogin,
         snd (record_login_failure (ae_ids env) (ae_lower env) (trim_space username) request_id source_ip (clock 1) db))
      else open_session env (clock 1) (the found) request_id source_ip db)"

section \<open>Requests\<close>

definition request_cookie :: "web_request \<Rightarrow> string option" where
  "request_cookie rq = map_option snd (find (\<lambda>c. fst c = cookie_name) (rq_cookies rq))"

definition authenticate :: "auth_env \<Rightarrow> (nat \<Rightarrow> time) \<Rightarrow> web_request \<Rightarrow> web_db \<Rightarrow> (auth_error + principal) \<times> web_db" where
  "authenticate env clock rq db =
     (case request_cookie rq of
        None \<Rightarrow> (Inl ErrUnauthenticated, db)
      | Some value \<Rightarrow>
          if value = [] then (Inl ErrUnauthenticated, db)
          else
            (let hash = ae_sha256 env value in
             (case get_session hash (clock 0) db of
                (Inl e, db1) \<Rightarrow> (Inl ErrUnauthenticated, db1)
              | (Inr s, db1) \<Rightarrow>
                  (Inr \<lparr>pr_user_id = wu_id (se_user s), pr_username = wu_username (se_user s),
                     pr_display_name = wu_display_name (se_user s), pr_role = wu_role (se_user s),
                     pr_session_hash = hash, pr_csrf_hash = se_csrf_hash s,
                     pr_reauth_until = se_reauth_until s\<rparr>, db1))))"

definition require_permission ::
  "auth_env \<Rightarrow> (nat \<Rightarrow> time) \<Rightarrow> web_request \<Rightarrow> string \<Rightarrow> bool \<Rightarrow> web_db \<Rightarrow> (auth_error + principal) \<times> web_db" where
  "require_permission env clock rq permission mutation db =
     (case authenticate env clock rq db of
        (Inl e, db1) \<Rightarrow> (Inl e, db1)
      | (Inr p, db1) \<Rightarrow>
          if \<not> allowed (pr_role p) permission then (Inl ErrForbidden, db1)
          else if mutation then
            (let csrf = rq_header rq ''X-CSRF-Token'' in
             if csrf = [] \<or> ae_sha256 env csrf \<noteq> pr_csrf_hash p then (Inl ErrForbidden, db1)
             else if \<not> same_origin rq then (Inl ErrForbidden, db1)
             else (Inr p, db1))
          else (Inr p, db1))"

definition reauthenticate ::
  "auth_env \<Rightarrow> (nat \<Rightarrow> time) \<Rightarrow> principal \<Rightarrow> string \<Rightarrow> web_db \<Rightarrow> (auth_error + time) \<times> web_db" where
  "reauthenticate env clock p password db =
     (case get_session (pr_session_hash p) (clock 0) db of
        (Inl e, db1) \<Rightarrow> (Inl ErrInvalidLogin, db1)
      | (Inr s, db1) \<Rightarrow>
          if \<not> verify_password (ae_argon env) (wu_password_hash (se_user s)) password then (Inl ErrInvalidLogin, db1)
          else
            (let until = clock 1 + 5 * minute in
             (case mark_reauthenticated (pr_session_hash p) until db1 of
                (Inl e, db2) \<Rightarrow> (Inl (AuthRepo e), db2)
              | (Inr _, db2) \<Rightarrow> (Inr until, db2))))"

definition require_recent_reauth :: "(nat \<Rightarrow> time) \<Rightarrow> principal \<Rightarrow> auth_error option" where
  "require_recent_reauth clock p =
     (if pr_reauth_until p = zero_time \<or> \<not> pr_reauth_until p > clock 0 then Some ErrForbidden else None)"

definition change_password ::
  "auth_env \<Rightarrow> (nat \<Rightarrow> time) \<Rightarrow> string option \<Rightarrow> principal \<Rightarrow> string \<Rightarrow> string \<Rightarrow> web_db \<Rightarrow> (auth_error + unit) \<times> web_db" where
  "change_password env clock salt p current_password new_password db =
     (case get_session (pr_session_hash p) (clock 0) db of
        (Inl e, db1) \<Rightarrow> (Inl ErrInvalidLogin, db1)
      | (Inr s, db1) \<Rightarrow>
          if \<not> verify_password (ae_argon env) (wu_password_hash (se_user s)) current_password then (Inl ErrInvalidLogin, db1)
          else
            (case hash_password (ae_argon env) salt new_password of
               Inl e \<Rightarrow> (Inl (AuthError e), db1)
             | Inr hash \<Rightarrow>
                 lift_repo (change_user_password (pr_user_id p) (pr_session_hash p) hash (clock 1) db1)))"

definition logout :: "(nat \<Rightarrow> time) \<Rightarrow> principal \<Rightarrow> web_db \<Rightarrow> (auth_error + unit) \<times> web_db" where
  "logout clock p db = lift_repo (revoke_session (pr_session_hash p) (clock 0) db)"

end
