(* ===== verification/WebAuthCorrect.thy ===== *)
theory WebAuthCorrect
  imports WebAuth
begin

text \<open>
  What the web sessions guarantee over any run of the manager: an interface for invariants of the user and
  session tables, its preservation by every method, and its instances (ended sessions, lifetimes, lockout,
  bootstrap). Calls are atomic; \<open>T\<close> holds the clock readings of a run, \<open>console\<close> says whether the recovery
  command of the host may run.
\<close>

section \<open>Runs\<close>

inductive web_step :: "time set \<Rightarrow> bool \<Rightarrow> web_db \<Rightarrow> web_db \<Rightarrow> bool" for T console where
  step_bootstrap: "range clock \<subseteq> T \<Longrightarrow>
     bootstrap env clock salt token username display_name password request_id db = (res, db') \<Longrightarrow> web_step T console db db'"
| step_login: "range clock \<subseteq> T \<Longrightarrow>
     login env clock username password request_id source_ip db = (res', db') \<Longrightarrow> web_step T console db db'"
| step_require: "range clock \<subseteq> T \<Longrightarrow>
     require_permission env clock rq permission mutation db = (res1, db') \<Longrightarrow> web_step T console db db'"
| step_reauth: "range clock \<subseteq> T \<Longrightarrow>
     reauthenticate env clock p password db = (res2, db') \<Longrightarrow> web_step T console db db'"
| step_change: "range clock \<subseteq> T \<Longrightarrow>
     change_password env clock salt p current_password new_password db = (res3, db') \<Longrightarrow> web_step T console db db'"
| step_logout: "range clock \<subseteq> T \<Longrightarrow> logout clock p db = (res3, db') \<Longrightarrow> web_step T console db db'"
| step_token: "set_bootstrap_token hash expires now db = (res4, db') \<Longrightarrow> web_step T console db db'"
| step_reset: "console \<Longrightarrow> now \<in> T \<Longrightarrow>
     reset_admin_password gen username password_hash now db = (res5, db') \<Longrightarrow> web_step T console db db'"

abbreviation web_run :: "time set \<Rightarrow> bool \<Rightarrow> web_db \<Rightarrow> web_db \<Rightarrow> bool" where
  "web_run T console \<equiv> (web_step T console)\<^sup>*\<^sup>*"

section \<open>The rows a method writes\<close>

definition cleared_row :: "time \<Rightarrow> user_row \<Rightarrow> user_row" where
  "cleared_row now u = u\<lparr>us_failed_login_count := 0, us_locked_until_ms := None, us_updated_at_ms := unix_milli now\<rparr>"

definition fresh_session :: "string \<Rightarrow> string \<Rightarrow> string \<Rightarrow> time \<Rightarrow> session_row" where
  "fresh_session uid id_hash csrf_hash now =
     \<lparr>ws_id_hash = id_hash, ws_user_id = uid, ws_csrf_hash = csrf_hash, ws_reauth_until_ms = None,
      ws_expires_at_ms = unix_milli (now + 12 * hour), ws_idle_expires_at_ms = unix_milli (now + 30 * minute),
      ws_last_seen_at_ms = unix_milli now, ws_created_at_ms = unix_milli now, ws_revoked_at_ms = None\<rparr>"

text \<open>Changes of a session or of a user that end nothing and unlock nobody.\<close>

definition kept_session :: "time set \<Rightarrow> session_row \<Rightarrow> session_row \<Rightarrow> bool" where
  "kept_session T s s' \<longleftrightarrow> ws_id_hash s' = ws_id_hash s \<and> ws_user_id s' = ws_user_id s \<and>
     ws_created_at_ms s' = ws_created_at_ms s \<and> ws_expires_at_ms s' = ws_expires_at_ms s \<and>
     (ws_revoked_at_ms s \<noteq> None \<longrightarrow> ws_revoked_at_ms s' \<noteq> None) \<and>
     (ws_idle_expires_at_ms s' = ws_idle_expires_at_ms s \<and> ws_last_seen_at_ms s' = ws_last_seen_at_ms s \<or>
      (\<exists>now \<in> T. ws_last_seen_at_ms s' = unix_milli now \<and>
        ws_idle_expires_at_ms s' = min (ws_expires_at_ms s) (unix_milli (now + 30 * minute))))"

definition kept_user :: "user_row \<Rightarrow> user_row \<Rightarrow> bool" where
  "kept_user u u' \<longleftrightarrow> us_id u' = us_id u \<and> us_username u' = us_username u \<and>
     us_locked_until_ms u' = us_locked_until_ms u"

lemmas web_db_defs = update_users_def update_sessions_def insert_session_def insert_user_def insert_login_row_def
  insert_web_audit_def insert_login_event_def revoke_where_def touch_session_def

text \<open>\<open>t\<close> is \<open>t'\<close> with some rows changed.\<close>

definition rows_kept :: "('r \<Rightarrow> 'r \<Rightarrow> bool) \<Rightarrow> 'r list \<Rightarrow> 'r list \<Rightarrow> bool" where
  "rows_kept K t t' \<longleftrightarrow> list_all2 K t t'"

lemma rows_kept_update: "(\<And>r. K r r) \<Longrightarrow> (\<And>r. P r \<Longrightarrow> K r (f r)) \<Longrightarrow> rows_kept K t (update_rows P f t)"
  unfolding rows_kept_def update_rows_def by (induction t) auto

lemma kept_refl [simp]: "kept_session T s s" "kept_user u u"
  by (simp_all add: kept_session_def kept_user_def)

section \<open>The interface of the invariants\<close>

locale web_invariant =
  fixes I :: "web_db \<Rightarrow> bool" and T :: "time set" and console :: bool
  assumes kept: "I db \<Longrightarrow> rows_kept kept_user (wd_users db) (wd_users db') \<Longrightarrow>
      rows_kept (kept_session T) (wd_sessions db) (wd_sessions db') \<Longrightarrow> I db'"
    and failure: "I db \<Longrightarrow> now \<in> T \<Longrightarrow>
      I (db\<lparr>wd_users := update_rows (\<lambda>u. us_id u = uid) (failed_row now) (wd_users db)\<rparr>)"
    and success: "I db \<Longrightarrow> now \<in> T \<Longrightarrow> t \<in> T \<Longrightarrow> u \<in> set (wd_users db) \<Longrightarrow> us_id u = uid \<Longrightarrow>
      opt_time (us_locked_until_ms u) = zero_time \<or> \<not> opt_time (us_locked_until_ms u) > t \<Longrightarrow>
      I (db\<lparr>wd_users := update_rows (\<lambda>u. us_id u = uid) (cleared_row now) (wd_users db)\<rparr>)"
    and opened: "I db \<Longrightarrow> now \<in> T \<Longrightarrow> key_fresh ws_id_hash h (wd_sessions db) \<Longrightarrow>
      I (db\<lparr>wd_sessions := wd_sessions db @ [fresh_session uid h c now]\<rparr>)"
    and first_user: "I db \<Longrightarrow> wd_users db = [] \<Longrightarrow> I (db\<lparr>wd_users := [row]\<rparr>)"
    and reset: "I db \<Longrightarrow> console \<Longrightarrow>
      I (db\<lparr>wd_users := update_rows P
        (\<lambda>u. u\<lparr>us_password_hash := pw, us_status := ''active'', us_failed_login_count := 0, us_locked_until_ms := None,
           us_password_changed_ms := t1, us_updated_at_ms := t2\<rparr>) (wd_users db)\<rparr>)"
begin

lemma same_rows: "I db \<Longrightarrow> wd_users db' = wd_users db \<Longrightarrow> wd_sessions db' = wd_sessions db \<Longrightarrow> I db'"
  by (erule kept) (auto simp: rows_kept_def intro: list_all2_refl)

lemma get_session_keeps:
  assumes "get_session h now db = (res, db')" "now \<in> T" "I db"
  shows "I db'"
proof -
  from assms(1) have "db' = db \<or> db' = touch_session h now db"
    by (auto simp: get_session_def split: list.splits option.splits if_splits)
  moreover have "I (touch_session h now db)"
    using assms(3)
  proof (rule kept)
    show "rows_kept kept_user (wd_users db) (wd_users (touch_session h now db))"
      by (auto simp: web_db_defs rows_kept_def intro: list_all2_refl)
    show "rows_kept (kept_session T) (wd_sessions db) (wd_sessions (touch_session h now db))"
      using assms(2) by (auto simp: web_db_defs kept_session_def intro!: rows_kept_update)
  qed
  ultimately show ?thesis using assms(3) by blast
qed

lemma sessions_updated:
  assumes "I db" "\<And>s. P s \<Longrightarrow> kept_session T s (f s)"
  shows "I (db\<lparr>wd_sessions := update_rows P f (wd_sessions db)\<rparr>)"
  using assms(1)
  by (rule kept) (auto simp: rows_kept_def intro: list_all2_refl intro!: rows_kept_update [unfolded rows_kept_def] assms(2))

lemma users_updated:
  assumes "I db" "\<And>u. P u \<Longrightarrow> kept_user u (f u)"
  shows "I (db\<lparr>wd_users := update_rows P f (wd_users db)\<rparr>)"
  using assms(1)
  by (rule kept) (auto simp: rows_kept_def intro: list_all2_refl intro!: rows_kept_update [unfolded rows_kept_def] assms(2))

lemma revoke_keeps: "I db \<Longrightarrow> I (revoke_where P now db)"
  unfolding revoke_where_def update_sessions_def snd_conv
  by (rule sessions_updated) (auto simp: kept_session_def)

lemma record_failure_keeps:
  assumes "record_login_failure gen lower name rq ip now db = (res, db')" "now \<in> T" "I db"
  shows "I db'"
  using assms(1) unfolding record_login_failure_def
proof (rule commit_tx_cases)
  fix x
  let ?user = "map_option us_id (find (named_user name) (wd_users db))"
  let ?db1 = "case ?user of None \<Rightarrow> db | Some uid \<Rightarrow> snd (update_users (\<lambda>u. us_id u = uid) (failed_row now) db)"
  have db1: "I ?db1"
    using failure [OF assms(3,2)] assms(3) by (auto simp: web_db_defs split: option.split)
  assume "(let user = ?user;
           db1 = (case user of None \<Rightarrow> db | Some uid \<Rightarrow> snd (update_users (\<lambda>u. us_id u = uid) (failed_row now) db)) in
       bind_r (insert_login_event gen lower user name ''failure'' ip rq now db1) (\<lambda>db2.
       Inr ((), db2))) = Inr (x, db')"
  then have "wd_users db' = wd_users ?db1" "wd_sessions db' = wd_sessions ?db1"
    by (auto simp: insert_login_event_def insert_login_row_def Let_def)
  with db1 show ?thesis by (rule same_rows)
qed (use assms(3) in simp)

lemma record_success_keeps:
  assumes "record_login_success gen lower uid name rq ip now db = (res, db')" "now \<in> T" "t \<in> T" "I db"
    "u \<in> set (wd_users db)" "us_id u = uid"
    "opt_time (us_locked_until_ms u) = zero_time \<or> \<not> opt_time (us_locked_until_ms u) > t"
  shows "I db'"
proof -
  have db1: "I (db\<lparr>wd_users := update_rows (\<lambda>u. us_id u = uid) (cleared_row now) (wd_users db)\<rparr>)"
    by (rule success) (use assms in auto)
  from assms(1) have "db' = db \<or> wd_users db' = update_rows (\<lambda>u. us_id u = uid) (cleared_row now) (wd_users db) \<and>
      wd_sessions db' = wd_sessions db"
    by (auto simp: record_login_success_def cleared_row_def [abs_def] web_db_defs elim!: commit_tx_cases)
  with same_rows [OF db1] assms(4) show ?thesis by auto
qed

lemma open_session_keeps:
  assumes "open_session env now user rq ip db = (res, db')" "now \<in> T" "t \<in> T" "I db"
    "u \<in> set (wd_users db)" "user = user_of u" "wu_locked_until user = zero_time \<or> \<not> wu_locked_until user > t"
  shows "I db'"
proof -
  from assms(1) consider "db' = db"
    | h c r db1 gen lower ip where "create_session (wu_id user) h c (now + 12 * hour) (now + 30 * minute) now db = (Inr r, db1)"
        "db' = snd (record_login_success gen lower (wu_id user) (wu_username user) rq ip now db1)"
    | h c e db1 where "create_session (wu_id user) h c (now + 12 * hour) (now + 30 * minute) now db = (Inl e, db1)" "db' = db1"
    by (auto simp: open_session_def split: sum.splits prod.splits)
  then show ?thesis
  proof cases
    case (2 h c r db1 gen lower ip)
    then have db1: "db1 = db\<lparr>wd_sessions := wd_sessions db @ [fresh_session (wu_id user) h c now]\<rparr>"
      and fresh: "key_fresh ws_id_hash h (wd_sessions db)"
      by (auto simp: create_session_def insert_session_def commit_tx_Inr fresh_session_def)
    have "I db1" unfolding db1 by (rule opened [OF assms(4,2) fresh])
    moreover obtain res where "record_login_success gen lower (wu_id user) (wu_username user) rq ip now db1 = (res, db')"
      using 2(2) by (metis prod.collapse)
    moreover have "u \<in> set (wd_users db1)" "us_id u = wu_id user"
      "opt_time (us_locked_until_ms u) = zero_time \<or> \<not> opt_time (us_locked_until_ms u) > t"
      using assms(5-7) by (auto simp: db1 user_of_def)
    ultimately show ?thesis using record_success_keeps assms(2,3) by blast
  next
    case (3 h c e db1)
    then show ?thesis using assms(4) by (auto simp: create_session_def elim: commit_tx_cases)
  qed (use assms(4) in simp)
qed

lemma login_keeps:
  assumes "login env clock name pw rq ip db = (res, db')" "range clock \<subseteq> T" "I db"
  shows "I db'"
proof -
  have T: "clock k \<in> T" for k using assms(2) by auto
  show ?thesis
  proof (cases "login_valid env (clock 0) (login_user name db) pw")
    case True
    then obtain user where user: "login_user name db = Some user"
      and lock: "wu_locked_until user = zero_time \<or> \<not> wu_locked_until user > clock 0"
      by (auto simp: login_valid_def Let_def split: option.splits)
    then obtain u where u: "u \<in> set (wd_users db)" "user = user_of u"
      by (auto simp: login_user_def find_user_by_username_def query_row_def split: option.splits sum.splits if_splits
          dest!: find_SomeD)
    from assms(1) True user have "open_session env (clock 1) user rq ip db = (res, db')" by (simp add: login_def)
    from open_session_keeps [OF this T T assms(3) u lock] show ?thesis .
  next
    case False
    then obtain r where "record_login_failure (ae_ids env) (ae_lower env) (trim_space name) rq ip (clock 1) db = (r, db')"
      using assms(1) by (auto simp: login_def Let_def) (metis prod.collapse)
    from record_failure_keeps [OF this T assms(3)] show ?thesis .
  qed
qed

lemma authenticate_keeps:
  "authenticate env clock rq db = (res, db') \<Longrightarrow> range clock \<subseteq> T \<Longrightarrow> I db \<Longrightarrow> I db'"
  by (auto simp: authenticate_def Let_def split: option.splits if_splits prod.splits sum.splits
      intro: get_session_keeps [of _ "clock 0"])

lemma require_keeps:
  "require_permission env clock rq permission mutation db = (res, db') \<Longrightarrow> range clock \<subseteq> T \<Longrightarrow> I db \<Longrightarrow> I db'"
  by (auto simp: require_permission_def Let_def split: if_splits prod.splits sum.splits intro: authenticate_keeps)

lemma mark_keeps:
  assumes "mark_reauthenticated h until db = (res, db')" "I db"
  shows "I db'"
proof -
  from assms(1) have "db' = db\<lparr>wd_sessions := update_rows (\<lambda>s. ws_id_hash s = h \<and> ws_revoked_at_ms s = None)
      (\<lambda>s. s\<lparr>ws_reauth_until_ms := Some (unix_milli until)\<rparr>) (wd_sessions db)\<rparr>"
    by (auto simp: mark_reauthenticated_def update_sessions_def split: if_splits)
  then show ?thesis using sessions_updated [OF assms(2)] by (simp add: kept_session_def)
qed

lemma reauthenticate_keeps:
  "reauthenticate env clock p pw db = (res, db') \<Longrightarrow> range clock \<subseteq> T \<Longrightarrow> I db \<Longrightarrow> I db'"
  by (auto simp: reauthenticate_def Let_def split: if_splits prod.splits sum.splits
      intro: mark_keeps get_session_keeps [of _ "clock 0"])

lemma change_user_keeps:
  assumes "change_user_password uid h pw now db = (res, db')" "I db"
  shows "I db'"
  using assms(1) unfolding change_user_password_def
proof (rule commit_tx_cases)
  fix x
  let ?db1 = "db\<lparr>wd_users := update_rows (\<lambda>u. us_id u = uid \<and> us_status u = ''active'')
             (\<lambda>u. u\<lparr>us_password_hash := pw, us_password_changed_ms := unix_milli now,
                us_updated_at_ms := unix_milli now\<rparr>) (wd_users db)\<rparr>"
  let ?db2 = "revoke_where (\<lambda>s. ws_user_id s = uid \<and> ws_id_hash s \<noteq> h) now ?db1"
  have "I ?db1" by (rule users_updated [OF assms(2)]) (simp add: kept_user_def)
  then have db2: "I ?db2" by (rule revoke_keeps)
  assume "(let (n, db1) = update_users (\<lambda>u. us_id u = uid \<and> us_status u = ''active'')
             (\<lambda>u. u\<lparr>us_password_hash := pw, us_password_changed_ms := unix_milli now,
                us_updated_at_ms := unix_milli now\<rparr>) db in
       bind_r (check (n = 1) (RepoError ''user is unavailable'')) (\<lambda>_.
       let db2 = revoke_where (\<lambda>s. ws_user_id s = uid \<and> ws_id_hash s \<noteq> h) now db1;
           (m, db3) = update_sessions (\<lambda>s. ws_id_hash s = h \<and> ws_revoked_at_ms s = None)
             (\<lambda>s. s\<lparr>ws_reauth_until_ms := Some (unix_milli (now + 5 * minute))\<rparr>) db2 in
       Inr ((), db3))) = Inr (x, db')"
  then have "db' = ?db2\<lparr>wd_sessions := update_rows (\<lambda>s. ws_id_hash s = h \<and> ws_revoked_at_ms s = None)
      (\<lambda>s. s\<lparr>ws_reauth_until_ms := Some (unix_milli (now + 5 * minute))\<rparr>) (wd_sessions ?db2)\<rparr>"
    by (simp add: update_users_def update_sessions_def Let_def split: if_splits)
  then show ?thesis using sessions_updated [OF db2] by (simp add: kept_session_def)
qed (use assms(2) in simp)

lemma change_keeps:
  "change_password env clock salt p cur new db = (res, db') \<Longrightarrow> range clock \<subseteq> T \<Longrightarrow> I db \<Longrightarrow> I db'"
  by (auto simp: change_password_def lift_repo_def Let_def split: if_splits prod.splits sum.splits
      intro: change_user_keeps get_session_keeps [of _ "clock 0"])

lemma logout_keeps: "logout clock p db = (res, db') \<Longrightarrow> I db \<Longrightarrow> I db'"
  by (auto simp: logout_def lift_repo_def revoke_session_def intro: revoke_keeps)

lemma bootstrap_admin_keeps:
  assumes "bootstrap_admin gen h name display pw rq now db = (res, db')" "I db"
  shows "I db'"
  using assms(1) unfolding bootstrap_admin_def
  by (rule commit_tx_cases)
    (auto simp: assms(2) insert_user_def insert_web_audit_def consume_bootstrap_def simp del: bind_check
      intro: same_rows [OF first_user [OF assms(2)]])

lemma bootstrap_keeps:
  "bootstrap env clock salt token name display pw rq db = (res, db') \<Longrightarrow> I db \<Longrightarrow> I db'"
  by (auto simp: bootstrap_def lift_repo_def Let_def split: if_splits prod.splits sum.splits intro: bootstrap_admin_keeps)

lemma set_token_keeps: "set_bootstrap_token h expires now db = (res, db') \<Longrightarrow> I db \<Longrightarrow> I db'"
  by (auto simp: set_bootstrap_token_def simp del: bind_check elim!: commit_tx_cases intro!: same_rows [of db])

lemma reset_keeps:
  assumes "reset_admin_password gen name pw now db = (res, db')" "console" "I db"
  shows "I db'"
  using assms(1) unfolding reset_admin_password_def
proof (rule commit_tx_cases)
  fix x
  let ?db2 = "\<lambda>a :: user_row. revoke_where (\<lambda>s. ws_user_id s = us_id a) now
       (snd (update_users (\<lambda>u. us_id u = us_id a \<and> us_role u = ''admin'')
             (\<lambda>u. u\<lparr>us_password_hash := pw, us_status := ''active'', us_failed_login_count := 0,
                us_locked_until_ms := None, us_password_changed_ms := unix_milli now,
                us_updated_at_ms := unix_milli now\<rparr>) db))"
  assume "(let name = trim_space name in
       bind_r (check (\<not> (name = [] \<or> pw = [])) (RepoError ''admin username and password hash are required'')) (\<lambda>_.
       bind_r (case find (\<lambda>u. named_user name u \<and> us_role u = ''admin'') (wd_users db) of
                 None \<Rightarrow> Inl (RepoError ''admin user not found'') | Some u \<Rightarrow> Inr u) (\<lambda>a.
       let (n, db1) = update_users (\<lambda>u. us_id u = us_id a \<and> us_role u = ''admin'')
             (\<lambda>u. u\<lparr>us_password_hash := pw, us_status := ''active'', us_failed_login_count := 0,
                us_locked_until_ms := None, us_password_changed_ms := unix_milli now,
                us_updated_at_ms := unix_milli now\<rparr>) db in
       bind_r (check (n = 1) (RepoError ''admin user is unavailable'')) (\<lambda>_.
       let db2 = revoke_where (\<lambda>s. ws_user_id s = us_id a) now db1 in
       bind_r (gen 0 now) (\<lambda>aid.
       bind_r (insert_web_audit
         \<lparr>wa_id = aid, wa_actor_user_id = None, wa_action = ''reset_admin_password_cli'', wa_target_type = ''user'',
          wa_target_id = Some (us_id a), wa_request_id = ''cli-'' @ aid, wa_result = ''success'',
          wa_details_redacted = Some ''physical host recovery'', wa_created_at_ms = unix_milli now\<rparr> db2) (\<lambda>db3.
       Inr (us_username a, db3))))))) = Inr (x, db')"
  then obtain a :: user_row where "wd_users db' = wd_users (?db2 a)" "wd_sessions db' = wd_sessions (?db2 a)"
    by (auto simp: insert_web_audit_def Let_def update_users_def split: prod.splits option.splits if_splits)
  moreover have "I (?db2 a)" using reset [OF assms(3,2)] by (simp add: update_users_def revoke_keeps)
  ultimately show ?thesis by (rule same_rows [rotated])
qed (use assms(3) in simp)

lemma step_keeps: "web_step T console db db' \<Longrightarrow> I db \<Longrightarrow> I db'"
  by (induction rule: web_step.induct)
    (auto intro: bootstrap_keeps login_keeps require_keeps reauthenticate_keeps change_keeps logout_keeps
      set_token_keeps reset_keeps)

lemma run_keeps: "web_run T console db db' \<Longrightarrow> I db \<Longrightarrow> I db'"
  by (induction rule: rtranclp_induct) (auto intro: step_keeps)

end

section \<open>The invariants\<close>

lemma rows_kept_mem: "rows_kept K t t' \<Longrightarrow> r \<in> set t \<Longrightarrow> \<exists>r' \<in> set t'. K r r'"
  unfolding rows_kept_def by (induction rule: list_all2_induct) auto

lemma rows_kept_mem': "rows_kept K t t' \<Longrightarrow> r' \<in> set t' \<Longrightarrow> \<exists>r \<in> set t. K r r'"
  unfolding rows_kept_def by (induction rule: list_all2_induct) auto

lemma rows_kept_map: "rows_kept K t t' \<Longrightarrow> (\<And>r r'. K r r' \<Longrightarrow> g r' = g r) \<Longrightarrow> map g t' = map g t"
  unfolding rows_kept_def by (induction rule: list_all2_induct) auto

lemma rows_kept_keyed: "rows_kept K t t' \<Longrightarrow> (\<And>r r'. K r r' \<Longrightarrow> g r' = g r) \<Longrightarrow> keyed g t \<Longrightarrow> keyed g t'"
  unfolding keyed_def by (simp add: rows_kept_map)

text \<open>A session that was revoked, or whose hard limit is not after \<open>m\<close>.\<close>

definition ended :: "string \<Rightarrow> int \<Rightarrow> web_db \<Rightarrow> bool" where
  "ended h m db \<longleftrightarrow> keyed ws_id_hash (wd_sessions db) \<and>
     (\<exists>s \<in> set (wd_sessions db). ws_id_hash s = h \<and> (ws_revoked_at_ms s \<noteq> None \<or> ws_expires_at_ms s \<le> m))"

interpretation ended: web_invariant "ended h m" T console for h m T console
proof (unfold_locales, goal_cases)
  case (1 db db')
  then obtain s where s: "s \<in> set (wd_sessions db)" "ws_id_hash s = h" "ws_revoked_at_ms s \<noteq> None \<or> ws_expires_at_ms s \<le> m"
    by (auto simp: ended_def)
  from rows_kept_mem [OF 1(3) s(1)] obtain s' where "s' \<in> set (wd_sessions db')" "kept_session T s s'" by blast
  then have "s' \<in> set (wd_sessions db') \<and> ws_id_hash s' = h \<and> (ws_revoked_at_ms s' \<noteq> None \<or> ws_expires_at_ms s' \<le> m)"
    using s by (auto simp: kept_session_def)
  moreover have "keyed ws_id_hash (wd_sessions db')"
    by (rule rows_kept_keyed [OF 1(3)]) (use 1(1) in \<open>auto simp: kept_session_def ended_def\<close>)
  ultimately show ?case unfolding ended_def by blast
qed (auto simp: ended_def fresh_session_def)

text \<open>Keys are unique, sessions end twelve hours after they began and half an hour after they were seen.\<close>

definition web_wf :: "web_db \<Rightarrow> bool" where
  "web_wf db \<longleftrightarrow> keyed us_id (wd_users db) \<and> keyed (\<lambda>u. nocase (us_username u)) (wd_users db) \<and>
     keyed ws_id_hash (wd_sessions db) \<and>
     (\<forall>s \<in> set (wd_sessions db). ws_idle_expires_at_ms s \<le> ws_expires_at_ms s \<and>
        ws_expires_at_ms s = ws_created_at_ms s + 43200000 \<and>
        ws_idle_expires_at_ms s \<le> ws_last_seen_at_ms s + 1800000)"

lemma milli_plus: "unix_milli (t + 1000000 * k) = unix_milli t + k"
  by (simp add: unix_milli_def)

lemma milli_limits: "unix_milli (t + 43200000000000) = unix_milli t + 43200000"
    "unix_milli (t + 1800000000000) = unix_milli t + 1800000" "unix_milli (t + 900000000000) = unix_milli t + 900000"
  using milli_plus [of t 43200000] milli_plus [of t 1800000] milli_plus [of t 900000] by simp_all

lemma keyed_users_update:
  "(\<And>u. us_id (f u) = us_id u \<and> us_username (f u) = us_username u) \<Longrightarrow> keyed us_id t \<Longrightarrow>
   keyed (\<lambda>u. nocase (us_username u)) t \<Longrightarrow>
   keyed us_id (update_rows P f t) \<and> keyed (\<lambda>u. nocase (us_username u)) (update_rows P f t)"
  by (auto intro!: keyed_update)

interpretation wf: web_invariant web_wf T console for T console
proof (unfold_locales, goal_cases)
  case (1 db db')
  have "keyed us_id (wd_users db')" "keyed (\<lambda>u. nocase (us_username u)) (wd_users db')"
    by (rule rows_kept_keyed [OF 1(2)]; use 1(1) in \<open>auto simp: kept_user_def web_wf_def\<close>)+
  moreover have "keyed ws_id_hash (wd_sessions db')"
    by (rule rows_kept_keyed [OF 1(3)]) (use 1(1) in \<open>auto simp: kept_session_def web_wf_def\<close>)
  moreover have "ws_idle_expires_at_ms s' \<le> ws_expires_at_ms s' \<and> ws_expires_at_ms s' = ws_created_at_ms s' + 43200000 \<and>
      ws_idle_expires_at_ms s' \<le> ws_last_seen_at_ms s' + 1800000" if "s' \<in> set (wd_sessions db')" for s'
  proof -
    from rows_kept_mem' [OF 1(3) that] obtain s where "s \<in> set (wd_sessions db)" "kept_session T s s'" by blast
    with 1(1) show ?thesis by (auto simp: kept_session_def web_wf_def milli_limits)
  qed
  ultimately show ?case unfolding web_wf_def by blast
next
  case (2 db now uid)
  then show ?case using keyed_users_update [of "failed_row now"] by (auto simp: web_wf_def failed_row_def)
next
  case (3 db now t u uid)
  then show ?case using keyed_users_update [of "cleared_row now"] by (auto simp: web_wf_def cleared_row_def)
next
  case (4 db now h uid c)
  have "keyed ws_id_hash (wd_sessions db @ [fresh_session uid h c now])"
    by (rule keyed_insert) (use 4 in \<open>simp_all add: web_wf_def fresh_session_def\<close>)
  with 4 show ?case by (auto simp: web_wf_def fresh_session_def milli_limits)
next
  case (5 db row)
  then show ?case by (auto simp: web_wf_def keyed_def)
next
  case (6 db P pw t1 t2)
  then show ?case by (auto simp: web_wf_def intro!: keyed_update)
qed

text \<open>A user whose lock does not end before \<open>m\<close>, and the readings at which a failed login locks until then.\<close>

definition locked_through :: "int \<Rightarrow> string \<Rightarrow> string \<Rightarrow> web_db \<Rightarrow> bool" where
  "locked_through m name uid db \<longleftrightarrow> 0 \<le> m \<and> web_wf db \<and>
     (\<exists>u \<in> set (wd_users db). us_id u = uid \<and> named_user name u \<and> (\<exists>l. us_locked_until_ms u = Some l \<and> m \<le> l))"

definition lock_window :: "int \<Rightarrow> time set" where
  "lock_window m = {t. unix_milli t < m \<and> m \<le> unix_milli (t + 15 * minute)}"

lemma locked_now:
  assumes "0 \<le> m" "m \<le> l" "t \<in> lock_window m"
  shows "opt_time (Some l) \<noteq> zero_time" "opt_time (Some l) > t"
  using assms by (auto simp: opt_time_def of_milli_def zero_time_def lock_window_def unix_milli_def)

interpretation locked: web_invariant "locked_through m name uid" "lock_window m" False for m name uid
proof (unfold_locales, goal_cases)
  case (1 db db')
  then obtain u where u: "u \<in> set (wd_users db)" "us_id u = uid" "named_user name u"
    "\<exists>l. us_locked_until_ms u = Some l \<and> m \<le> l" by (auto simp: locked_through_def)
  from rows_kept_mem [OF 1(2) u(1)] obtain u' where "u' \<in> set (wd_users db')" "kept_user u u'" by blast
  moreover have "web_wf db'" using wf.kept [OF _ 1(2,3)] 1(1) by (simp add: locked_through_def)
  ultimately show ?case using 1(1) u unfolding locked_through_def
    by (auto simp: kept_user_def named_user_def intro!: bexI [of _ u'])
next
  case (2 db now uid')
  then obtain u l where u: "u \<in> set (wd_users db)" "us_id u = uid" "named_user name u"
    "us_locked_until_ms u = Some l" "m \<le> l" by (auto simp: locked_through_def)
  have "web_wf (db\<lparr>wd_users := update_rows (\<lambda>u. us_id u = uid') (failed_row now) (wd_users db)\<rparr>)"
    using 2 by (intro wf.failure) (auto simp: locked_through_def)
  moreover from in_update_rows [OF u(1), of "\<lambda>u. us_id u = uid'" "failed_row now"]
  have "\<exists>u \<in> set (update_rows (\<lambda>u. us_id u = uid') (failed_row now) (wd_users db)). us_id u = uid \<and> named_user name u \<and>
      (\<exists>l. us_locked_until_ms u = Some l \<and> m \<le> l)"
    by (rule rev_bexI) (use u 2(2) in \<open>auto simp: failed_row_def named_user_def lock_window_def\<close>)
  ultimately show ?case using 2(1) by (simp add: locked_through_def)
next
  case (3 db now t v uid')
  then obtain u l where u: "u \<in> set (wd_users db)" "us_id u = uid" "named_user name u"
    "us_locked_until_ms u = Some l" "m \<le> l" by (auto simp: locked_through_def)
  have other: "uid' \<noteq> uid"
  proof
    assume "uid' = uid"
    with 3 u have "v = u" by (auto simp: locked_through_def web_wf_def intro: keyed_eq)
    with locked_now [OF _ u(5) 3(3)] 3(1,6) u(4) show False by (auto simp: locked_through_def)
  qed
  have "web_wf (db\<lparr>wd_users := update_rows (\<lambda>u. us_id u = uid') (cleared_row now) (wd_users db)\<rparr>)"
    using 3 by (intro wf.success [where u = v]) (auto simp: locked_through_def)
  moreover from in_update_rows [OF u(1), of "\<lambda>u. us_id u = uid'" "cleared_row now"]
  have "\<exists>u \<in> set (update_rows (\<lambda>u. us_id u = uid') (cleared_row now) (wd_users db)). us_id u = uid \<and> named_user name u \<and>
      (\<exists>l. us_locked_until_ms u = Some l \<and> m \<le> l)"
    by (rule rev_bexI) (use u other in auto)
  ultimately show ?case using 3(1) by (simp add: locked_through_def)
next
  case (4 db now h uid' c)
  then show ?case using wf.opened [of db now "lock_window m" h uid' c] by (simp add: locked_through_def)
qed (auto simp: locked_through_def)

interpretation bootstrapped: web_invariant "\<lambda>db. wd_users db \<noteq> []" T console for T console
  by unfold_locales (auto simp: rows_kept_def update_rows_def)

end
