(* ===== verification/WebSessions.thy ===== *)
theory WebSessions
  imports WebAuthCorrect
begin

text \<open>
  The properties of the web sessions, each over any run of the manager: what a mutation needs, that an ended
  session stays ended, the limits of a session, the lockout after five failures and the single bootstrap.
\<close>

section \<open>Reading a session\<close>

lemma get_session_Inr:
  assumes "get_session h now db = (Inr r, db')"
  obtains s u where "s \<in> set (wd_sessions db)" "live_session h now s" "u \<in> set (wd_users db)"
    "us_id u = ws_user_id s" "us_status u = ''active''" "\<forall>l. us_locked_until_ms u = Some l \<longrightarrow> l \<le> unix_milli now"
    "se_user r = (user_of u)\<lparr>wu_locked_until := zero_time\<rparr>" "se_csrf_hash r = ws_csrf_hash s"
proof -
  from assms obtain s u rest where j: "joined_sessions h now db = (s, u) # rest"
    and u: "\<not> (case us_locked_until_ms u of None \<Rightarrow> False | Some ms \<Rightarrow> ms > unix_milli now)"
    and r: "r = \<lparr>se_user = (user_of u)\<lparr>wu_locked_until := zero_time\<rparr>, se_csrf_hash = ws_csrf_hash s,
      se_reauth_until = opt_time (ws_reauth_until_ms s)\<rparr>"
    by (auto simp: get_session_def split: list.splits if_splits)
  from j have "(s, u) \<in> set (joined_sessions h now db)" by simp
  then show thesis
    by (intro that [of s u]) (use u r in \<open>auto simp: joined_sessions_def split: option.splits\<close>)
qed

lemma get_session_ended:
  assumes "ended h m db" "m \<le> unix_milli now"
  shows "get_session h now db = (Inl SqlNoRows, db)"
proof -
  have "filter (live_session h now) (wd_sessions db) = []"
  proof (rule filter_False, rule ballI, rule notI)
    fix s assume s: "s \<in> set (wd_sessions db)" "live_session h now s"
    from assms(1) obtain s' where "s' \<in> set (wd_sessions db)" "ws_id_hash s' = h"
      "ws_revoked_at_ms s' \<noteq> None \<or> ws_expires_at_ms s' \<le> m" and "keyed ws_id_hash (wd_sessions db)"
      by (auto simp: ended_def)
    moreover from this s have "s' = s" by (auto simp: live_session_def intro: keyed_eq [where key = ws_id_hash])
    ultimately show False using s(2) assms(2) by (auto simp: live_session_def)
  qed
  then show ?thesis by (simp add: get_session_def joined_sessions_def)
qed

lemma authenticate_Inr:
  assumes "authenticate env clock rq db = (Inr p, db')"
  obtains cookie r where "request_cookie rq = Some cookie" "cookie \<noteq> []" "pr_session_hash p = ae_sha256 env cookie"
    "get_session (pr_session_hash p) (clock 0) db = (Inr r, db')" "pr_csrf_hash p = se_csrf_hash r"
    "pr_user_id p = wu_id (se_user r)" "pr_role p = wu_role (se_user r)"
  using assms by (auto simp: authenticate_def Let_def split: option.splits if_splits prod.splits sum.splits)

lemma authenticate_ended:
  assumes "ended h m db" "m \<le> unix_milli (clock 0)" "request_cookie rq = Some cookie" "ae_sha256 env cookie = h"
  shows "authenticate env clock rq db = (Inl ErrUnauthenticated, db)"
  using get_session_ended [OF assms(1,2)] assms(3,4) by (simp add: authenticate_def)

lemma require_needs_session:
  "authenticate env clock rq db = (Inl e, db') \<Longrightarrow> require_permission env clock rq permission mutation db = (Inl e, db')"
  by (simp add: require_permission_def)

text \<open>\<open>request_cookie\<close> and the roles, for the examples.\<close>

definition demo_request :: "string \<Rightarrow> string \<Rightarrow> web_request" where
  "demo_request cookie csrf = \<lparr>rq_cookies = [(''theme'', ''dark''), (cookie_name, cookie)],
     rq_header = (\<lambda>h. if h = ''Origin'' then ''https://vpn.example'' else if h = ''X-CSRF-Token'' then csrf else []),
     rq_tls = True, rq_host = ''vpn.example''\<rparr>"

definition demo_env :: auth_env where
  "demo_env = \<lparr>ae_argon = demo_argon, ae_sha256 = (\<lambda>s. CHR ''#'' # s), ae_lower = (\<lambda>s. s),
     ae_ids = (\<lambda>k now. Inr (''id'' @ replicate k CHR ''x'')), ae_rand = (\<lambda>k. Some (replicate 32 (char_of (65 + k)))),
     ae_dummy_salt = Some (replicate 16 CHR ''s'')\<rparr>"

definition demo_user :: user_row where
  "demo_user = \<lparr>us_id = ''u1'', us_username = ''Alice'', us_display_name = ''Alice'', us_password_hash = ''h'',
     us_role = ''operator'', us_status = ''active'', us_failed_login_count = 4, us_locked_until_ms = None,
     us_password_changed_ms = 0, us_created_at_ms = 0, us_updated_at_ms = 0\<rparr>"

definition demo_session :: "string \<Rightarrow> session_row" where
  "demo_session h = \<lparr>ws_id_hash = h, ws_user_id = ''u1'', ws_csrf_hash = ''#csrf'', ws_reauth_until_ms = None,
     ws_expires_at_ms = 43200000, ws_idle_expires_at_ms = 1800000, ws_last_seen_at_ms = 0, ws_created_at_ms = 0,
     ws_revoked_at_ms = None\<rparr>"

definition demo_web :: web_db where
  "demo_web = \<lparr>wd_users = [demo_user], wd_sessions = [demo_session ''#one'', demo_session ''#two''],
     wd_login_events = [], wd_audit = [], wd_bootstrap = None\<rparr>"

lemma demo_web_wf: "web_wf demo_web"
  by (simp add: web_wf_def demo_web_def demo_user_def demo_session_def keyed_def)

section \<open>Properties\<close>

text \<open>C2: A request is let through for a mutation only with a cookie whose hash is that of a session that is
  there, not revoked and within both its limits, of an active user who is not locked and whose role has the
  permission; and only with a CSRF token whose hash is the session's and with the origin of the host itself.
  The check writes nothing but the times of that session.\<close>

theorem mutations_are_authorized:
  assumes "require_permission env clock rq permission True db = (Inr p, db')"
  shows "\<exists>value s u. request_cookie rq = Some value \<and> value \<noteq> [] \<and>
    s \<in> set (wd_sessions db) \<and> ws_id_hash s = ae_sha256 env value \<and> ws_revoked_at_ms s = None \<and>
    unix_milli (clock 0) < ws_expires_at_ms s \<and> unix_milli (clock 0) < ws_idle_expires_at_ms s \<and>
    u \<in> set (wd_users db) \<and> us_id u = ws_user_id s \<and> us_status u = ''active'' \<and>
    (case us_locked_until_ms u of None \<Rightarrow> True | Some l \<Rightarrow> l \<le> unix_milli (clock 0)) \<and>
    permission \<in> set (role_permissions (us_role u)) \<and>
    rq_header rq ''X-CSRF-Token'' \<noteq> [] \<and> ae_sha256 env (rq_header rq ''X-CSRF-Token'') = ws_csrf_hash s \<and>
    rq_header rq ''Origin'' = (if rq_tls rq then ''https'' else ''http'') @ ''://'' @ rq_host rq \<and>
    pr_user_id p = us_id u \<and> pr_role p = us_role u \<and> pr_session_hash p = ws_id_hash s \<and>
    wd_users db' = wd_users db \<and> db' = touch_session (ws_id_hash s) (clock 0) db"
proof -
  from assms have auth: "authenticate env clock rq db = (Inr p, db')" and ok: "allowed (pr_role p) permission"
    "rq_header rq ''X-CSRF-Token'' \<noteq> []" "ae_sha256 env (rq_header rq ''X-CSRF-Token'') = pr_csrf_hash p" "same_origin rq"
    by (auto simp: require_permission_def Let_def split: prod.splits sum.splits if_splits)
  from auth obtain cookie r where v: "request_cookie rq = Some cookie" "cookie \<noteq> []" "pr_session_hash p = ae_sha256 env cookie"
    and g: "get_session (pr_session_hash p) (clock 0) db = (Inr r, db')" "pr_csrf_hash p = se_csrf_hash r"
    "pr_user_id p = wu_id (se_user r)" "pr_role p = wu_role (se_user r)" by (rule authenticate_Inr)
  from g(1) have db': "db' = touch_session (pr_session_hash p) (clock 0) db"
    by (auto simp: get_session_def split: list.splits if_splits)
  then have "wd_users db' = wd_users db" by (simp add: touch_session_def update_sessions_def)
  moreover from g(1) obtain s u where "s \<in> set (wd_sessions db)" "live_session (pr_session_hash p) (clock 0) s"
    "u \<in> set (wd_users db)" "us_id u = ws_user_id s" "us_status u = ''active''"
    "\<forall>l. us_locked_until_ms u = Some l \<longrightarrow> l \<le> unix_milli (clock 0)"
    "se_user r = (user_of u)\<lparr>wu_locked_until := zero_time\<rparr>" "se_csrf_hash r = ws_csrf_hash s" by (rule get_session_Inr)
  ultimately show ?thesis
    using v ok g(2-4) db' unfolding allowed_def same_origin_def Let_def
    by (intro exI [of _ cookie] exI [of _ s] exI [of _ u]) (auto simp: live_session_def user_of_def split: option.split)
qed

lemma demo_allowed:
  "require_permission demo_env (\<lambda>k. 0) (demo_request ''one'' ''csrf'') ''client:manage'' True demo_web =
     (Inr \<lparr>pr_user_id = ''u1'', pr_username = ''Alice'', pr_display_name = ''Alice'', pr_role = ''operator'',
        pr_session_hash = ''#one'', pr_csrf_hash = ''#csrf'', pr_reauth_until = zero_time\<rparr>,
      touch_session ''#one'' 0 demo_web)"
  by code_simp

theorem mutations_are_authorized_witness:
  "''client:manage'' \<in> set (role_permissions ''operator'') \<and>
   fst (require_permission demo_env (\<lambda>k. 0) (demo_request ''one'' ''forged'') ''client:manage'' True demo_web) = Inl ErrForbidden"
proof -
  from mutations_are_authorized [OF demo_allowed] have "''client:manage'' \<in> set (role_permissions ''operator'')"
    by (auto simp: demo_web_def demo_user_def)
  moreover have "fst (require_permission demo_env (\<lambda>k. 0) (demo_request ''one'' ''forged'') ''client:manage'' True demo_web) =
      Inl ErrForbidden" by code_simp
  ultimately show ?thesis ..
qed

text \<open>What ends a session for good: its logout, a password change in another session of the user, a reset by the host.\<close>

inductive ends_session :: "session_row \<Rightarrow> web_db \<Rightarrow> web_db \<Rightarrow> bool" where
  by_logout: "logout clock p db = (Inr (), db') \<Longrightarrow> pr_session_hash p = ws_id_hash s \<Longrightarrow> ends_session s db db'"
| by_change: "change_password env clock salt p cur new db = (Inr (), db') \<Longrightarrow> ws_user_id s = pr_user_id p \<Longrightarrow>
     ws_id_hash s \<noteq> pr_session_hash p \<Longrightarrow> ends_session s db db'"
| by_reset: "reset_admin_password gen name pw now db = (Inr stored, db') \<Longrightarrow>
     find (\<lambda>u. named_user (trim_space name) u \<and> us_role u = ''admin'') (wd_users db) = Some a \<Longrightarrow>
     ws_user_id s = us_id a \<Longrightarrow> ends_session s db db'"

lemma revoked_is_ended:
  assumes "keyed ws_id_hash (wd_sessions db)" "s \<in> set (wd_sessions db)" "P s"
  shows "ended (ws_id_hash s) m (revoke_where P now db)"
proof -
  let ?f = "\<lambda>s. s\<lparr>ws_revoked_at_ms := Some (unix_milli now)\<rparr>"
  have "(if P s \<and> ws_revoked_at_ms s = None then ?f s else s) \<in> set (wd_sessions (revoke_where P now db))"
    unfolding revoke_where_def update_sessions_def by (simp add: in_update_rows [of s _ "\<lambda>s. P s \<and> ws_revoked_at_ms s = None" ?f, simplified] assms(2))
  moreover have "keyed ws_id_hash (wd_sessions (revoke_where P now db))"
    using assms(1) unfolding revoke_where_def update_sessions_def by (auto intro!: keyed_update)
  ultimately show ?thesis using assms(3) unfolding ended_def by (auto split: if_splits intro: bexI [of _ "?f s"])
qed

lemma get_session_rows:
  assumes "get_session h now db = (res, db')" "s \<in> set (wd_sessions db)" "keyed ws_id_hash (wd_sessions db)"
  obtains s' where "s' \<in> set (wd_sessions db')" "ws_id_hash s' = ws_id_hash s" "ws_user_id s' = ws_user_id s"
    "keyed ws_id_hash (wd_sessions db')"
proof -
  from assms(1) have "db' = db \<or> db' = touch_session h now db"
    by (auto simp: get_session_def split: list.splits option.splits if_splits)
  then have "rows_kept (kept_session UNIV) (wd_sessions db) (wd_sessions db')"
    by (auto simp: touch_session_def update_sessions_def kept_session_def intro!: rows_kept_update)
      (auto simp: rows_kept_def kept_session_def intro: list_all2_refl)
  with rows_kept_mem [OF this assms(2)] rows_kept_keyed [OF this _ assms(3)] that show thesis
    by (auto simp: kept_session_def)
qed

lemma change_user_ends:
  assumes "change_user_password uid h pw now db = (Inr (), db')" "keyed ws_id_hash (wd_sessions db)"
    "s \<in> set (wd_sessions db)" "ws_user_id s = uid" "ws_id_hash s \<noteq> h"
  shows "ended (ws_id_hash s) m db'"
proof -
  let ?db1 = "db\<lparr>wd_users := update_rows (\<lambda>u. us_id u = uid \<and> us_status u = ''active'')
     (\<lambda>u. u\<lparr>us_password_hash := pw, us_password_changed_ms := unix_milli now, us_updated_at_ms := unix_milli now\<rparr>)
     (wd_users db)\<rparr>"
  let ?db2 = "revoke_where (\<lambda>s. ws_user_id s = uid \<and> ws_id_hash s \<noteq> h) now ?db1"
  have "ended (ws_id_hash s) m ?db2" by (rule revoked_is_ended) (use assms(2-5) in simp_all)
  moreover from assms(1) have "db' = ?db2\<lparr>wd_sessions := update_rows (\<lambda>s. ws_id_hash s = h \<and> ws_revoked_at_ms s = None)
      (\<lambda>s. s\<lparr>ws_reauth_until_ms := Some (unix_milli (now + 5 * minute))\<rparr>) (wd_sessions ?db2)\<rparr>"
    by (simp add: change_user_password_def commit_tx_Inr update_users_def update_sessions_def Let_def split: if_splits)
  ultimately show ?thesis using ended.sessions_updated by (simp add: kept_session_def)
qed

lemma reset_ends:
  assumes "reset_admin_password gen name pw now db = (Inr stored, db')" "keyed ws_id_hash (wd_sessions db)"
    "find (\<lambda>u. named_user (trim_space name) u \<and> us_role u = ''admin'') (wd_users db) = Some a"
    "s \<in> set (wd_sessions db)" "ws_user_id s = us_id a"
  shows "ended (ws_id_hash s) m db'"
proof -
  let ?db1 = "snd (update_users (\<lambda>u. us_id u = us_id a \<and> us_role u = ''admin'')
     (\<lambda>u. u\<lparr>us_password_hash := pw, us_status := ''active'', us_failed_login_count := 0, us_locked_until_ms := None,
        us_password_changed_ms := unix_milli now, us_updated_at_ms := unix_milli now\<rparr>) db)"
  have "ended (ws_id_hash s) m (revoke_where (\<lambda>s. ws_user_id s = us_id a) now ?db1)"
    by (rule revoked_is_ended) (use assms(2,4,5) in \<open>simp_all add: update_users_def\<close>)
  moreover have "wd_users db' = wd_users (revoke_where (\<lambda>s. ws_user_id s = us_id a) now ?db1)"
    "wd_sessions db' = wd_sessions (revoke_where (\<lambda>s. ws_user_id s = us_id a) now ?db1)"
    using assms(1,3) by (auto simp: reset_admin_password_def commit_tx_Inr insert_web_audit_def Let_def update_users_def
        split: prod.splits option.splits if_splits)
  ultimately show ?thesis by (rule ended.same_rows)
qed

lemma ends_session_ended:
  assumes "ends_session s db db'" "keyed ws_id_hash (wd_sessions db)" "s \<in> set (wd_sessions db)"
  shows "ended (ws_id_hash s) m db'"
  using assms
proof (induction rule: ends_session.induct)
  case (by_logout clock p db db' s)
  then have "db' = revoke_where (\<lambda>x. ws_id_hash x = ws_id_hash s) (clock 0) db"
    by (simp add: logout_def lift_repo_def revoke_session_def)
  then show ?case using by_logout.prems by (simp add: revoked_is_ended)
next
  case (by_change env clock salt p cur new db db' s)
  then obtain r db1 hash where g: "get_session (pr_session_hash p) (clock 0) db = (Inr r, db1)"
    and c: "change_user_password (pr_user_id p) (pr_session_hash p) hash (clock 1) db1 = (Inr (), db')"
    by (auto simp: change_password_def lift_repo_def split: prod.splits sum.splits if_splits)
  from get_session_rows [OF g by_change.prems(2,1)] obtain s' where "s' \<in> set (wd_sessions db1)"
    "ws_id_hash s' = ws_id_hash s" "ws_user_id s' = ws_user_id s" "keyed ws_id_hash (wd_sessions db1)" .
  with change_user_ends [OF c] by_change.hyps show ?case by metis
qed (rule reset_ends)

text \<open>C9: A session that was ended is never accepted again: after its logout, after a password change in
  another session of its user, or after a reset of its administrator by the host, its cookie is refused
  unauthenticated by every later request, over any run of the manager and at any time.\<close>

theorem ended_sessions_stay_ended:
  assumes "keyed ws_id_hash (wd_sessions db)" "s \<in> set (wd_sessions db)" "ends_session s db db1"
    "web_run T console db1 db2" "request_cookie rq = Some cookie" "ae_sha256 env cookie = ws_id_hash s"
  shows "require_permission env clock rq permission mutation db2 = (Inl ErrUnauthenticated, db2)"
proof -
  have "ended (ws_id_hash s) (unix_milli (clock 0)) db1" by (rule ends_session_ended [OF assms(3,1,2)])
  with ended.run_keeps [OF assms(4)] have "ended (ws_id_hash s) (unix_milli (clock 0)) db2" by blast
  from authenticate_ended [where m = "unix_milli (clock 0)" and clock = clock, OF this order_refl assms(5,6)]
  show ?thesis by (rule require_needs_session)
qed

theorem ended_sessions_stay_ended_witness:
  "fst (require_permission demo_env (\<lambda>k. 0) (demo_request ''one'' ''csrf'') ''client:view'' False demo_web) \<noteq> Inl ErrUnauthenticated \<and>
   fst (require_permission demo_env (\<lambda>k. 0) (demo_request ''one'' ''csrf'') ''client:view'' False
     (snd (logout (\<lambda>k. 0) \<lparr>pr_user_id = ''u1'', pr_username = ''Alice'', pr_display_name = ''Alice'', pr_role = ''operator'',
        pr_session_hash = ''#one'', pr_csrf_hash = ''#csrf'', pr_reauth_until = zero_time\<rparr> demo_web))) = Inl ErrUnauthenticated"
proof
  show "fst (require_permission demo_env (\<lambda>k. 0) (demo_request ''one'' ''csrf'') ''client:view'' False demo_web) \<noteq> Inl ErrUnauthenticated"
    by code_simp
next
  let ?p = "\<lparr>pr_user_id = ''u1'', pr_username = ''Alice'', pr_display_name = ''Alice'', pr_role = ''operator'',
        pr_session_hash = ''#one'', pr_csrf_hash = ''#csrf'', pr_reauth_until = zero_time\<rparr>"
  have "ends_session (demo_session ''#one'') demo_web (snd (logout (\<lambda>k. 0) ?p demo_web))"
    by (rule by_logout [of "\<lambda>k. 0" ?p]) (simp_all add: logout_def lift_repo_def revoke_session_def demo_session_def)
  from ended_sessions_stay_ended [OF _ _ this rtranclp.rtrancl_refl, of "demo_request ''one'' ''csrf''" "''one''" demo_env
      "\<lambda>k. 0" "''client:view''" False]
  show "fst (require_permission demo_env (\<lambda>k. 0) (demo_request ''one'' ''csrf'') ''client:view'' False
     (snd (logout (\<lambda>k. 0) ?p demo_web))) = Inl ErrUnauthenticated"
    using demo_web_wf by (simp add: web_wf_def demo_web_def request_cookie_def demo_request_def cookie_name_def demo_env_def demo_session_def)
qed

text \<open>C22: A session lives at most twelve hours, and half an hour beyond its last use: over any run of the manager
  the tables keep unique keys and these limits, and a session that is read has begun less than twelve hours and
  was seen less than thirty minutes before.\<close>

theorem sessions_are_limited:
  assumes "web_wf db" "web_run T console db db1" "get_session h now db1 = (Inr r, db2)"
  shows "web_wf db1 \<and> web_wf db2 \<and> (\<exists>s \<in> set (wd_sessions db1). ws_id_hash s = h \<and> ws_revoked_at_ms s = None \<and>
    unix_milli now < ws_created_at_ms s + 43200000 \<and> unix_milli now < ws_last_seen_at_ms s + 1800000)"
proof -
  have wf: "web_wf db1" by (rule wf.run_keeps [OF assms(2,1)])
  moreover have "web_wf db2" by (rule wf.get_session_keeps [OF assms(3) UNIV_I wf])
  moreover from assms(3) obtain s u where "s \<in> set (wd_sessions db1)" "live_session h now s" by (rule get_session_Inr)
  ultimately show ?thesis by (fastforce simp: web_wf_def live_session_def)
qed

theorem sessions_are_limited_witness:
  "\<not> isl (fst (get_session ''#one'' 1799999999999 (snd (logout (\<lambda>k. 0)
     \<lparr>pr_user_id = ''u1'', pr_username = ''Alice'', pr_display_name = ''Alice'', pr_role = ''operator'',
      pr_session_hash = ''#two'', pr_csrf_hash = ''#csrf'', pr_reauth_until = zero_time\<rparr> demo_web)))) \<and>
   web_wf (snd (get_session ''#one'' 1799999999999 (snd (logout (\<lambda>k. 0)
     \<lparr>pr_user_id = ''u1'', pr_username = ''Alice'', pr_display_name = ''Alice'', pr_role = ''operator'',
      pr_session_hash = ''#two'', pr_csrf_hash = ''#csrf'', pr_reauth_until = zero_time\<rparr> demo_web))))"
    (is "\<not> isl (fst (get_session _ ?t (snd (logout ?c ?p _)))) \<and> _")
proof
  show r: "\<not> isl (fst (get_session ''#one'' ?t (snd (logout ?c ?p demo_web))))" by code_simp
  obtain r db2 where "get_session ''#one'' ?t (snd (logout ?c ?p demo_web)) = (Inr r, db2)"
    using not_isl_Inr [OF r] by blast
  moreover have "web_step UNIV False demo_web (snd (logout ?c ?p demo_web))"
    by (rule step_logout [of ?c _ ?p _ "fst (logout ?c ?p demo_web)"]) simp_all
  ultimately show "web_wf (snd (get_session ''#one'' ?t (snd (logout ?c ?p demo_web))))"
    using sessions_are_limited [OF demo_web_wf r_into_rtranclp] by fastforce
qed

section \<open>Lockout\<close>

text \<open>The quarter of an hour that begins at \<open>t\<close>, in the milliseconds of the columns.\<close>

definition quarter_hour :: "time \<Rightarrow> time set" where
  "quarter_hour t = {t'. unix_milli t \<le> unix_milli t' \<and> unix_milli t' < unix_milli t + 900000}"

lemma quarter_hour_window: "quarter_hour t = lock_window (unix_milli (t + 15 * minute))"
  by (auto simp: quarter_hour_def lock_window_def milli_limits)

lemma failure_locks:
  assumes "web_wf db" "u \<in> set (wd_users db)" "named_user name u" "4 \<le> us_failed_login_count u" "0 \<le> t"
    "record_login_failure gen lower name rq ip t db = (Inr (), db')"
  shows "locked_through (unix_milli (t + 15 * minute)) name (us_id u) db'"
proof -
  have "find (named_user name) (wd_users db) = Some u"
    using assms(1-3) keyed_find [of "\<lambda>u. nocase (us_username u)" "wd_users db" u] by (simp add: web_wf_def named_user_def [abs_def])
  with assms(6) have users: "wd_users db' = update_rows (\<lambda>v. us_id v = us_id u) (failed_row t) (wd_users db)"
    by (auto simp: record_login_failure_def commit_tx_Inr insert_login_event_def insert_login_row_def update_users_def Let_def)
  have "failed_row t u \<in> set (wd_users db')"
    using in_update_rows [OF assms(2), of "\<lambda>v. us_id v = us_id u" "failed_row t"] by (simp add: users)
  moreover have "web_wf db'" by (rule wf.record_failure_keeps [OF assms(6) UNIV_I assms(1)])
  ultimately show ?thesis
    using assms(3-5) unfolding locked_through_def
    by (auto simp: failed_row_def named_user_def unix_milli_def intro!: bexI [of _ "failed_row t u"])
qed

lemma locked_refused:
  assumes "locked_through m name uid db" "t \<in> lock_window m"
  shows "nocase (trim_space name') = nocase name \<Longrightarrow> \<not> login_valid env t (login_user name' db) pw"
    and "s \<in> set (wd_sessions db) \<Longrightarrow> ws_user_id s = uid \<Longrightarrow> isl (fst (get_session (ws_id_hash s) t db))"
proof -
  from assms(1) obtain u l where u: "u \<in> set (wd_users db)" "us_id u = uid" "named_user name u"
    "us_locked_until_ms u = Some l" "m \<le> l" "0 \<le> m" and wf: "web_wf db" by (auto simp: locked_through_def)
  note now = locked_now [OF u(6,5) assms(2)]
  show "\<not> login_valid env t (login_user name' db) pw" if "nocase (trim_space name') = nocase name"
  proof -
    have "find (named_user (trim_space name')) (wd_users db) = Some u"
      using wf u(1,3) that keyed_find [of "\<lambda>u. nocase (us_username u)" "wd_users db" u]
      by (simp add: web_wf_def named_user_def [abs_def])
    then show ?thesis
      using now u(4) by (auto simp: login_valid_def login_user_def find_user_by_username_def trim_space_idem query_row_def user_of_def)
  qed
  show "isl (fst (get_session (ws_id_hash s) t db))" if s: "s \<in> set (wd_sessions db)" "ws_user_id s = uid"
  proof (rule ccontr)
    assume "\<not> ?thesis"
    then obtain r db' where "get_session (ws_id_hash s) t db = (Inr r, db')"
      using not_isl_Inr by blast
    then obtain s' u' where "s' \<in> set (wd_sessions db)" "live_session (ws_id_hash s) t s'" "u' \<in> set (wd_users db)"
      "us_id u' = ws_user_id s'" "\<forall>l. us_locked_until_ms u' = Some l \<longrightarrow> l \<le> unix_milli t" by (rule get_session_Inr)
    moreover from this s wf have "s' = s" by (auto simp: live_session_def web_wf_def intro: keyed_eq [where key = ws_id_hash])
    moreover from calculation u wf s have "u' = u" by (auto simp: web_wf_def intro: keyed_eq [where key = us_id])
    ultimately show False using u(4,5) assms(2) by (auto simp: lock_window_def)
  qed
qed

text \<open>C10: Once a fifth login in a row has failed, no login to that name succeeds for a quarter of an hour, whatever
  the password and whatever else the manager is asked meanwhile, and the sessions the user already had are refused
  too; only the recovery command of the host unlocks.\<close>

theorem fifth_failure_locks:
  assumes "web_wf db" "u \<in> set (wd_users db)" "named_user (trim_space name) u" "4 \<le> us_failed_login_count u" "0 \<le> clock 1"
    "login env clock name pw rq ip db = (Inl ErrInvalidLogin, db1)"
    "fst (record_login_failure (ae_ids env) (ae_lower env) (trim_space name) rq ip (clock 1) db) = Inr ()"
    "web_run (quarter_hour (clock 1)) False db1 db2"
    "range clock' \<subseteq> quarter_hour (clock 1)" "nocase (trim_space name') = nocase (trim_space name)"
  shows "fst (login env' clock' name' pw' rq' ip' db2) = Inl ErrInvalidLogin \<and>
    (\<forall>s \<in> set (wd_sessions db2). ws_user_id s = us_id u \<longrightarrow>
       fst (get_session (ws_id_hash s) (clock' 0) db2) = Inl SqlNoRows \<or>
       fst (get_session (ws_id_hash s) (clock' 0) db2) = Inl (RepoError ''user is locked''))"
proof -
  let ?m = "unix_milli (clock 1 + 15 * minute)"
  from assms(6) have "\<not> login_valid env (clock 0) (login_user name db) pw"
    by (auto simp: login_def open_session_def random_token_def Let_def split: if_splits sum.splits prod.splits option.splits)
  with assms(6,7) have f: "record_login_failure (ae_ids env) (ae_lower env) (trim_space name) rq ip (clock 1) db = (Inr (), db1)"
    by (auto simp: login_def prod_eq_iff)
  have "locked_through ?m (trim_space name) (us_id u) db2"
    using failure_locks [OF assms(1-5) f] locked.run_keeps assms(8) unfolding quarter_hour_window by blast
  note refused = locked_refused [OF this, of "clock' 0"]
  have now: "clock' 0 \<in> lock_window ?m" using assms(9) unfolding quarter_hour_window by auto
  have cases: "fst (get_session h t db) = Inl SqlNoRows \<or> fst (get_session h t db) = Inl (RepoError ''user is locked'')"
    if "isl (fst (get_session h t db))" for h t db
    using that by (auto simp: get_session_def split: list.splits if_splits)
  show ?thesis
    using refused(1) [OF now assms(10)] refused(2) [OF now] cases by (auto simp: login_def)
qed

theorem fifth_failure_locks_witness:
  "fst (login demo_env (\<lambda>k. 1000) ''ALICE'' ''any'' ''r2'' ''ip'' (snd (login demo_env (\<lambda>k. 0) '' alice'' ''wrong'' ''r1'' ''ip'' demo_web))) =
     Inl ErrInvalidLogin"
proof -
  let ?c = "\<lambda>k :: nat. 0 :: time"
  have trim: "trim_space '' alice'' = ''alice''" "trim_space ''ALICE'' = ''ALICE''" by code_simp+
  have verify: "\<not> verify_password demo_argon ''h'' ''wrong''" by code_simp
  have user: "login_user '' alice'' demo_web = Some (user_of demo_user)"
    by (simp add: login_user_def find_user_by_username_def trim trim_space_idem query_row_def demo_web_def) code_simp
  have failed: "login demo_env ?c '' alice'' ''wrong'' ''r1'' ''ip'' demo_web = (Inl ErrInvalidLogin,
      snd (login demo_env ?c '' alice'' ''wrong'' ''r1'' ''ip'' demo_web))"
    by (simp add: login_def login_valid_def user verify user_of_def demo_user_def demo_env_def)
  have written: "fst (record_login_failure (ae_ids demo_env) (ae_lower demo_env) (trim_space '' alice'') ''r1'' ''ip'' (?c 1) demo_web) = Inr ()"
    unfolding trim by code_simp
  have name: "named_user (trim_space '' alice'') demo_user" unfolding trim by code_simp
  have same: "nocase (trim_space ''ALICE'') = nocase (trim_space '' alice'')" unfolding trim by code_simp
  have window: "range (\<lambda>k :: nat. 1000 :: time) \<subseteq> quarter_hour (?c 1)" by (auto simp: quarter_hour_def unix_milli_def)
  from fifth_failure_locks [OF demo_web_wf _ name _ _ failed written rtranclp.rtrancl_refl window same, of demo_env "''any''" "''r2''" "''ip''"]
  show ?thesis by (simp add: demo_web_def demo_user_def)
qed

section \<open>Bootstrap\<close>

text \<open>The bootstrap succeeds at most once: a success needs a database without users and a stored, unconsumed,
  unexpired token with the hash of the one presented; it leaves one active administrator and a consumed token, and over
  any later run, recovery included, no bootstrap succeeds and no bootstrap token can be set.\<close>

theorem bootstrap_succeeds_once:
  assumes "bootstrap env clock salt token username display_name password request_id db = (Inr user, db1)"
    "web_run T console db1 db2"
  shows "wd_users db = [] \<and>
    (\<exists>b. wd_bootstrap db = Some b \<and> bs_token_hash b = ae_sha256 env token \<and> bs_consumed_at_ms b = None \<and>
       unix_milli (clock 0) < bs_expires_at_ms b \<and>
       wd_bootstrap db1 = Some (b\<lparr>bs_consumed_at_ms := Some (unix_milli (clock 0))\<rparr>)) \<and>
    map (\<lambda>u. (us_username u, us_role u, us_status u)) (wd_users db1) = [(trim_space username, ''admin'', ''active'')] \<and>
    isl (fst (bootstrap env' clock' salt' token' username' display_name' password' request_id' db2)) \<and>
    isl (fst (set_bootstrap_token h expires now db2))"
proof -
  from assms(1) obtain hash where b: "bootstrap_admin (ae_ids env) (ae_sha256 env token) (trim_space username)
      (trim_space display_name) hash request_id (clock 0) db = (Inr user, db1)"
    by (auto simp: bootstrap_def lift_repo_def Let_def split: if_splits sum.splits prod.splits)
  then obtain r where r: "wd_users db = []" "wd_bootstrap db = Some r" "\<not> token_refused (ae_sha256 env token) (clock 0) r"
    and users: "map (\<lambda>u. (us_username u, us_role u, us_status u)) (wd_users db1) = [(trim_space username, ''admin'', ''active'')]"
    and consumed: "wd_bootstrap db1 = wd_bootstrap (consume_bootstrap (clock 0) db)"
    by (auto simp: bootstrap_admin_def commit_tx_Inr insert_user_def insert_web_audit_def consume_bootstrap_def
        simp del: bind_check split: option.splits)
  from users have "wd_users db1 \<noteq> []" by auto
  then have later: "wd_users db2 \<noteq> []" by (rule bootstrapped.run_keeps [OF assms(2)])
  have "isl (fst (bootstrap_admin gen h name display pw rq now db2))" for gen h name display pw rq now
    using later by (auto simp: bootstrap_admin_def check_def commit_tx_def split: if_splits)
  then have "isl (fst (bootstrap env' clock' salt' token' username' display_name' password' request_id' db2))"
    by (auto simp: bootstrap_def lift_repo_def Let_def isl_def split: if_splits sum.splits prod.splits) (metis fst_conv sum.simps(4))
  moreover have "isl (fst (set_bootstrap_token h expires now db2))"
    using later by (auto simp: set_bootstrap_token_def check_def commit_tx_def)
  ultimately show ?thesis
    using r users consumed by (auto simp: token_refused_def consume_bootstrap_def)
qed

definition empty_web :: web_db where
  "empty_web = \<lparr>wd_users = [], wd_sessions = [], wd_login_events = [], wd_audit = [],
     wd_bootstrap = Some \<lparr>bs_token_hash = ''#token'', bs_expires_at_ms = 60000, bs_consumed_at_ms = None,
       bs_created_at_ms = 0\<rparr>\<rparr>"

lemma demo_bootstrap:
  obtains user db1 where "bootstrap demo_env (\<lambda>k. 0) (Some (replicate 16 CHR ''s'')) ''token'' ''root'' ''Root'' ''correct horse''
     ''r1'' empty_web = (Inr user, db1)"
proof -
  have valid: "validate_password ''correct horse'' = None" "trim_space ''token'' = ''token''"
    "trim_space ''root'' = ''root''" "trim_space ''Root'' = ''Root''" "valid_username ''root''" by code_simp+
  have hash: "show_phc salt h \<noteq> []" for salt h by (simp add: show_phc_def)
  have "\<not> isl (fst (bootstrap demo_env (\<lambda>k. 0) (Some (replicate 16 CHR ''s'')) ''token'' ''root'' ''Root'' ''correct horse''
     ''r1'' empty_web))"
    by (simp add: bootstrap_def valid hash_password_def lift_repo_def bootstrap_admin_def hash empty_web_def demo_env_def
        token_refused_def unix_milli_def insert_user_def insert_web_audit_def consume_bootstrap_def key_fresh_def fk_to_def
        constraints.simps check_def Let_def split: prod.splits sum.splits)
  with not_isl_Inr that show thesis by blast
qed

theorem bootstrap_succeeds_once_witness:
  "isl (fst (bootstrap demo_env (\<lambda>k. 0) (Some (replicate 16 CHR ''s'')) ''token'' ''mallory'' ''M'' ''correct horse'' ''r2''
     (snd (bootstrap demo_env (\<lambda>k. 0) (Some (replicate 16 CHR ''s'')) ''token'' ''root'' ''Root'' ''correct horse'' ''r1'' empty_web))))"
proof -
  obtain user db1 where b: "bootstrap demo_env (\<lambda>k. 0) (Some (replicate 16 CHR ''s'')) ''token'' ''root'' ''Root'' ''correct horse''
     ''r1'' empty_web = (Inr user, db1)" by (rule demo_bootstrap)
  from bootstrap_succeeds_once [OF b rtranclp.rtrancl_refl] show ?thesis by (simp add: b)
qed

end
