(* ===== verification/Inventory.thy ===== *)
theory Inventory
  imports GoStrings "HOL-Library.List_Lexorder" "HOL-Library.Product_Lexorder" "HOL-Library.AList"
begin

text \<open>
  The inventory service of \<^verbatim>\<open>src/internal/agent/inventory\<close>: \<^verbatim>\<open>model.go\<close> and \<^verbatim>\<open>service.go\<close>. A refresh reads
  the configuration files, the kernel and the addresses (arguments here), merges them by interface and by
  public key and hands the snapshot to the store. A Go map is an association list; the store is a function on
  its state \<open>'d\<close>.
\<close>

section \<open>The model\<close>

record source_status =
  srs_ready :: bool
  srs_error :: string

record diagnostic_issue =
  di_code :: string
  di_severity :: string
  di_summary :: string
  di_remediation :: string

record inv_address =
  ad_family :: int
  ad_address :: string
  ad_prefix_length :: int
  ad_source :: string

record inv_peer =
  vp_name :: string
  vp_public_key :: string
  vp_endpoint :: string
  vp_persistent_keepalive :: int
  vp_allowed_ips :: "string list"
  vp_latest_handshake_at :: time
  vp_transfer_rx :: "64 word"
  vp_transfer_tx :: "64 word"
  vp_runtime_seen_at :: time
  vp_activity_state :: string
  vp_psk_present :: bool
  vp_psk_fingerprint :: string

record inv_interface =
  vi_name :: string
  vi_backend :: string
  vi_management_mode :: string
  vi_config_path :: string
  vi_service_unit :: string
  vi_file_hash :: string
  vi_runtime_fingerprint :: string
  vi_drift_state :: string
  vi_config_present :: bool
  vi_runtime_present :: bool
  vi_save_config_detected :: bool
  vi_addresses :: "inv_address list"
  vi_peers :: "inv_peer list"

record inv_snapshot =
  sp_interfaces :: "inv_interface list"
  sp_config_source :: source_status
  sp_runtime_source :: source_status
  sp_address_source :: source_status
  sp_issues :: "diagnostic_issue list"
  sp_refreshed_at :: time

record persist_result =
  ps_interface_count :: nat
  ps_peer_count :: nat

text \<open>An error of a source: its text, and whether it is \<open>ErrUnsupported\<close>.\<close>

record source_failure =
  sf_unsupported :: bool
  sf_text :: string

record sources =
  so_files :: "inv_interface list \<times> diagnostic_issue list \<times> source_failure option"
  so_runtime :: "inv_interface list \<times> source_failure option"
  so_addresses :: "string list \<Rightarrow> (string \<Rightarrow> inv_address list) \<times> source_failure option"
  so_allowed :: "string \<Rightarrow> bool"

section \<open>Merging\<close>

definition source_status_of :: "source_failure option \<Rightarrow> source_status" where
  "source_status_of err =
     (case err of None \<Rightarrow> \<lparr>srs_ready = True, srs_error = []\<rparr> | Some e \<Rightarrow> \<lparr>srs_ready = False, srs_error = sf_text e\<rparr>)"

definition source_issue :: "string \<Rightarrow> source_failure \<Rightarrow> diagnostic_issue" where
  "source_issue label e = \<lparr>di_code = label, di_severity = ''warning'', di_summary = sf_text e,
     di_remediation = ''Inspect agent permissions and host support; discovery remains read-only.''\<rparr>"

text \<open>One runtime peer against the remaining file peers.\<close>

definition adopt_file_peer :: "inv_peer \<Rightarrow> inv_peer \<Rightarrow> inv_peer" where
  "adopt_file_peer f p =
     p\<lparr>vp_name := (if vp_name f \<noteq> [] then vp_name f else vp_name p),
       vp_allowed_ips := (if length (vp_allowed_ips p) = 0 then vp_allowed_ips f else vp_allowed_ips p),
       vp_psk_present := vp_psk_present f,
       vp_psk_fingerprint := vp_psk_fingerprint f\<rparr>"

fun merge_peers :: "(string \<times> inv_peer) list \<Rightarrow> inv_peer list \<Rightarrow> inv_peer list \<times> (string \<times> inv_peer) list" where
  "merge_peers files [] = ([], files)"
| "merge_peers files (p # ps) =
     (case map_of files (vp_public_key p) of
        None \<Rightarrow> (let (out, rest) = merge_peers files ps in (p # out, rest))
      | Some f \<Rightarrow>
          (let (out, rest) = merge_peers (AList.delete (vp_public_key p) files) ps in (adopt_file_peer f p # out, rest)))"

definition merge_runtime :: "inv_interface \<Rightarrow> inv_interface \<Rightarrow> inv_interface" where
  "merge_runtime target runtime =
     (let files = fold (\<lambda>p. AList.update (vp_public_key p) p) (vi_peers target) [];
          (merged, rest) = merge_peers files (vi_peers runtime);
          peers = merged @ map (\<lambda>(k, p). p\<lparr>vp_activity_state := ''unknown''\<rparr>) rest in
      target\<lparr>vi_runtime_present := True, vi_runtime_fingerprint := vi_runtime_fingerprint runtime,
        vi_drift_state := ''unknown'',
        vi_backend := (if \<not> vi_config_present target then ''runtime_only'' else vi_backend target),
        vi_peers := sort_key (\<lambda>p. map code (vp_public_key p)) peers\<rparr>)"

definition merge_address_key :: "inv_address \<Rightarrow> string" where
  "merge_address_key a = show_int (ad_family a) @ ''/'' @ ad_address a @ ''/'' @ show_int (ad_prefix_length a)"

fun first_of_key :: "string list \<Rightarrow> inv_address list \<Rightarrow> inv_address list" where
  "first_of_key seen [] = []"
| "first_of_key seen (a # as) =
     (if merge_address_key a \<in> set seen then first_of_key seen as
      else a # first_of_key (merge_address_key a # seen) as)"

definition merge_addresses :: "inv_address list \<Rightarrow> inv_address list \<Rightarrow> inv_address list" where
  "merge_addresses left right =
     sort_key (\<lambda>a. (ad_family a, map code (ad_address a), ad_prefix_length a)) (first_of_key [] (left @ right))"

definition merge_file :: "(string \<Rightarrow> bool) \<Rightarrow> inv_interface \<Rightarrow> (string \<times> inv_interface) list \<Rightarrow> (string \<times> inv_interface) list" where
  "merge_file allowed r merged = (if allowed (vi_name r) then AList.update (vi_name r) r merged else merged)"

definition merge_runtime_record ::
  "(string \<Rightarrow> bool) \<Rightarrow> inv_interface \<Rightarrow> (string \<times> inv_interface) list \<Rightarrow> (string \<times> inv_interface) list" where
  "merge_runtime_record allowed r merged =
     (if \<not> allowed (vi_name r) then merged
      else (case map_of merged (vi_name r) of
          Some current \<Rightarrow> AList.update (vi_name r) (merge_runtime current r) merged
        | None \<Rightarrow> AList.update (vi_name r) r merged))"

definition merged_interfaces :: "sources \<Rightarrow> (string \<times> inv_interface) list" where
  "merged_interfaces so =
     fold (merge_runtime_record (so_allowed so)) (fst (so_runtime so))
       (fold (merge_file (so_allowed so)) (fst (so_files so)) [])"

section \<open>Refreshing\<close>

definition unless_unsupported :: "string \<Rightarrow> source_failure option \<Rightarrow> diagnostic_issue list" where
  "unless_unsupported label err =
     (case err of None \<Rightarrow> [] | Some e \<Rightarrow> if sf_unsupported e then [] else [source_issue label e])"

definition inventory_snapshot :: "sources \<Rightarrow> time \<Rightarrow> inv_snapshot" where
  "inventory_snapshot so now =
     (let (file_records, file_issues, file_err) = so_files so;
          (runtime_records, runtime_err) = so_runtime so;
          merged = merged_interfaces so;
          names = sort_key (map code) (map fst merged);
          (address_map, address_err) = so_addresses so names in
      \<lparr>sp_interfaces = map (\<lambda>name.
           let r = the (map_of merged name) in r\<lparr>vi_addresses := merge_addresses (vi_addresses r) (address_map name)\<rparr>) names,
       sp_config_source = source_status_of file_err,
       sp_runtime_source = source_status_of runtime_err,
       sp_address_source = source_status_of address_err,
       sp_issues = file_issues @
         (case file_err of None \<Rightarrow> [] | Some e \<Rightarrow> [source_issue ''CONFIG_SOURCE_UNAVAILABLE'' e]) @
         unless_unsupported ''RUNTIME_SOURCE_UNAVAILABLE'' runtime_err @
         unless_unsupported ''ADDRESS_SOURCE_UNAVAILABLE'' address_err,
       sp_refreshed_at = now\<rparr>)"

definition persist_issue :: diagnostic_issue where
  "persist_issue = \<lparr>di_code = ''INVENTORY_PERSIST_FAILED'', di_severity = ''critical'',
     di_summary = ''Could not persist the redacted WireGuard inventory.'',
     di_remediation = ''Check agent database health and disk space.''\<rparr>"

text \<open>The result, the diagnostics kept for \<open>Diagnostics\<close> and the state of the store.\<close>

definition refresh ::
  "sources \<Rightarrow> (inv_snapshot \<Rightarrow> 'd \<Rightarrow> ('e + persist_result) \<times> 'd) \<Rightarrow> time \<Rightarrow> 'd
     \<Rightarrow> ('e + persist_result) \<times> inv_snapshot \<times> 'd" where
  "refresh so replace now db =
     (let snapshot = inventory_snapshot so now in
      case replace snapshot db of
        (Inl e, db') \<Rightarrow> (Inl e, snapshot\<lparr>sp_issues := sp_issues snapshot @ [persist_issue]\<rparr>, db')
      | (Inr result, db') \<Rightarrow> (Inr result, snapshot, db'))"

section \<open>What a merge keeps\<close>

lemma keys_updates: "fst ` set (fold (\<lambda>p. AList.update (key p) p) ps al) = fst ` set al \<union> key ` set ps"
  by (induction ps arbitrary: al) (auto simp: dom_update)

lemma distinct_updates: "distinct (map fst al) \<Longrightarrow> distinct (map fst (fold (\<lambda>p. AList.update (key p) p) ps al))"
  by (induction ps arbitrary: al) (auto intro: distinct_update)

lemma keyed_updates:
  "(\<forall>(k, p) \<in> set al. key p = k) \<Longrightarrow> \<forall>(k, p) \<in> set (fold (\<lambda>p. AList.update (key p) p) ps al). key p = k"
proof (induction ps arbitrary: al)
  case (Cons q ps)
  have "\<forall>(k, p) \<in> set (AList.update (key q) q al). key p = k"
    using Cons.prems by (induction al) auto
  from Cons.IH [OF this] show ?case by simp
qed simp

lemma merge_peers_keys:
  assumes "merge_peers files ps = (out, rest)" "distinct (map fst files)" "\<forall>(k, p) \<in> set files. vp_public_key p = k"
  shows "map vp_public_key out = map vp_public_key ps \<and> distinct (map fst rest) \<and>
    fst ` set rest = fst ` set files - vp_public_key ` set ps \<and> (\<forall>(k, p) \<in> set rest. vp_public_key p = k)"
  using assms
proof (induction files ps arbitrary: out rest rule: merge_peers.induct)
  case (2 files p ps)
  show ?case
  proof (cases "map_of files (vp_public_key p)")
    case None
    with 2(3) obtain out' where o': "merge_peers files ps = (out', rest)" "out = p # out'"
      by (auto split: prod.splits)
    from None have "vp_public_key p \<notin> fst ` set files" by (simp add: map_of_eq_None_iff)
    with 2(1) [OF None o'(1) 2(4,5)] o'(2) show ?thesis by auto
  next
    case (Some f)
    with 2(3) obtain out' where o': "merge_peers (AList.delete (vp_public_key p) files) ps = (out', rest)"
      "out = adopt_file_peer f p # out'" by (auto split: prod.splits)
    have "distinct (map fst (AList.delete (vp_public_key p) files))"
      "\<forall>(k, p) \<in> set (AList.delete (vp_public_key p) files). vp_public_key p = k"
      using 2(4,5) by (simp add: distinct_delete, auto simp: AList.delete_eq)
    from 2(2) [OF Some o'(1) this] o'(2) show ?thesis
      by (auto simp: adopt_file_peer_def AList.delete_eq image_iff)
  qed
qed auto

lemma merge_peers_mem:
  assumes "merge_peers files ps = (out, rest)" "q \<in> set out"
  shows "\<exists>p \<in> set ps. q = p \<or> (\<exists>f. (vp_public_key p, f) \<in> set files \<and> q = adopt_file_peer f p)"
  using assms
proof (induction files ps arbitrary: out rest rule: merge_peers.induct)
  case (2 files p ps)
  show ?case
  proof (cases "map_of files (vp_public_key p)")
    case None
    with 2(3) obtain out' where o': "merge_peers files ps = (out', rest)" "out = p # out'"
      by (auto split: prod.splits)
    from 2(1) [OF None o'(1)] 2(4) o'(2) show ?thesis by auto
  next
    case (Some f)
    with 2(3) obtain out' where o': "merge_peers (AList.delete (vp_public_key p) files) ps = (out', rest)"
      "out = adopt_file_peer f p # out'" by (auto split: prod.splits)
    from 2(2) [OF Some o'(1)] 2(4) o'(2) map_of_SomeD [OF Some] show ?thesis
      by (auto simp: AList.delete_eq)
  qed
qed auto

text \<open>The interfaces of a snapshot: one per name, sorted, all allowed.\<close>

lemma merge_file_names:
  "fst ` set (fold (merge_file allowed) rs al) = fst ` set al \<union> {vi_name r | r. r \<in> set rs \<and> allowed (vi_name r)}"
  by (induction rs arbitrary: al) (auto simp: merge_file_def dom_update)

lemma merge_runtime_names:
  "fst ` set (fold (merge_runtime_record allowed) rs al) = fst ` set al \<union> {vi_name r | r. r \<in> set rs \<and> allowed (vi_name r)}"
  by (induction rs arbitrary: al) (auto simp: merge_runtime_record_def dom_update split: option.splits)

lemma merge_distinct:
  "distinct (map fst al) \<Longrightarrow> distinct (map fst (fold (merge_file allowed) rs al))"
  "distinct (map fst al) \<Longrightarrow> distinct (map fst (fold (merge_runtime_record allowed) rs al))"
  by (induction rs arbitrary: al)
    (auto simp: merge_file_def merge_runtime_record_def intro: distinct_update split: option.split)

lemma merged_names:
  "fst ` set (merged_interfaces so) =
     {vi_name r | r. (r \<in> set (fst (so_files so)) \<or> r \<in> set (fst (so_runtime so))) \<and> so_allowed so (vi_name r)}"
  by (auto simp: merged_interfaces_def merge_runtime_names merge_file_names)

lemma merged_distinct: "distinct (map fst (merged_interfaces so))"
  by (simp add: merged_interfaces_def merge_distinct)

text \<open>Every merged record is kept under its own name.\<close>

lemma merge_runtime_name: "vi_name (merge_runtime target runtime) = vi_name target"
  by (simp add: merge_runtime_def Let_def split: prod.split)

lemma named_updates:
  "\<forall>(k, r) \<in> set al. vi_name r = k \<Longrightarrow> \<forall>(k, r) \<in> set (fold (merge_file allowed) rs al). vi_name r = k"
  "\<forall>(k, r) \<in> set al. vi_name r = k \<Longrightarrow> \<forall>(k, r) \<in> set (fold (merge_runtime_record allowed) rs al). vi_name r = k"
proof (induction rs arbitrary: al)
  case (Cons r rs)
  {
    case 1
    have upd: "\<forall>(k, r) \<in> set (AList.update (vi_name x) x al). vi_name r = k" for x
      using 1 by (induction al) auto
    show ?case using Cons.IH(1) [OF upd] Cons.IH(1) [OF 1] by (simp add: merge_file_def)
  next
    case 2
    have upd: "\<forall>(k, r) \<in> set (AList.update n x al). vi_name r = k" if "vi_name x = n" for n x
      using 2 that by (induction al) auto
    have current: "vi_name c = n" if "map_of al n = Some c" for c n using 2 map_of_SomeD [OF that] by auto
    have "\<forall>(k, r) \<in> set (merge_runtime_record allowed r al). vi_name r = k"
    proof (cases "allowed (vi_name r)"; cases "map_of al (vi_name r)")
      fix c assume "map_of al (vi_name r) = Some c" "allowed (vi_name r)"
      with upd [of "merge_runtime c r" "vi_name r"] current show ?thesis
        by (simp add: merge_runtime_record_def merge_runtime_name)
    qed (use 2 upd in \<open>simp_all add: merge_runtime_record_def\<close>)
    from Cons.IH(2) [OF this] show ?case by simp
  }
qed simp_all

text \<open>A refresh sees each interface once: the interfaces of the snapshot are sorted by name, distinct, and exactly the
  allowed names that a file or the kernel has; and merging loses no peer: a merged interface has a peer for each public key
  of the file and of the kernel and no other, in the order of the keys, and once each when the kernel lists each once.\<close>

theorem snapshot_merges_all:
  shows "map vi_name (sp_interfaces (inventory_snapshot so now)) =
      sort_key (map code) (map fst (merged_interfaces so)) \<and>
    distinct (map vi_name (sp_interfaces (inventory_snapshot so now))) \<and>
    vi_name ` set (sp_interfaces (inventory_snapshot so now)) =
      {vi_name r | r. (r \<in> set (fst (so_files so)) \<or> r \<in> set (fst (so_runtime so))) \<and> so_allowed so (vi_name r)} \<and>
    vp_public_key ` set (vi_peers (merge_runtime target runtime)) =
      vp_public_key ` set (vi_peers target) \<union> vp_public_key ` set (vi_peers runtime) \<and>
    sorted (map (\<lambda>p. map code (vp_public_key p)) (vi_peers (merge_runtime target runtime))) \<and>
    (distinct (map vp_public_key (vi_peers runtime)) \<longrightarrow> distinct (map vp_public_key (vi_peers (merge_runtime target runtime))))"
proof -
  let ?m = "merged_interfaces so" and ?names = "sort_key (map code) (map fst (merged_interfaces so))"
  have named: "\<forall>(k, r) \<in> set ?m. vi_name r = k"
    unfolding merged_interfaces_def by (intro named_updates) simp
  have "vi_name (the (map_of ?m n)) = n" if "n \<in> set ?names" for n
  proof -
    from that obtain r where "map_of ?m n = Some r" by (cases "map_of ?m n") (auto simp: map_of_eq_None_iff)
    with named map_of_SomeD [OF this] show ?thesis by auto
  qed
  then have names: "map vi_name (sp_interfaces (inventory_snapshot so now)) = ?names"
    by (auto simp: inventory_snapshot_def Let_def split: prod.split intro!: map_idI)
  have "distinct ?names" using merged_distinct by simp
  moreover from names have "vi_name ` set (sp_interfaces (inventory_snapshot so now)) = fst ` set ?m"
    by (metis list.set_map set_sort)
  moreover define files where "files = fold (\<lambda>p. AList.update (vp_public_key p) p) (vi_peers target) []"
  moreover obtain out rest where mp: "merge_peers files (vi_peers runtime) = (out, rest)" by fastforce
  moreover have f: "distinct (map fst files)" "\<forall>(k, p) \<in> set files. vp_public_key p = k"
    "fst ` set files = vp_public_key ` set (vi_peers target)"
    unfolding files_def by (simp add: distinct_updates, rule keyed_updates, simp_all add: keys_updates)
  note k = merge_peers_keys [OF mp f(1,2)]
  have peers: "vi_peers (merge_runtime target runtime) =
      sort_key (\<lambda>p. map code (vp_public_key p)) (out @ map (\<lambda>(k, p). p\<lparr>vp_activity_state := ''unknown''\<rparr>) rest)"
    by (simp add: merge_runtime_def mp [unfolded files_def] Let_def)
  have rest: "map vp_public_key (map (\<lambda>(k, p). p\<lparr>vp_activity_state := ''unknown''\<rparr>) rest) = map fst rest"
    using k by auto
  then have rest_set: "vp_public_key ` set (map (\<lambda>(k, p). p\<lparr>vp_activity_state := ''unknown''\<rparr>) rest) = fst ` set rest"
    by (metis list.set_map)
  have out_set: "vp_public_key ` set out = vp_public_key ` set (vi_peers runtime)" using k by (metis list.set_map)
  have "vp_public_key ` set (vi_peers (merge_runtime target runtime)) =
      vp_public_key ` set (vi_peers target) \<union> vp_public_key ` set (vi_peers runtime)"
    unfolding peers using out_set rest_set k f(3) by (auto simp: image_Un simp del: set_map)
  moreover have "distinct (map vp_public_key (vi_peers (merge_runtime target runtime)))"
    if "distinct (map vp_public_key (vi_peers runtime))"
  proof -
    have "distinct (map vp_public_key (out @ map (\<lambda>(k, p). p\<lparr>vp_activity_state := ''unknown''\<rparr>) rest))"
      using that k rest by (auto simp: distinct_append simp del: map_map)
    then show ?thesis unfolding peers distinct_map set_sort distinct_sort .
  qed
  ultimately show ?thesis using names merged_names peers by simp
qed

definition demo_inv_peer :: "string \<Rightarrow> string \<Rightarrow> inv_peer" where
  "demo_inv_peer name key = \<lparr>vp_name = name, vp_public_key = key, vp_endpoint = [], vp_persistent_keepalive = 0,
     vp_allowed_ips = [], vp_latest_handshake_at = zero_time, vp_transfer_rx = 0, vp_transfer_tx = 0,
     vp_runtime_seen_at = zero_time, vp_activity_state = ''unknown'', vp_psk_present = False, vp_psk_fingerprint = []\<rparr>"

definition demo_inv :: "string \<Rightarrow> inv_peer list \<Rightarrow> inv_interface" where
  "demo_inv name peers = \<lparr>vi_name = name, vi_backend = ''wg_quick'', vi_management_mode = [], vi_config_path = [],
     vi_service_unit = [], vi_file_hash = ''f'', vi_runtime_fingerprint = ''r'', vi_drift_state = ''none'',
     vi_config_present = True, vi_runtime_present = True, vi_save_config_detected = False, vi_addresses = [],
     vi_peers = peers\<rparr>"

definition demo_sources :: sources where
  "demo_sources = \<lparr>so_files = ([demo_inv ''wg1'' [], demo_inv ''wg0'' [demo_inv_peer ''ann'' ''b'']], [], None),
     so_runtime = ([demo_inv ''wg0'' [demo_inv_peer [] ''b'', demo_inv_peer [] ''a''], demo_inv ''tun'' []], None),
     so_addresses = (\<lambda>names. (\<lambda>n. [], None)), so_allowed = (\<lambda>n. n \<noteq> ''tun'')\<rparr>"

theorem snapshot_merges_all_witness:
  "map vi_name (sp_interfaces (inventory_snapshot demo_sources 0)) = [''wg0'', ''wg1''] \<and>
   distinct (map vp_public_key (vi_peers (merge_runtime (demo_inv ''wg0'' [demo_inv_peer ''ann'' ''b''])
     (demo_inv ''wg0'' [demo_inv_peer [] ''b'', demo_inv_peer [] ''a'']))))"
proof
  have "sort_key (map code) (map fst (merged_interfaces demo_sources)) = [''wg0'', ''wg1'']" by code_simp
  then show "map vi_name (sp_interfaces (inventory_snapshot demo_sources 0)) = [''wg0'', ''wg1'']"
    using conjunct1 [OF snapshot_merges_all [of demo_sources 0 undefined undefined]] by simp
  show "distinct (map vp_public_key (vi_peers (merge_runtime (demo_inv ''wg0'' [demo_inv_peer ''ann'' ''b''])
     (demo_inv ''wg0'' [demo_inv_peer [] ''b'', demo_inv_peer [] ''a'']))))"
    using snapshot_merges_all [of demo_sources 0 "demo_inv ''wg0'' [demo_inv_peer ''ann'' ''b'']"
        "demo_inv ''wg0'' [demo_inv_peer [] ''b'', demo_inv_peer [] ''a'']"]
    by (simp add: demo_inv_def demo_inv_peer_def)
qed

end
