(* ===== verification/InventoryStore.thy ===== *)
theory InventoryStore
  imports PeerStore Inventory
begin

text \<open>
  \<^verbatim>\<open>src/internal/agent/repository/repository.go\<close>: the system state, the inventory refresh and the queries
  of interfaces and peers. Identifiers are drawn one after the other; the counter of the next one travels with
  the database, and \<open>clock\<close> is the repository's clock at that point.
\<close>

type_synonym counted_db = "nat \<times> agent_db"

section \<open>The system state\<close>

definition schema_version :: int where
  "schema_version = 4"

definition initialize_system_state :: "string \<Rightarrow> time \<Rightarrow> agent_db \<Rightarrow> (repo_error + unit) \<times> agent_db" where
  "initialize_system_state gateway now db =
     (let db1 = (case db_gateway_id db of
            None \<Rightarrow> db\<lparr>db_gateway_id := Some gateway, db_schema_version := schema_version, db_key_version := 0,
              db_state_updated_ms := unix_milli now\<rparr>
          | Some g \<Rightarrow> db) in
      (bind_r (case db_gateway_id db1 of None \<Rightarrow> Inl (WrapRepo ''read system state'' SqlNoRows) | Some g \<Rightarrow> Inr g) (\<lambda>stored.
       bind_r (check (stored = gateway)
         (RepoError ''gateway_id mismatch: database belongs to a different gateway'')) (\<lambda>_.
       bind_r (check (db_schema_version db1 = schema_version) (RepoError ''schema version mismatch'')) (\<lambda>_. Inr ()))), db1))"

definition current_key_version :: "agent_db \<Rightarrow> repo_error + int" where
  "current_key_version db =
     (if db_gateway_id db = None then Inl (WrapRepo ''read current key version'' SqlNoRows)
      else if db_key_version db < 0 \<or> db_key_version db > 2 ^ 32 - 1
      then Inl (RepoError ''current key version is out of range'')
      else Inr (db_key_version db))"

definition initialize_key_version :: "32 word \<Rightarrow> time \<Rightarrow> agent_db \<Rightarrow> (repo_error + unit) \<times> agent_db" where
  "initialize_key_version version now db =
     (if version = 0 then (Inl (RepoError ''key version must be positive''), db)
      else commit_tx db (
        bind_r (if db_gateway_id db = None then Inl SqlNoRows else Inr (db_key_version db)) (\<lambda>current.
        bind_r (check (\<not> (current \<noteq> 0 \<and> current \<noteq> uint version))
          (RepoError ''current key version is already initialized'')) (\<lambda>_.
        bind_r (check (\<not> (current = 0 \<and> length (db_envelopes db) \<noteq> 0))
          (RepoError ''cannot initialize key version while secret envelopes exist'')) (\<lambda>_.
        Inr ((), db\<lparr>db_key_version := uint version, db_state_updated_ms := unix_milli now\<rparr>))))))"

section \<open>Interfaces\<close>

definition classify_drift :: "string \<Rightarrow> string \<Rightarrow> string \<Rightarrow> string \<Rightarrow> string" where
  "classify_drift current_file current_runtime applied_file applied_runtime =
     (if applied_file = [] \<and> applied_runtime = [] then ''unknown''
      else
        let file_changed = current_file \<noteq> applied_file; runtime_changed = current_runtime \<noteq> applied_runtime in
        if file_changed \<and> runtime_changed then ''both''
        else if file_changed then ''file''
        else if runtime_changed then ''runtime''
        else ''none'')"

definition service_owner :: "inv_interface \<Rightarrow> string option" where
  "service_owner item = (if vi_service_unit item = [] then None else Some ''systemd'')"

definition observed_row :: "string \<Rightarrow> inv_interface \<Rightarrow> string \<Rightarrow> int \<Rightarrow> iface_row" where
  "observed_row iid item drift now_ms =
     \<lparr>i_id = iid, i_name = vi_name item, i_backend = vi_backend item, i_namespace_kind = ''host'',
      i_management_mode = ''observed'', i_config_path = nullable (vi_config_path item),
      i_service_owner = service_owner item, i_service_unit = nullable (vi_service_unit item),
      i_save_config_detected = vi_save_config_detected item, i_config_present = vi_config_present item,
      i_runtime_present = vi_runtime_present item, i_file_hash = nullable (vi_file_hash item),
      i_runtime_fingerprint = nullable (vi_runtime_fingerprint item), i_last_applied_revision_id = None,
      i_revision = 0, i_drift_state = drift, i_deployment_profile = None, i_firewall_mode = None,
      i_managed_firewall_backend = None, i_listen_port = None, i_public_key = None, i_auto_start = False,
      i_service_state = ''unknown'', i_last_seen_at_ms = now_ms, i_created_at_ms = now_ms, i_updated_at_ms = now_ms\<rparr>"

text \<open>\<open>ON CONFLICT(name) DO UPDATE\<close>: what an existing row takes from the new one.\<close>

definition refreshed_row :: "iface_row \<Rightarrow> iface_row \<Rightarrow> iface_row" where
  "refreshed_row ex r = r\<lparr>i_backend := i_backend ex, i_config_path := i_config_path ex,
     i_service_owner := i_service_owner ex, i_service_unit := i_service_unit ex,
     i_save_config_detected := i_save_config_detected ex, i_config_present := i_config_present ex,
     i_runtime_present := i_runtime_present ex, i_file_hash := i_file_hash ex,
     i_runtime_fingerprint := i_runtime_fingerprint ex,
     i_drift_state := (if i_drift_state r = ''secret'' then ''secret'' else i_drift_state ex),
     i_last_seen_at_ms := i_last_seen_at_ms ex, i_updated_at_ms := i_updated_at_ms ex\<rparr>"

definition observed_checks :: "iface_row \<Rightarrow> (bool \<times> string) list" where
  "observed_checks r =
     [(i_backend r \<in> set [''wg_quick'', ''runtime_only'', ''networkmanager'', ''networkd'', ''container'', ''unknown''],
       ''interfaces.backend''),
      (i_drift_state r \<in> set [''none'', ''file'', ''runtime'', ''both'', ''secret'', ''unknown''], ''interfaces.drift_state'')]"

text \<open>The hashes of the last applied revision, by the \<open>LEFT JOIN\<close>.\<close>

definition applied_hashes :: "iface_row \<Rightarrow> agent_db \<Rightarrow> string \<times> string" where
  "applied_hashes r db =
     (case i_last_applied_revision_id r of
        None \<Rightarrow> ([], [])
      | Some rid \<Rightarrow>
          (case find (\<lambda>v. rv_id v = rid) (db_revisions db) of
             None \<Rightarrow> ([], [])
           | Some v \<Rightarrow> (coalesce (rv_file_hash v), coalesce (rv_runtime_fingerprint v))))"

definition upsert_interface ::
  "id_source \<Rightarrow> int \<Rightarrow> inv_interface \<Rightarrow> counted_db \<Rightarrow> repo_error + (string \<times> string) \<times> counted_db" where
  "upsert_interface gen now_ms item = (\<lambda>(k, db).
     let drift = (if vi_drift_state item = [] then ''unknown'' else vi_drift_state item) in
     (case find (\<lambda>r. i_name r = vi_name item) (db_interfaces db) of
        None \<Rightarrow>
          bind_r (gen k (of_milli now_ms)) (\<lambda>iid.
          bind_r (wrap_r ''upsert interface'' (insert_interface (observed_row iid item drift now_ms) db)) (\<lambda>db1.
          Inr ((iid, ''observed''), Suc k, db1)))
      | Some r \<Rightarrow>
          (let (applied_file, applied_runtime) = applied_hashes r db;
               drift = (if i_management_mode r \<noteq> ''observed''
                 then classify_drift (vi_file_hash item) (vi_runtime_fingerprint item) applied_file applied_runtime
                 else drift);
               ex = observed_row (i_id r) item drift now_ms in
           bind_r (wrap_r ''upsert interface'' (constraints (observed_checks ex))) (\<lambda>_.
           bind_r (update_interfaces (\<lambda>x. i_name x = vi_name item) (refreshed_row ex) db) (\<lambda>(n, db1).
           Inr ((i_id r, i_management_mode r), k, db1))))))"

definition add_address ::
  "id_source \<Rightarrow> (nat \<Rightarrow> time) \<Rightarrow> string \<Rightarrow> inv_address \<Rightarrow> counted_db \<Rightarrow> repo_error + counted_db" where
  "add_address gen clock iid a = (\<lambda>(k, db).
     bind_r (gen k (clock k)) (\<lambda>aid.
     bind_r (wrap_r ''insert interface address'' (insert_address_or_ignore
       \<lparr>ia_id = aid, ia_interface_id = iid, ia_family = ad_family a, ia_address = ad_address a,
        ia_prefix_length = ad_prefix_length a, ia_source = ad_source a\<rparr> db)) (\<lambda>db1.
     Inr (Suc k, db1))))"

definition replace_addresses ::
  "id_source \<Rightarrow> (nat \<Rightarrow> time) \<Rightarrow> string \<Rightarrow> inv_address list \<Rightarrow> counted_db \<Rightarrow> repo_error + counted_db" where
  "replace_addresses gen clock iid addresses = (\<lambda>(k, db).
     fold_r (add_address gen clock iid) addresses
       (k, db\<lparr>db_addresses := filter (\<lambda>r. \<not> (ia_interface_id r = iid \<and> ia_source r \<in> {''file'', ''runtime''}))
          (db_addresses db)\<rparr>))"

section \<open>Peers\<close>

definition unix_milli_or_zero :: "time \<Rightarrow> int" where
  "unix_milli_or_zero t = (if t = zero_time then 0 else unix_milli t)"

text \<open>An argument of type \<open>uint64\<close>: \<open>database/sql\<close> refuses one with the high bit set.\<close>

definition bind_uint64 :: "64 word \<Rightarrow> repo_error + int" where
  "bind_uint64 w = (if uint w \<ge> 2 ^ 63 then Inl (RepoError ''uint64 values with high bit set are not supported'')
     else Inr (uint w))"

text \<open>The upsert of \<open>peer_runtime\<close>, the same in both callers.\<close>

definition put_runtime :: "string \<Rightarrow> inv_peer \<Rightarrow> agent_db \<Rightarrow> repo_error + agent_db" where
  "put_runtime pid peer db =
     bind_r (bind_uint64 (vp_transfer_rx peer)) (\<lambda>rx.
     bind_r (bind_uint64 (vp_transfer_tx peer)) (\<lambda>tx.
     let row = \<lparr>rt_peer_id = pid, rt_endpoint = nullable (vp_endpoint peer),
           rt_latest_handshake_at_ms = unix_milli_or_zero (vp_latest_handshake_at peer),
           rt_transfer_rx_bytes = rx, rt_transfer_tx_bytes = tx,
           rt_runtime_seen_at_ms = unix_milli (vp_runtime_seen_at peer), rt_activity_state = vp_activity_state peer\<rparr> in
     bind_r (constraints
       [(rt_activity_state row \<in> set [''never_seen'', ''active'', ''idle'', ''unknown''], ''peer_runtime.activity_state''),
        (pid \<in> p_id ` set (db_peers db), ''peer_runtime.peer_id'')]) (\<lambda>_.
     Inr (db\<lparr>db_runtime := (if pid \<in> rt_peer_id ` set (db_runtime db)
       then update_rows (\<lambda>r. rt_peer_id r = pid) (\<lambda>_. row) (db_runtime db)
       else db_runtime db @ [row])\<rparr>))))"

definition observed_peer_row :: "string \<Rightarrow> string \<Rightarrow> inv_peer \<Rightarrow> int \<Rightarrow> peer_row" where
  "observed_peer_row pid iid peer now_ms =
     \<lparr>p_id = pid, p_interface_id = iid, p_name = vp_name peer, p_public_key = vp_public_key peer,
      p_key_mode = ''external'', p_lifecycle_state = ''active'', p_config_revision_id = None,
      p_archived_block_secret_id = None, p_endpoint = nullable (vp_endpoint peer),
      p_persistent_keepalive = vp_persistent_keepalive peer, p_observed_present = True,
      p_last_seen_at_ms = now_ms, p_created_at_ms = now_ms, p_updated_at_ms = now_ms, p_revoked_at_ms = None\<rparr>"

definition refreshed_peer :: "peer_row \<Rightarrow> peer_row \<Rightarrow> peer_row" where
  "refreshed_peer ex p = p\<lparr>p_name := (if p_key_mode p = ''external'' then p_name ex else p_name p),
     p_endpoint := p_endpoint ex, p_persistent_keepalive := p_persistent_keepalive ex,
     p_observed_present := True, p_last_seen_at_ms := p_last_seen_at_ms ex, p_updated_at_ms := p_updated_at_ms ex\<rparr>"

definition add_observed_allowed ::
  "id_source \<Rightarrow> (nat \<Rightarrow> time) \<Rightarrow> string \<Rightarrow> int \<Rightarrow> string \<Rightarrow> counted_db \<Rightarrow> repo_error + counted_db" where
  "add_observed_allowed gen clock pid now_ms prefix = (\<lambda>(k, db).
     bind_r (gen k (clock k)) (\<lambda>aid.
     bind_r (wrap_r ''insert peer allowed IP'' (insert_allowed
       \<lparr>pa_id = aid, pa_peer_id = pid, pa_cidr = prefix, pa_purpose = ''tunnel_address'', pa_created_at_ms = now_ms\<rparr> db)) (\<lambda>db1.
     Inr (Suc k, db1))))"

definition upsert_peer_row :: "id_source \<Rightarrow> string \<Rightarrow> inv_peer \<Rightarrow> int \<Rightarrow> counted_db \<Rightarrow> repo_error + string \<times> counted_db" where
  "upsert_peer_row gen iid peer now_ms = (\<lambda>(k, db).
     (case find (\<lambda>p. p_interface_id p = iid \<and> p_public_key p = vp_public_key peer) (db_peers db) of
        None \<Rightarrow>
          bind_r (gen k (of_milli now_ms)) (\<lambda>pid.
          bind_r (wrap_r ''upsert peer'' (insert_peer (observed_peer_row pid iid peer now_ms) db)) (\<lambda>db1.
          Inr (pid, Suc k, db1)))
      | Some p \<Rightarrow>
          bind_r (update_peers (\<lambda>x. p_interface_id x = iid \<and> p_public_key x = vp_public_key peer)
            (refreshed_peer (observed_peer_row (p_id p) iid peer now_ms)) db) (\<lambda>(n, db1).
          Inr (p_id p, k, db1))))"

definition upsert_peer ::
  "id_source \<Rightarrow> (nat \<Rightarrow> time) \<Rightarrow> string \<Rightarrow> int \<Rightarrow> inv_peer \<Rightarrow> counted_db \<Rightarrow> repo_error + counted_db" where
  "upsert_peer gen clock iid now_ms peer s =
     bind_r (upsert_peer_row gen iid peer now_ms s) (\<lambda>(pid, k, db).
     bind_r (fold_r (add_observed_allowed gen clock pid now_ms) (vp_allowed_ips peer)
       (k, db\<lparr>db_allowed := filter (\<lambda>r. pa_peer_id r \<noteq> pid) (db_allowed db)\<rparr>)) (\<lambda>(k1, db1).
     if vp_runtime_seen_at peer = zero_time then Inr (k1, db1)
     else bind_r (wrap_r ''upsert peer runtime'' (put_runtime pid peer db1)) (\<lambda>db2. Inr (k1, db2))))"

text \<open>The stored fingerprint of the preshared key, empty without one.\<close>

definition stored_fingerprint :: "string \<Rightarrow> agent_db \<Rightarrow> string" where
  "stored_fingerprint pid db =
     (case find (\<lambda>c. cp_peer_id c = pid) (db_profiles db) of
        None \<Rightarrow> []
      | Some c \<Rightarrow>
          (case cp_preshared_secret_id c of
             None \<Rightarrow> []
           | Some eid \<Rightarrow>
               (case find (\<lambda>e. se_id e = eid) (db_envelopes db) of
                  None \<Rightarrow> []
                | Some e \<Rightarrow> coalesce (se_secret_fingerprint e))))"

definition secret_drift :: "string \<Rightarrow> inv_peer \<Rightarrow> bool" where
  "secret_drift stored peer =
     (if length stored > 0 \<and> \<not> vp_psk_present peer then True
      else if length stored = 0 \<and> vp_psk_present peer then True
      else if length stored > 0 \<and> length (vp_psk_fingerprint peer) > 0 then stored \<noteq> vp_psk_fingerprint peer
      else False)"

definition update_managed_peer_runtime ::
  "(nat \<Rightarrow> time) \<Rightarrow> string \<Rightarrow> inv_peer \<Rightarrow> counted_db \<Rightarrow> repo_error + counted_db" where
  "update_managed_peer_runtime clock iid peer = (\<lambda>(k, db).
     (case find (\<lambda>p. p_interface_id p = iid \<and> p_public_key p = vp_public_key peer) (db_peers db) of
        None \<Rightarrow> Inr (k, db)
      | Some p \<Rightarrow>
          bind_r (if secret_drift (stored_fingerprint (p_id p) db) peer
                  then update_interfaces (\<lambda>r. i_id r = iid)
                    (\<lambda>r. r\<lparr>i_drift_state := ''secret'', i_updated_at_ms := unix_milli (clock k)\<rparr>) db
                  else Inr (0, db)) (\<lambda>(n, db1).
          if vp_runtime_seen_at peer = zero_time then Inr (k, db1)
          else bind_r (wrap_r ''update managed peer runtime'' (put_runtime (p_id p) peer db1)) (\<lambda>db2. Inr (k, db2)))))"

section \<open>The refresh\<close>

definition is_observed :: "agent_db \<Rightarrow> string \<Rightarrow> bool" where
  "is_observed db iid \<longleftrightarrow> (\<exists>r \<in> set (db_interfaces db). i_id r = iid \<and> i_management_mode r = ''observed'')"

text \<open>The three statements that make the observed inventory stale.\<close>

definition mark_stale :: "int \<Rightarrow> agent_db \<Rightarrow> agent_db" where
  "mark_stale now_ms db =
     (let db1 = db\<lparr>db_interfaces := update_rows (\<lambda>r. i_management_mode r = ''observed'')
            (\<lambda>r. r\<lparr>i_config_present := False, i_runtime_present := False, i_updated_at_ms := now_ms\<rparr>) (db_interfaces db)\<rparr>;
          db2 = db1\<lparr>db_peers := update_rows
            (\<lambda>p. is_observed db1 (p_interface_id p) \<and> p_lifecycle_state p = ''active'')
            (\<lambda>p. p\<lparr>p_observed_present := False\<rparr>) (db_peers db1)\<rparr> in
      db2\<lparr>db_runtime := filter (\<lambda>r. \<not> (\<exists>p \<in> set (db_peers db2). p_id p = rt_peer_id r \<and>
        is_observed db2 (p_interface_id p))) (db_runtime db2)\<rparr>)"

definition refresh_peer ::
  "id_source \<Rightarrow> (nat \<Rightarrow> time) \<Rightarrow> string \<Rightarrow> string \<Rightarrow> int \<Rightarrow> inv_peer \<Rightarrow> counted_db \<Rightarrow> repo_error + counted_db" where
  "refresh_peer gen clock iid mode now_ms peer s =
     (if mode = ''observed'' then upsert_peer gen clock iid now_ms peer s
      else update_managed_peer_runtime clock iid peer s)"

definition refresh_interface ::
  "id_source \<Rightarrow> (nat \<Rightarrow> time) \<Rightarrow> int \<Rightarrow> inv_interface \<Rightarrow> counted_db \<Rightarrow> repo_error + counted_db" where
  "refresh_interface gen clock now_ms item s =
     bind_r (upsert_interface gen now_ms item s) (\<lambda>((iid, mode), s1).
     bind_r (replace_addresses gen clock iid (vi_addresses item) s1) (\<lambda>s2.
     fold_r (refresh_peer gen clock iid mode now_ms) (vi_peers item) s2))"

definition replace_inventory ::
  "id_source \<Rightarrow> (nat \<Rightarrow> time) \<Rightarrow> inv_snapshot \<Rightarrow> agent_db \<Rightarrow> (repo_error + persist_result) \<times> agent_db" where
  "replace_inventory gen clock snapshot db =
     commit_tx db (
       let now_ms = unix_milli (sp_refreshed_at snapshot) in
       bind_r (fold_r (refresh_interface gen clock now_ms) (sp_interfaces snapshot) (0, mark_stale now_ms db)) (\<lambda>(k, db1).
       Inr (\<lparr>ps_interface_count = length (sp_interfaces snapshot),
             ps_peer_count = sum_list (map (\<lambda>i. length (vi_peers i)) (sp_interfaces snapshot))\<rparr>,
            db1\<lparr>db_state_updated_ms := now_ms\<rparr>)))"

section \<open>Queries\<close>

record interface_record =
  ir_row :: iface_row
  ir_updated_at :: time
  ir_addresses :: "inv_address list"
  ir_peer_count :: nat

record peer_record =
  pq_id :: string
  pq_interface_id :: string
  pq_name :: string
  pq_public_key :: string
  pq_key_mode :: string
  pq_lifecycle_state :: string
  pq_endpoint :: string
  pq_persistent_keepalive :: int
  pq_allowed_ips :: "string list"
  pq_latest_handshake_at :: time
  pq_transfer_rx_bytes :: int
  pq_transfer_tx_bytes :: int
  pq_runtime_seen_at :: time
  pq_activity_state :: string

definition list_addresses :: "agent_db \<Rightarrow> string \<Rightarrow> inv_address list" where
  "list_addresses db iid =
     map (\<lambda>r. \<lparr>ad_family = ia_family r, ad_address = ia_address r, ad_prefix_length = ia_prefix_length r,
       ad_source = ia_source r\<rparr>)
       (sort_key (\<lambda>r. (ia_family r, map code (ia_address r), ia_prefix_length r))
         (filter (\<lambda>r. ia_interface_id r = iid) (db_addresses db)))"

definition list_allowed_ips :: "agent_db \<Rightarrow> string \<Rightarrow> string list" where
  "list_allowed_ips db pid =
     map pa_cidr (sort_key (\<lambda>r. map code (pa_cidr r)) (filter (\<lambda>r. pa_peer_id r = pid) (db_allowed db)))"

text \<open>A peer is listed unless it is active and was not observed.\<close>

definition listed_peer :: "peer_row \<Rightarrow> bool" where
  "listed_peer p \<longleftrightarrow> p_observed_present p \<or> p_lifecycle_state p \<noteq> ''active''"

text \<open>\<open>ir_row\<close> has the columns of the row; a column that is NULL reads as the empty string or zero.\<close>

definition list_interfaces :: "agent_db \<Rightarrow> interface_record list" where
  "list_interfaces db =
     map (\<lambda>r. \<lparr>ir_row = r, ir_updated_at = of_milli (i_updated_at_ms r), ir_addresses = list_addresses db (i_id r),
         ir_peer_count = length (filter (\<lambda>p. p_interface_id p = i_id r \<and> listed_peer p) (db_peers db))\<rparr>)
       (sort_key (\<lambda>r. map code (i_name r)) (db_interfaces db))"

definition get_interface :: "string \<Rightarrow> agent_db \<Rightarrow> repo_error + interface_record" where
  "get_interface iid db = query_row (\<lambda>r. i_id (ir_row r) = iid) (list_interfaces db)"

definition positive_time :: "int \<Rightarrow> time" where
  "positive_time ms = (if ms > 0 then of_milli ms else zero_time)"

definition peer_record_of :: "agent_db \<Rightarrow> peer_row \<Rightarrow> peer_record" where
  "peer_record_of db p =
     (let rt = find (\<lambda>r. rt_peer_id r = p_id p) (db_runtime db) in
      \<lparr>pq_id = p_id p, pq_interface_id = p_interface_id p, pq_name = p_name p, pq_public_key = p_public_key p,
       pq_key_mode = p_key_mode p, pq_lifecycle_state = p_lifecycle_state p,
       pq_endpoint = (case rt of
           None \<Rightarrow> coalesce (p_endpoint p)
         | Some r \<Rightarrow> (case rt_endpoint r of None \<Rightarrow> coalesce (p_endpoint p) | Some e \<Rightarrow> e)),
       pq_persistent_keepalive = p_persistent_keepalive p, pq_allowed_ips = list_allowed_ips db (p_id p),
       pq_latest_handshake_at = positive_time (case rt of None \<Rightarrow> 0 | Some r \<Rightarrow> rt_latest_handshake_at_ms r),
       pq_transfer_rx_bytes = (case rt of None \<Rightarrow> 0 | Some r \<Rightarrow> rt_transfer_rx_bytes r),
       pq_transfer_tx_bytes = (case rt of None \<Rightarrow> 0 | Some r \<Rightarrow> rt_transfer_tx_bytes r),
       pq_runtime_seen_at = positive_time (case rt of None \<Rightarrow> 0 | Some r \<Rightarrow> rt_runtime_seen_at_ms r),
       pq_activity_state = (case rt of None \<Rightarrow> ''unknown'' | Some r \<Rightarrow> rt_activity_state r)\<rparr>)"

definition list_peers :: "string \<Rightarrow> agent_db \<Rightarrow> peer_record list" where
  "list_peers iid db =
     map (peer_record_of db) (sort_key (\<lambda>p. (map code (p_name p), map code (p_public_key p)))
       (filter (\<lambda>p. p_interface_id p = iid \<and> listed_peer p) (db_peers db)))"

definition get_peer :: "string \<Rightarrow> agent_db \<Rightarrow> repo_error + peer_record" where
  "get_peer pid db =
     bind_r (query_row (\<lambda>p. p_id p = pid) (db_peers db)) (\<lambda>p.
     query_row (\<lambda>q. pq_id q = pid) (list_peers (p_interface_id p) db))"

end
