(* ===== verification/InventoryCorrect.thy ===== *)
theory InventoryCorrect
  imports InventoryStore DemoDb
begin

text \<open>
  What a refresh of the inventory does to the database: an interface of its invariants over the statements it
  is made of, and its instances. A refresh never takes the side of the host against what is managed.
\<close>

section \<open>The statements of a refresh\<close>

definition has_iface :: "string \<Rightarrow> string \<Rightarrow> string \<Rightarrow> agent_db \<Rightarrow> bool" where
  "has_iface iid mode name db \<longleftrightarrow> (\<exists>r \<in> set (db_interfaces db). i_id r = iid \<and> i_management_mode r = mode \<and> i_name r = name)"

text \<open>The drift state an existing row is given.\<close>

definition merged_drift :: "iface_row \<Rightarrow> inv_interface \<Rightarrow> agent_db \<Rightarrow> string" where
  "merged_drift r item db =
     (if i_management_mode r \<noteq> ''observed''
      then classify_drift (vi_file_hash item) (vi_runtime_fingerprint item) (fst (applied_hashes r db)) (snd (applied_hashes r db))
      else if vi_drift_state item = [] then ''unknown'' else vi_drift_state item)"

lemma upsert_interface_Inr:
  assumes "upsert_interface gen now_ms item (k, db) = Inr ((iid, mode), k', db')"
  obtains (new) drift where "find (\<lambda>r. i_name r = vi_name item) (db_interfaces db) = None" "mode = ''observed''"
      "key_fresh i_id iid (db_interfaces db)"
      "db' = db\<lparr>db_interfaces := db_interfaces db @ [observed_row iid item drift now_ms]\<rparr>"
      "drift = (if vi_drift_state item = [] then ''unknown'' else vi_drift_state item)"
    | (old) r drift where "find (\<lambda>r. i_name r = vi_name item) (db_interfaces db) = Some r" "iid = i_id r"
      "mode = i_management_mode r"
      "db' = db\<lparr>db_interfaces := update_rows (\<lambda>x. i_name x = vi_name item) (refreshed_row (observed_row (i_id r) item drift now_ms))
         (db_interfaces db)\<rparr>"
      "drift = merged_drift r item db"
proof (cases "find (\<lambda>r. i_name r = vi_name item) (db_interfaces db)")
  case None
  with assms show thesis
    by (intro new [OF None]) (auto simp: upsert_interface_def insert_interface_def observed_row_def Let_def)
next
  case (Some r)
  with assms show thesis
    by (intro old [OF Some]) (auto simp: upsert_interface_def update_interfaces_def merged_drift_def Let_def split: prod.splits)
qed

lemma replace_addresses_Inr:
  assumes "replace_addresses gen clock iid as (k, db) = Inr (k', db')"
  obtains as' where "db' = db\<lparr>db_addresses := as'\<rparr>"
proof -
  have "\<exists>as'. snd s' = db\<lparr>db_addresses := as'\<rparr>"
    if "fold_r (add_address gen clock iid) as s = Inr s'" "\<exists>as'. snd s = db\<lparr>db_addresses := as'\<rparr>" for s s'
    using that(1,2)
  proof (rule fold_r_invariant)
    fix a and s1 s2 :: "nat \<times> agent_db"
    assume "add_address gen clock iid a s1 = Inr s2" "\<exists>as'. snd s1 = db\<lparr>db_addresses := as'\<rparr>"
    then show "\<exists>as'. snd s2 = db\<lparr>db_addresses := as'\<rparr>"
      by (cases s1) (auto simp: add_address_def insert_address_or_ignore_def split: if_splits)
  qed
  from this [of "(k, db\<lparr>db_addresses := filter (\<lambda>r. \<not> (ia_interface_id r = iid \<and> ia_source r \<in> {''file'', ''runtime''}))
      (db_addresses db)\<rparr>)" "(k', db')"] assms that
  show thesis by (auto simp: replace_addresses_def)
qed

lemma put_runtime_Inr:
  assumes "put_runtime pid peer db = Inr db'" obtains rt where "db' = db\<lparr>db_runtime := rt\<rparr>"
  using assms that by (auto simp: put_runtime_def Let_def)

text \<open>The peer rows an observed peer changes, and the allowed addresses: those of one peer of the interface.\<close>

lemma upsert_peer_row_Inr:
  assumes "upsert_peer_row gen iid peer now_ms (k, db) = Inr (pid, k', db')"
  obtains (new) "key_fresh p_id pid (db_peers db)"
      "key_fresh (\<lambda>x. (p_interface_id x, p_public_key x)) (iid, vp_public_key peer) (db_peers db)"
      "db' = db\<lparr>db_peers := db_peers db @ [observed_peer_row pid iid peer now_ms]\<rparr>"
    | (old) p where "p \<in> set (db_peers db)" "p_interface_id p = iid" "p_public_key p = vp_public_key peer" "pid = p_id p"
      "db' = db\<lparr>db_peers := update_rows (\<lambda>x. p_interface_id x = iid \<and> p_public_key x = vp_public_key peer)
         (refreshed_peer (observed_peer_row (p_id p) iid peer now_ms)) (db_peers db)\<rparr>"
proof (cases "find (\<lambda>p. p_interface_id p = iid \<and> p_public_key p = vp_public_key peer) (db_peers db)")
  case None
  with assms show thesis
    by (intro new) (auto simp: upsert_peer_row_def insert_peer_def observed_peer_row_def)
next
  case (Some p)
  with assms show thesis
    by (intro old [of p]) (auto simp: upsert_peer_row_def update_peers_def dest: find_SomeD)
qed

lemma upsert_peer_Inr:
  assumes "upsert_peer gen clock iid now_ms peer (k, db) = Inr (k', db')"
  obtains pid k1 db1 al rt where "upsert_peer_row gen iid peer now_ms (k, db) = Inr (pid, k1, db1)"
    "db' = db1\<lparr>db_allowed := al, db_runtime := rt\<rparr>"
    "filter (\<lambda>a. pa_peer_id a \<noteq> pid) al = filter (\<lambda>a. pa_peer_id a \<noteq> pid) (db_allowed db1)"
proof -
  from assms obtain pid k1 db1 k2 db2 where 1: "upsert_peer_row gen iid peer now_ms (k, db) = Inr (pid, k1, db1)"
    and 2: "fold_r (add_observed_allowed gen clock pid now_ms) (vp_allowed_ips peer)
       (k1, db1\<lparr>db_allowed := filter (\<lambda>r. pa_peer_id r \<noteq> pid) (db_allowed db1)\<rparr>) = Inr (k2, db2)"
    and 3: "db' = db2 \<or> put_runtime pid peer db2 = Inr db'"
    by (auto simp: upsert_peer_def split: if_splits)
  let ?P = "\<lambda>s :: counted_db. \<exists>al. snd s = db1\<lparr>db_allowed := al\<rparr> \<and>
    filter (\<lambda>a. pa_peer_id a \<noteq> pid) al = filter (\<lambda>a. pa_peer_id a \<noteq> pid) (db_allowed db1)"
  have "?P (k2, db2)"
    using 2
  proof (rule fold_r_invariant)
    show "?P (k1, db1\<lparr>db_allowed := filter (\<lambda>r. pa_peer_id r \<noteq> pid) (db_allowed db1)\<rparr>)" by auto
    fix c and s1 s2 :: counted_db
    assume "add_observed_allowed gen clock pid now_ms c s1 = Inr s2" "?P s1"
    then show "?P s2" by (cases s1) (auto simp: add_observed_allowed_def insert_allowed_def)
  qed
  then obtain al where al: "db2 = db1\<lparr>db_allowed := al\<rparr>"
    "filter (\<lambda>a. pa_peer_id a \<noteq> pid) al = filter (\<lambda>a. pa_peer_id a \<noteq> pid) (db_allowed db1)" by auto
  from 3 show thesis
  proof
    assume "db' = db2"
    then show thesis using that [OF 1, of "db_runtime db1" al] al by simp
  next
    assume "put_runtime pid peer db2 = Inr db'"
    then obtain rt where "db' = db2\<lparr>db_runtime := rt\<rparr>" by (rule put_runtime_Inr)
    then show thesis using that [OF 1, of rt al] al by simp
  qed
qed

lemma update_managed_Inr:
  assumes "update_managed_peer_runtime clock iid peer (k, db) = Inr (k', db')"
  obtains rt ifs where "db' = db\<lparr>db_interfaces := ifs, db_runtime := rt\<rparr>"
    "ifs = db_interfaces db \<or> (\<exists>p \<in> set (db_peers db). p_interface_id p = iid \<and> p_public_key p = vp_public_key peer \<and>
       secret_drift (stored_fingerprint (p_id p) db) peer \<and>
       ifs = update_rows (\<lambda>r. i_id r = iid) (\<lambda>r. r\<lparr>i_drift_state := ''secret'', i_updated_at_ms := unix_milli (clock k)\<rparr>)
         (db_interfaces db))"
proof (cases "find (\<lambda>p. p_interface_id p = iid \<and> p_public_key p = vp_public_key peer) (db_peers db)")
  case None
  with assms show thesis
    by (intro that [of "db_runtime db" "db_interfaces db"]) (auto simp: update_managed_peer_runtime_def)
next
  case (Some p)
  let ?secret = "secret_drift (stored_fingerprint (p_id p) db) peer"
  let ?ifs = "if ?secret then update_rows (\<lambda>r. i_id r = iid)
    (\<lambda>r. r\<lparr>i_drift_state := ''secret'', i_updated_at_ms := unix_milli (clock k)\<rparr>) (db_interfaces db) else db_interfaces db"
  let ?db1 = "db\<lparr>db_interfaces := ?ifs\<rparr>"
  from assms Some have "db' = ?db1 \<or> put_runtime (p_id p) peer ?db1 = Inr db'"
    by (auto simp: update_managed_peer_runtime_def update_interfaces_def split: if_splits)
  then obtain rt where "db' = ?db1\<lparr>db_runtime := rt\<rparr>"
  proof
    assume "db' = ?db1"
    then show thesis using that [of "db_runtime db"] by simp
  next
    assume "put_runtime (p_id p) peer ?db1 = Inr db'"
    then show thesis using that by (rule put_runtime_Inr)
  qed
  then show thesis using find_SomeD [OF Some] by (intro that [of rt ?ifs]) auto
qed

lemma secret_has_iface:
  assumes "has_iface iid mode name db"
  shows "has_iface iid mode name (db\<lparr>db_interfaces := update_rows P (\<lambda>r. r\<lparr>i_drift_state := d, i_updated_at_ms := m\<rparr>)
    (db_interfaces db), db_runtime := rt\<rparr>)"
proof -
  let ?f = "\<lambda>r. r\<lparr>i_drift_state := d, i_updated_at_ms := m\<rparr>"
  from assms obtain r where r: "r \<in> set (db_interfaces db)" "i_id r = iid" "i_management_mode r = mode" "i_name r = name"
    by (auto simp: has_iface_def)
  then have "(if P r then ?f r else r) \<in> set (update_rows P ?f (db_interfaces db))" by (auto simp: update_rows_def)
  then show ?thesis unfolding has_iface_def by (auto intro!: rev_bexI simp: r(2-4))
qed

section \<open>The interface of the invariants\<close>

text \<open>\<open>Items\<close> are the interfaces of the snapshot that are still to come.\<close>

locale refresh_invariant =
  fixes I :: "agent_db \<Rightarrow> bool" and Items :: "inv_interface set"
  assumes new: "I db \<Longrightarrow> item \<in> Items \<Longrightarrow> find (\<lambda>r. i_name r = vi_name item) (db_interfaces db) = None \<Longrightarrow>
      key_fresh i_id iid (db_interfaces db) \<Longrightarrow>
      I (db\<lparr>db_interfaces := db_interfaces db @ [observed_row iid item drift now_ms]\<rparr>)"
    and old: "I db \<Longrightarrow> item \<in> Items \<Longrightarrow> find (\<lambda>r. i_name r = vi_name item) (db_interfaces db) = Some r \<Longrightarrow>
      drift = merged_drift r item db \<Longrightarrow>
      I (db\<lparr>db_interfaces := update_rows (\<lambda>x. i_name x = vi_name item) (refreshed_row (observed_row (i_id r) item drift now_ms))
         (db_interfaces db)\<rparr>)"
    and addresses: "I db \<Longrightarrow> I (db\<lparr>db_addresses := as\<rparr>)"
    and runtime: "I db \<Longrightarrow> I (db\<lparr>db_runtime := rt\<rparr>)"
    and peer: "I db \<Longrightarrow> item \<in> Items \<Longrightarrow> has_iface iid ''observed'' (vi_name item) db \<Longrightarrow>
      upsert_peer_row gen iid peer now_ms (k, db) = Inr (pid, k1, db1) \<Longrightarrow>
      filter (\<lambda>a. pa_peer_id a \<noteq> pid) al = filter (\<lambda>a. pa_peer_id a \<noteq> pid) (db_allowed db1) \<Longrightarrow>
      I (db1\<lparr>db_allowed := al\<rparr>)"
    and secret: "I db \<Longrightarrow> item \<in> Items \<Longrightarrow> has_iface iid mode (vi_name item) db \<Longrightarrow> mode \<noteq> ''observed'' \<Longrightarrow>
      I (db\<lparr>db_interfaces := update_rows (\<lambda>r. i_id r = iid)
         (\<lambda>r. r\<lparr>i_drift_state := ''secret'', i_updated_at_ms := t\<rparr>) (db_interfaces db)\<rparr>)"
begin

lemma refresh_peer_keeps:
  assumes "refresh_peer gen clock iid mode now_ms p (k, db) = Inr (k', db')" "I db" "item \<in> Items"
    "has_iface iid mode (vi_name item) db"
  shows "I db' \<and> has_iface iid mode (vi_name item) db'"
proof (cases "mode = ''observed''")
  case True
  with assms(1) have "upsert_peer gen clock iid now_ms p (k, db) = Inr (k', db')" by (simp add: refresh_peer_def)
  then obtain pid k1 db1 al rt where 1: "upsert_peer_row gen iid p now_ms (k, db) = Inr (pid, k1, db1)"
    "filter (\<lambda>a. pa_peer_id a \<noteq> pid) al = filter (\<lambda>a. pa_peer_id a \<noteq> pid) (db_allowed db1)"
    and db': "db' = db1\<lparr>db_allowed := al, db_runtime := rt\<rparr>" by (rule upsert_peer_Inr)
  from peer [OF assms(2,3) _ 1] assms(4) True have "I (db1\<lparr>db_allowed := al\<rparr>)" by simp
  from runtime [OF this, of rt] have "I db'" by (simp add: db')
  moreover from 1(1) have "db_interfaces db1 = db_interfaces db"
    by (rule upsert_peer_row_Inr) auto
  ultimately show ?thesis using assms(4) by (simp add: db' has_iface_def)
next
  case False
  with assms(1) have "update_managed_peer_runtime clock iid p (k, db) = Inr (k', db')" by (simp add: refresh_peer_def)
  then show ?thesis
  proof (rule update_managed_Inr)
    fix rt ifs
    assume db': "db' = db\<lparr>db_interfaces := ifs, db_runtime := rt\<rparr>"
      and ifs: "ifs = db_interfaces db \<or> (\<exists>q \<in> set (db_peers db). p_interface_id q = iid \<and> p_public_key q = vp_public_key p \<and>
       secret_drift (stored_fingerprint (p_id q) db) p \<and>
       ifs = update_rows (\<lambda>r. i_id r = iid) (\<lambda>r. r\<lparr>i_drift_state := ''secret'', i_updated_at_ms := unix_milli (clock k)\<rparr>)
         (db_interfaces db))"
    have "I (db\<lparr>db_interfaces := ifs\<rparr>)"
      using ifs secret [OF assms(2,3,4) False] assms(2) by auto
    from runtime [OF this, of rt] have "I db'" by (simp add: db')
    moreover have "has_iface iid mode (vi_name item) db'"
      using ifs
    proof
      assume "ifs = db_interfaces db"
      with assms(4) show ?thesis by (simp add: db' has_iface_def)
    qed (use secret_has_iface [OF assms(4)] in \<open>auto simp: db'\<close>)
    ultimately show ?thesis ..
  qed
qed

lemma upsert_interface_keeps:
  assumes "upsert_interface gen now_ms item (k, db) = Inr ((iid, mode), k', db')" "I db" "item \<in> Items"
  shows "I db' \<and> has_iface iid mode (vi_name item) db'"
  using assms(1)
proof (cases rule: upsert_interface_Inr)
  case (new drift)
  then show ?thesis using refresh_invariant.new [OF refresh_invariant_axioms assms(2,3)]
    by (auto simp: has_iface_def observed_row_def)
next
  case (old r drift)
  let ?r = "refreshed_row (observed_row (i_id r) item drift now_ms) r"
  from find_SomeD [OF old(1)] have "?r \<in> set (db_interfaces db')" by (auto simp: old(4) update_rows_def)
  then have "has_iface iid mode (vi_name item) db'"
    unfolding has_iface_def by (rule rev_bexI) (use find_SomeD [OF old(1)] old(2,3) in \<open>simp add: refreshed_row_def\<close>)
  with refresh_invariant.old [OF refresh_invariant_axioms assms(2,3) old(1,5)] old(4) show ?thesis by simp
qed

lemma after_upsert_keeps:
  assumes "replace_addresses gen clock iid (vi_addresses item) (k1, db1) = Inr (k2, db2)"
    "fold_r (refresh_peer gen clock iid mode now_ms) (vi_peers item) (k2, db2) = Inr (k', db')"
    "I db1" "has_iface iid mode (vi_name item) db1" "item \<in> Items"
  shows "I db' \<and> has_iface iid mode (vi_name item) db'"
proof -
  from assms(1) obtain as where db2: "db2 = db1\<lparr>db_addresses := as\<rparr>" by (rule replace_addresses_Inr)
  from assms(2) have "I (snd (k', db')) \<and> has_iface iid mode (vi_name item) (snd (k', db'))"
  proof (rule fold_r_invariant)
    show "I (snd (k2, db2)) \<and> has_iface iid mode (vi_name item) (snd (k2, db2))"
      using assms(4) addresses [OF assms(3)] by (simp add: db2 has_iface_def)
    fix p and s1 s2 :: counted_db
    assume "refresh_peer gen clock iid mode now_ms p s1 = Inr s2" "I (snd s1) \<and> has_iface iid mode (vi_name item) (snd s1)"
    then show "I (snd s2) \<and> has_iface iid mode (vi_name item) (snd s2)"
      using refresh_peer_keeps assms(5) by (metis prod.collapse)
  qed
  then show ?thesis by simp
qed

lemma refresh_interface_keeps:
  assumes "refresh_interface gen clock now_ms item (k, db) = Inr (k', db')" "I db" "item \<in> Items"
  shows "I db'"
proof -
  from assms(1) obtain iid mode k1 db1 k2 db2 where 1: "upsert_interface gen now_ms item (k, db) = Inr ((iid, mode), k1, db1)"
    and 2: "replace_addresses gen clock iid (vi_addresses item) (k1, db1) = Inr (k2, db2)"
    and 3: "fold_r (refresh_peer gen clock iid mode now_ms) (vi_peers item) (k2, db2) = Inr (k', db')"
    by (auto simp: refresh_interface_def)
  from after_upsert_keeps [OF 2 3] upsert_interface_keeps [OF 1 assms(2,3)] assms(3) show ?thesis by blast
qed

lemma refresh_items_keep:
  assumes "fold_r (refresh_interface gen clock now_ms) items (k, db) = Inr (k', db')" "I db" "set items \<subseteq> Items"
  shows "I db'"
proof -
  from assms(1) have "I (snd (k', db'))"
  proof (rule fold_r_invariant)
    fix item and s1 s2 :: counted_db
    assume "item \<in> set items" "refresh_interface gen clock now_ms item s1 = Inr s2" "I (snd s1)"
    with refresh_interface_keeps assms(3) show "I (snd s2)" by (metis prod.collapse subsetD)
  qed (simp add: assms(2))
  then show ?thesis by simp
qed

end

section \<open>What is managed\<close>

text \<open>The columns of an interface that a refresh does not write.\<close>

definition iface_core :: "iface_row \<Rightarrow> iface_row" where
  "iface_core r = r\<lparr>i_backend := [], i_config_path := None, i_service_owner := None, i_service_unit := None,
     i_save_config_detected := False, i_config_present := False, i_runtime_present := False, i_file_hash := None,
     i_runtime_fingerprint := None, i_drift_state := [], i_last_seen_at_ms := 0, i_updated_at_ms := 0\<rparr>"

definition managed_row :: "iface_row \<Rightarrow> bool" where
  "managed_row r \<longleftrightarrow> i_management_mode r \<noteq> ''observed''"

definition managed_peer :: "agent_db \<Rightarrow> peer_row \<Rightarrow> bool" where
  "managed_peer db p \<longleftrightarrow> \<not> is_observed db (p_interface_id p)"

definition managed_allowed :: "agent_db \<Rightarrow> allowed_row \<Rightarrow> bool" where
  "managed_allowed db a \<longleftrightarrow> (\<exists>p \<in> set (db_peers db). p_id p = pa_peer_id a \<and> managed_peer db p)"

text \<open>The tables a refresh does not write at all.\<close>

definition refresh_frame :: "agent_db \<Rightarrow> agent_db" where
  "refresh_frame db = db\<lparr>db_interfaces := [], db_addresses := [], db_peers := [], db_allowed := [], db_runtime := [],
     db_state_updated_ms := 0\<rparr>"

definition managed_view :: "agent_db \<Rightarrow> iface_row list \<times> peer_row list \<times> allowed_row list \<times> agent_db" where
  "managed_view db =
     (map iface_core (filter managed_row (db_interfaces db)), filter (managed_peer db) (db_peers db),
      filter (managed_allowed db) (db_allowed db), refresh_frame db)"

definition inventory_wf :: "agent_db \<Rightarrow> bool" where
  "inventory_wf db \<longleftrightarrow> keyed i_id (db_interfaces db) \<and> keyed i_name (db_interfaces db) \<and> keyed p_id (db_peers db) \<and>
     keyed (\<lambda>p. (p_interface_id p, p_public_key p)) (db_peers db) \<and>
     (\<forall>p \<in> set (db_peers db). p_interface_id p \<in> i_id ` set (db_interfaces db))"

lemma filter_update_rows:
  assumes "\<And>r. P r \<Longrightarrow> \<not> Q r \<and> \<not> Q (f r)" shows "filter Q (update_rows P f t) = filter Q t"
  using assms unfolding update_rows_def by (induction t) auto

lemma map_filter_update_rows:
  assumes "\<And>r. P r \<Longrightarrow> Q (f r) = Q r \<and> g (f r) = g r" shows "map g (filter Q (update_rows P f t)) = map g (filter Q t)"
  using assms unfolding update_rows_def by (induction t) auto

lemma map_eq_observed:
  assumes "map (\<lambda>r. (i_id r, i_management_mode r)) (db_interfaces db') = map (\<lambda>r. (i_id r, i_management_mode r)) (db_interfaces db)"
  shows "is_observed db' = is_observed db"
proof
  fix iid
  have "is_observed d iid \<longleftrightarrow> (iid, ''observed'') \<in> set (map (\<lambda>r. (i_id r, i_management_mode r)) (db_interfaces d))" for d
    by (auto simp: is_observed_def)
  then show "is_observed db' iid = is_observed db iid" by (simp only: assms)
qed

text \<open>An update of interface rows that keeps the core and, but for it, the database.\<close>

lemma view_interfaces:
  assumes "inventory_wf db" "\<And>r. P r \<Longrightarrow> iface_core (f r) = iface_core r"
  defines "db' \<equiv> db\<lparr>db_interfaces := update_rows P f (db_interfaces db)\<rparr>"
  shows "inventory_wf db' \<and> managed_view db' = managed_view db \<and> is_observed db' = is_observed db"
proof -
  have core: "i_id (f r) = i_id r \<and> i_name (f r) = i_name r \<and> i_management_mode (f r) = i_management_mode r" if "P r" for r
    using assms(2) [OF that] by (cases r; cases "f r") (simp add: iface_core_def)
  then have obs: "is_observed db' = is_observed db"
    by (intro map_eq_observed) (simp add: db'_def map_update_rows)
  then have "managed_peer db' = managed_peer db" by (simp add: managed_peer_def [abs_def])
  moreover from this have "managed_allowed db' = managed_allowed db" by (simp add: managed_allowed_def [abs_def] db'_def)
  moreover have "map iface_core (filter managed_row (db_interfaces db')) = map iface_core (filter managed_row (db_interfaces db))"
    unfolding db'_def by (simp add: map_filter_update_rows core assms(2) managed_row_def)
  moreover have "keyed i_id (db_interfaces db')" "keyed i_name (db_interfaces db')"
    using assms(1) core by (auto simp: db'_def inventory_wf_def)
  moreover have "i_id ` set (db_interfaces db') = i_id ` set (db_interfaces db)"
    unfolding db'_def set_map [symmetric] by (simp add: map_update_rows core del: set_map)
  ultimately show ?thesis
    using assms(1) obs by (auto simp: managed_view_def refresh_frame_def inventory_wf_def db'_def)
qed

lemma refreshed_core: "iface_core (refreshed_row ex r) = iface_core r"
  by (simp add: iface_core_def refreshed_row_def)

lemma refreshed_peer_keys:
  "p_id (refreshed_peer ex x) = p_id x" "p_interface_id (refreshed_peer ex x) = p_interface_id x"
  "p_public_key (refreshed_peer ex x) = p_public_key x"
  by (simp_all add: refreshed_peer_def)

lemma view_peers:
  assumes "inventory_wf db" "is_observed db iid" "upsert_peer_row gen iid peer now_ms (k, db) = Inr (pid, k1, db1)"
    "filter (\<lambda>a. pa_peer_id a \<noteq> pid) al = filter (\<lambda>a. pa_peer_id a \<noteq> pid) (db_allowed db1)"
  shows "inventory_wf (db1\<lparr>db_allowed := al\<rparr>) \<and> managed_view (db1\<lparr>db_allowed := al\<rparr>) = managed_view db"
proof -
  let ?db' = "db1\<lparr>db_allowed := al\<rparr>"
  obtain ps where db1: "db1 = db\<lparr>db_peers := ps\<rparr>" and wf: "inventory_wf db1"
    and peers: "filter (managed_peer db) ps = filter (managed_peer db) (db_peers db)"
    and pid: "\<And>q. q \<in> set ps \<Longrightarrow> p_id q = pid \<Longrightarrow> p_interface_id q = iid"
    using assms(3)
  proof (cases rule: upsert_peer_row_Inr)
    case new
    have "keyed p_id (db_peers db @ [observed_peer_row pid iid peer now_ms])"
      "keyed (\<lambda>p. (p_interface_id p, p_public_key p)) (db_peers db @ [observed_peer_row pid iid peer now_ms])"
      by (rule keyed_insert; use assms(1) new in \<open>simp add: inventory_wf_def observed_peer_row_def\<close>)+
    moreover have row: "p_id (observed_peer_row pid iid peer now_ms) = pid"
      "p_interface_id (observed_peer_row pid iid peer now_ms) = iid" by (simp_all add: observed_peer_row_def)
    moreover have "iid \<in> i_id ` set (db_interfaces db)" using assms(2) by (auto simp: is_observed_def)
    ultimately show thesis
      using assms(1,2) new
      by (intro that [of "db_peers db @ [observed_peer_row pid iid peer now_ms]"])
        (auto simp: inventory_wf_def managed_peer_def key_fresh_def)
  next
    case (old p)
    let ?P = "\<lambda>x. p_interface_id x = iid \<and> p_public_key x = vp_public_key peer"
    let ?f = "refreshed_peer (observed_peer_row (p_id p) iid peer now_ms)"
    let ?ps = "update_rows ?P ?f (db_peers db)"
    note same = refreshed_peer_keys
    have wf': "inventory_wf (db\<lparr>db_peers := ?ps\<rparr>)"
      using assms(1) by (auto simp: inventory_wf_def same set_update_rows intro!: keyed_update)
    show thesis
    proof (rule that [of ?ps])
      show "filter (managed_peer db) ?ps = filter (managed_peer db) (db_peers db)"
        using assms(2) by (intro filter_update_rows) (auto simp: managed_peer_def same)
      fix q assume "q \<in> set ?ps" "p_id q = pid"
      then obtain x where "x \<in> set (db_peers db)" "p_id x = pid" "p_interface_id x = p_interface_id q"
        by (auto simp: set_update_rows same)
      with old(1,2,4) assms(1) show "p_interface_id q = iid" by (metis inventory_wf_def keyed_eq)
    qed (use old(5) wf' in simp_all)
  qed
  have obs: "is_observed ?db' = is_observed db" by (rule map_eq_observed) (simp add: db1)
  then have mp: "managed_peer ?db' = managed_peer db" by (simp add: managed_peer_def [abs_def])
  have in_filter: "(\<exists>p \<in> set t. p_id p = i \<and> Q p) \<longleftrightarrow> (\<exists>p \<in> set (filter Q t). p_id p = i)" for t i and Q :: "peer_row \<Rightarrow> bool"
    by auto
  have ma: "managed_allowed ?db' = managed_allowed db"
    unfolding managed_allowed_def [abs_def] mp in_filter by (simp add: db1 peers del: filter_set)
  have "pa_peer_id a \<noteq> pid" if "managed_allowed db a" for a
    using that pid assms(2) unfolding ma [symmetric] by (auto simp: managed_allowed_def managed_peer_def obs [unfolded db1] db1)
  then have others: "filter (managed_allowed db) (filter (\<lambda>a. pa_peer_id a \<noteq> pid) t) = filter (managed_allowed db) t" for t
    unfolding filter_filter by (intro filter_cong) auto
  have "filter (managed_allowed db) al = filter (managed_allowed db) (db_allowed db1)"
    using arg_cong [OF assms(4), of "filter (managed_allowed db)"] unfolding others .
  then have "filter (managed_allowed db) al = filter (managed_allowed db) (db_allowed db)" by (simp add: db1)
  with wf peers show ?thesis
    by (simp add: managed_view_def mp [unfolded db1, simplified] ma [unfolded db1, simplified] db1 refresh_frame_def inventory_wf_def)
qed

lemma view_new:
  fixes drift :: string and now_ms :: int
  assumes "inventory_wf db" "find (\<lambda>r. i_name r = vi_name item) (db_interfaces db) = None" "key_fresh i_id iid (db_interfaces db)"
  defines "db' \<equiv> db\<lparr>db_interfaces := db_interfaces db @ [observed_row iid item drift now_ms]\<rparr>"
  shows "inventory_wf db' \<and> managed_view db' = managed_view db"
proof -
  have obs: "is_observed db' (p_interface_id p) = is_observed db (p_interface_id p)" if "p \<in> set (db_peers db)" for p
  proof -
    have "p_interface_id p \<noteq> iid" using assms(1,3) that by (auto simp: inventory_wf_def key_fresh_def)
    then show ?thesis by (auto simp: is_observed_def db'_def observed_row_def)
  qed
  have "managed_allowed db' = managed_allowed db"
    using obs by (auto simp: managed_allowed_def [abs_def] managed_peer_def db'_def fun_eq_iff)
  moreover have "filter (managed_peer db') (db_peers db) = filter (managed_peer db) (db_peers db)"
    using obs by (intro filter_cong) (auto simp: managed_peer_def)
  moreover have "vi_name item \<notin> i_name ` set (db_interfaces db)" using assms(2) by (force simp: find_None_iff)
  then have "keyed i_id (db_interfaces db')" "keyed i_name (db_interfaces db')"
    using assms(1,3) unfolding db'_def by (auto simp: inventory_wf_def observed_row_def key_fresh_def intro!: keyed_insert)
  ultimately show ?thesis
    using assms(1) by (auto simp: managed_view_def db'_def refresh_frame_def inventory_wf_def managed_row_def observed_row_def)
qed

lemma has_iface_observed: "has_iface iid ''observed'' name db \<Longrightarrow> is_observed db iid"
  by (auto simp: has_iface_def is_observed_def)

interpretation view: refresh_invariant "\<lambda>db. inventory_wf db \<and> managed_view db = v" UNIV for v
proof (unfold_locales, goal_cases)
  case (1 db item iid drift now_ms)
  then show ?case using view_new by simp
next
  case (2 db item r drift now_ms)
  then show ?case by (simp add: view_interfaces refreshed_core)
next
  case (5 db item iid gen peer now_ms k pid k1 db1 al)
  then show ?case using view_peers [OF _ has_iface_observed] by blast
next
  case (6 db item iid mode t)
  then show ?case by (simp add: view_interfaces iface_core_def)
qed (auto simp: inventory_wf_def managed_view_def refresh_frame_def managed_allowed_def [abs_def] managed_peer_def [abs_def]
    is_observed_def [abs_def])

end
