(* ===== verification/InventoryRefresh.thy ===== *)
theory InventoryRefresh
  imports InventoryCorrect
begin

text \<open>
  The properties of a refresh, each from an instance of the interface of \<open>InventoryCorrect\<close>: what is managed
  is not taken from the host, the observed inventory is that of the snapshot, a secret drift is caught and
  stays, and what is missing from the host altogether is not noticed for a managed interface.
\<close>

section \<open>The refresh as a whole\<close>

lemma replace_inventory_Inr:
  assumes "replace_inventory gen clock snap db = (Inr res, db')"
  obtains k db1 where "fold_r (refresh_interface gen clock (unix_milli (sp_refreshed_at snap))) (sp_interfaces snap)
      (0, mark_stale (unix_milli (sp_refreshed_at snap)) db) = Inr (k, db1)"
    "db' = db1\<lparr>db_state_updated_ms := unix_milli (sp_refreshed_at snap)\<rparr>"
  using assms by (auto simp: replace_inventory_def commit_tx_Inr Let_def)

lemma stale_row_core:
  "iface_core (r\<lparr>i_config_present := False, i_runtime_present := False, i_updated_at_ms := t\<rparr>) = iface_core r"
  by (simp add: iface_core_def)

lemma mark_stale_view:
  assumes "inventory_wf db"
  shows "inventory_wf (mark_stale t db) \<and> managed_view (mark_stale t db) = managed_view db"
proof -
  let ?f = "\<lambda>r. r\<lparr>i_config_present := False, i_runtime_present := False, i_updated_at_ms := t\<rparr>"
  let ?g = "\<lambda>p. p\<lparr>p_observed_present := False\<rparr>"
  define db1 where "db1 = db\<lparr>db_interfaces := update_rows (\<lambda>r. i_management_mode r = ''observed'') ?f (db_interfaces db)\<rparr>"
  define ps where "ps = update_rows (\<lambda>p. is_observed db1 (p_interface_id p) \<and> p_lifecycle_state p = ''active'') ?g (db_peers db1)"
  from view_interfaces [where P = "\<lambda>r. i_management_mode r = ''observed''" and f = ?f, OF assms stale_row_core]
  have db1: "inventory_wf db1" "managed_view db1 = managed_view db" unfolding db1_def by simp_all
  have obs: "is_observed (db1\<lparr>db_peers := ps\<rparr>) = is_observed db1" by (rule map_eq_observed) simp
  then have mp: "managed_peer (db1\<lparr>db_peers := ps\<rparr>) = managed_peer db1" by (simp add: managed_peer_def [abs_def])
  have peers: "filter (managed_peer db1) ps = filter (managed_peer db1) (db_peers db1)"
    unfolding ps_def by (rule filter_update_rows) (simp add: managed_peer_def)
  have in_filter: "(\<exists>p \<in> set t. p_id p = i \<and> Q p) \<longleftrightarrow> (\<exists>p \<in> set (filter Q t). p_id p = i)" for t i and Q :: "peer_row \<Rightarrow> bool"
    by auto
  have ma: "managed_allowed (db1\<lparr>db_peers := ps\<rparr>) = managed_allowed db1"
    unfolding managed_allowed_def [abs_def] mp in_filter by (simp add: peers del: filter_set)
  have wf: "inventory_wf (db1\<lparr>db_peers := ps\<rparr>)"
    using db1(1) by (auto simp: inventory_wf_def ps_def set_update_rows intro!: keyed_update)
  have v: "managed_view (db1\<lparr>db_peers := ps\<rparr>) = managed_view db1"
    by (simp add: managed_view_def mp ma peers refresh_frame_def)
  have "mark_stale t db = (db1\<lparr>db_peers := ps\<rparr>)\<lparr>db_runtime := filter (\<lambda>r. \<not> (\<exists>p \<in> set ps. p_id p = rt_peer_id r \<and>
      is_observed (db1\<lparr>db_peers := ps\<rparr>) (p_interface_id p))) (db_runtime db)\<rparr>"
    by (simp add: mark_stale_def Let_def ps_def db1_def)
  then show ?thesis using view.runtime [of _ "managed_view db"] wf v db1(2) by simp
qed

lemma prefix_view:
  assumes "inventory_wf db" "fold_r (refresh_interface gen clock t) items (0, mark_stale t db) = Inr (k, db1)"
  shows "inventory_wf db1 \<and> managed_view db1 = managed_view db"
  using view.refresh_items_keep [OF assms(2), of "managed_view db"] mark_stale_view [OF assms(1)] by simp


section \<open>Presence\<close>

definition absent :: "string \<Rightarrow> agent_db \<Rightarrow> bool" where
  "absent n db \<longleftrightarrow> list_all (\<lambda>r. i_management_mode r = ''observed'' \<and> i_name r = n \<longrightarrow>
     \<not> i_config_present r \<and> \<not> i_runtime_present r) (db_interfaces db)"

interpretation absent: refresh_invariant "absent n" "{item. vi_name item \<noteq> n}" for n
  by unfold_locales
    (auto simp: absent_def list_all_iff observed_row_def set_update_rows refreshed_row_def dest: find_SomeD
      elim!: upsert_peer_row_Inr)

text \<open>A row of the name \<open>n\<close> that shows what the snapshot says of \<open>item\<close>.\<close>

definition shows_item :: "inv_interface \<Rightarrow> agent_db \<Rightarrow> iface_row \<Rightarrow> bool" where
  "shows_item item db r \<longleftrightarrow> i_name r = vi_name item \<and> i_config_present r = vi_config_present item \<and>
     i_runtime_present r = vi_runtime_present item \<and> i_file_hash r = nullable (vi_file_hash item) \<and>
     i_runtime_fingerprint r = nullable (vi_runtime_fingerprint item) \<and>
     (i_drift_state r = ''secret'' \<or> i_drift_state r = merged_drift r item db)"

definition shown :: "inv_interface \<Rightarrow> agent_db \<Rightarrow> bool" where
  "shown item db \<longleftrightarrow> keyed i_name (db_interfaces db) \<and> (\<exists>r \<in> set (db_interfaces db). shows_item item db r)"

lemma merged_drift_cong:
  "db_revisions db' = db_revisions db \<Longrightarrow> i_management_mode r' = i_management_mode r \<Longrightarrow>
   i_last_applied_revision_id r' = i_last_applied_revision_id r \<Longrightarrow> merged_drift r' item db' = merged_drift r item db"
  by (cases "i_last_applied_revision_id r") (simp_all add: merged_drift_def applied_hashes_def)

lemma shown_cong:
  assumes "db_revisions db' = db_revisions db" "db_interfaces db' = db_interfaces db"
  shows "shown item db' = shown item db"
proof -
  have "shows_item item db' r = shows_item item db r" for r
    by (simp add: shows_item_def merged_drift_cong [OF assms(1) refl refl])
  then show ?thesis by (simp add: shown_def assms(2))
qed

lemma shown_refreshed:
  assumes "r \<in> set (db_interfaces db)" "i_name r = vi_name item" "drift = merged_drift r item db" "keyed i_name (db_interfaces db)"
  shows "shown item (db\<lparr>db_interfaces := update_rows (\<lambda>x. i_name x = vi_name item)
    (refreshed_row (observed_row (i_id r) item drift now_ms)) (db_interfaces db)\<rparr>)"
proof -
  let ?f = "refreshed_row (observed_row (i_id r) item drift now_ms)"
  have "?f r \<in> set (update_rows (\<lambda>x. i_name x = vi_name item) ?f (db_interfaces db))"
    using assms(1,2) by (auto simp: update_rows_def)
  moreover have "merged_drift (?f r) item (db\<lparr>db_interfaces := t\<rparr>) = merged_drift r item db" for t
    by (rule merged_drift_cong) (simp_all add: refreshed_row_def)
  ultimately show ?thesis
    using assms(2-4) unfolding shown_def shows_item_def
    by (auto simp: refreshed_row_def observed_row_def intro!: keyed_update bexI [of _ "?f r"])
qed

lemma shown_new:
  assumes "find (\<lambda>r. i_name r = vi_name item) (db_interfaces db) = None" "keyed i_name (db_interfaces db)"
    "drift = (if vi_drift_state item = [] then ''unknown'' else vi_drift_state item)"
  shows "shown item (db\<lparr>db_interfaces := db_interfaces db @ [observed_row iid item drift now_ms]\<rparr>)"
proof -
  have "vi_name item \<notin> i_name ` set (db_interfaces db)" using assms(1) by (force simp: find_None_iff)
  with assms(2,3) show ?thesis
    unfolding shown_def shows_item_def
    by (auto simp: observed_row_def key_fresh_def merged_drift_def intro!: keyed_insert)
qed

interpretation shown: refresh_invariant "shown item" "{i. vi_name i = vi_name item \<longrightarrow> i = item}" for item
proof (unfold_locales, goal_cases)
  case (1 db i iid drift now_ms)
  then obtain r where r: "r \<in> set (db_interfaces db)" "shows_item item db r" "keyed i_name (db_interfaces db)"
    by (auto simp: shown_def)
  then have "vi_name i \<notin> i_name ` set (db_interfaces db)" using 1(3) by (force simp: find_None_iff)
  with r(3) have "keyed i_name (db_interfaces db @ [observed_row iid i drift now_ms])"
    by (auto simp: observed_row_def key_fresh_def intro!: keyed_insert)
  moreover have "shows_item item (db\<lparr>db_interfaces := t\<rparr>) r" for t
    using r(2) merged_drift_cong [of "db\<lparr>db_interfaces := t\<rparr>" db r r item] by (simp add: shows_item_def)
  ultimately show ?case using r(1) by (auto simp: shown_def)
next
  case (2 db i r drift now_ms)
  show ?case
  proof (cases "i = item")
    case True
    with find_SomeD [OF 2(3)] 2(1,4) show ?thesis unfolding True by (intro shown_refreshed) (auto simp: shown_def)
  next
    case False
    with 2(2) have ne: "vi_name i \<noteq> vi_name item" by auto
    from 2(1) obtain x where x: "x \<in> set (db_interfaces db)" "shows_item item db x" "keyed i_name (db_interfaces db)"
      by (auto simp: shown_def)
    let ?t = "update_rows (\<lambda>x. i_name x = vi_name i) (refreshed_row (observed_row (i_id r) i drift now_ms)) (db_interfaces db)"
    have "x \<in> set ?t" using x(1,2) ne by (auto simp: set_update_rows shows_item_def)
    moreover have "shows_item item (db\<lparr>db_interfaces := ?t\<rparr>) x"
      using x(2) merged_drift_cong [of "db\<lparr>db_interfaces := ?t\<rparr>" db x x item] by (simp add: shows_item_def)
    moreover have "keyed i_name ?t" using x(3) by (auto simp: refreshed_row_def intro!: keyed_update)
    ultimately show ?thesis by (auto simp: shown_def)
  qed
next
  case (3 db as)
  then show ?case using shown_cong [of "db\<lparr>db_addresses := as\<rparr>" db] by simp
next
  case (4 db rt)
  then show ?case using shown_cong [of "db\<lparr>db_runtime := rt\<rparr>" db] by simp
next
  case (5 db i iid gen peer now_ms k pid k1 db1 al)
  from 5(4) have "db_interfaces db1 = db_interfaces db \<and> db_revisions db1 = db_revisions db" by (rule upsert_peer_row_Inr) auto
  with 5(1) show ?case using shown_cong [of "db1\<lparr>db_allowed := al\<rparr>" db] by simp
next
  case (6 db i iid mode t)
  from 6(1) obtain x where x: "x \<in> set (db_interfaces db)" "shows_item item db x" "keyed i_name (db_interfaces db)"
    by (auto simp: shown_def)
  let ?f = "\<lambda>r. r\<lparr>i_drift_state := ''secret'', i_updated_at_ms := t\<rparr>"
  let ?t = "update_rows (\<lambda>r. i_id r = iid) ?f (db_interfaces db)"
  have "(if i_id x = iid then ?f x else x) \<in> set ?t" by (rule in_update_rows [OF x(1)])
  moreover have "shows_item item (db\<lparr>db_interfaces := ?t\<rparr>) (if i_id x = iid then ?f x else x)"
    using x(2) merged_drift_cong [of "db\<lparr>db_interfaces := ?t\<rparr>" db x x item] by (simp add: shows_item_def)
  moreover have "keyed i_name ?t" using x(3) by (auto intro!: keyed_update)
  ultimately show ?case by (auto simp: shown_def)
qed

lemma fold_r_append: "fold_r f (xs @ ys) s = bind_r (fold_r f xs s) (fold_r f ys)"
proof (induction xs arbitrary: s)
  case (Cons x xs)
  then show ?case by (cases "f x s") simp_all
qed simp

lemma fold_r_split:
  assumes "fold_r f xs s = Inr s'" "x \<in> set xs"
  obtains pre post s1 s2 where "xs = pre @ x # post" "fold_r f pre s = Inr s1" "f x s1 = Inr s2" "fold_r f post s2 = Inr s'"
  using assms by (auto simp: in_set_conv_decomp fold_r_append)

lemma refresh_interface_Inr:
  assumes "refresh_interface gen clock now_ms item (k, db) = Inr (k', db')"
  obtains iid mode k1 db1 k2 db2 where "upsert_interface gen now_ms item (k, db) = Inr ((iid, mode), k1, db1)"
    "replace_addresses gen clock iid (vi_addresses item) (k1, db1) = Inr (k2, db2)"
    "fold_r (refresh_peer gen clock iid mode now_ms) (vi_peers item) (k2, db2) = Inr (k', db')"
  using assms by (auto simp: refresh_interface_def)

text \<open>The row an upsert leaves.\<close>

lemma upsert_has_iface:
  assumes "upsert_interface gen now_ms item (k, db) = Inr ((iid, mode), k', db')"
  shows "has_iface iid mode (vi_name item) db'"
  using assms
proof (cases rule: upsert_interface_Inr)
  case (new drift)
  then show ?thesis by (auto simp: has_iface_def observed_row_def)
next
  case (old r drift)
  let ?f = "refreshed_row (observed_row (i_id r) item drift now_ms)"
  from find_SomeD [OF old(1)] have "?f r \<in> set (db_interfaces db')" by (auto simp: old(4) update_rows_def)
  then show ?thesis
    unfolding has_iface_def by (rule rev_bexI) (use find_SomeD [OF old(1)] old(2,3) in \<open>simp add: refreshed_row_def\<close>)
qed

lemma refresh_shows:
  assumes "refresh_interface gen clock now_ms item (k, db) = Inr (k', db')" "keyed i_name (db_interfaces db)"
  shows "shown item db'"
  using assms(1)
proof (rule refresh_interface_Inr)
  fix iid mode k1 db1 k2 db2
  assume 1: "upsert_interface gen now_ms item (k, db) = Inr ((iid, mode), k1, db1)"
    and 2: "replace_addresses gen clock iid (vi_addresses item) (k1, db1) = Inr (k2, db2)"
      "fold_r (refresh_peer gen clock iid mode now_ms) (vi_peers item) (k2, db2) = Inr (k', db')"
  from 1 have "shown item db1"
  proof (cases rule: upsert_interface_Inr)
    case (new drift)
    then show ?thesis using shown_new assms(2) by simp
  next
    case (old r drift)
    then show ?thesis using shown_refreshed [OF _ _ old(5) assms(2)] find_SomeD [OF old(1)] by simp
  qed
  from shown.after_upsert_keeps [OF 2 this upsert_has_iface [OF 1]] show ?thesis by simp
qed

lemma absent_stale: "absent n (mark_stale t db)"
  by (auto simp: absent_def mark_stale_def Let_def list_all_iff set_update_rows)


section \<open>Secret drift\<close>

definition secret_row :: "string \<Rightarrow> agent_db \<Rightarrow> bool" where
  "secret_row iid db \<longleftrightarrow> (\<exists>r \<in> set (db_interfaces db). i_id r = iid \<and> i_drift_state r = ''secret'')"

lemma secret_row_update:
  assumes "secret_row iid db" "\<And>r. i_id (f r) = i_id r \<and> (i_drift_state r = ''secret'' \<longrightarrow> i_drift_state (f r) = ''secret'')"
  shows "secret_row iid (db\<lparr>db_interfaces := update_rows P f (db_interfaces db)\<rparr>)"
proof -
  from assms(1) obtain r where r: "r \<in> set (db_interfaces db)" "i_id r = iid" "i_drift_state r = ''secret''"
    by (auto simp: secret_row_def)
  have "(if P r then f r else r) \<in> set (update_rows P f (db_interfaces db))" by (rule in_update_rows [OF r(1)])
  moreover have "i_id (if P r then f r else r) = iid" "i_drift_state (if P r then f r else r) = ''secret''"
    using r assms(2) [of r] by simp_all
  ultimately show ?thesis unfolding secret_row_def by fastforce
qed

interpretation secret: refresh_invariant "secret_row iid" UNIV for iid
proof (unfold_locales, goal_cases)
  case (2 db item r drift now_ms)
  then show ?case by (intro secret_row_update) (simp_all add: refreshed_row_def)
next
  case (6 db item iid' mode t)
  then show ?case by (intro secret_row_update) simp_all
next
  case (5 db item iid' gen peer now_ms k pid k1 db1 al)
  from 5(4) have "db_interfaces db1 = db_interfaces db" by (rule upsert_peer_row_Inr) auto
  with 5(1) show ?case by (simp add: secret_row_def)
qed (auto simp: secret_row_def)

lemma secret_row_stale: "secret_row iid db \<Longrightarrow> secret_row iid (mark_stale t db)"
  using secret_row_update [of iid db "\<lambda>r. r\<lparr>i_config_present := False, i_runtime_present := False, i_updated_at_ms := t\<rparr>"
      "\<lambda>r. i_management_mode r = ''observed''"]
  by (simp add: mark_stale_def Let_def secret_row_def)

text \<open>A fold meets its element in a state the invariant holds of.\<close>

lemma fold_r_meets:
  assumes "fold_r f xs s = Inr s'" "x \<in> set xs" "P s"
    "\<And>x s s'. x \<in> set xs \<Longrightarrow> f x s = Inr s' \<Longrightarrow> P s \<Longrightarrow> P s'"
    "\<And>s s'. f x s = Inr s' \<Longrightarrow> P s \<Longrightarrow> Q s'"
    "\<And>y s s'. y \<in> set xs \<Longrightarrow> f y s = Inr s' \<Longrightarrow> P s \<Longrightarrow> Q s \<Longrightarrow> Q s'"
  shows "P s' \<and> Q s'"
  using assms(1,2)
proof (rule fold_r_split)
  fix pre post s1 s2
  assume xs: "xs = pre @ x # post" and f: "fold_r f pre s = Inr s1" "f x s1 = Inr s2" "fold_r f post s2 = Inr s'"
  from f(1) have s1: "P s1" by (rule fold_r_invariant [where P = P, OF _ assms(3)]) (use assms(4) xs in auto)
  have s2: "P s2 \<and> Q s2" using assms(4) [OF assms(2) f(2) s1] assms(5) [OF f(2) s1] ..
  from f(3) show ?thesis
  proof (rule fold_r_invariant [where P = "\<lambda>s. P s \<and> Q s", OF _ s2])
    fix y a b assume y: "y \<in> set post" "f y a = Inr b" "P a \<and> Q a"
    then have "y \<in> set xs" by (simp add: xs)
    with y assms(4) [of y a b] assms(6) [of y a b] show "P b \<and> Q b" by blast
  qed
qed

text \<open>What a refresh reads of a managed peer is in the view.\<close>

lemma view_peer:
  assumes "managed_view db = managed_view db0" "p \<in> set (db_peers db0)" "managed_peer db0 p"
  shows "p \<in> set (db_peers db)" "stored_fingerprint pid db = stored_fingerprint pid db0"
proof -
  from assms(1) have "filter (managed_peer db) (db_peers db) = filter (managed_peer db0) (db_peers db0)"
    by (simp add: managed_view_def)
  moreover have "p \<in> set (filter (managed_peer db0) (db_peers db0))" using assms(2,3) by simp
  ultimately show "p \<in> set (db_peers db)" by (metis filter_is_subset subsetD)
  from assms(1) have "refresh_frame db = refresh_frame db0" by (simp add: managed_view_def)
  then have "db_profiles db = db_profiles db0 \<and> db_envelopes db = db_envelopes db0"
    by (cases db; cases db0) (simp add: refresh_frame_def)
  then show "stored_fingerprint pid db = stored_fingerprint pid db0"
    by (auto simp: stored_fingerprint_def split: option.split)
qed

lemma view_iface:
  assumes "managed_view db = managed_view db0" "r \<in> set (db_interfaces db0)" "managed_row r"
  shows "\<exists>r' \<in> set (db_interfaces db). i_id r' = i_id r \<and> i_name r' = i_name r \<and> i_management_mode r' = i_management_mode r"
proof -
  have "iface_core r \<in> set (map iface_core (filter managed_row (db_interfaces db0)))" using assms(2,3) by simp
  also have "map iface_core (filter managed_row (db_interfaces db0)) = map iface_core (filter managed_row (db_interfaces db))"
    using assms(1) by (simp add: managed_view_def)
  finally obtain r' where "r' \<in> set (db_interfaces db)" "iface_core r' = iface_core r" by auto
  then show ?thesis by (intro bexI [of _ r']) (cases r; cases r'; simp add: iface_core_def)+
qed

lemma managed_runtime_marks:
  assumes "refresh_peer gen clock iid mode now_ms peer (k, db) = Inr (k', db')" "mode \<noteq> ''observed''"
    "inventory_wf db" "p \<in> set (db_peers db)" "p_interface_id p = iid" "p_public_key p = vp_public_key peer"
    "secret_drift (stored_fingerprint (p_id p) db) peer"
  shows "secret_row iid db'"
proof -
  have find: "find (\<lambda>q. p_interface_id q = iid \<and> p_public_key q = vp_public_key peer) (db_peers db) = Some p"
    using keyed_find [of "\<lambda>p. (p_interface_id p, p_public_key p)" "db_peers db" p "(iid, vp_public_key peer)"] assms(3-6)
    by (simp add: inventory_wf_def)
  obtain r where r: "r \<in> set (db_interfaces db)" "i_id r = iid" using assms(3-5) by (auto simp: inventory_wf_def)
  let ?f = "\<lambda>r. r\<lparr>i_drift_state := ''secret'', i_updated_at_ms := unix_milli (clock k)\<rparr>"
  let ?db1 = "db\<lparr>db_interfaces := update_rows (\<lambda>r. i_id r = iid) ?f (db_interfaces db)\<rparr>"
  have "?f r \<in> set (db_interfaces ?db1)" using r by (auto simp: update_rows_def)
  then have "secret_row iid ?db1" unfolding secret_row_def by (rule rev_bexI) (use r(2) in simp)
  moreover from assms(1,2,7) find have "db' = ?db1 \<or> put_runtime (p_id p) peer ?db1 = Inr db'"
    by (auto simp: refresh_peer_def update_managed_peer_runtime_def update_interfaces_def split: if_splits)
  moreover from this have "db_interfaces db' = db_interfaces ?db1" by (auto elim: put_runtime_Inr)
  ultimately show ?thesis by (simp add: secret_row_def)
qed

definition viewed :: "agent_db \<Rightarrow> counted_db \<Rightarrow> bool" where
  "viewed db s \<longleftrightarrow> inventory_wf (snd s) \<and> managed_view (snd s) = managed_view db"

lemma viewed_interface: "refresh_interface gen clock t y a = Inr b \<Longrightarrow> viewed db a \<Longrightarrow> viewed db b"
  using view.refresh_interface_keeps [of gen clock t y "fst a" "snd a" "fst b" "snd b" "managed_view db"]
  by (simp add: viewed_def)

lemma viewed_peer:
  fixes item :: inv_interface
  shows "refresh_peer gen clock iid mode t y a = Inr b \<Longrightarrow> viewed db a \<and> has_iface iid mode (vi_name item) (snd a) \<Longrightarrow>
     viewed db b \<and> has_iface iid mode (vi_name item) (snd b)"
  using view.refresh_peer_keeps [of gen clock iid mode t y "fst a" "snd a" "fst b" "snd b" "managed_view db" item]
  by (simp add: viewed_def)

lemma secret_peer:
  fixes item :: inv_interface
  shows "refresh_peer gen clock iid mode t y a = Inr b \<Longrightarrow> has_iface iid mode (vi_name item) (snd a) \<Longrightarrow>
     secret_row i (snd a) \<Longrightarrow> secret_row i (snd b)"
  using secret.refresh_peer_keeps [of gen clock iid mode t y "fst a" "snd a" "fst b" "snd b" i item] by simp

lemma secret_interface:
  "refresh_interface gen clock t y a = Inr b \<Longrightarrow> secret_row i (snd a) \<Longrightarrow> secret_row i (snd b)"
  using secret.refresh_interface_keeps [of gen clock t y "fst a" "snd a" "fst b" "snd b" i] by simp

text \<open>The refresh of the interface that has the drifted peer.\<close>

lemma item_marks_drift:
  assumes "inventory_wf db" "r \<in> set (db_interfaces db)" "i_management_mode r \<noteq> ''observed''"
    "vi_name item = i_name r" "peer \<in> set (vi_peers item)" "p \<in> set (db_peers db)" "p_interface_id p = i_id r"
    "p_public_key p = vp_public_key peer" "secret_drift (stored_fingerprint (p_id p) db) peer"
    "refresh_interface gen clock t item (k0, d0) = Inr (k3, d3)" "viewed db (k0, d0)"
  shows "secret_row (i_id r) d3"
  using assms(10)
proof (rule refresh_interface_Inr)
  fix iid mode k1 d1 k2 d2
  assume 1: "upsert_interface gen t item (k0, d0) = Inr ((iid, mode), k1, d1)"
    and 2: "replace_addresses gen clock iid (vi_addresses item) (k1, d1) = Inr (k2, d2)"
    and 3: "fold_r (refresh_peer gen clock iid mode t) (vi_peers item) (k2, d2) = Inr (k3, d3)"
  let ?P = "\<lambda>s. viewed db s \<and> has_iface iid mode (vi_name item) (snd s)"
  have mp: "managed_peer db p"
    using assms(1-3,7) by (auto simp: managed_peer_def is_observed_def inventory_wf_def dest: keyed_eq)
  from view.upsert_interface_keeps [OF 1, of "managed_view db"] assms(11)
  have v1: "inventory_wf d1" "managed_view d1 = managed_view db" "has_iface iid mode (vi_name item) d1"
    by (auto simp: viewed_def)
  from view_iface [OF v1(2) assms(2)] assms(3) obtain r1 where r1: "r1 \<in> set (db_interfaces d1)" "i_id r1 = i_id r"
    "i_name r1 = i_name r" "i_management_mode r1 = i_management_mode r" by (auto simp: managed_row_def)
  from v1(3) obtain x where x: "x \<in> set (db_interfaces d1)" "i_id x = iid" "i_management_mode x = mode" "i_name x = vi_name item"
    by (auto simp: has_iface_def)
  with r1 assms(4) v1(1) have "x = r1" by (auto simp: inventory_wf_def intro: keyed_eq [where key = i_name])
  with x r1 assms(3) have iid: "iid = i_id r" "mode \<noteq> ''observed''" by auto
  from 2 obtain as where d2: "d2 = d1\<lparr>db_addresses := as\<rparr>" by (rule replace_addresses_Inr)
  have v2: "?P (k2, d2)"
    using view.addresses [of d1 "managed_view db" as] v1 by (simp add: d2 has_iface_def viewed_def)
  have "?P (k3, d3) \<and> secret_row (i_id r) (snd (k3, d3))"
  proof (rule fold_r_meets [where P = ?P and Q = "\<lambda>s. secret_row (i_id r) (snd s)", OF 3 assms(5) v2])
    fix a b :: counted_db
    assume y: "refresh_peer gen clock iid mode t peer a = Inr b" "?P a"
    then have v: "managed_view (snd a) = managed_view db" "inventory_wf (snd a)" by (simp_all add: viewed_def)
    have step: "refresh_peer gen clock iid mode t peer (fst a, snd a) = Inr (fst b, snd b)" using y(1) by simp
    have drift: "secret_drift (stored_fingerprint (p_id p) (snd a)) peer"
      using assms(9) unfolding view_peer(2) [OF v(1) assms(6) mp] .
    from managed_runtime_marks [OF step iid(2) v(2) view_peer(1) [OF v(1) assms(6) mp] _ assms(8) drift] assms(7) iid(1)
    show "secret_row (i_id r) (snd b)" by simp
  next
    fix y and a b :: counted_db
    assume y: "refresh_peer gen clock iid mode t y a = Inr b" "?P a"
    then show "?P b" by (rule viewed_peer)
    show "secret_row (i_id r) (snd b)" if "secret_row (i_id r) (snd a)" using secret_peer y that by blast
  qed
  then show ?thesis by simp
qed


section \<open>What is not reported\<close>

interpretation unreported: refresh_invariant "\<lambda>db. inventory_wf db \<and> r \<in> set (db_interfaces db)" "{i. vi_name i \<noteq> i_name r}" for r
proof (unfold_locales, goal_cases)
  case (1 db item iid drift now_ms)
  then show ?case using view_new by simp
next
  case (2 db item x drift now_ms)
  then show ?case by (auto simp: view_interfaces refreshed_core set_update_rows)
next
  case (5 db item iid gen peer now_ms k pid k1 db1 al)
  from 5(4) have "db_interfaces db1 = db_interfaces db" by (rule upsert_peer_row_Inr) auto
  with 5 view_peers [OF _ has_iface_observed] show ?case by auto
next
  case (6 db item iid mode t)
  then obtain x where x: "x \<in> set (db_interfaces db)" "i_id x = iid" "i_name x = vi_name item" by (auto simp: has_iface_def)
  with 6(1,2) have "i_id r \<noteq> iid" by (auto simp: inventory_wf_def dest: keyed_eq)
  with 6(1) show ?case by (auto simp: view_interfaces iface_core_def set_update_rows)
qed (auto simp: inventory_wf_def)

text \<open>C33: A managed interface that the host no longer reports at all is not noticed: when neither a file nor the kernel has it, a
  refresh leaves its row as it is, present, running and without drift, since only observed interfaces are marked stale.\<close>

theorem vanished_managed_unnoticed:
  assumes "inventory_wf db" "replace_inventory gen clock snap db = (Inr res, db')" "r \<in> set (db_interfaces db)"
    "i_management_mode r \<noteq> ''observed''" "i_name r \<notin> vi_name ` set (sp_interfaces snap)"
  shows "r \<in> set (db_interfaces db')"
proof -
  let ?t = "unix_milli (sp_refreshed_at snap)"
  from assms(2) obtain k db1 where fold: "fold_r (refresh_interface gen clock ?t) (sp_interfaces snap) (0, mark_stale ?t db) = Inr (k, db1)"
    and db': "db' = db1\<lparr>db_state_updated_ms := ?t\<rparr>" by (rule replace_inventory_Inr)
  have "r \<in> set (db_interfaces (mark_stale ?t db))"
    using assms(3,4) by (auto simp: mark_stale_def Let_def set_update_rows)
  moreover have "set (sp_interfaces snap) \<subseteq> {i. vi_name i \<noteq> i_name r}" using assms(5) by (force simp: image_iff)
  ultimately show ?thesis
    using mark_stale_view [OF assms(1)] unreported.refresh_items_keep [OF fold, of r] by (simp add: db')
qed

section \<open>Examples\<close>

definition inventory_db :: agent_db where
  "inventory_db = empty_db\<lparr>db_interfaces := [demo_iface ''wg0'', (demo_iface ''tun0'')\<lparr>i_management_mode := ''observed''\<rparr>],
     db_peers := [demo_peer ''p'' ''wg0'']\<rparr>"

definition psk_snapshot :: inv_snapshot where
  "psk_snapshot = \<lparr>sp_interfaces = [demo_inv ''wg0'' [(demo_inv_peer [] ''p'')\<lparr>vp_psk_present := True\<rparr>]],
     sp_config_source = source_status_of None, sp_runtime_source = source_status_of None,
     sp_address_source = source_status_of None, sp_issues = [], sp_refreshed_at = 0\<rparr>"

lemma inventory_db_wf: "inventory_wf inventory_db"
  by (simp add: inventory_wf_def inventory_db_def demo_iface_def demo_peer_def keyed_def)

lemma demo_refresh:
  obtains res db' where "replace_inventory (demo_ids CHR ''i'') (\<lambda>k. 0) psk_snapshot inventory_db = (Inr res, db')"
proof -
  have "\<not> isl (fst (replace_inventory (demo_ids CHR ''i'') (\<lambda>k. 0) psk_snapshot inventory_db))" by code_simp
  with not_isl_Inr that show thesis by blast
qed

lemma demo_empty_refresh:
  obtains res db' where "replace_inventory (demo_ids CHR ''i'') (\<lambda>k. 0) (psk_snapshot\<lparr>sp_interfaces := []\<rparr>) inventory_db = (Inr res, db')"
  by (auto simp: replace_inventory_def Let_def)




theorem vanished_managed_unnoticed_witness:
  "demo_iface ''wg0'' \<in> set (db_interfaces (snd (replace_inventory (demo_ids CHR ''i'') (\<lambda>k. 0)
     (psk_snapshot\<lparr>sp_interfaces := []\<rparr>) inventory_db))) \<and> i_runtime_present (demo_iface ''wg0'')"
proof -
  obtain res db' where r: "replace_inventory (demo_ids CHR ''i'') (\<lambda>k. 0) (psk_snapshot\<lparr>sp_interfaces := []\<rparr>) inventory_db = (Inr res, db')"
    by (rule demo_empty_refresh)
  have "demo_iface ''wg0'' \<in> set (db_interfaces inventory_db)" by (simp add: inventory_db_def)
  from vanished_managed_unnoticed [OF inventory_db_wf r this] show ?thesis by (simp add: r demo_iface_def)
qed

end
