(* ===== verification/AdoptionStore.thy ===== *)
theory AdoptionStore
  imports InventoryStore
begin

text \<open>
  \<^verbatim>\<open>src/internal/agent/repository/adoption_store.go\<close>: taking over an observed interface. Its addresses
  become pools, the host addresses of its peers become allocations and peers without a profile get an
  external one; whatever was added or changed is entered in a ledger, from which a rollback takes it
  back. Identifiers are counted as in \<open>InventoryStore\<close>. A map with unique keys is a list; where the
  source sorts it afterwards the order of the list does not matter.
\<close>

section \<open>Statements\<close>

definition draw :: "id_source \<Rightarrow> time \<Rightarrow> nat \<Rightarrow> repo_error + string \<times> nat" where
  "draw gen t k = bind_r (gen k t) (\<lambda>x. Inr (x, Suc k))"

definition insert_pool :: "pool_row \<Rightarrow> agent_db \<Rightarrow> repo_error + agent_db" where
  "insert_pool r db =
     bind_r (constraints
       [(ap_family r \<in> {4, 6}, ''address_pools.family''),
        (key_fresh ap_id (ap_id r) (db_pools db), ''address_pools.id''),
        (key_fresh (\<lambda>x. (ap_interface_id x, ap_cidr x)) (ap_interface_id r, ap_cidr r) (db_pools db),
         ''address_pools.interface_id,cidr''),
        (ap_interface_id r \<in> i_id ` set (db_interfaces db), ''address_pools.interface_id'')]) (\<lambda>_.
     Inr (db\<lparr>db_pools := db_pools db @ [r]\<rparr>))"

definition insert_snapshot :: "snapshot_row \<Rightarrow> agent_db \<Rightarrow> repo_error + agent_db" where
  "insert_snapshot r db =
     bind_r (constraints
       [(key_fresh sn_id (sn_id r) (db_snapshots db), ''snapshots.id''),
        (sn_interface_id r \<in> i_id ` set (db_interfaces db), ''snapshots.interface_id''),
        (sn_operation_id r \<in> o_id ` set (db_operations db), ''snapshots.operation_id''),
        (sn_secret_envelope_id r \<in> se_id ` set (db_envelopes db), ''snapshots.secret_envelope_id'')]) (\<lambda>_.
     Inr (db\<lparr>db_snapshots := db_snapshots db @ [r]\<rparr>))"

definition insert_staged :: "staged_row \<Rightarrow> agent_db \<Rightarrow> repo_error + agent_db" where
  "insert_staged r db =
     bind_r (constraints
       [(key_fresh ss_secret_envelope_id (ss_secret_envelope_id r) (db_staged db),
         ''operation_staged_secrets.secret_envelope_id''),
        (key_fresh (\<lambda>x. (ss_operation_id x, ss_peer_id x)) (ss_operation_id r, ss_peer_id r) (db_staged db),
         ''operation_staged_secrets.operation_id,peer_id''),
        (ss_operation_id r \<in> o_id ` set (db_operations db), ''operation_staged_secrets.operation_id''),
        (ss_secret_envelope_id r \<in> se_id ` set (db_envelopes db), ''operation_staged_secrets.secret_envelope_id''),
        (ss_peer_id r \<in> p_id ` set (db_peers db), ''operation_staged_secrets.peer_id'')]) (\<lambda>_.
     Inr (db\<lparr>db_staged := db_staged db @ [r]\<rparr>))"

definition ledger_key :: "ledger_row \<Rightarrow> string \<times> string \<times> string" where
  "ledger_key r = (al_operation_id r, al_resource_kind r, al_resource_id r)"

definition insert_ledger :: "ledger_row \<Rightarrow> agent_db \<Rightarrow> repo_error + agent_db" where
  "insert_ledger r db =
     bind_r (constraints
       [(al_resource_kind r \<in> set [''client_profile'', ''address_pool'', ''address_allocation'', ''allowed_ip_purpose''],
         ''adoption_import_ledger.resource_kind''),
        (key_fresh ledger_key (ledger_key r) (db_ledger db),
         ''adoption_import_ledger.operation_id,resource_kind,resource_id''),
        (al_operation_id r \<in> o_id ` set (db_operations db), ''adoption_import_ledger.operation_id'')]) (\<lambda>_.
     Inr (db\<lparr>db_ledger := db_ledger db @ [r]\<rparr>))"

text \<open>\<open>UPDATE peer_allowed_ips SET purpose = ? WHERE id = ?\<close>, with its \<open>CHECK\<close>.\<close>

definition set_purpose :: "string \<Rightarrow> string \<Rightarrow> agent_db \<Rightarrow> repo_error + agent_db" where
  "set_purpose purpose aid db =
     bind_r (constraints
       [(key_fresh pa_id aid (db_allowed db) \<or> purpose \<in> set [''tunnel_address'', ''routed_subnet''],
         ''peer_allowed_ips.purpose'')]) (\<lambda>_.
     Inr (db\<lparr>db_allowed := update_rows (\<lambda>r. pa_id r = aid) (\<lambda>r. r\<lparr>pa_purpose := purpose\<rparr>) (db_allowed db)\<rparr>))"

text \<open>\<open>UPDATE client_profiles SET preshared_secret_id = ?, updated_at_ms = ? WHERE ...\<close>, with its foreign key.\<close>

definition set_preshared :: "(profile_row \<Rightarrow> bool) \<Rightarrow> string option \<Rightarrow> time \<Rightarrow> agent_db \<Rightarrow> repo_error + agent_db" where
  "set_preshared P v now db =
     bind_r (constraints
       [(affected P (db_profiles db) = 0 \<or> fk_to se_id (db_envelopes db) v, ''client_profiles.preshared_secret_id'')]) (\<lambda>_.
     Inr (update_profiles P (\<lambda>r. r\<lparr>cp_preshared_secret_id := v, cp_updated_at_ms := unix_milli now\<rparr>) db))"

text \<open>The deletes: routes go with a profile, allocations with a pool, references to a revision become NULL.\<close>

definition delete_profiles :: "(profile_row \<Rightarrow> bool) \<Rightarrow> agent_db \<Rightarrow> agent_db" where
  "delete_profiles P db =
     (let gone = (\<lambda>x. \<exists>r \<in> set (db_profiles db). P r \<and> cp_id r = x) in
      db\<lparr>db_profiles := filter (\<lambda>r. \<not> P r) (db_profiles db),
         db_routes := filter (\<lambda>r. \<not> gone (cr_profile_id r)) (db_routes db),
         db_staged := map (\<lambda>r. r\<lparr>ss_profile_id := drop_ref gone (ss_profile_id r)\<rparr>) (db_staged db)\<rparr>)"

definition delete_allocations :: "(alloc_row \<Rightarrow> bool) \<Rightarrow> agent_db \<Rightarrow> agent_db" where
  "delete_allocations P db = db\<lparr>db_allocations := filter (\<lambda>r. \<not> P r) (db_allocations db)\<rparr>"

definition delete_pools :: "(pool_row \<Rightarrow> bool) \<Rightarrow> agent_db \<Rightarrow> agent_db" where
  "delete_pools P db =
     (let gone = (\<lambda>x. \<exists>r \<in> set (db_pools db). P r \<and> ap_id r = x) in
      db\<lparr>db_pools := filter (\<lambda>r. \<not> P r) (db_pools db),
         db_allocations := filter (\<lambda>r. \<not> gone (aa_pool_id r)) (db_allocations db)\<rparr>)"

definition delete_revisions :: "(revision_row \<Rightarrow> bool) \<Rightarrow> agent_db \<Rightarrow> agent_db" where
  "delete_revisions P db =
     (let gone = (\<lambda>x. \<exists>r \<in> set (db_revisions db). P r \<and> rv_id r = x) in
      db\<lparr>db_revisions := filter (\<lambda>r. \<not> P r) (db_revisions db),
         db_interfaces := map (\<lambda>r. r\<lparr>i_last_applied_revision_id := drop_ref gone (i_last_applied_revision_id r)\<rparr>)
           (db_interfaces db),
         db_peers := map (\<lambda>r. r\<lparr>p_config_revision_id := drop_ref gone (p_config_revision_id r)\<rparr>) (db_peers db)\<rparr>)"

section \<open>The import plan\<close>

record adoption_import_plan =
  ip_pool_cidrs :: "string list"
  ip_peer_count :: nat
  ip_allocation_count :: nat

record adoption_pool =
  apl_family :: int
  apl_cidr :: string
  apl_gateway :: string

record adoption_allocation =
  aal_allowed_ip_id :: string
  aal_peer_id :: string
  aal_pool_cidr :: string
  aal_address :: string
  aal_old_purpose :: string
  aal_new_purpose :: string

record adoption_import =
  aim_pools :: "adoption_pool list"
  aim_assignments :: "adoption_allocation list"
  aim_peer_count :: nat

definition import_address :: "iface_address_row \<Rightarrow> adoption_pool list \<Rightarrow> repo_error + adoption_pool list" where
  "import_address r pools =
     (case parse_addr (ia_address r) of
        None \<Rightarrow> Inl (RepoError ''adoption interface address is invalid'')
      | Some a \<Rightarrow>
          if bit_len a = 0 \<or> ia_prefix_length r < 0 \<or> ia_prefix_length r > bit_len a
          then Inl (RepoError ''adoption interface address is invalid'')
          else let cidr = show_prefix (masked (prefix_from a (ia_prefix_length r))) in
            if list_ex (\<lambda>p. apl_cidr p = cidr \<and> apl_gateway p \<noteq> show_addr a) pools
            then Inl (RepoError (''ambiguous gateways for adoption pool '' @ cidr))
            else Inr (filter (\<lambda>p. apl_cidr p \<noteq> cidr) pools @
              [\<lparr>apl_family = ia_family r, apl_cidr = cidr, apl_gateway = show_addr a\<rparr>]))"

definition import_pools :: "string \<Rightarrow> agent_db \<Rightarrow> repo_error + adoption_pool list" where
  "import_pools iid db =
     bind_r (fold_r import_address (sort_key (\<lambda>r. (ia_family r, - ia_prefix_length r, map code (ia_address r)))
       (filter (\<lambda>r. ia_interface_id r = iid) (db_addresses db))) []) (\<lambda>pools.
     bind_r (check (pools \<noteq> []) (RepoError ''adoption requires at least one interface address for IPAM'')) (\<lambda>_.
     Inr (sort_key (\<lambda>p. (apl_family p, map code (apl_cidr p))) pools)))"

text \<open>The pool of a host address; \<open>used\<close> says which peer an address of a pool belongs to.\<close>

definition holding_pools :: "addr \<Rightarrow> adoption_pool list \<Rightarrow> adoption_pool list" where
  "holding_pools a pools =
     filter (\<lambda>p. case parse_prefix (apl_cidr p) of None \<Rightarrow> False | Some c \<Rightarrow> contains c a) pools"

type_synonym import_state = "(string \<rightharpoonup> string) \<times> adoption_allocation list"

definition import_allowed :: "adoption_pool list \<Rightarrow> allowed_row \<Rightarrow> import_state \<Rightarrow> repo_error + import_state" where
  "import_allowed pools r = (\<lambda>(used, out).
     case parse_prefix (pa_cidr r) of
       None \<Rightarrow> Inl (RepoError (''invalid adopted AllowedIPs '' @ pa_cidr r))
     | Some p \<Rightarrow>
         (case (if host_prefix p then holding_pools (pfx_addr p) pools else []) of
            [] \<Rightarrow> Inr (used, if pa_purpose r \<noteq> ''routed_subnet''
              then out @ [\<lparr>aal_allowed_ip_id = pa_id r, aal_peer_id = pa_peer_id r, aal_pool_cidr = [],
                aal_address = [], aal_old_purpose = pa_purpose r, aal_new_purpose = ''routed_subnet''\<rparr>]
              else out)
          | [pool] \<Rightarrow>
              (let key = apl_cidr pool @ ''|'' @ show_addr (pfx_addr p) in
               if \<not> (case used key of None \<Rightarrow> True | Some owner \<Rightarrow> owner = [] \<or> owner = pa_peer_id r)
               then Inl (RepoError (''peer address '' @ show_addr (pfx_addr p) @ '' is assigned to multiple peers''))
               else Inr (used(key \<mapsto> pa_peer_id r),
                 out @ [\<lparr>aal_allowed_ip_id = pa_id r, aal_peer_id = pa_peer_id r, aal_pool_cidr = apl_cidr pool,
                   aal_address = show_addr (pfx_addr p), aal_old_purpose = pa_purpose r,
                   aal_new_purpose = ''tunnel_address''\<rparr>]))
          | _ \<Rightarrow> Inl (RepoError (''peer address '' @ show_addr (pfx_addr p) @ '' matches multiple adoption pools''))))"

definition build_adoption_import :: "string \<Rightarrow> agent_db \<Rightarrow> repo_error + adoption_import" where
  "build_adoption_import iid db =
     bind_r (import_pools iid db) (\<lambda>pools.
     bind_r (fold_r (import_allowed pools) (sort_key (\<lambda>r. (map code (pa_cidr r), map code (pa_peer_id r)))
       (filter (\<lambda>r. \<exists>p \<in> set (db_peers db). p_id p = pa_peer_id r \<and> p_interface_id p = iid \<and>
          p_lifecycle_state p = ''active'') (db_allowed db))) (Map.empty, [])) (\<lambda>(used, assignments).
     Inr \<lparr>aim_pools = pools, aim_assignments = assignments,
          aim_peer_count = length (filter (\<lambda>p. p_interface_id p = iid) (db_peers db))\<rparr>))"

definition preview_adoption_import :: "string \<Rightarrow> agent_db \<Rightarrow> repo_error + adoption_import_plan" where
  "preview_adoption_import iid db =
     bind_r (build_adoption_import iid db) (\<lambda>plan.
     Inr \<lparr>ip_pool_cidrs = map apl_cidr (aim_pools plan), ip_peer_count = aim_peer_count plan,
          ip_allocation_count = length (aim_assignments plan)\<rparr>)"

section \<open>The snapshot\<close>

definition stage_secret ::
  "id_source \<Rightarrow> time \<Rightarrow> string \<Rightarrow> nat \<times> secret_input \<Rightarrow> agent_db \<Rightarrow> repo_error + agent_db" where
  "stage_secret gen now oid = (\<lambda>(k, s) db.
     bind_r (gen (k + 2) (now + int (k + 2))) (\<lambda>eid.
     bind_r (insert_envelope eid (si_context s) (si_envelope s) now db) (\<lambda>db1.
     wrap_r ''stage adopted peer secret'' (insert_staged
       \<lparr>ss_operation_id = oid, ss_secret_envelope_id = eid, ss_peer_id = sx_owner_id (si_context s),
        ss_profile_id = None, ss_previous_secret_envelope_id = None, ss_created_profile = False\<rparr> db1))))"

definition snapshot_operation ::
  "id_source \<Rightarrow> time \<Rightarrow> string \<Rightarrow> secret_context \<Rightarrow> envelope \<Rightarrow> string \<Rightarrow> string \<Rightarrow> secret_input list \<Rightarrow> agent_db
     \<Rightarrow> (repo_error + unit) \<times> agent_db" where
  "snapshot_operation gen now oid cx e file_hash runtime secrets db =
     commit_tx db (
       bind_r (gen 0 now) (\<lambda>eid.
       bind_r (gen 1 (now + 1)) (\<lambda>sid.
       bind_r (op_where (\<lambda>r. o_id r = oid) db) (\<lambda>op.
       bind_r (scan_string (o_interface_id op)) (\<lambda>iid.
       bind_r (check (o_state op = StateValidated) (RepoError ''operation must be validated before snapshot'')) (\<lambda>_.
       bind_r (insert_envelope eid cx e now db) (\<lambda>db1.
       bind_r (fold_r (stage_secret gen now oid) (enumerate 0 secrets) db1) (\<lambda>db2.
       bind_r (wrap_r ''insert operation snapshot'' (insert_snapshot
         \<lparr>sn_id = sid, sn_interface_id = iid, sn_operation_id = oid, sn_secret_envelope_id = eid,
          sn_file_hash = nullable file_hash, sn_runtime_fingerprint = nullable runtime,
          sn_created_at_ms = unix_milli now\<rparr> db2)) (\<lambda>db3.
       bind_r (update_operations (\<lambda>r. o_id r = oid \<and> o_state r = StateValidated)
         (\<lambda>r. r\<lparr>o_state := StateSnapshotted, o_updated_at_ms := unix_milli now\<rparr>) db3) (\<lambda>(n, db4).
       bind_r (check (n = 1) (RepoError ''operation state conflict while storing snapshot'')) (\<lambda>_.
       Inr ((), db4))))))))))))"

section \<open>Applying\<close>

definition record_adoption_import ::
  "string \<Rightarrow> string \<Rightarrow> string \<Rightarrow> string \<Rightarrow> agent_db \<Rightarrow> repo_error + agent_db" where
  "record_adoption_import oid kind rid previous db =
     insert_ledger \<lparr>al_operation_id = oid, al_resource_kind = kind, al_resource_id = rid,
       al_previous_value = nullable previous\<rparr> db"

definition external_profile :: "string \<Rightarrow> string \<Rightarrow> string option \<Rightarrow> time \<Rightarrow> profile_row" where
  "external_profile cid pid psk now =
     \<lparr>cp_id = cid, cp_peer_id = pid, cp_profile_state = ''external'', cp_client_private_secret_id = None,
      cp_preshared_secret_id = psk, cp_endpoint_host = None, cp_endpoint_port = None, cp_mtu = None,
      cp_dns_json = ''[]'', cp_created_at_ms = unix_milli now, cp_updated_at_ms = unix_milli now\<rparr>"

definition import_profile ::
  "id_source \<Rightarrow> time \<Rightarrow> string \<Rightarrow> nat \<times> string \<Rightarrow> counted_db \<Rightarrow> repo_error + counted_db" where
  "import_profile gen now oid = (\<lambda>(index, pid) (k, db).
     bind_r (draw gen (now + int (index + 100)) k) (\<lambda>(cid, k').
     bind_r (wrap_r ''create adopted external profile'' (insert_profile (external_profile cid pid None now) db)) (\<lambda>db1.
     bind_r (record_adoption_import oid ''client_profile'' cid [] db1) (\<lambda>db2.
     Inr (k', db2)))))"

definition import_pool ::
  "id_source \<Rightarrow> time \<Rightarrow> string \<Rightarrow> string \<Rightarrow> nat \<times> adoption_pool \<Rightarrow> (string \<times> string) list \<times> counted_db
     \<Rightarrow> repo_error + (string \<times> string) list \<times> counted_db" where
  "import_pool gen now oid iid = (\<lambda>(index, pool) (ids, k, db).
     bind_r (draw gen (now + int (index + 1000)) k) (\<lambda>(pid, k').
     bind_r (wrap_r ''import adoption address pool'' (insert_pool
       \<lparr>ap_id = pid, ap_interface_id = iid, ap_family = apl_family pool, ap_cidr = apl_cidr pool,
        ap_gateway_address = apl_gateway pool, ap_created_at_ms = unix_milli now\<rparr> db)) (\<lambda>db1.
     bind_r (record_adoption_import oid ''address_pool'' pid [] db1) (\<lambda>db2.
     Inr (ids @ [(apl_cidr pool, pid)], k', db2)))))"

text \<open>The lookup in a Go map: the empty string for a missing key.\<close>

definition pool_id_of :: "(string \<times> string) list \<Rightarrow> string \<Rightarrow> string" where
  "pool_id_of ids cidr = coalesce (map_of ids cidr)"

definition import_assignment ::
  "id_source \<Rightarrow> time \<Rightarrow> string \<Rightarrow> (string \<times> string) list \<Rightarrow> nat \<times> adoption_allocation \<Rightarrow> counted_db
     \<Rightarrow> repo_error + counted_db" where
  "import_assignment gen now oid ids = (\<lambda>(index, item) (k, db).
     bind_r (if aal_old_purpose item \<noteq> aal_new_purpose item
       then bind_r (set_purpose (aal_new_purpose item) (aal_allowed_ip_id item) db)
         (record_adoption_import oid ''allowed_ip_purpose'' (aal_allowed_ip_id item) (aal_old_purpose item))
       else Inr db) (\<lambda>db1.
     if aal_pool_cidr item = [] then Inr (k, db1)
     else
       bind_r (draw gen (now + int (index + 2000)) k) (\<lambda>(aid, k').
       bind_r (wrap_r ''import adopted peer allocation'' (insert_allocation (new_allocation_row aid
         (pool_id_of ids (aal_pool_cidr item)) (aal_peer_id item) (aal_address item) now) db1)) (\<lambda>db2.
       bind_r (record_adoption_import oid ''address_allocation'' aid [] db2) (\<lambda>db3.
       Inr (k', db3))))))"

definition missing_profiles :: "string \<Rightarrow> agent_db \<Rightarrow> string list" where
  "missing_profiles iid db =
     sort_key (map code) (map p_id (filter (\<lambda>p. p_interface_id p = iid \<and>
       key_fresh cp_peer_id (p_id p) (db_profiles db)) (db_peers db)))"

definition import_adoption_metadata ::
  "id_source \<Rightarrow> time \<Rightarrow> string \<Rightarrow> string \<Rightarrow> counted_db \<Rightarrow> repo_error + counted_db" where
  "import_adoption_metadata gen now oid iid = (\<lambda>(k, db).
     bind_r (wrap_r ''prepare adoption IPAM import'' (build_adoption_import iid db)) (\<lambda>plan.
     bind_r (fold_r (import_profile gen now oid) (enumerate 0 (missing_profiles iid db)) (k, db)) (\<lambda>cdb1.
     bind_r (fold_r (import_pool gen now oid iid) (enumerate 0 (aim_pools plan)) ([], cdb1)) (\<lambda>(ids, cdb2).
     fold_r (import_assignment gen now oid ids) (enumerate 0 (aim_assignments plan)) cdb2))))"

definition list_staged :: "string \<Rightarrow> agent_db \<Rightarrow> staged_row list" where
  "list_staged oid db =
     sort_key (\<lambda>s. map code (ss_peer_id s)) (filter (\<lambda>s. ss_operation_id s = oid) (db_staged db))"

text \<open>\<open>profileID\<close>, \<open>previous\<close> and \<open>created\<close> go into the staged row.\<close>

definition mark_staged ::
  "string \<Rightarrow> string \<Rightarrow> string \<Rightarrow> string option \<Rightarrow> bool \<Rightarrow> agent_db \<Rightarrow> agent_db" where
  "mark_staged oid eid cid previous created db =
     db\<lparr>db_staged := update_rows (\<lambda>s. ss_operation_id s = oid \<and> ss_secret_envelope_id s = eid)
       (\<lambda>s. s\<lparr>ss_profile_id := Some cid, ss_previous_secret_envelope_id := nullable (coalesce previous),
              ss_created_profile := created\<rparr>) (db_staged db)\<rparr>"

definition attach_secret ::
  "id_source \<Rightarrow> time \<Rightarrow> string \<Rightarrow> nat \<times> staged_row \<Rightarrow> counted_db \<Rightarrow> repo_error + counted_db" where
  "attach_secret gen now oid = (\<lambda>(index, item) (k, db).
     case find (\<lambda>c. cp_peer_id c = ss_peer_id item) (db_profiles db) of
       None \<Rightarrow>
         bind_r (draw gen (now + int (index + 100)) k) (\<lambda>(cid, k').
         bind_r (wrap_r ''create adopted external client profile'' (insert_profile
           (external_profile cid (ss_peer_id item) (Some (ss_secret_envelope_id item)) now) db)) (\<lambda>db1.
         Inr (k', mark_staged oid (ss_secret_envelope_id item) cid None True db1)))
     | Some c \<Rightarrow>
         bind_r (wrap_r ''synchronize adopted peer secret''
           (set_preshared (\<lambda>r. cp_id r = cp_id c) (Some (ss_secret_envelope_id item)) now db)) (\<lambda>db1.
         Inr (k, mark_staged oid (ss_secret_envelope_id item) (cp_id c) (cp_preshared_secret_id c) False db1)))"

definition attach_staged_secrets :: "id_source \<Rightarrow> time \<Rightarrow> string \<Rightarrow> counted_db \<Rightarrow> repo_error + counted_db" where
  "attach_staged_secrets gen now oid = (\<lambda>(k, db).
     fold_r (attach_secret gen now oid) (enumerate 0 (list_staged oid db)) (k, db))"

definition adopted_row :: "int \<Rightarrow> string \<Rightarrow> time \<Rightarrow> iface_row \<Rightarrow> iface_row" where
  "adopted_row next rid now r =
     r\<lparr>i_management_mode := ''adopted'', i_revision := next, i_last_applied_revision_id := Some rid,
       i_drift_state := ''none'', i_updated_at_ms := unix_milli now\<rparr>"

text \<open>Which operation and interface an adoption may be applied to.\<close>

definition adoption_ready :: "operation_row \<Rightarrow> bool" where
  "adoption_ready op \<longleftrightarrow> o_type op = ''adopt_interface'' \<and> o_state op = StateExecuting \<and> o_expected_revision op \<noteq> None"

definition adoption_eligible :: "operation_row \<Rightarrow> iface_row \<Rightarrow> bool" where
  "adoption_eligible op i \<longleftrightarrow>
     i_management_mode i = ''observed'' \<and> i_backend i = ''wg_quick'' \<and> \<not> i_save_config_detected i \<and>
     Some (i_revision i) = o_expected_revision op \<and> coalesce (i_file_hash i) = coalesce (o_original_file_hash op)"

definition apply_adoption ::
  "id_source \<Rightarrow> time \<Rightarrow> string \<Rightarrow> agent_db \<Rightarrow> (repo_error + int) \<times> agent_db" where
  "apply_adoption gen now oid db =
     commit_tx db (
       bind_r (op_where (\<lambda>r. o_id r = oid) db) (\<lambda>op.
       bind_r (scan_string (o_interface_id op)) (\<lambda>iid.
       bind_r (check (adoption_ready op) (RepoError ''invalid adoption operation state'')) (\<lambda>_.
       bind_r (query_row (\<lambda>r. i_id r = iid) (db_interfaces db)) (\<lambda>i.
       bind_r (check (adoption_eligible op i) (RepoError ''adoption revision or eligibility conflict'')) (\<lambda>_.
       let next = i_revision i + 1; hash = coalesce (i_file_hash i) in
       bind_r (draw gen now 0) (\<lambda>(rid, k).
       bind_r (wrap_r ''insert adoption revision'' (insert_revision (revision_row_of rid iid next (nullable hash)
         (coalesce (i_runtime_fingerprint i)) oid now) db)) (\<lambda>db1.
       bind_r (update_interfaces (\<lambda>r. i_id r = iid \<and> i_management_mode r = ''observed'' \<and>
           i_revision r = i_revision i \<and> i_file_hash r = Some hash)
         (adopted_row next rid now) db1) (\<lambda>(n, db2).
       bind_r (check (n = 1) (RepoError ''adoption interface update conflict'')) (\<lambda>_.
       bind_r (import_adoption_metadata gen now oid iid (k, db2)) (\<lambda>cdb3.
       bind_r (attach_staged_secrets gen now oid cdb3) (\<lambda>(k', db4).
       bind_r (draw gen (now + 1) k') (\<lambda>(aid, _).
       bind_r (wrap_r ''insert adoption audit'' (insert_audit (audit_of aid op ''adopt_interface'' ''interface'' iid
         (Some (i_revision i)) (Some next) None now) db4)) (\<lambda>db5.
       bind_r (update_operations (\<lambda>r. o_id r = oid \<and> o_state r = StateExecuting)
         (\<lambda>r. r\<lparr>o_state := StateVerifying, o_updated_at_ms := unix_milli now\<rparr>) db5) (\<lambda>(_, db6).
       Inr (next, db6))))))))))))))))"

section \<open>Finalizing\<close>

definition drop_staged :: "string \<Rightarrow> agent_db \<Rightarrow> agent_db" where
  "drop_staged oid db = db\<lparr>db_staged := filter (\<lambda>s. ss_operation_id s \<noteq> oid) (db_staged db)\<rparr>"

definition drop_ledger :: "string \<Rightarrow> agent_db \<Rightarrow> agent_db" where
  "drop_ledger oid db = db\<lparr>db_ledger := filter (\<lambda>l. al_operation_id l \<noteq> oid) (db_ledger db)\<rparr>"

definition finalize_adoption :: "time \<Rightarrow> string \<Rightarrow> agent_db \<Rightarrow> (repo_error + unit) \<times> agent_db" where
  "finalize_adoption now oid db =
     commit_tx db (
       bind_r (update_operations
         (\<lambda>r. o_id r = oid \<and> o_type r = ''adopt_interface'' \<and> o_state r = StateVerifying)
         (\<lambda>r. r\<lparr>o_state := StateCommitted, o_updated_at_ms := unix_milli now,
                o_finished_at_ms := Some (unix_milli now)\<rparr>) db) (\<lambda>(n, db1).
       bind_r (check (n = 1) (RepoError ''adoption operation state conflict while finalizing'')) (\<lambda>_.
       Inr ((), drop_ledger oid (drop_staged oid db1)))))"

section \<open>Rolling back\<close>

definition restore_secret :: "time \<Rightarrow> staged_row \<Rightarrow> agent_db \<Rightarrow> repo_error + agent_db" where
  "restore_secret now s db =
     (let cid = coalesce (ss_profile_id s);
          owned = (\<lambda>c. cp_id c = cid \<and> cp_peer_id c = ss_peer_id s \<and>
            cp_preshared_secret_id c = Some (ss_secret_envelope_id s)) in
      if ss_created_profile s then Inr (delete_profiles owned db)
      else if cid = [] then Inr db
      else wrap_r ''restore prior client profile secret''
        (set_preshared owned (nullable (coalesce (ss_previous_secret_envelope_id s))) now db))"

definition ledger_of :: "string \<Rightarrow> agent_db \<Rightarrow> ledger_row list" where
  "ledger_of oid db = sort_key (\<lambda>l. (map code (al_resource_kind l), map code (al_resource_id l)))
     (filter (\<lambda>l. al_operation_id l = oid) (db_ledger db))"

definition restore_purpose :: "ledger_row \<Rightarrow> agent_db \<Rightarrow> repo_error + agent_db" where
  "restore_purpose l db =
     (if al_resource_kind l = ''allowed_ip_purpose''
      then wrap_r ''restore adopted AllowedIPs purpose'' (set_purpose (coalesce (al_previous_value l)) (al_resource_id l) db)
      else Inr db)"

definition ids_of_kind :: "string \<Rightarrow> ledger_row list \<Rightarrow> string list" where
  "ids_of_kind kind items = map al_resource_id (filter (\<lambda>l. al_resource_kind l = kind) items)"

definition rollback_adoption_imports :: "string \<Rightarrow> agent_db \<Rightarrow> repo_error + agent_db" where
  "rollback_adoption_imports oid db =
     (let items = ledger_of oid db in
      bind_r (fold_r restore_purpose items db) (\<lambda>db1.
      let db2 = fold (\<lambda>x. delete_allocations (\<lambda>r. aa_id r = x)) (ids_of_kind ''address_allocation'' items) db1;
          db3 = fold (\<lambda>x. delete_profiles (\<lambda>r. cp_id r = x)) (ids_of_kind ''client_profile'' items) db2;
          db4 = fold (\<lambda>x. delete_pools (\<lambda>r. ap_id r = x)) (ids_of_kind ''address_pool'' items) db3 in
      Inr (drop_ledger oid db4)))"

definition observed_again :: "int \<Rightarrow> string option \<Rightarrow> time \<Rightarrow> iface_row \<Rightarrow> iface_row" where
  "observed_again revision previous now r =
     r\<lparr>i_management_mode := ''observed'', i_revision := revision, i_last_applied_revision_id := previous,
       i_drift_state := ''unknown'', i_updated_at_ms := unix_milli now\<rparr>"

text \<open>The interface itself: only a revision this operation inserted is taken back.\<close>

definition release_interface ::
  "time \<Rightarrow> string \<Rightarrow> string \<Rightarrow> int \<Rightarrow> iface_row \<Rightarrow> agent_db \<Rightarrow> repo_error + agent_db" where
  "release_interface now oid iid expected i db =
     (let last = coalesce (i_last_applied_revision_id i);
          mine = (\<lambda>r. rv_id r = last \<and> rv_operation_id r = Some oid) in
      bind_r (check (i_last_applied_revision_id i \<noteq> None \<and> affected mine (db_revisions db) = 1)
        (RepoError ''refusing to rollback an adoption revision not owned by the operation'')) (\<lambda>_.
      let previous = map_option rv_id (find (\<lambda>r. rv_interface_id r = iid \<and> rv_sequence r = expected \<and>
            rv_operation_id r \<noteq> None \<and> rv_operation_id r \<noteq> Some oid) (db_revisions db)) in
      bind_r (update_interfaces (\<lambda>r. i_id r = iid \<and> i_management_mode r = ''adopted'' \<and>
          i_revision r = i_revision i \<and> i_last_applied_revision_id r = Some last)
        (observed_again expected (nullable (coalesce previous)) now) db) (\<lambda>(n, db1).
      bind_r (check (n = 1) (RepoError ''adopted interface changed during rollback'')) (\<lambda>_.
      Inr (delete_revisions mine db1)))))"

definition rollback_audit :: "string \<Rightarrow> operation_row \<Rightarrow> string \<Rightarrow> int \<Rightarrow> int \<Rightarrow> time \<Rightarrow> audit_row" where
  "rollback_audit aid op iid revision expected now =
     \<lparr>au_id = aid, au_actor_type = ''system'', au_actor_id = ''agent-recovery'', au_actor_role = None,
      au_action = ''rollback_adoption'', au_target_type = ''interface'', au_target_id = Some iid,
      au_request_id = o_request_id op, au_operation_id = Some (o_id op), au_before_revision = Some revision,
      au_after_revision = Some expected, au_result = ''success'', au_reason = None,
      au_details = Some ''adoption metadata and staged secrets rolled back'', au_created_at_ms = unix_milli now\<rparr>"

definition rollback_adoption ::
  "id_source \<Rightarrow> time \<Rightarrow> string \<Rightarrow> agent_db \<Rightarrow> (repo_error + unit) \<times> agent_db" where
  "rollback_adoption gen now oid db =
     commit_tx db (
       bind_r (op_where (\<lambda>r. o_id r = oid \<and> o_type r = ''adopt_interface'') db) (\<lambda>op.
       bind_r (scan_string (o_interface_id op)) (\<lambda>iid.
       case o_expected_revision op of
         None \<Rightarrow> Inl (RepoError ''adoption operation must be rolling back'')
       | Some expected \<Rightarrow>
       bind_r (check (o_state op = StateRollingBack) (RepoError ''adoption operation must be rolling back'')) (\<lambda>_.
       let staged = list_staged oid db in
       bind_r (fold_r (restore_secret now) staged db) (\<lambda>db1.
       bind_r (rollback_adoption_imports oid db1) (\<lambda>db2.
       bind_r (query_row (\<lambda>r. i_id r = iid) (db_interfaces db2)) (\<lambda>i.
       let adopted = i_management_mode i = ''adopted'' \<and> i_revision i = expected + 1 in
       bind_r (check ((i_management_mode i = ''observed'' \<and> i_revision i = expected) \<or> adopted)
         (RepoError ''adoption interface state is ambiguous during rollback'')) (\<lambda>_.
       bind_r (if adopted then release_interface now oid iid expected i db2 else Inr db2) (\<lambda>db3.
       bind_r (fold_r (\<lambda>s d. wrap_r ''remove rolled-back staged envelope'' (delete_envelope (ss_secret_envelope_id s) d))
         staged (drop_staged oid db3)) (\<lambda>db4.
       bind_r (draw gen (now + 1) 0) (\<lambda>(aid, _).
       bind_r (wrap_r ''audit adoption rollback''
         (insert_audit (rollback_audit aid op iid (i_revision i) expected now) db4)) (\<lambda>db5.
       bind_r (finish_operation oid StateRollingBack StateRolledBack now
         ''adoption operation state conflict while rolling back'' db5) (\<lambda>db6.
       Inr ((), db6))))))))))))))"

end
