(* ===== verification/AdoptionCorrect.thy ===== *)
theory AdoptionCorrect
  imports AdoptionStore DemoDb
begin

text \<open>
  A rolled-back adoption leaves the database as it was. \<open>importing\<close> describes every database an import
  can have reached, in terms of the one it started from and its ledger; \<open>attached\<close> adds the secrets;
  a rollback is shown to undo both.
\<close>

section \<open>What an import has done\<close>

definition purpose_entry :: "ledger_row list \<Rightarrow> string \<Rightarrow> ledger_row option" where
  "purpose_entry ledger aid =
     find (\<lambda>l. al_resource_kind l = ''allowed_ip_purpose'' \<and> al_resource_id l = aid) ledger"

definition purpose_before :: "ledger_row list \<Rightarrow> allowed_row \<Rightarrow> allowed_row" where
  "purpose_before ledger r =
     (case purpose_entry ledger (pa_id r) of None \<Rightarrow> r | Some l \<Rightarrow> r\<lparr>pa_purpose := coalesce (al_previous_value l)\<rparr>)"

record import_delta =
  dl_pools :: "pool_row list"
  dl_allocs :: "alloc_row list"
  dl_profiles :: "profile_row list"
  dl_allowed :: "allowed_row list"
  dl_ledger :: "ledger_row list"

definition plus_delta :: "agent_db \<Rightarrow> import_delta \<Rightarrow> agent_db" where
  "plus_delta db0 d =
     db0\<lparr>db_pools := db_pools db0 @ dl_pools d, db_allocations := db_allocations db0 @ dl_allocs d,
       db_allowed := dl_allowed d, db_profiles := db_profiles db0 @ dl_profiles d,
       db_ledger := db_ledger db0 @ dl_ledger d\<rparr>"

definition delta_ok :: "string \<Rightarrow> agent_db \<Rightarrow> import_delta \<Rightarrow> bool" where
  "delta_ok oid db0 d \<longleftrightarrow>
     (\<forall>l \<in> set (dl_ledger d). al_operation_id l = oid) \<and> keyed ledger_key (dl_ledger d) \<and>
     set (ids_of_kind ''address_pool'' (dl_ledger d)) = ap_id ` set (dl_pools d) \<and>
     set (ids_of_kind ''address_allocation'' (dl_ledger d)) = aa_id ` set (dl_allocs d) \<and>
     set (ids_of_kind ''client_profile'' (dl_ledger d)) = cp_id ` set (dl_profiles d) \<and>
     ap_id ` set (dl_pools d) \<inter> ap_id ` set (db_pools db0) = {} \<and>
     aa_id ` set (dl_allocs d) \<inter> aa_id ` set (db_allocations db0) = {} \<and>
     keyed cp_id (db_profiles db0 @ dl_profiles d) \<and> keyed cp_peer_id (db_profiles db0 @ dl_profiles d) \<and>
     (\<forall>c \<in> set (dl_profiles d). cp_preshared_secret_id c = None \<and> cp_id c \<noteq> []) \<and>
     map (purpose_before (dl_ledger d)) (dl_allowed d) = db_allowed db0"

definition imported :: "string \<Rightarrow> agent_db \<Rightarrow> agent_db \<Rightarrow> bool" where
  "imported oid db0 db \<longleftrightarrow> (\<exists>d. db = plus_delta db0 d \<and> delta_ok oid db0 d)"

lemma ids_of_kind_append [simp]: "ids_of_kind kind (xs @ ys) = ids_of_kind kind xs @ ids_of_kind kind ys"
  by (simp add: ids_of_kind_def)

lemma ids_of_kind_Cons [simp]:
  "ids_of_kind kind (l # ls) = (if al_resource_kind l = kind then [al_resource_id l] else []) @ ids_of_kind kind ls"
  by (simp add: ids_of_kind_def)

lemma ids_of_kind_Nil [simp]: "ids_of_kind kind [] = []"
  by (simp add: ids_of_kind_def)

lemma purpose_entry_snoc:
  "purpose_entry (ledger @ [l]) aid =
     (case purpose_entry ledger aid of Some x \<Rightarrow> Some x
      | None \<Rightarrow> if al_resource_kind l = ''allowed_ip_purpose'' \<and> al_resource_id l = aid then Some l else None)"
  unfolding purpose_entry_def by (induction ledger) auto

lemma purpose_before_other [simp]:
  "al_resource_kind l \<noteq> ''allowed_ip_purpose'' \<Longrightarrow> purpose_before (ledger @ [l]) = purpose_before ledger"
  by (rule ext) (simp add: purpose_before_def purpose_entry_snoc split: option.split)

lemma keyed_Nil [simp]: "keyed key []"
  by (simp add: keyed_def)

lemma imported_refl:
  assumes "keyed cp_id (db_profiles db)" and "keyed cp_peer_id (db_profiles db)"
  shows "imported oid db db"
proof -
  let ?d = "\<lparr>dl_pools = [], dl_allocs = [], dl_profiles = [], dl_allowed = db_allowed db, dl_ledger = []\<rparr>"
  have "db = plus_delta db ?d" by (simp add: plus_delta_def)
  moreover have "delta_ok oid db ?d"
    by (simp add: delta_ok_def assms purpose_before_def purpose_entry_def map_idI)
  ultimately show ?thesis unfolding imported_def by blast
qed

lemma record_adoption_import_Inr:
  "record_adoption_import oid kind rid previous db = Inr db' \<longleftrightarrow>
     kind \<in> {''client_profile'', ''address_pool'', ''address_allocation'', ''allowed_ip_purpose''} \<and>
     (oid, kind, rid) \<notin> ledger_key ` set (db_ledger db) \<and> oid \<in> o_id ` set (db_operations db) \<and>
     db' = db\<lparr>db_ledger := db_ledger db @
       [\<lparr>al_operation_id = oid, al_resource_kind = kind, al_resource_id = rid, al_previous_value = nullable previous\<rparr>]\<rparr>"
  by (auto simp: record_adoption_import_def insert_ledger_def ledger_key_def key_fresh_def)

lemma insert_profile_Inr:
  "insert_profile r db = Inr db' \<Longrightarrow>
     cp_id r \<notin> cp_id ` set (db_profiles db) \<and> cp_peer_id r \<notin> cp_peer_id ` set (db_profiles db) \<and>
     db' = db\<lparr>db_profiles := db_profiles db @ [r]\<rparr>"
  by (auto simp: insert_profile_def key_fresh_def)

lemma import_profile_keeps:
  assumes "import_profile gen now oid x cdb = Inr cdb'" and "imported oid db0 (snd cdb)" and "\<And>k t. gen k t \<noteq> Inr []"
  shows "imported oid db0 (snd cdb')"
proof -
  obtain index pid k db where x: "x = (index, pid)" "cdb = (k, db)" by (cases x; cases cdb)
  from assms(2) x obtain d where d: "db = plus_delta db0 d" "delta_ok oid db0 d" by (auto simp: imported_def)
  from assms(1) x obtain cid k' db1 db2 where s: "insert_profile (external_profile cid pid None now) db = Inr db1"
    "record_adoption_import oid ''client_profile'' cid [] db1 = Inr db2" "cdb' = (k', db2)" "gen k (now + int (index + 100)) = Inr cid"
    by (auto simp: import_profile_def draw_def)
  have "cid \<noteq> []" using assms(3) s(4) by metis
  let ?r = "external_profile cid pid None now"
  let ?l = "\<lparr>al_operation_id = oid, al_resource_kind = ''client_profile'', al_resource_id = cid, al_previous_value = None\<rparr>"
  let ?d = "d\<lparr>dl_profiles := dl_profiles d @ [?r], dl_ledger := dl_ledger d @ [?l]\<rparr>"
  note p = insert_profile_Inr [OF s(1)]
  have "db2 = plus_delta db0 ?d"
    using s(2) p d(1) by (simp add: record_adoption_import_Inr plus_delta_def nullable_def)
  moreover have "delta_ok oid db0 ?d"
    using d p s(2) \<open>cid \<noteq> []\<close> by (auto simp: delta_ok_def record_adoption_import_Inr plus_delta_def keyed_def ledger_key_def
        external_profile_def image_iff)
  ultimately show ?thesis using s(3) by (auto simp: imported_def)
qed

lemma import_pool_keeps:
  assumes "import_pool gen now oid iid x st = Inr st'" and "imported oid db0 (snd (snd st))"
  shows "imported oid db0 (snd (snd st'))"
proof -
  obtain index pool ids k db where x: "x = (index, pool)" "st = (ids, k, db)" by (cases x; cases st)
  from assms(2) x obtain d where d: "db = plus_delta db0 d" "delta_ok oid db0 d" by (auto simp: imported_def)
  from assms(1) x obtain r pid db1 db2 ids' k' where s: "insert_pool r db = Inr db1" "ap_id r = pid"
    "record_adoption_import oid ''address_pool'' pid [] db1 = Inr db2" "st' = (ids', k', db2)"
    by (auto simp: import_pool_def)
  let ?l = "\<lparr>al_operation_id = oid, al_resource_kind = ''address_pool'', al_resource_id = pid, al_previous_value = None\<rparr>"
  let ?d = "d\<lparr>dl_pools := dl_pools d @ [r], dl_ledger := dl_ledger d @ [?l]\<rparr>"
  from s(1) have p: "pid \<notin> ap_id ` set (db_pools db)" "db1 = db\<lparr>db_pools := db_pools db @ [r]\<rparr>"
    using s(2) by (auto simp: insert_pool_def key_fresh_def)
  have "db2 = plus_delta db0 ?d"
    using s(3) p d(1) by (simp add: record_adoption_import_Inr plus_delta_def nullable_def)
  moreover have "delta_ok oid db0 ?d"
    using d p s(2,3) by (auto simp: delta_ok_def record_adoption_import_Inr plus_delta_def keyed_def ledger_key_def
        image_iff)
  ultimately show ?thesis using s(4) by (auto simp: imported_def)
qed

text \<open>An assignment of the plan knows the purpose its row had when the plan was made.\<close>

definition knows_purpose :: "agent_db \<Rightarrow> adoption_allocation \<Rightarrow> bool" where
  "knows_purpose db0 a \<longleftrightarrow>
     (\<forall>r \<in> set (db_allowed db0). pa_id r = aal_allowed_ip_id a \<longrightarrow>
        pa_purpose r = aal_old_purpose a \<and> aal_old_purpose a \<noteq> [])"

lemma fresh_purpose_entry:
  assumes "(oid, ''allowed_ip_purpose'', aid) \<notin> ledger_key ` set ledger" and "\<forall>l \<in> set ledger. al_operation_id l = oid"
  shows "purpose_entry ledger aid = None"
  using assms by (force simp: purpose_entry_def find_None_iff ledger_key_def)

lemma purpose_before_id [simp]: "pa_id (purpose_before ledger r) = pa_id r"
  by (simp add: purpose_before_def split: option.split)

lemma purpose_undone:
  assumes before: "map (purpose_before ledger) allowed = rows"
    and fresh: "purpose_entry ledger aid = None"
    and old: "\<And>r. r \<in> set rows \<Longrightarrow> pa_id r = aid \<Longrightarrow> pa_purpose r = old \<and> old \<noteq> []"
  shows "map (purpose_before (ledger @
      [\<lparr>al_operation_id = oid, al_resource_kind = ''allowed_ip_purpose'', al_resource_id = aid, al_previous_value = nullable old\<rparr>]))
    (update_rows (\<lambda>r. pa_id r = aid) (\<lambda>r. r\<lparr>pa_purpose := new\<rparr>) allowed) = rows"
  (is "map (purpose_before (ledger @ [?l])) _ = _")
proof -
  have "purpose_before (ledger @ [?l]) (if pa_id r = aid then r\<lparr>pa_purpose := new\<rparr> else r) = purpose_before ledger r"
    if "r \<in> set allowed" for r
  proof (cases "pa_id r = aid")
    case True
    with fresh have r: "purpose_before ledger r = r" by (simp add: purpose_before_def)
    with that before have "r \<in> set rows" by force
    with old True have "pa_purpose r = old" by blast
    with True fresh r show ?thesis by (simp add: purpose_before_def purpose_entry_snoc)
  next
    case False
    then show ?thesis by (simp add: purpose_before_def purpose_entry_snoc split: option.split)
  qed
  then have "map (purpose_before (ledger @ [?l]) \<circ> (\<lambda>r. if pa_id r = aid then r\<lparr>pa_purpose := new\<rparr> else r)) allowed =
      map (purpose_before ledger) allowed"
    by (intro map_cong) (simp_all only: comp_apply)
  with before show ?thesis by (simp only: update_rows_def map_map)
qed

lemma set_purpose_keeps:
  assumes "imported oid db0 db" and "knows_purpose db0 a"
    and "set_purpose new (aal_allowed_ip_id a) db = Inr db1"
    and "record_adoption_import oid ''allowed_ip_purpose'' (aal_allowed_ip_id a) (aal_old_purpose a) db1 = Inr db2"
  shows "imported oid db0 db2"
proof -
  from assms(1) obtain d where d: "db = plus_delta db0 d" "delta_ok oid db0 d" by (auto simp: imported_def)
  let ?aid = "aal_allowed_ip_id a" and ?old = "aal_old_purpose a"
  let ?l = "\<lparr>al_operation_id = oid, al_resource_kind = ''allowed_ip_purpose'', al_resource_id = ?aid,
    al_previous_value = nullable ?old\<rparr>"
  let ?al = "update_rows (\<lambda>r. pa_id r = ?aid) (\<lambda>r. r\<lparr>pa_purpose := new\<rparr>) (dl_allowed d)"
  let ?d = "d\<lparr>dl_allowed := ?al, dl_ledger := dl_ledger d @ [?l]\<rparr>"
  from assms(3) have db1: "db1 = db\<lparr>db_allowed := update_rows (\<lambda>r. pa_id r = ?aid) (\<lambda>r. r\<lparr>pa_purpose := new\<rparr>) (db_allowed db)\<rparr>"
    by (simp add: set_purpose_def)
  have "db2 = plus_delta db0 ?d"
    using assms(4) db1 d(1) by (simp add: record_adoption_import_Inr plus_delta_def)
  moreover have "delta_ok oid db0 ?d"
  proof -
    have new: "(oid, ''allowed_ip_purpose'', ?aid) \<notin> ledger_key ` set (dl_ledger d)"
      using assms(4) db1 d(1) by (auto simp: record_adoption_import_Inr plus_delta_def)
    have "\<forall>l \<in> set (dl_ledger d). al_operation_id l = oid" using d(2) by (simp add: delta_ok_def)
    from fresh_purpose_entry [OF new this] have "purpose_entry (dl_ledger d) ?aid = None" .
    with d(2) assms(2) have "map (purpose_before (dl_ledger d @ [?l])) ?al = db_allowed db0"
      by (intro purpose_undone) (auto simp: delta_ok_def knows_purpose_def)
    moreover have "keyed ledger_key (dl_ledger d)" using d(2) by (simp add: delta_ok_def)
    with new have "keyed ledger_key (dl_ledger d @ [?l])" by (simp add: keyed_def ledger_key_def)
    ultimately show ?thesis using d(2) by (simp add: delta_ok_def)
  qed
  ultimately show ?thesis by (auto simp: imported_def)
qed

lemma import_assignment_keeps:
  assumes "import_assignment gen now oid ids x cdb = Inr cdb'" and "imported oid db0 (snd cdb)"
    and "knows_purpose db0 (snd x)"
  shows "imported oid db0 (snd cdb')"
proof -
  obtain index item k db where x: "x = (index, item)" "cdb = (k, db)" by (cases x; cases cdb)
  obtain db1 where first: "(if aal_old_purpose item \<noteq> aal_new_purpose item
       then bind_r (set_purpose (aal_new_purpose item) (aal_allowed_ip_id item) db)
         (record_adoption_import oid ''allowed_ip_purpose'' (aal_allowed_ip_id item) (aal_old_purpose item))
       else Inr db) = Inr db1" and
    rest: "(if aal_pool_cidr item = [] then Inr (k, db1)
     else
       bind_r (draw gen (now + int (index + 2000)) k) (\<lambda>(aid, k').
       bind_r (wrap_r ''import adopted peer allocation'' (insert_allocation (new_allocation_row aid
         (pool_id_of ids (aal_pool_cidr item)) (aal_peer_id item) (aal_address item) now) db1)) (\<lambda>db2.
       bind_r (record_adoption_import oid ''address_allocation'' aid [] db2) (\<lambda>db3.
       Inr (k', db3))))) = Inr cdb'"
    using assms(1) unfolding x import_assignment_def prod.case by (elim bind_r_InrE) blast
  have db1: "imported oid db0 db1"
    using first assms(2,3) x by (auto split: if_splits intro: set_purpose_keeps)
  show ?thesis
  proof (cases "aal_pool_cidr item = []")
    case True
    with db1 rest show ?thesis by auto
  next
    case False
    with rest obtain r aid db2 db3 k' where s: "insert_allocation r db1 = Inr db2" "aa_id r = aid"
      "record_adoption_import oid ''address_allocation'' aid [] db2 = Inr db3" "cdb' = (k', db3)"
      by (auto simp: new_allocation_row_def)
    from db1 obtain d where d: "db1 = plus_delta db0 d" "delta_ok oid db0 d" by (auto simp: imported_def)
    let ?l = "\<lparr>al_operation_id = oid, al_resource_kind = ''address_allocation'', al_resource_id = aid, al_previous_value = None\<rparr>"
    let ?d = "d\<lparr>dl_allocs := dl_allocs d @ [r], dl_ledger := dl_ledger d @ [?l]\<rparr>"
    from s(1) have p: "aid \<notin> aa_id ` set (db_allocations db1)" "db2 = db1\<lparr>db_allocations := db_allocations db1 @ [r]\<rparr>"
      using s(2) by (auto simp: insert_allocation_def key_fresh_def)
    have "db3 = plus_delta db0 ?d"
      using s(3) p d(1) by (simp add: record_adoption_import_Inr plus_delta_def nullable_def)
    moreover have "delta_ok oid db0 ?d"
      using d p s(2,3) by (auto simp: delta_ok_def record_adoption_import_Inr plus_delta_def keyed_def ledger_key_def
          image_iff)
    ultimately show ?thesis using s(4) by (auto simp: imported_def)
  qed
qed

text \<open>The plan.\<close>

lemma import_allowed_knows:
  assumes "import_allowed pools r st = Inr st'" and "\<forall>a \<in> set (snd st). knows_purpose db0 a"
    and "keyed pa_id (db_allowed db0)" and "r \<in> set (db_allowed db0)" and "pa_purpose r \<noteq> []"
  shows "\<forall>a \<in> set (snd st'). knows_purpose db0 a"
proof -
  have "knows_purpose db0 a" if "aal_allowed_ip_id a = pa_id r" "aal_old_purpose a = pa_purpose r" for a
    unfolding knows_purpose_def using keyed_eq [OF assms(3)] assms(4,5) that by metis
  with assms(1,2) show ?thesis
    by (auto simp: import_allowed_def Let_def split: prod.splits option.splits list.splits if_splits)
qed

lemma plan_knows_purposes:
  assumes "build_adoption_import iid db = Inr plan" and "keyed pa_id (db_allowed db)"
    and "\<forall>r \<in> set (db_allowed db). pa_purpose r \<noteq> []"
  shows "\<forall>a \<in> set (aim_assignments plan). knows_purpose db a"
proof -
  define rows where "rows = sort_key (\<lambda>r. (map code (pa_cidr r), map code (pa_peer_id r)))
       (filter (\<lambda>r. \<exists>p \<in> set (db_peers db). p_id p = pa_peer_id r \<and> p_interface_id p = iid \<and>
          p_lifecycle_state p = ''active'') (db_allowed db))"
  have rows: "set rows \<subseteq> set (db_allowed db)" by (auto simp: rows_def)
  from assms(1) obtain pools used where f: "fold_r (import_allowed pools) rows (Map.empty, []) = Inr (used, aim_assignments plan)"
    unfolding build_adoption_import_def rows_def [symmetric] by auto
  have "\<forall>a \<in> set (snd (used, aim_assignments plan)). knows_purpose db a"
  proof (rule fold_r_invariant [OF f, where P = "\<lambda>st. \<forall>a \<in> set (snd st). knows_purpose db a"])
    fix r st st'
    assume "r \<in> set rows" "import_allowed pools r st = Inr st'" "\<forall>a \<in> set (snd st). knows_purpose db a"
    with rows assms(2,3) show "\<forall>a \<in> set (snd st'). knows_purpose db a"
      by (meson import_allowed_knows subsetD)
  qed simp
  then show ?thesis by simp
qed

lemma import_metadata_imported:
  assumes "import_adoption_metadata gen now oid iid (k, db) = Inr (k', db')"
    and "keyed cp_id (db_profiles db)" and "keyed cp_peer_id (db_profiles db)"
    and "keyed pa_id (db_allowed db)" and "\<forall>r \<in> set (db_allowed db). pa_purpose r \<noteq> []"
    and "\<And>k t. gen k t \<noteq> Inr []"
  shows "imported oid db db'"
proof -
  from assms(1) obtain plan cdb1 ids cdb2 where plan: "build_adoption_import iid db = Inr plan"
    and s: "fold_r (import_profile gen now oid) (enumerate 0 (missing_profiles iid db)) (k, db) = Inr cdb1"
      "fold_r (import_pool gen now oid iid) (enumerate 0 (aim_pools plan)) ([], cdb1) = Inr (ids, cdb2)"
      "fold_r (import_assignment gen now oid ids) (enumerate 0 (aim_assignments plan)) cdb2 = Inr (k', db')"
    by (auto simp: import_adoption_metadata_def)
  have "imported oid db (snd cdb1)"
    by (rule fold_r_invariant [OF s(1), where P = "\<lambda>cdb. imported oid db (snd cdb)"])
      (use assms in \<open>auto intro: imported_refl import_profile_keeps\<close>)
  then have "imported oid db (snd (snd (ids, cdb2)))"
    by (intro fold_r_invariant [OF s(2), where P = "\<lambda>st. imported oid db (snd (snd st))"])
      (auto intro: import_pool_keeps)
  then have "imported oid db (snd (k', db'))"
  proof (intro fold_r_invariant [OF s(3), where P = "\<lambda>cdb. imported oid db (snd cdb)"])
    fix x cdb cdb'
    assume x: "x \<in> set (enumerate 0 (aim_assignments plan))"
      and "import_assignment gen now oid ids x cdb = Inr cdb'" "imported oid db (snd cdb)"
    moreover have "snd x \<in> set (aim_assignments plan)"
      using x by (metis enumerate_eq_zip prod.collapse set_zip_rightD)
    ultimately show "imported oid db (snd cdb')"
      using plan_knows_purposes [OF plan assms(4,5)] by (blast intro: import_assignment_keeps)
  qed simp
  then show ?thesis by simp
qed

section \<open>Attaching the staged secrets\<close>

definition mark_of :: "string \<Rightarrow> staged_row list \<Rightarrow> string \<Rightarrow> staged_row option" where
  "mark_of oid S cid = find (\<lambda>s. ss_operation_id s = oid \<and> ss_profile_id s = Some cid) S"

definition bare_profile :: "profile_row \<Rightarrow> profile_row" where
  "bare_profile c = c\<lparr>cp_updated_at_ms := 0\<rparr>"

definition same_profile :: "profile_row \<Rightarrow> profile_row \<Rightarrow> bool" where
  "same_profile x c \<longleftrightarrow> bare_profile (c\<lparr>cp_preshared_secret_id := cp_preshared_secret_id x\<rparr>) = bare_profile x"

definition attached_row :: "string \<Rightarrow> staged_row list \<Rightarrow> profile_row \<Rightarrow> profile_row \<Rightarrow> bool" where
  "attached_row oid S x c \<longleftrightarrow> same_profile x c \<and>
     (case mark_of oid S (cp_id c) of
        None \<Rightarrow> cp_preshared_secret_id c = cp_preshared_secret_id x
      | Some s \<Rightarrow> \<not> ss_created_profile s \<and> ss_previous_secret_envelope_id s = cp_preshared_secret_id x \<and>
          cp_preshared_secret_id c = Some (ss_secret_envelope_id s) \<and> ss_peer_id s = cp_peer_id c)"

definition created_row :: "string \<Rightarrow> staged_row list \<Rightarrow> profile_row \<Rightarrow> bool" where
  "created_row oid S c \<longleftrightarrow>
     (case mark_of oid S (cp_id c) of
        None \<Rightarrow> False
      | Some s \<Rightarrow> ss_created_profile s \<and> cp_preshared_secret_id c = Some (ss_secret_envelope_id s) \<and>
          ss_peer_id s = cp_peer_id c)"

definition staged_key :: "staged_row \<Rightarrow> string \<times> string" where
  "staged_key s = (ss_operation_id s, ss_peer_id s)"

text \<open>A marked row names an existing profile, and no other row names it.\<close>

definition marks_ok :: "string \<Rightarrow> staged_row list \<Rightarrow> string set \<Rightarrow> bool" where
  "marks_ok oid S ids \<longleftrightarrow> (\<forall>s \<in> set S. ss_operation_id s = oid \<longrightarrow>
     (case ss_profile_id s of
        None \<Rightarrow> \<not> ss_created_profile s
      | Some cid \<Rightarrow> cid \<in> ids \<and> mark_of oid S cid = Some s))"

definition attached :: "string \<Rightarrow> agent_db \<Rightarrow> agent_db \<Rightarrow> bool" where
  "attached oid db0 db \<longleftrightarrow> (\<exists>P1 P2 S.
     db = db0\<lparr>db_profiles := P1 @ P2, db_staged := S\<rparr> \<and>
     list_all2 (attached_row oid S) (db_profiles db0) P1 \<and> list_all (created_row oid S) P2 \<and>
     keyed cp_id (P1 @ P2) \<and> keyed cp_peer_id (P1 @ P2) \<and>
     keyed ss_secret_envelope_id S \<and> keyed staged_key S \<and>
     map ss_secret_envelope_id (filter (\<lambda>s. ss_operation_id s = oid) S) =
       map ss_secret_envelope_id (filter (\<lambda>s. ss_operation_id s = oid) (db_staged db0)) \<and>
     filter (\<lambda>s. ss_operation_id s \<noteq> oid) S = filter (\<lambda>s. ss_operation_id s \<noteq> oid) (db_staged db0) \<and>
     marks_ok oid S (cp_id ` set (P1 @ P2)))"

lemma same_profile_id: "same_profile x c \<Longrightarrow> cp_id c = cp_id x"
  unfolding same_profile_def by (drule arg_cong [where f = cp_id]) (simp add: bare_profile_def)

lemma attachedI:
  assumes "db = db0\<lparr>db_profiles := P1 @ P2, db_staged := S\<rparr>"
    and "list_all2 (attached_row oid S) (db_profiles db0) P1" and "list_all (created_row oid S) P2"
    and "keyed cp_id (P1 @ P2)" and "keyed cp_peer_id (P1 @ P2)"
    and "keyed ss_secret_envelope_id S" and "keyed staged_key S"
    and "map ss_secret_envelope_id (filter (\<lambda>s. ss_operation_id s = oid) S) =
       map ss_secret_envelope_id (filter (\<lambda>s. ss_operation_id s = oid) (db_staged db0))"
    and "filter (\<lambda>s. ss_operation_id s \<noteq> oid) S = filter (\<lambda>s. ss_operation_id s \<noteq> oid) (db_staged db0)"
    and "marks_ok oid S (cp_id ` set (P1 @ P2))"
  shows "attached oid db0 db"
  unfolding attached_def using assms by blast

definition marked :: "string \<Rightarrow> string option \<Rightarrow> bool \<Rightarrow> staged_row \<Rightarrow> staged_row" where
  "marked cid previous created s =
     s\<lparr>ss_profile_id := Some cid, ss_previous_secret_envelope_id := previous, ss_created_profile := created\<rparr>"

lemma marked_fields [simp]:
  "ss_operation_id (marked cid v b s) = ss_operation_id s" "ss_secret_envelope_id (marked cid v b s) = ss_secret_envelope_id s"
  "ss_peer_id (marked cid v b s) = ss_peer_id s" "ss_profile_id (marked cid v b s) = Some cid"
  "ss_previous_secret_envelope_id (marked cid v b s) = v" "ss_created_profile (marked cid v b s) = b"
  "staged_key (marked cid v b s) = staged_key s"
  by (simp_all add: marked_def staged_key_def)

text \<open>Marking one staged row whose profile was not known.\<close>

lemma mark_of_update:
  assumes "keyed ss_secret_envelope_id S" and "s \<in> set S" and "ss_operation_id s = oid" and "ss_profile_id s = None"
  shows "mark_of oid (update_rows (\<lambda>r. ss_operation_id r = oid \<and> ss_secret_envelope_id r = ss_secret_envelope_id s)
      (marked cid v b) S) x =
    (if x = cid then (case mark_of oid S x of None \<Rightarrow> Some (marked cid v b s)
       | Some s' \<Rightarrow> mark_of oid (update_rows (\<lambda>r. ss_operation_id r = oid \<and> ss_secret_envelope_id r = ss_secret_envelope_id s)
          (marked cid v b) S) x)
     else mark_of oid S x)"
  using assms
proof (induction S)
  case (Cons r S)
  have keyed: "keyed ss_secret_envelope_id S" using Cons.prems(1) by (simp add: keyed_def)
  show ?case
  proof (cases "r = s")
    case True
    have rest: "update_rows (\<lambda>r. ss_operation_id r = oid \<and> ss_secret_envelope_id r = ss_secret_envelope_id s) f S = S" for f
      using Cons.prems(1) True by (induction S) (auto simp: update_rows_def keyed_def)
    show ?thesis using True Cons.prems rest by (simp add: mark_of_def table_simps split: option.split)
  next
    case False
    then have "s \<in> set S" using Cons.prems(2) by simp
    moreover from this False have "ss_secret_envelope_id r \<noteq> ss_secret_envelope_id s"
      using Cons.prems(1) by (auto simp: keyed_def)
    ultimately show ?thesis
      using Cons.IH [OF keyed] Cons.prems(3,4) by (auto simp: mark_of_def table_simps split: option.splits)
  qed
qed simp

lemma mark_of_SomeD: "mark_of oid S x = Some s \<Longrightarrow> s \<in> set S \<and> ss_operation_id s = oid \<and> ss_profile_id s = Some x"
  by (auto simp: mark_of_def dest: find_SomeD)

lemma marks_ok_update:
  assumes "keyed ss_secret_envelope_id S" and "s0 \<in> set S" and "ss_operation_id s0 = oid" and "ss_profile_id s0 = None"
    and "marks_ok oid S ids" and "mark_of oid S cid = None" and "ids \<subseteq> ids'" and "cid \<in> ids'"
  shows "marks_ok oid (update_rows (\<lambda>r. ss_operation_id r = oid \<and> ss_secret_envelope_id r = ss_secret_envelope_id s0)
    (marked cid v b) S) ids'"
  unfolding marks_ok_def
proof (intro ballI impI)
  let ?S = "update_rows (\<lambda>r. ss_operation_id r = oid \<and> ss_secret_envelope_id r = ss_secret_envelope_id s0) (marked cid v b) S"
  note mark = mark_of_update [OF assms(1-4), of cid v b]
  fix s assume s: "s \<in> set ?S" "ss_operation_id s = oid"
  from s(1) obtain s1 where s1: "s1 \<in> set S" "s = (if ss_operation_id s1 = oid \<and>
      ss_secret_envelope_id s1 = ss_secret_envelope_id s0 then marked cid v b s1 else s1)"
    by (auto simp: update_rows_def)
  show "case ss_profile_id s of None \<Rightarrow> \<not> ss_created_profile s | Some x \<Rightarrow> x \<in> ids' \<and> mark_of oid ?S x = Some s"
  proof (cases "s1 = s0")
    case True
    with s1(2) assms(3) have "s = marked cid v b s0" by simp
    with mark [of cid] assms(6,8) show ?thesis by simp
  next
    case False
    with s1(1) assms(1,2) have "ss_secret_envelope_id s1 \<noteq> ss_secret_envelope_id s0" by (meson keyed_eq)
    with s1 have "s = s1" by simp
    with assms(5) s1(1) s(2) have ok: "case ss_profile_id s of None \<Rightarrow> \<not> ss_created_profile s
        | Some x \<Rightarrow> x \<in> ids \<and> mark_of oid S x = Some s"
      by (auto simp: marks_ok_def)
    show ?thesis
    proof (cases "ss_profile_id s")
      case None with ok show ?thesis by simp
    next
      case (Some x)
      with ok assms(6) have "x \<noteq> cid" by auto
      with mark [of x] ok Some assms(7) show ?thesis by auto
    qed
  qed
qed

lemma attached_refl:
  assumes "keyed cp_id (db_profiles db)" and "keyed cp_peer_id (db_profiles db)"
    and "keyed ss_secret_envelope_id (db_staged db)" and "keyed staged_key (db_staged db)"
    and "\<forall>s \<in> set (db_staged db). ss_operation_id s = oid \<longrightarrow> ss_profile_id s = None \<and> \<not> ss_created_profile s"
  shows "attached oid db db"
proof -
  have "mark_of oid (db_staged db) x = None" for x
    using assms(5) by (auto simp: mark_of_def find_None_iff)
  then have "list_all2 (attached_row oid (db_staged db)) (db_profiles db) (db_profiles db)"
    by (auto simp: attached_row_def same_profile_def list_all2_same)
  moreover have "marks_ok oid (db_staged db) (cp_id ` set (db_profiles db @ []))"
    using assms(5) by (auto simp: marks_ok_def)
  ultimately show ?thesis
    by (intro attachedI [where ?P1.0 = "db_profiles db" and ?P2.0 = "[]" and S = "db_staged db"]) (simp_all add: assms)
qed

lemma keyed_staged_eq:
  assumes "keyed staged_key S" and "s \<in> set S" and "s' \<in> set S"
    and "ss_operation_id s = ss_operation_id s'" and "ss_peer_id s = ss_peer_id s'"
  shows "s = s'"
  using assms by (intro keyed_eq [OF assms(1)]) (auto simp: staged_key_def)

text \<open>What stays when one row of the staged table is marked.\<close>

lemma marking_keeps:
  fixes oid e cid :: string and v :: "string option" and b :: bool
  assumes "keyed ss_secret_envelope_id S" and "keyed staged_key S"
  defines "S' \<equiv> update_rows (\<lambda>r. ss_operation_id r = oid \<and> ss_secret_envelope_id r = e) (marked cid v b) S"
  shows "keyed ss_secret_envelope_id S'" "keyed staged_key S'"
    "filter (\<lambda>s. ss_operation_id s \<noteq> oid) S' = filter (\<lambda>s. ss_operation_id s \<noteq> oid) S"
    "map ss_secret_envelope_id (filter (\<lambda>s. ss_operation_id s = oid) S') =
       map ss_secret_envelope_id (filter (\<lambda>s. ss_operation_id s = oid) S)"
proof -
  show "keyed ss_secret_envelope_id S'" "keyed staged_key S'"
    unfolding S'_def using assms(1,2) by (auto intro!: keyed_update)
  show "filter (\<lambda>s. ss_operation_id s \<noteq> oid) S' = filter (\<lambda>s. ss_operation_id s \<noteq> oid) S"
    unfolding S'_def by (induction S) (auto simp: table_simps)
  show "map ss_secret_envelope_id (filter (\<lambda>s. ss_operation_id s = oid) S') =
       map ss_secret_envelope_id (filter (\<lambda>s. ss_operation_id s = oid) S)"
    unfolding S'_def by (induction S) (auto simp: table_simps)
qed

lemma attach_new_profile:
  assumes att: "attached oid db0 db" and s0: "s0 \<in> set (db_staged db)" "ss_operation_id s0 = oid" "ss_profile_id s0 = None"
    and new: "cid \<notin> cp_id ` set (db_profiles db)" "ss_peer_id s0 \<notin> cp_peer_id ` set (db_profiles db)"
  shows "attached oid db0 (mark_staged oid (ss_secret_envelope_id s0) cid None True
    (db\<lparr>db_profiles := db_profiles db @ [external_profile cid (ss_peer_id s0) (Some (ss_secret_envelope_id s0)) now]\<rparr>))"
proof -
  from att obtain P1 P2 S where db: "db = db0\<lparr>db_profiles := P1 @ P2, db_staged := S\<rparr>"
    and P1: "list_all2 (attached_row oid S) (db_profiles db0) P1" and P2: "list_all (created_row oid S) P2"
    and k: "keyed cp_id (P1 @ P2)" "keyed cp_peer_id (P1 @ P2)" "keyed ss_secret_envelope_id S" "keyed staged_key S"
    and S: "map ss_secret_envelope_id (filter (\<lambda>s. ss_operation_id s = oid) S) =
       map ss_secret_envelope_id (filter (\<lambda>s. ss_operation_id s = oid) (db_staged db0))"
      "filter (\<lambda>s. ss_operation_id s \<noteq> oid) S = filter (\<lambda>s. ss_operation_id s \<noteq> oid) (db_staged db0)"
      "marks_ok oid S (cp_id ` set (P1 @ P2))"
    unfolding attached_def by blast
  let ?e = "ss_secret_envelope_id s0"
  let ?r = "external_profile cid (ss_peer_id s0) (Some ?e) now"
  let ?S = "update_rows (\<lambda>r. ss_operation_id r = oid \<and> ss_secret_envelope_id r = ?e) (marked cid None True) S"
  have none: "mark_of oid S cid = None"
  proof (rule ccontr)
    assume "mark_of oid S cid \<noteq> None"
    then obtain s where "mark_of oid S cid = Some s" by blast
    from mark_of_SomeD [OF this] S(3) have "cid \<in> cp_id ` set (P1 @ P2)" by (auto simp: marks_ok_def)
    with new(1) db show False by simp
  qed
  have s0S: "s0 \<in> set S" using s0(1) db by simp
  note mark = mark_of_update [OF k(3) s0S s0(2,3), of cid None True]
  have other: "mark_of oid ?S x = mark_of oid S x" if "x \<noteq> cid" for x
    using mark [of x] that by simp
  have here: "mark_of oid ?S cid = Some (marked cid None True s0)" using mark [of cid] none by simp
  have ids: "cp_id c \<noteq> cid" if "c \<in> set (P1 @ P2)" for c
    using that new(1) by (auto simp: db)
  have a1: "list_all2 (attached_row oid ?S) (db_profiles db0) P1"
    by (rule list.rel_mono_strong [OF P1]) (use ids other in \<open>auto simp: attached_row_def\<close>)
  have a2: "list_all (created_row oid ?S) (P2 @ [?r])"
  proof -
    have "created_row oid ?S c" if "c \<in> set P2" for c
      using that P2 ids [of c] other [of "cp_id c"] by (simp add: created_row_def list_all_iff)
    moreover have "created_row oid ?S ?r" using here by (simp add: created_row_def external_profile_def)
    ultimately show ?thesis by (simp add: list_all_iff)
  qed
  have a3: "keyed cp_id (P1 @ P2 @ [?r])" "keyed cp_peer_id (P1 @ P2 @ [?r])"
    using k(1,2) new by (auto simp: db keyed_def external_profile_def)
  note a4 = marking_keeps [OF k(3,4), of oid ?e cid None True]
  have a5: "marks_ok oid ?S (cp_id ` set (P1 @ P2 @ [?r]))"
    by (rule marks_ok_update [OF k(3) s0S s0(2,3) S(3) none]) (auto simp: external_profile_def)
  have "mark_staged oid ?e cid None True (db\<lparr>db_profiles := db_profiles db @ [?r]\<rparr>) =
      db0\<lparr>db_profiles := P1 @ P2 @ [?r], db_staged := ?S\<rparr>"
    by (simp add: db mark_staged_def marked_def [abs_def] coalesce_def nullable_def)
  from attachedI [OF this a1 a2 a3 a4(1,2) a4(4) [unfolded S(1)] a4(3) [unfolded S(2)] a5] show ?thesis .
qed

lemma attach_known_profile:
  assumes att: "attached oid db0 db" and s0: "s0 \<in> set (db_staged db)" "ss_operation_id s0 = oid" "ss_profile_id s0 = None"
    and c: "c \<in> set (db_profiles db)" "cp_peer_id c = ss_peer_id s0"
    and nonempty: "\<forall>x \<in> set (db_profiles db0). cp_preshared_secret_id x \<noteq> Some []"
  shows "attached oid db0 (mark_staged oid (ss_secret_envelope_id s0) (cp_id c) (cp_preshared_secret_id c) False
    (update_profiles (\<lambda>r. cp_id r = cp_id c)
      (\<lambda>r. r\<lparr>cp_preshared_secret_id := Some (ss_secret_envelope_id s0), cp_updated_at_ms := unix_milli now\<rparr>) db))"
proof -
  from att obtain P1 P2 S where db: "db = db0\<lparr>db_profiles := P1 @ P2, db_staged := S\<rparr>"
    and P1: "list_all2 (attached_row oid S) (db_profiles db0) P1" and P2: "list_all (created_row oid S) P2"
    and k: "keyed cp_id (P1 @ P2)" "keyed cp_peer_id (P1 @ P2)" "keyed ss_secret_envelope_id S" "keyed staged_key S"
    and S: "map ss_secret_envelope_id (filter (\<lambda>s. ss_operation_id s = oid) S) =
       map ss_secret_envelope_id (filter (\<lambda>s. ss_operation_id s = oid) (db_staged db0))"
      "filter (\<lambda>s. ss_operation_id s \<noteq> oid) S = filter (\<lambda>s. ss_operation_id s \<noteq> oid) (db_staged db0)"
      "marks_ok oid S (cp_id ` set (P1 @ P2))"
    unfolding attached_def by blast
  let ?e = "ss_secret_envelope_id s0" and ?v = "nullable (coalesce (cp_preshared_secret_id c))"
  let ?f = "\<lambda>r. r\<lparr>cp_preshared_secret_id := Some ?e, cp_updated_at_ms := unix_milli now\<rparr>"
  let ?S = "update_rows (\<lambda>r. ss_operation_id r = oid \<and> ss_secret_envelope_id r = ?e) (marked (cp_id c) ?v False) S"
  have s0S: "s0 \<in> set S" and cP: "c \<in> set (P1 @ P2)" using s0(1) c(1) by (simp_all add: db)
  have unmarked: "mark_of oid S (cp_id c) = None"
  proof (rule ccontr)
    assume "mark_of oid S (cp_id c) \<noteq> None"
    then obtain s where s: "mark_of oid S (cp_id c) = Some s" by blast
    from cP have "ss_peer_id s = cp_peer_id c"
      using P1 P2 s by (auto simp: list_all2_conv_all_nth in_set_conv_nth list_all_length attached_row_def created_row_def)
    with mark_of_SomeD [OF s] s0S s0(2) c(2) have "s = s0" by (intro keyed_staged_eq [OF k(4)]) auto
    with mark_of_SomeD [OF s] s0(3) show False by simp
  qed
  note mark = mark_of_update [OF k(3) s0S s0(2,3), of "cp_id c" ?v False]
  have other: "mark_of oid ?S x = mark_of oid S x" if "x \<noteq> cp_id c" for x
    using mark [of x] that by simp
  have here: "mark_of oid ?S (cp_id c) = Some (marked (cp_id c) ?v False s0)"
    using mark [of "cp_id c"] unmarked by simp
  have a1: "list_all2 (attached_row oid ?S) (db_profiles db0) (update_rows (\<lambda>r. cp_id r = cp_id c) ?f P1)"
    unfolding update_rows_def [where t = P1] list_all2_map2
  proof (rule list.rel_mono_strong [OF P1])
    fix x d assume xd: "x \<in> set (db_profiles db0)" "d \<in> set P1" "attached_row oid S x d"
    show "attached_row oid ?S x (if cp_id d = cp_id c then ?f d else d)"
    proof (cases "cp_id d = cp_id c")
      case True
      have "d = c" by (rule keyed_eq [OF k(1)]) (use True xd(2) cP in auto)
      moreover have "?v = cp_preshared_secret_id x"
        using xd(1,3) unmarked nonempty \<open>d = c\<close>
        by (auto simp: attached_row_def nullable_def coalesce_def split: option.split)
      ultimately show ?thesis
        using xd(3) unmarked here c(2) by (simp add: attached_row_def same_profile_def bare_profile_def)
    next
      case False
      with xd(3) other show ?thesis by (simp add: attached_row_def)
    qed
  qed
  have ids: "cp_id d \<noteq> cp_id c" if "d \<in> set P2" for d
    using that P2 unmarked by (auto simp: list_all_iff created_row_def split: option.splits)
  then have same: "update_rows (\<lambda>r. cp_id r = cp_id c) ?f P2 = P2" by (simp add: update_rows_def map_idI)
  have a2: "list_all (created_row oid ?S) P2"
    using P2 ids other by (simp add: list_all_iff created_row_def)
  have keys: "map cp_id (update_rows (\<lambda>r. cp_id r = cp_id c) ?f P1) = map cp_id P1"
    "map cp_peer_id (update_rows (\<lambda>r. cp_id r = cp_id c) ?f P1) = map cp_peer_id P1"
    by (simp_all add: map_update_rows)
  have a3: "keyed cp_id (update_rows (\<lambda>r. cp_id r = cp_id c) ?f P1 @ P2)"
    "keyed cp_peer_id (update_rows (\<lambda>r. cp_id r = cp_id c) ?f P1 @ P2)"
    using k(1,2) unfolding keyed_def map_append keys .
  note a4 = marking_keeps [OF k(3,4), of oid ?e "cp_id c" ?v False]
  have sets: "cp_id ` set (update_rows (\<lambda>r. cp_id r = cp_id c) ?f P1 @ P2) = cp_id ` set (P1 @ P2)"
    using keys(1) by (metis map_append set_map)
  have a5: "marks_ok oid ?S (cp_id ` set (update_rows (\<lambda>r. cp_id r = cp_id c) ?f P1 @ P2))"
    unfolding sets by (rule marks_ok_update [OF k(3) s0S s0(2,3) S(3) unmarked]) (use cP in auto)
  have "mark_staged oid ?e (cp_id c) (cp_preshared_secret_id c) False (update_profiles (\<lambda>r. cp_id r = cp_id c) ?f db) =
      db0\<lparr>db_profiles := update_rows (\<lambda>r. cp_id r = cp_id c) ?f P1 @ P2, db_staged := ?S\<rparr>"
    using same by (simp add: db mark_staged_def marked_def [abs_def] update_profiles_def update_rows_def)
  from attachedI [OF this a1 a2 a3 a4(1,2) a4(4) [unfolded S(1)] a4(3) [unfolded S(2)] a5] show ?thesis .
qed

lemma attach_step:
  assumes "attach_secret gen now oid (index, s0) (k, db) = Inr (k', db')" and "attached oid db0 db"
    and "s0 \<in> set (db_staged db)" and "ss_operation_id s0 = oid" and "ss_profile_id s0 = None"
    and "\<forall>x \<in> set (db_profiles db0). cp_preshared_secret_id x \<noteq> Some []"
  shows "attached oid db0 db'"
    and "\<And>s. s \<in> set (db_staged db) \<Longrightarrow> ss_secret_envelope_id s \<noteq> ss_secret_envelope_id s0 \<Longrightarrow> s \<in> set (db_staged db')"
proof -
  let ?e = "ss_secret_envelope_id s0"
  have cases: "attached oid db0 db' \<and> (\<forall>s \<in> set (db_staged db). ss_secret_envelope_id s \<noteq> ?e \<longrightarrow> s \<in> set (db_staged db'))"
  proof (cases "find (\<lambda>c. cp_peer_id c = ss_peer_id s0) (db_profiles db)")
    case None
    with assms(1) obtain cid db1 where
      "insert_profile (external_profile cid (ss_peer_id s0) (Some ?e) now) db = Inr db1"
      and db': "db' = mark_staged oid ?e cid None True db1"
      by (auto simp: attach_secret_def)
    from insert_profile_Inr [OF this(1)] have p: "cid \<notin> cp_id ` set (db_profiles db)"
      "ss_peer_id s0 \<notin> cp_peer_id ` set (db_profiles db)"
      "db1 = db\<lparr>db_profiles := db_profiles db @ [external_profile cid (ss_peer_id s0) (Some ?e) now]\<rparr>"
      by (simp_all add: external_profile_def)
    from attach_new_profile [OF assms(2-5) p(1,2)] show ?thesis
      by (auto simp: db' p(3) mark_staged_def update_rows_def image_iff intro!: bexI)
  next
    case (Some c)
    with assms(1) have db': "db' = mark_staged oid ?e (cp_id c) (cp_preshared_secret_id c) False
      (update_profiles (\<lambda>r. cp_id r = cp_id c) (\<lambda>r. r\<lparr>cp_preshared_secret_id := Some ?e, cp_updated_at_ms := unix_milli now\<rparr>) db)"
      by (auto simp: attach_secret_def set_preshared_def)
    from find_SomeD [OF Some] attach_known_profile [OF assms(2-5) _ _ assms(6)] show ?thesis
      by (auto simp: db' mark_staged_def update_profiles_def update_rows_def image_iff intro!: bexI)
  qed
  show "attached oid db0 db'" using cases by blast
  show "\<And>s. s \<in> set (db_staged db) \<Longrightarrow> ss_secret_envelope_id s \<noteq> ?e \<Longrightarrow> s \<in> set (db_staged db')" using cases by blast
qed

lemma attach_all:
  assumes "fold_r (attach_secret gen now oid) xs (k, db) = Inr (k', db')" and "attached oid db0 db"
    and "\<forall>x \<in> set xs. snd x \<in> set (db_staged db) \<and> ss_operation_id (snd x) = oid \<and> ss_profile_id (snd x) = None"
    and "distinct (map (ss_secret_envelope_id \<circ> snd) xs)"
    and "\<forall>x \<in> set (db_profiles db0). cp_preshared_secret_id x \<noteq> Some []"
  shows "attached oid db0 db'"
  using assms
proof (induction xs arbitrary: k db)
  case (Cons x xs)
  obtain index s0 where x: "x = (index, s0)" by (cases x)
  from Cons.prems(1) x obtain k1 db1 where s: "attach_secret gen now oid (index, s0) (k, db) = Inr (k1, db1)"
    "fold_r (attach_secret gen now oid) xs (k1, db1) = Inr (k', db')"
    by auto
  have s0: "s0 \<in> set (db_staged db)" "ss_operation_id s0 = oid" "ss_profile_id s0 = None" using Cons.prems(3) x by auto
  note step = attach_step [OF s(1) Cons.prems(2) s0 Cons.prems(5)]
  show ?case
  proof (rule Cons.IH [OF s(2) step(1) _ _ Cons.prems(5)])
    show "\<forall>x \<in> set xs. snd x \<in> set (db_staged db1) \<and> ss_operation_id (snd x) = oid \<and> ss_profile_id (snd x) = None"
    proof (rule ballI)
      fix y assume y: "y \<in> set xs"
      with Cons.prems(4) x have "ss_secret_envelope_id (snd y) \<noteq> ss_secret_envelope_id s0" by force
      with Cons.prems(3) y step(2) show "snd y \<in> set (db_staged db1) \<and> ss_operation_id (snd y) = oid \<and> ss_profile_id (snd y) = None"
        by simp
    qed
    show "distinct (map (ss_secret_envelope_id \<circ> snd) xs)" using Cons.prems(4) by (simp add: comp_def)
  qed
qed simp

section \<open>Taking the secrets back\<close>

definition owned_profile :: "staged_row \<Rightarrow> profile_row \<Rightarrow> bool" where
  "owned_profile s c \<longleftrightarrow> cp_id c = coalesce (ss_profile_id s) \<and> cp_peer_id c = ss_peer_id s \<and>
     cp_preshared_secret_id c = Some (ss_secret_envelope_id s)"

text \<open>What \<open>restore_secret\<close> does to one profile, and a list of them.\<close>

definition restore_row :: "time \<Rightarrow> staged_row \<Rightarrow> profile_row \<Rightarrow> profile_row option" where
  "restore_row now s c =
     (if \<not> owned_profile s c then Some c
      else if ss_created_profile s then None
      else if coalesce (ss_profile_id s) = [] then Some c
      else Some (c\<lparr>cp_preshared_secret_id := nullable (coalesce (ss_previous_secret_envelope_id s)),
        cp_updated_at_ms := unix_milli now\<rparr>))"

fun restore_rows :: "time \<Rightarrow> staged_row list \<Rightarrow> profile_row \<Rightarrow> profile_row option" where
  "restore_rows now [] c = Some c"
| "restore_rows now (s # ss) c = (case restore_row now s c of None \<Rightarrow> None | Some c' \<Rightarrow> restore_rows now ss c')"

text \<open>\<open>K\<close> are the profiles that were there before: routes and other operations refer to these only.\<close>

definition refers_to :: "string set \<Rightarrow> string \<Rightarrow> agent_db \<Rightarrow> bool" where
  "refers_to K oid db \<longleftrightarrow> (\<forall>r \<in> set (db_routes db). cr_profile_id r \<in> K) \<and>
     (\<forall>s \<in> set (db_staged db). ss_operation_id s \<noteq> oid \<longrightarrow> (case ss_profile_id s of None \<Rightarrow> True | Some x \<Rightarrow> x \<in> K))"

definition same_but_profiles :: "string \<Rightarrow> agent_db \<Rightarrow> agent_db \<Rightarrow> bool" where
  "same_but_profiles oid db db' \<longleftrightarrow>
     db' = db\<lparr>db_profiles := db_profiles db', db_staged := db_staged db'\<rparr> \<and>
     filter (\<lambda>s. ss_operation_id s \<noteq> oid) (db_staged db') = filter (\<lambda>s. ss_operation_id s \<noteq> oid) (db_staged db)"

lemma same_but_profiles_refl [simp]: "same_but_profiles oid db db"
  by (simp add: same_but_profiles_def)

lemma same_but_profiles_trans:
  assumes "same_but_profiles oid db1 db2" and "same_but_profiles oid db2 db3"
  shows "same_but_profiles oid db1 db3"
proof -
  from assms have "db3 = db1\<lparr>db_profiles := db_profiles db2, db_staged := db_staged db2\<rparr>
      \<lparr>db_profiles := db_profiles db3, db_staged := db_staged db3\<rparr>"
    unfolding same_but_profiles_def by metis
  then have "db3 = db1\<lparr>db_profiles := db_profiles db3, db_staged := db_staged db3\<rparr>" by simp
  with assms show ?thesis unfolding same_but_profiles_def by simp
qed

lemma same_but_profiles_refers:
  assumes "same_but_profiles oid db db'" and "refers_to K oid db"
  shows "refers_to K oid db'"
proof -
  from assms(1) have r: "db_routes db' = db_routes db"
    unfolding same_but_profiles_def by (metis agent_db.select_convs(9) agent_db.surjective agent_db.update_convs(8,18))
  have "s \<in> set (db_staged db)" if "s \<in> set (db_staged db')" "ss_operation_id s \<noteq> oid" for s
  proof -
    from that have "s \<in> set (filter (\<lambda>s. ss_operation_id s \<noteq> oid) (db_staged db'))" by simp
    with assms(1) show ?thesis unfolding same_but_profiles_def by simp
  qed
  with assms(2) r show ?thesis by (simp add: refers_to_def)
qed

lemma delete_profiles_same:
  assumes "refers_to K oid db" and "\<And>c. c \<in> set (db_profiles db) \<Longrightarrow> P c \<Longrightarrow> cp_id c \<notin> K"
  shows "same_but_profiles oid db (delete_profiles P db)"
    and "db_profiles (delete_profiles P db) = filter (\<lambda>c. \<not> P c) (db_profiles db)"
proof -
  define gone where "gone = (\<lambda>x. \<exists>r \<in> set (db_profiles db). P r \<and> cp_id r = x)"
  have gone: "\<not> gone x" if "x \<in> K" for x using assms(2) that by (auto simp: gone_def)
  have routes: "filter (\<lambda>r. \<not> gone (cr_profile_id r)) (db_routes db) = db_routes db"
    using assms(1) gone by (simp add: refers_to_def)
  have "s\<lparr>ss_profile_id := drop_ref gone (ss_profile_id s)\<rparr> = s"
    if "s \<in> set (db_staged db)" "ss_operation_id s \<noteq> oid" for s
    using assms(1) that gone by (cases "ss_profile_id s") (auto simp: refers_to_def drop_ref_def)
  then have "filter (\<lambda>s. ss_operation_id s \<noteq> oid) (map (\<lambda>s. s\<lparr>ss_profile_id := drop_ref gone (ss_profile_id s)\<rparr>) (db_staged db)) =
      filter (\<lambda>s. ss_operation_id s \<noteq> oid) (db_staged db)"
    by (simp add: filter_map comp_def) (rule map_idI, simp)
  with routes show "same_but_profiles oid db (delete_profiles P db)"
    by (simp add: same_but_profiles_def delete_profiles_def gone_def [symmetric] Let_def)
  show "db_profiles (delete_profiles P db) = filter (\<lambda>c. \<not> P c) (db_profiles db)"
    by (simp add: delete_profiles_def Let_def)
qed

lemma map_filter_Some: "List.map_filter (\<lambda>c. Some (f c)) xs = map f xs"
  by (simp add: map_filter_def comp_def)

lemma restore_secret_step:
  assumes "restore_secret now s db = Inr db'" and "refers_to K oid db"
    and "ss_created_profile s \<longrightarrow> coalesce (ss_profile_id s) \<notin> K"
  shows "same_but_profiles oid db db'" and "db_profiles db' = List.map_filter (restore_row now s) (db_profiles db)"
proof -
  have del: "filter (\<lambda>c. \<not> owned_profile s c) xs = List.map_filter (restore_row now s) xs" if "ss_created_profile s" for xs
    using that by (induction xs) (auto simp: restore_row_def map_filter_def)
  have upd: "update_rows (owned_profile s) (\<lambda>r. r\<lparr>cp_preshared_secret_id := nullable (coalesce (ss_previous_secret_envelope_id s)),
      cp_updated_at_ms := unix_milli now\<rparr>) xs = List.map_filter (restore_row now s) xs"
    if "\<not> ss_created_profile s" "coalesce (ss_profile_id s) \<noteq> []" for xs
    using that by (induction xs) (auto simp: restore_row_def map_filter_def table_simps)
  have keep: "xs = List.map_filter (restore_row now s) xs" if "\<not> ss_created_profile s" "coalesce (ss_profile_id s) = []" for xs
    using that by (induction xs) (auto simp: restore_row_def map_filter_def)
  have "owned_profile s c \<Longrightarrow> ss_created_profile s \<Longrightarrow> cp_id c \<notin> K" for c
    using assms(3) by (simp add: owned_profile_def)
  note d = delete_profiles_same [OF assms(2), of "owned_profile s"]
  have o: "(\<lambda>c. cp_id c = coalesce (ss_profile_id s) \<and> cp_peer_id c = ss_peer_id s \<and>
      cp_preshared_secret_id c = Some (ss_secret_envelope_id s)) = owned_profile s"
    by (simp add: owned_profile_def fun_eq_iff)
  note r = assms(1) [unfolded restore_secret_def Let_def o]
  show "same_but_profiles oid db db'"
    using r d(1) assms(3)
    by (auto simp: owned_profile_def set_preshared_def update_profiles_def same_but_profiles_def split: if_splits)
  show "db_profiles db' = List.map_filter (restore_row now s) (db_profiles db)"
    using r d(2) del upd keep
    by (auto simp: delete_profiles_def Let_def set_preshared_def update_profiles_def split: if_splits)
qed

lemma restore_all_rows:
  assumes "fold_r (restore_secret now) ss db = Inr db'" and "refers_to K oid db"
    and "\<forall>s \<in> set ss. ss_created_profile s \<longrightarrow> coalesce (ss_profile_id s) \<notin> K"
  shows "same_but_profiles oid db db' \<and> db_profiles db' = List.map_filter (restore_rows now ss) (db_profiles db)"
  using assms
proof (induction ss arbitrary: db)
  case Nil
  then show ?case by (simp add: map_filter_Some [of id, unfolded id_def])
next
  case (Cons s ss)
  from Cons.prems(1) obtain db1 where s: "restore_secret now s db = Inr db1" "fold_r (restore_secret now) ss db1 = Inr db'"
    by auto
  note step = restore_secret_step [OF s(1) Cons.prems(2)]
  have 1: "same_but_profiles oid db db1" "db_profiles db1 = List.map_filter (restore_row now s) (db_profiles db)"
    using step Cons.prems(3) by auto
  have 2: "same_but_profiles oid db1 db' \<and> db_profiles db' = List.map_filter (restore_rows now ss) (db_profiles db1)"
    by (rule Cons.IH [OF s(2) same_but_profiles_refers [OF 1(1) Cons.prems(2)]]) (use Cons.prems(3) in simp)
  have "List.map_filter (restore_rows now ss) (List.map_filter (restore_row now s) xs) =
      List.map_filter (restore_rows now (s # ss)) xs" for xs
    by (induction xs) (auto simp: map_filter_def split: option.splits)
  with 1 2 show ?case by (metis same_but_profiles_trans)
qed

text \<open>One profile: the secrets of other profiles leave it alone, its own gives back the previous one.\<close>

lemma restore_rows_unowned:
  "(\<And>s. s \<in> set ss \<Longrightarrow> \<not> owned_profile s c) \<Longrightarrow> restore_rows now ss c = Some c"
  by (induction ss) (simp_all add: restore_row_def)

lemma restore_row_ids:
  "restore_row now s c = Some c' \<Longrightarrow> cp_id c' = cp_id c \<and> cp_peer_id c' = cp_peer_id c"
  by (auto simp: restore_row_def split: if_splits)

lemma restore_rows_owned:
  assumes "s \<in> set ss" and "distinct ss" and "owned_profile s c"
    and "\<And>s' c'. s' \<in> set ss \<Longrightarrow> s' \<noteq> s \<Longrightarrow> cp_id c' = cp_id c \<Longrightarrow> cp_peer_id c' = cp_peer_id c \<Longrightarrow> \<not> owned_profile s' c'"
  shows "restore_rows now ss c = restore_row now s c"
  using assms
proof (induction ss)
  case (Cons a ss)
  show ?case
  proof (cases "a = s")
    case True
    show ?thesis
    proof (cases "restore_row now s c")
      case (Some c')
      have "restore_rows now ss c' = Some c'"
        by (rule restore_rows_unowned) (use Cons.prems(2,4) True restore_row_ids [OF Some] in auto)
      with Some True show ?thesis by simp
    qed (use True in simp)
  next
    case False
    with Cons.prems(4) have "\<not> owned_profile a c" by simp
    with False Cons show ?thesis by (simp add: restore_row_def)
  qed
qed simp

lemma owned_unique:
  assumes "keyed staged_key S" and "s \<in> set S" and "s' \<in> set S" and "ss_operation_id s = oid" and "ss_operation_id s' = oid"
    and "ss_peer_id s = cp_peer_id c" and "s' \<noteq> s"
  shows "\<not> owned_profile s' c"
proof
  assume "owned_profile s' c"
  then have "ss_peer_id s' = cp_peer_id c" by (simp add: owned_profile_def)
  with assms keyed_staged_eq [OF assms(1), of s' s] show False by simp
qed

lemma restore_attached_row:
  assumes "keyed staged_key S" and "marks_ok oid S ids" and "set ss = {s \<in> set S. ss_operation_id s = oid}" and "distinct ss"
    and row: "attached_row oid S x c" and "cp_preshared_secret_id x \<noteq> Some []" and "cp_id c \<noteq> []"
  shows "\<exists>c'. restore_rows now ss c = Some c' \<and> bare_profile c' = bare_profile x"
proof (cases "mark_of oid S (cp_id c)")
  case None
  have "\<not> owned_profile s c" if "s \<in> set ss" for s
  proof
    assume o: "owned_profile s c"
    with assms(7) have "ss_profile_id s = Some (cp_id c)"
      by (cases "ss_profile_id s") (auto simp: owned_profile_def coalesce_def)
    with None that assms(3) show False by (auto simp: mark_of_def find_None_iff)
  qed
  then have "restore_rows now ss c = Some c" by (rule restore_rows_unowned)
  moreover have "bare_profile c = bare_profile x"
    using row None by (cases c) (auto simp: attached_row_def same_profile_def bare_profile_def)
  ultimately show ?thesis by blast
next
  case (Some s)
  note s = mark_of_SomeD [OF Some]
  from row Some have r: "\<not> ss_created_profile s" "ss_previous_secret_envelope_id s = cp_preshared_secret_id x"
    "cp_preshared_secret_id c = Some (ss_secret_envelope_id s)" "ss_peer_id s = cp_peer_id c" "same_profile x c"
    by (auto simp: attached_row_def)
  have o: "owned_profile s c" using s r by (simp add: owned_profile_def coalesce_def)
  have "restore_rows now ss c = restore_row now s c"
    by (rule restore_rows_owned [OF _ assms(4) o]) (use s assms(3) r(4) owned_unique [OF assms(1)] in auto)
  moreover have "nullable (coalesce (cp_preshared_secret_id x)) = cp_preshared_secret_id x"
    using assms(6) by (cases "cp_preshared_secret_id x") (auto simp: nullable_def coalesce_def)
  ultimately show ?thesis
    using o r s assms(7) by (auto simp: restore_row_def same_profile_def bare_profile_def coalesce_def)
qed

lemma restore_created_row:
  assumes "keyed staged_key S" and "set ss = {s \<in> set S. ss_operation_id s = oid}" and "distinct ss"
    and row: "created_row oid S c"
  shows "restore_rows now ss c = None"
proof -
  from row obtain s where m: "mark_of oid S (cp_id c) = Some s" and r: "ss_created_profile s"
    "cp_preshared_secret_id c = Some (ss_secret_envelope_id s)" "ss_peer_id s = cp_peer_id c"
    by (auto simp: created_row_def split: option.splits)
  note s = mark_of_SomeD [OF m]
  have o: "owned_profile s c" using s r by (simp add: owned_profile_def coalesce_def)
  have "restore_rows now ss c = restore_row now s c"
    by (rule restore_rows_owned [OF _ assms(3) o]) (use s assms(2) r(3) owned_unique [OF assms(1)] in auto)
  with o r(1) show ?thesis by (simp add: restore_row_def)
qed

lemma restore_profiles:
  assumes "list_all2 (attached_row oid S) X P1" and "list_all (created_row oid S) P2"
    and "keyed staged_key S" and "marks_ok oid S ids" and "set ss = {s \<in> set S. ss_operation_id s = oid}" and "distinct ss"
    and "\<forall>x \<in> set X. cp_preshared_secret_id x \<noteq> Some [] \<and> cp_id x \<noteq> []"
  shows "map bare_profile (List.map_filter (restore_rows now ss) (P1 @ P2)) = map bare_profile X"
proof -
  have "map bare_profile (List.map_filter (restore_rows now ss) P1) = map bare_profile X"
    using assms(1,7)
  proof (induction X P1)
    case (Cons x X c P1)
    have "cp_id c = cp_id x" using Cons.hyps(1) by (simp add: attached_row_def same_profile_id)
    with Cons.prems have "cp_id c \<noteq> []" "cp_preshared_secret_id x \<noteq> Some []" by simp_all
    from restore_attached_row [OF assms(3-6) Cons.hyps(1) this(2,1)] obtain c' where
      "restore_rows now ss c = Some c'" "bare_profile c' = bare_profile x" by blast
    with Cons show ?case by (simp add: map_filter_simps)
  qed (simp add: map_filter_def)
  moreover have "List.map_filter (restore_rows now ss) P2 = []"
    using assms(2) restore_created_row [OF assms(3,5,6)] by (induction P2) (simp_all add: map_filter_simps)
  ultimately show ?thesis by (simp add: map_filter_def)
qed

section \<open>Taking the import back\<close>

definition reset_purpose :: "ledger_row \<Rightarrow> allowed_row \<Rightarrow> allowed_row" where
  "reset_purpose l r =
     (if al_resource_kind l = ''allowed_ip_purpose'' \<and> al_resource_id l = pa_id r
      then r\<lparr>pa_purpose := coalesce (al_previous_value l)\<rparr> else r)"

lemma reset_purpose_id [simp]: "pa_id (reset_purpose l r) = pa_id r"
  by (simp add: reset_purpose_def)

lemma restore_purposes:
  "fold_r restore_purpose items db = Inr db' \<Longrightarrow> db' = db\<lparr>db_allowed := map (fold reset_purpose items) (db_allowed db)\<rparr>"
proof (induction items arbitrary: db)
  case (Cons l items)
  from Cons.prems obtain db1 where s: "restore_purpose l db = Inr db1" "fold_r restore_purpose items db1 = Inr db'" by auto
  have "db1 = db\<lparr>db_allowed := map (reset_purpose l) (db_allowed db)\<rparr>"
  proof (cases "al_resource_kind l = ''allowed_ip_purpose''")
    case True
    with s(1) show ?thesis
      by (auto simp: restore_purpose_def set_purpose_def update_rows_def reset_purpose_def eq_commute [of "al_resource_id l"])
  next
    case False
    then have "reset_purpose l = id" by (simp add: reset_purpose_def fun_eq_iff)
    with False s(1) show ?thesis by (simp add: restore_purpose_def)
  qed
  with Cons.IH [OF s(2)] show ?case by simp
qed simp

lemma reset_none: "\<forall>l \<in> set items. \<not> (al_resource_kind l = ''allowed_ip_purpose'' \<and> al_resource_id l = pa_id r) \<Longrightarrow>
    fold reset_purpose items r = r"
proof (induction items)
  case (Cons l items)
  then have "reset_purpose l r = r" by (auto simp: reset_purpose_def)
  with Cons show ?case by simp
qed simp

lemma reset_one:
  assumes "l \<in> set items" and "al_resource_kind l = ''allowed_ip_purpose''" and "al_resource_id l = pa_id r"
    and "\<forall>l' \<in> set items. al_resource_kind l' = ''allowed_ip_purpose'' \<longrightarrow> al_resource_id l' = pa_id r \<longrightarrow> l' = l"
  shows "fold reset_purpose items r = r\<lparr>pa_purpose := coalesce (al_previous_value l)\<rparr>"
  using assms
proof (induction items arbitrary: r)
  case (Cons a items)
  show ?case
  proof (cases "l \<in> set items")
    case True
    have "fold reset_purpose items (reset_purpose a r) = (reset_purpose a r)\<lparr>pa_purpose := coalesce (al_previous_value l)\<rparr>"
      by (rule Cons.IH [OF True]) (use Cons.prems(2-4) in simp_all)
    moreover have "(reset_purpose a r)\<lparr>pa_purpose := v\<rparr> = r\<lparr>pa_purpose := v\<rparr>" for v
      by (simp add: reset_purpose_def)
    ultimately show ?thesis by simp
  next
    case False
    with Cons.prems have a: "a = l" by auto
    have "fold reset_purpose items (reset_purpose l r) = reset_purpose l r"
      by (rule reset_none) (use Cons.prems(4) False in auto)
    moreover have "reset_purpose l r = r\<lparr>pa_purpose := coalesce (al_previous_value l)\<rparr>"
      using Cons.prems(2,3) by (simp add: reset_purpose_def)
    ultimately show ?thesis using a by simp
  qed
qed simp

lemma reset_is_before:
  assumes "set items = set ledger" and "keyed ledger_key ledger" and "\<forall>l \<in> set ledger. al_operation_id l = oid"
  shows "fold reset_purpose items r = purpose_before ledger r"
proof (cases "purpose_entry ledger (pa_id r)")
  case None
  then have "fold reset_purpose items r = r"
    by (intro reset_none) (simp add: assms(1) purpose_entry_def find_None_iff)
  with None show ?thesis by (simp add: purpose_before_def)
next
  case (Some l)
  then have l: "l \<in> set ledger" "al_resource_kind l = ''allowed_ip_purpose''" "al_resource_id l = pa_id r"
    by (auto simp: purpose_entry_def dest: find_SomeD)
  have "fold reset_purpose items r = r\<lparr>pa_purpose := coalesce (al_previous_value l)\<rparr>"
  proof (rule reset_one [OF _ l(2,3)])
    show "\<forall>l' \<in> set items. al_resource_kind l' = ''allowed_ip_purpose'' \<longrightarrow> al_resource_id l' = pa_id r \<longrightarrow> l' = l"
      using assms l by (auto simp: ledger_key_def intro: keyed_eq [OF assms(2)])
  qed (use l assms(1) in simp)
  with Some show ?thesis by (simp add: purpose_before_def)
qed

lemma fold_delete_allocations:
  "fold (\<lambda>x. delete_allocations (\<lambda>r. aa_id r = x)) xs db =
     db\<lparr>db_allocations := filter (\<lambda>r. aa_id r \<notin> set xs) (db_allocations db)\<rparr>"
proof (induction xs arbitrary: db)
  case (Cons x xs)
  then show ?case by (simp add: delete_allocations_def conj_commute)
qed simp

lemma fold_delete_profiles:
  assumes "refers_to K oid db" and "set xs \<inter> K = {}"
  shows "same_but_profiles oid db (fold (\<lambda>x. delete_profiles (\<lambda>r. cp_id r = x)) xs db) \<and>
    db_profiles (fold (\<lambda>x. delete_profiles (\<lambda>r. cp_id r = x)) xs db) = filter (\<lambda>r. cp_id r \<notin> set xs) (db_profiles db)"
  using assms
proof (induction xs arbitrary: db)
  case (Cons x xs)
  note d = delete_profiles_same [OF Cons.prems(1), of "\<lambda>r. cp_id r = x"]
  have 1: "same_but_profiles oid db (delete_profiles (\<lambda>r. cp_id r = x) db)" using d(1) Cons.prems(2) by auto
  have "set xs \<inter> K = {}" using Cons.prems(2) by auto
  note 2 = Cons.IH [OF same_but_profiles_refers [OF 1 Cons.prems(1)] this]
  have "db_profiles (delete_profiles (\<lambda>r. cp_id r = x) db) = filter (\<lambda>r. cp_id r \<noteq> x) (db_profiles db)"
    using d(2) Cons.prems(2) by auto
  with 1 2 show ?case by (auto intro: same_but_profiles_trans)
qed simp

lemma fold_delete_pools:
  assumes "\<forall>r \<in> set (db_allocations db). aa_pool_id r \<notin> set xs"
  shows "fold (\<lambda>x. delete_pools (\<lambda>r. ap_id r = x)) xs db = db\<lparr>db_pools := filter (\<lambda>r. ap_id r \<notin> set xs) (db_pools db)\<rparr>"
  using assms
proof (induction xs arbitrary: db)
  case (Cons x xs)
  have keep: "filter (\<lambda>r. \<not> (\<exists>p \<in> set (db_pools db). ap_id p = x \<and> ap_id p = aa_pool_id r)) (db_allocations db) = db_allocations db"
    using Cons.prems by (auto simp: filter_id_conv)
  then have "delete_pools (\<lambda>r. ap_id r = x) db = db\<lparr>db_pools := filter (\<lambda>r. ap_id r \<noteq> x) (db_pools db)\<rparr>"
    by (simp add: delete_pools_def Let_def)
  with Cons show ?case by (simp add: conj_commute)
qed simp

text \<open>\<open>restorable\<close>: what the tables look like before the import is taken back.\<close>

definition restorable :: "string \<Rightarrow> agent_db \<Rightarrow> import_delta \<Rightarrow> agent_db \<Rightarrow> bool" where
  "restorable oid db0 d db \<longleftrightarrow>
     db_pools db = db_pools db0 @ dl_pools d \<and> db_allocations db = db_allocations db0 @ dl_allocs d \<and>
     db_allowed db = dl_allowed d \<and> db_ledger db = db_ledger db0 @ dl_ledger d \<and>
     map bare_profile (db_profiles db) = map bare_profile (db_profiles db0 @ dl_profiles d)"

lemma ledger_items:
  assumes "\<forall>l \<in> set (db_ledger db0). al_operation_id l \<noteq> oid" and "delta_ok oid db0 d" and "restorable oid db0 d db"
  shows "set (ledger_of oid db) = set (dl_ledger d)"
    and "set (ids_of_kind kind (ledger_of oid db)) = set (ids_of_kind kind (dl_ledger d))"
proof -
  show "set (ledger_of oid db) = set (dl_ledger d)"
    using assms by (auto simp: ledger_of_def restorable_def delta_ok_def)
  then show "set (ids_of_kind kind (ledger_of oid db)) = set (ids_of_kind kind (dl_ledger d))"
    by (simp add: ids_of_kind_def)
qed

lemma bare_profile_id: "map bare_profile xs = map bare_profile ys \<Longrightarrow> map cp_id xs = map cp_id ys"
proof -
  assume eq: "map bare_profile xs = map bare_profile ys"
  have "map cp_id xs = map cp_id (map bare_profile xs)" for xs :: "profile_row list"
    by (simp add: bare_profile_def)
  with eq show ?thesis by metis
qed

lemma filter_bare:
  assumes "map bare_profile xs = map bare_profile ys"
  shows "map bare_profile (filter (\<lambda>c. cp_id c \<notin> A) xs) = map bare_profile (filter (\<lambda>c. cp_id c \<notin> A) ys)"
proof -
  have "map bare_profile (filter (\<lambda>c. cp_id c \<notin> A) xs) = filter (\<lambda>c. cp_id c \<notin> A) (map bare_profile xs)" for xs
    by (induction xs) (simp_all add: bare_profile_def)
  with assms show ?thesis by simp
qed

lemma imports_undone:
  assumes "rollback_adoption_imports oid db = Inr db'" and "delta_ok oid db0 d" and "restorable oid db0 d db"
    and "\<forall>l \<in> set (db_ledger db0). al_operation_id l \<noteq> oid"
    and "refers_to (cp_id ` set (db_profiles db0)) oid db"
    and "\<forall>r \<in> set (db_allocations db0). aa_pool_id r \<in> ap_id ` set (db_pools db0)"
  shows "db' = db\<lparr>db_pools := db_pools db0, db_allocations := db_allocations db0, db_allowed := db_allowed db0,
      db_profiles := db_profiles db', db_staged := db_staged db', db_ledger := db_ledger db0\<rparr>"
    and "map bare_profile (db_profiles db') = map bare_profile (db_profiles db0)"
    and "filter (\<lambda>s. ss_operation_id s \<noteq> oid) (db_staged db') = filter (\<lambda>s. ss_operation_id s \<noteq> oid) (db_staged db)"
proof -
  let ?items = "ledger_of oid db"
  note items = ledger_items [OF assms(4,2,3)]
  note ok = assms(2) [unfolded delta_ok_def]
  note tables = assms(3) [unfolded restorable_def]
  from assms(1) obtain db1 where f: "fold_r restore_purpose ?items db = Inr db1" and
    db': "db' = drop_ledger oid (fold (\<lambda>x. delete_pools (\<lambda>r. ap_id r = x)) (ids_of_kind ''address_pool'' ?items)
      (fold (\<lambda>x. delete_profiles (\<lambda>r. cp_id r = x)) (ids_of_kind ''client_profile'' ?items)
       (fold (\<lambda>x. delete_allocations (\<lambda>r. aa_id r = x)) (ids_of_kind ''address_allocation'' ?items) db1)))"
    by (auto simp: rollback_adoption_imports_def Let_def)
  have "fold reset_purpose ?items = purpose_before (dl_ledger d)"
    by (rule ext, rule reset_is_before [OF items(1)]) (use ok in auto)
  then have db1: "db1 = db\<lparr>db_allowed := db_allowed db0\<rparr>"
    using restore_purposes [OF f] ok tables by simp
  let ?db2 = "db1\<lparr>db_allocations := db_allocations db0\<rparr>"
  have "filter (\<lambda>r. aa_id r \<notin> set (ids_of_kind ''address_allocation'' ?items)) (db_allocations db) = db_allocations db0"
    using items(2) ok tables by (auto simp: filter_id_conv)
  then have db2: "fold (\<lambda>x. delete_allocations (\<lambda>r. aa_id r = x)) (ids_of_kind ''address_allocation'' ?items) db1 = ?db2"
    using db1 by (simp add: fold_delete_allocations)
  define db3 where "db3 = fold (\<lambda>x. delete_profiles (\<lambda>r. cp_id r = x)) (ids_of_kind ''client_profile'' ?items) ?db2"
  have disjoint: "set (ids_of_kind ''client_profile'' ?items) \<inter> cp_id ` set (db_profiles db0) = {}"
    using items(2) ok by (auto simp: keyed_def)
  have refers: "refers_to (cp_id ` set (db_profiles db0)) oid ?db2"
    using assms(5) db1 by (simp add: refers_to_def)
  from fold_delete_profiles [OF refers disjoint]
  have db3: "same_but_profiles oid ?db2 db3"
    "db_profiles db3 = filter (\<lambda>r. cp_id r \<notin> set (ids_of_kind ''client_profile'' ?items)) (db_profiles db)"
    using db1 by (simp_all add: db3_def)
  have frame: "db3 = ?db2\<lparr>db_profiles := db_profiles db3, db_staged := db_staged db3\<rparr>"
    using db3(1) by (simp add: same_but_profiles_def)
  have db3_fields: "db_allocations db3 = db_allocations db0" "db_pools db3 = db_pools db0 @ dl_pools d"
    "db_ledger db3 = db_ledger db0 @ dl_ledger d"
    using arg_cong [OF frame, of db_allocations] arg_cong [OF frame, of db_pools] arg_cong [OF frame, of db_ledger] db1 tables
    by simp_all
  have pools: "fold (\<lambda>x. delete_pools (\<lambda>r. ap_id r = x)) (ids_of_kind ''address_pool'' ?items) db3 =
      db3\<lparr>db_pools := db_pools db0\<rparr>"
  proof -
    have "filter (\<lambda>r. ap_id r \<notin> set (ids_of_kind ''address_pool'' ?items)) (db_pools db3) = db_pools db0"
      using items(2) ok db3_fields by (auto simp: filter_id_conv)
    moreover have "\<forall>r \<in> set (db_allocations db3). aa_pool_id r \<notin> set (ids_of_kind ''address_pool'' ?items)"
      using items(2) ok db3_fields assms(6) by auto
    ultimately show ?thesis by (simp add: fold_delete_pools)
  qed
  have ledger: "filter (\<lambda>l. al_operation_id l \<noteq> oid) (db_ledger db0 @ dl_ledger d) = db_ledger db0"
    using assms(4) ok by (simp add: filter_id_conv)
  have final: "db' = db3\<lparr>db_pools := db_pools db0, db_ledger := db_ledger db0\<rparr>"
    unfolding db' db2 db3_def [symmetric] pools using ledger by (simp add: drop_ledger_def db3_fields)
  have "db3 = db\<lparr>db_allocations := db_allocations db0, db_allowed := db_allowed db0,
      db_profiles := db_profiles db3, db_staged := db_staged db3\<rparr>"
    by (subst frame, simp only: db1, cases db, simp)
  then have "db3\<lparr>db_pools := db_pools db0, db_ledger := db_ledger db0\<rparr> =
      db\<lparr>db_allocations := db_allocations db0, db_allowed := db_allowed db0,
      db_profiles := db_profiles db3, db_staged := db_staged db3\<rparr>\<lparr>db_pools := db_pools db0, db_ledger := db_ledger db0\<rparr>"
    by simp
  also have "\<dots> = db\<lparr>db_pools := db_pools db0, db_allocations := db_allocations db0, db_allowed := db_allowed db0,
      db_profiles := db_profiles db3, db_staged := db_staged db3, db_ledger := db_ledger db0\<rparr>"
    by (cases db) simp
  finally show "db' = db\<lparr>db_pools := db_pools db0, db_allocations := db_allocations db0, db_allowed := db_allowed db0,
      db_profiles := db_profiles db', db_staged := db_staged db', db_ledger := db_ledger db0\<rparr>"
    using final by simp
  have new: "filter (\<lambda>c. cp_id c \<notin> set (ids_of_kind ''client_profile'' ?items)) (db_profiles db0 @ dl_profiles d) = db_profiles db0"
    using items(2) ok disjoint by (auto simp: filter_id_conv)
  have "db_profiles db' = filter (\<lambda>c. cp_id c \<notin> set (ids_of_kind ''client_profile'' ?items)) (db_profiles db)"
    using final db3(2) by simp
  moreover have "map bare_profile (db_profiles db) = map bare_profile (db_profiles db0 @ dl_profiles d)"
    using tables by blast
  ultimately show "map bare_profile (db_profiles db') = map bare_profile (db_profiles db0)"
    by (simp only: filter_bare new)
  show "filter (\<lambda>s. ss_operation_id s \<noteq> oid) (db_staged db') = filter (\<lambda>s. ss_operation_id s \<noteq> oid) (db_staged db)"
    using final db3(1) db1 by (simp add: same_but_profiles_def)
qed

end
