(* ===== verification/AdoptionRollback.thy ===== *)
theory AdoptionRollback
  imports AdoptionCorrect
begin

text \<open>
  The rollback of an adoption as a whole: applied and rolled back, an adoption leaves the database as it was
  before, but for the operation itself, its audit row and its staged secrets, which are gone.
\<close>

section \<open>The steps of the two transactions\<close>

lemma apply_adoption_steps:
  assumes "apply_adoption gen now oid db = (Inr v, db')"
  obtains op iid i rid k dbI k' dbA aid db5 n
  where "op_where (\<lambda>r. o_id r = oid) db = Inr op" and "o_interface_id op = Some iid" and "adoption_ready op"
    and "query_row (\<lambda>r. i_id r = iid) (db_interfaces db) = Inr i" and "adoption_eligible op i"
    and "rid \<notin> rv_id ` set (db_revisions db)"
    and "affected (\<lambda>r. i_id r = iid \<and> i_management_mode r = ''observed'' \<and>
      i_revision r = i_revision i \<and> i_file_hash r = Some (coalesce (i_file_hash i))) (db_interfaces db) = 1"
    and "import_adoption_metadata gen now oid iid (k, db\<lparr>db_revisions := db_revisions db @
        [revision_row_of rid iid (i_revision i + 1) (nullable (coalesce (i_file_hash i)))
          (coalesce (i_runtime_fingerprint i)) oid now],
        db_interfaces := update_rows (\<lambda>r. i_id r = iid \<and> i_management_mode r = ''observed'' \<and>
          i_revision r = i_revision i \<and> i_file_hash r = Some (coalesce (i_file_hash i)))
          (adopted_row (i_revision i + 1) rid now) (db_interfaces db)\<rparr>) = Inr (k', dbI)"
    and "attach_staged_secrets gen now oid (k', dbI) = Inr (n, dbA)"
    and "insert_audit (audit_of aid op ''adopt_interface'' ''interface'' iid (Some (i_revision i))
      (Some (i_revision i + 1)) None now) dbA = Inr db5"
    and "update_operations (\<lambda>r. o_id r = oid \<and> o_state r = StateExecuting)
         (\<lambda>r. r\<lparr>o_state := StateVerifying, o_updated_at_ms := unix_milli now\<rparr>) db5 =
      Inr (affected (\<lambda>r. o_id r = oid \<and> o_state r = StateExecuting) (db_operations db5), db')"
    and "v = i_revision i + 1"
proof -
  have ins: "insert_revision r db = Inr db1 \<Longrightarrow>
      rv_id r \<notin> rv_id ` set (db_revisions db) \<and> db1 = db\<lparr>db_revisions := db_revisions db @ [r]\<rparr>" for r db1
    by (auto simp: insert_revision_def key_fresh_def)
  have upd: "update_operations P f x = Inr (m, y) \<Longrightarrow> m = affected P (db_operations x)" for P f x m y
    by (auto simp: update_operations_def Let_def split: if_splits)
  show thesis
    using assms unfolding apply_adoption_def
    by (clarsimp simp: tx_simps update_interfaces_def split: prod.splits if_splits)
      (drule ins, frule upd, rule that, assumption+, simp_all add: revision_row_of_def)
qed

lemma rollback_adoption_steps:
  assumes "rollback_adoption gen now oid db = (Inr u, db')"
  obtains op iid expected db1 db2 i db3 db4 aid db5
  where "op_where (\<lambda>r. o_id r = oid \<and> o_type r = ''adopt_interface'') db = Inr op" and "o_interface_id op = Some iid"
    and "o_expected_revision op = Some expected" and "o_state op = StateRollingBack"
    and "fold_r (restore_secret now) (list_staged oid db) db = Inr db1"
    and "rollback_adoption_imports oid db1 = Inr db2"
    and "query_row (\<lambda>r. i_id r = iid) (db_interfaces db2) = Inr i"
    and "(if i_management_mode i = ''adopted'' \<and> i_revision i = expected + 1
       then release_interface now oid iid expected i db2 else Inr db2) = Inr db3"
    and "fold_r (\<lambda>s d. wrap_r ''remove rolled-back staged envelope'' (delete_envelope (ss_secret_envelope_id s) d))
         (list_staged oid db) (drop_staged oid db3) = Inr db4"
    and "insert_audit (rollback_audit aid op iid (i_revision i) expected now) db4 = Inr db5"
    and "finish_operation oid StateRollingBack StateRolledBack now
         ''adoption operation state conflict while rolling back'' db5 = Inr db'"
  using assms unfolding rollback_adoption_def
  by (clarsimp simp: tx_simps simp del: bind_check split: option.splits)

section \<open>The envelopes of the staged secrets\<close>

text \<open>Nothing but its staged row refers to the envelope.\<close>

definition unreferenced :: "string \<Rightarrow> agent_db \<Rightarrow> bool" where
  "unreferenced e db \<longleftrightarrow>
     (\<forall>a \<in> set (db_artifacts db). oa_secret_envelope_id a \<noteq> Some e) \<and>
     (\<forall>p \<in> set (db_peers db). p_archived_block_secret_id p \<noteq> Some e) \<and>
     (\<forall>c \<in> set (db_profiles db). cp_client_private_secret_id c \<noteq> Some e \<and> cp_preshared_secret_id c \<noteq> Some e) \<and>
     (\<forall>s \<in> set (db_staged db). ss_secret_envelope_id s \<noteq> e \<and> ss_previous_secret_envelope_id s \<noteq> Some e)"

lemma drop_ref_keep: "v \<noteq> Some e \<Longrightarrow> drop_ref (\<lambda>x. x = e) v = v"
  by (cases v) (auto simp: drop_ref_def)

lemma delete_staged_envelope:
  assumes "delete_envelope e db = Inr db'" and "unreferenced e db"
  shows "db' = db\<lparr>db_envelopes := filter (\<lambda>r. se_id r \<noteq> e) (db_envelopes db)\<rparr>"
proof (cases "e \<in> se_id ` set (db_envelopes db)")
  case False
  then have "filter (\<lambda>r. se_id r \<noteq> e) (db_envelopes db) = db_envelopes db" by (auto simp: filter_id_conv)
  with False assms(1) show ?thesis by (simp add: delete_envelope_def)
next
  case True
  have "map (\<lambda>a. a\<lparr>oa_secret_envelope_id := drop_ref (\<lambda>x. x = e) (oa_secret_envelope_id a)\<rparr>) (db_artifacts db) = db_artifacts db"
    "map (\<lambda>p. p\<lparr>p_archived_block_secret_id := drop_ref (\<lambda>x. x = e) (p_archived_block_secret_id p)\<rparr>) (db_peers db) = db_peers db"
    "map (\<lambda>c. c\<lparr>cp_client_private_secret_id := drop_ref (\<lambda>x. x = e) (cp_client_private_secret_id c),
        cp_preshared_secret_id := drop_ref (\<lambda>x. x = e) (cp_preshared_secret_id c)\<rparr>) (db_profiles db) = db_profiles db"
    "map (\<lambda>s. s\<lparr>ss_previous_secret_envelope_id := drop_ref (\<lambda>x. x = e) (ss_previous_secret_envelope_id s)\<rparr>)
      (filter (\<lambda>s. ss_secret_envelope_id s \<noteq> e) (db_staged db)) = db_staged db"
    using assms(2) unfolding unreferenced_def
    by (auto intro!: map_idI simp: drop_ref_keep)
  with assms(1) True show ?thesis by (simp add: delete_envelope_def Let_def)
qed

lemma delete_all_unreferenced:
  assumes "fold_r (\<lambda>s d. wrap_r label (delete_envelope (ss_secret_envelope_id s) d)) ss db = Inr db'"
    and "\<forall>s \<in> set ss. unreferenced (ss_secret_envelope_id s) db"
  shows "db' = db\<lparr>db_envelopes := filter (\<lambda>r. se_id r \<notin> ss_secret_envelope_id ` set ss) (db_envelopes db)\<rparr>"
  using assms
proof (induction ss arbitrary: db)
  case (Cons s ss)
  from Cons.prems(1) obtain db1 where s: "delete_envelope (ss_secret_envelope_id s) db = Inr db1"
    "fold_r (\<lambda>s d. wrap_r label (delete_envelope (ss_secret_envelope_id s) d)) ss db1 = Inr db'"
    by auto
  have db1: "db1 = db\<lparr>db_envelopes := filter (\<lambda>r. se_id r \<noteq> ss_secret_envelope_id s) (db_envelopes db)\<rparr>"
    using delete_staged_envelope [OF s(1)] Cons.prems(2) by simp
  then have "\<forall>x \<in> set ss. unreferenced (ss_secret_envelope_id x) db1"
    using Cons.prems(2) by (simp add: unreferenced_def)
  from Cons.IH [OF s(2) this] db1 show ?case by (simp add: conj_commute)
qed simp

section \<open>The interface\<close>

text \<open>What an adoption does not touch in an interface: everything but drift, the last revision and the time.\<close>

definition iface_core :: "iface_row \<Rightarrow> iface_row" where
  "iface_core r = r\<lparr>i_drift_state := [], i_last_applied_revision_id := None, i_updated_at_ms := 0\<rparr>"

lemma interface_restored:
  fixes iid rid :: string and now now' :: time and n :: int
  assumes one: "affected (\<lambda>r. i_id r = iid \<and> i_management_mode r = ''observed'' \<and> i_revision r = n \<and> i_file_hash r = h) t = 1"
    and "keyed i_id t"
  defines "t' \<equiv> update_rows (\<lambda>r. i_id r = iid \<and> i_management_mode r = ''observed'' \<and> i_revision r = n \<and> i_file_hash r = h)
      (adopted_row (n + 1) rid now) t"
  shows "map iface_core (update_rows (\<lambda>r. i_id r = iid \<and> i_management_mode r = ''adopted'' \<and> i_revision r = n + 1 \<and>
      i_last_applied_revision_id r = Some rid) (observed_again n v now') t') =
    map iface_core t"
proof -
  let ?P = "\<lambda>r. i_id r = iid \<and> i_management_mode r = ''observed'' \<and> i_revision r = n \<and> i_file_hash r = h"
  let ?Q = "\<lambda>r. i_id r = iid \<and> i_management_mode r = ''adopted'' \<and> i_revision r = n + 1 \<and> i_last_applied_revision_id r = Some rid"
  from one have "filter ?P t \<noteq> []" by (auto simp: affected_def)
  then obtain r0 where r0: "r0 \<in> set t" "?P r0" by (auto simp: filter_empty_conv)
  have row: "iface_core (if ?Q (if ?P r then adopted_row (n + 1) rid now r else r)
        then observed_again n v now' (if ?P r then adopted_row (n + 1) rid now r else r)
        else if ?P r then adopted_row (n + 1) rid now r else r) = iface_core r" if r: "r \<in> set t" for r
  proof (cases "?P r")
    case True
    then show ?thesis by (cases r) (simp add: adopted_row_def observed_again_def iface_core_def)
  next
    case False
    have "\<not> i_id r = iid"
    proof
      assume "i_id r = iid"
      with r r0 assms(2) have "r = r0" by (auto intro: keyed_eq [where key = i_id])
      with False r0 show False by simp
    qed
    with False show ?thesis by simp
  qed
  show ?thesis
    unfolding t'_def update_rows_def map_map by (rule map_cong) (use row in \<open>simp_all add: comp_def\<close>)
qed

section \<open>The database an adoption was applied to\<close>

text \<open>
  \<open>adoption_base\<close>: keys and references hold, no adoption of this operation has begun, its staged secrets
  have not been attached and nothing else uses them.
\<close>

definition adoption_base :: "string \<Rightarrow> agent_db \<Rightarrow> bool" where
  "adoption_base oid db \<longleftrightarrow>
     keyed o_id (db_operations db) \<and> keyed i_id (db_interfaces db) \<and>
     keyed cp_id (db_profiles db) \<and> keyed cp_peer_id (db_profiles db) \<and> keyed pa_id (db_allowed db) \<and>
     keyed ss_secret_envelope_id (db_staged db) \<and> keyed staged_key (db_staged db) \<and>
     (\<forall>r \<in> set (db_allowed db). pa_purpose r \<noteq> []) \<and>
     (\<forall>c \<in> set (db_profiles db). cp_preshared_secret_id c \<noteq> Some [] \<and> cp_id c \<noteq> []) \<and>
     (\<forall>r \<in> set (db_allocations db). aa_pool_id r \<in> ap_id ` set (db_pools db)) \<and>
     (\<forall>p \<in> set (db_peers db). fk_to rv_id (db_revisions db) (p_config_revision_id p)) \<and>
     refers_to (cp_id ` set (db_profiles db)) oid db \<and>
     (\<forall>l \<in> set (db_ledger db). al_operation_id l \<noteq> oid) \<and>
     (\<forall>s \<in> set (db_staged db). ss_operation_id s = oid \<longrightarrow>
        ss_profile_id s = None \<and> \<not> ss_created_profile s \<and> unreferenced (ss_secret_envelope_id s) (drop_staged oid db))"

text \<open>\<open>restored\<close>: what is as it was; times of change and the drift of the interface are not.\<close>

definition restored :: "string \<Rightarrow> agent_db \<Rightarrow> agent_db \<Rightarrow> bool" where
  "restored oid db db' \<longleftrightarrow>
     db_pools db' = db_pools db \<and> db_allocations db' = db_allocations db \<and> db_allowed db' = db_allowed db \<and>
     db_peers db' = db_peers db \<and> db_addresses db' = db_addresses db \<and> db_routes db' = db_routes db \<and>
     db_revisions db' = db_revisions db \<and> db_ledger db' = db_ledger db \<and>
     map bare_profile (db_profiles db') = map bare_profile (db_profiles db) \<and>
     map iface_core (db_interfaces db') = map iface_core (db_interfaces db) \<and>
     db_staged db' = filter (\<lambda>s. ss_operation_id s \<noteq> oid) (db_staged db) \<and>
     db_envelopes db' = filter (\<lambda>e. se_id e \<notin>
       ss_secret_envelope_id ` {s \<in> set (db_staged db). ss_operation_id s = oid}) (db_envelopes db)"

text \<open>What an applied adoption has written, table by table.\<close>

definition adopted_db :: "string \<Rightarrow> string \<Rightarrow> int \<Rightarrow> string option \<Rightarrow> string \<Rightarrow> time \<Rightarrow> import_delta \<Rightarrow>
    profile_row list \<Rightarrow> profile_row list \<Rightarrow> staged_row list \<Rightarrow> agent_db \<Rightarrow> agent_db \<Rightarrow> bool" where
  "adopted_db oid iid n h rid now d P1 P2 S db db1 \<longleftrightarrow>
     db_pools db1 = db_pools db @ dl_pools d \<and> db_allocations db1 = db_allocations db @ dl_allocs d \<and>
     db_allowed db1 = dl_allowed d \<and> db_ledger db1 = db_ledger db @ dl_ledger d \<and>
     db_peers db1 = db_peers db \<and> db_addresses db1 = db_addresses db \<and> db_routes db1 = db_routes db \<and>
     db_envelopes db1 = db_envelopes db \<and> db_artifacts db1 = db_artifacts db \<and>
     (\<exists>R. db_revisions db1 = db_revisions db @ [R] \<and> rv_id R = rid \<and> rv_operation_id R = Some oid) \<and>
     db_interfaces db1 = update_rows (\<lambda>r. i_id r = iid \<and> i_management_mode r = ''observed'' \<and> i_revision r = n \<and>
       i_file_hash r = h) (adopted_row (n + 1) rid now) (db_interfaces db) \<and>
     db_profiles db1 = P1 @ P2 \<and> db_staged db1 = S \<and>
     list_all2 (attached_row oid S) (db_profiles db @ dl_profiles d) P1 \<and> list_all (created_row oid S) P2 \<and>
     keyed cp_id (P1 @ P2) \<and> keyed staged_key S \<and> keyed ss_secret_envelope_id S \<and> marks_ok oid S (cp_id ` set (P1 @ P2)) \<and>
     map ss_secret_envelope_id (filter (\<lambda>s. ss_operation_id s = oid) S) =
       map ss_secret_envelope_id (filter (\<lambda>s. ss_operation_id s = oid) (db_staged db)) \<and>
     filter (\<lambda>s. ss_operation_id s \<noteq> oid) S = filter (\<lambda>s. ss_operation_id s \<noteq> oid) (db_staged db)"

lemma attach_staged_attached:
  assumes "attach_staged_secrets gen now oid (k, db) = Inr (k', db')"
    and "keyed cp_id (db_profiles db)" and "keyed cp_peer_id (db_profiles db)"
    and "keyed ss_secret_envelope_id (db_staged db)" and "keyed staged_key (db_staged db)"
    and "\<forall>s \<in> set (db_staged db). ss_operation_id s = oid \<longrightarrow> ss_profile_id s = None \<and> \<not> ss_created_profile s"
    and "\<forall>x \<in> set (db_profiles db). cp_preshared_secret_id x \<noteq> Some []"
  shows "attached oid db db'"
proof (rule attach_all [OF _ attached_refl [OF assms(2-6)] _ _ assms(7)])
  show "fold_r (attach_secret gen now oid) (enumerate 0 (list_staged oid db)) (k, db) = Inr (k', db')"
    using assms(1) by (simp add: attach_staged_secrets_def)
  show "\<forall>x \<in> set (enumerate 0 (list_staged oid db)). snd x \<in> set (db_staged db) \<and> ss_operation_id (snd x) = oid \<and>
      ss_profile_id (snd x) = None"
  proof
    fix x assume "x \<in> set (enumerate 0 (list_staged oid db))"
    then have "snd x \<in> set (list_staged oid db)" by (metis enumerate_eq_zip prod.collapse set_zip_rightD)
    with assms(6) show "snd x \<in> set (db_staged db) \<and> ss_operation_id (snd x) = oid \<and> ss_profile_id (snd x) = None"
      by (auto simp: list_staged_def)
  qed
  have "keyed ss_secret_envelope_id (list_staged oid db)"
    using assms(4) by (auto simp: list_staged_def keyed_def distinct_map intro: inj_on_subset)
  then show "distinct (map (ss_secret_envelope_id \<circ> snd) (enumerate 0 (list_staged oid db)))"
    by (simp add: keyed_def map_map [symmetric] del: map_map)
qed

lemma insert_audit_Inr: "insert_audit r db = Inr db' \<Longrightarrow> db' = db\<lparr>db_audit := db_audit db @ [r]\<rparr>"
  by (auto simp: insert_audit_def)

lemma update_operations_Inr:
  "update_operations P f db = Inr (n, db') \<Longrightarrow> n = affected P (db_operations db) \<and>
     db' = db\<lparr>db_operations := update_rows P f (db_operations db)\<rparr>"
  by (auto simp: update_operations_def Let_def split: if_splits)

lemma adoption_applied:
  assumes "apply_adoption gen now oid db = (Inr v, db1)" and base: "adoption_base oid db" and ids: "\<And>k t. gen k t \<noteq> Inr []"
  obtains op iid h rid d P1 P2 S
  where "op_where (\<lambda>r. o_id r = oid) db = Inr op" and "o_interface_id op = Some iid"
    and "o_expected_revision op = Some (v - 1)" and "o_state op = StateExecuting"
    and "rid \<notin> rv_id ` set (db_revisions db)"
    and "affected (\<lambda>r. i_id r = iid \<and> i_management_mode r = ''observed'' \<and> i_revision r = v - 1 \<and> i_file_hash r = h)
      (db_interfaces db) = 1"
    and "delta_ok oid db d" and "adopted_db oid iid (v - 1) h rid now d P1 P2 S db db1"
    and "db_operations db1 = update_rows (\<lambda>r. o_id r = oid \<and> o_state r = StateExecuting)
         (\<lambda>r. r\<lparr>o_state := StateVerifying, o_updated_at_ms := unix_milli now\<rparr>) (db_operations db)"
proof -
  note b = base [unfolded adoption_base_def]
  from assms(1) obtain op iid i rid k dbI k' dbA aid db5 n
    where op: "op_where (\<lambda>r. o_id r = oid) db = Inr op" "o_interface_id op = Some iid" "adoption_ready op"
      "adoption_eligible op i"
    and rid: "rid \<notin> rv_id ` set (db_revisions db)"
    and one: "affected (\<lambda>r. i_id r = iid \<and> i_management_mode r = ''observed'' \<and>
      i_revision r = i_revision i \<and> i_file_hash r = Some (coalesce (i_file_hash i))) (db_interfaces db) = 1"
    and imp: "import_adoption_metadata gen now oid iid (k, db\<lparr>db_revisions := db_revisions db @
        [revision_row_of rid iid (i_revision i + 1) (nullable (coalesce (i_file_hash i)))
          (coalesce (i_runtime_fingerprint i)) oid now],
        db_interfaces := update_rows (\<lambda>r. i_id r = iid \<and> i_management_mode r = ''observed'' \<and>
          i_revision r = i_revision i \<and> i_file_hash r = Some (coalesce (i_file_hash i)))
          (adopted_row (i_revision i + 1) rid now) (db_interfaces db)\<rparr>) = Inr (k', dbI)"
    and att: "attach_staged_secrets gen now oid (k', dbI) = Inr (n, dbA)"
    and aud: "insert_audit (audit_of aid op ''adopt_interface'' ''interface'' iid (Some (i_revision i))
      (Some (i_revision i + 1)) None now) dbA = Inr db5"
    and fin: "update_operations (\<lambda>r. o_id r = oid \<and> o_state r = StateExecuting)
         (\<lambda>r. r\<lparr>o_state := StateVerifying, o_updated_at_ms := unix_milli now\<rparr>) db5 =
      Inr (affected (\<lambda>r. o_id r = oid \<and> o_state r = StateExecuting) (db_operations db5), db1)"
    and v: "v = i_revision i + 1"
    by (rule apply_adoption_steps)
  let ?R = "revision_row_of rid iid (i_revision i + 1) (nullable (coalesce (i_file_hash i))) (coalesce (i_runtime_fingerprint i)) oid now"
  let ?I = "update_rows (\<lambda>r. i_id r = iid \<and> i_management_mode r = ''observed'' \<and>
      i_revision r = i_revision i \<and> i_file_hash r = Some (coalesce (i_file_hash i)))
    (adopted_row (i_revision i + 1) rid now) (db_interfaces db)"
  let ?dbR = "db\<lparr>db_revisions := db_revisions db @ [?R], db_interfaces := ?I\<rparr>"
  have "imported oid ?dbR dbI"
    by (rule import_metadata_imported [OF imp]) (use b ids in simp_all)
  then obtain d where dbI: "dbI = plus_delta ?dbR d" and ok': "delta_ok oid ?dbR d" by (auto simp: imported_def)
  have ok: "delta_ok oid db d" using ok' by (simp add: delta_ok_def)
  have "attached oid dbI dbA"
    by (rule attach_staged_attached [OF att]) (use b ok in \<open>auto simp: dbI plus_delta_def delta_ok_def\<close>)
  then obtain P1 P2 S where A: "dbA = dbI\<lparr>db_profiles := P1 @ P2, db_staged := S\<rparr>"
    "list_all2 (attached_row oid S) (db_profiles dbI) P1" "list_all (created_row oid S) P2"
    "keyed cp_id (P1 @ P2)" "keyed cp_peer_id (P1 @ P2)" "keyed ss_secret_envelope_id S" "keyed staged_key S"
    "map ss_secret_envelope_id (filter (\<lambda>s. ss_operation_id s = oid) S) =
       map ss_secret_envelope_id (filter (\<lambda>s. ss_operation_id s = oid) (db_staged dbI))"
    "filter (\<lambda>s. ss_operation_id s \<noteq> oid) S = filter (\<lambda>s. ss_operation_id s \<noteq> oid) (db_staged dbI)"
    "marks_ok oid S (cp_id ` set (P1 @ P2))"
    unfolding attached_def by blast
  note e5 = insert_audit_Inr [OF aud]
  note e1 = update_operations_Inr [OF fin, THEN conjunct2]
  have dbs: "db1 = plus_delta ?dbR d\<lparr>db_profiles := P1 @ P2, db_staged := S, db_audit := db_audit db1, db_operations := db_operations db1\<rparr>"
    using A(1) dbI e5 e1 by simp
  have R: "rv_id ?R = rid" "rv_operation_id ?R = Some oid" by (simp_all add: revision_row_of_def)
  have adopted: "adopted_db oid iid (v - 1) (Some (coalesce (i_file_hash i))) rid now d P1 P2 S db db1"
    unfolding adopted_db_def using A(2-10) R
    by (subst dbs, simp add: plus_delta_def dbI v)+
  have ops: "db_operations db1 = update_rows (\<lambda>r. o_id r = oid \<and> o_state r = StateExecuting)
         (\<lambda>r. r\<lparr>o_state := StateVerifying, o_updated_at_ms := unix_milli now\<rparr>) (db_operations db)"
    using e1 e5 A(1) dbI by (simp add: plus_delta_def)
  have "o_expected_revision op = Some (v - 1)" "o_state op = StateExecuting"
    using op(3,4) v by (auto simp: adoption_ready_def adoption_eligible_def)
  moreover have "affected (\<lambda>r. i_id r = iid \<and> i_management_mode r = ''observed'' \<and> i_revision r = v - 1 \<and>
      i_file_hash r = Some (coalesce (i_file_hash i))) (db_interfaces db) = 1"
    using one v by simp
  ultimately show thesis
    using that [OF op(1,2) _ _ rid _ ok adopted ops] by blast
qed

section \<open>Undoing it\<close>

lemma adopted_rows_refer:
  assumes "adopted_db oid iid n h rid now d P1 P2 S db db1" and "delta_ok oid db d" and base: "adoption_base oid db"
  shows "refers_to (cp_id ` set (db_profiles db)) oid db1"
    and "\<forall>s \<in> set (list_staged oid db1). ss_created_profile s \<longrightarrow> coalesce (ss_profile_id s) \<notin> cp_id ` set (db_profiles db)"
proof -
  note a = assms(1) [unfolded adopted_db_def]
  have "s \<in> set (db_staged db)" if "s \<in> set S" "ss_operation_id s \<noteq> oid" for s
  proof -
    from that have "s \<in> set (filter (\<lambda>s. ss_operation_id s \<noteq> oid) S)" by simp
    with a have "s \<in> set (filter (\<lambda>s. ss_operation_id s \<noteq> oid) (db_staged db))" by simp
    then show ?thesis by simp
  qed
  with base a show "refers_to (cp_id ` set (db_profiles db)) oid db1"
    by (simp add: adoption_base_def refers_to_def)
  have P1: "map cp_id P1 = map cp_id (db_profiles db @ dl_profiles d)"
  proof -
    have "list_all2 (attached_row oid S) X Q \<Longrightarrow> map cp_id Q = map cp_id X" for X Q
      by (induction X Q rule: list_all2_induct) (simp_all add: attached_row_def same_profile_id)
    with a show ?thesis by blast
  qed
  show "\<forall>s \<in> set (list_staged oid db1). ss_created_profile s \<longrightarrow> coalesce (ss_profile_id s) \<notin> cp_id ` set (db_profiles db)"
  proof (intro ballI impI)
    fix s assume s: "s \<in> set (list_staged oid db1)" and created: "ss_created_profile s"
    from s a have sS: "s \<in> set S" "ss_operation_id s = oid" by (auto simp: list_staged_def)
    with a created obtain cid where cid: "ss_profile_id s = Some cid" "cid \<in> cp_id ` set (P1 @ P2)" "mark_of oid S cid = Some s"
      by (auto simp: marks_ok_def split: option.splits)
    have "cid \<notin> cp_id ` set P1"
    proof
      assume "cid \<in> cp_id ` set P1"
      then obtain c where c: "c \<in> set P1" "cp_id c = cid" by auto
      with a obtain x where "attached_row oid S x c" by (auto simp: list_all2_conv_all_nth in_set_conv_nth)
      with c cid created show False by (simp add: attached_row_def)
    qed
    moreover have "cp_id ` set (db_profiles db) \<subseteq> cp_id ` set P1"
      using arg_cong [OF P1, of set] by auto
    ultimately show "coalesce (ss_profile_id s) \<notin> cp_id ` set (db_profiles db)" using cid(1) by (auto simp: coalesce_def)
  qed
qed

lemma secrets_restored:
  assumes "adopted_db oid iid n h rid now d P1 P2 S db db1" and "delta_ok oid db d" and base: "adoption_base oid db"
    and "fold_r (restore_secret now') (list_staged oid db1) db1 = Inr db2"
  shows "same_but_profiles oid db1 db2"
    and "map bare_profile (db_profiles db2) = map bare_profile (db_profiles db @ dl_profiles d)"
proof -
  note a = assms(1) [unfolded adopted_db_def] and b = base [unfolded adoption_base_def]
  note r = restore_all_rows [OF assms(4) adopted_rows_refer [OF assms(1-3)]]
  show "same_but_profiles oid db1 db2" using r by blast
  have "keyed ss_secret_envelope_id (list_staged oid db1)"
    using a by (auto simp: list_staged_def keyed_def distinct_map intro: inj_on_subset)
  then have dist: "distinct (list_staged oid db1)" by (simp add: keyed_def distinct_map)
  have ss: "set (list_staged oid db1) = {s \<in> set S. ss_operation_id s = oid}"
    using a by (auto simp: list_staged_def)
  have "\<forall>x \<in> set (db_profiles db @ dl_profiles d). cp_preshared_secret_id x \<noteq> Some [] \<and> cp_id x \<noteq> []"
    using b assms(2) by (auto simp: delta_ok_def)
  with a have "map bare_profile (List.map_filter (restore_rows now' (list_staged oid db1)) (P1 @ P2)) =
      map bare_profile (db_profiles db @ dl_profiles d)"
    by (intro restore_profiles [OF _ _ _ _ ss dist, where ids = "cp_id ` set (P1 @ P2)"]) simp_all
  with a r show "map bare_profile (db_profiles db2) = map bare_profile (db_profiles db @ dl_profiles d)" by simp
qed

lemma same_but_profiles_fields:
  assumes "same_but_profiles oid db db'"
  shows "db_pools db' = db_pools db" "db_allocations db' = db_allocations db" "db_allowed db' = db_allowed db"
    "db_ledger db' = db_ledger db" "db_peers db' = db_peers db" "db_addresses db' = db_addresses db"
    "db_routes db' = db_routes db" "db_envelopes db' = db_envelopes db" "db_artifacts db' = db_artifacts db"
    "db_revisions db' = db_revisions db" "db_interfaces db' = db_interfaces db"
    "filter (\<lambda>s. ss_operation_id s \<noteq> oid) (db_staged db') = filter (\<lambda>s. ss_operation_id s \<noteq> oid) (db_staged db)"
proof -
  from assms have "db' = db\<lparr>db_profiles := db_profiles db', db_staged := db_staged db'\<rparr>" by (simp add: same_but_profiles_def)
  then obtain p s where e: "db' = db\<lparr>db_profiles := p, db_staged := s\<rparr>" by blast
  show "db_pools db' = db_pools db" "db_allocations db' = db_allocations db" "db_allowed db' = db_allowed db"
    "db_ledger db' = db_ledger db" "db_peers db' = db_peers db" "db_addresses db' = db_addresses db"
    "db_routes db' = db_routes db" "db_envelopes db' = db_envelopes db" "db_artifacts db' = db_artifacts db"
    "db_revisions db' = db_revisions db" "db_interfaces db' = db_interfaces db"
    by (simp_all add: e)
  show "filter (\<lambda>s. ss_operation_id s \<noteq> oid) (db_staged db') = filter (\<lambda>s. ss_operation_id s \<noteq> oid) (db_staged db)"
    using assms by (simp add: same_but_profiles_def)
qed

lemma adopted_interface_found:
  assumes I: "t' = update_rows (\<lambda>r. i_id r = iid \<and> i_management_mode r = ''observed'' \<and> i_revision r = n \<and>
       i_file_hash r = h) (adopted_row (n + 1) rid now) t"
    and i: "i_id i = iid" "i \<in> set t'" and k: "keyed i_id t"
    and one: "affected (\<lambda>r. i_id r = iid \<and> i_management_mode r = ''observed'' \<and> i_revision r = n \<and> i_file_hash r = h) t = 1"
  shows "i_last_applied_revision_id i = Some rid \<and> i_revision i = n + 1 \<and> i_management_mode i = ''adopted''"
proof -
  let ?P = "\<lambda>r. i_id r = iid \<and> i_management_mode r = ''observed'' \<and> i_revision r = n \<and> i_file_hash r = h"
  from one have "filter ?P t \<noteq> []" by (auto simp: affected_def)
  then obtain r0 where r0: "r0 \<in> set t" "?P r0" by (auto simp: filter_empty_conv)
  have "keyed i_id t'" unfolding I by (rule keyed_update) (simp_all add: adopted_row_def k)
  moreover have "adopted_row (n + 1) rid now r0 \<in> set t'" using in_update_rows [OF r0(1), of ?P] r0(2) I by simp
  ultimately have "i = adopted_row (n + 1) rid now r0"
    using i r0(2) by (auto simp: adopted_row_def intro: keyed_eq [where key = i_id])
  then show ?thesis by (simp add: adopted_row_def)
qed

text \<open>The interface is released; the revision the adoption had inserted goes with it.\<close>

lemma interface_released:
  assumes "release_interface now' oid iid n i db2 = Inr db3"
    and I: "db_interfaces db2 = update_rows (\<lambda>r. i_id r = iid \<and> i_management_mode r = ''observed'' \<and> i_revision r = n \<and>
       i_file_hash r = h) (adopted_row (n + 1) rid now) t"
    and i: "i_id i = iid" "i \<in> set (db_interfaces db2)" and "keyed i_id t"
    and one: "affected (\<lambda>r. i_id r = iid \<and> i_management_mode r = ''observed'' \<and> i_revision r = n \<and> i_file_hash r = h) t = 1"
    and rev: "db_revisions db2 = revs @ [R]" "rv_id R = rid" "rv_operation_id R = Some oid" "rid \<notin> rv_id ` set revs"
    and peers: "\<forall>p \<in> set (db_peers db2). fk_to rv_id revs (p_config_revision_id p)"
  shows "\<exists>I'. db3 = db2\<lparr>db_interfaces := I', db_revisions := revs\<rparr> \<and> map iface_core I' = map iface_core t"
proof -
  have row: "i_last_applied_revision_id i = Some rid" "i_revision i = n + 1"
    using adopted_interface_found [OF I i assms(5) one] by simp_all
  let ?mine = "\<lambda>r. rv_id r = rid \<and> rv_operation_id r = Some oid"
  let ?Q = "\<lambda>r. i_id r = iid \<and> i_management_mode r = ''adopted'' \<and> i_revision r = n + 1 \<and> i_last_applied_revision_id r = Some rid"
  from assms(1) row obtain v where db3: "db3 = delete_revisions ?mine (db2\<lparr>db_interfaces :=
      update_rows ?Q (observed_again n v now') (db_interfaces db2)\<rparr>)"
    by (auto simp: release_interface_def Let_def coalesce_def update_interfaces_def split: if_splits)
  have revs: "filter (\<lambda>r. \<not> ?mine r) (db_revisions db2) = revs"
    using rev by (auto simp: filter_id_conv) (metis imageI)
  define gone where "gone = (\<lambda>x. \<exists>r \<in> set (db_revisions db2). ?mine r \<and> rv_id r = x)"
  have gone: "\<not> gone x" if "x \<in> rv_id ` set revs" for x
    using that rev(4) by (auto simp: gone_def)
  have same: "map (\<lambda>p. p\<lparr>p_config_revision_id := drop_ref gone (p_config_revision_id p)\<rparr>) (db_peers db2) = db_peers db2"
  proof (rule map_idI)
    fix p assume "p \<in> set (db_peers db2)"
    with peers have "fk_to rv_id revs (p_config_revision_id p)" by blast
    then have "drop_ref gone (p_config_revision_id p) = p_config_revision_id p"
      using gone by (auto simp: fk_to_def drop_ref_def split: option.splits)
    then show "p\<lparr>p_config_revision_id := drop_ref gone (p_config_revision_id p)\<rparr> = p" by simp
  qed
  let ?I = "map (\<lambda>r. r\<lparr>i_last_applied_revision_id := drop_ref gone (i_last_applied_revision_id r)\<rparr>)
      (update_rows ?Q (observed_again n v now') (db_interfaces db2))"
  have "db3 = db2\<lparr>db_interfaces := ?I, db_revisions := revs\<rparr>"
    unfolding db3 delete_revisions_def Let_def using revs same by (cases db2) (simp add: gone_def)
  moreover have "map iface_core ?I = map iface_core t"
  proof -
    have "map iface_core ?I = map iface_core (update_rows ?Q (observed_again n v now') (db_interfaces db2))"
      by (simp add: iface_core_def)
    also have "\<dots> = map iface_core t" unfolding I by (rule interface_restored [OF one assms(5)])
    finally show ?thesis .
  qed
  ultimately show ?thesis by (intro exI [of _ ?I] conjI)
qed

lemma finished_operation:
  "finish_operation oid st st' now msg db = Inr db' \<Longrightarrow> \<exists>t. db' = db\<lparr>db_operations := t\<rparr>"
  by (auto simp: finish_operation_def update_operations_def Let_def split: if_splits)

lemma staged_unreferenced:
  assumes b: "adoption_base oid db"
    and f: "db_artifacts db3 = db_artifacts db" "db_peers db3 = db_peers db"
      "map bare_profile (db_profiles db3) = map bare_profile (db_profiles db)"
      "db_staged db3 = filter (\<lambda>s. ss_operation_id s \<noteq> oid) (db_staged db)"
    and e: "e \<in> ss_secret_envelope_id ` {s \<in> set (db_staged db). ss_operation_id s = oid}"
  shows "unreferenced e db3"
proof -
  have u: "unreferenced e (drop_staged oid db)" using b e by (auto simp: adoption_base_def)
  have "cp_client_private_secret_id c \<noteq> Some e \<and> cp_preshared_secret_id c \<noteq> Some e" if "c \<in> set (db_profiles db3)" for c
  proof -
    from that f(3) obtain x where x: "x \<in> set (db_profiles db)" "bare_profile c = bare_profile x"
      by (metis imageE image_eqI set_map)
    then have "cp_client_private_secret_id c = cp_client_private_secret_id x" "cp_preshared_secret_id c = cp_preshared_secret_id x"
      by (auto simp: bare_profile_def dest: arg_cong [where f = cp_client_private_secret_id] arg_cong [where f = cp_preshared_secret_id])
    with u x(1) show ?thesis by (simp add: unreferenced_def drop_staged_def)
  qed
  with u f show ?thesis by (simp add: unreferenced_def drop_staged_def)
qed

lemma rollback_restores:
  assumes roll: "rollback_adoption gen' now' oid db1 = (Inr u, db')" and b: "adoption_base oid db"
    and a: "adopted_db oid iid n h rid now d P1 P2 S db db1" and ok: "delta_ok oid db d"
    and rid: "rid \<notin> rv_id ` set (db_revisions db)"
    and one: "affected (\<lambda>r. i_id r = iid \<and> i_management_mode r = ''observed'' \<and> i_revision r = n \<and> i_file_hash r = h)
      (db_interfaces db) = 1"
    and op: "\<And>op. op_where (\<lambda>r. o_id r = oid \<and> o_type r = ''adopt_interface'') db1 = Inr op \<Longrightarrow>
      o_interface_id op = Some iid \<and> o_expected_revision op = Some n"
  shows "restored oid db db'"
proof -
  note b' = b [unfolded adoption_base_def] and a' = a [unfolded adopted_db_def]
  from roll obtain op db2 db3 i db4 db5 aid db6 where
    o: "op_where (\<lambda>r. o_id r = oid \<and> o_type r = ''adopt_interface'') db1 = Inr op"
    and 2: "fold_r (restore_secret now') (list_staged oid db1) db1 = Inr db2"
    and 3: "rollback_adoption_imports oid db2 = Inr db3"
    and i: "query_row (\<lambda>r. i_id r = iid) (db_interfaces db3) = Inr i"
    and 4: "(if i_management_mode i = ''adopted'' \<and> i_revision i = n + 1
       then release_interface now' oid iid n i db3 else Inr db3) = Inr db4"
    and 5: "fold_r (\<lambda>s d. wrap_r ''remove rolled-back staged envelope'' (delete_envelope (ss_secret_envelope_id s) d))
         (list_staged oid db1) (drop_staged oid db4) = Inr db5"
    and 6: "insert_audit (rollback_audit aid op iid (i_revision i) n now') db5 = Inr db6"
    and 7: "finish_operation oid StateRollingBack StateRolledBack now'
         ''adoption operation state conflict while rolling back'' db6 = Inr db'"
    by (rule rollback_adoption_steps) (use op in fastforce)
  note s2 = secrets_restored [OF a ok b 2]
  note f2 = same_but_profiles_fields [OF s2(1)]
  have K2: "refers_to (cp_id ` set (db_profiles db)) oid db2"
    by (rule same_but_profiles_refers [OF s2(1) adopted_rows_refer(1) [OF a ok b]])
  have r2: "restorable oid db d db2"
    using f2 s2(2) a' by (simp add: restorable_def)
  note s3 = imports_undone [OF 3 ok r2 _ K2]
  have e3: "db3 = db2\<lparr>db_pools := db_pools db, db_allocations := db_allocations db, db_allowed := db_allowed db,
      db_profiles := db_profiles db3, db_staged := db_staged db3, db_ledger := db_ledger db\<rparr>"
    and p3: "map bare_profile (db_profiles db3) = map bare_profile (db_profiles db)"
    and st3: "filter (\<lambda>s. ss_operation_id s \<noteq> oid) (db_staged db3) = filter (\<lambda>s. ss_operation_id s \<noteq> oid) (db_staged db)"
    using s3 b' f2(12) a' by (metis)+
  obtain p s where f3: "db3 = db2\<lparr>db_pools := db_pools db, db_allocations := db_allocations db, db_allowed := db_allowed db,
      db_profiles := p, db_staged := s, db_ledger := db_ledger db\<rparr>"
    using e3 by blast
  have rows3: "db_interfaces db3 = db_interfaces db1" "db_revisions db3 = db_revisions db1" "db_peers db3 = db_peers db"
    "db_addresses db3 = db_addresses db" "db_routes db3 = db_routes db" "db_envelopes db3 = db_envelopes db"
    "db_artifacts db3 = db_artifacts db" "db_pools db3 = db_pools db" "db_allocations db3 = db_allocations db"
    "db_allowed db3 = db_allowed db" "db_ledger db3 = db_ledger db"
    using f3 f2 a' by simp_all
  from a' obtain R where R: "db_revisions db1 = db_revisions db @ [R]" "rv_id R = rid" "rv_operation_id R = Some oid" by blast
  have I: "db_interfaces db3 = update_rows (\<lambda>r. i_id r = iid \<and> i_management_mode r = ''observed'' \<and> i_revision r = n \<and>
       i_file_hash r = h) (adopted_row (n + 1) rid now) (db_interfaces db)"
    using rows3(1) a' by simp
  have iI: "i_id i = iid" "i \<in> set (db_interfaces db3)" using query_row_InrD [OF i] by simp_all
  have "\<exists>I'. db4 = db3\<lparr>db_interfaces := I', db_revisions := db_revisions db\<rparr> \<and> map iface_core I' = map iface_core (db_interfaces db)"
  proof (rule interface_released [OF _ I iI _ one _ R(2,3) rid])
    have "i_management_mode i = ''adopted'' \<and> i_revision i = n + 1"
      using adopted_interface_found [OF I iI _ one] b' by simp
    with 4 show "release_interface now' oid iid n i db3 = Inr db4" by simp
  qed (use b' rows3 R(1) in simp_all)
  then obtain I' where I': "db4 = db3\<lparr>db_interfaces := I', db_revisions := db_revisions db\<rparr>"
    "map iface_core I' = map iface_core (db_interfaces db)" by blast
  have envs: "ss_secret_envelope_id ` set (list_staged oid db1) =
      ss_secret_envelope_id ` {s \<in> set (db_staged db). ss_operation_id s = oid}"
  proof -
    have "map ss_secret_envelope_id (filter (\<lambda>s. ss_operation_id s = oid) (db_staged db1)) =
        map ss_secret_envelope_id (filter (\<lambda>s. ss_operation_id s = oid) (db_staged db))"
      using a' by simp
    from arg_cong [OF this, of set] show ?thesis by (simp add: list_staged_def)
  qed
  have "db5 = drop_staged oid db4\<lparr>db_envelopes := filter (\<lambda>r. se_id r \<notin> ss_secret_envelope_id ` set (list_staged oid db1))
      (db_envelopes (drop_staged oid db4))\<rparr>"
  proof (rule delete_all_unreferenced [OF 5], rule ballI, rule staged_unreferenced [OF b])
    fix s assume "s \<in> set (list_staged oid db1)"
    with envs show "ss_secret_envelope_id s \<in> ss_secret_envelope_id ` {s \<in> set (db_staged db). ss_operation_id s = oid}" by blast
  qed (use I'(1) rows3 p3 st3 in \<open>simp_all add: drop_staged_def\<close>)
  with I' rows3 p3 st3 envs have "restored oid db db5"
    by (simp add: restored_def drop_staged_def)
  moreover obtain t where "db' = db6\<lparr>db_operations := t\<rparr>" using finished_operation [OF 7] by blast
  moreover note insert_audit_Inr [OF 6]
  ultimately show ?thesis by (simp add: restored_def)
qed

lemma rolling_back_rows:
  assumes "transition_operation t1 t2 oid StateVerifying StateRollingBack f db1 = (None, db2)"
  shows "\<exists>g. (\<forall>r. o_id (g r) = o_id r \<and> o_interface_id (g r) = o_interface_id r \<and>
      o_expected_revision (g r) = o_expected_revision r) \<and> db2 = db1\<lparr>db_operations := map g (db_operations db1)\<rparr>"
proof -
  let ?P = "\<lambda>r. o_id r = oid \<and> o_state r = StateVerifying"
  let ?f = "\<lambda>r. r\<lparr>o_state := StateRollingBack, o_error_code := map_option fail_code f,
    o_error_message := map_option fail_message f, o_updated_at_ms := unix_milli t2,
    o_finished_at_ms := (if is_terminal StateRollingBack then Some (unix_milli t1) else o_finished_at_ms r)\<rparr>"
  obtain n where "update_operations ?P ?f db1 = Inr (n, db2)"
    using assms by (auto simp: transition_operation_def split: sum.splits prod.splits if_splits)
  from update_operations_Inr [OF this] have "db2 = db1\<lparr>db_operations := map (\<lambda>r. if ?P r then ?f r else r) (db_operations db1)\<rparr>"
    by (simp add: update_rows_def)
  then show ?thesis by (intro exI [of _ "\<lambda>r. if ?P r then ?f r else r"]) simp
qed


section \<open>An adoption that is rolled back\<close>

text \<open>An observed interface with one address and two peers; a preshared key is staged for the first.\<close>

definition demo_observed :: agent_db where
  "demo_observed = empty_db\<lparr>
     db_interfaces := [(demo_iface ''w'')\<lparr>i_management_mode := ''observed'', i_file_hash := Some ''h''\<rparr>],
     db_addresses := [\<lparr>ia_id = ''a'', ia_interface_id = ''w'', ia_family = 4, ia_address = ''10.8.0.1'',
       ia_prefix_length = 24, ia_source = ''file''\<rparr>],
     db_peers := [demo_peer ''p'' ''w'', demo_peer ''q'' ''w''],
     db_allowed := [\<lparr>pa_id = ''x'', pa_peer_id = ''p'', pa_cidr = ''10.8.0.2/32'', pa_purpose = ''routed_subnet'', pa_created_at_ms = 0\<rparr>],
     db_profiles := [external_profile ''c'' ''p'' None 0],
     db_envelopes := [envelope_row_of ''e'' \<lparr>sx_gateway_id = ''gw'', sx_owner_type = ''peer'', sx_owner_id = ''p'',
       sx_purpose = ''preshared_key''\<rparr> \<lparr>en_algorithm = [], en_ciphertext = [], en_payload_nonce = [], en_wrapped_dek = [],
       en_wrap_nonce = [], en_key_version = 1, en_aad_version = 1, en_fingerprint = []\<rparr> 0],
     db_staged := [\<lparr>ss_operation_id = ''o'', ss_secret_envelope_id = ''e'', ss_peer_id = ''p'', ss_profile_id = None,
       ss_previous_secret_envelope_id = None, ss_created_profile = False\<rparr>],
     db_operations := [(demo_op ''o'' ''adopt_interface'' StateExecuting (Some ''w''))\<lparr>o_original_file_hash := Some ''h''\<rparr>]\<rparr>"

definition demo_adopted :: agent_db where
  "demo_adopted = snd (apply_adoption (demo_ids CHR ''g'') second ''o'' demo_observed)"

definition demo_backing_out :: agent_db where
  "demo_backing_out = snd (transition_operation 0 0 ''o'' StateVerifying StateRollingBack None demo_adopted)"

definition demo_rolled_back :: agent_db where
  "demo_rolled_back = snd (rollback_adoption (demo_ids CHR ''y'') second ''o'' demo_backing_out)"

lemma demo_adoption_runs:
  "fst (apply_adoption (demo_ids CHR ''g'') second ''o'' demo_observed) = Inr 2"
  "fst (transition_operation 0 0 ''o'' StateVerifying StateRollingBack None demo_adopted) = None"
  "fst (rollback_adoption (demo_ids CHR ''y'') second ''o'' demo_backing_out) = Inr ()"
  by code_simp+

lemma demo_adoption_base: "adoption_base ''o'' demo_observed"
  by code_simp


end
