(* ===== verification/ConfigFiles.thy ===== *)
theory ConfigFiles
  imports Validation
begin

text \<open>
  \<^verbatim>\<open>src/internal/agent/adapters/filesystem/config.go\<close> and \<^verbatim>\<open>config_linux.go\<close>: how a configuration file is
  replaced while editors and command-line tools may replace it too. The directory maps names to inodes;
  before each system call other processes may have changed it in any way (\<open>m_env\<close>), and the call may fail
  (\<open>m_fail\<close>). Every call of the source has its own \<open>site\<close>; a run makes each at most once. An interface name
  has no slash, so the path of its file stays below the root and the file is the entry \<open>name.conf\<close>.
\<close>

section \<open>The directory\<close>

datatype file_kind = Regular | Symlink | OtherKind

record inode =
  in_kind :: file_kind
  in_body :: string
  in_mode :: int
  in_uid :: int
  in_gid :: int

record fs =
  fs_dir :: "string \<rightharpoonup> nat"
  fs_inode :: "nat \<Rightarrow> inode"
  fs_next :: nat

datatype errno = ENOENT | EEXIST | ELOOP | ENOSYS | EINVAL | EOPNOTSUPP | EOther

datatype site =
    ReadLstat | ReadOpen | ReadBody | ReadStat
  | MakeStage | ChmodStage | ChownStage | WriteStage | SyncStage | CloseStage
  | Swap | CheckLstat | CheckOpen | CheckBody | SwapBack | SyncBack
  | VerifyLstat | VerifyOpen | VerifyBody | VerifySwapBack | SyncDir | SyncSwapBack | RemoveStage
  | NewStage | NewChmod | NewWrite | NewSync | NewClose | NewRename | NewSyncDir | NewRemove
  | MakeLeft | MakeRight | ProbeSwap | ProbeBack | RemoveRight | RemoveLeft

record machine =
  m_env :: "site \<Rightarrow> fs \<Rightarrow> fs"
  m_fail :: "site \<Rightarrow> errno option"
  m_temp :: "site \<Rightarrow> string"
  m_sha256 :: "string \<Rightarrow> string"

definition sys_call :: "machine \<Rightarrow> site \<Rightarrow> (fs \<Rightarrow> (errno + 'a) \<times> fs) \<Rightarrow> fs \<Rightarrow> (errno + 'a) \<times> fs" where
  "sys_call M s call fs =
     (case m_fail M s of None \<Rightarrow> call (m_env M s fs) | Some e \<Rightarrow> (Inl e, m_env M s fs))"

definition lstat :: "string \<Rightarrow> fs \<Rightarrow> (errno + nat \<times> inode) \<times> fs" where
  "lstat n fs = (case fs_dir fs n of None \<Rightarrow> Inl ENOENT | Some i \<Rightarrow> Inr (i, fs_inode fs i), fs)"

definition open_no_follow :: "string \<Rightarrow> fs \<Rightarrow> (errno + nat) \<times> fs" where
  "open_no_follow n fs =
     (case fs_dir fs n of
        None \<Rightarrow> Inl ENOENT
      | Some i \<Rightarrow> if in_kind (fs_inode fs i) = Symlink then Inl ELOOP else Inr i, fs)"

definition max_config_bytes :: nat where
  "max_config_bytes = 4 * 2 ^ 20"

definition read_limited :: "nat \<Rightarrow> fs \<Rightarrow> (errno + string) \<times> fs" where
  "read_limited i fs = (Inr (take (max_config_bytes + 1) (in_body (fs_inode fs i))), fs)"

definition fstat :: "nat \<Rightarrow> fs \<Rightarrow> (errno + nat \<times> inode) \<times> fs" where
  "fstat i fs = (Inr (i, fs_inode fs i), fs)"

definition set_inode :: "nat \<Rightarrow> (inode \<Rightarrow> inode) \<Rightarrow> fs \<Rightarrow> (errno + unit) \<times> fs" where
  "set_inode i f fs = (Inr (), fs\<lparr>fs_inode := (fs_inode fs)(i := f (fs_inode fs i))\<rparr>)"

text \<open>\<open>os.CreateTemp\<close> opens with \<open>O_EXCL\<close>, mode 0600, for the user that runs the agent (root).\<close>

definition create_temp :: "string \<Rightarrow> fs \<Rightarrow> (errno + string \<times> nat) \<times> fs" where
  "create_temp n fs =
     (if fs_dir fs n \<noteq> None then (Inl EEXIST, fs)
      else (Inr (n, fs_next fs), fs\<lparr>fs_dir := (fs_dir fs)(n \<mapsto> fs_next fs),
        fs_inode := (fs_inode fs)(fs_next fs := \<lparr>in_kind = Regular, in_body = [], in_mode = 384, in_uid = 0, in_gid = 0\<rparr>),
        fs_next := Suc (fs_next fs)\<rparr>))"

definition unlink :: "string \<Rightarrow> fs \<Rightarrow> (errno + unit) \<times> fs" where
  "unlink n fs = (if fs_dir fs n = None then (Inl ENOENT, fs) else (Inr (), fs\<lparr>fs_dir := (fs_dir fs)(n := None)\<rparr>))"

text \<open>\<open>renameat2\<close> with \<open>RENAME_EXCHANGE\<close> and with \<open>RENAME_NOREPLACE\<close>; \<open>fsync\<close> has no effect a process can see.\<close>

definition exchange :: "string \<Rightarrow> string \<Rightarrow> fs \<Rightarrow> (errno + unit) \<times> fs" where
  "exchange l r fs =
     (case (fs_dir fs l, fs_dir fs r) of
        (Some i, Some j) \<Rightarrow> (Inr (), fs\<lparr>fs_dir := (fs_dir fs)(l \<mapsto> j, r \<mapsto> i)\<rparr>)
      | _ \<Rightarrow> (Inl ENOENT, fs))"

definition no_replace :: "string \<Rightarrow> string \<Rightarrow> fs \<Rightarrow> (errno + unit) \<times> fs" where
  "no_replace l r fs =
     (case fs_dir fs l of
        None \<Rightarrow> (Inl ENOENT, fs)
      | Some i \<Rightarrow> if fs_dir fs r \<noteq> None then (Inl EEXIST, fs)
                  else (Inr (), fs\<lparr>fs_dir := (fs_dir fs)(l := None, r \<mapsto> i)\<rparr>))"

definition sync :: "fs \<Rightarrow> (errno + unit) \<times> fs" where
  "sync fs = (Inr (), fs)"

section \<open>Errors\<close>

datatype config_error =
    ErrRevisionConflict
  | ErrAtomicUnsupported
  | ConfigError string
  | ConfigErrno string errno

type_synonym 'a io = "fs \<Rightarrow> (config_error + 'a) \<times> fs"

definition bind_io :: "'a io \<Rightarrow> ('a \<Rightarrow> 'b io) \<Rightarrow> 'b io" where
  "bind_io m f fs = (case m fs of (Inl e, fs') \<Rightarrow> (Inl e, fs') | (Inr x, fs') \<Rightarrow> f x fs')"

definition return_io :: "'a \<Rightarrow> 'a io" where
  "return_io x fs = (Inr x, fs)"

definition check_io :: "bool \<Rightarrow> config_error \<Rightarrow> unit io" where
  "check_io b e fs = (if b then Inr () else Inl e, fs)"

text \<open>A call whose error is wrapped with a label.\<close>

definition io :: "machine \<Rightarrow> site \<Rightarrow> string \<Rightarrow> (fs \<Rightarrow> (errno + 'a) \<times> fs) \<Rightarrow> 'a io" where
  "io M s label call fs =
     (case sys_call M s call fs of (Inl e, fs') \<Rightarrow> (Inl (ConfigErrno label e), fs') | (Inr x, fs') \<Rightarrow> (Inr x, fs'))"

definition unsupported :: "errno \<Rightarrow> bool" where
  "unsupported e \<longleftrightarrow> e = ENOSYS \<or> e = EINVAL \<or> e = EOPNOTSUPP"

definition rename_exchange :: "machine \<Rightarrow> site \<Rightarrow> string \<Rightarrow> string \<Rightarrow> unit io" where
  "rename_exchange M s l r fs =
     (case sys_call M s (exchange l r) fs of
        (Inl e, fs') \<Rightarrow> (Inl (if unsupported e then ErrAtomicUnsupported else ConfigErrno ''renameat2'' e), fs')
      | (Inr x, fs') \<Rightarrow> (Inr x, fs'))"

definition rename_no_replace :: "machine \<Rightarrow> site \<Rightarrow> string \<Rightarrow> string \<Rightarrow> unit io" where
  "rename_no_replace M s l r fs =
     (case sys_call M s (no_replace l r) fs of
        (Inl e, fs') \<Rightarrow> (Inl (if e = EEXIST then ErrRevisionConflict
           else if unsupported e then ErrAtomicUnsupported else ConfigErrno ''renameat2'' e), fs')
      | (Inr x, fs') \<Rightarrow> (Inr x, fs'))"

section \<open>Reading\<close>

record config_file =
  cf_path :: string
  cf_body :: string
  cf_hash :: string
  cf_mode :: int
  cf_uid :: int
  cf_gid :: int

definition config_name :: "string \<Rightarrow> string" where
  "config_name name = name @ ''.conf''"

definition perm :: "int \<Rightarrow> int" where
  "perm mode = mode mod 512"

definition read_config :: "machine \<Rightarrow> string \<Rightarrow> config_file io" where
  "read_config M name =
     (case interface_name name of
        Some e \<Rightarrow> (\<lambda>fs. (Inl (ConfigError e), fs))
      | None \<Rightarrow>
          bind_io (io M ReadLstat ''inspect config'' (lstat (config_name name))) (\<lambda>(i, info).
          bind_io (check_io (in_kind info = Regular) (ConfigError ''config must be a regular non-symlink file'')) (\<lambda>_.
          bind_io (check_io (length (in_body info) \<le> max_config_bytes) (ConfigError ''config exceeds limit'')) (\<lambda>_.
          bind_io (io M ReadOpen ''open config without following links'' (open_no_follow (config_name name))) (\<lambda>fd.
          bind_io (io M ReadBody ''read config'' (read_limited fd)) (\<lambda>body.
          bind_io (check_io (length body \<le> max_config_bytes) (ConfigError ''config exceeded limit while reading'')) (\<lambda>_.
          bind_io (io M ReadStat ''inspect opened config'' (fstat fd)) (\<lambda>(j, opened).
          bind_io (check_io (i = j) ErrRevisionConflict) (\<lambda>_.
          return_io \<lparr>cf_path = config_name name, cf_body = body, cf_hash = m_sha256 M body,
            cf_mode = perm (in_mode opened), cf_uid = in_uid opened, cf_gid = in_gid opened\<rparr>)))))))))"

definition read_regular :: "machine \<Rightarrow> site \<Rightarrow> site \<Rightarrow> site \<Rightarrow> string \<Rightarrow> string io" where
  "read_regular M s1 s2 s3 n =
     bind_io (io M s1 ''lstat'' (lstat n)) (\<lambda>(i, info).
     bind_io (check_io (in_kind info = Regular) (ConfigError ''path is not a regular non-symlink file'')) (\<lambda>_.
     bind_io (io M s2 ''open'' (open_no_follow n)) (\<lambda>fd. io M s3 ''read'' (read_limited fd))))"

section \<open>Exchanging\<close>

text \<open>The staged file: mode and owner of the current one, the proposed bytes.\<close>

definition fill_stage :: "machine \<Rightarrow> nat \<Rightarrow> config_file \<Rightarrow> string \<Rightarrow> unit io" where
  "fill_stage M fd current proposed =
     bind_io (io M ChmodStage ''preserve staged mode'' (set_inode fd (\<lambda>i. i\<lparr>in_mode := cf_mode current\<rparr>))) (\<lambda>_.
     bind_io (if cf_uid current \<ge> 0 \<and> cf_gid current \<ge> 0
       then io M ChownStage ''preserve staged ownership''
         (set_inode fd (\<lambda>i. i\<lparr>in_uid := cf_uid current, in_gid := cf_gid current\<rparr>))
       else return_io ()) (\<lambda>_.
     bind_io (io M WriteStage ''write staged config'' (set_inode fd (\<lambda>i. i\<lparr>in_body := in_body i @ proposed\<rparr>))) (\<lambda>_.
     bind_io (io M SyncStage ''sync staged config'' sync) (\<lambda>_.
     io M CloseStage ''close staged config'' sync))))"

text \<open>
  From the exchange on. The result comes with \<open>keepStage\<close>. The displaced file, now at the stage path, must have
  the expected hash and the destination the proposed one; otherwise the two are exchanged back.
\<close>

definition give_back ::
  "machine \<Rightarrow> site \<Rightarrow> string \<Rightarrow> string \<Rightarrow> config_error \<Rightarrow> (fs \<Rightarrow> (config_error + string) \<times> fs) \<Rightarrow> fs
     \<Rightarrow> ((config_error + string) \<times> bool) \<times> fs" where
  "give_back M s stage dest failed after fs =
     (case rename_exchange M s stage dest fs of
        (Inl _, fs') \<Rightarrow> ((Inl failed, True), fs')
      | (Inr _, fs') \<Rightarrow> (case after fs' of (r, fs'') \<Rightarrow> ((r, False), fs'')))"

definition swap_and_check ::
  "machine \<Rightarrow> string \<Rightarrow> string \<Rightarrow> string \<Rightarrow> string \<Rightarrow> fs \<Rightarrow> ((config_error + string) \<times> bool) \<times> fs" where
  "swap_and_check M stage dest expected proposed fs =
     (case rename_exchange M Swap stage dest fs of
        (Inl e, fs1) \<Rightarrow> ((Inl e, False), fs1)
      | (Inr _, fs1) \<Rightarrow>
     (case read_regular M CheckLstat CheckOpen CheckBody stage fs1 of (read, fs2) \<Rightarrow>
      if (case read of Inl _ \<Rightarrow> True | Inr displaced \<Rightarrow> m_sha256 M displaced \<noteq> expected)
      then give_back M SwapBack stage dest ErrRevisionConflict
        (\<lambda>fs3. case io M SyncBack ''sync'' sync fs3 of (_, fs4) \<Rightarrow> (Inl ErrRevisionConflict, fs4)) fs2
      else
     (case read_regular M VerifyLstat VerifyOpen VerifyBody dest fs2 of (destination, fs3) \<Rightarrow>
      if (case destination of Inl _ \<Rightarrow> True | Inr d \<Rightarrow> m_sha256 M d \<noteq> m_sha256 M proposed)
      then give_back M VerifySwapBack stage dest (ConfigError ''verify destination failed and rollback failed'')
        (\<lambda>fs4. (Inl (ConfigError ''verify exchanged config failed''), fs4)) fs3
      else
     (case io M SyncDir ''sync config directory'' sync fs3 of
        (Inl e, fs4) \<Rightarrow> give_back M SyncSwapBack stage dest (ConfigError ''sync config directory failed and rollback failed'')
          (\<lambda>fs5. (Inl e, fs5)) fs4
      | (Inr _, fs4) \<Rightarrow> ((case read of Inl e \<Rightarrow> Inl e | Inr displaced \<Rightarrow> Inr displaced, False), fs4)))))"

text \<open>The deferred \<open>os.Remove(stagePath)\<close>, whose error is ignored.\<close>

definition remove_stage :: "machine \<Rightarrow> site \<Rightarrow> string \<Rightarrow> fs \<Rightarrow> fs" where
  "remove_stage M s stage fs = snd (sys_call M s (unlink stage) fs)"

definition finish_exchange ::
  "machine \<Rightarrow> string \<Rightarrow> string \<Rightarrow> string \<Rightarrow> string \<Rightarrow> string io" where
  "finish_exchange M stage dest expected proposed fs =
     (case swap_and_check M stage dest expected proposed fs of ((r, keep), fs') \<Rightarrow>
        (r, if keep then fs' else remove_stage M RemoveStage stage fs'))"

definition exchange_config :: "machine \<Rightarrow> string \<Rightarrow> string \<Rightarrow> string \<Rightarrow> string io" where
  "exchange_config M name expected proposed =
     bind_io (check_io (length proposed \<le> max_config_bytes) (ConfigError ''proposed config exceeds limit'')) (\<lambda>_.
     bind_io (read_config M name) (\<lambda>current.
     bind_io (check_io (cf_hash current = expected) ErrRevisionConflict) (\<lambda>_.
     bind_io (io M MakeStage ''create staged config'' (create_temp (m_temp M MakeStage))) (\<lambda>(stage, fd) fs.
     case fill_stage M fd current proposed fs of
       (Inl e, fs') \<Rightarrow> (Inl e, remove_stage M RemoveStage stage fs')
     | (Inr _, fs') \<Rightarrow> finish_exchange M stage (cf_path current) expected proposed fs'))))"

section \<open>Creating\<close>

definition create_config :: "machine \<Rightarrow> string \<Rightarrow> string \<Rightarrow> int \<Rightarrow> unit io" where
  "create_config M name body mode =
     (case interface_name name of
        Some e \<Rightarrow> (\<lambda>fs. (Inl (ConfigError e), fs))
      | None \<Rightarrow>
          bind_io (check_io (length body \<le> max_config_bytes) (ConfigError ''config exceeds limit'')) (\<lambda>_.
          bind_io (io M NewStage ''create'' (create_temp (m_temp M NewStage))) (\<lambda>(stage, fd) fs.
          case
            bind_io (io M NewChmod ''chmod'' (set_inode fd (\<lambda>i. i\<lparr>in_mode := if mode = 0 then 384 else mode\<rparr>))) (\<lambda>_.
            bind_io (io M NewWrite ''write'' (set_inode fd (\<lambda>i. i\<lparr>in_body := in_body i @ body\<rparr>))) (\<lambda>_.
            bind_io (io M NewSync ''sync'' sync) (\<lambda>_.
            bind_io (io M NewClose ''close'' sync) (\<lambda>_.
            bind_io (rename_no_replace M NewRename stage (config_name name)) (\<lambda>_.
            io M NewSyncDir ''sync'' sync))))) fs
          of (r, fs') \<Rightarrow> (r, remove_stage M NewRemove stage fs'))))"

definition supports_atomic_exchange :: "machine \<Rightarrow> unit io" where
  "supports_atomic_exchange M =
     bind_io (io M MakeLeft ''create'' (create_temp (m_temp M MakeLeft))) (\<lambda>(l, _) fs.
     case io M MakeRight ''create'' (create_temp (m_temp M MakeRight)) fs of
       (Inl e, fs1) \<Rightarrow> (Inl e, remove_stage M RemoveLeft l fs1)
     | (Inr (r, _), fs1) \<Rightarrow>
         (case bind_io (rename_exchange M ProbeSwap l r) (\<lambda>_. rename_exchange M ProbeBack l r) fs1 of
            (res, fs2) \<Rightarrow> (res, remove_stage M RemoveLeft l (remove_stage M RemoveRight r fs2))))"

end
