(* ===== verification/ConfigFilesCorrect.thy ===== *)
theory ConfigFilesCorrect
  imports ConfigFiles
begin

text \<open>
  Replacing a configuration file: with no interference the exchange installs the proposed bytes and returns the
  displaced ones; whatever was saved before the exchange survives a failure; a save after the exchange does not.
\<close>

definition after_swap :: "site set" where
  "after_swap = {CheckLstat, CheckOpen, CheckBody, SwapBack, SyncBack, VerifyLstat, VerifyOpen, VerifyBody,
     VerifySwapBack, SyncDir, SyncSwapBack, RemoveStage}"

lemma sys_call_calm: "m_env M s = id \<Longrightarrow> sys_call M s call fs =
    (case m_fail M s of None \<Rightarrow> call fs | Some e \<Rightarrow> (Inl e, fs))"
  by (simp add: sys_call_def split: option.split)

lemma read_regular_calm:
  assumes "m_env M s1 = id" and "m_env M s2 = id" and "m_env M s3 = id" and "read_regular M s1 s2 s3 n fs = (r, fs')"
  shows "fs' = fs" and "r = Inr x \<Longrightarrow> \<exists>i. fs_dir fs n = Some i \<and> x = take (max_config_bytes + 1) (in_body (fs_inode fs i))"
  using assms
  by (auto simp: read_regular_def bind_io_def io_def sys_call_calm lstat_def open_no_follow_def read_limited_def check_io_def
      split: option.splits sum.splits prod.splits if_splits)

lemma give_back_calm:
  assumes "m_env M s = id" and "give_back M s stage dest failed after fs = ((r, keep), fs')"
    and "fs_dir fs stage = Some i" and "fs_dir fs dest = Some j" and "stage \<noteq> dest"
    and after: "\<And>x. \<exists>e. after x = (Inl e, x)"
  shows "isl r \<and> fs_inode fs' = fs_inode fs \<and>
    (if keep then fs_dir fs' stage = Some i else fs_dir fs' dest = Some i)"
proof -
  obtain e where "after (fs\<lparr>fs_dir := (fs_dir fs)(stage \<mapsto> j, dest \<mapsto> i)\<rparr>) =
      (Inl e, fs\<lparr>fs_dir := (fs_dir fs)(stage \<mapsto> j, dest \<mapsto> i)\<rparr>)"
    using after by blast
  with assms(2-5) show ?thesis
    by (auto simp: give_back_def rename_exchange_def sys_call_calm [OF assms(1)] exchange_def split: option.splits)
qed

lemma swap_and_check_keeps:
  assumes calm: "\<And>s. s \<in> after_swap \<Longrightarrow> m_env M s = id"
    and at: "fs_dir (m_env M Swap fs) dest = Some i" "fs_dir (m_env M Swap fs) stage = Some j" "stage \<noteq> dest"
    and run: "swap_and_check M stage dest expected proposed fs = ((r, keep), fs')"
  shows "fs_inode fs' = fs_inode (m_env M Swap fs) \<and>
    (case r of
       Inr displaced \<Rightarrow> \<not> keep \<and> fs_dir fs' dest = Some j \<and>
         displaced = take (max_config_bytes + 1) (in_body (fs_inode fs' i)) \<and> m_sha256 M displaced = expected \<and>
         m_sha256 M (take (max_config_bytes + 1) (in_body (fs_inode fs' j))) = m_sha256 M proposed
     | Inl _ \<Rightarrow> if keep then fs_dir fs' stage = Some i else fs_dir fs' dest = Some i)"
proof -
  let ?fs0 = "m_env M Swap fs"
  let ?fs1 = "?fs0\<lparr>fs_dir := (fs_dir ?fs0)(stage \<mapsto> i, dest \<mapsto> j)\<rparr>"
  have c: "m_env M CheckLstat = id" "m_env M CheckOpen = id" "m_env M CheckBody = id" "m_env M SwapBack = id"
    "m_env M SyncBack = id" "m_env M VerifyLstat = id" "m_env M VerifyOpen = id" "m_env M VerifyBody = id"
    "m_env M VerifySwapBack = id" "m_env M SyncDir = id" "m_env M SyncSwapBack = id"
    using calm by (simp_all add: after_swap_def)
  show ?thesis
  proof (cases "rename_exchange M Swap stage dest fs")
    case (Pair x fs1)
    show ?thesis
    proof (cases x)
      case (Inl e)
      with Pair have "fs1 = ?fs0"
        by (auto simp: rename_exchange_def sys_call_def exchange_def at split: option.splits sum.splits)
      with Pair Inl run at show ?thesis by (auto simp: swap_and_check_def)
    next
      case (Inr u)
      with Pair have fs1: "fs1 = ?fs1"
        by (auto simp: rename_exchange_def sys_call_def exchange_def at split: option.splits sum.splits)
      obtain read fs2 where read: "read_regular M CheckLstat CheckOpen CheckBody stage fs1 = (read, fs2)" by fastforce
      note r1 = read_regular_calm [OF c(1-3) read]
      obtain destination fs3 where destination: "read_regular M VerifyLstat VerifyOpen VerifyBody dest fs2 = (destination, fs3)"
        by fastforce
      note r2 = read_regular_calm [OF c(6-8) destination]
      have names: "fs_dir fs1 stage = Some i" "fs_dir fs1 dest = Some j" "fs_inode fs1 = fs_inode ?fs0"
        using at(3) by (simp_all add: fs1)
      have sync: "snd (io M s l sync x) = x" if "m_env M s = id" for s l x
        using that by (auto simp: io_def sys_call_calm sync_def split: option.splits)
      show ?thesis
      proof (cases "case read of Inl _ \<Rightarrow> True | Inr displaced \<Rightarrow> m_sha256 M displaced \<noteq> expected")
        case True
        with run Pair Inr read have "give_back M SwapBack stage dest ErrRevisionConflict
            (\<lambda>fs3. case io M SyncBack ''sync'' sync fs3 of (_, fs4) \<Rightarrow> (Inl ErrRevisionConflict, fs4)) fs2 = ((r, keep), fs')"
          by (simp add: swap_and_check_def)
        from give_back_calm [OF c(4) this _ _ at(3), of i j] names r1(1) sync [OF c(5)] show ?thesis
          by (auto split: sum.splits prod.splits simp: case_prod_unfold)
      next
        case False
        then obtain displaced where d: "read = Inr displaced" "m_sha256 M displaced = expected" by (cases read) auto
        show ?thesis
        proof (cases "case destination of Inl _ \<Rightarrow> True | Inr d \<Rightarrow> m_sha256 M d \<noteq> m_sha256 M proposed")
          case True
          with run Pair Inr read d destination have "give_back M VerifySwapBack stage dest
              (ConfigError ''verify destination failed and rollback failed'')
              (\<lambda>fs4. (Inl (ConfigError ''verify exchanged config failed''), fs4)) fs3 = ((r, keep), fs')"
            by (simp add: swap_and_check_def)
          from give_back_calm [OF c(9) this _ _ at(3), of i j] names r1(1) r2(1) show ?thesis
            by (auto split: sum.splits)
        next
          case False
          then obtain y where y: "destination = Inr y" "m_sha256 M y = m_sha256 M proposed" by (cases destination) auto
          show ?thesis
          proof (cases "io M SyncDir ''sync config directory'' sync fs3")
            case (Pair z fs4)
            with sync [OF c(10), of "''sync config directory''" fs3] have fs4: "fs4 = fs3" by simp
            show ?thesis
            proof (cases z)
              case (Inl e)
              with run \<open>rename_exchange M Swap stage dest fs = (x, fs1)\<close> \<open>x = Inr u\<close> read d destination y Pair
              have "give_back M SyncSwapBack stage dest (ConfigError ''sync config directory failed and rollback failed'')
                  (\<lambda>fs5. (Inl e, fs5)) fs4 = ((r, keep), fs')"
                by (simp add: swap_and_check_def)
              from give_back_calm [OF c(11) this _ _ at(3), of i j] names r1(1) r2(1) fs4 show ?thesis
                by (auto split: sum.splits)
            next
              case (Inr v)
              with run \<open>rename_exchange M Swap stage dest fs = (x, fs1)\<close> \<open>x = Inr u\<close> read d destination y Pair
              have "r = Inr displaced \<and> \<not> keep \<and> fs' = fs4" by (auto simp: swap_and_check_def)
              with d y r1 r2 names fs4 show ?thesis by auto
            qed
          qed
        qed
      qed
    qed
  qed
qed

section \<open>Properties\<close>

text \<open>
  C3: Whatever file is at the destination when the exchange happens is not lost, provided nobody renames there
  afterwards: on success it has the expected hash, its bytes are returned and the staged file with the proposed
  hash has taken its place; on failure it is at the destination again, or kept at the stage path when even the
  exchange back failed.
\<close>

theorem exchange_loses_nothing:
  assumes "\<And>s. s \<in> after_swap \<Longrightarrow> m_env M s = id"
    and "fs_dir (m_env M Swap fs) dest = Some i" and "fs_dir (m_env M Swap fs) stage = Some j" and "stage \<noteq> dest"
    and "finish_exchange M stage dest expected proposed fs = (r, fs')"
  shows "fs_inode fs' = fs_inode (m_env M Swap fs) \<and>
    (case r of
       Inr displaced \<Rightarrow> fs_dir fs' dest = Some j \<and> m_sha256 M displaced = expected \<and>
         displaced = take (max_config_bytes + 1) (in_body (fs_inode fs' i)) \<and>
         m_sha256 M (take (max_config_bytes + 1) (in_body (fs_inode fs' j))) = m_sha256 M proposed
     | Inl _ \<Rightarrow> fs_dir fs' dest = Some i \<or> fs_dir fs' stage = Some i)"
proof -
  obtain keep fs1 where run: "swap_and_check M stage dest expected proposed fs = ((r, keep), fs1)"
    and fs': "fs' = (if keep then fs1 else remove_stage M RemoveStage stage fs1)"
    using assms(5) by (auto simp: finish_exchange_def split: prod.splits)
  have "m_env M RemoveStage = id" using assms(1) by (simp add: after_swap_def)
  then have "fs_inode (remove_stage M RemoveStage stage fs1) = fs_inode fs1"
    "fs_dir (remove_stage M RemoveStage stage fs1) dest = fs_dir fs1 dest"
    using assms(4) by (auto simp: remove_stage_def sys_call_calm unlink_def split: option.split)
  with swap_and_check_keeps [OF assms(1-4) run] fs' show ?thesis
    by (cases r) (auto split: if_splits)
qed

definition calm :: "machine \<Rightarrow> bool" where
  "calm M \<longleftrightarrow> (\<forall>s. m_env M s = id \<and> m_fail M s = None)"

lemma io_calm: "calm M \<Longrightarrow> io M s l call fs = (case call fs of (Inl e, fs') \<Rightarrow> (Inl (ConfigErrno l e), fs') | (Inr x, fs') \<Rightarrow> (Inr x, fs'))"
  by (simp add: calm_def io_def sys_call_def)

lemmas calm_steps = io_calm bind_io_def check_io_def return_io_def lstat_def open_no_follow_def read_limited_def fstat_def
  create_temp_def set_inode_def sync_def

lemma exchange_calm: "calm M \<Longrightarrow> rename_exchange M s l r fs = (case exchange l r fs of
    (Inl e, fs') \<Rightarrow> (Inl (if unsupported e then ErrAtomicUnsupported else ConfigErrno ''renameat2'' e), fs')
  | (Inr x, fs') \<Rightarrow> (Inr x, fs'))"
  by (simp add: calm_def rename_exchange_def sys_call_def)

text \<open>
  C4: With nobody else at work, exchanging a configuration of the expected hash succeeds: it returns the old bytes,
  the destination has the proposed ones with the old mode and owner, and no staged file is left behind.
\<close>

theorem exchange_installs:
  assumes "calm M" and "interface_name name = None" and "fs_dir fs (config_name name) = Some i"
    and "fs_inode fs i = \<lparr>in_kind = Regular, in_body = body, in_mode = mode, in_uid = uid, in_gid = gid\<rparr>"
    and "0 \<le> uid" and "0 \<le> gid" and "length body \<le> max_config_bytes" and "length proposed \<le> max_config_bytes"
    and "fs_dir fs (m_temp M MakeStage) = None" and "i \<noteq> fs_next fs" and "m_sha256 M body = expected"
  shows "exchange_config M name expected proposed fs = (Inr body, fs\<lparr>
      fs_dir := (fs_dir fs)(config_name name \<mapsto> fs_next fs),
      fs_inode := (fs_inode fs)(fs_next fs :=
        \<lparr>in_kind = Regular, in_body = proposed, in_mode = perm mode, in_uid = uid, in_gid = gid\<rparr>),
      fs_next := Suc (fs_next fs)\<rparr>)"
proof -
  let ?stage = "m_temp M MakeStage"
  let ?current = "\<lparr>cf_path = config_name name, cf_body = body, cf_hash = expected, cf_mode = perm mode, cf_uid = uid, cf_gid = gid\<rparr>"
  let ?new = "\<lparr>in_kind = Regular, in_body = proposed, in_mode = perm mode, in_uid = uid, in_gid = gid\<rparr>"
  let ?fs1 = "fs\<lparr>fs_dir := (fs_dir fs)(?stage \<mapsto> fs_next fs),
      fs_inode := (fs_inode fs)(fs_next fs := \<lparr>in_kind = Regular, in_body = [], in_mode = 384, in_uid = 0, in_gid = 0\<rparr>),
      fs_next := Suc (fs_next fs)\<rparr>"
  let ?fs2 = "?fs1\<lparr>fs_inode := (fs_inode fs)(fs_next fs := ?new)\<rparr>"
  have neq: "?stage \<noteq> config_name name" using assms(3,9) by auto
  have read: "read_config M name fs = (Inr ?current, fs)"
    using assms(2-4,7,11) by (simp add: read_config_def calm_steps assms(1))
  have fill: "fill_stage M (fs_next fs) ?current proposed ?fs1 = (Inr (), ?fs2)"
    using assms(5,6) by (simp add: fill_stage_def calm_steps assms(1))
  have finish: "finish_exchange M ?stage (config_name name) expected proposed ?fs2 = (Inr body,
      ?fs2\<lparr>fs_dir := (fs_dir fs)(config_name name \<mapsto> fs_next fs)\<rparr>)"
    using assms neq
    by (simp add: finish_exchange_def swap_and_check_def exchange_calm exchange_def read_regular_def calm_steps
        remove_stage_def sys_call_def unlink_def calm_def fun_upd_twist [OF neq])
      (simp add: fun_eq_iff)
  show ?thesis
    unfolding exchange_config_def using assms(8,9) read fill finish
    by (simp add: bind_io_def check_io_def io_calm assms(1) create_temp_def)
qed

text \<open>
  A configuration that exists is never overwritten by a creation: it fails and leaves the file alone.
\<close>

theorem create_never_overwrites:
  assumes "\<And>s. m_env M s = id" and "fs_dir fs (config_name name) = Some i" and "i \<noteq> fs_next fs"
    and "m_temp M NewStage \<noteq> config_name name"
  shows "isl (fst (create_config M name body mode fs)) \<and>
    fs_dir (snd (create_config M name body mode fs)) (config_name name) = Some i \<and>
    fs_inode (snd (create_config M name body mode fs)) i = fs_inode fs i"
  using assms
  by (auto simp: create_config_def bind_io_def check_io_def io_def sys_call_calm create_temp_def set_inode_def sync_def
      rename_no_replace_def no_replace_def remove_stage_def unlink_def split: option.splits prod.splits sum.splits if_splits)

text \<open>An editor that writes a new file and renames it over the destination, as editors and \<^verbatim>\<open>wg-quick save\<close> do.\<close>

definition save_file :: "string \<Rightarrow> nat \<Rightarrow> string \<Rightarrow> fs \<Rightarrow> fs" where
  "save_file n k body fs = fs\<lparr>fs_dir := (fs_dir fs)(n \<mapsto> k),
     fs_inode := (fs_inode fs)(k := \<lparr>in_kind = Regular, in_body = body, in_mode = 384, in_uid = 0, in_gid = 0\<rparr>)\<rparr>"

text \<open>
  C37: A file saved between the exchange and its verification is destroyed: the verification sees a foreign file,
  the exchange back moves it to the stage path without looking at it, and the deferred removal deletes it.
\<close>

theorem late_save_is_lost:
  assumes "\<And>s. m_fail M s = None" and "\<And>s. s \<noteq> VerifyLstat \<Longrightarrow> m_env M s = id"
    and "m_env M VerifyLstat = save_file dest k edit"
    and "fs_dir fs dest = Some i" and "fs_dir fs stage = Some j" and "stage \<noteq> dest"
    and "k \<notin> ran (fs_dir fs)" and "in_kind (fs_inode fs i) = Regular" and "length (in_body (fs_inode fs i)) \<le> max_config_bytes"
    and "m_sha256 M (in_body (fs_inode fs i)) = expected" and "length edit \<le> max_config_bytes"
    and "m_sha256 M edit \<noteq> m_sha256 M proposed"
  shows "fst (finish_exchange M stage dest expected proposed fs) = Inl (ConfigError ''verify exchanged config failed'') \<and>
    fs_dir (snd (finish_exchange M stage dest expected proposed fs)) dest = Some i \<and>
    k \<notin> ran (fs_dir (snd (finish_exchange M stage dest expected proposed fs)))"
proof -
  have ki: "k \<noteq> i" using assms(4,7) by (auto simp: ran_def)
  have free: "fs_dir fs n \<noteq> Some k" for n using assms(7) by (auto simp: ran_def)
  let ?inodes = "(fs_inode fs)(k := \<lparr>in_kind = Regular, in_body = edit, in_mode = 384, in_uid = 0, in_gid = 0\<rparr>)"
  have "finish_exchange M stage dest expected proposed fs = (Inl (ConfigError ''verify exchanged config failed''),
      fs\<lparr>fs_dir := (fs_dir fs)(dest \<mapsto> i, stage := None), fs_inode := ?inodes\<rparr>)"
    using assms ki
    by (simp add: finish_exchange_def swap_and_check_def rename_exchange_def exchange_def read_regular_def bind_io_def io_def
        check_io_def lstat_def open_no_follow_def read_limited_def remove_stage_def sys_call_def unlink_def save_file_def
        give_back_def fun_upd_twist [OF assms(6)])
  then show ?thesis using assms(6) ki free by (auto simp: ran_def)
qed

section \<open>Instances\<close>

definition demo_machine :: machine where
  "demo_machine = \<lparr>m_env = \<lambda>_. id, m_fail = \<lambda>_. None, m_temp = \<lambda>_. ''stage'', m_sha256 = id\<rparr>"

definition demo_file :: "string \<Rightarrow> inode" where
  "demo_file body = \<lparr>in_kind = Regular, in_body = body, in_mode = 384, in_uid = 0, in_gid = 0\<rparr>"

text \<open>\<open>wg0.conf\<close> is inode 1; \<open>demo_staged\<close> also has a staged file, inode 2.\<close>

definition demo_fs :: fs where
  "demo_fs = \<lparr>fs_dir = [''wg0.conf'' \<mapsto> 1], fs_inode = \<lambda>_. demo_file ''old'', fs_next = 2\<rparr>"

definition demo_staged :: fs where
  "demo_staged = \<lparr>fs_dir = [''wg0.conf'' \<mapsto> 1, ''stage'' \<mapsto> 2],
     fs_inode = (\<lambda>_. demo_file ''old'')(2 := demo_file ''new''), fs_next = 3\<rparr>"

lemma demo_calm: "calm demo_machine"
  by (simp add: calm_def demo_machine_def)

theorem exchange_loses_nothing_witness:
  "fs_dir (snd (finish_exchange demo_machine ''stage'' ''wg0.conf'' ''other'' ''new'' demo_staged)) ''wg0.conf'' = Some 1 \<or>
   fs_dir (snd (finish_exchange demo_machine ''stage'' ''wg0.conf'' ''other'' ''new'' demo_staged)) ''stage'' = Some 1"
proof -
  obtain r fs' where run: "finish_exchange demo_machine ''stage'' ''wg0.conf'' ''other'' ''new'' demo_staged = (r, fs')"
    by fastforce
  have at: "fs_dir (m_env demo_machine Swap demo_staged) ''wg0.conf'' = Some 1"
    "fs_dir (m_env demo_machine Swap demo_staged) ''stage'' = Some 2" "''stage'' \<noteq> ''wg0.conf''"
    by (simp_all add: demo_machine_def demo_staged_def)
  have all: "m_env demo_machine s = id" for s by (simp add: demo_machine_def)
  note all_of_it = exchange_loses_nothing [OF all at run]
  show ?thesis
  proof (cases r)
    case (Inl e)
    with all_of_it run show ?thesis by auto
  next
    case (Inr displaced)
    with all_of_it show ?thesis by (auto simp: demo_machine_def demo_staged_def demo_file_def max_config_bytes_def)
  qed
qed

theorem exchange_installs_witness:
  "fst (exchange_config demo_machine ''wg0'' ''old'' ''new'' demo_fs) = Inr ''old''"
proof -
  have "interface_name ''wg0'' = None" by code_simp
  then show ?thesis
    by (subst exchange_installs [OF demo_calm, where i = 1 and body = "''old''" and mode = 384 and uid = 0 and gid = 0])
      (simp_all add: demo_fs_def demo_machine_def demo_file_def config_name_def max_config_bytes_def)
qed

theorem create_never_overwrites_witness:
  "fs_dir (snd (create_config demo_machine ''wg0'' ''new'' 0 demo_fs)) ''wg0.conf'' = Some 1"
  using create_never_overwrites [of demo_machine demo_fs "''wg0''" 1 "''new''" 0]
  by (simp add: demo_fs_def demo_machine_def config_name_def)

definition demo_editor :: machine where
  "demo_editor = demo_machine\<lparr>m_env := (\<lambda>_. id)(VerifyLstat := save_file ''wg0.conf'' 9 ''edit'')\<rparr>"

theorem late_save_is_lost_witness:
  "9 \<notin> ran (fs_dir (snd (finish_exchange demo_editor ''stage'' ''wg0.conf'' ''old'' ''new'' demo_staged)))"
  using late_save_is_lost [of demo_editor "''wg0.conf''" 9 "''edit''" demo_staged 1 "''stage''" 2 "''old''" "''new''"]
  by (simp add: demo_editor_def demo_machine_def demo_staged_def demo_file_def max_config_bytes_def ran_def)

end
