(* ===== verification/Spec2Isabelle.thy ===== *)
theory Spec2Isabelle
  imports OperationStoreCorrect ConfigDocWitness Ipam PeerArchives ArtifactService RenderedConfig WebSessions InventoryRefresh AdoptionRollback ConfigFilesCorrect
begin

text \<open>
  WireGate administers the WireGuard interfaces of one gateway. It is two processes. The
  \<^bold>\<open>agent\<close> (\<^verbatim>\<open>src/internal/agent\<close>) runs privileged: it owns the configuration files, the kernel
  devices and a SQLite database, and executes every change as a journalled operation. The \<^bold>\<open>web
  process\<close> (\<^verbatim>\<open>src/internal/web\<close>) authenticates administrators, keeps its own database and forwards
  requests over a local socket. Below, each theory is set against the Go files it translates; paths
  are relative to \<^verbatim>\<open>src/\<close> of the repository's module.

  \<^bold>\<open>How the parts work together.\<close> A request creates an operation (\<open>create_operation\<close>: at most one
  active operation on an interface, repeated requests find the first one again). The engine
  (\<open>execute\<close>) walks its steps, writes each transition to the journal before the next effect, rolls
  back from the journalled snapshots on a failure, and after a crash \<open>recover\<close> compares the
  fingerprints observed on the host with those journalled. The repository is the journal: the locale
  \<open>cas_journal\<close> is what the engine needs of it and \<open>repo_journal\<close> is its instance. Handlers reserve
  rows in the same transaction as the operation (\<open>reserve_interface\<close>, \<open>reserve_peer\<close>), complete them
  after the host has changed, and finalize the operation with one audit row. Secrets lie in
  envelopes bound to their gateway, owner and purpose; a one-time artifact is handed out once and
  its envelope destroyed. The inventory compares files, kernel and database at every refresh and
  marks drift.

  \<^bold>\<open>The theories.\<close>
  \<^item> \<open>Prelude\<close>: time, results (\<open>bind_r\<close>, \<open>check\<close>), list lemmas, the collections \<open>engine_simps\<close> and
    \<open>table_simps\<close>. \<open>GoStrings\<close>: \<^verbatim>\<open>strings\<close>, \<^verbatim>\<open>strconv\<close> and \<^verbatim>\<open>bytes\<close> as the program uses them, on byte
    strings. \<open>Netip\<close>: \<^verbatim>\<open>net/netip\<close>, an IPv4 address a 32-bit and an IPv6 address a 128-bit word.
  \<^item> \<open>OperationEngine\<close> (\<^verbatim>\<open>internal/agent/operation/engine.go\<close>); \<open>EngineFacts\<close>, \<open>EngineOutcome\<close>,
    \<open>EngineCorrect\<close>, \<open>EngineJournal\<close>: the step relation \<open>engine_step\<close> and its invariants, what a call
    ends in, rollback, recovery, and the engine over any journal that satisfies \<open>cas_journal\<close>.
  \<^item> \<open>AgentDb\<close>, \<open>AgentTables\<close> (\<^verbatim>\<open>migrations/agent/*.sql\<close>): one record per table row, tables as
    lists, the constraints and cascades in the statements. \<open>DemoDb\<close>: the database of the witnesses.
  \<^item> \<open>OperationStore\<close> (\<^verbatim>\<open>repository/operation_store.go\<close>), \<open>RepositoryJournal\<close> (it is the engine's
    journal: instance \<open>repo\<close>), \<open>OperationStoreCorrect\<close> (tables stay well formed, idempotency, the
    engine's final state is the stored one).
  \<^item> \<open>ConfigDoc\<close> (\<^verbatim>\<open>configdoc/document.go\<close>): the editor of WireGuard files, byte for byte;
    \<open>ConfigDocFacts\<close>, \<open>ConfigDocCorrect\<close>, \<open>ConfigDocWitness\<close>: lossless parsing, frame of a patch,
    exactness of a removal, restoring after removing.
  \<^item> \<open>Validation\<close> (\<^verbatim>\<open>validation/validation.go\<close>), \<open>Ipam\<close> (\<^verbatim>\<open>ipam/allocator.go\<close>), \<open>NetworkPlan\<close>
    (\<^verbatim>\<open>network/plan.go\<close>), \<open>Profile\<close> (\<^verbatim>\<open>profile/render.go\<close>, \<^verbatim>\<open>profile/server.go\<close>) and \<open>RenderedConfig\<close>
    (what the renderer writes, the parser of \<open>ConfigDoc\<close> reads).
  \<^item> \<open>SecretEnvelope\<close> (\<^verbatim>\<open>secret/envelope.go\<close>), \<open>SecretStore\<close> (\<^verbatim>\<open>repository/secret_store.go\<close>),
    \<open>ArtifactService\<close> (\<^verbatim>\<open>artifact/service.go\<close>, proved over the locale \<open>one_time_store\<close> and instantiated
    on the repository).
  \<^item> \<open>ControlStore\<close>, \<open>ControlStoreCorrect\<close> (\<^verbatim>\<open>repository/control_store.go\<close>,
    \<^verbatim>\<open>interface_removal_store.go\<close>, \<^verbatim>\<open>runtime_fingerprint_store.go\<close>): the life of an interface.
  \<^item> \<open>PeerStore\<close>, \<open>PeerStoreFacts\<close>, \<open>PeerStoreCorrect\<close>, \<open>PeerArchives\<close> (\<^verbatim>\<open>repository/peer_*_store.go\<close>):
    the life of a peer. The locales \<open>peer_inserts\<close>, \<open>peer_rows\<close>, \<open>lifecycle_rows\<close> lift a property that
    every statement keeps to the completions; instances \<open>core\<close>, \<open>typed\<close>, \<open>taken\<close>, \<open>archives\<close>.
  \<^item> \<open>Inventory\<close>, \<open>InventoryStore\<close> (\<^verbatim>\<open>inventory/*.go\<close>, \<^verbatim>\<open>repository/repository.go\<close>); the locale
    \<open>refresh_invariant\<close> in \<open>InventoryCorrect\<close> and its instances in \<open>InventoryRefresh\<close>.
  \<^item> \<open>AdoptionStore\<close> (\<^verbatim>\<open>repository/adoption_store.go\<close>): an observed interface is taken over in one
    transaction that keeps a ledger; \<open>AdoptionCorrect\<close> describes every database the import and the
    attachment of secrets can reach, \<open>AdoptionRollback\<close> shows that the rollback undoes them.
  \<^item> \<open>ConfigFiles\<close> (\<^verbatim>\<open>adapters/filesystem\<close>): a configuration file is replaced by an exchange of
    directory entries, checked after the fact; other processes may change the directory before every
    system call and every call may fail. \<open>ConfigFilesCorrect\<close>: nothing saved before the exchange is lost.
  \<^item> \<open>Password\<close>, \<open>WebDb\<close>, \<open>WebAuth\<close> (\<^verbatim>\<open>web/auth/*.go\<close>, \<^verbatim>\<open>web/repository/auth.go\<close>,
    \<^verbatim>\<open>migrations/web\<close>); the locale \<open>web_invariant\<close> in \<open>WebAuthCorrect\<close> lifts a property of the tables
    to any run of the manager, its instances give the properties of \<open>WebSessions\<close>.

  \<^bold>\<open>Conventions.\<close> A method that changes state takes the state and returns it with its result; a
  result is \<open>error + 'a\<close>, one constructor per sentinel error. A transaction that fails leaves the
  database as it was (\<open>commit_tx\<close>). Identifiers, random bytes and clock readings are arguments.
  Strings are lists of bytes (a HOL \<open>char\<close> is a byte). Machine integers that are only stored and
  compared are \<open>int\<close>; where the width decides (addresses, counters, key versions) they are words.

  \<^bold>\<open>Bounds and fuel.\<close> The allocator's scan stops after \<open>max_allocation_scan\<close> candidates in the code
  as well: the bound is the fuel, and \<open>allocation_scan_terminates\<close> shows that the unbounded loop
  ends and that the bound does not change its result. All other loops are structural recursion on a
  list, or recursion with a decreasing length (\<open>trim\<close>, base64, UTF-8); none needs fuel.

  \<^bold>\<open>Parameters.\<close> The ciphers and hashes of \<^verbatim>\<open>golang.org/x/crypto\<close> (Argon2id, XChaCha20-Poly1305,
  HKDF), SHA-256, Go's Unicode tables, the host adapters of an operation's steps. What is assumed of
  them is a named hypothesis of the theorem that uses it, with a witness on a concrete instance.

  \<^bold>\<open>Not modelled.\<close> Generated protobuf code, the gRPC and HTTP layers, netlink and ioctl calls,
  migrations, process start-up: they are input and output around the modelled parts. Calls on one
  database are atomic, as SQLite's single writer makes them. Overwriting byte slices with zeros and
  the deep copies that guard Go's aliasing have no counterpart in a value.
\<close>

end
